(* ===== verification/CAO_Prelude.thy ===== *)
theory CAO_Prelude
  imports Main "HOL-Library.Word" "HOL-Library.AList"
begin

text \<open>
  The prelude of the development: the values and effects every component of the operator
  uses.  Go errors are values of \<open>go_error\<close>; a fallible pure function returns
  \<open>go_error + 'a\<close>; a function that talks to the API server or records an event is an
  action \<open>'w \<Rightarrow> (go_error + 'a) \<times> 'w\<close> over an arbitrary world \<open>'w\<close>.  The
  combinators below are the shapes of control flow of the Go source: sequencing with an
  early return on error (\<open>act_bind\<close>), running a handler before returning the error
  (\<open>on_error\<close>), and looking at the error (\<open>act_try\<close>).  Weakest preconditions
  over both outcomes (\<open>wp\<close>) carry the proofs about the reconcilers.
\<close>

section \<open>Automation collections\<close>

named_theorems act_simps \<open>evaluation of the action combinators\<close>
named_theorems wp_simps \<open>weakest preconditions of the action combinators\<close>

section \<open>Go integers\<close>

type_synonym int32 = "32 word"

text \<open>Go's \<open>int\<close> and \<open>int64\<close> are HOL integers in the 64-bit range; \<open>wrap64\<close> is the
  two's complement wrap-around of an arithmetic result that may leave it.\<close>

definition is_int64 :: "int \<Rightarrow> bool" where
  "is_int64 n \<longleftrightarrow> - (2 ^ 63) \<le> n \<and> n < 2 ^ 63"

definition wrap64 :: "int \<Rightarrow> int" where
  "wrap64 n = (n + 2 ^ 63) mod 2 ^ 64 - 2 ^ 63"

lemma wrap64_id: "is_int64 n \<Longrightarrow> wrap64 n = n"
  by (simp add: is_int64_def wrap64_def)

lemma is_int64_wrap64: "is_int64 (wrap64 n)"
proof -
  have "0 \<le> (n + 2 ^ 63) mod 2 ^ 64" "(n + 2 ^ 63) mod 2 ^ 64 < 2 ^ 64"
    by simp_all
  then show ?thesis by (simp add: is_int64_def wrap64_def)
qed

lemma is_int64_sint32: "is_int64 (sint (x :: int32))"
  using sint_range_size [of x] by (simp add: is_int64_def size_word_def)

section \<open>Errors\<close>

text \<open>The reasons of \<open>apierrors.StatusError\<close> the source or its clients distinguish.\<close>

datatype api_reason = NotFound | AlreadyExists | Conflict | Invalid | BadRequest | OtherReason string

text \<open>
  \<open>StatusError\<close> is an error of the API machinery; \<open>GoError\<close> is \<open>errors.New\<close> or
  \<open>fmt.Errorf\<close> without \<open>%w\<close>, kept as its format and arguments; \<open>GoWrap\<close> is
  \<open>fmt.Errorf\<close> with one \<open>%w\<close>; \<open>GoJoin\<close> is \<open>errors.Join\<close>; \<open>GoAggregate\<close>
  is \<open>utilerrors.Aggregate\<close>; \<open>GoPanic\<close> is a panic that unwinds the call.
\<close>

datatype go_error =
    StatusError api_reason string
  | GoError string "go_arg list"
  | GoWrap string go_error
  | GoJoin "go_error list"
  | GoAggregate "go_error list"
  | GoPanic string
and go_arg = ArgS string | ArgI int | ArgE go_error

definition errorf :: "string \<Rightarrow> go_error" where
  "errorf s = GoError s []"

fun is_panic :: "go_error \<Rightarrow> bool" where
  "is_panic (GoPanic _) = True"
| "is_panic _ = False"

lemma is_panic_iff: "is_panic e \<longleftrightarrow> (\<exists>s. e = GoPanic s)"
  by (cases e) auto

text \<open>
  \<open>errors.As(err, &status)\<close>: the first \<open>APIStatus\<close> in the tree that \<open>Unwrap\<close>
  spans.  Aggregates have no \<open>Unwrap\<close>.
\<close>

primrec as_status :: "go_error \<Rightarrow> api_reason option"
  and as_status_list :: "go_error list \<Rightarrow> api_reason option"
  and as_status_arg :: "go_arg \<Rightarrow> api_reason option"
  and as_status_args :: "go_arg list \<Rightarrow> api_reason option" where
  "as_status (StatusError r _) = Some r"
| "as_status (GoError _ _) = None"
| "as_status (GoWrap _ e) = as_status e"
| "as_status (GoJoin es) = as_status_list es"
| "as_status (GoAggregate _) = None"
| "as_status (GoPanic _) = None"
| "as_status_list [] = None"
| "as_status_list (e # es) = (case as_status e of Some r \<Rightarrow> Some r | None \<Rightarrow> as_status_list es)"
| "as_status_arg (ArgS _) = None"
| "as_status_arg (ArgI _) = None"
| "as_status_arg (ArgE _) = None"
| "as_status_args [] = None"
| "as_status_args (a # as) = None"

text \<open>\<open>apierrors.IsNotFound\<close>: every error with reason \<open>NotFound\<close>, wrapped or not.\<close>

definition IsNotFound :: "go_error \<Rightarrow> bool" where
  "IsNotFound e \<longleftrightarrow> as_status e = Some NotFound"

lemma IsNotFound_simps [simp]:
  "IsNotFound (StatusError r s) \<longleftrightarrow> r = NotFound"
  "\<not> IsNotFound (GoError f as)"
  "IsNotFound (GoWrap f e) \<longleftrightarrow> IsNotFound e"
  "\<not> IsNotFound (GoAggregate es)"
  "\<not> IsNotFound (GoPanic s)"
  by (simp_all add: IsNotFound_def)

lemma IsNotFound_not_panic: "IsNotFound e \<Longrightarrow> \<not> is_panic e"
  by (cases e) auto

section \<open>Fallible results\<close>

definition res_bind :: "go_error + 'a \<Rightarrow> ('a \<Rightarrow> go_error + 'b) \<Rightarrow> go_error + 'b" where
  "res_bind m f = (case m of Inl e \<Rightarrow> Inl e | Inr a \<Rightarrow> f a)"

lemma res_bind_simps [simp]:
  "res_bind (Inl e) f = Inl e"
  "res_bind (Inr a) f = f a"
  by (simp_all add: res_bind_def)

lemma res_bind_Inr_iff: "res_bind m f = Inr b \<longleftrightarrow> (\<exists>a. m = Inr a \<and> f a = Inr b)"
  by (cases m) auto

lemma res_bind_Inl_iff: "res_bind m f = Inl e \<longleftrightarrow> m = Inl e \<or> (\<exists>a. m = Inr a \<and> f a = Inl e)"
  by (cases m) auto

section \<open>Actions on the world\<close>

type_synonym ('w, 'a) act = "'w \<Rightarrow> (go_error + 'a) \<times> 'w"

definition act_return :: "'a \<Rightarrow> ('w, 'a) act" where
  "act_return a w = (Inr a, w)"

definition act_raise :: "go_error \<Rightarrow> ('w, 'a) act" where
  "act_raise e w = (Inl e, w)"

definition act_lift :: "go_error + 'a \<Rightarrow> ('w, 'a) act" where
  "act_lift r w = (r, w)"

definition act_bind :: "('w, 'a) act \<Rightarrow> ('a \<Rightarrow> ('w, 'b) act) \<Rightarrow> ('w, 'b) act" where
  "act_bind m f w = (case m w of (Inl e, w') \<Rightarrow> (Inl e, w') | (Inr a, w') \<Rightarrow> f a w')"

text \<open>A call whose only effect is on the world, such as recording an event.\<close>

definition act_do :: "('w \<Rightarrow> 'w) \<Rightarrow> ('w, unit) act" where
  "act_do f w = (Inr (), f w)"

text \<open>\<open>if err != nil { h(err); return err }\<close>; a panic skips the handler.\<close>

definition on_error :: "('w, 'a) act \<Rightarrow> (go_error \<Rightarrow> 'w \<Rightarrow> 'w) \<Rightarrow> ('w, 'a) act" where
  "on_error m h w =
     (case m w of
        (Inl e, w') \<Rightarrow> (Inl e, if is_panic e then w' else h e w')
      | (Inr a, w') \<Rightarrow> (Inr a, w'))"

text \<open>The result and the error of a call as a value; a panic is not a value.\<close>

definition act_try :: "('w, 'a) act \<Rightarrow> ('w, go_error + 'a) act" where
  "act_try m w =
     (case m w of
        (Inl e, w') \<Rightarrow> (if is_panic e then Inl e else Inr (Inl e), w')
      | (Inr a, w') \<Rightarrow> (Inr (Inr a), w'))"

lemma act_apply [act_simps]:
  "act_return a w = (Inr a, w)"
  "act_raise e w = (Inl e, w)"
  "act_lift r w = (r, w)"
  "act_do f w = (Inr (), f w)"
  by (simp_all add: act_return_def act_raise_def act_lift_def act_do_def)

lemma act_bind_apply [act_simps]:
  "m w = (Inl e, w') \<Longrightarrow> act_bind m f w = (Inl e, w')"
  "m w = (Inr a, w') \<Longrightarrow> act_bind m f w = f a w'"
  by (simp_all add: act_bind_def)

lemma act_bind_unit [simp]:
  "act_bind (act_return a) f = f a"
  "act_bind (act_raise e) f = act_raise e"
  by (simp_all add: act_bind_def act_return_def act_raise_def fun_eq_iff)

lemma act_bind_Inr_iff:
  "act_bind m f w = (Inr b, w'') \<longleftrightarrow> (\<exists>a w'. m w = (Inr a, w') \<and> f a w' = (Inr b, w''))"
  by (auto simp: act_bind_def split: prod.splits sum.splits)

lemma on_error_Inr_iff: "on_error m h w = (Inr a, w') \<longleftrightarrow> m w = (Inr a, w')"
  by (auto simp: on_error_def split: prod.splits sum.splits)

text \<open>\<open>err != nil && !apierrors.IsNotFound(err)\<close> returns the error; else the result is nil
  when there was an error.\<close>

definition ignore_not_found :: "('w, 'a) act \<Rightarrow> ('w, 'a option) act" where
  "ignore_not_found m w =
     (case m w of
        (Inl e, w') \<Rightarrow> if IsNotFound e then (Inr None, w') else (Inl e, w')
      | (Inr a, w') \<Rightarrow> (Inr (Some a), w'))"

section \<open>Weakest preconditions\<close>

text \<open>\<open>wp m Q E w\<close>: from \<open>w\<close>, a run of \<open>m\<close> that returns a value ends in \<open>Q\<close> and a run
  that returns an error ends in \<open>E\<close>.\<close>

definition wp :: "('w, 'a) act \<Rightarrow> ('a \<Rightarrow> 'w \<Rightarrow> bool) \<Rightarrow> (go_error \<Rightarrow> 'w \<Rightarrow> bool) \<Rightarrow> 'w \<Rightarrow> bool" where
  "wp m Q E w \<longleftrightarrow> (case m w of (Inl e, w') \<Rightarrow> E e w' | (Inr a, w') \<Rightarrow> Q a w')"

lemma wpI:
  "(\<And>a w'. m w = (Inr a, w') \<Longrightarrow> Q a w') \<Longrightarrow> (\<And>e w'. m w = (Inl e, w') \<Longrightarrow> E e w') \<Longrightarrow> wp m Q E w"
  by (simp add: wp_def split: prod.split sum.split)

lemma wpD:
  "wp m Q E w \<Longrightarrow> m w = (Inr a, w') \<Longrightarrow> Q a w'"
  "wp m Q E w \<Longrightarrow> m w = (Inl e, w') \<Longrightarrow> E e w'"
  by (simp_all add: wp_def)

lemma wp_result: "wp m Q E w \<Longrightarrow> m w = (r, w') \<Longrightarrow> (case r of Inl e \<Rightarrow> E e w' | Inr a \<Rightarrow> Q a w')"
  by (cases r) (simp_all add: wp_def)

lemma wp_mono:
  "wp m Q' E' w \<Longrightarrow> (\<And>a w'. Q' a w' \<Longrightarrow> Q a w') \<Longrightarrow> (\<And>e w'. E' e w' \<Longrightarrow> E e w') \<Longrightarrow> wp m Q E w"
  by (auto simp: wp_def split: prod.splits sum.splits)

text \<open>The rules are equations of predicates on the world, so that they apply under a bind.\<close>

lemma wp_base [wp_simps]:
  "wp (act_return a) Q E = Q a"
  "wp (act_raise e) Q E = E e"
  "wp (act_do f) Q' E = (\<lambda>w. Q' () (f w))"
  "wp (act_lift r) Q E = (case r of Inl e \<Rightarrow> E e | Inr a \<Rightarrow> Q a)"
  by (simp_all add: wp_def act_apply fun_eq_iff split: sum.split)

lemma wp_bind [wp_simps]: "wp (act_bind m f) Q E = wp m (\<lambda>a. wp (f a) Q E) E"
  by (simp add: wp_def act_bind_def fun_eq_iff split: prod.split sum.split)

lemma wp_on_error [wp_simps]:
  "wp (on_error m h) Q E = wp m Q (\<lambda>e w. E e (if is_panic e then w else h e w))"
  by (simp add: wp_def on_error_def fun_eq_iff split: prod.split sum.split)

lemma wp_try [wp_simps]:
  "wp (act_try m) Q E =
   wp m (\<lambda>a. Q (Inr a)) (\<lambda>e w. if is_panic e then E e w else Q (Inl e) w)"
  by (simp add: wp_def act_try_def fun_eq_iff split: prod.split sum.split)

lemma wp_ignore_not_found [wp_simps]:
  "wp (ignore_not_found m) Q E =
   wp m (\<lambda>a. Q (Some a)) (\<lambda>e w. if IsNotFound e then Q None w else E e w)"
  by (auto simp: wp_def ignore_not_found_def fun_eq_iff split: prod.split sum.split)

lemma wp_if [wp_simps]: "wp (if b then m else n) Q E = (if b then wp m Q E else wp n Q E)"
  by simp

lemma wp_case_option [wp_simps]:
  "wp (case x of None \<Rightarrow> m | Some a \<Rightarrow> n a) Q E =
   (case x of None \<Rightarrow> wp m Q E | Some a \<Rightarrow> wp (n a) Q E)"
  by (cases x) simp_all

lemma wp_case_sum [wp_simps]:
  "wp (case x of Inl e \<Rightarrow> m e | Inr a \<Rightarrow> n a) Q E =
   (case x of Inl e \<Rightarrow> wp (m e) Q E | Inr a \<Rightarrow> wp (n a) Q E)"
  by (cases x) simp_all

lemma wp_case_prod [wp_simps]:
  "wp (case x of (a, b) \<Rightarrow> m a b) Q E = (case x of (a, b) \<Rightarrow> wp (m a b) Q E)"
  by (cases x) simp

section \<open>Go maps\<close>

text \<open>
  A Go map of strings is \<open>None\<close> when nil, else an association list with distinct keys.
  Reading a nil map finds nothing, deleting from it does nothing, writing to it panics.
\<close>

type_synonym strmap = "(string \<times> string) list option"

definition map_get :: "strmap \<Rightarrow> string \<Rightarrow> string option" where
  "map_get m k = (case m of None \<Rightarrow> None | Some al \<Rightarrow> map_of al k)"

definition map_put :: "strmap \<Rightarrow> string \<Rightarrow> string \<Rightarrow> go_error + strmap" where
  "map_put m k v =
     (case m of None \<Rightarrow> Inl (GoPanic ''assignment to entry in nil map'')
      | Some al \<Rightarrow> Inr (Some (AList.update k v al)))"

definition map_delete :: "strmap \<Rightarrow> string \<Rightarrow> strmap" where
  "map_delete m k = map_option (AList.delete k) m"

text \<open>The test \<open>if m == nil { m = make(map[string]string) }\<close>.\<close>

definition map_make :: "strmap \<Rightarrow> strmap" where
  "map_make m = (case m of None \<Rightarrow> Some [] | Some al \<Rightarrow> Some al)"

text \<open>A write to a map known not to be nil, as the source makes after \<open>make\<close>.\<close>

definition map_set :: "strmap \<Rightarrow> string \<Rightarrow> string \<Rightarrow> strmap" where
  "map_set m k v = map_option (AList.update k v) m"

text \<open>\<open>equality.Semantic.DeepEqual\<close> on maps: nil and empty agree, order does not count.\<close>

definition map_eq :: "strmap \<Rightarrow> strmap \<Rightarrow> bool" where
  "map_eq m n \<longleftrightarrow>
     (\<forall>k \<in> fst ` set (case m of None \<Rightarrow> [] | Some al \<Rightarrow> al) \<union>
          fst ` set (case n of None \<Rightarrow> [] | Some al \<Rightarrow> al). map_get m k = map_get n k)"

lemma map_get_simps [simp]:
  "map_get None k = None"
  "map_get (Some al) k = map_of al k"
  by (simp_all add: map_get_def)

lemma map_put_simps [simp]:
  "map_put (Some al) k v = Inr (Some (AList.update k v al))"
  "map_put None k v = Inl (GoPanic ''assignment to entry in nil map'')"
  by (simp_all add: map_put_def)

lemma map_get_delete [simp]: "map_get (map_delete m k) l = (if l = k then None else map_get m l)"
  by (cases m) (simp_all add: map_delete_def delete_conv')

lemma map_get_make [simp]: "map_get (map_make m) k = map_get m k"
  by (cases m) (simp_all add: map_make_def)

lemma map_make_not_None [simp]: "map_make m \<noteq> None"
  by (cases m) (simp_all add: map_make_def)

lemma map_set_eq_None [simp]: "map_set m k v = None \<longleftrightarrow> m = None"
  by (simp add: map_set_def)

lemma map_delete_eq_None [simp]: "map_delete m k = None \<longleftrightarrow> m = None"
  by (simp add: map_delete_def)

lemma map_put_map_set: "m \<noteq> None \<Longrightarrow> map_put m k v = Inr (map_set m k v)"
  by (cases m) (simp_all add: map_set_def)

lemma map_get_set [simp]:
  "m \<noteq> None \<Longrightarrow> map_get (map_set m k v) l = (if l = k then Some v else map_get m l)"
  by (cases m) (simp_all add: map_set_def update_conv')

lemma map_eq_iff: "map_eq m n \<longleftrightarrow> map_get m = map_get n"
proof
  assume eq: "map_eq m n"
  have out: "map_get p k = None"
    if "k \<notin> fst ` set (case p of None \<Rightarrow> [] | Some al \<Rightarrow> al)" for p k
    using that by (cases p) (simp_all add: map_of_eq_None_iff)
  show "map_get m = map_get n"
  proof
    fix k
    show "map_get m k = map_get n k"
      using eq out [of k m] out [of k n] unfolding map_eq_def by (metis UnI1 UnI2)
  qed
qed (simp add: map_eq_def)

end
