(* ===== verification/Go_Strings.thy ===== *)
theory Go_Strings
  imports CAO_Prelude
begin

text \<open>
  What the source uses of the Go packages \<open>strings\<close> and \<open>strconv\<close>: splitting and
  joining, prefixes, and the conversions between strings and integers or booleans, with
  their error cases.  A Go string is a list of bytes.  The round trips proved here
  (\<open>join_split\<close>, \<open>split_join\<close>, \<open>Atoi_Itoa\<close>) carry the round trips of the owner
  and size annotations.
\<close>

section \<open>Splitting and joining\<close>

text \<open>\<open>strings.Split(s, sep)\<close> for a separator of one byte.\<close>

fun split_on :: "char \<Rightarrow> string \<Rightarrow> string list" where
  "split_on c [] = [[]]"
| "split_on c (x # xs) =
     (if x = c then [] # split_on c xs
      else (case split_on c xs of [] \<Rightarrow> [[x]] | p # ps \<Rightarrow> (x # p) # ps))"

text \<open>\<open>strings.Join(parts, sep)\<close>.\<close>

fun join_with :: "string \<Rightarrow> string list \<Rightarrow> string" where
  "join_with sep [] = []"
| "join_with sep [p] = p"
| "join_with sep (p # q # ps) = p @ sep @ join_with sep (q # ps)"

text \<open>\<open>strings.SplitN(s, sep, 3)\<close>: at most three parts, the last one unsplit.\<close>

definition cut_on :: "char \<Rightarrow> string \<Rightarrow> (string \<times> string) option" where
  "cut_on c s =
     (if c \<in> set s then Some (takeWhile (\<lambda>x. x \<noteq> c) s, tl (dropWhile (\<lambda>x. x \<noteq> c) s)) else None)"

fun split_n :: "nat \<Rightarrow> char \<Rightarrow> string \<Rightarrow> string list" where
  "split_n 0 c s = []"
| "split_n (Suc 0) c s = [s]"
| "split_n (Suc (Suc n)) c s =
     (case cut_on c s of None \<Rightarrow> [s] | Some (p, rest) \<Rightarrow> p # split_n (Suc n) c rest)"

text \<open>\<open>strings.TrimPrefix(s, prefix)\<close> for a prefix of one byte.\<close>

fun trim_prefix :: "char \<Rightarrow> string \<Rightarrow> string" where
  "trim_prefix c [] = []"
| "trim_prefix c (x # xs) = (if x = c then xs else x # xs)"

lemma split_on_not_Nil [simp]: "split_on c s \<noteq> []"
  by (cases s) (auto split: list.splits)

lemma split_on_no_sep: "c \<notin> set s \<Longrightarrow> split_on c s = [s]"
  by (induction s) auto

lemma split_on_append: "c \<notin> set s \<Longrightarrow> split_on c (s @ c # t) = s # split_on c t"
  by (induction s) auto

lemma length_split_on: "length (split_on c s) = Suc (count_list s c)"
  by (induction s) (auto split: list.splits)

lemma join_with_Cons: "ps \<noteq> [] \<Longrightarrow> join_with sep (p # ps) = p @ sep @ join_with sep ps"
  by (cases ps) simp_all

lemma join_with_hd: "join_with sep ((x # p) # ps) = x # join_with sep (p # ps)"
  by (cases ps) simp_all

lemma join_split: "join_with [c] (split_on c s) = s"
proof (induction s)
  case Nil
  then show ?case by simp
next
  case (Cons x xs)
  then show ?case
    by (cases "split_on c xs") (simp_all add: join_with_Cons join_with_hd)
qed

lemma split_join:
  "ps \<noteq> [] \<Longrightarrow> \<forall>p \<in> set ps. c \<notin> set p \<Longrightarrow> split_on c (join_with [c] ps) = ps"
proof (induction ps)
  case Nil
  then show ?case by simp
next
  case (Cons p ps)
  then show ?case
    by (cases ps) (simp_all add: split_on_no_sep split_on_append)
qed

section \<open>Decimal digits\<close>

definition digit_char :: "nat \<Rightarrow> char" where
  "digit_char n = char_of (48 + n)"

definition is_digit :: "char \<Rightarrow> bool" where
  "is_digit c \<longleftrightarrow> 48 \<le> (of_char c :: nat) \<and> (of_char c :: nat) \<le> 57"

definition digit_val :: "char \<Rightarrow> nat" where
  "digit_val c = of_char c - 48"

lemma digit_char_val: "n < 10 \<Longrightarrow> digit_val (digit_char n) = n"
  by (simp add: digit_val_def digit_char_def)

lemma is_digit_digit_char: "n < 10 \<Longrightarrow> is_digit (digit_char n)"
  by (simp add: is_digit_def digit_char_def)

lemma digit_char_of_val: "is_digit c \<Longrightarrow> digit_char (digit_val c) = c"
  by (simp add: is_digit_def digit_char_def digit_val_def)

lemma digit_val_bound: "is_digit c \<Longrightarrow> digit_val c < 10"
  by (auto simp: is_digit_def digit_val_def)

text \<open>\<open>strconv.FormatUint\<close>: the decimal digits, most significant first.\<close>

fun format_nat :: "nat \<Rightarrow> string" where
  "format_nat n = (if n < 10 then [digit_char n] else format_nat (n div 10) @ [digit_char (n mod 10)])"

declare format_nat.simps [simp del]

text \<open>The value of a digit string.\<close>

definition digits_val :: "string \<Rightarrow> nat" where
  "digits_val s = foldl (\<lambda>acc c. acc * 10 + digit_val c) 0 s"

lemma digits_val_snoc [simp]: "digits_val (s @ [c]) = digits_val s * 10 + digit_val c"
  by (simp add: digits_val_def)

lemma digits_val_Nil [simp]: "digits_val [] = 0"
  by (simp add: digits_val_def)

lemma format_nat_digits: "list_all is_digit (format_nat n)"
proof (induction n rule: format_nat.induct)
  case (1 n)
  then show ?case
    by (subst format_nat.simps) (simp add: is_digit_digit_char)
qed

lemma format_nat_not_Nil: "format_nat n \<noteq> []"
  by (subst format_nat.simps) simp

lemma digits_val_format_nat: "digits_val (format_nat n) = n"
proof (induction n rule: format_nat.induct)
  case (1 n)
  show ?case
  proof (cases "n < 10")
    case True
    then show ?thesis
      by (subst format_nat.simps) (simp add: digits_val_def digit_char_val)
  next
    case False
    with 1 show ?thesis
      by (subst format_nat.simps) (simp add: digit_char_val)
  qed
qed

lemma format_nat_inj: "format_nat m = format_nat n \<longleftrightarrow> m = n"
  by (metis digits_val_format_nat)

section \<open>strconv\<close>

text \<open>\<open>*strconv.NumError\<close>: the function, the input and the kind of error.\<close>

definition num_error :: "string \<Rightarrow> string \<Rightarrow> string \<Rightarrow> go_error" where
  "num_error fn s kind = GoError ''strconv.%s: parsing %q: %s'' [ArgS fn, ArgS s, ArgS kind]"

text \<open>
  \<open>strconv.ParseUint(s, 10, 64)\<close>.  The loop stops at the first byte that is no digit
  (a syntax error) or at the first digit that takes the value out of range (a range
  error), whichever comes first.
\<close>

fun parse_uint_loop :: "nat \<Rightarrow> string \<Rightarrow> string + nat" where
  "parse_uint_loop acc [] = Inr acc"
| "parse_uint_loop acc (c # cs) =
     (if \<not> is_digit c then Inl ''invalid syntax''
      else if acc * 10 + digit_val c \<ge> 2 ^ 64 then Inl ''value out of range''
      else parse_uint_loop (acc * 10 + digit_val c) cs)"

definition parse_uint :: "string \<Rightarrow> string + nat" where
  "parse_uint s = (if s = [] then Inl ''invalid syntax'' else parse_uint_loop 0 s)"

definition ParseUint :: "string \<Rightarrow> go_error + nat" where
  "ParseUint s =
     (case parse_uint s of Inl k \<Rightarrow> Inl (num_error ''ParseUint'' s k) | Inr n \<Rightarrow> Inr n)"

text \<open>
  \<open>strconv.ParseInt(s, 10, 64)\<close>, which \<open>strconv.Atoi\<close> agrees with up to the name in
  the error, and \<open>strconv.ParseInt(s, 10, 0)\<close> on a 64-bit machine.
\<close>

definition parse_int :: "string \<Rightarrow> string + int" where
  "parse_int s =
     (let neg = (case s of c # _ \<Rightarrow> c = CHR ''-'' | [] \<Rightarrow> False);
          signed = (case s of c # _ \<Rightarrow> c = CHR ''-'' \<or> c = CHR ''+'' | [] \<Rightarrow> False)
      in case parse_uint (if signed then tl s else s) of
           Inl k \<Rightarrow> Inl k
         | Inr un \<Rightarrow>
             if \<not> neg \<and> un \<ge> 2 ^ 63 then Inl ''value out of range''
             else if neg \<and> un > 2 ^ 63 then Inl ''value out of range''
             else Inr (if neg then - int un else int un))"

text \<open>The bounds of 64 bits as integers, for evaluation.\<close>

lemma parse_uint_loop_code [code]:
  "parse_uint_loop acc [] = Inr acc"
  "parse_uint_loop acc (c # cs) =
     (if \<not> is_digit c then Inl ''invalid syntax''
      else (let n = acc * 10 + digit_val c in
        if int n \<ge> 18446744073709551616 then Inl ''value out of range'' else parse_uint_loop n cs))"
proof -
  have "(2::nat) ^ 64 \<le> n \<longleftrightarrow> int n \<ge> 18446744073709551616" for n
  proof -
    have "(18446744073709551616::int) = int (2 ^ 64)" by simp
    then show ?thesis by (simp only: of_nat_le_iff)
  qed
  then show "parse_uint_loop acc (c # cs) =
     (if \<not> is_digit c then Inl ''invalid syntax''
      else (let n = acc * 10 + digit_val c in
        if int n \<ge> 18446744073709551616 then Inl ''value out of range'' else parse_uint_loop n cs))"
    by (simp only: parse_uint_loop.simps Let_def)
qed simp

lemma parse_int_code [code]:
  "parse_int s =
     (let neg = (case s of c # _ \<Rightarrow> c = CHR ''-'' | [] \<Rightarrow> False);
          signed = (case s of c # _ \<Rightarrow> c = CHR ''-'' \<or> c = CHR ''+'' | [] \<Rightarrow> False)
      in case parse_uint (if signed then tl s else s) of
           Inl k \<Rightarrow> Inl k
         | Inr un \<Rightarrow>
             (let n = int un in
              if \<not> neg \<and> n \<ge> 9223372036854775808 then Inl ''value out of range''
              else if neg \<and> n > 9223372036854775808 then Inl ''value out of range''
              else Inr (if neg then - n else n)))"
proof -
  have "(9223372036854775808::int) = int (2 ^ 63)" by simp
  then have "(2::nat) ^ 63 \<le> n \<longleftrightarrow> int n \<ge> 9223372036854775808" "n > (2::nat) ^ 63 \<longleftrightarrow> int n > 9223372036854775808" for n
    by (simp_all only: of_nat_le_iff of_nat_less_iff)
  then show ?thesis unfolding parse_int_def Let_def by (simp only: )
qed

definition ParseInt :: "string \<Rightarrow> go_error + int" where
  "ParseInt s = (case parse_int s of Inl k \<Rightarrow> Inl (num_error ''ParseInt'' s k) | Inr n \<Rightarrow> Inr n)"

definition Atoi :: "string \<Rightarrow> go_error + int" where
  "Atoi s = (case parse_int s of Inl k \<Rightarrow> Inl (num_error ''Atoi'' s k) | Inr n \<Rightarrow> Inr n)"

definition Itoa :: "int \<Rightarrow> string" where
  "Itoa n = (if n < 0 then CHR ''-'' # format_nat (nat (- n)) else format_nat (nat n))"

text \<open>\<open>strconv.ParseBool\<close>.\<close>

definition ParseBool :: "string \<Rightarrow> go_error + bool" where
  "ParseBool s =
     (if s \<in> {''1'', ''t'', ''T'', ''TRUE'', ''true'', ''True''} then Inr True
      else if s \<in> {''0'', ''f'', ''F'', ''FALSE'', ''false'', ''False''} then Inr False
      else Inl (num_error ''ParseBool'' s ''invalid syntax''))"

definition FormatBool :: "bool \<Rightarrow> string" where
  "FormatBool b = (if b then ''true'' else ''false'')"

section \<open>Round trips\<close>

lemma foldl_digits_ge:
  "acc \<le> foldl (\<lambda>acc c. acc * 10 + digit_val c) acc cs"
proof (induction cs arbitrary: acc)
  case Nil
  then show ?case by simp
next
  case (Cons c cs)
  have "acc \<le> acc * 10 + digit_val c" by simp
  also have "\<dots> \<le> foldl (\<lambda>acc c. acc * 10 + digit_val c) (acc * 10 + digit_val c) cs"
    by (rule Cons.IH)
  finally show ?case by simp
qed

lemma parse_uint_loop_digits:
  "list_all is_digit cs \<Longrightarrow> foldl (\<lambda>acc c. acc * 10 + digit_val c) acc cs < 2 ^ 64 \<Longrightarrow>
   parse_uint_loop acc cs = Inr (foldl (\<lambda>acc c. acc * 10 + digit_val c) acc cs)"
proof (induction cs arbitrary: acc)
  case Nil
  then show ?case by simp
next
  case (Cons c cs)
  have "acc * 10 + digit_val c \<le> foldl (\<lambda>acc c. acc * 10 + digit_val c) (acc * 10 + digit_val c) cs"
    by (rule foldl_digits_ge)
  with Cons.prems have "acc * 10 + digit_val c < 2 ^ 64" by simp
  with Cons show ?case by simp
qed

lemma parse_uint_format_nat: "n < 2 ^ 64 \<Longrightarrow> parse_uint (format_nat n) = Inr n"
  using parse_uint_loop_digits [of "format_nat n" 0] digits_val_format_nat [of n]
  by (simp add: parse_uint_def format_nat_digits format_nat_not_Nil digits_val_def)

lemma format_nat_no_sign:
  "format_nat n = c # cs \<Longrightarrow> c \<noteq> CHR ''-'' \<and> c \<noteq> CHR ''+''"
  using format_nat_digits [of n] by (auto simp: is_digit_def)

lemma parse_int_Itoa:
  assumes "is_int64 n"
  shows "parse_int (Itoa n) = Inr n"
proof (cases "n < 0")
  case True
  with assms have "nat (- n) \<le> 2 ^ 63" by (simp add: is_int64_def)
  with True show ?thesis
    by (simp add: parse_int_def Itoa_def parse_uint_format_nat)
next
  case False
  with assms have "nat n < 2 ^ 63" by (simp add: is_int64_def)
  moreover obtain c cs where "format_nat (nat n) = c # cs"
    using format_nat_not_Nil by (cases "format_nat (nat n)") auto
  ultimately show ?thesis
    using False format_nat_no_sign [of "nat n" c cs] parse_uint_format_nat [of "nat n"]
    by (simp add: parse_int_def Itoa_def)
qed

lemma Atoi_Itoa: "is_int64 n \<Longrightarrow> Atoi (Itoa n) = Inr n"
  by (simp add: Atoi_def parse_int_Itoa)

lemma parse_int_range: "parse_int s = Inr n \<Longrightarrow> is_int64 n"
  by (auto simp: parse_int_def is_int64_def Let_def split: sum.splits if_splits)

lemma Atoi_range: "Atoi s = Inr n \<Longrightarrow> is_int64 n"
  by (auto simp: Atoi_def split: sum.splits dest: parse_int_range)

lemma ParseInt_range: "ParseInt s = Inr n \<Longrightarrow> is_int64 n"
  by (auto simp: ParseInt_def split: sum.splits dest: parse_int_range)

lemma ParseBool_FormatBool: "ParseBool (FormatBool b) = Inr b"
  by (simp add: ParseBool_def FormatBool_def)

lemma Itoa_inj: "Itoa m = Itoa n \<longleftrightarrow> m = n"
proof
  assume eq: "Itoa m = Itoa n"
  have neg: "format_nat i = CHR ''-'' # format_nat j \<longleftrightarrow> False" for i j
    using format_nat_no_sign [of i] by auto
  have neg': "CHR ''-'' # format_nat j = format_nat i \<longleftrightarrow> False" for i j
    using neg by metis
  from eq show "m = n"
    by (auto simp: Itoa_def format_nat_inj neg neg' split: if_splits)
qed simp

end
