(* ===== verification/Kube_Meta.thy ===== *)
theory Kube_Meta
  imports Go_Strings
begin

text \<open>
  The parts of the Kubernetes API machinery the operator manipulates objects with
  (\<open>k8s.io/apimachinery\<close>): namespaced names, group-version-kinds, object references,
  and unstructured objects as JSON trees with the nested-field accessors of
  \<open>unstructured/helpers.go\<close>.  The locale \<open>annotated_object\<close> is the part of the
  interface \<open>metav1.Object\<close> that annotation editing relies on; unstructured objects
  provide it.
\<close>

section \<open>Names and kinds\<close>

record NamespacedName =
  nn_namespace :: string
  nn_name :: string

definition NamespacedName_String :: "NamespacedName \<Rightarrow> string" where
  "NamespacedName_String n = nn_namespace n @ [CHR ''/''] @ nn_name n"

record GroupVersion =
  gv_group :: string
  gv_version :: string

record GroupVersionKind =
  gvk_group :: string
  gvk_version :: string
  gvk_kind :: string

text \<open>\<open>corev1.ObjectReference\<close>, the fields the operator sets.\<close>

record ObjectReference =
  or_apiVersion :: string
  or_kind :: string
  or_name :: string

definition GroupVersion_String :: "GroupVersion \<Rightarrow> string" where
  "GroupVersion_String gv =
     (if gv_group gv \<noteq> '''' then gv_group gv @ [CHR ''/''] @ gv_version gv else gv_version gv)"

definition ParseGroupVersion :: "string \<Rightarrow> go_error + GroupVersion" where
  "ParseGroupVersion gv =
     (if gv = '''' \<or> gv = ''/'' then Inr \<lparr>gv_group = '''', gv_version = ''''\<rparr>
      else if count_list gv (CHR ''/'') = 0 then Inr \<lparr>gv_group = '''', gv_version = gv\<rparr>
      else if count_list gv (CHR ''/'') = 1 then
        (case cut_on (CHR ''/'') gv of
           Some (g, v) \<Rightarrow> Inr \<lparr>gv_group = g, gv_version = v\<rparr>
         | None \<Rightarrow> Inl (GoError ''unexpected GroupVersion string: %v'' [ArgS gv]))
      else Inl (GoError ''unexpected GroupVersion string: %v'' [ArgS gv]))"

definition FromAPIVersionAndKind :: "string \<Rightarrow> string \<Rightarrow> GroupVersionKind" where
  "FromAPIVersionAndKind apiVersion kind =
     (case ParseGroupVersion apiVersion of
        Inr gv \<Rightarrow> \<lparr>gvk_group = gv_group gv, gvk_version = gv_version gv, gvk_kind = kind\<rparr>
      | Inl _ \<Rightarrow> \<lparr>gvk_group = '''', gvk_version = '''', gvk_kind = kind\<rparr>)"

definition GVK_Empty :: "GroupVersionKind \<Rightarrow> bool" where
  "GVK_Empty gvk \<longleftrightarrow> gvk_group gvk = '''' \<and> gvk_version gvk = '''' \<and> gvk_kind gvk = ''''"

definition GVK_GroupVersion :: "GroupVersionKind \<Rightarrow> GroupVersion" where
  "GVK_GroupVersion gvk = \<lparr>gv_group = gvk_group gvk, gv_version = gvk_version gvk\<rparr>"

definition ToAPIVersionAndKind :: "GroupVersionKind \<Rightarrow> string \<times> string" where
  "ToAPIVersionAndKind gvk =
     (if GVK_Empty gvk then ('''', '''')
      else (GroupVersion_String (GVK_GroupVersion gvk), gvk_kind gvk))"

definition OR_SetGroupVersionKind :: "GroupVersionKind \<Rightarrow> ObjectReference \<Rightarrow> ObjectReference" where
  "OR_SetGroupVersionKind gvk obj =
     (let (av, k) = ToAPIVersionAndKind gvk in obj\<lparr>or_apiVersion := av, or_kind := k\<rparr>)"

definition OR_GroupVersionKind :: "ObjectReference \<Rightarrow> GroupVersionKind" where
  "OR_GroupVersionKind obj = FromAPIVersionAndKind (or_apiVersion obj) (or_kind obj)"

lemma cut_on_no_sep: "c \<notin> set g \<Longrightarrow> cut_on c (g @ c # v) = Some (g, v)"
  by (simp add: cut_on_def takeWhile_append dropWhile_append)

text \<open>A well-formed group and version parse back from their printed form.\<close>

lemma ParseGroupVersion_String:
  assumes "CHR ''/'' \<notin> set (gv_group gv)" "CHR ''/'' \<notin> set (gv_version gv)"
    and "gv_group gv = '''' \<longrightarrow> gv_version gv \<noteq> ''''"
  shows "ParseGroupVersion (GroupVersion_String gv) = Inr gv"
proof (cases "gv_group gv = ''''")
  case True
  with assms show ?thesis
    by (auto simp: ParseGroupVersion_def GroupVersion_String_def count_list_0_iff)
next
  case False
  from assms have "count_list (gv_group gv @ CHR ''/'' # gv_version gv) (CHR ''/'') = 1"
    by simp
  with False assms cut_on_no_sep [of "CHR ''/''" "gv_group gv" "gv_version gv"] show ?thesis
    by (cases "gv_group gv") (simp_all add: ParseGroupVersion_def GroupVersion_String_def)
qed

lemma cut_on_Some: "cut_on c s = Some (g, v) \<Longrightarrow> s = g @ c # v"
proof -
  assume "cut_on c s = Some (g, v)"
  then have "c \<in> set s" "g = takeWhile (\<lambda>d. d \<noteq> c) s" "v = tl (dropWhile (\<lambda>d. d \<noteq> c) s)"
    by (auto simp: cut_on_def split: if_splits)
  moreover from this have "dropWhile (\<lambda>d. d \<noteq> c) s \<noteq> []" by auto
  moreover from this have "hd (dropWhile (\<lambda>d. d \<noteq> c) s) = c" using hd_dropWhile by blast
  ultimately show "s = g @ c # v" by (metis list.collapse takeWhile_dropWhile_id)
qed

text \<open>A group and version that parsed print back, unless the group is empty.\<close>

lemma ParseGroupVersion_Inr:
  assumes "ParseGroupVersion s = Inr gv"
  shows "CHR ''/'' \<notin> set (gv_version gv)"
    and "gv_group gv \<noteq> '''' \<Longrightarrow> GroupVersion_String gv = s"
proof -
  consider "s = '''' \<or> s = ''/''" "gv = \<lparr>gv_group = '''', gv_version = ''''\<rparr>"
    | "count_list s (CHR ''/'') = 0" "gv = \<lparr>gv_group = '''', gv_version = s\<rparr>"
    | g v where "count_list s (CHR ''/'') = 1" "cut_on (CHR ''/'') s = Some (g, v)"
        "gv = \<lparr>gv_group = g, gv_version = v\<rparr>"
    using assms by (auto simp: ParseGroupVersion_def split: if_splits option.splits)
  then have "CHR ''/'' \<notin> set (gv_version gv) \<and> (gv_group gv \<noteq> '''' \<longrightarrow> GroupVersion_String gv = s)"
  proof cases
    case 3
    then have "s = g @ CHR ''/'' # v" by (intro cut_on_Some)
    with 3 show ?thesis by (simp add: GroupVersion_String_def count_list_0_iff)
  qed (auto simp: count_list_0_iff)
  then show "CHR ''/'' \<notin> set (gv_version gv)" "gv_group gv \<noteq> '''' \<Longrightarrow> GroupVersion_String gv = s"
    by blast+
qed

section \<open>Object metadata\<close>

record OwnerReference =
  owr_apiVersion :: string
  owr_kind :: string
  owr_name :: string
  owr_uid :: string
  owr_controller :: "bool option"
  owr_blockOwnerDeletion :: "bool option"

text \<open>
  \<open>metav1.ObjectMeta\<close>, the fields the operator reads or writes.  A resource version is a
  number, 0 standing for the empty string; a timestamp is its text.
\<close>

record ObjectMeta =
  om_name :: string
  om_namespace :: string
  om_uid :: string
  om_resourceVersion :: nat
  om_generation :: int
  om_labels :: strmap
  om_annotations :: strmap
  om_finalizers :: "string list"
  om_deletionTimestamp :: "string option"
  om_ownerReferences :: "OwnerReference list"

definition empty_meta :: ObjectMeta where
  "empty_meta = \<lparr>om_name = '''', om_namespace = '''', om_uid = '''', om_resourceVersion = 0,
     om_generation = 0, om_labels = None, om_annotations = None, om_finalizers = [],
     om_deletionTimestamp = None, om_ownerReferences = []\<rparr>"

definition meta_key :: "ObjectMeta \<Rightarrow> NamespacedName" where
  "meta_key m = \<lparr>nn_namespace = om_namespace m, nn_name = om_name m\<rparr>"

section \<open>Unstructured objects\<close>

text \<open>The values \<open>encoding/json\<close> decodes into; an object is a map with distinct keys.\<close>

datatype json =
    JNull
  | JStr string
  | JBool bool
  | JNum int
  | JList "json list"
  | JObj "(string \<times> json) list"

type_synonym unstructured = "(string \<times> json) list"

definition accessor_error :: "string list \<Rightarrow> go_error" where
  "accessor_error path = GoError ''%v accessor error'' [ArgS (''.'' @ join_with ''.'' path)]"

text \<open>\<open>NestedFieldNoCopy\<close>: an error, not found, or the value.\<close>

fun nested_field :: "json \<Rightarrow> string list \<Rightarrow> go_error + json option" where
  "nested_field val [] = Inr (Some val)"
| "nested_field JNull (f # fs) = Inr None"
| "nested_field (JObj m) (f # fs) =
     (case map_of m f of None \<Rightarrow> Inr None | Some v \<Rightarrow> nested_field v fs)"
| "nested_field _ (f # fs) = Inl (accessor_error (f # fs))"

definition NestedString :: "unstructured \<Rightarrow> string list \<Rightarrow> go_error + string option" where
  "NestedString obj path =
     (case nested_field (JObj obj) path of
        Inl e \<Rightarrow> Inl e
      | Inr None \<Rightarrow> Inr None
      | Inr (Some (JStr s)) \<Rightarrow> Inr (Some s)
      | Inr (Some _) \<Rightarrow> Inl (accessor_error path))"

definition getNestedString :: "unstructured \<Rightarrow> string list \<Rightarrow> string" where
  "getNestedString obj path =
     (case NestedString obj path of Inr (Some s) \<Rightarrow> s | _ \<Rightarrow> '''')"

fun strings_of :: "(string \<times> json) list \<Rightarrow> (string \<times> string) list option" where
  "strings_of [] = Some []"
| "strings_of ((k, JStr s) # m) = map_option (\<lambda>al. (k, s) # al) (strings_of m)"
| "strings_of ((k, _) # m) = None"

text \<open>\<open>NestedStringMap\<close>: an error, not found, or the map of strings.\<close>

definition NestedStringMap :: "unstructured \<Rightarrow> string list \<Rightarrow> go_error + (string \<times> string) list option" where
  "NestedStringMap obj path =
     (case nested_field (JObj obj) path of
        Inl e \<Rightarrow> Inl e
      | Inr None \<Rightarrow> Inr None
      | Inr (Some (JObj m)) \<Rightarrow>
          (case strings_of m of Some al \<Rightarrow> Inr (Some al) | None \<Rightarrow> Inl (accessor_error path))
      | Inr (Some _) \<Rightarrow> Inl (accessor_error path))"

fun null_coerce :: "(string \<times> json) list \<Rightarrow> (string \<times> string) list option" where
  "null_coerce [] = Some []"
| "null_coerce ((k, JStr s) # m) = map_option (\<lambda>al. (k, s) # al) (null_coerce m)"
| "null_coerce ((k, JNull) # m) = map_option (\<lambda>al. (k, '''') # al) (null_coerce m)"
| "null_coerce ((k, _) # m) = None"

text \<open>\<open>NestedNullCoercingStringMap\<close>, whose error \<open>GetAnnotations\<close> ignores.\<close>

definition nullCoercingStringMap :: "unstructured \<Rightarrow> string list \<Rightarrow> strmap" where
  "nullCoercingStringMap obj path =
     (case nested_field (JObj obj) path of
        Inr (Some (JObj m)) \<Rightarrow> null_coerce m
      | _ \<Rightarrow> None)"

text \<open>\<open>setNestedFieldNoCopy\<close> and \<open>RemoveNestedField\<close>, for a nonempty path.\<close>

fun set_nested :: "unstructured \<Rightarrow> json \<Rightarrow> string list \<Rightarrow> go_error + unstructured" where
  "set_nested m v [] = Inr m"
| "set_nested m v [f] = Inr (AList.update f v m)"
| "set_nested m v (f # g # fs) =
     (case map_of m f of
        None \<Rightarrow> map_sum id (\<lambda>m'. AList.update f (JObj m') m) (set_nested [] v (g # fs))
      | Some (JObj m') \<Rightarrow> map_sum id (\<lambda>m'. AList.update f (JObj m') m) (set_nested m' v (g # fs))
      | Some _ \<Rightarrow> Inl (GoError ''value cannot be set because %v is not a map'' [ArgS f]))"

fun remove_nested :: "unstructured \<Rightarrow> string list \<Rightarrow> unstructured" where
  "remove_nested m [] = m"
| "remove_nested m [f] = AList.delete f m"
| "remove_nested m (f # g # fs) =
     (case map_of m f of
        Some (JObj m') \<Rightarrow> AList.update f (JObj (remove_nested m' (g # fs))) m
      | _ \<Rightarrow> m)"

text \<open>The accessors of \<open>unstructured.go\<close>; the error of a set is dropped there.\<close>

definition GetAnnotations :: "unstructured \<Rightarrow> strmap" where
  "GetAnnotations u = nullCoercingStringMap u [''metadata'', ''annotations'']"

definition SetAnnotations :: "strmap \<Rightarrow> unstructured \<Rightarrow> unstructured" where
  "SetAnnotations a u =
     (case a of
        None \<Rightarrow> remove_nested u [''metadata'', ''annotations'']
      | Some al \<Rightarrow>
          (case set_nested u (JObj (map (\<lambda>(k, v). (k, JStr v)) al)) [''metadata'', ''annotations''] of
             Inr u' \<Rightarrow> u' | Inl _ \<Rightarrow> u))"

definition GetName :: "unstructured \<Rightarrow> string" where
  "GetName u = getNestedString u [''metadata'', ''name'']"

definition GetNamespace :: "unstructured \<Rightarrow> string" where
  "GetNamespace u = getNestedString u [''metadata'', ''namespace'']"

definition GetKind :: "unstructured \<Rightarrow> string" where
  "GetKind u = getNestedString u [''kind'']"

text \<open>Metadata is an object or missing, as in every object the API server returns.\<close>

definition wf_unstructured :: "unstructured \<Rightarrow> bool" where
  "wf_unstructured u =
     (case map_of u ''metadata'' of None \<Rightarrow> True | Some (JObj m) \<Rightarrow> True | Some _ \<Rightarrow> False)"

lemma null_coerce_JStr [simp]: "null_coerce (map (\<lambda>(k, v). (k, JStr v)) al) = Some al"
  by (induction al) auto

lemma wf_unstructuredE:
  assumes "wf_unstructured u"
  obtains "map_of u ''metadata'' = None" | m where "map_of u ''metadata'' = Some (JObj m)"
  using assms by (auto simp: wf_unstructured_def split: option.splits json.splits)

lemma GetAnnotations_SetAnnotations:
  assumes "wf_unstructured u"
  shows "GetAnnotations (SetAnnotations a u) = a"
  using assms
  by (cases rule: wf_unstructuredE; cases a)
     (simp_all add: GetAnnotations_def SetAnnotations_def nullCoercingStringMap_def
       update_conv' delete_conv')

lemma wf_SetAnnotations:
  assumes "wf_unstructured u"
  shows "wf_unstructured (SetAnnotations a u)"
  using assms
  by (cases rule: wf_unstructuredE; cases a)
     (simp_all add: wf_unstructured_def SetAnnotations_def update_conv')

text \<open>Editing the annotations leaves everything outside the metadata alone.\<close>

lemma map_of_SetAnnotations [simp]:
  assumes "f \<noteq> ''metadata''"
  shows "map_of (SetAnnotations a u) f = map_of u f"
proof (cases "map_of u ''metadata''")
  case None
  with assms show ?thesis by (cases a) (simp_all add: SetAnnotations_def update_conv')
next
  case (Some v)
  with assms show ?thesis
    by (cases a; cases v) (simp_all add: SetAnnotations_def update_conv')
qed

lemma NestedStringMap_SetAnnotations [simp]:
  "f \<noteq> ''metadata'' \<Longrightarrow> NestedStringMap (SetAnnotations a u) (f # fs) = NestedStringMap u (f # fs)"
  by (simp add: NestedStringMap_def)

lemma GetKind_SetAnnotations [simp]: "GetKind (SetAnnotations a u) = GetKind u"
  by (simp add: GetKind_def getNestedString_def NestedString_def)

lemma GetName_SetAnnotations [simp]:
  "wf_unstructured u \<Longrightarrow> GetName (SetAnnotations a u) = GetName u"
  by (erule wf_unstructuredE; cases a)
     (simp_all add: GetName_def getNestedString_def NestedString_def SetAnnotations_def
       update_conv' delete_conv')

lemma GetNamespace_SetAnnotations [simp]:
  "wf_unstructured u \<Longrightarrow> GetNamespace (SetAnnotations a u) = GetNamespace u"
  by (erule wf_unstructuredE; cases a)
     (simp_all add: GetNamespace_def getNestedString_def NestedString_def SetAnnotations_def
       update_conv' delete_conv')

section \<open>The annotation interface\<close>

text \<open>
  \<open>GetAnnotations\<close> and \<open>SetAnnotations\<close> of \<open>metav1.Object\<close>, with what the
  operator relies on: a read returns the last write, and a write keeps the object in the
  shape that makes this true.
\<close>

locale annotated_object =
  fixes get_annotations :: "'o \<Rightarrow> strmap"
    and set_annotations :: "strmap \<Rightarrow> 'o \<Rightarrow> 'o"
    and wf :: "'o \<Rightarrow> bool"
  assumes get_set: "wf obj \<Longrightarrow> get_annotations (set_annotations a obj) = a"
    and wf_set: "wf obj \<Longrightarrow> wf (set_annotations a obj)"
begin

text \<open>Storing the map with one key set, as every annotation write of the operator does.\<close>

lemma get_put:
  "wf obj \<Longrightarrow>
   map_get (get_annotations (set_annotations (map_set (map_make (get_annotations obj)) k v) obj)) l =
     (if l = k then Some v else map_get (get_annotations obj) l)"
  by (simp add: get_set)

lemma get_remove:
  "wf obj \<Longrightarrow>
   map_get (get_annotations (set_annotations (map_delete (get_annotations obj) k) obj)) l =
     (if l = k then None else map_get (get_annotations obj) l)"
  by (simp add: get_set)

text \<open>The second of two writes of the same map reads back the same.\<close>

lemma set_twice:
  "wf obj \<Longrightarrow> get_annotations (set_annotations b (set_annotations a obj)) = b"
  by (simp add: get_set wf_set)

end

interpretation uns: annotated_object GetAnnotations SetAnnotations wf_unstructured
  by unfold_locales (simp_all add: GetAnnotations_SetAnnotations wf_SetAnnotations)

interpretation meta: annotated_object om_annotations "\<lambda>a. om_annotations_update (\<lambda>_. a)" "\<lambda>_. True"
  by unfold_locales simp_all

section \<open>Metadata of unstructured objects\<close>

text \<open>The accessors of \<open>unstructured.go\<close> that a server uses on an object it stores.\<close>

definition metadata_string :: "unstructured \<Rightarrow> string \<Rightarrow> string option" where
  "metadata_string u f = (case NestedString u [''metadata'', f] of Inr s \<Rightarrow> s | Inl _ \<Rightarrow> None)"

definition set_metadata :: "string \<Rightarrow> json \<Rightarrow> unstructured \<Rightarrow> unstructured" where
  "set_metadata f v u = (case set_nested u v [''metadata'', f] of Inr u' \<Rightarrow> u' | Inl _ \<Rightarrow> u)"

definition GetResourceVersion :: "unstructured \<Rightarrow> nat" where
  "GetResourceVersion u = digits_val (getNestedString u [''metadata'', ''resourceVersion''])"

definition SetResourceVersion :: "nat \<Rightarrow> unstructured \<Rightarrow> unstructured" where
  "SetResourceVersion n u =
     (if n = 0 then remove_nested u [''metadata'', ''resourceVersion'']
      else set_metadata ''resourceVersion'' (JStr (format_nat n)) u)"

definition GetDeletionTimestamp :: "unstructured \<Rightarrow> string option" where
  "GetDeletionTimestamp u = metadata_string u ''deletionTimestamp''"

definition SetDeletionTimestamp :: "string option \<Rightarrow> unstructured \<Rightarrow> unstructured" where
  "SetDeletionTimestamp t u =
     (case t of None \<Rightarrow> remove_nested u [''metadata'', ''deletionTimestamp'']
      | Some s \<Rightarrow> set_metadata ''deletionTimestamp'' (JStr s) u)"

fun strings_in :: "json list \<Rightarrow> string list" where
  "strings_in [] = []"
| "strings_in (JStr s # vs) = s # strings_in vs"
| "strings_in (_ # vs) = strings_in vs"

definition GetFinalizers :: "unstructured \<Rightarrow> string list" where
  "GetFinalizers u =
     (case nested_field (JObj u) [''metadata'', ''finalizers''] of
        Inr (Some (JList vs)) \<Rightarrow> strings_in vs | _ \<Rightarrow> [])"

definition copy_status :: "unstructured \<Rightarrow> unstructured \<Rightarrow> unstructured" where
  "copy_status a b =
     (case map_of a ''status'' of
        None \<Rightarrow> AList.delete ''status'' b | Some v \<Rightarrow> AList.update ''status'' v b)"

definition unstructured_key :: "unstructured \<Rightarrow> GroupVersionKind \<times> NamespacedName" where
  "unstructured_key u =
     (FromAPIVersionAndKind (getNestedString u [''apiVersion'']) (GetKind u),
      \<lparr>nn_namespace = GetNamespace u, nn_name = GetName u\<rparr>)"

text \<open>What an update writes: everything but the status and the bookkeeping of the server.\<close>

definition unstructured_spec :: "unstructured \<Rightarrow> strmap \<times> (string \<rightharpoonup> json)" where
  "unstructured_spec u =
     (GetAnnotations u, \<lambda>f. if f = ''metadata'' \<or> f = ''status'' then None else map_of u f)"

text \<open>Editing one entry of the metadata, seen through a path into the object.\<close>

lemma nested_metadata_set:
  "wf_unstructured u \<Longrightarrow>
   nested_field (JObj (set_metadata f v u)) (''metadata'' # g # gs) =
     (if g = f then nested_field v gs else nested_field (JObj u) (''metadata'' # g # gs))"
  by (erule wf_unstructuredE) (auto simp: set_metadata_def update_conv')

lemma nested_metadata_remove:
  "wf_unstructured u \<Longrightarrow>
   nested_field (JObj (remove_nested u [''metadata'', f])) (''metadata'' # g # gs) =
     (if g = f then Inr None else nested_field (JObj u) (''metadata'' # g # gs))"
  by (erule wf_unstructuredE) (auto simp: update_conv' delete_conv')

lemma map_of_metadata_set:
  assumes "g \<noteq> ''metadata''"
  shows "map_of (set_metadata f v u) g = map_of u g"
    and "map_of (remove_nested u [''metadata'', f]) g = map_of u g"
  using assms
  by (cases "map_of u ''metadata''"; simp add: set_metadata_def update_conv' split: json.split)+

lemma wf_metadata_set:
  assumes "wf_unstructured u"
  shows "wf_unstructured (set_metadata f v u)"
    and "wf_unstructured (remove_nested u [''metadata'', f])"
  using assms
  by (rule wf_unstructuredE; simp add: wf_unstructured_def set_metadata_def update_conv')+

lemma nested_other:
  assumes "g \<noteq> ''metadata''"
  shows "nested_field (JObj (set_metadata f v u)) (g # gs) = nested_field (JObj u) (g # gs)"
    and "nested_field (JObj (remove_nested u [''metadata'', f])) (g # gs) = nested_field (JObj u) (g # gs)"
  using map_of_metadata_set [OF assms] by simp_all

lemmas metadata_access =
  GetResourceVersion_def getNestedString_def NestedString_def unstructured_key_def
  unstructured_spec_def GetAnnotations_def nullCoercingStringMap_def GetName_def GetNamespace_def
  GetKind_def GetDeletionTimestamp_def metadata_string_def GetFinalizers_def

lemma metadata_frame [simp]:
  assumes "wf_unstructured u"
  shows "wf_unstructured (SetResourceVersion n u)"
    and "GetResourceVersion (SetResourceVersion n u) = n"
    and "unstructured_key (SetResourceVersion n u) = unstructured_key u"
    and "unstructured_spec (SetResourceVersion n u) = unstructured_spec u"
    and "GetDeletionTimestamp (SetResourceVersion n u) = GetDeletionTimestamp u"
    and "GetFinalizers (SetResourceVersion n u) = GetFinalizers u"
    and "map_of (SetResourceVersion n u) ''status'' = map_of u ''status''"
  using assms
  by (simp_all add: SetResourceVersion_def wf_metadata_set map_of_metadata_set metadata_access
      nested_metadata_set nested_metadata_remove nested_other digits_val_format_nat fun_eq_iff
      del: nested_field.simps(3) remove_nested.simps)

lemma copy_status_frame [simp]:
  assumes "wf_unstructured b"
  shows "wf_unstructured (copy_status a b)"
    and "unstructured_key (copy_status a b) = unstructured_key b"
    and "unstructured_spec (copy_status a b) = unstructured_spec b"
    and "GetDeletionTimestamp (copy_status a b) = GetDeletionTimestamp b"
    and "GetFinalizers (copy_status a b) = GetFinalizers b"
    and "map_of (copy_status a b) ''status'' = map_of a ''status''"
proof -
  have other: "map_of (copy_status a b) f = map_of b f" if "f \<noteq> ''status''" for f
    using that by (simp add: copy_status_def update_conv' delete_conv' split: option.split)
  show "map_of (copy_status a b) ''status'' = map_of a ''status''"
    by (simp add: copy_status_def update_conv' delete_conv' split: option.split)
  from assms other show "wf_unstructured (copy_status a b)"
    "unstructured_key (copy_status a b) = unstructured_key b"
    "unstructured_spec (copy_status a b) = unstructured_spec b"
    "GetDeletionTimestamp (copy_status a b) = GetDeletionTimestamp b"
    "GetFinalizers (copy_status a b) = GetFinalizers b"
    by (simp_all add: wf_unstructured_def metadata_access fun_eq_iff)
qed

lemma deletion_frame [simp]:
  assumes "wf_unstructured u"
  shows "wf_unstructured (SetDeletionTimestamp t u)"
    and "unstructured_key (SetDeletionTimestamp t u) = unstructured_key u"
    and "GetDeletionTimestamp (SetDeletionTimestamp t u) = t"
  using assms
  by (cases t; simp add: SetDeletionTimestamp_def wf_metadata_set metadata_access
      nested_metadata_set nested_metadata_remove nested_other
      del: nested_field.simps(3) remove_nested.simps)+

lemma unstructured_key_SetAnnotations [simp]:
  "wf_unstructured u \<Longrightarrow> unstructured_key (SetAnnotations a u) = unstructured_key u"
  by (simp add: unstructured_key_def) (simp add: getNestedString_def NestedString_def)

lemma SetAnnotations_eq:
  "SetAnnotations a u =
     (case a of None \<Rightarrow> remove_nested u [''metadata'', ''annotations'']
      | Some al \<Rightarrow> set_metadata ''annotations'' (JObj (map (\<lambda>(k, v). (k, JStr v)) al)) u)"
  by (simp add: SetAnnotations_def set_metadata_def split: option.split)

lemma nested_SetAnnotations:
  assumes "wf_unstructured u" "f \<noteq> ''annotations''"
  shows "nested_field (JObj (SetAnnotations a u)) [''metadata'', f] = nested_field (JObj u) [''metadata'', f]"
  using assms
  by (cases a; simp add: SetAnnotations_eq nested_metadata_set nested_metadata_remove
      del: nested_field.simps remove_nested.simps)

lemma SetAnnotations_frame [simp]:
  assumes "wf_unstructured u"
  shows "GetDeletionTimestamp (SetAnnotations a u) = GetDeletionTimestamp u"
    and "GetFinalizers (SetAnnotations a u) = GetFinalizers u"
    and "wf_unstructured (SetAnnotations a u)"
    and "GetAnnotations (SetAnnotations a u) = a"
proof -
  note nested_SetAnnotations [OF assms, of _ a]
  then show "GetDeletionTimestamp (SetAnnotations a u) = GetDeletionTimestamp u"
    "GetFinalizers (SetAnnotations a u) = GetFinalizers u"
    by (simp_all add: GetDeletionTimestamp_def metadata_string_def NestedString_def GetFinalizers_def
        del: nested_field.simps)
  show "wf_unstructured (SetAnnotations a u)" "GetAnnotations (SetAnnotations a u) = a"
    using uns.wf_set [OF assms] uns.get_set [OF assms] by blast+
qed

end
