(* ===== verification/Kube_Client.thy ===== *)
theory Kube_Client
  imports Kube_Meta
begin

text \<open>
  The client of the API server, per kind of object, as the controllers use it
  (\<open>client.Client\<close> of controller-runtime).  The API server itself is not code of the
  repository: every definition of a controller takes the client as an argument, and the
  locale \<open>object_store\<close> names what is relied on, the documented behaviour of reads and
  writes of one kind.  The second half models the object tracker of controller-runtime's
  fake client, which the repository's own tests run the controllers against, and proves
  that it provides the contract for every kind of object.
\<close>

section \<open>The client interface\<close>

text \<open>
  A write takes the object the caller holds and returns the object the server stored,
  which the Go client decodes back into the caller's variable.
\<close>

record ('w, 'k, 'o) client =
  cl_get :: "'k \<Rightarrow> ('w, 'o) act"
  cl_create :: "'o \<Rightarrow> ('w, 'o) act"
  cl_update :: "'o \<Rightarrow> ('w, 'o) act"
  cl_update_status :: "'o \<Rightarrow> ('w, 'o) act"
  cl_delete :: "'o \<Rightarrow> ('w, unit) act"

text \<open>
  \<open>lookup\<close> is the state of the server; \<open>spec_of\<close> is what an update writes and
  \<open>status_of\<close> what a status update writes; \<open>ok\<close> holds of the objects a server
  stores; \<open>pending\<close> of one whose deletion is pending, and \<open>gone\<close> of such an object without
  a finalizer left, which the server does not keep.  A write that fails may or may not have
  reached the server, but it touches no other object.
\<close>

locale object_store =
  fixes C :: "('w, 'k, 'o) client"
    and key :: "'o \<Rightarrow> 'k"
    and lookup :: "'w \<Rightarrow> 'k \<Rightarrow> 'o option"
    and spec_of :: "'o \<Rightarrow> 's"
    and status_of :: "'o \<Rightarrow> 't"
    and pending :: "'o \<Rightarrow> bool"
    and gone :: "'o \<Rightarrow> bool"
    and ok :: "'o \<Rightarrow> bool"
    and good :: "'w \<Rightarrow> bool"
  assumes stored: "good w \<Longrightarrow> lookup w k = Some obj \<Longrightarrow> key obj = k \<and> ok obj \<and> \<not> gone obj"
    and get_ok: "good w \<Longrightarrow> cl_get C k w = (Inr obj, w') \<Longrightarrow>
      lookup w k = Some obj \<and> lookup w' = lookup w \<and> good w'"
    and get_err: "good w \<Longrightarrow> cl_get C k w = (Inl e, w') \<Longrightarrow>
      (IsNotFound e \<longrightarrow> lookup w k = None) \<and> \<not> is_panic e \<and> lookup w' = lookup w \<and> good w'"
    and create_ok: "good w \<Longrightarrow> cl_create C obj w = (Inr obj', w') \<Longrightarrow>
      lookup w (key obj) = None \<and> lookup w' = (lookup w)(key obj \<mapsto> obj') \<and>
      (\<not> pending obj \<longrightarrow> spec_of obj' = spec_of obj) \<and> key obj' = key obj \<and> ok obj' \<and> good w'"
    and update_ok: "good w \<Longrightarrow> cl_update C obj w = (Inr obj', w') \<Longrightarrow>
      lookup w (key obj) \<noteq> None \<and>
      lookup w' = (lookup w)(key obj := (if gone obj then None else Some obj')) \<and>
      spec_of obj' = spec_of obj \<and> key obj' = key obj \<and> ok obj' \<and> good w' \<and>
      (map_option status_of (lookup w (key obj)) = Some (status_of obj) \<longrightarrow>
        status_of obj' = status_of obj)"
    and update_status_ok: "good w \<Longrightarrow> cl_update_status C obj w = (Inr obj', w') \<Longrightarrow>
      (\<exists>old. lookup w (key obj) = Some old \<and> spec_of obj' = spec_of old \<and>
        lookup w' = (lookup w)(key obj \<mapsto> obj')) \<and>
      status_of obj' = status_of obj \<and> key obj' = key obj \<and> ok obj' \<and> good w'"
    and write_err: "good w \<Longrightarrow>
      cl_create C obj w = (Inl e, w') \<or> cl_update C obj w = (Inl e, w') \<or>
      cl_update_status C obj w = (Inl e, w') \<Longrightarrow>
      (\<exists>x. lookup w' = (lookup w)(key obj := x)) \<and> \<not> is_panic e \<and> good w'"
    and update_missing: "good w \<Longrightarrow> cl_update C obj w = (Inl e, w') \<Longrightarrow> IsNotFound e \<Longrightarrow>
      lookup w (key obj) = None"
begin

text \<open>Read your writes: what an update or a creation stored is what the next read finds.\<close>

lemma get_after_update:
  assumes "good w" "cl_update C obj w = (Inr obj', w')" "\<not> gone obj"
    and "cl_get C (key obj) w' = (Inr obj'', w'')"
  shows "obj'' = obj' \<and> spec_of obj'' = spec_of obj"
  using update_ok [OF assms(1,2)] get_ok [OF _ assms(4)] assms(3) by auto

lemma get_after_create:
  assumes "good w" "cl_create C obj w = (Inr obj', w')" "\<not> pending obj"
    and "cl_get C (key obj) w' = (Inr obj'', w'')"
  shows "obj'' = obj' \<and> spec_of obj'' = spec_of obj"
  using create_ok [OF assms(1,2)] get_ok [OF _ assms(4)] assms(3) by auto

text \<open>The laws as weakest preconditions, the form the proofs about the controllers use.\<close>

lemma wp_get:
  assumes "good w"
    and "\<And>obj w'. \<lbrakk>good w'; lookup w' = lookup w; lookup w k = Some obj; key obj = k; ok obj; \<not> gone obj;
      cl_get C k w = (Inr obj, w')\<rbrakk> \<Longrightarrow> Q obj w'"
    and "\<And>e w'. \<lbrakk>good w'; lookup w' = lookup w; \<not> is_panic e; IsNotFound e \<longrightarrow> lookup w k = None;
      cl_get C k w = (Inl e, w')\<rbrakk> \<Longrightarrow> E e w'"
  shows "wp (cl_get C k) Q E w"
proof (rule wpI)
  fix a w' assume get: "cl_get C k w = (Inr a, w')"
  then show "Q a w'" using get_ok [OF assms(1) get] stored [OF assms(1)] assms(2) by blast
next
  fix e w' assume "cl_get C k w = (Inl e, w')"
  then show "E e w'" using get_err [OF assms(1)] assms(3) by blast
qed

lemma wp_update:
  assumes "good w"
    and "\<And>obj' w'. \<lbrakk>good w'; lookup w (key obj) \<noteq> None;
      lookup w' = (lookup w)(key obj := (if gone obj then None else Some obj'));
      spec_of obj' = spec_of obj; key obj' = key obj; ok obj';
      map_option status_of (lookup w (key obj)) = Some (status_of obj) \<longrightarrow> status_of obj' = status_of obj;
      cl_update C obj w = (Inr obj', w')\<rbrakk> \<Longrightarrow> Q obj' w'"
    and "\<And>e w' x. \<lbrakk>good w'; lookup w' = (lookup w)(key obj := x); \<not> is_panic e;
      IsNotFound e \<longrightarrow> lookup w (key obj) = None; cl_update C obj w = (Inl e, w')\<rbrakk> \<Longrightarrow> E e w'"
  shows "wp (cl_update C obj) Q E w"
proof (rule wpI)
  fix a w' assume "cl_update C obj w = (Inr a, w')"
  then show "Q a w'" using update_ok [OF assms(1)] assms(2) by metis
next
  fix e w' assume "cl_update C obj w = (Inl e, w')"
  then show "E e w'" using write_err [OF assms(1)] update_missing [OF assms(1)] assms(3) by metis
qed

lemma wp_create:
  assumes "good w"
    and "\<And>obj' w'. \<lbrakk>good w'; lookup w (key obj) = None; lookup w' = (lookup w)(key obj \<mapsto> obj');
      \<not> pending obj \<longrightarrow> spec_of obj' = spec_of obj; key obj' = key obj; ok obj';
      cl_create C obj w = (Inr obj', w')\<rbrakk> \<Longrightarrow> Q obj' w'"
    and "\<And>e w' x. \<lbrakk>good w'; lookup w' = (lookup w)(key obj := x); \<not> is_panic e;
      cl_create C obj w = (Inl e, w')\<rbrakk> \<Longrightarrow> E e w'"
  shows "wp (cl_create C obj) Q E w"
proof (rule wpI)
  fix a w' assume "cl_create C obj w = (Inr a, w')"
  then show "Q a w'" using create_ok [OF assms(1)] assms(2) by metis
next
  fix e w' assume "cl_create C obj w = (Inl e, w')"
  then show "E e w'" using write_err [OF assms(1)] assms(3) by metis
qed

lemma wp_update_status:
  assumes "good w"
    and "\<And>obj' old w'. \<lbrakk>good w'; lookup w (key obj) = Some old; spec_of obj' = spec_of old;
      lookup w' = (lookup w)(key obj \<mapsto> obj');
      status_of obj' = status_of obj; key obj' = key obj; ok obj';
      cl_update_status C obj w = (Inr obj', w')\<rbrakk> \<Longrightarrow> Q obj' w'"
    and "\<And>e w' x. \<lbrakk>good w'; lookup w' = (lookup w)(key obj := x); \<not> is_panic e;
      cl_update_status C obj w = (Inl e, w')\<rbrakk> \<Longrightarrow> E e w'"
  shows "wp (cl_update_status C obj) Q E w"
proof (rule wpI)
  fix a w' assume "cl_update_status C obj w = (Inr a, w')"
  then show "Q a w'" using update_status_ok [OF assms(1)] assms(2) by metis
next
  fix e w' assume "cl_update_status C obj w = (Inl e, w')"
  then show "E e w'" using write_err [OF assms(1)] assms(3) by metis
qed

end

text \<open>Operations of a client that leave an observation of the world alone.\<close>

definition client_preserves :: "('w, 'k, 'o) client \<Rightarrow> ('w \<Rightarrow> 'v) \<Rightarrow> bool" where
  "client_preserves C obs \<longleftrightarrow>
     (\<forall>k w. obs (snd (cl_get C k w)) = obs w) \<and> (\<forall>obj w. obs (snd (cl_create C obj w)) = obs w) \<and>
     (\<forall>obj w. obs (snd (cl_update C obj w)) = obs w) \<and>
     (\<forall>obj w. obs (snd (cl_update_status C obj w)) = obs w) \<and>
     (\<forall>obj w. obs (snd (cl_delete C obj w)) = obs w)"

lemma client_preservesD:
  assumes "client_preserves C obs"
  shows "cl_get C k w = (r, w') \<Longrightarrow> obs w' = obs w"
    and "cl_create C obj w = (r', w') \<Longrightarrow> obs w' = obs w"
    and "cl_update C obj w = (r', w') \<Longrightarrow> obs w' = obs w"
    and "cl_update_status C obj w = (r', w') \<Longrightarrow> obs w' = obs w"
    and "cl_delete C obj w = (r'', w') \<Longrightarrow> obs w' = obs w"
  using assms unfolding client_preserves_def by (metis snd_conv)+

section \<open>The tracker of the fake client\<close>

text \<open>
  What the tracker reads and writes of an object's metadata.  A resource version is a
  number, 0 standing for the empty string.
\<close>

record ('k, 'o) object_ops =
  oo_key :: "'o \<Rightarrow> 'k"
  oo_name :: "'o \<Rightarrow> string"
  oo_rv :: "'o \<Rightarrow> nat"
  oo_set_rv :: "nat \<Rightarrow> 'o \<Rightarrow> 'o"
  oo_deletion :: "'o \<Rightarrow> string option"
  oo_set_deletion :: "string option \<Rightarrow> 'o \<Rightarrow> 'o"
  oo_finalizers :: "'o \<Rightarrow> string list"
  oo_copy_status :: "'o \<Rightarrow> 'o \<Rightarrow> 'o" \<comment> \<open>from the first into the second\<close>
  oo_has_status :: bool \<comment> \<open>the kind has a status subresource\<close>
  oo_unconditional :: bool \<comment> \<open>\<open>allowsUnconditionalUpdate\<close>\<close>
  oo_ok :: "'o \<Rightarrow> bool" \<comment> \<open>the object decodes as one of its kind\<close>

type_synonym ('k, 'o) tracker = "'k \<rightharpoonup> 'o"

definition not_found :: "go_error" where
  "not_found = StatusError NotFound ''not found''"

definition tracker_get :: "'k \<Rightarrow> (('k, 'o) tracker, 'o) act" where
  "tracker_get k s = (case s k of None \<Rightarrow> Inl not_found | Some obj \<Rightarrow> Inr obj, s)"

definition tracker_create :: "('k, 'o) object_ops \<Rightarrow> 'o \<Rightarrow> (('k, 'o) tracker, 'o) act" where
  "tracker_create ops obj s =
     (if \<not> oo_ok ops obj then (Inl (StatusError BadRequest ''object does not decode''), s)
      else if oo_name ops obj = '''' then (Inl (StatusError Invalid ''name is required''), s)
      else if oo_rv ops obj \<noteq> 0 then
        (Inl (StatusError BadRequest ''resourceVersion can not be set for Create requests''), s)
      else if s (oo_key ops obj) \<noteq> None then (Inl (StatusError AlreadyExists ''already exists''), s)
      else (let obj = (if oo_deletion ops obj \<noteq> None then oo_set_deletion ops None obj else obj);
                obj' = oo_set_rv ops 1 obj
            in (Inr obj', s(oo_key ops obj \<mapsto> obj'))))"

text \<open>
  \<open>versionedTracker.updateObject\<close> and \<open>update\<close>: the status is kept on an update and
  everything else on a status update, the resource version must match and is
  incremented, the deletion timestamp may only change where \<open>deleting\<close> is set, and an
  object left without finalizers while its deletion is pending is removed.
\<close>

definition tracker_update ::
    "('k, 'o) object_ops \<Rightarrow> bool \<Rightarrow> bool \<Rightarrow> 'o \<Rightarrow> (('k, 'o) tracker, 'o) act" where
  "tracker_update ops isStatus deleting obj s =
     (if \<not> oo_ok ops obj then (Inl (StatusError BadRequest ''object does not decode''), s)
      else if oo_name ops obj = '''' then (Inl (StatusError Invalid ''name is required''), s)
      else case s (oo_key ops obj) of
        None \<Rightarrow> (Inl not_found, s)
      | Some old \<Rightarrow>
          if isStatus \<and> \<not> oo_has_status ops then (Inl not_found, s)
          else
            (let obj1 = (if \<not> oo_has_status ops then obj
                         else if isStatus then oo_set_rv ops (oo_rv ops obj) (oo_copy_status ops obj old)
                         else oo_copy_status ops old obj);
                 obj2 = (if oo_rv ops obj1 = 0 \<and> oo_unconditional ops
                         then oo_set_rv ops (oo_rv ops old) obj1 else obj1);
                 obj3 = oo_set_rv ops (Suc (oo_rv ops old)) obj2
             in if oo_rv ops obj2 \<noteq> oo_rv ops old then
                  (Inl (StatusError Conflict ''object was modified''), s)
                else if \<not> deleting \<and> oo_deletion ops obj3 \<noteq> oo_deletion ops old then
                  (Inl (errorf ''metadata.deletionTimestamp field is immutable''), s)
                else if oo_deletion ops obj3 \<noteq> None \<and> oo_finalizers ops obj3 = [] then
                  (Inr obj3, s(oo_key ops obj := None))
                else (Inr obj3, s(oo_key ops obj \<mapsto> obj3))))"

text \<open>\<open>fakeClient.deleteObjectLocked\<close>; \<open>now\<close> is the time it stamps.\<close>

definition tracker_delete ::
    "('k, 'o) object_ops \<Rightarrow> string \<Rightarrow> 'o \<Rightarrow> (('k, 'o) tracker, unit) act" where
  "tracker_delete ops now obj s =
     (case s (oo_key ops obj) of
        None \<Rightarrow> (Inl not_found, s)
      | Some old \<Rightarrow>
          if oo_finalizers ops old \<noteq> [] then
            (case tracker_update ops False True (oo_set_deletion ops (Some now) old) s of
               (Inl e, s') \<Rightarrow> (Inl e, s') | (Inr _, s') \<Rightarrow> (Inr (), s'))
          else (Inr (), s(oo_key ops obj := None)))"

text \<open>An action on one part of the world.\<close>

definition act_zoom :: "('w \<Rightarrow> 's) \<Rightarrow> ('s \<Rightarrow> 'w \<Rightarrow> 'w) \<Rightarrow> ('s, 'a) act \<Rightarrow> ('w, 'a) act" where
  "act_zoom get put m w = (case m (get w) of (r, s') \<Rightarrow> (r, put s' w))"

text \<open>The fake client for one kind, kept in one field of the world.\<close>

definition fake_client ::
    "('k, 'o) object_ops \<Rightarrow> string \<Rightarrow> ('w \<Rightarrow> ('k, 'o) tracker) \<Rightarrow>
     (('k, 'o) tracker \<Rightarrow> 'w \<Rightarrow> 'w) \<Rightarrow> ('w, 'k, 'o) client" where
  "fake_client ops now get put =
     \<lparr>cl_get = \<lambda>k. act_zoom get put (tracker_get k),
      cl_create = \<lambda>obj. act_zoom get put (tracker_create ops obj),
      cl_update = \<lambda>obj. act_zoom get put (tracker_update ops False False obj),
      cl_update_status = \<lambda>obj. act_zoom get put (tracker_update ops True False obj),
      cl_delete = \<lambda>obj. act_zoom get put (tracker_delete ops now obj)\<rparr>"

text \<open>Every object decodes, is stored under its own key and waits for a finalizer if its
  deletion is pending.\<close>

definition keyed :: "('k, 'o) object_ops \<Rightarrow> ('k, 'o) tracker \<Rightarrow> bool" where
  "keyed ops s \<longleftrightarrow> (\<forall>k obj. s k = Some obj \<longrightarrow> oo_key ops obj = k \<and> oo_ok ops obj \<and>
     \<not> (oo_deletion ops obj \<noteq> None \<and> oo_finalizers ops obj = []))"

section \<open>The fake client provides the contract\<close>

text \<open>
  The laws of an object's metadata accessors: a resource version or a status does not
  touch the key, what an update writes, the finalizers or the deletion timestamp.
\<close>

locale kube_object =
  fixes ops :: "('k, 'o) object_ops"
    and spec_of :: "'o \<Rightarrow> 's"
    and status_of :: "'o \<Rightarrow> 't"
  assumes rv_get [simp]: "oo_ok ops obj \<Longrightarrow> oo_rv ops (oo_set_rv ops n obj) = n"
    and rv_frame [simp]:
      "oo_ok ops obj \<Longrightarrow> oo_ok ops (oo_set_rv ops n obj)"
      "oo_ok ops obj \<Longrightarrow> oo_key ops (oo_set_rv ops n obj) = oo_key ops obj"
      "oo_ok ops obj \<Longrightarrow> spec_of (oo_set_rv ops n obj) = spec_of obj"
      "oo_ok ops obj \<Longrightarrow> status_of (oo_set_rv ops n obj) = status_of obj"
      "oo_ok ops obj \<Longrightarrow> oo_deletion ops (oo_set_rv ops n obj) = oo_deletion ops obj"
      "oo_ok ops obj \<Longrightarrow> oo_finalizers ops (oo_set_rv ops n obj) = oo_finalizers ops obj"
    and deletion_frame [simp]:
      "oo_ok ops obj \<Longrightarrow> oo_deletion ops (oo_set_deletion ops None obj) = None"
      "oo_ok ops obj \<Longrightarrow> oo_ok ops (oo_set_deletion ops None obj)"
      "oo_ok ops obj \<Longrightarrow> oo_key ops (oo_set_deletion ops None obj) = oo_key ops obj"
    and status_frame [simp]:
      "oo_has_status ops \<Longrightarrow> oo_ok ops b \<Longrightarrow> oo_ok ops (oo_copy_status ops a b)"
      "oo_has_status ops \<Longrightarrow> oo_ok ops b \<Longrightarrow> oo_key ops (oo_copy_status ops a b) = oo_key ops b"
      "oo_has_status ops \<Longrightarrow> oo_ok ops b \<Longrightarrow> spec_of (oo_copy_status ops a b) = spec_of b"
      "oo_has_status ops \<Longrightarrow> oo_ok ops b \<Longrightarrow> status_of (oo_copy_status ops a b) = status_of a"
      "oo_has_status ops \<Longrightarrow> oo_ok ops b \<Longrightarrow> oo_deletion ops (oo_copy_status ops a b) = oo_deletion ops b"
      "oo_has_status ops \<Longrightarrow> oo_ok ops b \<Longrightarrow> oo_finalizers ops (oo_copy_status ops a b) = oo_finalizers ops b"
begin

abbreviation pending_gone :: "'o \<Rightarrow> bool" where
  "pending_gone obj \<equiv> oo_deletion ops obj \<noteq> None \<and> oo_finalizers ops obj = []"

lemma keyed_upd:
  "keyed ops s \<Longrightarrow> oo_ok ops obj \<Longrightarrow> oo_key ops obj = k \<Longrightarrow> \<not> pending_gone obj \<Longrightarrow>
   keyed ops (s(k \<mapsto> obj))"
  "keyed ops s \<Longrightarrow> keyed ops (s(k := None))"
  by (auto simp: keyed_def)

lemma tracker_create_ok:
  "keyed ops s \<Longrightarrow> tracker_create ops obj s = (Inr obj', s') \<Longrightarrow>
   s (oo_key ops obj) = None \<and> s' = s(oo_key ops obj \<mapsto> obj') \<and>
   (oo_deletion ops obj = None \<longrightarrow> spec_of obj' = spec_of obj) \<and>
   oo_key ops obj' = oo_key ops obj \<and> oo_ok ops obj' \<and> keyed ops s'"
  by (cases "oo_deletion ops obj = None")
     (auto simp: tracker_create_def keyed_upd Let_def split: if_splits)

text \<open>The object an update stores, whichever of the two updates it is.\<close>

lemma tracker_update_stored:
  assumes "keyed ops s" "tracker_update ops st False obj s = (Inr obj', s')"
  obtains old obj1 where "s (oo_key ops obj) = Some old" "oo_ok ops obj" "oo_ok ops old"
    "oo_key ops old = oo_key ops obj" "\<not> pending_gone old" "st \<longrightarrow> oo_has_status ops"
    "obj1 = (if \<not> oo_has_status ops then obj
             else if st then oo_set_rv ops (oo_rv ops obj) (oo_copy_status ops obj old)
             else oo_copy_status ops old obj)"
    "obj' = oo_set_rv ops (Suc (oo_rv ops old)) obj1 \<or>
     obj' = oo_set_rv ops (Suc (oo_rv ops old)) (oo_set_rv ops (oo_rv ops old) obj1)"
    "s' = s(oo_key ops obj := (if pending_gone obj' then None else Some obj'))"
proof -
  from assms(2) obtain old where ok: "oo_ok ops obj" and old: "s (oo_key ops obj) = Some old"
    by (auto simp: tracker_update_def split: if_splits option.splits)
  with assms(1) have "oo_ok ops old" "oo_key ops old = oo_key ops obj" "\<not> pending_gone old" by (auto simp: keyed_def)
  with assms(2) ok old show thesis
    by (intro that [of old]) (auto simp: tracker_update_def Let_def split: if_splits)
qed

lemma tracker_update_ok:
  assumes "keyed ops s" "tracker_update ops False False obj s = (Inr obj', s')"
  shows "s (oo_key ops obj) \<noteq> None \<and>
   s' = s(oo_key ops obj := (if pending_gone obj then None else Some obj')) \<and>
   spec_of obj' = spec_of obj \<and> oo_key ops obj' = oo_key ops obj \<and> oo_ok ops obj' \<and> keyed ops s' \<and>
   (map_option status_of (s (oo_key ops obj)) = Some (status_of obj) \<longrightarrow>
     status_of obj' = status_of obj)"
  by (rule tracker_update_stored [OF assms]; cases "oo_has_status ops"; use assms(1) in \<open>auto simp: keyed_upd\<close>)

lemma tracker_update_status_ok:
  assumes "keyed ops s" "tracker_update ops True False obj s = (Inr obj', s')"
  shows "(\<exists>old. s (oo_key ops obj) = Some old \<and> spec_of obj' = spec_of old \<and>
     s' = s(oo_key ops obj \<mapsto> obj')) \<and>
   status_of obj' = status_of obj \<and> oo_key ops obj' = oo_key ops obj \<and> oo_ok ops obj' \<and> keyed ops s'"
  by (rule tracker_update_stored [OF assms]) (use assms(1) in \<open>auto simp: keyed_upd\<close>)

end

lemma tracker_err:
  "tracker_create ops obj s = (Inl e, s') \<Longrightarrow> s' = s \<and> \<not> is_panic e"
  "tracker_update ops st del obj s = (Inl e, s') \<Longrightarrow> s' = s \<and> \<not> is_panic e"
  by (auto simp: tracker_create_def tracker_update_def not_found_def errorf_def Let_def
      split: if_splits option.splits)

text \<open>The same, in one field of a larger world with an invariant that covers the field.\<close>

locale kube_kind = kube_object ops spec_of status_of
  for ops :: "('k, 'o) object_ops" and spec_of :: "'o \<Rightarrow> 's" and status_of :: "'o \<Rightarrow> 't" +
  fixes now :: string
    and get :: "'w \<Rightarrow> ('k, 'o) tracker"
    and put :: "('k, 'o) tracker \<Rightarrow> 'w \<Rightarrow> 'w"
    and good :: "'w \<Rightarrow> bool"
  assumes get_put: "get (put s w) = s"
    and good_keyed: "good w \<Longrightarrow> keyed ops (get w)"
    and good_put: "good w \<Longrightarrow> keyed ops s \<Longrightarrow> good (put s w)"

sublocale kube_kind \<subseteq> object_store
  "fake_client ops now get put" "oo_key ops" get spec_of status_of "\<lambda>obj. oo_deletion ops obj \<noteq> None"
  pending_gone "oo_ok ops" good
proof
  fix w k and obj :: 'o
  assume "good w" "get w k = Some obj"
  then show "oo_key ops obj = k \<and> oo_ok ops obj \<and> \<not> pending_gone obj"
    using good_keyed [of w] unfolding keyed_def by blast
next
  fix w w' k and obj :: 'o
  assume "good w" "cl_get (fake_client ops now get put) k w = (Inr obj, w')"
  then show "get w k = Some obj \<and> get w' = get w \<and> good w'"
    using good_keyed [of w] good_put [of w "get w"]
    by (auto simp: fake_client_def act_zoom_def tracker_get_def get_put split: option.splits)
next
  fix w w' k e
  assume "good w" "cl_get (fake_client ops now get put) k w = (Inl e, w')"
  then show "(IsNotFound e \<longrightarrow> get w k = None) \<and> \<not> is_panic e \<and> get w' = get w \<and> good w'"
    using good_keyed [of w] good_put [of w "get w"]
    by (auto simp: fake_client_def act_zoom_def tracker_get_def get_put not_found_def
        split: option.splits)
next
  fix w w' and obj obj' :: 'o
  assume "good w" "cl_create (fake_client ops now get put) obj w = (Inr obj', w')"
  then show "get w (oo_key ops obj) = None \<and> get w' = (get w)(oo_key ops obj \<mapsto> obj') \<and>
      (\<not> oo_deletion ops obj \<noteq> None \<longrightarrow> spec_of obj' = spec_of obj) \<and>
      oo_key ops obj' = oo_key ops obj \<and> oo_ok ops obj' \<and> good w'"
    using tracker_create_ok [OF good_keyed] good_put
    by (fastforce simp: fake_client_def act_zoom_def get_put split: prod.splits)
next
  fix w w' and obj obj' :: 'o
  assume "good w" "cl_update (fake_client ops now get put) obj w = (Inr obj', w')"
  then show "get w (oo_key ops obj) \<noteq> None \<and>
      get w' = (get w)(oo_key ops obj := (if pending_gone obj then None else Some obj')) \<and>
      spec_of obj' = spec_of obj \<and> oo_key ops obj' = oo_key ops obj \<and> oo_ok ops obj' \<and> good w' \<and>
      (map_option status_of (get w (oo_key ops obj)) = Some (status_of obj) \<longrightarrow>
        status_of obj' = status_of obj)"
    using tracker_update_ok [OF good_keyed] good_put
    by (fastforce simp: fake_client_def act_zoom_def get_put split: prod.splits)
next
  fix w w' and obj obj' :: 'o
  assume "good w" "cl_update_status (fake_client ops now get put) obj w = (Inr obj', w')"
  then show "(\<exists>old. get w (oo_key ops obj) = Some old \<and> spec_of obj' = spec_of old \<and>
      get w' = (get w)(oo_key ops obj \<mapsto> obj')) \<and>
      status_of obj' = status_of obj \<and> oo_key ops obj' = oo_key ops obj \<and> oo_ok ops obj' \<and> good w'"
    using tracker_update_status_ok [OF good_keyed] good_put
    by (fastforce simp: fake_client_def act_zoom_def get_put split: prod.splits)
next
  fix w w' e and obj :: 'o
  assume "good w" and f: "cl_create (fake_client ops now get put) obj w = (Inl e, w') \<or>
      cl_update (fake_client ops now get put) obj w = (Inl e, w') \<or>
      cl_update_status (fake_client ops now get put) obj w = (Inl e, w')"
  have "w' = put (get w) w \<and> \<not> is_panic e"
    using f by (auto simp: fake_client_def act_zoom_def split: prod.splits dest: tracker_err)
  then show "(\<exists>x. get w' = (get w)(oo_key ops obj := x)) \<and> \<not> is_panic e \<and> good w'"
    using good_put [OF \<open>good w\<close> good_keyed [OF \<open>good w\<close>]] get_put
    by (metis fun_upd_triv)
next
  fix w w' e and obj :: 'o
  assume "cl_update (fake_client ops now get put) obj w = (Inl e, w')" "IsNotFound e"
  then show "get w (oo_key ops obj) = None"
    by (auto simp: fake_client_def act_zoom_def tracker_update_def errorf_def Let_def
        split: prod.splits if_splits option.splits)
qed

lemma fake_client_preserves:
  "(\<And>s w. obs (put s w) = obs w) \<Longrightarrow> client_preserves (fake_client ops now get put) obs"
  by (simp add: client_preserves_def fake_client_def act_zoom_def split: prod.split)

section \<open>Unstructured objects in the fake client\<close>

definition unstructured_ops :: "(GroupVersionKind \<times> NamespacedName, unstructured) object_ops" where
  "unstructured_ops =
     \<lparr>oo_key = unstructured_key, oo_name = GetName, oo_rv = GetResourceVersion,
      oo_set_rv = SetResourceVersion, oo_deletion = GetDeletionTimestamp,
      oo_set_deletion = SetDeletionTimestamp, oo_finalizers = GetFinalizers,
      oo_copy_status = copy_status, oo_has_status = True, oo_unconditional = True,
      oo_ok = wf_unstructured\<rparr>"

lemma unstructured_ops_simps [simp]:
  "oo_key unstructured_ops = unstructured_key" "oo_name unstructured_ops = GetName"
  "oo_rv unstructured_ops = GetResourceVersion" "oo_set_rv unstructured_ops = SetResourceVersion"
  "oo_deletion unstructured_ops = GetDeletionTimestamp"
  "oo_set_deletion unstructured_ops = SetDeletionTimestamp"
  "oo_finalizers unstructured_ops = GetFinalizers" "oo_copy_status unstructured_ops = copy_status"
  "oo_has_status unstructured_ops" "oo_ok unstructured_ops = wf_unstructured"
  by (simp_all add: unstructured_ops_def)

interpretation uobj: kube_object unstructured_ops unstructured_spec "\<lambda>u. map_of u ''status''"
  by unfold_locales simp_all

section \<open>Events\<close>

text \<open>A call of \<open>EventRecorder.Eventf\<close>; an object is given by its kind and key.\<close>

datatype involved =
    InvObject string NamespacedName
  | InvRef ObjectReference
  | InvNil

record event =
  ev_regarding :: involved
  ev_related :: involved
  ev_type :: string
  ev_reason :: string
  ev_action :: string
  ev_note :: string
  ev_args :: "go_arg list"

end
