(* ===== verification/Kube_Objects.thy ===== *)
theory Kube_Objects
  imports Kube_Client
begin

text \<open>
  Typed objects the operator creates and keeps up to date, whatever their kind, with the
  helpers of controller-runtime it uses on them (\<open>controllerutil.go\<close>):
  \<open>SetControllerReference\<close> and \<open>CreateOrUpdate\<close>.  The locale \<open>object_deletion\<close> adds
  deletion to the contract of a store.
\<close>

section \<open>Objects\<close>

text \<open>
  The specification is split into the fields the operator sets and the rest, which the API
  server fills in.
\<close>

record ('s, 'r, 't) kobject =
  ko_meta :: ObjectMeta
  ko_spec :: 's
  ko_rest :: 'r
  ko_status :: 't

definition ko_key :: "('s, 'r, 't) kobject \<Rightarrow> NamespacedName" where
  "ko_key obj = meta_key (ko_meta obj)"

definition ko_deletion :: "('s, 'r, 't) kobject \<Rightarrow> string option" where
  "ko_deletion obj = om_deletionTimestamp (ko_meta obj)"

definition ko_gone :: "('s, 'r, 't) kobject \<Rightarrow> bool" where
  "ko_gone obj \<longleftrightarrow> ko_deletion obj \<noteq> None \<and> om_finalizers (ko_meta obj) = []"

text \<open>What a write of the operator determines: not the fields the server fills in.\<close>

definition meta_written :: "ObjectMeta \<Rightarrow> ObjectMeta" where
  "meta_written m = m\<lparr>om_uid := '''', om_resourceVersion := 0, om_generation := 0\<rparr>"

definition ko_written :: "('s, 'r, 't) kobject \<Rightarrow> ObjectMeta \<times> 's" where
  "ko_written obj = (meta_written (ko_meta obj), ko_spec obj)"

lemma meta_written_eqD:
  assumes "meta_written m = meta_written n"
  shows "om_labels m = om_labels n" "om_annotations m = om_annotations n"
    and "om_finalizers m = om_finalizers n" "om_deletionTimestamp m = om_deletionTimestamp n"
    and "om_ownerReferences m = om_ownerReferences n" "meta_key m = meta_key n"
  using assms by (cases m; cases n; simp add: meta_written_def meta_key_def)+

lemma ko_written_eqD:
  assumes "ko_written a = ko_written b"
  shows "ko_spec a = ko_spec b" "meta_written (ko_meta a) = meta_written (ko_meta b)"
    and "ko_key a = ko_key b" "ko_deletion a = ko_deletion b" "ko_gone a = ko_gone b"
  using assms meta_written_eqD [of "ko_meta a" "ko_meta b"]
  by (simp_all add: ko_written_def ko_key_def ko_deletion_def ko_gone_def)

definition kobject_ops :: "bool \<Rightarrow> (NamespacedName, ('s, 'r, 't) kobject) object_ops" where
  "kobject_ops has_status =
     \<lparr>oo_key = ko_key, oo_name = \<lambda>obj. om_name (ko_meta obj),
      oo_rv = \<lambda>obj. om_resourceVersion (ko_meta obj),
      oo_set_rv = \<lambda>n. ko_meta_update (om_resourceVersion_update (\<lambda>_. n)),
      oo_deletion = ko_deletion,
      oo_set_deletion = \<lambda>t. ko_meta_update (om_deletionTimestamp_update (\<lambda>_. t)),
      oo_finalizers = \<lambda>obj. om_finalizers (ko_meta obj),
      oo_copy_status = \<lambda>a b. b\<lparr>ko_status := ko_status a\<rparr>,
      oo_has_status = has_status, oo_unconditional = True, oo_ok = \<lambda>_. True\<rparr>"

lemma kobject_ops_simps [simp]:
  "oo_key (kobject_ops st) = ko_key" "oo_deletion (kobject_ops st) = ko_deletion"
  "oo_finalizers (kobject_ops st) = (\<lambda>obj. om_finalizers (ko_meta obj))" "oo_ok (kobject_ops st) = (\<lambda>_. True)"
  by (simp_all add: kobject_ops_def)

interpretation kobj: kube_object "kobject_ops st" ko_written ko_status
  by unfold_locales
    (simp_all add: kobject_ops_def ko_key_def meta_key_def ko_written_def meta_written_def ko_deletion_def)

section \<open>Deletion\<close>

text \<open>
  A deletion removes the object at the caller's key, or, where a finalizer holds it, leaves
  an object of that key whose deletion is pending.
\<close>

locale object_deletion =
  fixes C :: "('w, 'k, 'o) client"
    and key :: "'o \<Rightarrow> 'k"
    and lookup :: "'w \<Rightarrow> 'k \<Rightarrow> 'o option"
    and pending :: "'o \<Rightarrow> bool"
    and good :: "'w \<Rightarrow> bool"
  assumes delete_ok: "good w \<Longrightarrow> cl_delete C obj w = (Inr (), w') \<Longrightarrow>
      (\<exists>x. lookup w' = (lookup w)(key obj := x) \<and> (\<forall>y. x = Some y \<longrightarrow> pending y)) \<and> good w'"
    and delete_err: "good w \<Longrightarrow> cl_delete C obj w = (Inl e, w') \<Longrightarrow>
      (\<exists>x. lookup w' = (lookup w)(key obj := x)) \<and> (IsNotFound e \<longrightarrow> lookup w' (key obj) = None) \<and>
      \<not> is_panic e \<and> good w'"
begin

lemma wp_delete:
  assumes "good w"
    and "\<And>w' x. \<lbrakk>good w'; lookup w' = (lookup w)(key obj := x); \<forall>y. x = Some y \<longrightarrow> pending y\<rbrakk> \<Longrightarrow> Q () w'"
    and "\<And>e w' x. \<lbrakk>good w'; lookup w' = (lookup w)(key obj := x); IsNotFound e \<longrightarrow> x = None;
      \<not> is_panic e\<rbrakk> \<Longrightarrow> E e w'"
  shows "wp (cl_delete C obj) Q E w"
proof (rule wpI)
  fix a w' assume "cl_delete C obj w = (Inr a, w')"
  then show "Q a w'" using delete_ok [OF assms(1)] assms(2) by (metis old.unit.exhaust)
next
  fix e w' assume "cl_delete C obj w = (Inl e, w')"
  then show "E e w'" using delete_err [OF assms(1)] assms(3) by (metis fun_upd_same)
qed

end

text \<open>The fake client's deletion, for a kind whose deletion timestamp is what was set.\<close>

locale kube_deletable = kube_kind ops spec_of status_of now get put good
  for ops :: "('k, 'o) object_ops" and spec_of :: "'o \<Rightarrow> 's" and status_of :: "'o \<Rightarrow> 't"
    and now :: string and get :: "'w \<Rightarrow> ('k, 'o) tracker"
    and put :: "('k, 'o) tracker \<Rightarrow> 'w \<Rightarrow> 'w" and good :: "'w \<Rightarrow> bool" +
  assumes set_deletion: "oo_ok ops obj \<Longrightarrow> oo_deletion ops (oo_set_deletion ops (Some t) obj) = Some t"
    and set_deletion_ok: "oo_ok ops obj \<Longrightarrow> oo_ok ops (oo_set_deletion ops (Some t) obj)"
    and set_deletion_key: "oo_ok ops obj \<Longrightarrow> oo_key ops (oo_set_deletion ops (Some t) obj) = oo_key ops obj"
    and set_deletion_finalizers:
      "oo_ok ops obj \<Longrightarrow> oo_finalizers ops (oo_set_deletion ops (Some t) obj) = oo_finalizers ops obj"
begin

lemma tracker_delete_ok:
  assumes "keyed ops s" "tracker_delete ops now obj s = (r, s')"
  shows "keyed ops s' \<and> (\<exists>x. s' = s(oo_key ops obj := x) \<and>
      (r = Inr () \<longrightarrow> (\<forall>y. x = Some y \<longrightarrow> oo_deletion ops y \<noteq> None)) \<and>
      (\<forall>e. r = Inl e \<longrightarrow> \<not> is_panic e \<and> (IsNotFound e \<longrightarrow> x = None)))"
proof (cases "s (oo_key ops obj)")
  case None
  with assms show ?thesis by (auto simp: tracker_delete_def not_found_def intro!: exI [of _ None])
next
  case (Some old)
  then have old: "oo_ok ops old" "oo_key ops old = oo_key ops obj" using assms(1) by (auto simp: keyed_def)
  define new where "new = oo_set_deletion ops (Some now) old"
  show ?thesis
  proof (cases "oo_finalizers ops old = []")
    case True
    with assms Some have "r = Inr ()" "s' = s(oo_key ops obj := None)"
      by (auto simp: tracker_delete_def)
    then show ?thesis using keyed_upd(2) [OF assms(1)] by auto
  next
    case False
    note new = set_deletion [OF old(1), of now] set_deletion_ok [OF old(1), of now]
      set_deletion_key [OF old(1), of now] set_deletion_finalizers [OF old(1), of now]
    show ?thesis
    proof (cases "tracker_update ops False True new s")
      case (Pair r' s'')
      have s'': "s'' = s'" and r': "(case r' of Inl e \<Rightarrow> Inl e | Inr _ \<Rightarrow> Inr ()) = r"
        using assms(2) Some False Pair by (auto simp: tracker_delete_def new_def split: sum.splits)
      show ?thesis
      proof (cases r')
        case (Inl e)
        then have "s' = s" "\<not> is_panic e" "\<not> IsNotFound e" "r = Inl e"
          using Pair s'' r' Some old new
          by (auto simp: tracker_update_def new_def not_found_def errorf_def Let_def split: if_splits)
        then show ?thesis using assms(1) fun_upd_idem [of s] by (auto intro!: exI [of _ "s (oo_key ops obj)"])
      next
        case (Inr y)
        have st: "oo_has_status ops \<Longrightarrow> oo_deletion ops (oo_copy_status ops old new) = oo_deletion ops new"
          "oo_has_status ops \<Longrightarrow> oo_finalizers ops (oo_copy_status ops old new) = oo_finalizers ops new"
          using new(2) by (simp_all add: new_def)
        have "s' = s(oo_key ops obj \<mapsto> y) \<and> oo_key ops y = oo_key ops obj \<and> oo_ok ops y \<and>
            oo_deletion ops y \<noteq> None \<and> oo_finalizers ops y \<noteq> []"
          using Pair s'' Inr Some old new False st
          by (cases "oo_has_status ops")
             (auto simp: tracker_update_def Let_def new_def [symmetric] split: if_splits)
        then show ?thesis using keyed_upd(1) [OF assms(1)] r' Inr by auto
      qed
    qed
  qed
qed

end

sublocale kube_deletable \<subseteq> deletion: object_deletion
  "fake_client ops now get put" "oo_key ops" get "\<lambda>obj. oo_deletion ops obj \<noteq> None" good
proof
  fix w w' and obj :: 'o
  assume w: "good w" and "cl_delete (fake_client ops now get put) obj w = (Inr (), w')"
  then obtain s' where "tracker_delete ops now obj (get w) = (Inr (), s')" "w' = put s' w"
    by (auto simp: fake_client_def act_zoom_def split: prod.splits)
  with tracker_delete_ok [OF good_keyed [OF w]] good_put [OF w]
  show "(\<exists>x. get w' = (get w)(oo_key ops obj := x) \<and> (\<forall>y. x = Some y \<longrightarrow> oo_deletion ops y \<noteq> None)) \<and> good w'"
    by (fastforce simp: get_put)
next
  fix w w' e and obj :: 'o
  assume w: "good w" and "cl_delete (fake_client ops now get put) obj w = (Inl e, w')"
  then obtain s' where "tracker_delete ops now obj (get w) = (Inl e, s')" "w' = put s' w"
    by (auto simp: fake_client_def act_zoom_def split: prod.splits)
  with tracker_delete_ok [OF good_keyed [OF w]] good_put [OF w]
  show "(\<exists>x. get w' = (get w)(oo_key ops obj := x)) \<and>
      (IsNotFound e \<longrightarrow> get w' (oo_key ops obj) = None) \<and> \<not> is_panic e \<and> good w'"
    by (fastforce simp: get_put)
qed

section \<open>Controller references\<close>

definition referSameObject :: "OwnerReference \<Rightarrow> OwnerReference \<Rightarrow> bool" where
  "referSameObject a b =
     (case ParseGroupVersion (owr_apiVersion a) of
        Inl _ \<Rightarrow> False
      | Inr aGV \<Rightarrow>
          (case ParseGroupVersion (owr_apiVersion b) of
             Inl _ \<Rightarrow> False
           | Inr bGV \<Rightarrow>
               gv_group aGV = gv_group bGV \<and> owr_kind a = owr_kind b \<and> owr_name a = owr_name b))"

fun upsertOwnerRef :: "OwnerReference \<Rightarrow> OwnerReference list \<Rightarrow> OwnerReference list" where
  "upsertOwnerRef ref [] = [ref]"
| "upsertOwnerRef ref (r # rs) = (if referSameObject r ref then ref # rs else r # upsertOwnerRef ref rs)"

definition GetControllerOf :: "ObjectMeta \<Rightarrow> OwnerReference option" where
  "GetControllerOf m = List.find (\<lambda>r. owr_controller r = Some True) (om_ownerReferences m)"

definition validateOwner :: "ObjectMeta \<Rightarrow> ObjectMeta \<Rightarrow> go_error + unit" where
  "validateOwner owner obj =
     (if om_namespace owner \<noteq> '''' then
        (if om_namespace obj = '''' then
           Inl (GoError ''cluster-scoped resource must not have a namespace-scoped owner, owner's namespace %s''
                  [ArgS (om_namespace owner)])
         else if om_namespace owner \<noteq> om_namespace obj then
           Inl (GoError ''cross-namespace owner references are disallowed, owner's namespace %s, obj's namespace %s''
                  [ArgS (om_namespace owner), ArgS (om_namespace obj)])
         else Inr ())
      else Inr ())"

text \<open>\<open>gvk\<close> is the kind the scheme knows the owner by.\<close>

definition controller_ref :: "GroupVersionKind \<Rightarrow> ObjectMeta \<Rightarrow> OwnerReference" where
  "controller_ref gvk owner =
     \<lparr>owr_apiVersion = GroupVersion_String (GVK_GroupVersion gvk), owr_kind = gvk_kind gvk,
      owr_name = om_name owner, owr_uid = om_uid owner, owr_controller = Some True,
      owr_blockOwnerDeletion = Some True\<rparr>"

definition SetControllerReference ::
    "GroupVersionKind \<Rightarrow> ObjectMeta \<Rightarrow> ObjectMeta \<Rightarrow> go_error + ObjectMeta" where
  "SetControllerReference gvk owner m =
     res_bind (validateOwner owner m) (\<lambda>_.
       (let ref = controller_ref gvk owner in
        case GetControllerOf m of
          Some existing \<Rightarrow>
            if \<not> referSameObject existing ref then
              Inl (GoError ''Object %s is already owned by another %s controller %s''
                     [ArgS (om_name m), ArgS (owr_kind existing), ArgS (owr_name existing)])
            else Inr (m\<lparr>om_ownerReferences := upsertOwnerRef ref (om_ownerReferences m)\<rparr>)
        | None \<Rightarrow> Inr (m\<lparr>om_ownerReferences := upsertOwnerRef ref (om_ownerReferences m)\<rparr>)))"

text \<open>A cluster-scoped owner can always own a fresh object.\<close>

lemma SetControllerReference_fresh:
  "om_namespace owner = '''' \<Longrightarrow> om_ownerReferences m = [] \<Longrightarrow>
   SetControllerReference gvk owner m = Inr (m\<lparr>om_ownerReferences := [controller_ref gvk owner]\<rparr>)"
  by (simp add: SetControllerReference_def validateOwner_def GetControllerOf_def Let_def)

section \<open>Creating or updating\<close>

datatype OperationResult = OpFailed | OpUnchanged | OpCreated | OpUpdated

text \<open>
  \<open>CreateOrUpdate\<close>: a found object replaces the caller's before it is mutated.  \<open>sem_eq\<close> is
  \<open>equality.Semantic.DeepEqual\<close> on objects of the kind; a mutation must not rename.
\<close>

definition mutate :: "('o \<Rightarrow> 'k) \<Rightarrow> ('o \<Rightarrow> 'o) \<Rightarrow> 'o \<Rightarrow> go_error + 'o" where
  "mutate key f obj =
     (if key (f obj) = key obj then Inr (f obj)
      else Inl (errorf ''MutateFn cannot mutate object name and/or object namespace''))"

definition CreateOrUpdate ::
    "('w, 'k, 'o) client \<Rightarrow> ('o \<Rightarrow> 'k) \<Rightarrow> ('o \<Rightarrow> 'o \<Rightarrow> bool) \<Rightarrow> ('o \<Rightarrow> 'o) \<Rightarrow> 'o \<Rightarrow> ('w, OperationResult) act" where
  "CreateOrUpdate C key sem_eq f obj =
     act_bind (ignore_not_found (cl_get C (key obj))) (\<lambda>found.
       case found of
         None \<Rightarrow>
           act_bind (act_lift (mutate key f obj)) (\<lambda>obj.
           act_bind (cl_create C obj) (\<lambda>_. act_return OpCreated))
       | Some existing \<Rightarrow>
           act_bind (act_lift (mutate key f existing)) (\<lambda>obj.
             if sem_eq existing obj then act_return OpUnchanged
             else act_bind (cl_update C obj) (\<lambda>_. act_return OpUpdated)))"

text \<open>
  The object at the key ends up as the mutation makes it, of the one found or of the
  caller's; a failure touches no other object.
\<close>

context object_store
begin

lemma wp_CreateOrUpdate:
  assumes w: "good w"
    and f: "\<And>x. key (f x) = key x" "\<And>x. gone (f x) = gone x" "\<not> pending (f obj)"
    and Q: "\<And>r w' o' base. \<lbrakk>good w'; lookup w' = (lookup w)(key obj \<mapsto> o'); key o' = key obj;
        base = (case lookup w (key obj) of None \<Rightarrow> obj | Some e \<Rightarrow> e);
        spec_of o' = spec_of (f base) \<or> (lookup w (key obj) = Some o' \<and> sem_eq o' (f o'))\<rbrakk> \<Longrightarrow> Q r w'"
    and E: "\<And>e w' x. \<lbrakk>good w'; lookup w' = (lookup w)(key obj := x); \<not> is_panic e\<rbrakk> \<Longrightarrow> E e w'"
  shows "wp (CreateOrUpdate C key sem_eq f obj) Q E w"
proof -
  have m: "mutate key f x = Inr (f x)" for x by (simp add: mutate_def f)
  show ?thesis
    unfolding CreateOrUpdate_def m wp_simps sum.case option.case
  proof (rule wp_get [OF w])
    fix e w1 assume w1: "good w1" "lookup w1 = lookup w" and found: "lookup w (key obj) = Some e"
      and e: "key e = key obj" "\<not> gone e"
    show "(if sem_eq e (f e) then Q OpUnchanged else wp (cl_update C (f e)) (\<lambda>_. Q OpUpdated) E) w1"
    proof (cases "sem_eq e (f e)")
      case True
      have "lookup w1 = (lookup w)(key obj \<mapsto> e)" using w1 found by (simp add: fun_upd_idem)
      then have "Q OpUnchanged w1" using True w1 e found by (intro Q [where o' = e]) auto
      with True show ?thesis by simp
    next
      case False
      have "wp (cl_update C (f e)) (\<lambda>_. Q OpUpdated) E w1"
      proof (rule wp_update [OF w1(1)])
        fix o' w' assume "good w'" "lookup w' = (lookup w1)(key (f e) := if gone (f e) then None else Some o')"
          "spec_of o' = spec_of (f e)" "key o' = key (f e)"
        then show "Q OpUpdated w'" using found e f w1 by (intro Q [where o' = o']) auto
      next
        fix err w' x assume "good w'" "lookup w' = (lookup w1)(key (f e) := x)" "\<not> is_panic err"
        then show "E err w'" using e f w1 by (intro E) auto
      qed
      with False show ?thesis by simp
    qed
  next
    fix err w1 assume w1: "good w1" "lookup w1 = lookup w" and nf: "IsNotFound err \<longrightarrow> lookup w (key obj) = None"
      and p: "\<not> is_panic err"
    show "(if IsNotFound err then wp (cl_create C (f obj)) (\<lambda>_. Q OpCreated) E w1 else E err w1)"
    proof (cases "IsNotFound err")
      case True
      have "wp (cl_create C (f obj)) (\<lambda>_. Q OpCreated) E w1"
      proof (rule wp_create [OF w1(1)])
        fix o' w' assume "good w'" "lookup w' = (lookup w1)(key (f obj) \<mapsto> o')"
          "\<not> pending (f obj) \<longrightarrow> spec_of o' = spec_of (f obj)" "key o' = key (f obj)"
        then show "Q OpCreated w'" using True nf f w1 by (intro Q [where o' = o']) auto
      next
        fix err w' x assume "good w'" "lookup w' = (lookup w1)(key (f obj) := x)" "\<not> is_panic err"
        then show "E err w'" using f w1 by (intro E) auto
      qed
      with True show ?thesis by simp
    next
      case False
      have "E err w1" using w1 p by (intro E [where x = "lookup w (key obj)"]) simp_all
      with False show ?thesis by simp
    qed
  qed
qed

end

section \<open>Actions that read and actions that leave something alone\<close>

definition act_read :: "('w \<Rightarrow> 'a) \<Rightarrow> ('w, 'a) act" where
  "act_read f w = (Inr (f w), w)"

lemma wp_read [wp_simps]: "wp (act_read f) Q E = (\<lambda>w. Q (f w) w)"
  by (simp add: wp_def act_read_def fun_eq_iff)

definition act_preserves :: "('w, 'a) act \<Rightarrow> ('w \<Rightarrow> 'v) \<Rightarrow> bool" where
  "act_preserves m obs \<longleftrightarrow> (\<forall>w. obs (snd (m w)) = obs w)"

text \<open>What an action preserves may be used in both postconditions.\<close>

lemma wp_preserves:
  assumes "act_preserves m obs"
    and "wp m (\<lambda>a w'. obs w' = obs w \<longrightarrow> Q a w') (\<lambda>e w'. obs w' = obs w \<longrightarrow> E e w') w"
  shows "wp m Q E w"
proof -
  have "obs (snd (m w)) = obs w" using assms(1) by (simp add: act_preserves_def)
  with assms(2) show ?thesis by (auto simp: wp_def split: prod.splits sum.splits)
qed

lemma act_preserves_bind:
  "act_preserves m obs \<Longrightarrow> (\<And>a. act_preserves (f a) obs) \<Longrightarrow> act_preserves (act_bind m f) obs"
  by (simp add: act_preserves_def act_bind_def split: prod.split sum.split)
     (metis snd_conv)

lemma act_preserves_base:
  "act_preserves (act_return a) obs" "act_preserves (act_raise e) obs" "act_preserves (act_lift r) obs"
  "act_preserves (act_read f) obs"
  by (simp_all add: act_preserves_def act_apply act_read_def)

lemma act_preserves_ignore: "act_preserves m obs \<Longrightarrow> act_preserves (ignore_not_found m) obs"
  by (simp add: act_preserves_def ignore_not_found_def split: prod.split sum.split) (metis snd_conv)

lemma act_preserves_try: "act_preserves m obs \<Longrightarrow> act_preserves (act_try m) obs"
  by (simp add: act_preserves_def act_try_def split: prod.split sum.split) (metis snd_conv)

lemma client_act_preserves:
  assumes "client_preserves C obs"
  shows "act_preserves (cl_get C k) obs" "act_preserves (cl_create C x) obs"
    "act_preserves (cl_update C x) obs" "act_preserves (cl_delete C x) obs"
  using assms by (simp_all add: client_preserves_def act_preserves_def)

lemma CreateOrUpdate_preserves:
  "client_preserves C obs \<Longrightarrow> act_preserves (CreateOrUpdate C key sem_eq f obj) obs"
  unfolding CreateOrUpdate_def
  by (auto intro!: act_preserves_bind act_preserves_base act_preserves_ignore client_act_preserves
      split: option.split)

end
