(* ===== verification/Kube_Watch.thy ===== *)
theory Kube_Watch
  imports Kube_Objects
begin

text \<open>
  How controller-runtime turns a change of a watched object into requests
  (\<open>pkg/handler\<close>, \<open>pkg/predicate\<close> and \<open>pkg/internal/source\<close>): the events of one kind of
  object, the predicates that filter them and the three event handlers the operator uses.  A
  handler is the list of requests it adds to the queue of its controller, in their order.
\<close>

section \<open>Events and predicates\<close>

datatype 'o watch_event =
    CreateEvent 'o
  | UpdateEvent 'o 'o
  | DeleteEvent 'o
  | GenericEvent 'o

text \<open>
  What an informer delivers when the stored object of one key was \<open>before\<close> and is \<open>after\<close>.
\<close>

fun change_events :: "'o option \<Rightarrow> 'o option \<Rightarrow> 'o watch_event list" where
  "change_events None None = []"
| "change_events None (Some new) = [CreateEvent new]"
| "change_events (Some old) (Some new) = (if old = new then [] else [UpdateEvent old new])"
| "change_events (Some old) None = [DeleteEvent old]"

record 'o predicate_funcs =
  pf_CreateFunc :: "('o \<Rightarrow> bool) option"
  pf_DeleteFunc :: "('o \<Rightarrow> bool) option"
  pf_UpdateFunc :: "('o \<Rightarrow> 'o \<Rightarrow> bool) option"
  pf_GenericFunc :: "('o \<Rightarrow> bool) option"

text \<open>A function that is not set lets the event pass.\<close>

fun predicate_passes :: "'o predicate_funcs \<Rightarrow> 'o watch_event \<Rightarrow> bool" where
  "predicate_passes p (CreateEvent obj) = (case pf_CreateFunc p of Some f \<Rightarrow> f obj | None \<Rightarrow> True)"
| "predicate_passes p (UpdateEvent old new) = (case pf_UpdateFunc p of Some f \<Rightarrow> f old new | None \<Rightarrow> True)"
| "predicate_passes p (DeleteEvent obj) = (case pf_DeleteFunc p of Some f \<Rightarrow> f obj | None \<Rightarrow> True)"
| "predicate_passes p (GenericEvent obj) = (case pf_GenericFunc p of Some f \<Rightarrow> f obj | None \<Rightarrow> True)"

text \<open>The handler runs on an event that every predicate of the source lets pass.\<close>

fun source_requests :: "'o predicate_funcs list \<Rightarrow> ('o watch_event \<Rightarrow> 'r list) \<Rightarrow> 'o watch_event \<Rightarrow> 'r list" where
  "source_requests [] handler ev = handler ev"
| "source_requests (p # ps) handler ev =
     (if \<not> predicate_passes p ev then [] else source_requests ps handler ev)"

lemma source_requests_eq:
  "source_requests ps handler ev = (if \<forall>p \<in> set ps. predicate_passes p ev then handler ev else [])"
  by (induction ps) auto

section \<open>Handlers\<close>

text \<open>\<open>TypedEnqueueRequestForObject\<close>; the object of an event is never nil here.\<close>

fun enqueue_for_object :: "('o \<Rightarrow> NamespacedName) \<Rightarrow> 'o watch_event \<Rightarrow> NamespacedName list" where
  "enqueue_for_object key (CreateEvent obj) = [key obj]"
| "enqueue_for_object key (UpdateEvent old new) = [key new]"
| "enqueue_for_object key (DeleteEvent obj) = [key obj]"
| "enqueue_for_object key (GenericEvent obj) = [key obj]"

text \<open>\<open>mapAndEnqueue\<close>: \<open>reqs\<close> are the requests of the event that are queued already.\<close>

fun map_and_enqueue :: "'r list \<Rightarrow> 'r list \<Rightarrow> 'r list" where
  "map_and_enqueue [] reqs = reqs"
| "map_and_enqueue (req # rs) reqs =
     map_and_enqueue rs (if req \<in> set reqs then reqs else reqs @ [req])"

fun enqueue_mapped :: "('o \<Rightarrow> 'r list) \<Rightarrow> 'o watch_event \<Rightarrow> 'r list" where
  "enqueue_mapped f (CreateEvent obj) = map_and_enqueue (f obj) []"
| "enqueue_mapped f (UpdateEvent old new) = map_and_enqueue (f new) (map_and_enqueue (f old) [])"
| "enqueue_mapped f (DeleteEvent obj) = map_and_enqueue (f obj) []"
| "enqueue_mapped f (GenericEvent obj) = map_and_enqueue (f obj) []"

text \<open>The objects an event carries, and the requests in terms of them.\<close>

fun event_objects :: "'o watch_event \<Rightarrow> 'o list" where
  "event_objects (CreateEvent obj) = [obj]"
| "event_objects (UpdateEvent old new) = [old, new]"
| "event_objects (DeleteEvent obj) = [obj]"
| "event_objects (GenericEvent obj) = [obj]"

lemma set_map_and_enqueue [simp]: "set (map_and_enqueue rs reqs) = set rs \<union> set reqs"
  by (induction rs reqs rule: map_and_enqueue.induct) auto

lemma distinct_map_and_enqueue: "distinct reqs \<Longrightarrow> distinct (map_and_enqueue rs reqs)"
  by (induction rs reqs rule: map_and_enqueue.induct) auto

lemma length_map_and_enqueue: "length (map_and_enqueue rs reqs) \<le> length rs + length reqs"
  by (induction rs reqs rule: map_and_enqueue.induct) (auto intro: order_trans)

lemma set_enqueue_mapped: "set (enqueue_mapped f ev) = (\<Union>obj \<in> set (event_objects ev). set (f obj))"
  by (cases ev) auto

section \<open>Owners\<close>

definition getOwnersReferences :: "bool \<Rightarrow> ObjectMeta \<Rightarrow> OwnerReference list" where
  "getOwnersReferences isController meta =
     (if \<not> isController then om_ownerReferences meta
      else case GetControllerOf meta of Some ownerRef \<Rightarrow> [ownerRef] | None \<Rightarrow> [])"

text \<open>
  \<open>getOwnerReconcileRequest\<close>.  \<open>mapping\<close> is the REST mapper: for a version of the owner's group
  and kind whether its scope is the root, or an error.  A reference that does not parse and a
  failed mapping end the loop with what has been found.
\<close>

fun owner_requests_loop ::
    "(string \<Rightarrow> go_error + bool) \<Rightarrow> string \<Rightarrow> string \<Rightarrow> string \<Rightarrow> OwnerReference list \<Rightarrow>
     NamespacedName list \<Rightarrow> NamespacedName list" where
  "owner_requests_loop mapping grp kind namespace [] result = result"
| "owner_requests_loop mapping grp kind namespace (ref # refs) result =
     (case ParseGroupVersion (owr_apiVersion ref) of
        Inl err \<Rightarrow> result
      | Inr refGV \<Rightarrow>
          if owr_kind ref = kind \<and> gv_group refGV = grp then
            (case mapping (gv_version refGV) of
               Inl err \<Rightarrow> result
             | Inr root \<Rightarrow>
                 (let request = \<lparr>nn_namespace = (if \<not> root then namespace else []), nn_name = owr_name ref\<rparr>
                  in owner_requests_loop mapping grp kind namespace refs (List.insert request result)))
          else owner_requests_loop mapping grp kind namespace refs result)"

definition getOwnerReconcileRequest ::
    "(string \<Rightarrow> go_error + bool) \<Rightarrow> string \<Rightarrow> string \<Rightarrow> bool \<Rightarrow> ObjectMeta \<Rightarrow> NamespacedName list \<Rightarrow> NamespacedName list" where
  "getOwnerReconcileRequest mapping grp kind isController meta result =
     owner_requests_loop mapping grp kind (om_namespace meta) (getOwnersReferences isController meta) result"

fun enqueue_for_owner ::
    "(string \<Rightarrow> go_error + bool) \<Rightarrow> string \<Rightarrow> string \<Rightarrow> bool \<Rightarrow> ObjectMeta watch_event \<Rightarrow> NamespacedName list" where
  "enqueue_for_owner mapping grp kind isController (CreateEvent obj) =
     getOwnerReconcileRequest mapping grp kind isController obj []"
| "enqueue_for_owner mapping grp kind isController (UpdateEvent old new) =
     getOwnerReconcileRequest mapping grp kind isController new
       (getOwnerReconcileRequest mapping grp kind isController old [])"
| "enqueue_for_owner mapping grp kind isController (DeleteEvent obj) =
     getOwnerReconcileRequest mapping grp kind isController obj []"
| "enqueue_for_owner mapping grp kind isController (GenericEvent obj) =
     getOwnerReconcileRequest mapping grp kind isController obj []"

lemma owner_requests_loop_grows:
  "set result \<subseteq> set (owner_requests_loop mapping grp kind ns refs result)"
proof (induction refs arbitrary: result)
  case (Cons ref refs)
  have "set result \<subseteq> set (owner_requests_loop mapping grp kind ns refs (List.insert req result))" for req
    using Cons.IH [of "List.insert req result"] by auto
  then show ?case using Cons.IH [of result] by (simp add: Let_def split: sum.split)
qed simp

text \<open>An object controlled by an owner of the group and kind asks for that owner, in each of its events.\<close>

lemma enqueue_for_owner_controlled:
  assumes "obj \<in> set (event_objects ev)" "GetControllerOf obj = Some ref"
    and "ParseGroupVersion (owr_apiVersion ref) = Inr gv" "gv_group gv = grp" "owr_kind ref = kind"
    and "mapping (gv_version gv) = Inr True"
  shows "\<lparr>nn_namespace = [], nn_name = owr_name ref\<rparr> \<in> set (enqueue_for_owner mapping grp kind True ev)"
proof -
  let ?req = "\<lparr>nn_namespace = [], nn_name = owr_name ref\<rparr>"
  have own: "?req \<in> set (getOwnerReconcileRequest mapping grp kind True obj result)" for result
    using assms(2-) by (simp add: getOwnerReconcileRequest_def getOwnersReferences_def Let_def)
  have grows: "?req \<in> set result \<Longrightarrow> ?req \<in> set (getOwnerReconcileRequest mapping grp kind True o' result)" for o' result
    using owner_requests_loop_grows unfolding getOwnerReconcileRequest_def by blast
  show ?thesis using assms(1) own grows by (cases ev) auto
qed

text \<open>Nothing else asks for anything: an object without a controller leads to no request.\<close>

lemma enqueue_for_owner_uncontrolled:
  assumes "\<And>obj. obj \<in> set (event_objects ev) \<Longrightarrow> GetControllerOf obj = None"
  shows "enqueue_for_owner mapping grp kind True ev = []"
  using assms by (cases ev) (simp_all add: getOwnerReconcileRequest_def getOwnersReferences_def)

end
