(* ===== verification/Kube_Manager.thy ===== *)
theory Kube_Manager
  imports Kube_Watch
begin

text \<open>
  The manager of controller-runtime as the operator assembles it: the types registered with its
  scheme, the controllers with the sources they watch (\<open>pkg/controller\<close>), and the runnables that
  were added.  \<open>'r\<close> are the runnables that are no controllers.  \<open>Manager.Add\<close> may fail; what it
  answers is a field of \<open>mgr_env\<close>.
\<close>

section \<open>Sources\<close>

datatype watch_handler =
    EnqueueRequestForObject
  | EnqueueRequestForOwner GroupVersionKind bool
  | EnqueueRequestsFromMapFunc

text \<open>A source of one kind; \<open>wt_filtered\<close> says whether it has the predicate of the controller.\<close>

record watch =
  wt_kind :: GroupVersionKind
  wt_handler :: watch_handler
  wt_filtered :: bool

text \<open>
  How the objects of a controller look to its sources: their kind, key and metadata, its map
  function and its predicate.
\<close>

record 'o object_view =
  ov_kind :: "'o \<Rightarrow> GroupVersionKind"
  ov_key :: "'o \<Rightarrow> NamespacedName"
  ov_meta :: "'o \<Rightarrow> ObjectMeta"
  ov_map :: "'o \<Rightarrow> NamespacedName list"
  ov_predicate :: "'o predicate_funcs"

text \<open>\<open>mapping\<close> is the REST mapper, for a kind and version whether its scope is the root.\<close>

definition handler_requests ::
    "(GroupVersionKind \<Rightarrow> string \<Rightarrow> go_error + bool) \<Rightarrow> 'o object_view \<Rightarrow> watch_handler \<Rightarrow> 'o watch_event \<Rightarrow>
     NamespacedName list" where
  "handler_requests mapping view h ev =
     (case h of
        EnqueueRequestForObject \<Rightarrow> enqueue_for_object (ov_key view) ev
      | EnqueueRequestForOwner owner onlyController \<Rightarrow>
          enqueue_for_owner (mapping owner) (gvk_group owner) (gvk_kind owner) onlyController
            (map_watch_event (ov_meta view) ev)
      | EnqueueRequestsFromMapFunc \<Rightarrow> enqueue_mapped (ov_map view) ev)"

text \<open>A source sees the events of its kind.\<close>

definition watch_requests ::
    "(GroupVersionKind \<Rightarrow> string \<Rightarrow> go_error + bool) \<Rightarrow> 'o object_view \<Rightarrow> watch \<Rightarrow> 'o watch_event \<Rightarrow> NamespacedName list" where
  "watch_requests mapping view w ev =
     (if list_all (\<lambda>obj. ov_kind view obj = wt_kind w) (event_objects ev) then
        source_requests (if wt_filtered w then [ov_predicate view] else [])
          (handler_requests mapping view (wt_handler w)) ev
      else [])"

definition controller_requests ::
    "(GroupVersionKind \<Rightarrow> string \<Rightarrow> go_error + bool) \<Rightarrow> 'o object_view \<Rightarrow> watch list \<Rightarrow> 'o watch_event \<Rightarrow> NamespacedName list" where
  "controller_requests mapping view ws ev = concat (map (\<lambda>w. watch_requests mapping view w ev) ws)"

lemma event_objects_map [simp]: "event_objects (map_watch_event f ev) = map f (event_objects ev)"
  by (cases ev) simp_all

lemma set_controller_requests:
  "set (controller_requests mapping view ws ev) = (\<Union>w \<in> set ws. set (watch_requests mapping view w ev))"
  by (simp add: controller_requests_def)

section \<open>The manager\<close>

datatype 'r runnable = RunController string | RunOther 'r

record 'r manager =
  mg_scheme :: "GroupVersionKind list"
  mg_usedNames :: "string list"
  mg_controllers :: "(string \<times> watch list) list"
  mg_runnables :: "'r runnable list"

text \<open>
  \<open>me_Add\<close> is what \<open>Manager.Add\<close> answers, nothing where it adds the runnable.
\<close>

record 'r mgr_env =
  me_Add :: "'r runnable \<Rightarrow> 'r manager \<Rightarrow> go_error option"

definition manager_Add :: "'r mgr_env \<Rightarrow> 'r runnable \<Rightarrow> ('r manager, unit) act" where
  "manager_Add env r m =
     (case me_Add env r m of
        Some err \<Rightarrow> (Inl err, m)
      | None \<Rightarrow> (Inr (), m\<lparr>mg_runnables := mg_runnables m @ [r]\<rparr>))"

definition checkName :: "string \<Rightarrow> ('r manager, unit) act" where
  "checkName name m =
     (if name \<in> set (mg_usedNames m) then
        (Inl (GoError ''controller with name %s already exists. Controller names must be unique to avoid multiple controllers reporting the same metric. This validation can be disabled via the SkipNameValidation option'' [ArgS name]), m)
      else (Inr (), m\<lparr>mg_usedNames := name # mg_usedNames m\<rparr>))"

text \<open>
  \<open>New\<close>: a controller has the watches registered with it before it starts; it exists whether or not
  the manager takes it.
\<close>

definition controller_New :: "'r mgr_env \<Rightarrow> string \<Rightarrow> ('r manager, unit) act" where
  "controller_New env name =
     (if length name = 0 then act_raise (errorf ''must specify Name for Controller'')
      else act_bind (checkName name) (\<lambda>_.
        act_bind (act_do (\<lambda>m. m\<lparr>mg_controllers := mg_controllers m @ [(name, [])]\<rparr>)) (\<lambda>_.
        manager_Add env (RunController name))))"

text \<open>\<open>Watch\<close> on a controller that has not started keeps the source and does not fail.\<close>

definition controller_Watch :: "string \<Rightarrow> watch \<Rightarrow> ('r manager, unit) act" where
  "controller_Watch name w =
     act_do (\<lambda>m. m\<lparr>mg_controllers := map (\<lambda>(n, ws). (n, if n = name then ws @ [w] else ws)) (mg_controllers m)\<rparr>)"

text \<open>\<open>TypedEnqueueRequestForOwner\<close> panics where the owner's type is not registered.\<close>

definition owner_handler :: "GroupVersionKind \<Rightarrow> bool \<Rightarrow> ('r manager, watch_handler) act" where
  "owner_handler owner onlyController m =
     (if owner \<in> set (mg_scheme m) then (Inr (EnqueueRequestForOwner owner onlyController), m)
      else (Inl (GoPanic ''no kind is registered for the type''), m))"

section \<open>Assembling in steps\<close>

lemma wp_manager_Add [wp_simps]:
  "wp (manager_Add env r) Q E = (\<lambda>m. case me_Add env r m of
     Some err \<Rightarrow> E err m | None \<Rightarrow> Q () (m\<lparr>mg_runnables := mg_runnables m @ [r]\<rparr>))"
  by (simp add: wp_def manager_Add_def fun_eq_iff split: option.split)

text \<open>A new controller: its name is used, it watches nothing, and the manager runs it.\<close>

lemma wp_controller_New:
  assumes "name \<noteq> []" "name \<notin> set (mg_usedNames m)"
    and "\<And>m'. \<lbrakk>mg_scheme m' = mg_scheme m; mg_usedNames m' = name # mg_usedNames m;
      mg_controllers m' = mg_controllers m @ [(name, [])]; mg_runnables m' = mg_runnables m @ [RunController name];
      \<exists>m1. me_Add env (RunController name) m1 = None \<and> mg_runnables m1 = mg_runnables m\<rbrakk> \<Longrightarrow> Q () m'"
    and "\<And>e m'. \<lbrakk>mg_runnables m' = mg_runnables m; me_Add env (RunController name) m' = Some e\<rbrakk> \<Longrightarrow> E e m'"
  shows "wp (controller_New env name) Q E m"
proof -
  define m1 where "m1 = m\<lparr>mg_usedNames := name # mg_usedNames m, mg_controllers := mg_controllers m @ [(name, [])]\<rparr>"
  have run: "controller_New env name m = manager_Add env (RunController name) m1"
    using assms(1,2) by (simp add: controller_New_def checkName_def act_bind_def act_do_def m1_def)
  have "wp (manager_Add env (RunController name)) Q E m1"
    unfolding wp_simps
    by (auto simp: m1_def intro!: assms(3,4) exI [of _ m1] split: option.split)
  then show ?thesis by (simp add: wp_def run)
qed

text \<open>Watching a new controller touches that controller only.\<close>

lemma wp_controller_Watch:
  assumes "mg_controllers m = cs @ [(name, ws)]" "name \<notin> fst ` set cs"
    and "\<And>m'. \<lbrakk>mg_scheme m' = mg_scheme m; mg_usedNames m' = mg_usedNames m;
      mg_controllers m' = cs @ [(name, ws @ [w])]; mg_runnables m' = mg_runnables m\<rbrakk> \<Longrightarrow> Q () m'"
  shows "wp (controller_Watch name w) Q E m"
proof -
  have "map (\<lambda>(n, ws). (n, if n = name then ws @ [w] else ws)) cs = cs"
    using assms(2) by (intro map_idI) (force split: prod.splits)
  then show ?thesis
    unfolding controller_Watch_def wp_simps by (intro assms(3)) (simp_all add: assms(1))
qed

lemma wp_owner_handler [wp_simps]:
  "wp (owner_handler owner b) Q E = (\<lambda>m. if owner \<in> set (mg_scheme m) then Q (EnqueueRequestForOwner owner b) m
     else E (GoPanic ''no kind is registered for the type'') m)"
  by (simp add: wp_def owner_handler_def fun_eq_iff)

end
