(* ===== verification/Go_Regexp.thy ===== *)
theory Go_Regexp
  imports Go_Strings
begin

text \<open>
  Regular expressions anchored at both ends, as \<open>regexp.MatchString\<close> decides them for
  the patterns the label validation uses: a matcher by derivatives, its language, and the
  proof that the matcher decides it.
\<close>

datatype rexp =
    REmpty
  | REps
  | RSet "char \<Rightarrow> bool"
  | RSeq rexp rexp
  | RAlt rexp rexp
  | RStar rexp

definition ROpt :: "rexp \<Rightarrow> rexp" where
  "ROpt r = RAlt r REps"

primrec nullable :: "rexp \<Rightarrow> bool" where
  "nullable REmpty = False"
| "nullable REps = True"
| "nullable (RSet p) = False"
| "nullable (RSeq r s) = (nullable r \<and> nullable s)"
| "nullable (RAlt r s) = (nullable r \<or> nullable s)"
| "nullable (RStar r) = True"

primrec deriv :: "char \<Rightarrow> rexp \<Rightarrow> rexp" where
  "deriv c REmpty = REmpty"
| "deriv c REps = REmpty"
| "deriv c (RSet p) = (if p c then REps else REmpty)"
| "deriv c (RSeq r s) =
     (if nullable r then RAlt (RSeq (deriv c r) s) (deriv c s) else RSeq (deriv c r) s)"
| "deriv c (RAlt r s) = RAlt (deriv c r) (deriv c s)"
| "deriv c (RStar r) = RSeq (deriv c r) (RStar r)"

primrec MatchString :: "rexp \<Rightarrow> string \<Rightarrow> bool" where
  "MatchString r [] = nullable r"
| "MatchString r (c # s) = MatchString (deriv c r) s"

section \<open>The language of an expression\<close>

inductive_set star :: "string set \<Rightarrow> string set" for L where
  star_Nil: "[] \<in> star L"
| star_app: "s \<in> L \<Longrightarrow> t \<in> star L \<Longrightarrow> s @ t \<in> star L"

primrec lang :: "rexp \<Rightarrow> string set" where
  "lang REmpty = {}"
| "lang REps = {[]}"
| "lang (RSet p) = {[c] | c. p c}"
| "lang (RSeq r s) = {x @ y | x y. x \<in> lang r \<and> y \<in> lang s}"
| "lang (RAlt r s) = lang r \<union> lang s"
| "lang (RStar r) = star (lang r)"

lemma lang_RSeqI: "x \<in> lang r \<Longrightarrow> y \<in> lang s \<Longrightarrow> x @ y \<in> lang (RSeq r s)"
  by auto

lemma nullable_lang: "nullable r \<longleftrightarrow> [] \<in> lang r"
  by (induction r) (auto intro: star_Nil)

lemma star_Cons:
  assumes "w \<in> star L" "w = c # s"
  shows "\<exists>x y. s = x @ y \<and> c # x \<in> L \<and> y \<in> star L"
  using assms
proof (induction arbitrary: s)
  case (star_app u t)
  then show ?case by (cases u) auto
qed simp

lemma lang_deriv: "s \<in> lang (deriv c r) \<longleftrightarrow> c # s \<in> lang r"
proof (induction r arbitrary: s)
  case (RSeq r1 r2)
  have "c # s \<in> lang (RSeq r1 r2) \<longleftrightarrow>
      (\<exists>x y. s = x @ y \<and> c # x \<in> lang r1 \<and> y \<in> lang r2) \<or> ([] \<in> lang r1 \<and> c # s \<in> lang r2)"
    by (auto simp: Cons_eq_append_conv)
  then show ?case using RSeq by (auto simp: nullable_lang)
next
  case (RStar r)
  have "c # s \<in> star (lang r) \<longleftrightarrow> (\<exists>x y. s = x @ y \<and> c # x \<in> lang r \<and> y \<in> star (lang r))"
    using star_Cons star_app [of "c # _"] by fastforce
  then show ?case using RStar by auto
qed auto

lemma MatchString_lang: "MatchString r s \<longleftrightarrow> s \<in> lang r"
  by (induction s arbitrary: r) (simp_all add: nullable_lang lang_deriv)

lemma star_RSet: "s \<in> star {[c] | c. p c} \<longleftrightarrow> list_all p s"
proof
  show "s \<in> star {[c] | c. p c} \<Longrightarrow> list_all p s"
    by (induction rule: star.induct) auto
  show "list_all p s \<Longrightarrow> s \<in> star {[c] | c. p c}"
  proof (induction s)
    case (Cons c s)
    then show ?case using star_app [of "[c]" "{[c] | c. p c}" s] by simp
  qed (simp add: star_Nil)
qed

end
