(* ===== verification/CAO_Util.thy ===== *)
theory CAO_Util
  imports Kube_Meta Go_Regexp
begin

text \<open>
  The package \<open>pkg/util\<close> (\<open>util.go\<close>, \<open>validator.go\<close>, \<open>units.go\<close>) and the
  helpers of vendored packages it calls: filtering a string slice, release-version
  annotations, the test that a Deployment is rolled out, the condition list of a
  ClusterOperator, validator responses, and the check of the GPU accelerator label.
\<close>

section \<open>Constants\<close>

definition ReleaseVersionAnnotation :: string where
  "ReleaseVersionAnnotation = ''release.openshift.io/version''"

definition CriticalPodAnnotation :: string where
  "CriticalPodAnnotation = ''scheduler.alpha.kubernetes.io/critical-pod''"

definition WorkloadManagementAnnotation :: string where
  "WorkloadManagementAnnotation = ''target.workload.openshift.io/management''"

definition WorkloadManagementSchedulingPreferred :: string where
  \<open>WorkloadManagementSchedulingPreferred = ''{"effect": "PreferredDuringScheduling"}''\<close>

definition GB :: int where "GB = 1000 * 1000 * 1000"
definition GiB :: int where "GiB = 1024 * 1024 * 1024"
definition MB :: int where "MB = 1000 * 1000"
definition MiB :: int where "MiB = 1024 * 1024"

section \<open>Slices and annotations\<close>

text \<open>The loop appends to \<open>newSlice\<close> and counts in \<open>found\<close>.\<close>

fun filter_loop :: "string \<Rightarrow> string list \<Rightarrow> string list \<Rightarrow> nat \<Rightarrow> string list \<times> nat" where
  "filter_loop needle [] newSlice found = (newSlice, found)"
| "filter_loop needle (x # xs) newSlice found =
     (if x \<noteq> needle then filter_loop needle xs (newSlice @ [x]) found
      else filter_loop needle xs newSlice (found + 1))"

definition FilterString :: "string list \<Rightarrow> string \<Rightarrow> string list \<times> nat" where
  "FilterString haystack needle = filter_loop needle haystack [] 0"

definition ReleaseVersionMatches :: "strmap \<Rightarrow> string \<Rightarrow> bool" where
  "ReleaseVersionMatches annotations version =
     (case map_get annotations ReleaseVersionAnnotation of
        None \<Rightarrow> False
      | Some value \<Rightarrow> \<not> value \<noteq> version)"

lemma filter_loop_eq:
  "filter_loop needle xs acc n = (acc @ filter (\<lambda>x. x \<noteq> needle) xs, n + count_list xs needle)"
  by (induction xs arbitrary: acc n) auto

lemma FilterString_eq: "FilterString xs x = (filter (\<lambda>y. y \<noteq> x) xs, count_list xs x)"
  by (simp add: FilterString_def filter_loop_eq)

lemma ReleaseVersionMatches_iff:
  "ReleaseVersionMatches a v \<longleftrightarrow> map_get a ReleaseVersionAnnotation = Some v"
  by (simp add: ReleaseVersionMatches_def split: option.splits)

section \<open>Deployments\<close>

text \<open>The fields of \<open>appsv1.Deployment\<close> that \<open>DeploymentUpdated\<close> reads.\<close>

record DeploymentStatus =
  ds_observedGeneration :: int
  ds_replicas :: int32
  ds_updatedReplicas :: int32
  ds_availableReplicas :: int32

definition DeploymentUpdated :: "int \<Rightarrow> DeploymentStatus \<Rightarrow> bool" where
  "DeploymentUpdated generation st =
     (if ds_observedGeneration st < generation then False
      else if ds_updatedReplicas st \<noteq> ds_replicas st then False
      else if ds_availableReplicas st = 0 then False
      else True)"

section \<open>Conditions of a ClusterOperator\<close>

record condition =
  cond_type :: string
  cond_status :: string
  cond_reason :: string
  cond_message :: string
  cond_time :: int

text \<open>\<open>FindStatusCondition\<close> returns a pointer into the slice: an index here.\<close>

fun FindStatusCondition :: "condition list \<Rightarrow> string \<Rightarrow> nat option" where
  "FindStatusCondition [] t = None"
| "FindStatusCondition (c # cs) t =
     (if cond_type c = t then Some 0 else map_option Suc (FindStatusCondition cs t))"

text \<open>\<open>SetStatusCondition\<close> with the clock reading \<open>now\<close>, writing through the pointer.\<close>

definition SetStatusCondition :: "int \<Rightarrow> condition \<Rightarrow> condition list \<Rightarrow> condition list" where
  "SetStatusCondition now new conds =
     (case FindStatusCondition conds (cond_type new) of
        None \<Rightarrow> conds @ [new\<lparr>cond_time := now\<rparr>]
      | Some i \<Rightarrow>
          (let old = conds ! i;
               old1 = (if cond_status old \<noteq> cond_status new
                       then old\<lparr>cond_status := cond_status new, cond_time := now\<rparr> else old)
           in conds[i := old1\<lparr>cond_reason := cond_reason new, cond_message := cond_message new\<rparr>]))"

text \<open>
  \<open>ResetProgressingTime\<close>: \<open>prog\<close> points into the slice when the condition is found, so
  setting its time writes the slice; \<open>now\<close> and \<open>now'\<close> are the readings of
  \<open>metav1.Now\<close> and of the real clock.
\<close>

definition ResetProgressingTime :: "int \<Rightarrow> int \<Rightarrow> condition list \<Rightarrow> condition list" where
  "ResetProgressingTime now now' conds =
     (case FindStatusCondition conds ''Progressing'' of
        None \<Rightarrow>
          SetStatusCondition now'
            \<lparr>cond_type = ''Progressing'', cond_status = ''False'', cond_reason = '''',
             cond_message = '''', cond_time = now\<rparr> conds
      | Some i \<Rightarrow>
          (let conds' = conds[i := (conds ! i)\<lparr>cond_time := now\<rparr>]
           in SetStatusCondition now' (conds' ! i) conds'))"

lemma FindStatusCondition_None:
  "FindStatusCondition cs t = None \<longleftrightarrow> (\<forall>c \<in> set cs. cond_type c \<noteq> t)"
  by (induction cs) auto

lemma FindStatusCondition_Some:
  "FindStatusCondition cs t = Some i \<Longrightarrow>
   i < length cs \<and> cond_type (cs ! i) = t \<and> (\<forall>j < i. cond_type (cs ! j) \<noteq> t)"
proof (induction cs arbitrary: i)
  case (Cons c cs)
  show ?case
  proof (cases "cond_type c = t")
    case False
    with Cons.prems obtain i' where i': "FindStatusCondition cs t = Some i'" "i = Suc i'" by auto
    show ?thesis using Cons.IH [OF i'(1)] i'(2) False by (auto simp: less_Suc_eq_0_disj)
  qed (use Cons.prems in simp)
qed simp

lemma FindStatusCondition_update:
  "cond_type c = cond_type (cs ! i) \<Longrightarrow> FindStatusCondition (cs[i := c]) t = FindStatusCondition cs t"
  by (induction cs arbitrary: i) (auto split: nat.splits)

lemma FindStatusCondition_append:
  "FindStatusCondition cs t = None \<Longrightarrow> cond_type c = t \<Longrightarrow>
   FindStatusCondition (cs @ [c]) t = Some (length cs)"
  by (induction cs) (auto split: if_splits)

lemma FindStatusCondition_append_other:
  "cond_type c \<noteq> t \<Longrightarrow> FindStatusCondition (cs @ [c]) t = FindStatusCondition cs t"
  by (induction cs) auto

text \<open>The condition stored under a type, by value.\<close>

definition cond_of :: "condition list \<Rightarrow> string \<Rightarrow> condition option" where
  "cond_of cs t = map_option (\<lambda>i. cs ! i) (FindStatusCondition cs t)"

lemma cond_of_type: "cond_of cs t = Some c \<Longrightarrow> cond_type c = t"
  by (auto simp: cond_of_def dest: FindStatusCondition_Some)

lemma cond_of_update:
  assumes "FindStatusCondition cs (cond_type c) = Some i"
  shows "cond_of (cs[i := c]) t = (if t = cond_type c then Some c else cond_of cs t)"
proof -
  note i = FindStatusCondition_Some [OF assms]
  have fi: "FindStatusCondition (cs[i := c]) t = FindStatusCondition cs t" for t
    using i by (simp add: FindStatusCondition_update)
  show ?thesis
  proof (cases "t = cond_type c")
    case True
    then show ?thesis using i by (simp add: cond_of_def fi assms)
  next
    case False
    have "cs[i := c] ! j = cs ! j" if "FindStatusCondition cs t = Some j" for j
      using FindStatusCondition_Some [OF that] i False by (cases "i = j") auto
    then show ?thesis using False
      by (cases "FindStatusCondition cs t") (simp_all add: cond_of_def fi)
  qed
qed

text \<open>What \<open>SetStatusCondition\<close> stores: the transition time moves only with the status.\<close>

lemma cond_of_SetStatusCondition:
  "cond_of (SetStatusCondition now new cs) t =
     (if t \<noteq> cond_type new then cond_of cs t
      else Some (new\<lparr>cond_time :=
        (case cond_of cs t of
           None \<Rightarrow> now
         | Some old \<Rightarrow> if cond_status old = cond_status new then cond_time old else now)\<rparr>))"
proof (cases "FindStatusCondition cs (cond_type new)")
  case None
  then show ?thesis
  proof (cases "t = cond_type new")
    case True
    with None show ?thesis
      by (simp add: SetStatusCondition_def cond_of_def FindStatusCondition_append)
  next
    case False
    have "(cs @ [c]) ! j = cs ! j" if "FindStatusCondition cs t = Some j" for j c
      using FindStatusCondition_Some [OF that] by (simp add: nth_append)
    with None False show ?thesis
      by (cases "FindStatusCondition cs t")
         (simp_all add: SetStatusCondition_def cond_of_def FindStatusCondition_append_other)
  qed
next
  case (Some i)
  note i = FindStatusCondition_Some [OF Some]
  define old1 where "old1 = (if cond_status (cs ! i) \<noteq> cond_status new
      then (cs ! i)\<lparr>cond_status := cond_status new, cond_time := now\<rparr> else cs ! i)
        \<lparr>cond_reason := cond_reason new, cond_message := cond_message new\<rparr>"
  have t: "cond_type old1 = cond_type new" using i by (simp add: old1_def)
  have "SetStatusCondition now new cs = cs[i := old1]"
    by (simp add: SetStatusCondition_def Some old1_def Let_def)
  then have "cond_of (SetStatusCondition now new cs) t = (if t = cond_type new then Some old1 else cond_of cs t)"
    using cond_of_update [of cs old1 i t] Some t by simp
  moreover have "old1 = new\<lparr>cond_time :=
      (if cond_status (cs ! i) = cond_status new then cond_time (cs ! i) else now)\<rparr>"
    using i by (simp add: old1_def)
  moreover have "cond_of cs (cond_type new) = Some (cs ! i)" by (simp add: cond_of_def Some)
  ultimately show ?thesis by simp
qed

section \<open>Validator responses\<close>

text \<open>\<open>utilerrors.NewAggregate\<close>: nil for no errors; the errors given are never nil here.\<close>

definition NewAggregate :: "go_error list \<Rightarrow> go_error list option" where
  "NewAggregate errlist = (if errlist = [] then None else Some errlist)"

record ValidatorResponse =
  vr_Warnings :: "string list"
  vr_Errors :: "go_error list option"

definition IsValid :: "ValidatorResponse \<Rightarrow> bool" where
  "IsValid vr \<longleftrightarrow> (case vr_Errors vr of None \<Rightarrow> True | Some es \<Rightarrow> length es = 0)"

text \<open>\<open>errors.Errors\<close> as an error value, where the caller returns it.\<close>

definition aggregate_error :: "ValidatorResponse \<Rightarrow> go_error" where
  "aggregate_error vr = GoAggregate (case vr_Errors vr of None \<Rightarrow> [] | Some es \<Rightarrow> es)"

text \<open>The responses of an admission webhook the validators give (\<open>admission.Response\<close>).\<close>

datatype admission_response =
    Errored int go_error
  | Denied "go_error list" "string list" \<comment> \<open>errors, warnings\<close>
  | Allowed string "string list"

definition StatusBadRequest :: int where
  "StatusBadRequest = 400"

section \<open>The GPU accelerator label\<close>

definition char_range :: "char \<Rightarrow> char \<Rightarrow> char \<Rightarrow> bool" where
  "char_range lo hi c \<longleftrightarrow> (of_char lo :: nat) \<le> of_char c \<and> (of_char c :: nat) \<le> of_char hi"

definition labelKeyChar :: "char \<Rightarrow> bool" where
  "labelKeyChar c \<longleftrightarrow>
     char_range (CHR ''A'') (CHR ''Z'') c \<or> char_range (CHR ''a'') (CHR ''z'') c
     \<or> char_range (CHR ''0'') (CHR ''9'') c"

definition labelKeyExtChar :: "char \<Rightarrow> bool" where
  "labelKeyExtChar c \<longleftrightarrow> c = CHR ''-'' \<or> labelKeyChar c \<or> c = CHR ''_'' \<or> c = CHR ''.''"

definition labelKeyRegexp :: rexp where
  "labelKeyRegexp =
     RSeq (ROpt (RSeq (RSet labelKeyChar) (RStar (RSet labelKeyExtChar)))) (RSet labelKeyChar)"

definition labelValueRegexp :: rexp where
  "labelValueRegexp = ROpt labelKeyRegexp"

definition LabelValueMaxLength :: nat where
  "LabelValueMaxLength = 63"

definition labelValueFmt :: string where
  "labelValueFmt = ''(([A-Za-z0-9][-A-Za-z0-9_.]*)?[A-Za-z0-9])?''"

definition quoted :: "string \<Rightarrow> string" where
  "quoted s = [CHR 0x27] @ s @ [CHR 0x27]"

definition labelValueErrMsg :: string where
  "labelValueErrMsg =
     ''a valid label must be an empty string or consist of alphanumeric characters, '' @ quoted ''-''
     @ '', '' @ quoted ''_'' @ '' or '' @ quoted ''.''
     @ '', and must start and end with an alphanumeric character''"

definition MaxLenError :: "nat \<Rightarrow> string" where
  "MaxLenError n = ''must be no more than '' @ Itoa (int n) @ '' bytes''"

definition RegexError :: "string \<Rightarrow> string \<Rightarrow> string list \<Rightarrow> string" where
  "RegexError msg re examples =
     (if examples = [] then msg @ '' (regex used for validation is '' @ quoted re @ '')''
      else msg @ '' (e.g. ''
        @ concat (map (\<lambda>i. (if i > 0 then '' or '' else '''') @ quoted (examples ! i) @ '', '')
            [0 ..< length examples])
        @ ''regex used for validation is '' @ quoted re @ '')'')"

definition IsLabelValue :: "string \<Rightarrow> string list" where
  "IsLabelValue value =
     (if length value > LabelValueMaxLength then [MaxLenError LabelValueMaxLength] else [])
     @ (if \<not> MatchString labelValueRegexp value
        then [RegexError labelValueErrMsg labelValueFmt [''MyValue'', ''my_value'', ''12345'']] else [])"

definition GPUAcceleratorLabelAbsentWarning :: "string \<Rightarrow> string \<Rightarrow> string" where
  "GPUAcceleratorLabelAbsentWarning kind name =
     ''GPU accelerator label not found on '' @ kind @ '' '' @ name @ ''. ''"

definition GPUAcceleratorLabelEmptyStringWarning :: string where
  "GPUAcceleratorLabelEmptyStringWarning = ''GPU accelerator label is empty. ''"

definition GPUAcceleratorLabelPoorlyFormedWarning :: "string \<Rightarrow> string \<Rightarrow> string" where
  "GPUAcceleratorLabelPoorlyFormedWarning value errs =
     ''GPU accelerator label contains a poorly formed value: '' @ value @ '', errors: '' @ errs @ ''. ''"

definition GPUAcceleratorLabelKCSWarning :: string where
  "GPUAcceleratorLabelKCSWarning =
     ''This is not an error but may cause issues when using GPU resource limits with the Cluster Autoscaler. For more information on the proper use of these values, please see https://access.redhat.com/solutions/6055181''"

definition IsValidGPUAcceleratorLabel :: "string \<Rightarrow> string" where
  "IsValidGPUAcceleratorLabel target =
     (let errs = IsLabelValue target;
          warning = (if length target = 0 then GPUAcceleratorLabelEmptyStringWarning
                     else if length errs > 0 then
                       GPUAcceleratorLabelPoorlyFormedWarning target (join_with '','' errs)
                     else '''')
      in if length warning > 0 then warning @ GPUAcceleratorLabelKCSWarning else warning)"

text \<open>What a label value is, without the regular expression.\<close>

definition label_value :: "string \<Rightarrow> bool" where
  "label_value s \<longleftrightarrow>
     (s = [] \<or> (labelKeyChar (hd s) \<and> labelKeyChar (last s) \<and> list_all labelKeyExtChar s))
     \<and> length s \<le> 63"

lemma labelKeyChar_ext: "labelKeyChar c \<Longrightarrow> labelKeyExtChar c"
  by (simp add: labelKeyExtChar_def)

lemma labelKeyRegexp_lang:
  "s \<in> lang labelKeyRegexp \<longleftrightarrow>
   s \<noteq> [] \<and> labelKeyChar (hd s) \<and> labelKeyChar (last s) \<and> list_all labelKeyExtChar s"
    (is "?l \<longleftrightarrow> ?r")
proof
  assume ?l
  then obtain x c where s: "s = x @ [c]" "labelKeyChar c"
    and x: "x = [] \<or> (\<exists>d y. x = d # y \<and> labelKeyChar d \<and> list_all labelKeyExtChar y)"
    by (auto simp: labelKeyRegexp_def ROpt_def star_RSet)
  from x s show ?r by (auto simp: labelKeyChar_ext)
next
  assume r: ?r
  then obtain x c where s: "s = x @ [c]" by (cases s rule: rev_cases) auto
  with r have c: "labelKeyChar c" and x: "list_all labelKeyExtChar x" by auto
  have "x = [] \<or> (\<exists>d y. x = [d] @ y \<and> labelKeyChar d \<and> list_all labelKeyExtChar y)"
    using r s x by (cases x) auto
  then have "x \<in> lang (ROpt (RSeq (RSet labelKeyChar) (RStar (RSet labelKeyExtChar))))"
    using lang_RSeqI [of "[_]" "RSet labelKeyChar" _ "RStar (RSet labelKeyExtChar)"]
    by (auto simp: ROpt_def star_RSet simp del: lang.simps(4))
  with s c show ?l
    unfolding labelKeyRegexp_def by (simp only: s) (rule lang_RSeqI, simp_all)
qed

lemma IsLabelValue_iff: "IsLabelValue s = [] \<longleftrightarrow> label_value s"
  by (auto simp: IsLabelValue_def MatchString_lang labelValueRegexp_def ROpt_def
      labelKeyRegexp_lang label_value_def LabelValueMaxLength_def)

lemma IsValidGPUAcceleratorLabel_iff:
  "IsValidGPUAcceleratorLabel s = [] \<longleftrightarrow> s \<noteq> [] \<and> label_value s"
  unfolding IsValidGPUAcceleratorLabel_def Let_def
  by (cases "s = []"; cases "IsLabelValue s")
     (auto simp: IsLabelValue_iff [symmetric] GPUAcceleratorLabelEmptyStringWarning_def
       GPUAcceleratorLabelPoorlyFormedWarning_def)

end
