(* ===== verification/MA_Types.thy ===== *)
theory MA_Types
  imports Kube_Client CAO_Util
begin

text \<open>
  The resource \<open>MachineAutoscaler\<close>
  (\<open>pkg/apis/autoscaling/v1beta1/machineautoscaler_types.go\<close>) and its validator
  (\<open>pkg/controller/machineautoscaler/validator.go\<close>), with the accessors of its metadata
  that a server uses.  The validator is what both the admission webhook and the reconciler
  run.
\<close>

section \<open>The resource\<close>

record CrossVersionObjectReference =
  cv_APIVersion :: string
  cv_Kind :: string
  cv_Name :: string

record MachineAutoscaler =
  ma_meta :: ObjectMeta
  ma_MinReplicas :: int32
  ma_MaxReplicas :: int32
  ma_ScaleTargetRef :: CrossVersionObjectReference
  ma_LastTargetRef :: "CrossVersionObjectReference option"

definition ma_key :: "MachineAutoscaler \<Rightarrow> NamespacedName" where
  "ma_key ma = meta_key (ma_meta ma)"

definition ma_GetFinalizers :: "MachineAutoscaler \<Rightarrow> string list" where
  "ma_GetFinalizers ma = om_finalizers (ma_meta ma)"

definition ma_SetFinalizers :: "string list \<Rightarrow> MachineAutoscaler \<Rightarrow> MachineAutoscaler" where
  "ma_SetFinalizers f ma = ma\<lparr>ma_meta := (ma_meta ma)\<lparr>om_finalizers := f\<rparr>\<rparr>"

definition ma_GetDeletionTimestamp :: "MachineAutoscaler \<Rightarrow> string option" where
  "ma_GetDeletionTimestamp ma = om_deletionTimestamp (ma_meta ma)"

text \<open>What an update writes: the metadata and the spec, not the status.\<close>

definition ma_written :: "MachineAutoscaler \<Rightarrow> ObjectMeta \<times> int32 \<times> int32 \<times> CrossVersionObjectReference" where
  "ma_written ma =
     ((ma_meta ma)\<lparr>om_resourceVersion := 0\<rparr>, ma_MinReplicas ma, ma_MaxReplicas ma, ma_ScaleTargetRef ma)"

definition ma_gone :: "MachineAutoscaler \<Rightarrow> bool" where
  "ma_gone ma \<longleftrightarrow> ma_GetDeletionTimestamp ma \<noteq> None \<and> ma_GetFinalizers ma = []"

lemma ma_written_eqD:
  assumes "ma_written a = ma_written b"
  shows "ma_GetFinalizers a = ma_GetFinalizers b" "ma_key a = ma_key b"
    and "ma_GetDeletionTimestamp a = ma_GetDeletionTimestamp b"
    and "ma_MinReplicas a = ma_MinReplicas b" "ma_MaxReplicas a = ma_MaxReplicas b"
    and "ma_ScaleTargetRef a = ma_ScaleTargetRef b"
proof -
  obtain m n where m: "ma_meta a = m" "ma_meta b = n" and e: "m\<lparr>om_resourceVersion := 0\<rparr> = n\<lparr>om_resourceVersion := 0\<rparr>"
    using assms by (simp add: ma_written_def)
  from e have "om_finalizers m = om_finalizers n" "om_name m = om_name n"
    "om_namespace m = om_namespace n" "om_deletionTimestamp m = om_deletionTimestamp n"
    by (cases m; cases n; simp)+
  then show "ma_GetFinalizers a = ma_GetFinalizers b" "ma_key a = ma_key b"
    "ma_GetDeletionTimestamp a = ma_GetDeletionTimestamp b"
    using m by (simp_all add: ma_GetFinalizers_def ma_key_def meta_key_def ma_GetDeletionTimestamp_def)
qed (use assms in \<open>simp_all add: ma_written_def\<close>)

lemma ma_SetFinalizers_simps [simp]:
  "ma_GetFinalizers (ma_SetFinalizers f ma) = f"
  "ma_key (ma_SetFinalizers f ma) = ma_key ma"
  "ma_GetDeletionTimestamp (ma_SetFinalizers f ma) = ma_GetDeletionTimestamp ma"
  "ma_MinReplicas (ma_SetFinalizers f ma) = ma_MinReplicas ma"
  "ma_MaxReplicas (ma_SetFinalizers f ma) = ma_MaxReplicas ma"
  "ma_ScaleTargetRef (ma_SetFinalizers f ma) = ma_ScaleTargetRef ma"
  "ma_LastTargetRef (ma_SetFinalizers f ma) = ma_LastTargetRef ma"
  by (simp_all add: ma_SetFinalizers_def ma_GetFinalizers_def ma_key_def meta_key_def
      ma_GetDeletionTimestamp_def)

section \<open>The accessors a server uses\<close>

definition ma_ops :: "(NamespacedName, MachineAutoscaler) object_ops" where
  "ma_ops =
     \<lparr>oo_key = ma_key, oo_name = \<lambda>ma. om_name (ma_meta ma),
      oo_rv = \<lambda>ma. om_resourceVersion (ma_meta ma),
      oo_set_rv = \<lambda>n ma. ma\<lparr>ma_meta := (ma_meta ma)\<lparr>om_resourceVersion := n\<rparr>\<rparr>,
      oo_deletion = ma_GetDeletionTimestamp,
      oo_set_deletion = \<lambda>t ma. ma\<lparr>ma_meta := (ma_meta ma)\<lparr>om_deletionTimestamp := t\<rparr>\<rparr>,
      oo_finalizers = ma_GetFinalizers,
      oo_copy_status = \<lambda>a b. b\<lparr>ma_LastTargetRef := ma_LastTargetRef a\<rparr>,
      oo_has_status = True, oo_unconditional = True, oo_ok = \<lambda>_. True\<rparr>"

lemma ma_ops_simps [simp]:
  "oo_key ma_ops = ma_key" "oo_deletion ma_ops = ma_GetDeletionTimestamp"
  "oo_finalizers ma_ops = ma_GetFinalizers" "oo_has_status ma_ops" "oo_ok ma_ops = (\<lambda>_. True)"
  by (simp_all add: ma_ops_def)

interpretation maobj: kube_object ma_ops ma_written ma_LastTargetRef
  by unfold_locales
    (simp_all add: ma_ops_def ma_key_def meta_key_def ma_written_def ma_GetDeletionTimestamp_def
      ma_GetFinalizers_def)

section \<open>Validation\<close>

text \<open>The comparisons are on signed 32-bit integers; a nil pointer is \<open>None\<close>.\<close>

definition Validate :: "MachineAutoscaler option \<Rightarrow> ValidatorResponse" where
  "Validate ma_ptr =
     (case ma_ptr of
        None \<Rightarrow>
          \<lparr>vr_Warnings = [], vr_Errors = NewAggregate [errorf ''MachineAutoscaler is nil'']\<rparr>
      | Some ma \<Rightarrow>
          (let errs = [];
               errs = (if ma_MinReplicas ma <s 0 \<or> ma_MaxReplicas ma <s 0
                       then errs @ [errorf ''min and max replicas must be greater than 0''] else errs);
               errs = (if ma_MaxReplicas ma <s ma_MinReplicas ma
                       then errs @ [errorf ''max replicas must be greater than or equal to min''] else errs)
           in if length errs > 0 then \<lparr>vr_Warnings = [], vr_Errors = NewAggregate errs\<rparr>
              else \<lparr>vr_Warnings = [], vr_Errors = None\<rparr>))"

text \<open>
  \<open>Handle\<close>, the admission webhook: what the decoder returned decides between an error
  response, a denial with the aggregated errors, and an admission.
\<close>

definition Handle :: "go_error + MachineAutoscaler \<Rightarrow> admission_response" where
  "Handle decoded =
     (case decoded of
        Inl err \<Rightarrow> Errored StatusBadRequest err
      | Inr ma \<Rightarrow>
          (let valRes = Validate (Some ma)
           in if IsValid valRes then Allowed ''MachineAutoscaler valid'' (vr_Warnings valRes)
              else Denied (case vr_Errors valRes of None \<Rightarrow> [] | Some es \<Rightarrow> es) (vr_Warnings valRes)))"

lemma Validate_IsValid:
  "IsValid (Validate (Some ma)) \<longleftrightarrow>
   0 \<le> sint (ma_MinReplicas ma) \<and> sint (ma_MinReplicas ma) \<le> sint (ma_MaxReplicas ma)"
  by (auto simp: Validate_def IsValid_def NewAggregate_def Let_def word_sless_alt)

lemma Validate_Warnings [simp]: "vr_Warnings (Validate m) = []"
  by (simp add: Validate_def Let_def split: option.split)

end
