(* ===== verification/Kube_Quantity.thy ===== *)
theory Kube_Quantity
  imports Kube_Meta
begin

text \<open>
  Resource quantities (\<open>k8s.io/apimachinery/pkg/api/resource\<close>) as far as the operator
  uses them: parsing a quantity and reading it as an \<open>int64\<close> (the GPU capacity
  annotation), and printing an \<open>int64\<close> in the DecimalSI format (the memory annotation).
  Quantities that the fast path of the parser does not take are kept as \<open>QDec\<close>; the
  operator only asks them for an \<open>int64\<close>, which they do not give.
\<close>

section \<open>Arithmetic on int64 with overflow checks\<close>

text \<open>Go's integer division truncates towards zero.\<close>

definition go_quot :: "int \<Rightarrow> int \<Rightarrow> int" where
  "go_quot a b = sgn a * sgn b * (\<bar>a\<bar> div \<bar>b\<bar>)"

definition mostNegative :: int where
  "mostNegative = - (2 ^ 63)"

definition int64Multiply :: "int \<Rightarrow> int \<Rightarrow> int \<times> bool" where
  "int64Multiply a b =
     (if a = 0 \<or> b = 0 \<or> a = 1 \<or> b = 1 then (wrap64 (a * b), True)
      else if a = mostNegative \<or> b = mostNegative then (0, False)
      else (let c = wrap64 (a * b) in (c, go_quot c b = a)))"

text \<open>\<open>int64MultiplyScale\<close> and its copies for 10, 100 and 1000.\<close>

definition int64MultiplyScale :: "int \<Rightarrow> int \<Rightarrow> int \<times> bool" where
  "int64MultiplyScale a b =
     (if a = 0 \<or> a = 1 then (wrap64 (a * b), True)
      else if a = mostNegative \<and> b \<noteq> 1 then (0, False)
      else (let c = wrap64 (a * b) in (c, go_quot c b = a)))"

fun scale_loop :: "int \<Rightarrow> nat \<Rightarrow> int option" where
  "scale_loop v 0 = Some v"
| "scale_loop v (Suc n) =
     (case int64MultiplyScale v 10 of (c, ok) \<Rightarrow> if ok then scale_loop c n else None)"

definition positiveScaleInt64 :: "int \<Rightarrow> nat \<Rightarrow> int option" where
  "positiveScaleInt64 base sc =
     (if sc \<in> {1, 2, 3, 6, 9} then
        (case int64MultiplyScale base (10 ^ sc) of (c, ok) \<Rightarrow> if ok then Some c else None)
      else scale_loop base sc)"

section \<open>Parsing\<close>

datatype quantity = QInt int int | QDec

datatype qformat = DecimalSI | BinarySI | DecimalExponent

text \<open>\<open>parseQuantityString\<close>: the sign, the digits before and after the point, whether
  the numeric part has a digit at all, and the suffix.\<close>

record qparts =
  qp_positive :: bool
  qp_num :: string
  qp_denom :: string
  qp_has_digit :: bool
  qp_suffix :: string

definition suffix_chars :: "char set" where
  "suffix_chars = set ''eEinumkKMGTP''"

definition qsuffix_ok :: "string \<Rightarrow> bool" where
  "qsuffix_ok s =
     (let r = dropWhile (\<lambda>c. c \<in> suffix_chars) s;
          r' = (case r of c # cs \<Rightarrow> if c = CHR ''-'' \<or> c = CHR ''+'' then cs else r | [] \<Rightarrow> [])
      in list_all is_digit r')"

definition parseQuantityString :: "string \<Rightarrow> qparts option" where
  "parseQuantityString str =
     (let positive = (case str of c # _ \<Rightarrow> c \<noteq> CHR ''-'' | [] \<Rightarrow> True);
          s0 = (case str of c # cs \<Rightarrow> if c = CHR ''-'' \<or> c = CHR ''+'' then cs else str | [] \<Rightarrow> []);
          s1 = dropWhile (\<lambda>c. c = CHR ''0'') s0
      in if s1 = [] then
           Some \<lparr>qp_positive = positive, qp_num = ''0'', qp_denom = '''', qp_has_digit = True, qp_suffix = ''''\<rparr>
         else
           (let num = takeWhile is_digit s1; s2 = dropWhile is_digit s1
            in if s2 = [] then
                 Some \<lparr>qp_positive = positive, qp_num = num, qp_denom = '''', qp_has_digit = True, qp_suffix = ''''\<rparr>
               else
                 (let num' = (if num = '''' then ''0'' else num);
                      dot = (hd s2 = CHR ''.'');
                      denom = (if dot then takeWhile is_digit (tl s2) else '''');
                      s3 = (if dot then dropWhile is_digit (tl s2) else s2);
                      dig = (s0 \<noteq> s1 \<or> num \<noteq> '''' \<or> denom \<noteq> '''')
                  in if s3 = [] \<or> qsuffix_ok s3 then
                       Some \<lparr>qp_positive = positive, qp_num = num', qp_denom = denom,
                             qp_has_digit = dig, qp_suffix = s3\<rparr>
                     else None)))"

definition wrap32 :: "int \<Rightarrow> int" where
  "wrap32 n = (n + 2 ^ 31) mod 2 ^ 32 - 2 ^ 31"

text \<open>\<open>quantitySuffixer.interpret\<close>: the exponent and the format of a suffix.\<close>

definition interpret_suffix :: "string \<Rightarrow> (int \<times> qformat) option" where
  "interpret_suffix s =
     (case map_of [('''', 0), (''n'', -9), (''u'', -6), (''m'', -3), (''k'', 3), (''M'', 6),
                   (''G'', 9), (''T'', 12), (''P'', 15), (''E'', 18)] s of
        Some e \<Rightarrow> Some (e, DecimalSI)
      | None \<Rightarrow>
          (case map_of [(''Ki'', 10), (''Mi'', 20), (''Gi'', 30), (''Ti'', 40), (''Pi'', 50), (''Ei'', 60)] s of
             Some e \<Rightarrow> Some (e, BinarySI)
           | None \<Rightarrow>
               (case s of
                  c # d # cs \<Rightarrow>
                    if c = CHR ''E'' \<or> c = CHR ''e'' then
                      (case ParseInt (d # cs) of
                         Inl _ \<Rightarrow> None | Inr n \<Rightarrow> Some (wrap32 n, DecimalExponent))
                    else None
                | _ \<Rightarrow> None)))"

definition ErrFormatWrong :: go_error where
  "ErrFormatWrong = errorf ''quantities must match the regular expression''"

definition ErrNumeric :: go_error where
  "ErrNumeric = errorf ''unable to parse numeric part of quantity''"

definition ErrSuffix :: go_error where
  "ErrSuffix = errorf ''unable to parse quantity's suffix''"

text \<open>The slow path needs a digit; its value is not an \<open>int64\<close> amount.\<close>

definition slow_quantity :: "qparts \<Rightarrow> go_error + quantity" where
  "slow_quantity p = (if qp_has_digit p then Inr QDec else Inl ErrNumeric)"

definition ParseQuantity :: "string \<Rightarrow> go_error + quantity" where
  "ParseQuantity str =
     (if str = '''' then Inl ErrFormatWrong
      else if str = ''0'' then Inr (QInt 0 0)
      else case parseQuantityString str of
        None \<Rightarrow> Inl ErrFormatWrong
      | Some p \<Rightarrow>
          (case interpret_suffix (qp_suffix p) of
             None \<Rightarrow> Inl ErrSuffix
           | Some (exponent, format) \<Rightarrow>
               (let nd = int (length (qp_denom p));
                    digits = int (length (qp_num p)) + nd;
                    scale0 = (if format = BinarySI then 0 else exponent);
                    mantissa = (if format = BinarySI \<and> nd = 0 then 2 ^ nat exponent else 1);
                    precision = (if format \<noteq> BinarySI then 18 - digits
                                 else if nd = 0 then 15 - int (length (qp_num p)) - exponent * 3 div 10 - 1
                                 else -1);
                    scale = wrap32 (scale0 - nd)
                in if precision \<ge> 0 \<and> scale \<ge> -9 then
                     (case ParseInt (qp_num p @ qp_denom p) of
                        Inl _ \<Rightarrow> Inl ErrNumeric
                      | Inr v \<Rightarrow>
                          (case int64Multiply v mantissa of
                             (r, ok) \<Rightarrow>
                               if ok then Inr (QInt (if qp_positive p then r else wrap64 (- r)) scale)
                               else slow_quantity p))
                   else slow_quantity p)))"

text \<open>\<open>Quantity.AsInt64\<close>.\<close>

definition AsInt64 :: "quantity \<Rightarrow> int option" where
  "AsInt64 q =
     (case q of
        QDec \<Rightarrow> None
      | QInt v sc \<Rightarrow>
          if sc = 0 then Some v else if sc < 0 then None else positiveScaleInt64 v (nat sc))"

text \<open>\<open>resource.MustParse\<close> panics on an error.\<close>

definition MustParse :: "string \<Rightarrow> go_error + quantity" where
  "MustParse s =
     (case ParseQuantity s of
        Inl e \<Rightarrow> Inl (GoPanic (''cannot parse '' @ s)) | Inr q \<Rightarrow> Inr q)"

section \<open>Printing\<close>

text \<open>\<open>removeInt64Factors(n, 10)\<close> on the magnitude.\<close>

fun remove_tens :: "nat \<Rightarrow> nat \<times> nat" where
  "remove_tens n =
     (if n \<ge> 10 \<and> n mod 10 = 0 then (case remove_tens (n div 10) of (r, t) \<Rightarrow> (r, Suc t))
      else (n, 0))"

declare remove_tens.simps [simp del]

definition si_suffix :: "nat \<Rightarrow> string" where
  "si_suffix e =
     (case map_of [(0, ''''), (3, ''k''), (6, ''M''), (9, ''G''), (12, ''T''), (15, ''P''), (18, ''E'')] e of
        Some s \<Rightarrow> s | None \<Rightarrow> '''')"

text \<open>\<open>resource.NewQuantity(n, resource.DecimalSI).String()\<close>.\<close>

definition quantity_string :: "int \<Rightarrow> string" where
  "quantity_string n =
     (if n = 0 then ''0''
      else (case remove_tens (nat \<bar>n\<bar>) of
              (r, t) \<Rightarrow> Itoa (sgn n * int (r * 10 ^ (t mod 3))) @ si_suffix (t - t mod 3)))"

section \<open>What is printed denotes the number\<close>

lemma remove_tens_value: "remove_tens n = (r, t) \<Longrightarrow> r * 10 ^ t = n"
proof (induction n arbitrary: r t rule: remove_tens.induct)
  case (1 n)
  show ?case
  proof (cases "n \<ge> 10 \<and> n mod 10 = 0")
    case True
    obtain r' t' where rt: "remove_tens (n div 10) = (r', t')" by fastforce
    with True 1 have "r' * 10 ^ t' = n div 10" by simp
    moreover from rt True "1.prems" have "r = r'" "t = Suc t'"
      by (simp_all add: remove_tens.simps [of n])
    moreover from True have "n = 10 * (n div 10)" by presburger
    ultimately show ?thesis by simp
  next
    case False
    with "1.prems" show ?thesis by (auto simp: remove_tens.simps [of n])
  qed
qed

lemma remove_tens_bound:
  assumes "remove_tens n = (r, t)" "0 < n" "n < 10 ^ k"
  shows "t < k"
proof (rule ccontr)
  assume "\<not> t < k"
  then have "(10::nat) ^ k \<le> 10 ^ t" by (simp add: power_increasing)
  moreover have "0 < r" using remove_tens_value [OF assms(1)] assms(2) by (cases r) auto
  then have "(10::nat) ^ t \<le> r * 10 ^ t" by simp
  ultimately show False using remove_tens_value [OF assms(1)] assms(3) by linarith
qed

lemma format_nat_head: "0 < m \<Longrightarrow> format_nat m = c # cs \<Longrightarrow> c \<noteq> CHR ''0''"
proof (induction m arbitrary: c cs rule: format_nat.induct)
  case (1 m)
  show ?case
  proof (cases "m < 10")
    case True
    with 1 have "c = digit_char m" by (simp add: format_nat.simps [of m])
    moreover have "digit_char m \<noteq> digit_char 0"
      using True 1 digit_char_val [of m] digit_char_val [of 0] by auto
    moreover have "digit_char 0 = CHR ''0''" by code_simp
    ultimately show ?thesis by simp
  next
    case False
    then have "format_nat m = format_nat (m div 10) @ [digit_char (m mod 10)]"
      by (simp add: format_nat.simps [of m])
    moreover obtain d ds where "format_nat (m div 10) = d # ds"
      using format_nat_not_Nil [of "m div 10"] by (cases "format_nat (m div 10)") auto
    ultimately show ?thesis using 1 False by simp
  qed
qed

lemma takeWhile_digits:
  assumes "list_all is_digit ds" "suf = [] \<or> \<not> is_digit (hd suf)"
  shows "takeWhile is_digit (ds @ suf) = ds" "dropWhile is_digit (ds @ suf) = suf"
  using assms by (induction ds) (cases suf; simp)+

lemma length_format_nat: "0 < k \<Longrightarrow> n < 10 ^ k \<Longrightarrow> length (format_nat n) \<le> k"
proof (induction n arbitrary: k rule: format_nat.induct)
  case (1 n)
  show ?case
  proof (cases "n < 10")
    case False
    then obtain k' where "k = Suc k'" "0 < k'" using 1 by (cases k; cases "k - 1") auto
    then show ?thesis using 1(1) [of k'] 1(3) False by (simp add: format_nat.simps [of n])
  qed (use 1 in \<open>simp add: format_nat.simps [of n]\<close>)
qed

lemma si_suffix_cases:
  assumes "e \<in> {0, 3, 6, 9, 12, 15}"
  shows "interpret_suffix (si_suffix e) = Some (int e, DecimalSI)"
    and "si_suffix e = [] \<or> (\<exists>c. si_suffix e = [c] \<and> c \<in> suffix_chars \<and> \<not> is_digit c \<and> c \<noteq> CHR ''.'')"
  using assms
  by (auto simp: si_suffix_def interpret_suffix_def suffix_chars_def is_digit_def)

lemma parseQuantityString_print:
  assumes "0 < m" "suf = [] \<or> (\<exists>c. suf = [c] \<and> c \<in> suffix_chars \<and> \<not> is_digit c \<and> c \<noteq> CHR ''.'')"
  shows "parseQuantityString (format_nat m @ suf) = Some \<lparr>qp_positive = True, qp_num = format_nat m,
    qp_denom = '''', qp_has_digit = True, qp_suffix = suf\<rparr>"
proof -
  obtain c cs where f: "format_nat m = c # cs"
    using format_nat_not_Nil [of m] by (cases "format_nat m") auto
  have c: "is_digit c" "c \<noteq> CHR ''0''" "list_all is_digit (c # cs)"
    using format_nat_digits [of m] format_nat_head [OF assms(1) f] f by auto
  then have "c \<noteq> CHR ''-''" "c \<noteq> CHR ''+''" by (auto simp: is_digit_def)
  note signs = this
  show ?thesis
  proof (cases suf)
    case Nil
    have "takeWhile is_digit (c # cs) = c # cs" "dropWhile is_digit (c # cs) = []"
      using takeWhile_digits [OF c(3), of "[]"] by simp_all
    with c signs show ?thesis by (simp add: parseQuantityString_def f Nil Let_def)
  next
    case (Cons d ds)
    with assms(2) have d: "suf = [d]" "d \<in> suffix_chars" "\<not> is_digit d" "d \<noteq> CHR ''.''" by auto
    have "takeWhile is_digit ((c # cs) @ [d]) = c # cs" "dropWhile is_digit ((c # cs) @ [d]) = [d]"
      using takeWhile_digits [OF c(3), of "[d]"] d(3) by simp_all
    moreover have "qsuffix_ok [d]" using d(2) by (simp add: qsuffix_ok_def)
    moreover have "dropWhile (\<lambda>c. c = CHR ''0'') (c # cs @ [d]) = c # cs @ [d]" using c(2) by simp
    ultimately show ?thesis using signs d(4) c(2)
      by (simp add: parseQuantityString_def f d(1) Let_def del: takeWhile.simps dropWhile.simps(2))
  qed
qed

lemma wrap_mult_exact:
  assumes "0 \<le> v" "0 < b" "v * b < 2 ^ 63"
  shows "int64MultiplyScale v b = (v * b, True)"
proof -
  have "wrap64 (v * b) = v * b"
    by (rule wrap64_id) (use assms in \<open>simp add: is_int64_def order.trans [of _ 0]\<close>)
  moreover have "v \<noteq> mostNegative" using assms by (simp add: mostNegative_def)
  moreover have "go_quot (v * b) b = v"
    using assms by (simp add: go_quot_def sgn_if abs_mult split: if_splits)
  ultimately show ?thesis by (simp add: int64MultiplyScale_def Let_def)
qed

lemma scale_loop_exact: "0 \<le> v \<Longrightarrow> v * 10 ^ k < 2 ^ 63 \<Longrightarrow> scale_loop v k = Some (v * 10 ^ k)"
proof (induction k arbitrary: v)
  case (Suc k)
  have "v * 10 \<le> v * 10 * 10 ^ k" using Suc.prems mult_left_mono [of 1 "10 ^ k" "v * 10"] by simp
  then have "v * 10 < 2 ^ 63" using Suc.prems by (simp add: mult.assoc)
  then have "int64MultiplyScale v 10 = (v * 10, True)" using Suc.prems wrap_mult_exact by simp
  with Suc show ?case by (simp add: mult.assoc)
qed simp

lemma positiveScaleInt64_exact:
  assumes "0 \<le> v" "v * 10 ^ k < 2 ^ 63"
  shows "positiveScaleInt64 v k = Some (v * 10 ^ k)"
  using scale_loop_exact [OF assms] wrap_mult_exact [OF assms(1) _ assms(2)]
  by (simp add: positiveScaleInt64_def)

text \<open>A printed positive amount below \<open>10 ^ 18\<close> parses back to the amount.\<close>

lemma ParseQuantity_print:
  assumes "0 < m" "m < 10 ^ 18" "e \<in> {0, 3, 6, 9, 12, 15}"
  shows "ParseQuantity (format_nat m @ si_suffix e) = Inr (QInt (int m) (int e))"
proof -
  let ?s = "format_nat m @ si_suffix e"
  have len: "length (format_nat m) \<le> 18" using assms(2) length_format_nat [of 18 m] by simp
  obtain c cs where f: "format_nat m = c # cs"
    using format_nat_not_Nil [of m] by (cases "format_nat m") auto
  then have "c \<noteq> CHR ''0''" using format_nat_head assms(1) by simp
  with f have "?s \<noteq> ''''" "?s \<noteq> ''0''" by auto
  moreover have "ParseInt (format_nat m) = Inr (int m)"
    using parse_int_Itoa [of "int m"] assms(1,2)
    by (simp add: ParseInt_def Itoa_def is_int64_def)
  moreover have "wrap64 (int m) = int m"
    by (rule wrap64_id) (use assms in \<open>simp add: is_int64_def\<close>)
  moreover have "wrap32 (int e) = int e" using assms(3) by (auto simp: wrap32_def)
  moreover have "parseQuantityString ?s = Some \<lparr>qp_positive = True, qp_num = format_nat m,
      qp_denom = '''', qp_has_digit = True, qp_suffix = si_suffix e\<rparr>"
    by (rule parseQuantityString_print [OF assms(1) si_suffix_cases(2) [OF assms(3)]])
  ultimately show ?thesis
    using len si_suffix_cases(1) [OF assms(3)]
    by (simp add: ParseQuantity_def Let_def int64Multiply_def)
qed

lemma quantity_string_roundtrip:
  assumes "0 < n" "n < 10 ^ 18"
  shows "\<exists>q. ParseQuantity (quantity_string n) = Inr q \<and> AsInt64 q = Some n"
proof -
  obtain r t where rt: "remove_tens (nat n) = (r, t)" by fastforce
  have val: "r * 10 ^ t = nat n" by (rule remove_tens_value [OF rt])
  have nn: "nat n < 10 ^ 18" using assms by simp
  have t: "t < 18" by (rule remove_tens_bound [OF rt]) (use assms nn in auto)
  define e m where "e = t - t mod 3" and "m = r * 10 ^ (t mod 3)"
  have me: "m * 10 ^ e = nat n"
  proof -
    have "t mod 3 + e = t" by (simp add: e_def)
    then have "(10::nat) ^ (t mod 3) * 10 ^ e = 10 ^ t" by (metis power_add)
    then show ?thesis using val by (simp add: m_def mult.assoc)
  qed
  have "0 < nat n" using assms by simp
  with me have m0: "0 < m" by (metis gr0I mult_zero_left not_less_zero)
  have "m * 1 \<le> m * 10 ^ e" by (rule mult_le_mono2) simp
  with me nn have m18: "m < 10 ^ 18" by linarith
  have "t div 3 = 0 \<or> t div 3 = 1 \<or> t div 3 = 2 \<or> t div 3 = 3 \<or> t div 3 = 4 \<or> t div 3 = 5"
    using t by presburger
  moreover have "e = 3 * (t div 3)" unfolding e_def by presburger
  ultimately have e: "e \<in> {0, 3, 6, 9, 12, 15}" by auto
  have "quantity_string n = format_nat m @ si_suffix e"
    using assms(1) rt by (simp add: quantity_string_def m_def e_def Itoa_def nat_mult_distrib nat_power_eq
        mult_less_0_iff)
  moreover have "AsInt64 (QInt (int m) (int e)) = Some n"
  proof -
    have "int m * 10 ^ e = n" using me assms(1) by (metis int_nat_eq less_imp_le of_nat_mult of_nat_numeral of_nat_power)
    then show ?thesis using positiveScaleInt64_exact [of "int m" e] assms(2)
      by (auto simp: AsInt64_def)
  qed
  ultimately show ?thesis using ParseQuantity_print [OF m0 m18 e] by auto
qed

end
