(* ===== verification/MA_Target.thy ===== *)
theory MA_Target
  imports Kube_Quantity CAO_Util
begin

text \<open>
  The target of a MachineAutoscaler (\<open>pkg/controller/machineautoscaler/machinetarget.go\<close>):
  an unstructured object of which the operator edits the annotations only.  The limits, the
  owner, and the copies of the deprecated scale-from-zero annotations under their upstream
  keys (\<open>machineset\<close> helpers of machine-api-operator).  Annotation maps returned by
  \<open>GetAnnotations\<close> are copies, so editing one does not change the object before
  \<open>SetAnnotations\<close>.
\<close>

section \<open>Keys and errors\<close>

definition MachineTargetOwnerAnnotation :: string where
  "MachineTargetOwnerAnnotation = ''autoscaling.openshift.io/machineautoscaler''"

definition minSizeAnnotation :: string where
  "minSizeAnnotation = ''machine.openshift.io/cluster-api-autoscaler-node-group-min-size''"

definition maxSizeAnnotation :: string where
  "maxSizeAnnotation = ''machine.openshift.io/cluster-api-autoscaler-node-group-max-size''"

definition autoscalerCapacityGPU :: string where
  "autoscalerCapacityGPU = ''machine.openshift.io/GPU''"

definition autoscalerGPUAcceleratorLabel :: string where
  "autoscalerGPUAcceleratorLabel = ''cluster-api/accelerator''"

definition CpuKeyDeprecated :: string where "CpuKeyDeprecated = ''machine.openshift.io/vCPU''"
definition MemoryKeyDeprecated :: string where "MemoryKeyDeprecated = ''machine.openshift.io/memoryMb''"
definition GpuCountKeyDeprecated :: string where "GpuCountKeyDeprecated = ''machine.openshift.io/GPU''"
definition MaxPodsKeyDeprecated :: string where "MaxPodsKeyDeprecated = ''machine.openshift.io/maxPods''"
definition CpuKey :: string where "CpuKey = ''capacity.cluster-autoscaler.kubernetes.io/cpu''"
definition MemoryKey :: string where "MemoryKey = ''capacity.cluster-autoscaler.kubernetes.io/memory''"
definition GpuTypeKey :: string where "GpuTypeKey = ''capacity.cluster-autoscaler.kubernetes.io/gpu-type''"
definition GpuCountKey :: string where "GpuCountKey = ''capacity.cluster-autoscaler.kubernetes.io/gpu-count''"
definition MaxPodsKey :: string where "MaxPodsKey = ''capacity.cluster-autoscaler.kubernetes.io/maxPods''"
definition GpuNvidiaType :: string where "GpuNvidiaType = ''nvidia.com/gpu''"

lemmas key_defs =
  MachineTargetOwnerAnnotation_def minSizeAnnotation_def maxSizeAnnotation_def
  autoscalerCapacityGPU_def CpuKeyDeprecated_def MemoryKeyDeprecated_def
  GpuCountKeyDeprecated_def MaxPodsKeyDeprecated_def CpuKey_def MemoryKey_def GpuTypeKey_def
  GpuCountKey_def MaxPodsKey_def

lemma keys_distinct [simp]:
  "CpuKey \<noteq> MemoryKey" "CpuKey \<noteq> GpuCountKey" "CpuKey \<noteq> GpuTypeKey" "CpuKey \<noteq> MaxPodsKey" "CpuKey \<noteq> CpuKeyDeprecated" "CpuKey \<noteq> MemoryKeyDeprecated" "CpuKey \<noteq> GpuCountKeyDeprecated" "CpuKey \<noteq> MaxPodsKeyDeprecated" "CpuKey \<noteq> minSizeAnnotation" "CpuKey \<noteq> maxSizeAnnotation" "CpuKey \<noteq> MachineTargetOwnerAnnotation"
  "MemoryKey \<noteq> CpuKey" "MemoryKey \<noteq> GpuCountKey" "MemoryKey \<noteq> GpuTypeKey" "MemoryKey \<noteq> MaxPodsKey" "MemoryKey \<noteq> CpuKeyDeprecated" "MemoryKey \<noteq> MemoryKeyDeprecated" "MemoryKey \<noteq> GpuCountKeyDeprecated" "MemoryKey \<noteq> MaxPodsKeyDeprecated" "MemoryKey \<noteq> minSizeAnnotation" "MemoryKey \<noteq> maxSizeAnnotation" "MemoryKey \<noteq> MachineTargetOwnerAnnotation"
  "GpuCountKey \<noteq> CpuKey" "GpuCountKey \<noteq> MemoryKey" "GpuCountKey \<noteq> GpuTypeKey" "GpuCountKey \<noteq> MaxPodsKey" "GpuCountKey \<noteq> CpuKeyDeprecated" "GpuCountKey \<noteq> MemoryKeyDeprecated" "GpuCountKey \<noteq> GpuCountKeyDeprecated" "GpuCountKey \<noteq> MaxPodsKeyDeprecated" "GpuCountKey \<noteq> minSizeAnnotation" "GpuCountKey \<noteq> maxSizeAnnotation" "GpuCountKey \<noteq> MachineTargetOwnerAnnotation"
  "GpuTypeKey \<noteq> CpuKey" "GpuTypeKey \<noteq> MemoryKey" "GpuTypeKey \<noteq> GpuCountKey" "GpuTypeKey \<noteq> MaxPodsKey" "GpuTypeKey \<noteq> CpuKeyDeprecated" "GpuTypeKey \<noteq> MemoryKeyDeprecated" "GpuTypeKey \<noteq> GpuCountKeyDeprecated" "GpuTypeKey \<noteq> MaxPodsKeyDeprecated" "GpuTypeKey \<noteq> minSizeAnnotation" "GpuTypeKey \<noteq> maxSizeAnnotation" "GpuTypeKey \<noteq> MachineTargetOwnerAnnotation"
  "MaxPodsKey \<noteq> CpuKey" "MaxPodsKey \<noteq> MemoryKey" "MaxPodsKey \<noteq> GpuCountKey" "MaxPodsKey \<noteq> GpuTypeKey" "MaxPodsKey \<noteq> CpuKeyDeprecated" "MaxPodsKey \<noteq> MemoryKeyDeprecated" "MaxPodsKey \<noteq> GpuCountKeyDeprecated" "MaxPodsKey \<noteq> MaxPodsKeyDeprecated" "MaxPodsKey \<noteq> minSizeAnnotation" "MaxPodsKey \<noteq> maxSizeAnnotation" "MaxPodsKey \<noteq> MachineTargetOwnerAnnotation"
  "CpuKeyDeprecated \<noteq> CpuKey" "CpuKeyDeprecated \<noteq> MemoryKey" "CpuKeyDeprecated \<noteq> GpuCountKey" "CpuKeyDeprecated \<noteq> GpuTypeKey" "CpuKeyDeprecated \<noteq> MaxPodsKey" "CpuKeyDeprecated \<noteq> MemoryKeyDeprecated" "CpuKeyDeprecated \<noteq> GpuCountKeyDeprecated" "CpuKeyDeprecated \<noteq> MaxPodsKeyDeprecated" "CpuKeyDeprecated \<noteq> minSizeAnnotation" "CpuKeyDeprecated \<noteq> maxSizeAnnotation" "CpuKeyDeprecated \<noteq> MachineTargetOwnerAnnotation"
  "MemoryKeyDeprecated \<noteq> CpuKey" "MemoryKeyDeprecated \<noteq> MemoryKey" "MemoryKeyDeprecated \<noteq> GpuCountKey" "MemoryKeyDeprecated \<noteq> GpuTypeKey" "MemoryKeyDeprecated \<noteq> MaxPodsKey" "MemoryKeyDeprecated \<noteq> CpuKeyDeprecated" "MemoryKeyDeprecated \<noteq> GpuCountKeyDeprecated" "MemoryKeyDeprecated \<noteq> MaxPodsKeyDeprecated" "MemoryKeyDeprecated \<noteq> minSizeAnnotation" "MemoryKeyDeprecated \<noteq> maxSizeAnnotation" "MemoryKeyDeprecated \<noteq> MachineTargetOwnerAnnotation"
  "GpuCountKeyDeprecated \<noteq> CpuKey" "GpuCountKeyDeprecated \<noteq> MemoryKey" "GpuCountKeyDeprecated \<noteq> GpuCountKey" "GpuCountKeyDeprecated \<noteq> GpuTypeKey" "GpuCountKeyDeprecated \<noteq> MaxPodsKey" "GpuCountKeyDeprecated \<noteq> CpuKeyDeprecated" "GpuCountKeyDeprecated \<noteq> MemoryKeyDeprecated" "GpuCountKeyDeprecated \<noteq> MaxPodsKeyDeprecated" "GpuCountKeyDeprecated \<noteq> minSizeAnnotation" "GpuCountKeyDeprecated \<noteq> maxSizeAnnotation" "GpuCountKeyDeprecated \<noteq> MachineTargetOwnerAnnotation"
  "MaxPodsKeyDeprecated \<noteq> CpuKey" "MaxPodsKeyDeprecated \<noteq> MemoryKey" "MaxPodsKeyDeprecated \<noteq> GpuCountKey" "MaxPodsKeyDeprecated \<noteq> GpuTypeKey" "MaxPodsKeyDeprecated \<noteq> MaxPodsKey" "MaxPodsKeyDeprecated \<noteq> CpuKeyDeprecated" "MaxPodsKeyDeprecated \<noteq> MemoryKeyDeprecated" "MaxPodsKeyDeprecated \<noteq> GpuCountKeyDeprecated" "MaxPodsKeyDeprecated \<noteq> minSizeAnnotation" "MaxPodsKeyDeprecated \<noteq> maxSizeAnnotation" "MaxPodsKeyDeprecated \<noteq> MachineTargetOwnerAnnotation"
  "minSizeAnnotation \<noteq> CpuKey" "minSizeAnnotation \<noteq> MemoryKey" "minSizeAnnotation \<noteq> GpuCountKey" "minSizeAnnotation \<noteq> GpuTypeKey" "minSizeAnnotation \<noteq> MaxPodsKey" "minSizeAnnotation \<noteq> CpuKeyDeprecated" "minSizeAnnotation \<noteq> MemoryKeyDeprecated" "minSizeAnnotation \<noteq> GpuCountKeyDeprecated" "minSizeAnnotation \<noteq> MaxPodsKeyDeprecated" "minSizeAnnotation \<noteq> maxSizeAnnotation" "minSizeAnnotation \<noteq> MachineTargetOwnerAnnotation"
  "maxSizeAnnotation \<noteq> CpuKey" "maxSizeAnnotation \<noteq> MemoryKey" "maxSizeAnnotation \<noteq> GpuCountKey" "maxSizeAnnotation \<noteq> GpuTypeKey" "maxSizeAnnotation \<noteq> MaxPodsKey" "maxSizeAnnotation \<noteq> CpuKeyDeprecated" "maxSizeAnnotation \<noteq> MemoryKeyDeprecated" "maxSizeAnnotation \<noteq> GpuCountKeyDeprecated" "maxSizeAnnotation \<noteq> MaxPodsKeyDeprecated" "maxSizeAnnotation \<noteq> minSizeAnnotation" "maxSizeAnnotation \<noteq> MachineTargetOwnerAnnotation"
  "MachineTargetOwnerAnnotation \<noteq> CpuKey" "MachineTargetOwnerAnnotation \<noteq> MemoryKey" "MachineTargetOwnerAnnotation \<noteq> GpuCountKey" "MachineTargetOwnerAnnotation \<noteq> GpuTypeKey" "MachineTargetOwnerAnnotation \<noteq> MaxPodsKey" "MachineTargetOwnerAnnotation \<noteq> CpuKeyDeprecated" "MachineTargetOwnerAnnotation \<noteq> MemoryKeyDeprecated" "MachineTargetOwnerAnnotation \<noteq> GpuCountKeyDeprecated" "MachineTargetOwnerAnnotation \<noteq> MaxPodsKeyDeprecated" "MachineTargetOwnerAnnotation \<noteq> minSizeAnnotation" "MachineTargetOwnerAnnotation \<noteq> maxSizeAnnotation"
  by (simp_all add: key_defs)

definition ErrTargetMissingAnnotations :: go_error where
  "ErrTargetMissingAnnotations = errorf ''missing min or max annotation''"

definition ErrTargetAlreadyOwned :: go_error where
  "ErrTargetAlreadyOwned = errorf ''already owned by another MachineAutoscaler''"

definition ErrTargetMissingOwner :: go_error where
  "ErrTargetMissingOwner = errorf ''missing owner annotation''"

definition ErrTargetBadOwner :: go_error where
  "ErrTargetBadOwner = errorf ''incorrectly formatted owner annotation''"

section \<open>Limits\<close>

definition SetLimits :: "int \<Rightarrow> int \<Rightarrow> unstructured \<Rightarrow> unstructured" where
  "SetLimits mn mx mt =
     (let annotations = map_make (GetAnnotations mt);
          annotations = map_set annotations minSizeAnnotation (Itoa mn);
          annotations = map_set annotations maxSizeAnnotation (Itoa mx)
      in SetAnnotations annotations mt)"

definition GetLimits :: "unstructured \<Rightarrow> go_error + int \<times> int" where
  "GetLimits mt =
     (let annotations = GetAnnotations mt
      in case (map_get annotations minSizeAnnotation, map_get annotations maxSizeAnnotation) of
           (Some minString, Some maxString) \<Rightarrow>
             (case Atoi minString of
                Inl _ \<Rightarrow> Inl (GoError ''bad min annotation: %s'' [ArgS minString])
              | Inr mn \<Rightarrow>
                  (case Atoi maxString of
                     Inl _ \<Rightarrow> Inl (GoError ''bad max annotation: %s'' [ArgS maxString])
                   | Inr mx \<Rightarrow> Inr (mn, mx)))
         | _ \<Rightarrow> Inl ErrTargetMissingAnnotations)"

definition NeedsUpdate :: "int \<Rightarrow> int \<Rightarrow> unstructured \<Rightarrow> bool" where
  "NeedsUpdate mn mx mt =
     (case GetLimits mt of
        Inl _ \<Rightarrow> True
      | Inr (currentMin, currentMax) \<Rightarrow>
          (let minDiff = (mn \<noteq> currentMin); maxDiff = (mx \<noteq> currentMax) in minDiff \<or> maxDiff))"

fun remove_keys :: "string list \<Rightarrow> strmap \<Rightarrow> bool \<Rightarrow> strmap \<times> bool" where
  "remove_keys [] annotations modified = (annotations, modified)"
| "remove_keys (key # keys) annotations modified =
     (if map_get annotations key \<noteq> None then remove_keys keys (map_delete annotations key) True
      else remove_keys keys annotations modified)"

definition RemoveAnnotations :: "string list \<Rightarrow> unstructured \<Rightarrow> bool \<times> unstructured" where
  "RemoveAnnotations keys mt =
     (let (annotations, modified) = remove_keys keys (GetAnnotations mt) False
      in (modified, SetAnnotations annotations mt))"

definition RemoveLimits :: "unstructured \<Rightarrow> bool \<times> unstructured" where
  "RemoveLimits mt = RemoveAnnotations [minSizeAnnotation, maxSizeAnnotation] mt"

section \<open>Owner\<close>

definition SetOwner :: "NamespacedName \<Rightarrow> unstructured \<Rightarrow> go_error + bool \<times> unstructured" where
  "SetOwner owner mt =
     (let annotations = map_make (GetAnnotations mt);
          ownerRef = NamespacedName_String owner
      in case map_get annotations MachineTargetOwnerAnnotation of
           Some a \<Rightarrow> if a \<noteq> ownerRef then Inl ErrTargetAlreadyOwned else Inr (False, mt)
         | None \<Rightarrow>
             Inr (True,
               SetAnnotations (map_set annotations MachineTargetOwnerAnnotation ownerRef) mt))"

definition RemoveOwner :: "unstructured \<Rightarrow> bool \<times> unstructured" where
  "RemoveOwner mt = RemoveAnnotations [MachineTargetOwnerAnnotation] mt"

definition GetOwner :: "unstructured \<Rightarrow> go_error + NamespacedName" where
  "GetOwner mt =
     (case GetAnnotations mt of
        None \<Rightarrow> Inl ErrTargetMissingOwner
      | Some al \<Rightarrow>
          (case map_get (Some al) MachineTargetOwnerAnnotation of
             None \<Rightarrow> Inl ErrTargetMissingOwner
           | Some owner \<Rightarrow>
               (let parts = split_on (CHR ''/'') owner
                in if length parts \<noteq> 2 then Inl ErrTargetBadOwner
                   else Inr \<lparr>nn_namespace = parts ! 0, nn_name = parts ! 1\<rparr>)))"

definition Finalize :: "unstructured \<Rightarrow> bool \<times> unstructured" where
  "Finalize mt =
     (let (limitsModified, mt) = RemoveLimits mt;
          (ownerModified, mt) = RemoveOwner mt
      in (limitsModified \<or> ownerModified, mt))"

definition target_NamespacedName :: "unstructured \<Rightarrow> NamespacedName" where
  "target_NamespacedName mt = \<lparr>nn_namespace = GetNamespace mt, nn_name = GetName mt\<rparr>"

section \<open>GPU capacity\<close>

text \<open>\<open>resource.MustParse\<close> panics where the annotation is not a quantity.\<close>

definition HasGPUCapacity :: "unstructured \<Rightarrow> go_error + bool" where
  "HasGPUCapacity mt =
     (case map_get (GetAnnotations mt) autoscalerCapacityGPU of
        None \<Rightarrow> Inr False
      | Some value \<Rightarrow>
          res_bind (MustParse value) (\<lambda>quantityGPU.
            (case AsInt64 quantityGPU of
               None \<Rightarrow> Inr False
             | Some numGPU \<Rightarrow> if numGPU < 1 then Inr False else Inr True)))"

definition WarningForInvalidGPUAcceleratorLabel :: "unstructured \<Rightarrow> string" where
  "WarningForInvalidGPUAcceleratorLabel mt =
     (let labels = NestedStringMap mt [''spec'', ''template'', ''spec'', ''metadata'', ''labels''];
          absent = GPUAcceleratorLabelAbsentWarning (GetKind mt) (GetName mt) @ GPUAcceleratorLabelKCSWarning
      in case labels of
           Inr (Some m) \<Rightarrow>
             (case map_of m autoscalerGPUAcceleratorLabel of
                None \<Rightarrow> absent
              | Some gpuLabelValue \<Rightarrow> IsValidGPUAcceleratorLabel gpuLabelValue)
         | _ \<Rightarrow> absent)"

section \<open>Scale from zero\<close>

definition ParseMachineSetAnnotationKey :: "strmap \<Rightarrow> string \<Rightarrow> string option" where
  "ParseMachineSetAnnotationKey annotations key =
     (case map_get annotations key of
        Some val \<Rightarrow> if key \<noteq> '''' then Some val else None
      | None \<Rightarrow> None)"

definition SetCpuAnnotation :: "strmap \<Rightarrow> string \<Rightarrow> go_error + strmap" where
  "SetCpuAnnotation annotations value = map_put annotations CpuKey value"

definition SetMemoryAnnotation :: "strmap \<Rightarrow> string \<Rightarrow> go_error + strmap" where
  "SetMemoryAnnotation annotations value = map_put annotations MemoryKey value"

definition SetGpuCountAnnotation :: "strmap \<Rightarrow> string \<Rightarrow> go_error + strmap" where
  "SetGpuCountAnnotation annotations value = map_put annotations GpuCountKey value"

definition SetGpuTypeAnnotation :: "strmap \<Rightarrow> string \<Rightarrow> go_error + strmap" where
  "SetGpuTypeAnnotation annotations value = map_put annotations GpuTypeKey value"

definition SetMaxPodsAnnotation :: "strmap \<Rightarrow> string \<Rightarrow> go_error + strmap" where
  "SetMaxPodsAnnotation annotations value = map_put annotations MaxPodsKey value"

text \<open>The four blocks of \<open>checkScaleFromZeroAnnotations\<close>, in their order.\<close>

definition check_cpu :: "strmap \<Rightarrow> go_error + strmap" where
  "check_cpu annotations =
     (case ParseMachineSetAnnotationKey annotations CpuKeyDeprecated of
        None \<Rightarrow> Inr annotations
      | Some cpu \<Rightarrow>
          (case ParseMachineSetAnnotationKey annotations CpuKey of
             None \<Rightarrow> SetCpuAnnotation annotations cpu
           | Some _ \<Rightarrow> Inr annotations))"

text \<open>The memory in MiB becomes a quantity in bytes; the product is an \<open>int64\<close>.\<close>

definition check_memory :: "strmap \<Rightarrow> go_error + strmap" where
  "check_memory annotations =
     (case ParseMachineSetAnnotationKey annotations MemoryKeyDeprecated of
        None \<Rightarrow> Inr annotations
      | Some mem \<Rightarrow>
          (case ParseMachineSetAnnotationKey annotations MemoryKey of
             None \<Rightarrow>
               (case ParseInt mem of
                  Inl err \<Rightarrow> Inl (GoWrap ''could not parse integer: %w'' err)
                | Inr memInt \<Rightarrow> SetMemoryAnnotation annotations (quantity_string (wrap64 (memInt * MiB))))
           | Some _ \<Rightarrow> Inr annotations))"

definition check_gpu :: "strmap \<Rightarrow> go_error + strmap" where
  "check_gpu annotations =
     (case ParseMachineSetAnnotationKey annotations GpuCountKeyDeprecated of
        None \<Rightarrow> Inr annotations
      | Some gpu \<Rightarrow>
          res_bind
            (case ParseMachineSetAnnotationKey annotations GpuCountKey of
               None \<Rightarrow> SetGpuCountAnnotation annotations gpu
             | Some _ \<Rightarrow> Inr annotations)
            (\<lambda>annotations.
               (case ParseMachineSetAnnotationKey annotations GpuTypeKey of
                  None \<Rightarrow>
                    if gpu = ''0'' then SetGpuTypeAnnotation annotations ''''
                    else SetGpuTypeAnnotation annotations GpuNvidiaType
                | Some _ \<Rightarrow> Inr annotations)))"

definition check_maxPods :: "strmap \<Rightarrow> go_error + strmap" where
  "check_maxPods annotations =
     (case ParseMachineSetAnnotationKey annotations MaxPodsKeyDeprecated of
        None \<Rightarrow> Inr annotations
      | Some maxPods \<Rightarrow>
          (case ParseMachineSetAnnotationKey annotations MaxPodsKey of
             None \<Rightarrow> SetMaxPodsAnnotation annotations maxPods
           | Some _ \<Rightarrow> Inr annotations))"

definition checkScaleFromZeroAnnotations :: "strmap \<Rightarrow> go_error + strmap" where
  "checkScaleFromZeroAnnotations annotations =
     res_bind (check_cpu annotations) (\<lambda>annotations.
     res_bind (check_memory annotations) (\<lambda>annotations.
     res_bind (check_gpu annotations) check_maxPods))"

definition UpdateScaleFromZeroAnnotations :: "unstructured \<Rightarrow> go_error + unstructured" where
  "UpdateScaleFromZeroAnnotations mt =
     (case GetAnnotations mt of
        None \<Rightarrow> Inr mt
      | Some al \<Rightarrow>
          (case checkScaleFromZeroAnnotations (Some al) of
             Inl err \<Rightarrow> Inl (GoWrap ''failed to check scale from zero annotations: %w'' err)
           | Inr annotations \<Rightarrow> Inr (SetAnnotations annotations mt)))"

section \<open>Facts about the limits and the owner\<close>

lemma map_make_put_get [simp]:
  "map_get (map_set (map_make m) k v) l = (if l = k then Some v else map_get m l)"
  by simp

lemma annotation_SetLimits:
  "wf_unstructured mt \<Longrightarrow> map_get (GetAnnotations (SetLimits mn mx mt)) k =
     (if k = minSizeAnnotation then Some (Itoa mn)
      else if k = maxSizeAnnotation then Some (Itoa mx)
      else map_get (GetAnnotations mt) k)"
  by (simp add: SetLimits_def Let_def uns.get_set)

lemma wf_SetLimits [simp]: "wf_unstructured mt \<Longrightarrow> wf_unstructured (SetLimits mn mx mt)"
  by (simp add: SetLimits_def Let_def uns.wf_set)

lemma GetLimits_cong:
  assumes "\<And>k. k \<in> {minSizeAnnotation, maxSizeAnnotation} \<Longrightarrow>
      map_get (GetAnnotations mt) k = map_get (GetAnnotations mt') k"
  shows "GetLimits mt = GetLimits mt'"
  unfolding GetLimits_def Let_def by (simp only: assms insertI1 insertI2)

lemma GetLimits_SetLimits:
  "wf_unstructured mt \<Longrightarrow> is_int64 mn \<Longrightarrow> is_int64 mx \<Longrightarrow>
   GetLimits (SetLimits mn mx mt) = Inr (mn, mx)"
  by (simp add: GetLimits_def annotation_SetLimits Atoi_Itoa)

lemma NeedsUpdate_iff: "NeedsUpdate mn mx mt \<longleftrightarrow> GetLimits mt \<noteq> Inr (mn, mx)"
  by (auto simp: NeedsUpdate_def Let_def split: sum.splits prod.splits)

lemma remove_keys_eq:
  "map_get (fst (remove_keys ks a b)) k = (if k \<in> set ks then None else map_get a k) \<and>
   snd (remove_keys ks a b) = (b \<or> (\<exists>k \<in> set ks. map_get a k \<noteq> None))"
  by (induction ks arbitrary: a b) auto

lemma RemoveAnnotations_get:
  "wf_unstructured mt \<Longrightarrow> RemoveAnnotations ks mt = (b, mt') \<Longrightarrow>
   map_get (GetAnnotations mt') k = (if k \<in> set ks then None else map_get (GetAnnotations mt) k)"
  using remove_keys_eq [of ks "GetAnnotations mt" False k]
  by (auto simp: RemoveAnnotations_def uns.get_set split: prod.splits)

lemma RemoveAnnotations_modified:
  "RemoveAnnotations ks mt = (b, mt') \<Longrightarrow> b \<longleftrightarrow> (\<exists>k \<in> set ks. map_get (GetAnnotations mt) k \<noteq> None)"
  using remove_keys_eq [of ks "GetAnnotations mt" False]
  by (auto simp: RemoveAnnotations_def split: prod.splits)

lemma RemoveAnnotations_SetAnnotations:
  "RemoveAnnotations ks mt = (b, mt') \<Longrightarrow> \<exists>a. mt' = SetAnnotations a mt"
  by (auto simp: RemoveAnnotations_def split: prod.splits)

lemma RemoveAnnotations_frame:
  assumes "RemoveAnnotations ks mt = (b, mt')"
  shows "f \<noteq> ''metadata'' \<Longrightarrow> map_of mt' f = map_of mt f"
    and "wf_unstructured mt \<Longrightarrow> wf_unstructured mt'"
    and "wf_unstructured mt \<Longrightarrow> GetName mt' = GetName mt \<and> GetNamespace mt' = GetNamespace mt"
  using RemoveAnnotations_SetAnnotations [OF assms] by (auto simp: uns.wf_set)

definition finalize_keys :: "string list" where
  "finalize_keys = [minSizeAnnotation, maxSizeAnnotation, MachineTargetOwnerAnnotation]"

lemma Finalize_get:
  assumes "wf_unstructured mt" "Finalize mt = (b, mt')"
  shows "map_get (GetAnnotations mt') k =
      (if k \<in> set finalize_keys then None else map_get (GetAnnotations mt) k)"
    and "b \<longleftrightarrow> (\<exists>k \<in> set finalize_keys. map_get (GetAnnotations mt) k \<noteq> None)"
    and "f \<noteq> ''metadata'' \<Longrightarrow> map_of mt' f = map_of mt f"
    and "wf_unstructured mt'" "GetName mt' = GetName mt" "GetNamespace mt' = GetNamespace mt"
proof -
  obtain b1 mt1 b2 where 1: "RemoveLimits mt = (b1, mt1)" and 2: "RemoveOwner mt1 = (b2, mt')"
    and b: "b = (b1 \<or> b2)"
    using assms(2) by (auto simp: Finalize_def split: prod.splits)
  note r1 = 1 [unfolded RemoveLimits_def] and r2 = 2 [unfolded RemoveOwner_def]
  note f1 = RemoveAnnotations_frame [OF r1] and f2 = RemoveAnnotations_frame [OF r2]
  have wf1: "wf_unstructured mt1" using f1(2) assms(1) by simp
  show "map_get (GetAnnotations mt') k =
      (if k \<in> set finalize_keys then None else map_get (GetAnnotations mt) k)"
    using RemoveAnnotations_get [OF assms(1) r1, of k] RemoveAnnotations_get [OF wf1 r2, of k]
    by (auto simp: finalize_keys_def)
  show "b \<longleftrightarrow> (\<exists>k \<in> set finalize_keys. map_get (GetAnnotations mt) k \<noteq> None)"
    using RemoveAnnotations_modified [OF r1] RemoveAnnotations_modified [OF r2]
      RemoveAnnotations_get [OF assms(1) r1, of MachineTargetOwnerAnnotation]
    by (auto simp: finalize_keys_def b)
  show "f \<noteq> ''metadata'' \<Longrightarrow> map_of mt' f = map_of mt f" using f1(1) f2(1) by simp
  show "wf_unstructured mt'" "GetName mt' = GetName mt" "GetNamespace mt' = GetNamespace mt"
    using f1(2,3) f2(2,3) assms(1) wf1 by simp_all
qed

lemma SetOwner_cases:
  obtains (owned) a where "map_get (GetAnnotations mt) MachineTargetOwnerAnnotation = Some a"
      "a \<noteq> NamespacedName_String owner" "SetOwner owner mt = Inl ErrTargetAlreadyOwned"
  | (same) "map_get (GetAnnotations mt) MachineTargetOwnerAnnotation = Some (NamespacedName_String owner)"
      "SetOwner owner mt = Inr (False, mt)"
  | (added) "map_get (GetAnnotations mt) MachineTargetOwnerAnnotation = None"
      "SetOwner owner mt = Inr (True, SetAnnotations (map_set (map_make (GetAnnotations mt))
         MachineTargetOwnerAnnotation (NamespacedName_String owner)) mt)"
  by (cases "map_get (GetAnnotations mt) MachineTargetOwnerAnnotation")
     (auto simp: SetOwner_def Let_def)

lemma SetOwner_get:
  assumes "wf_unstructured mt" "SetOwner owner mt = Inr (b, mt')"
  shows "map_get (GetAnnotations mt') k =
      (if k = MachineTargetOwnerAnnotation then Some (NamespacedName_String owner)
       else map_get (GetAnnotations mt) k)"
    and "f \<noteq> ''metadata'' \<Longrightarrow> map_of mt' f = map_of mt f"
    and "wf_unstructured mt'" "GetName mt' = GetName mt" "GetNamespace mt' = GetNamespace mt"
  by (rule SetOwner_cases [of mt owner]; use assms in \<open>auto simp: uns.get_set uns.wf_set\<close>)+

lemma split_NamespacedName:
  assumes "CHR ''/'' \<notin> set (nn_namespace n)" "CHR ''/'' \<notin> set (nn_name n)"
  shows "split_on (CHR ''/'') (NamespacedName_String n) = [nn_namespace n, nn_name n]"
  using assms by (simp add: NamespacedName_String_def split_on_append split_on_no_sep)

lemma GetOwner_eq:
  "GetOwner mt = (case map_get (GetAnnotations mt) MachineTargetOwnerAnnotation of
     None \<Rightarrow> Inl ErrTargetMissingOwner
   | Some owner \<Rightarrow>
       (case split_on (CHR ''/'') owner of
          [ns, n] \<Rightarrow> Inr \<lparr>nn_namespace = ns, nn_name = n\<rparr>
        | _ \<Rightarrow> Inl ErrTargetBadOwner))"
  by (auto simp: GetOwner_def Let_def numeral_2_eq_2 length_Suc_conv split: option.splits list.splits)

lemma NamespacedName_String_inj:
  assumes "CHR ''/'' \<notin> set (nn_namespace m)" "CHR ''/'' \<notin> set (nn_namespace n)"
    and "NamespacedName_String m = NamespacedName_String n"
  shows "m = n"
proof -
  have "cut_on (CHR ''/'') (NamespacedName_String k) = Some (nn_namespace k, nn_name k)"
    if "CHR ''/'' \<notin> set (nn_namespace k)" for k
    using cut_on_no_sep [OF that, of "nn_name k"] by (simp add: NamespacedName_String_def)
  from this [of m] this [of n] assms show ?thesis by simp
qed

section \<open>Facts about scale from zero\<close>

text \<open>
  The annotations after \<open>checkScaleFromZeroAnnotations\<close>, key by key: what was there stays,
  and a missing upstream key is derived from its deprecated one.
\<close>

definition upstream_keys :: "string list" where
  "upstream_keys = [CpuKey, MemoryKey, GpuCountKey, GpuTypeKey, MaxPodsKey]"

definition memory_in_bytes :: "string \<Rightarrow> string" where
  "memory_in_bytes mem =
     (case ParseInt mem of Inr n \<Rightarrow> quantity_string (wrap64 (n * MiB)) | Inl _ \<Rightarrow> '''')"

definition sfz_derived :: "strmap \<Rightarrow> string \<Rightarrow> string option" where
  "sfz_derived a k =
     (if k = CpuKey then map_get a CpuKeyDeprecated
      else if k = MemoryKey then map_option memory_in_bytes (map_get a MemoryKeyDeprecated)
      else if k = GpuCountKey then map_get a GpuCountKeyDeprecated
      else if k = GpuTypeKey then
        map_option (\<lambda>gpu. if gpu = ''0'' then '''' else GpuNvidiaType) (map_get a GpuCountKeyDeprecated)
      else if k = MaxPodsKey then map_get a MaxPodsKeyDeprecated
      else None)"

definition sfz_spec :: "strmap \<Rightarrow> string \<Rightarrow> string option" where
  "sfz_spec a k = (case map_get a k of Some v \<Rightarrow> Some v | None \<Rightarrow> sfz_derived a k)"

definition sfz_bad_memory :: "strmap \<Rightarrow> bool" where
  "sfz_bad_memory a \<longleftrightarrow>
     (case map_get a MemoryKeyDeprecated of
        None \<Rightarrow> False
      | Some mem \<Rightarrow> map_get a MemoryKey = None \<and> (case ParseInt mem of Inl _ \<Rightarrow> True | Inr _ \<Rightarrow> False))"

lemma ParseMachineSetAnnotationKey_eq [simp]:
  "k \<noteq> '''' \<Longrightarrow> ParseMachineSetAnnotationKey a k = map_get a k"
  by (simp add: ParseMachineSetAnnotationKey_def split: option.splits)

lemma sfz_nonempty [simp]:
  "CpuKey \<noteq> ''''" "MemoryKey \<noteq> ''''" "GpuCountKey \<noteq> ''''" "GpuTypeKey \<noteq> ''''" "MaxPodsKey \<noteq> ''''"
  "CpuKeyDeprecated \<noteq> ''''" "MemoryKeyDeprecated \<noteq> ''''" "GpuCountKeyDeprecated \<noteq> ''''"
  "MaxPodsKeyDeprecated \<noteq> ''''"
  by (simp_all add: key_defs)

text \<open>A key is filled in where it is missing, in a map known not to be nil.\<close>

lemma fill_missing:
  assumes "map_get a l = Some x"
  obtains b where "(case map_get a k of None \<Rightarrow> map_put a k v | Some _ \<Rightarrow> Inr a) = Inr b"
    "\<And>j. map_get b j = (if j = k \<and> map_get a k = None then Some v else map_get a j)"
proof -
  from assms have "a \<noteq> None" by (cases a) auto
  then have "map_put a k v = Inr (map_set a k v)"
    "\<And>j. map_get (map_set a k v) j = (if j = k then Some v else map_get a j)"
    by (simp_all add: map_put_map_set)
  then show thesis
    using that [of "map_set a k v"] that [of a] by (cases "map_get a k = None") auto
qed

text \<open>Each block, as a map from keys: it succeeds and adds its key where it is missing.\<close>

lemma sfz_spec_None: "map_get a k = None \<Longrightarrow> sfz_spec a k = sfz_derived a k"
  and sfz_spec_Some: "map_get a k = Some v \<Longrightarrow> sfz_spec a k = Some v"
  by (simp_all add: sfz_spec_def)

lemma sfz_spec_no_source: "sfz_derived a k = None \<Longrightarrow> sfz_spec a k = map_get a k"
  by (simp add: sfz_spec_def split: option.splits)

lemma sfz_spec_fill:
  "sfz_derived a k = Some v \<Longrightarrow> sfz_spec a k = (if map_get a k = None then Some v else map_get a k)"
  by (auto simp: sfz_spec_def)

lemma check_cpu_ok:
  obtains b where "check_cpu a = Inr b"
    "\<And>k. map_get b k = (if k = CpuKey then sfz_spec a k else map_get a k)"
proof (cases "map_get a CpuKeyDeprecated")
  case None
  then show thesis using that [of a]
    by (simp add: check_cpu_def sfz_spec_no_source sfz_derived_def)
next
  case (Some v)
  obtain b where b: "(case map_get a CpuKey of None \<Rightarrow> map_put a CpuKey v | Some _ \<Rightarrow> Inr a) = Inr b"
    "\<And>j. map_get b j = (if j = CpuKey \<and> map_get a CpuKey = None then Some v else map_get a j)"
    using fill_missing [OF Some] by metis
  have "sfz_derived a CpuKey = Some v" using Some by (simp add: sfz_derived_def)
  with b Some show thesis
    by (intro that [of b]) (auto simp: check_cpu_def SetCpuAnnotation_def sfz_spec_fill split: option.splits)
qed

lemma check_maxPods_ok:
  obtains b where "check_maxPods a = Inr b"
    "\<And>k. map_get b k = (if k = MaxPodsKey then sfz_spec a k else map_get a k)"
proof (cases "map_get a MaxPodsKeyDeprecated")
  case None
  then show thesis using that [of a]
    by (simp add: check_maxPods_def sfz_spec_no_source sfz_derived_def)
next
  case (Some v)
  obtain b where b: "(case map_get a MaxPodsKey of None \<Rightarrow> map_put a MaxPodsKey v | Some _ \<Rightarrow> Inr a) = Inr b"
    "\<And>j. map_get b j = (if j = MaxPodsKey \<and> map_get a MaxPodsKey = None then Some v else map_get a j)"
    using fill_missing [OF Some] by metis
  have "sfz_derived a MaxPodsKey = Some v" using Some by (simp add: sfz_derived_def)
  with b Some show thesis
    by (intro that [of b]) (auto simp: check_maxPods_def SetMaxPodsAnnotation_def sfz_spec_fill split: option.splits)
qed

lemma check_memory_bad:
  "sfz_bad_memory a \<Longrightarrow> \<exists>err. check_memory a = Inl (GoWrap ''could not parse integer: %w'' err)"
  by (auto simp: sfz_bad_memory_def check_memory_def split: option.splits sum.splits)

lemma check_memory_ok:
  assumes "\<not> sfz_bad_memory a"
  obtains b where "check_memory a = Inr b"
    "\<And>k. map_get b k = (if k = MemoryKey then sfz_spec a k else map_get a k)"
proof (cases "map_get a MemoryKeyDeprecated")
  case None
  then show thesis using that [of a]
    by (simp add: check_memory_def sfz_spec_no_source sfz_derived_def)
next
  case (Some v)
  obtain b where b: "(case map_get a MemoryKey of None \<Rightarrow> map_put a MemoryKey (memory_in_bytes v)
      | Some _ \<Rightarrow> Inr a) = Inr b"
    "\<And>j. map_get b j = (if j = MemoryKey \<and> map_get a MemoryKey = None then Some (memory_in_bytes v)
      else map_get a j)"
    using fill_missing [OF Some] by metis
  have d: "sfz_derived a MemoryKey = Some (memory_in_bytes v)" using Some by (simp add: sfz_derived_def)
  have "check_memory a = Inr b"
  proof (cases "map_get a MemoryKey = None")
    case True
    with assms Some obtain n where "ParseInt v = Inr n"
      by (auto simp: sfz_bad_memory_def split: sum.splits)
    with True Some b(1) show ?thesis
      by (simp add: check_memory_def SetMemoryAnnotation_def memory_in_bytes_def)
  next
    case False
    with Some b(1) show ?thesis by (auto simp: check_memory_def)
  qed
  with b(2) d show thesis by (intro that [of b]) (auto simp: sfz_spec_fill)
qed

lemma check_gpu_ok:
  obtains b where "check_gpu a = Inr b"
    "\<And>k. map_get b k = (if k = GpuCountKey \<or> k = GpuTypeKey then sfz_spec a k else map_get a k)"
proof (cases "map_get a GpuCountKeyDeprecated")
  case None
  then show thesis using that [of a]
    by (auto simp: check_gpu_def sfz_spec_no_source sfz_derived_def)
next
  case (Some v)
  define t where "t = (if v = ''0'' then '''' else GpuNvidiaType)"
  obtain a1 where a1: "(case map_get a GpuCountKey of None \<Rightarrow> map_put a GpuCountKey v | Some _ \<Rightarrow> Inr a) = Inr a1"
    "\<And>j. map_get a1 j = (if j = GpuCountKey \<and> map_get a GpuCountKey = None then Some v else map_get a j)"
    using fill_missing [OF Some] by metis
  have "map_get a1 GpuCountKeyDeprecated = Some v" using a1(2) Some by simp
  from fill_missing [OF this] obtain b where
    b: "(case map_get a1 GpuTypeKey of None \<Rightarrow> map_put a1 GpuTypeKey t | Some _ \<Rightarrow> Inr a1) = Inr b"
    "\<And>j. map_get b j = (if j = GpuTypeKey \<and> map_get a1 GpuTypeKey = None then Some t else map_get a1 j)"
    by metis
  have d: "sfz_derived a GpuCountKey = Some v" "sfz_derived a GpuTypeKey = Some t"
    using Some by (simp_all add: sfz_derived_def t_def)
  have "check_gpu a =
      (case map_get a1 GpuTypeKey of None \<Rightarrow> map_put a1 GpuTypeKey t | Some _ \<Rightarrow> Inr a1)"
    using Some a1(1)
    by (auto simp: check_gpu_def SetGpuCountAnnotation_def SetGpuTypeAnnotation_def t_def
        split: option.splits)
  with b a1(2) d show thesis by (intro that [of b]) (auto simp: sfz_spec_fill)
qed

lemma sfz_spec_cong:
  assumes "map_get b k = map_get a k"
    and "\<And>l. l \<in> {CpuKeyDeprecated, MemoryKeyDeprecated, GpuCountKeyDeprecated, MaxPodsKeyDeprecated} \<Longrightarrow>
      map_get b l = map_get a l"
  shows "sfz_spec b k = sfz_spec a k"
proof -
  have "sfz_derived b k = sfz_derived a k" by (simp add: sfz_derived_def assms(2))
  then show ?thesis by (simp only: sfz_spec_def assms(1))
qed

lemma sfz_bad_memory_cong:
  assumes "map_get b MemoryKey = map_get a MemoryKey"
    "map_get b MemoryKeyDeprecated = map_get a MemoryKeyDeprecated"
  shows "sfz_bad_memory b = sfz_bad_memory a"
  by (simp only: sfz_bad_memory_def assms)

lemma checkScale_bad:
  assumes "sfz_bad_memory a"
  shows "\<exists>err. checkScaleFromZeroAnnotations a = Inl (GoWrap ''could not parse integer: %w'' err)"
proof -
  obtain b where b: "check_cpu a = Inr b"
    "\<And>k. map_get b k = (if k = CpuKey then sfz_spec a k else map_get a k)"
    using check_cpu_ok [of a] by blast
  then have "sfz_bad_memory b" using assms sfz_bad_memory_cong [of b a] by simp
  with b check_memory_bad show ?thesis by (fastforce simp: checkScaleFromZeroAnnotations_def)
qed

lemma checkScale_ok:
  assumes "\<not> sfz_bad_memory a"
  obtains b where "checkScaleFromZeroAnnotations a = Inr b" "map_get b = sfz_spec a"
proof -
  obtain a1 where 1: "check_cpu a = Inr a1"
    "\<And>k. map_get a1 k = (if k = CpuKey then sfz_spec a k else map_get a k)"
    using check_cpu_ok [of a] by blast
  have "\<not> sfz_bad_memory a1" using 1(2) assms sfz_bad_memory_cong [of a1 a] by simp
  then obtain a2 where 2: "check_memory a1 = Inr a2"
    "\<And>k. map_get a2 k = (if k = MemoryKey then sfz_spec a1 k else map_get a1 k)"
    using check_memory_ok [of a1] by blast
  obtain a3 where 3: "check_gpu a2 = Inr a3"
    "\<And>k. map_get a3 k = (if k = GpuCountKey \<or> k = GpuTypeKey then sfz_spec a2 k else map_get a2 k)"
    using check_gpu_ok [of a2] by blast
  obtain b where 4: "check_maxPods a3 = Inr b"
    "\<And>k. map_get b k = (if k = MaxPodsKey then sfz_spec a3 k else map_get a3 k)"
    using check_maxPods_ok [of a3] by blast
  have s1: "sfz_spec a1 k = sfz_spec a k" if "k \<noteq> CpuKey" for k
    by (rule sfz_spec_cong) (use that 1(2) in auto)
  have s2: "sfz_spec a2 k = sfz_spec a k" if "k \<noteq> CpuKey" "k \<noteq> MemoryKey" for k
    by (rule trans [OF sfz_spec_cong s1]) (use that 2(2) in auto)
  have s3: "sfz_spec a3 MaxPodsKey = sfz_spec a MaxPodsKey"
    by (rule trans [OF sfz_spec_cong s2]) (use 3(2) in auto)
  have other: "map_get a k = sfz_spec a k" if "k \<notin> set upstream_keys" for k
    using that by (simp add: upstream_keys_def sfz_spec_def sfz_derived_def split: option.splits)
  have "map_get b k = sfz_spec a k" for k
    using 4(2) 3(2) 2(2) 1(2) s1 s2 s3 other [of k]
    by (cases "k \<in> set upstream_keys") (auto simp: upstream_keys_def)
  then have "map_get b = sfz_spec a" by (rule ext)
  then show thesis using that [of b] 1(1) 2(1) 3(1) 4(1) by (simp add: checkScaleFromZeroAnnotations_def)
qed

lemma checkScale_Inr:
  "checkScaleFromZeroAnnotations a = Inr b \<Longrightarrow> \<not> sfz_bad_memory a \<and> map_get b = sfz_spec a"
  using checkScale_bad [of a] checkScale_ok [of a] by (cases "sfz_bad_memory a") auto

lemma checkScale_not_panic:
  "checkScaleFromZeroAnnotations a = Inl e \<Longrightarrow> \<not> is_panic e"
  using checkScale_bad [of a] checkScale_ok [of a] by (cases "sfz_bad_memory a") auto

lemma sfz_spec_keeps:
  "map_get a k = Some v \<Longrightarrow> sfz_spec a k = Some v"
  "k \<notin> set upstream_keys \<Longrightarrow> sfz_spec a k = map_get a k"
  by (simp_all add: sfz_spec_def sfz_derived_def upstream_keys_def split: option.splits)

end
