(* ===== verification/MA_Reconciler.thy ===== *)
theory MA_Reconciler
  imports MA_Types MA_Target
begin

text \<open>
  The controller of MachineAutoscalers
  (\<open>pkg/controller/machineautoscaler/machineautoscaler_controller.go\<close>): the reconciler's
  configuration, the reference of a target, and every handler of the reconcile loop as an
  action on the world.  The clients and the event recorder are fields of \<open>ma_env\<close>; a
  handler that updates its \<open>ma\<close> argument in place returns the updated object.
\<close>

section \<open>Configuration and errors\<close>

record ma_config =
  mc_Namespace :: string
  mc_SupportedTargetGVKs :: "GroupVersionKind list"

record 'w ma_env =
  me_ma :: "('w, NamespacedName, MachineAutoscaler) client"
  me_target :: "('w, GroupVersionKind \<times> NamespacedName, unstructured) client"
  me_record :: "event \<Rightarrow> 'w \<Rightarrow> 'w"

definition MachineTargetFinalizer :: string where
  "MachineTargetFinalizer = ''machinetarget.autoscaling.openshift.io''"

definition ErrUnsupportedTarget :: go_error where
  "ErrUnsupportedTarget = errorf ''unsupported MachineAutoscaler target''"

definition ErrInvalidTarget :: go_error where
  "ErrInvalidTarget = errorf ''invalid MachineAutoscaler target''"

definition ErrNoSupportedTargets :: go_error where
  "ErrNoSupportedTargets = errorf ''no supported target types available''"

definition DefaultSupportedTargetGVKs :: "GroupVersionKind list" where
  "DefaultSupportedTargetGVKs =
     [\<lparr>gvk_group = ''machine.openshift.io'', gvk_version = ''v1beta1'', gvk_kind = ''MachineSet''\<rparr>]"

section \<open>Target references\<close>

definition objectReference :: "CrossVersionObjectReference \<Rightarrow> ObjectReference" where
  "objectReference ref =
     (let obj = \<lparr>or_apiVersion = '''', or_kind = '''', or_name = ''''\<rparr>;
          gvk = FromAPIVersionAndKind (cv_APIVersion ref) (cv_Kind ref);
          obj = OR_SetGroupVersionKind gvk obj
      in obj\<lparr>or_name := cv_Name ref\<rparr>)"

definition SupportedTarget :: "ma_config \<Rightarrow> GroupVersionKind \<Rightarrow> bool" where
  "SupportedTarget cfg gvk \<longleftrightarrow> list_ex (\<lambda>supported. gvk = supported) (mc_SupportedTargetGVKs cfg)"

definition SupportedGVKs :: "ma_config \<Rightarrow> GroupVersionKind list" where
  "SupportedGVKs cfg = mc_SupportedTargetGVKs cfg"

definition RemoveSupportedGVK :: "GroupVersionKind \<Rightarrow> ma_config \<Rightarrow> ma_config" where
  "RemoveSupportedGVK gvk cfg =
     cfg\<lparr>mc_SupportedTargetGVKs := filter (\<lambda>x. x \<noteq> gvk) (mc_SupportedTargetGVKs cfg)\<rparr>"

text \<open>\<open>(false, err)\<close> is \<open>Inl err\<close> and \<open>(true, nil)\<close> is \<open>Inr ()\<close>.\<close>

definition ValidateReference :: "ma_config \<Rightarrow> ObjectReference option \<Rightarrow> go_error + unit" where
  "ValidateReference cfg obj_ptr =
     (case obj_ptr of
        None \<Rightarrow> Inl ErrInvalidTarget
      | Some obj \<Rightarrow>
          if or_name obj = '''' then Inl ErrInvalidTarget
          else if \<not> SupportedTarget cfg (OR_GroupVersionKind obj) then Inl ErrUnsupportedTarget
          else Inr ())"

section \<open>Startup\<close>

text \<open>
  \<open>getMissingGVKs\<close> asks the REST mapper for each kind: \<open>Inr ()\<close> when it is registered,
  else an error and whether it is a no-match error.
\<close>

fun getMissingGVKs ::
    "(GroupVersionKind \<Rightarrow> (go_error \<times> bool) + unit) \<Rightarrow> GroupVersionKind list \<Rightarrow>
     GroupVersionKind list \<Rightarrow> go_error + GroupVersionKind list" where
  "getMissingGVKs kindFor [] missing = Inr missing"
| "getMissingGVKs kindFor (gvk # gvks) missing =
     (case kindFor gvk of
        Inr _ \<Rightarrow> getMissingGVKs kindFor gvks missing
      | Inl (err, noMatch) \<Rightarrow>
          if noMatch then getMissingGVKs kindFor gvks (missing @ [gvk]) else Inl err)"

text \<open>\<open>AddToManager\<close> between the two watches: the configuration it leaves, or its error.\<close>

definition supported_at_startup ::
    "(GroupVersionKind \<Rightarrow> (go_error \<times> bool) + unit) \<Rightarrow> ma_config \<Rightarrow> go_error + ma_config" where
  "supported_at_startup kindFor cfg =
     res_bind (getMissingGVKs kindFor (SupportedGVKs cfg) []) (\<lambda>missingGVKs.
       (let cfg = fold RemoveSupportedGVK missingGVKs cfg
        in if length (SupportedGVKs cfg) < 1 then Inl ErrNoSupportedTargets else Inr cfg))"

section \<open>Events\<close>

definition warning_event ::
    "involved \<Rightarrow> involved \<Rightarrow> string \<Rightarrow> string \<Rightarrow> string \<Rightarrow> go_arg list \<Rightarrow> event" where
  "warning_event regarding related reason action note args =
     \<lparr>ev_regarding = regarding, ev_related = related, ev_type = ''Warning'', ev_reason = reason,
      ev_action = action, ev_note = note, ev_args = args\<rparr>"

definition inv_ma :: "MachineAutoscaler \<Rightarrow> involved" where
  "inv_ma ma = InvObject ''MachineAutoscaler'' (ma_key ma)"

definition inv_target :: "unstructured \<Rightarrow> involved" where
  "inv_target target = InvObject (GetKind target) (target_NamespacedName target)"

section \<open>The steps of the reconcile loop\<close>

text \<open>
  The client gets into an empty object of the reference's kind;
  \<open>MachineTargetFromObject\<close> copies an unstructured object and does not fail.
\<close>

definition GetTarget :: "'w ma_env \<Rightarrow> ma_config \<Rightarrow> ObjectReference \<Rightarrow> ('w, unstructured) act" where
  "GetTarget env cfg ref =
     (case ValidateReference cfg (Some ref) of
        Inl err \<Rightarrow> act_raise err
      | Inr _ \<Rightarrow>
          cl_get (me_target env)
            (OR_GroupVersionKind ref, \<lparr>nn_namespace = mc_Namespace cfg, nn_name = or_name ref\<rparr>))"

definition UpdateTarget :: "'w ma_env \<Rightarrow> unstructured \<Rightarrow> int \<Rightarrow> int \<Rightarrow> ('w, unit) act" where
  "UpdateTarget env target mn mx =
     (case checkScaleFromZeroAnnotations (GetAnnotations target) of
        Inl err \<Rightarrow> act_raise err
      | Inr updatedAnnotations \<Rightarrow>
          (let target = SetAnnotations updatedAnnotations target
           in if NeedsUpdate mn mx target then
                (let target = SetLimits mn mx target
                 in act_bind (act_lift (HasGPUCapacity target)) (\<lambda>gpu.
                    act_bind
                      (if gpu then
                         (let warning = WarningForInvalidGPUAcceleratorLabel target
                          in if length warning > 0 then
                               act_do (me_record env
                                 (warning_event (inv_target target) InvNil
                                   ''InvalidOrMissingGPUAcceleratorLabel''
                                   ''ValidateGPUAcceleratorLabel'' ''%s'' [ArgS warning]))
                             else act_return ())
                       else act_return ()) (\<lambda>_.
                    act_bind (cl_update (me_target env) target) (\<lambda>_. act_return ()))))
              else act_return ()))"

definition FinalizeTarget :: "'w ma_env \<Rightarrow> unstructured \<Rightarrow> ('w, unit) act" where
  "FinalizeTarget env target =
     (let (modified, target) = Finalize target
      in if modified then act_bind (cl_update (me_target env) target) (\<lambda>_. act_return ())
         else act_return ())"

definition TargetChanged :: "MachineAutoscaler \<Rightarrow> bool" where
  "TargetChanged ma =
     (case ma_LastTargetRef ma of
        Some lastRef \<Rightarrow> if ma_ScaleTargetRef ma \<noteq> lastRef then True else False
      | None \<Rightarrow> False)"

definition SetLastTarget ::
    "'w ma_env \<Rightarrow> MachineAutoscaler \<Rightarrow> ObjectReference \<Rightarrow> ('w, MachineAutoscaler) act" where
  "SetLastTarget env ma ref =
     cl_update_status (me_ma env)
       (ma\<lparr>ma_LastTargetRef :=
          Some \<lparr>cv_APIVersion = or_apiVersion ref, cv_Kind = or_kind ref, cv_Name = or_name ref\<rparr>\<rparr>)"

definition EnsureFinalizer :: "'w ma_env \<Rightarrow> MachineAutoscaler \<Rightarrow> ('w, MachineAutoscaler) act" where
  "EnsureFinalizer env ma =
     (if list_ex (\<lambda>f. f = MachineTargetFinalizer) (ma_GetFinalizers ma) then act_return ma
      else cl_update (me_ma env)
             (ma_SetFinalizers (ma_GetFinalizers ma @ [MachineTargetFinalizer]) ma))"

definition RemoveFinalizer :: "'w ma_env \<Rightarrow> MachineAutoscaler \<Rightarrow> ('w, unit) act" where
  "RemoveFinalizer env ma =
     (case FilterString (ma_GetFinalizers ma) MachineTargetFinalizer of
        (f, found) \<Rightarrow>
          if found = 0 then act_return ()
          else act_bind (cl_update (me_ma env) (ma_SetFinalizers f ma)) (\<lambda>_. act_return ()))"

definition HandleDelete :: "'w ma_env \<Rightarrow> ma_config \<Rightarrow> MachineAutoscaler \<Rightarrow> ('w, unit) act" where
  "HandleDelete env cfg ma =
     (let targetRef = objectReference (ma_ScaleTargetRef ma)
      in act_bind (ignore_not_found (GetTarget env cfg targetRef)) (\<lambda>target.
         act_bind
           (case target of
              None \<Rightarrow> act_return None
            | Some target \<Rightarrow> ignore_not_found (FinalizeTarget env target)) (\<lambda>_.
         RemoveFinalizer env ma)))"

definition HandleTargetChange ::
    "'w ma_env \<Rightarrow> ma_config \<Rightarrow> MachineAutoscaler \<Rightarrow> ('w, MachineAutoscaler) act" where
  "HandleTargetChange env cfg ma =
     (case ma_LastTargetRef ma of
        None \<Rightarrow> act_return ma
      | Some lastRef \<Rightarrow>
          (let newTargetRef = objectReference (ma_ScaleTargetRef ma);
               lastTargetRef = objectReference lastRef
           in act_bind
                (on_error (ignore_not_found (GetTarget env cfg lastTargetRef)) (\<lambda>err.
                   me_record env (warning_event (inv_ma ma) (InvRef lastTargetRef)
                     ''FailedGetLastTarget'' ''GetLastTarget''
                     ''Error fetching previous target: %v'' [ArgE err]))) (\<lambda>lastTarget.
              act_bind
                (case lastTarget of
                   None \<Rightarrow> act_return None
                 | Some lastTarget \<Rightarrow>
                     on_error (ignore_not_found (FinalizeTarget env lastTarget)) (\<lambda>err.
                       me_record env (warning_event (inv_ma ma) (inv_target lastTarget)
                         ''FailedFinalizeTarget'' ''FinalizeTarget''
                         ''Error finalizing previous target: %v'' [ArgE err]))) (\<lambda>_.
              on_error (SetLastTarget env ma newTargetRef) (\<lambda>err.
                me_record env (warning_event (inv_ma ma) (InvRef newTargetRef)
                  ''FailedSetLastTarget'' ''SetLastTarget''
                  ''Error setting previous target: %v'' [ArgE err]))))))"

text \<open>\<open>Reconcile\<close> after the target of the status has been dealt with.\<close>

definition reconcile_target :: "'w ma_env \<Rightarrow> ma_config \<Rightarrow> MachineAutoscaler \<Rightarrow> ('w, unit) act" where
  "reconcile_target env cfg ma =
     (let targetRef = objectReference (ma_ScaleTargetRef ma)
      in act_bind
           (on_error (GetTarget env cfg targetRef) (\<lambda>err.
              me_record env (warning_event (inv_ma ma) (InvRef targetRef)
                ''FailedGetTarget'' ''GetTarget'' ''Error getting target: %v'' [ArgE err]))) (\<lambda>target.
         act_bind
           (on_error (act_lift (SetOwner (ma_key ma) target)) (\<lambda>err.
              me_record env (warning_event (inv_ma ma) (inv_target target)
                ''FailedSetOwner'' ''SetOwner'' ''Error setting target owner: %v'' [ArgE err])))
           (\<lambda>(ownerModified, target).
         (let target = (if ownerModified then snd (RemoveLimits target) else target)
          in act_bind
               (if ma_LastTargetRef ma = None then
                  on_error (SetLastTarget env ma targetRef) (\<lambda>err.
                    me_record env (warning_event (inv_ma ma) (InvRef targetRef)
                      ''FailedSetLastTarget'' ''SetLastTarget''
                      ''Error setting previous target: %v'' [ArgE err]))
                else act_return ma) (\<lambda>ma.
             act_bind (EnsureFinalizer env ma) (\<lambda>ma.
             act_bind
               (on_error (UpdateTarget env target (sint (ma_MinReplicas ma)) (sint (ma_MaxReplicas ma)))
                  (\<lambda>err. me_record env (warning_event (inv_ma ma) (inv_target target)
                    ''FailedUpdateTarget'' ''UpdateTarget'' ''Error updating target: %v'' [ArgE err])))
               (\<lambda>_.
             act_do (me_record env
               \<lparr>ev_regarding = inv_ma ma, ev_related = inv_target target, ev_type = ''Normal'',
                ev_reason = ''SuccessfulUpdate'', ev_action = ''UpdateTarget'',
                ev_note = ''Updated MachineAutoscaler target: %s'',
                ev_args = [ArgS (NamespacedName_String (target_NamespacedName target))]\<rparr>)))))))) "

definition Reconcile :: "'w ma_env \<Rightarrow> ma_config \<Rightarrow> NamespacedName \<Rightarrow> ('w, unit) act" where
  "Reconcile env cfg request =
     act_bind (ignore_not_found (cl_get (me_ma env) request)) (\<lambda>found.
       case found of
         None \<Rightarrow> act_return ()
       | Some ma \<Rightarrow>
           if ma_GetDeletionTimestamp ma \<noteq> None then HandleDelete env cfg ma
           else
             act_bind
               (if ma_LastTargetRef ma \<noteq> None \<and> TargetChanged ma then HandleTargetChange env cfg ma
                else act_return ma) (\<lambda>ma.
             (let res = Validate (Some ma)
              in if \<not> IsValid res then
                   act_bind (act_do (me_record env (warning_event (inv_ma ma) InvNil
                       ''FailedValidation'' ''Validate'' ''MachineAutoscaler validation error: %v''
                       [ArgE (aggregate_error res)])))
                     (\<lambda>_. act_raise (aggregate_error res))
                 else reconcile_target env cfg ma)))"

section \<open>Requests from watched targets\<close>

definition targetOwnerRequest :: "unstructured \<Rightarrow> NamespacedName list" where
  "targetOwnerRequest a = (case GetOwner a of Inl _ \<Rightarrow> [] | Inr owner \<Rightarrow> [owner])"

end
