(* ===== verification/MA_Watches.thy ===== *)
theory MA_Watches
  imports Kube_Manager MA_Reconciler
begin

text \<open>
  What the controller of MachineAutoscalers watches (\<open>AddToManager\<close> of
  \<open>pkg/controller/machineautoscaler/machineautoscaler_controller.go\<close>): the MachineAutoscalers and,
  of every supported kind that is registered with the cluster, the targets, whose owners it asks
  for.
\<close>

definition ma_gvk :: GroupVersionKind where
  "ma_gvk = \<lparr>gvk_group = ''autoscaling.openshift.io'', gvk_version = ''v1beta1'', gvk_kind = ''MachineAutoscaler''\<rparr>"

definition ma_controllerName :: string where
  "ma_controllerName = ''machine_autoscaler_controller''"

fun watch_targets :: "string \<Rightarrow> GroupVersionKind list \<Rightarrow> ('r manager, unit) act" where
  "watch_targets c [] = act_return ()"
| "watch_targets c (gvk # gvks) =
     act_bind (controller_Watch c \<lparr>wt_kind = gvk, wt_handler = EnqueueRequestsFromMapFunc, wt_filtered = False\<rparr>)
       (\<lambda>_. watch_targets c gvks)"

text \<open>The result is the reconciler's configuration, without the kinds that are missing.\<close>

definition ma_AddToManager ::
    "'r mgr_env \<Rightarrow> (GroupVersionKind \<Rightarrow> (go_error \<times> bool) + unit) \<Rightarrow> ma_config \<Rightarrow> ('r manager, ma_config) act" where
  "ma_AddToManager env kindFor cfg =
     (let c = ma_controllerName in
      act_bind (controller_New env c) (\<lambda>_.
      act_bind (controller_Watch c \<lparr>wt_kind = ma_gvk, wt_handler = EnqueueRequestForObject, wt_filtered = False\<rparr>) (\<lambda>_.
      act_bind (act_lift (supported_at_startup kindFor cfg)) (\<lambda>cfg.
      act_bind (watch_targets c (SupportedGVKs cfg)) (\<lambda>_. act_return cfg)))))"

definition ma_watches :: "ma_config \<Rightarrow> watch list" where
  "ma_watches cfg =
     \<lparr>wt_kind = ma_gvk, wt_handler = EnqueueRequestForObject, wt_filtered = False\<rparr> #
     map (\<lambda>gvk. \<lparr>wt_kind = gvk, wt_handler = EnqueueRequestsFromMapFunc, wt_filtered = False\<rparr>) (SupportedGVKs cfg)"

lemma wp_watch_targets:
  fixes m :: "'r manager"
  assumes "mg_controllers m = cs @ [(c, ws)]" "c \<notin> fst ` set cs"
    and "\<And>m'. \<lbrakk>mg_scheme m' = mg_scheme m; mg_usedNames m' = mg_usedNames m; mg_runnables m' = mg_runnables m;
      mg_controllers m' = cs @ [(c, ws @ map (\<lambda>gvk. \<lparr>wt_kind = gvk, wt_handler = EnqueueRequestsFromMapFunc,
        wt_filtered = False\<rparr>) gvks)]\<rbrakk> \<Longrightarrow> Q () m'"
  shows "wp (watch_targets c gvks) Q E m"
  using assms
proof (induction gvks arbitrary: m ws)
  case Nil
  then show ?case by (simp add: wp_simps)
next
  case (Cons gvk gvks)
  show ?case
    unfolding watch_targets.simps wp_bind
  proof (rule wp_controller_Watch [OF Cons.prems(1,2)])
    fix m' :: "'r manager" assume m': "mg_scheme m' = mg_scheme m" "mg_usedNames m' = mg_usedNames m"
      "mg_controllers m' = cs @ [(c, ws @ [\<lparr>wt_kind = gvk, wt_handler = EnqueueRequestsFromMapFunc, wt_filtered = False\<rparr>])]"
      "mg_runnables m' = mg_runnables m"
    show "wp (watch_targets c gvks) Q E m'"
      by (rule Cons.IH [OF m'(3) Cons.prems(2)]) (rule Cons.prems(3); simp add: m')
  qed
qed

text \<open>
  Adding the controller fails where the manager refuses it, where a kind cannot be looked up, or
  where no supported kind is left; else what is left is what is watched.
\<close>

lemma wp_ma_AddToManager:
  fixes m :: "'r manager"
  assumes "ma_controllerName \<notin> set (mg_usedNames m)" "ma_controllerName \<notin> fst ` set (mg_controllers m)"
    and Q: "\<And>m' cfg'. \<lbrakk>supported_at_startup kindFor cfg = Inr cfg'; mg_scheme m' = mg_scheme m;
        mg_usedNames m' = ma_controllerName # mg_usedNames m;
        mg_controllers m' = mg_controllers m @ [(ma_controllerName, ma_watches cfg')];
        mg_runnables m' = mg_runnables m @ [RunController ma_controllerName];
        \<exists>m1. me_Add env (RunController ma_controllerName) m1 = None \<and> mg_runnables m1 = mg_runnables m\<rbrakk> \<Longrightarrow> Q cfg' m'"
    and add: "\<And>e m'. \<lbrakk>mg_runnables m' = mg_runnables m; me_Add env (RunController ma_controllerName) m' = Some e\<rbrakk> \<Longrightarrow> E e m'"
    and sup: "\<And>e m'. \<lbrakk>supported_at_startup kindFor cfg = Inl e;
        mg_runnables m' = mg_runnables m @ [RunController ma_controllerName];
        \<exists>m1. me_Add env (RunController ma_controllerName) m1 = None \<and> mg_runnables m1 = mg_runnables m\<rbrakk> \<Longrightarrow> E e m'"
  shows "wp (ma_AddToManager env kindFor cfg) Q E m"
  unfolding ma_AddToManager_def Let_def wp_bind
proof (rule wp_controller_New [OF _ assms(1)], goal_cases)
  case 1 show ?case by (simp add: ma_controllerName_def)
next
  case (2 m1)
  note new = 2
  show ?case
  proof (rule wp_controller_Watch [OF new(3) assms(2)])
    fix m2 :: "'r manager" assume m2: "mg_scheme m2 = mg_scheme m1" "mg_usedNames m2 = mg_usedNames m1"
      "mg_controllers m2 = mg_controllers m @ [(ma_controllerName, [] @
        [\<lparr>wt_kind = ma_gvk, wt_handler = EnqueueRequestForObject, wt_filtered = False\<rparr>])]"
      "mg_runnables m2 = mg_runnables m1"
    show "wp (act_lift (supported_at_startup kindFor cfg))
        (\<lambda>cfg. wp (watch_targets ma_controllerName (SupportedGVKs cfg)) (\<lambda>_. wp (act_return cfg) Q E) E) E m2"
    proof (cases "supported_at_startup kindFor cfg")
      case (Inl e)
      with new m2 show ?thesis by (simp add: wp_simps sup)
    next
      case (Inr cfg')
      have "wp (watch_targets ma_controllerName (SupportedGVKs cfg')) (\<lambda>_. Q cfg') E m2"
        by (rule wp_watch_targets [OF m2(3) assms(2)])
          (use new m2 in \<open>auto intro!: Q [OF Inr] simp: ma_watches_def\<close>)
      with Inr show ?thesis by (simp add: wp_simps)
    qed
  qed
next
  case (3 e m1) then show ?case by (rule add)
qed

section \<open>The requests\<close>

datatype ma_object = MAObject MachineAutoscaler | TargetObject unstructured

fun ma_object_kind :: "ma_object \<Rightarrow> GroupVersionKind" where
  "ma_object_kind (MAObject _) = ma_gvk"
| "ma_object_kind (TargetObject u) = fst (unstructured_key u)"

fun ma_object_key :: "ma_object \<Rightarrow> NamespacedName" where
  "ma_object_key (MAObject ma) = ma_key ma"
| "ma_object_key (TargetObject u) = snd (unstructured_key u)"

fun ma_object_map :: "ma_object \<Rightarrow> NamespacedName list" where
  "ma_object_map (MAObject _) = []"
| "ma_object_map (TargetObject u) = targetOwnerRequest u"

text \<open>No source of this controller looks at owner references or has a predicate.\<close>

definition ma_view :: "ma_object object_view" where
  "ma_view =
     \<lparr>ov_kind = ma_object_kind, ov_key = ma_object_key, ov_meta = \<lambda>_. empty_meta, ov_map = ma_object_map,
      ov_predicate = \<lparr>pf_CreateFunc = None, pf_DeleteFunc = None, pf_UpdateFunc = None, pf_GenericFunc = None\<rparr>\<rparr>"

definition ma_requests :: "ma_config \<Rightarrow> ma_object watch_event \<Rightarrow> NamespacedName list" where
  "ma_requests cfg ev = controller_requests (\<lambda>_ _. Inr False) ma_view (ma_watches cfg) ev"

text \<open>An event asks for the MachineAutoscalers and the owners of the targets it carries at most.\<close>

lemma enqueue_for_object_subset: "set (enqueue_for_object key ev) \<subseteq> key ` set (event_objects ev)"
  by (cases ev) simp_all

lemma enqueue_MAObject:
  "enqueue_for_object ma_object_key (map_watch_event MAObject ev) = enqueue_for_object ma_key ev"
  by (cases ev) simp_all

lemma ma_requests_ma: "set (ma_requests cfg (map_watch_event MAObject ev)) = set (enqueue_for_object ma_key ev)"
proof -
  have "set (watch_requests (\<lambda>_ _. Inr False) ma_view w (map_watch_event MAObject ev)) \<subseteq> set (enqueue_for_object ma_key ev)"
    if "w \<in> set (ma_watches cfg)" for w
    using that by (cases ev) (auto simp: watch_requests_def ma_watches_def ma_view_def handler_requests_def)
  moreover have "watch_requests (\<lambda>_ _. Inr False) ma_view (hd (ma_watches cfg)) (map_watch_event MAObject ev) =
      enqueue_for_object ma_key ev"
    by (cases ev) (simp_all add: watch_requests_def ma_watches_def ma_view_def handler_requests_def)
  ultimately show ?thesis
    unfolding ma_requests_def set_controller_requests by (auto simp: ma_watches_def)
qed

lemma ma_requests_target:
  assumes "\<And>u. u \<in> set (event_objects ev) \<Longrightarrow> unstructured_key u = k"
  shows "set (ma_requests cfg (map_watch_event TargetObject ev)) \<subseteq>
      insert (snd k) (\<Union>u \<in> set (event_objects ev). set (targetOwnerRequest u))"
proof -
  have "set (watch_requests (\<lambda>_ _. Inr False) ma_view w (map_watch_event TargetObject ev)) \<subseteq>
      insert (snd k) (\<Union>u \<in> set (event_objects ev). set (targetOwnerRequest u))" if "w \<in> set (ma_watches cfg)" for w
    using that assms enqueue_for_object_subset [of ma_object_key "map_watch_event TargetObject ev"]
    by (auto simp: watch_requests_def ma_watches_def ma_view_def handler_requests_def set_enqueue_mapped)
  then show ?thesis unfolding ma_requests_def set_controller_requests by blast
qed

text \<open>A target of a supported kind asks for its owner in each of its events.\<close>

lemma ma_requests_owner:
  assumes "\<And>u. u \<in> set (event_objects ev) \<Longrightarrow> unstructured_key u = k" "SupportedTarget cfg (fst k)"
    and u: "u \<in> set (event_objects ev)"
  shows "set (targetOwnerRequest u) \<subseteq> set (ma_requests cfg (map_watch_event TargetObject ev))"
proof -
  let ?w = "\<lparr>wt_kind = fst k, wt_handler = EnqueueRequestsFromMapFunc, wt_filtered = False\<rparr>"
  have "?w \<in> set (ma_watches cfg)"
    using assms(2) by (auto simp: ma_watches_def SupportedTarget_def SupportedGVKs_def list_ex_iff)
  moreover have "set (targetOwnerRequest u) \<subseteq> set (watch_requests (\<lambda>_ _. Inr False) ma_view ?w (map_watch_event TargetObject ev))"
    using assms by (auto simp: watch_requests_def ma_view_def handler_requests_def set_enqueue_mapped list_all_iff)
  ultimately show ?thesis
    unfolding ma_requests_def set_controller_requests by blast
qed

end
