(* ===== verification/MA_Cluster.thy ===== *)
theory MA_Cluster
  imports MA_Reconciler
begin

text \<open>
  The reconciler of MachineAutoscalers against an API server.  The locale \<open>ma_cluster\<close> puts
  the contracts of the two kinds of objects and of the event recorder together; the steps
  of the reconcile loop are specified in it once, as weakest preconditions, and the
  properties of the whole loop follow.  A cluster of two fake clients provides the locale.
\<close>

section \<open>The contract of the cluster\<close>

definition target_pending :: "unstructured \<Rightarrow> bool" where
  "target_pending u \<longleftrightarrow> GetDeletionTimestamp u \<noteq> None"

definition target_gone :: "unstructured \<Rightarrow> bool" where
  "target_gone u \<longleftrightarrow> GetDeletionTimestamp u \<noteq> None \<and> GetFinalizers u = []"

definition ma_pending :: "MachineAutoscaler \<Rightarrow> bool" where
  "ma_pending ma \<longleftrightarrow> ma_GetDeletionTimestamp ma \<noteq> None"

definition target_key :: "ma_config \<Rightarrow> ObjectReference \<Rightarrow> GroupVersionKind \<times> NamespacedName" where
  "target_key cfg ref = (OR_GroupVersionKind ref, \<lparr>nn_namespace = mc_Namespace cfg, nn_name = or_name ref\<rparr>)"

text \<open>The key of the target a MachineAutoscaler refers to, and of the last one it noted.\<close>

definition ma_target_key :: "ma_config \<Rightarrow> MachineAutoscaler \<Rightarrow> GroupVersionKind \<times> NamespacedName" where
  "ma_target_key cfg ma = target_key cfg (objectReference (ma_ScaleTargetRef ma))"

definition ma_last_target_key :: "ma_config \<Rightarrow> MachineAutoscaler \<Rightarrow> (GroupVersionKind \<times> NamespacedName) option" where
  "ma_last_target_key cfg ma = map_option (\<lambda>r. target_key cfg (objectReference r)) (ma_LastTargetRef ma)"

text \<open>The reference the status notes for a target, in the form \<open>objectReference\<close> gives it.\<close>

definition noted_ref :: "CrossVersionObjectReference \<Rightarrow> CrossVersionObjectReference" where
  "noted_ref ref =
     (let r = objectReference ref
      in \<lparr>cv_APIVersion = or_apiVersion r, cv_Kind = or_kind r, cv_Name = or_name r\<rparr>)"

text \<open>A reference of a supported kind is noted as it is, if no supported kind is in the core group.\<close>

lemma OR_GroupVersionKind_core:
  assumes "gvk_group (FromAPIVersionAndKind (cv_APIVersion ref) (cv_Kind ref)) = ''''"
  shows "gvk_group (OR_GroupVersionKind (objectReference ref)) = ''''"
proof -
  let ?gvk = "FromAPIVersionAndKind (cv_APIVersion ref) (cv_Kind ref)"
  have "CHR ''/'' \<notin> set (gvk_version ?gvk)"
    using ParseGroupVersion_Inr(1) [of "cv_APIVersion ref"]
    by (auto simp: FromAPIVersionAndKind_def split: sum.splits)
  then have "count_list (gvk_version ?gvk) (CHR ''/'') = 0" by (simp add: count_list_0_iff)
  with assms show ?thesis
    by (simp add: OR_GroupVersionKind_def objectReference_def OR_SetGroupVersionKind_def Let_def
        ToAPIVersionAndKind_def GVK_GroupVersion_def GroupVersion_String_def
        FromAPIVersionAndKind_def [of "gvk_version _"] FromAPIVersionAndKind_def [of "[]"]
        ParseGroupVersion_def)
qed

lemma noted_ref_supported:
  assumes "ValidateReference cfg (Some (objectReference ref)) = Inr ()"
    and "\<forall>gvk \<in> set (mc_SupportedTargetGVKs cfg). gvk_group gvk \<noteq> ''''"
  shows "noted_ref ref = ref"
proof -
  let ?gvk = "FromAPIVersionAndKind (cv_APIVersion ref) (cv_Kind ref)"
  have "gvk_group (OR_GroupVersionKind (objectReference ref)) \<noteq> ''''"
    using assms by (auto simp: ValidateReference_def SupportedTarget_def list_ex_iff split: if_splits)
  then have g: "gvk_group ?gvk \<noteq> ''''" using OR_GroupVersionKind_core by blast
  then obtain gv where gv: "ParseGroupVersion (cv_APIVersion ref) = Inr gv" "gv_group gv \<noteq> ''''"
    by (auto simp: FromAPIVersionAndKind_def split: sum.splits)
  from ParseGroupVersion_Inr(2) [OF gv] gv have "GroupVersion_String (GVK_GroupVersion ?gvk) = cv_APIVersion ref"
    by (simp add: FromAPIVersionAndKind_def GVK_GroupVersion_def GroupVersion_String_def)
  moreover have "gvk_kind ?gvk = cv_Kind ref" by (simp add: FromAPIVersionAndKind_def split: sum.split)
  ultimately show ?thesis using g
    by (simp add: noted_ref_def objectReference_def OR_SetGroupVersionKind_def Let_def
        ToAPIVersionAndKind_def GVK_Empty_def)
qed

definition owner_of :: "unstructured \<Rightarrow> string option" where
  "owner_of t = map_get (GetAnnotations t) MachineTargetOwnerAnnotation"

text \<open>The GPU capacity annotation is there and is not a quantity.\<close>

definition malformed_gpu :: "unstructured \<Rightarrow> bool" where
  "malformed_gpu t \<longleftrightarrow>
     (case map_get (GetAnnotations t) autoscalerCapacityGPU of
        None \<Rightarrow> False
      | Some v \<Rightarrow> (case ParseQuantity v of Inl _ \<Rightarrow> True | Inr _ \<Rightarrow> False))"

lemma HasGPUCapacity_panic:
  "HasGPUCapacity t = Inl e \<Longrightarrow> is_panic e \<and> malformed_gpu t"
  by (auto simp: HasGPUCapacity_def malformed_gpu_def MustParse_def res_bind_def
      split: option.splits sum.splits if_splits)

text \<open>No autoscaling configuration is left on a target.\<close>

definition finalized :: "unstructured \<Rightarrow> bool" where
  "finalized t \<longleftrightarrow> (\<forall>k \<in> set finalize_keys. map_get (GetAnnotations t) k = None)"

text \<open>A target after \<open>SetOwner\<close> and, where the owner is new, \<open>RemoveLimits\<close>.\<close>

definition take_over :: "bool \<Rightarrow> unstructured \<Rightarrow> unstructured" where
  "take_over b t = (if b then snd (RemoveLimits t) else t)"

lemma unstructured_spec_SetAnnotations [simp]:
  "snd (unstructured_spec (SetAnnotations a u)) = snd (unstructured_spec u)"
  by (simp add: unstructured_spec_def fun_eq_iff)

lemma take_over:
  assumes "wf_unstructured t" "SetOwner owner t = Inr (b, t0)"
  shows "wf_unstructured (take_over b t0)" "unstructured_key (take_over b t0) = unstructured_key t"
    and "target_gone (take_over b t0) = target_gone t"
    and "snd (unstructured_spec (take_over b t0)) = snd (unstructured_spec t)"
    and "owner_of (take_over b t0) = Some (NamespacedName_String owner)"
    and "take_over b t0 = t \<or> GetLimits (take_over b t0) = Inl ErrTargetMissingAnnotations"
    and "k \<notin> set finalize_keys \<Longrightarrow>
      map_get (GetAnnotations (take_over b t0)) k = map_get (GetAnnotations t) k"
    and "owner_of t = None \<or> owner_of t = Some (NamespacedName_String owner)"
proof -
  have "wf_unstructured (take_over b t0) \<and> unstructured_key (take_over b t0) = unstructured_key t \<and>
    target_gone (take_over b t0) = target_gone t \<and>
    snd (unstructured_spec (take_over b t0)) = snd (unstructured_spec t) \<and>
    owner_of (take_over b t0) = Some (NamespacedName_String owner) \<and>
    (take_over b t0 = t \<or> GetLimits (take_over b t0) = Inl ErrTargetMissingAnnotations) \<and>
    (\<forall>k. k \<notin> set finalize_keys \<longrightarrow>
      map_get (GetAnnotations (take_over b t0)) k = map_get (GetAnnotations t) k) \<and>
    (owner_of t = None \<or> owner_of t = Some (NamespacedName_String owner))"
  proof (cases rule: SetOwner_cases [of t owner])
    case same
    with assms have "b = False" "t0 = t" by auto
    with assms same show ?thesis by (simp add: take_over_def owner_of_def)
  next
    case added
    with assms have bt: "b = True" and wf0: "wf_unstructured t0" and
      t0: "\<exists>a. t0 = SetAnnotations a t" by auto
    obtain c t1 where c: "RemoveLimits t0 = (c, t1)" by fastforce
    note r = c [unfolded RemoveLimits_def]
    obtain a where a: "t1 = SetAnnotations a t0" using RemoveAnnotations_SetAnnotations [OF r] by blast
    have "GetLimits t1 = Inl ErrTargetMissingAnnotations"
      using RemoveAnnotations_get [OF wf0 r, of minSizeAnnotation] by (simp add: GetLimits_def)
    moreover have "map_get (GetAnnotations t1) k = (if k = MachineTargetOwnerAnnotation
        then Some (NamespacedName_String owner) else map_get (GetAnnotations t) k)"
      if "k \<notin> {minSizeAnnotation, maxSizeAnnotation}" for k
      using that RemoveAnnotations_get [OF wf0 r, of k] SetOwner_get(1) [OF assms, of k] by simp
    ultimately show ?thesis using bt c a t0 wf0 assms(1) added(1)
      by (auto simp: take_over_def owner_of_def finalize_keys_def target_gone_def)
  qed (use assms in auto)
  then show "wf_unstructured (take_over b t0)" "unstructured_key (take_over b t0) = unstructured_key t"
    "target_gone (take_over b t0) = target_gone t"
    "snd (unstructured_spec (take_over b t0)) = snd (unstructured_spec t)"
    "owner_of (take_over b t0) = Some (NamespacedName_String owner)"
    "take_over b t0 = t \<or> GetLimits (take_over b t0) = Inl ErrTargetMissingAnnotations"
    "k \<notin> set finalize_keys \<Longrightarrow>
      map_get (GetAnnotations (take_over b t0)) k = map_get (GetAnnotations t) k"
    "owner_of t = None \<or> owner_of t = Some (NamespacedName_String owner)" by blast+
qed

lemma malformed_gpu_take_over:
  assumes "wf_unstructured t" "SetOwner owner t = Inr (b, t0)"
  shows "malformed_gpu (take_over b t0) = malformed_gpu t"
proof -
  have "autoscalerCapacityGPU \<notin> set finalize_keys" by (simp add: finalize_keys_def key_defs)
  then show ?thesis using take_over(7) [OF assms] by (simp add: malformed_gpu_def)
qed

locale ma_cluster =
  mas: object_store "me_ma env" ma_key ma_at ma_written ma_LastTargetRef ma_pending ma_gone "\<lambda>_. True" good +
  tgs: object_store "me_target env" unstructured_key target_at unstructured_spec
    "\<lambda>u. map_of u ''status''" target_pending target_gone wf_unstructured good
  for env :: "'w ma_env"
    and ma_at :: "'w \<Rightarrow> NamespacedName \<Rightarrow> MachineAutoscaler option"
    and target_at :: "'w \<Rightarrow> GroupVersionKind \<times> NamespacedName \<Rightarrow> unstructured option"
    and good :: "'w \<Rightarrow> bool" +
  assumes ma_frame: "client_preserves (me_ma env) target_at"
    and target_frame: "client_preserves (me_target env) ma_at"
    and record_frame: "ma_at (me_record env ev w) = ma_at w"
      "target_at (me_record env ev w) = target_at w" "good w \<Longrightarrow> good (me_record env ev w)"
begin

lemmas record_simps [simp] = record_frame

lemma record_if [simp]:
  "ma_at (if b then w else me_record env ev w) = ma_at w"
  "target_at (if b then w else me_record env ev w) = target_at w"
  "good w \<Longrightarrow> good (if b then w else me_record env ev w)"
  by simp_all

subsection \<open>Steps that touch the target\<close>

lemma wp_GetTarget:
  assumes "good w"
    and "\<And>t w'. \<lbrakk>good w'; ma_at w' = ma_at w; target_at w' = target_at w;
      ValidateReference cfg (Some ref) = Inr (); target_at w (target_key cfg ref) = Some t;
      unstructured_key t = target_key cfg ref; wf_unstructured t; \<not> target_gone t\<rbrakk> \<Longrightarrow> Q t w'"
    and "\<And>e w'. \<lbrakk>good w'; ma_at w' = ma_at w; target_at w' = target_at w; \<not> is_panic e;
      IsNotFound e \<longrightarrow> target_at w (target_key cfg ref) = None;
      \<forall>err. ValidateReference cfg (Some ref) = Inl err \<longrightarrow> e = err\<rbrakk> \<Longrightarrow> E e w'"
  shows "wp (GetTarget env cfg ref) Q E w"
proof (cases "ValidateReference cfg (Some ref)")
  case (Inl err)
  then have "\<not> IsNotFound err" "\<not> is_panic err"
    by (auto simp: ValidateReference_def ErrInvalidTarget_def ErrUnsupportedTarget_def errorf_def
        split: if_splits)
  with Inl assms show ?thesis by (simp add: GetTarget_def wp_simps)
next
  case (Inr u)
  then show ?thesis unfolding GetTarget_def
    by (simp add: wp_simps target_key_def [symmetric])
      (rule tgs.wp_get [OF assms(1)];
       use assms(2,3) client_preservesD(1) [OF target_frame] in auto)
qed

lemma wp_target_update:
  assumes "good w"
    and "\<And>t' w'. \<lbrakk>good w'; ma_at w' = ma_at w;
      target_at w' = (target_at w)(unstructured_key t := (if target_gone t then None else Some t'));
      unstructured_spec t' = unstructured_spec t; unstructured_key t' = unstructured_key t\<rbrakk> \<Longrightarrow> Q t' w'"
    and "\<And>e w' x. \<lbrakk>good w'; ma_at w' = ma_at w;
      target_at w' = (target_at w)(unstructured_key t := x); \<not> is_panic e;
      IsNotFound e \<longrightarrow> target_at w (unstructured_key t) = None\<rbrakk> \<Longrightarrow> E e w'"
  shows "wp (cl_update (me_target env) t) Q E w"
  by (rule tgs.wp_update [OF assms(1)]; use assms(2,3) client_preservesD(3) [OF target_frame] in metis)

text \<open>A target is written only where finalizing it changes something.\<close>

lemma wp_FinalizeTarget:
  assumes "good w" "wf_unstructured t" "\<not> target_gone t"
    and same: "\<And>w'. \<lbrakk>\<And>k. k \<in> set finalize_keys \<Longrightarrow> map_get (GetAnnotations t) k = None; w' = w\<rbrakk> \<Longrightarrow> Q () w'"
    and upd: "\<And>t1 t' w'. \<lbrakk>good w'; ma_at w' = ma_at w; Finalize t = (True, t1);
      unstructured_key t1 = unstructured_key t;
      target_at w' = (target_at w)(unstructured_key t := (if target_gone t1 then None else Some t'));
      unstructured_spec t' = unstructured_spec t1\<rbrakk> \<Longrightarrow> Q () w'"
    and err: "\<And>e w' x. \<lbrakk>good w'; ma_at w' = ma_at w;
      target_at w' = (target_at w)(unstructured_key t := x); \<not> is_panic e;
      IsNotFound e \<longrightarrow> target_at w (unstructured_key t) = None\<rbrakk> \<Longrightarrow> E e w'"
  shows "wp (FinalizeTarget env t) Q E w"
proof -
  obtain b t1 where f: "Finalize t = (b, t1)" by fastforce
  have key: "unstructured_key t1 = unstructured_key t"
    using Finalize_get [OF assms(2) f] by (auto simp: unstructured_key_def GetKind_def
        getNestedString_def NestedString_def)
  show ?thesis
  proof (cases b)
    case True
    then have "wp (cl_update (me_target env) t1) (\<lambda>_. Q ()) E w"
      by (intro wp_target_update [OF assms(1)]; use upd err f key in auto)
    with True f show ?thesis by (simp add: FinalizeTarget_def wp_simps)
  next
    case False
    then have "\<And>k. k \<in> set finalize_keys \<Longrightarrow> map_get (GetAnnotations t) k = None"
      using Finalize_get(2) [OF assms(2) f] by blast
    with False f same show ?thesis by (simp add: FinalizeTarget_def wp_simps)
  qed
qed

text \<open>What an update writes: the derived annotations first, then the limits over them.\<close>

lemma rewritten_target:
  assumes "wf_unstructured t" "is_int64 mn" "is_int64 mx"
    and "checkScaleFromZeroAnnotations (GetAnnotations t) = Inr upd_ann"
    and t2: "t2 = SetLimits mn mx (SetAnnotations upd_ann t)"
  shows "unstructured_key t2 = unstructured_key t" "target_gone t2 = target_gone t"
    and "snd (unstructured_spec t2) = snd (unstructured_spec t)"
    and "GetLimits (SetAnnotations upd_ann t) = GetLimits t" "GetLimits t2 = Inr (mn, mx)"
    and "k \<notin> {minSizeAnnotation, maxSizeAnnotation} \<Longrightarrow>
      map_get (GetAnnotations t2) k = sfz_spec (GetAnnotations t) k"
    and "malformed_gpu t2 \<longleftrightarrow> malformed_gpu t"
proof -
  note ann = checkScale_Inr [OF assms(4)]
  have wf1: "wf_unstructured (SetAnnotations upd_ann t)" using assms(1) by simp
  have eq: "map_get (GetAnnotations t2) k = sfz_spec (GetAnnotations t) k"
    if "k \<notin> {minSizeAnnotation, maxSizeAnnotation}" for k
    using that wf1 assms(1) ann by (simp add: t2 annotation_SetLimits)
  then show "k \<notin> {minSizeAnnotation, maxSizeAnnotation} \<Longrightarrow>
      map_get (GetAnnotations t2) k = sfz_spec (GetAnnotations t) k" .
  show "unstructured_key t2 = unstructured_key t" "target_gone t2 = target_gone t"
    and "snd (unstructured_spec t2) = snd (unstructured_spec t)"
    using wf1 assms(1)
    by (simp_all add: t2 SetLimits_def Let_def target_gone_def unstructured_spec_def fun_eq_iff)
  show "GetLimits (SetAnnotations upd_ann t) = GetLimits t"
    by (rule GetLimits_cong) (use assms(1) ann in \<open>auto simp: sfz_spec_keeps upstream_keys_def\<close>)
  show "GetLimits t2 = Inr (mn, mx)" unfolding t2 by (rule GetLimits_SetLimits [OF wf1 assms(2,3)])
  show "malformed_gpu t2 \<longleftrightarrow> malformed_gpu t"
    using eq [of autoscalerCapacityGPU]
    by (simp add: malformed_gpu_def sfz_spec_keeps upstream_keys_def key_defs)
qed

text \<open>
  Updating a target: nothing is written where the limits are as wanted; else the limits
  and the derived annotations are, in one update.
\<close>

lemma wp_UpdateTarget:
  assumes "good w" "wf_unstructured t" "\<not> target_gone t" "is_int64 mn" "is_int64 mx"
    and same: "GetLimits t = Inr (mn, mx) \<Longrightarrow> Q () w"
    and upd: "\<And>t' w'. \<lbrakk>GetLimits t \<noteq> Inr (mn, mx); good w'; ma_at w' = ma_at w;
      target_at w' = (target_at w)(unstructured_key t \<mapsto> t'); GetLimits t' = Inr (mn, mx);
      \<And>k. k \<notin> {minSizeAnnotation, maxSizeAnnotation} \<Longrightarrow>
        map_get (GetAnnotations t') k = sfz_spec (GetAnnotations t) k;
      snd (unstructured_spec t') = snd (unstructured_spec t)\<rbrakk> \<Longrightarrow> Q () w'"
    and err: "\<And>e w' x. \<lbrakk>good w'; ma_at w' = ma_at w;
      target_at w' = (target_at w)(unstructured_key t := x);
      is_panic e \<longrightarrow> target_at w' = target_at w \<and> malformed_gpu t\<rbrakk> \<Longrightarrow> E e w'"
  shows "wp (UpdateTarget env t mn mx) Q E w"
proof -
  have fails: "E e w" if "is_panic e \<longrightarrow> malformed_gpu t" for e
    by (rule err [where w' = w and e = e and x = "target_at w (unstructured_key t)"])
      (use assms(1) that in auto)
  show ?thesis
  proof (cases "checkScaleFromZeroAnnotations (GetAnnotations t)")
    case (Inl e)
    then show ?thesis using fails checkScale_not_panic [OF Inl] by (simp add: UpdateTarget_def wp_simps)
  next
    case (Inr upd_ann)
    define t2 where "t2 = SetLimits mn mx (SetAnnotations upd_ann t)"
    note t2 = rewritten_target [OF assms(2,4,5) Inr t2_def]
    have stores: "wp (cl_update (me_target env) t2) (\<lambda>_. Q ()) E w0"
      if "GetLimits t \<noteq> Inr (mn, mx)" "good w0" "ma_at w0 = ma_at w" "target_at w0 = target_at w" for w0
    proof (rule wp_target_update [OF that(2)], goal_cases)
      case (1 t' w')
      have "GetAnnotations t' = GetAnnotations t2" using 1(4) by (simp add: unstructured_spec_def)
      moreover from this have "GetLimits t' = Inr (mn, mx)" using t2(5) GetLimits_cong [of t' t2] by simp
      ultimately show ?case using 1 that t2 assms(3) by (intro upd [where w' = w' and t' = t']) auto
    next
      case (2 e w' x)
      then show ?case using that t2 by (intro err [where w' = w' and e = e and x = x]) auto
    qed
    have panic: "E e w" if "HasGPUCapacity t2 = Inl e" for e
      using HasGPUCapacity_panic [OF that] t2(7) by (intro fails) auto
    show ?thesis using Inr same stores [of w] stores [of "me_record env _ w"] assms(1) panic
      by (auto simp: UpdateTarget_def wp_simps NeedsUpdate_iff t2(4) t2_def [symmetric] Let_def
          split: sum.split)
  qed
qed

subsection \<open>Steps that touch the MachineAutoscaler\<close>

text \<open>The object in hand is the one the server has, as after every read and write.\<close>

definition in_hand :: "MachineAutoscaler \<Rightarrow> 'w \<Rightarrow> bool" where
  "in_hand ma w \<longleftrightarrow> good w \<and> ma_at w (ma_key ma) = Some ma"

lemma wp_ma_update:
  assumes "good w"
    and "\<And>ma' w'. \<lbrakk>good w'; target_at w' = target_at w;
      ma_at w' = (ma_at w)(ma_key ma := (if ma_gone ma then None else Some ma'));
      ma_written ma' = ma_written ma; ma_key ma' = ma_key ma;
      map_option ma_LastTargetRef (ma_at w (ma_key ma)) = Some (ma_LastTargetRef ma) \<longrightarrow>
        ma_LastTargetRef ma' = ma_LastTargetRef ma\<rbrakk> \<Longrightarrow> Q ma' w'"
    and "\<And>e w' x. \<lbrakk>good w'; target_at w' = target_at w; ma_at w' = (ma_at w)(ma_key ma := x);
      \<not> is_panic e\<rbrakk> \<Longrightarrow> E e w'"
  shows "wp (cl_update (me_ma env) ma) Q E w"
  by (rule mas.wp_update [OF assms(1)]; use assms(2,3) client_preservesD(3) [OF ma_frame] in metis)

lemma wp_SetLastTarget:
  assumes "in_hand ma w"
    and "\<And>ma' w'. \<lbrakk>in_hand ma' w'; target_at w' = target_at w; ma_written ma' = ma_written ma;
      ma_LastTargetRef ma' = Some \<lparr>cv_APIVersion = or_apiVersion ref, cv_Kind = or_kind ref, cv_Name = or_name ref\<rparr>;
      \<And>k. k \<noteq> ma_key ma \<Longrightarrow> ma_at w' k = ma_at w k\<rbrakk> \<Longrightarrow> Q ma' w'"
    and "\<And>e w' x. \<lbrakk>good w'; target_at w' = target_at w; ma_at w' = (ma_at w)(ma_key ma := x);
      \<not> is_panic e\<rbrakk> \<Longrightarrow> E e w'"
  shows "wp (SetLastTarget env ma ref) Q E w"
proof -
  let ?ma = "ma\<lparr>ma_LastTargetRef :=
      Some \<lparr>cv_APIVersion = or_apiVersion ref, cv_Kind = or_kind ref, cv_Name = or_name ref\<rparr>\<rparr>"
  have key: "ma_key ?ma = ma_key ma" by (simp add: ma_key_def)
  have w: "good w" "ma_at w (ma_key ma) = Some ma" using assms(1) by (simp_all add: in_hand_def)
  show ?thesis unfolding SetLastTarget_def
  proof (rule mas.wp_update_status [OF w(1)])
    fix ma' old w'
    assume *: "good w'" "ma_at w (ma_key ?ma) = Some old" "ma_written ma' = ma_written old"
      "ma_at w' = (ma_at w)(ma_key ?ma \<mapsto> ma')" "ma_LastTargetRef ma' = ma_LastTargetRef ?ma"
      "ma_key ma' = ma_key ?ma" "cl_update_status (me_ma env) ?ma w = (Inr ma', w')"
    then show "Q ma' w'" using w key client_preservesD(4) [OF ma_frame *(7)]
      by (intro assms(2)) (auto simp: in_hand_def)
  next
    fix e w' x assume *: "good w'" "ma_at w' = (ma_at w)(ma_key ?ma := x)" "\<not> is_panic e"
      "cl_update_status (me_ma env) ?ma w = (Inl e, w')"
    then show "E e w'" using key client_preservesD(4) [OF ma_frame *(4)] by (intro assms(3)) auto
  qed
qed

lemma wp_EnsureFinalizer:
  assumes "in_hand ma w" "ma_GetDeletionTimestamp ma = None"
    and "\<And>ma' w'. \<lbrakk>in_hand ma' w'; target_at w' = target_at w;
      MachineTargetFinalizer \<in> set (ma_GetFinalizers ma'); ma_key ma' = ma_key ma;
      ma_GetDeletionTimestamp ma' = None; ma_LastTargetRef ma' = ma_LastTargetRef ma; ma_MinReplicas ma' = ma_MinReplicas ma;
      ma_MaxReplicas ma' = ma_MaxReplicas ma; ma_ScaleTargetRef ma' = ma_ScaleTargetRef ma;
      \<And>k. k \<noteq> ma_key ma \<Longrightarrow> ma_at w' k = ma_at w k\<rbrakk> \<Longrightarrow> Q ma' w'"
    and "\<And>e w' x. \<lbrakk>good w'; target_at w' = target_at w; ma_at w' = (ma_at w)(ma_key ma := x);
      \<not> is_panic e\<rbrakk> \<Longrightarrow> E e w'"
  shows "wp (EnsureFinalizer env ma) Q E w"
proof (cases "MachineTargetFinalizer \<in> set (ma_GetFinalizers ma)")
  case True
  then have "list_ex (\<lambda>f. f = MachineTargetFinalizer) (ma_GetFinalizers ma)" by (simp add: list_ex_iff)
  with True assms(1,2) assms(3) [of ma w] show ?thesis by (simp add: EnsureFinalizer_def wp_simps)
next
  case False
  let ?ma = "ma_SetFinalizers (ma_GetFinalizers ma @ [MachineTargetFinalizer]) ma"
  have "\<not> list_ex (\<lambda>f. f = MachineTargetFinalizer) (ma_GetFinalizers ma)"
    using False by (auto simp: list_ex_iff)
  moreover have "wp (cl_update (me_ma env) ?ma) Q E w"
  proof (rule wp_ma_update)
    show "good w" using assms(1) by (simp add: in_hand_def)
  next
    fix ma' w' assume *: "good w'" "target_at w' = target_at w"
      "ma_at w' = (ma_at w)(ma_key ?ma := if ma_gone ?ma then None else Some ma')"
      "ma_written ma' = ma_written ?ma" "ma_key ma' = ma_key ?ma"
      "map_option ma_LastTargetRef (ma_at w (ma_key ?ma)) = Some (ma_LastTargetRef ?ma) \<longrightarrow>
        ma_LastTargetRef ma' = ma_LastTargetRef ?ma"
    moreover have "ma_LastTargetRef ma' = ma_LastTargetRef ma"
      using *(6) assms(1) by (simp add: in_hand_def)
    ultimately show "Q ma' w'" using assms(2) ma_written_eqD [OF *(4)]
      by (intro assms(3)) (auto simp: in_hand_def ma_gone_def)
  qed (use assms(4) in auto)
  ultimately show ?thesis by (simp add: EnsureFinalizer_def)
qed

lemma wp_RemoveFinalizer:
  assumes "in_hand ma w"
    and "\<And>w'. \<lbrakk>good w'; target_at w' = target_at w; \<And>k. k \<noteq> ma_key ma \<Longrightarrow> ma_at w' k = ma_at w k;
      \<And>ma'. ma_at w' (ma_key ma) = Some ma' \<Longrightarrow>
        ma_GetFinalizers ma' = filter (\<lambda>f. f \<noteq> MachineTargetFinalizer) (ma_GetFinalizers ma)\<rbrakk> \<Longrightarrow> Q () w'"
    and "\<And>e w' x. \<lbrakk>good w'; target_at w' = target_at w; ma_at w' = (ma_at w)(ma_key ma := x);
      \<not> is_panic e\<rbrakk> \<Longrightarrow> E e w'"
  shows "wp (RemoveFinalizer env ma) Q E w"
proof -
  let ?f = "filter (\<lambda>f. f \<noteq> MachineTargetFinalizer) (ma_GetFinalizers ma)"
  let ?ma = "ma_SetFinalizers ?f ma"
  have w: "good w" "ma_at w (ma_key ma) = Some ma" using assms(1) by (simp_all add: in_hand_def)
  have "wp (cl_update (me_ma env) ?ma) (\<lambda>_. Q ()) E w"
  proof (rule wp_ma_update [OF w(1)])
    fix ma' w' assume *: "good w'" "target_at w' = target_at w"
      "ma_at w' = (ma_at w)(ma_key ?ma := if ma_gone ?ma then None else Some ma')"
      "ma_written ma' = ma_written ?ma"
    then show "Q () w'" using ma_written_eqD(1) [OF *(4)]
      by (intro assms(2)) (auto split: if_splits)
  qed (use assms(3) in auto)
  moreover have "Q () w" if "count_list (ma_GetFinalizers ma) MachineTargetFinalizer = 0"
    using that w by (intro assms(2)) (auto simp: count_list_0_iff intro!: filter_True [symmetric])
  ultimately show ?thesis by (simp add: RemoveFinalizer_def FilterString_eq wp_simps)
qed

subsection \<open>The handlers\<close>

text \<open>Finalizing a stored target leaves no configuration on it and the others alone.\<close>

lemma wp_finalize:
  assumes "good w" "wf_unstructured t" "\<not> target_gone t" "target_at w (unstructured_key t) = Some t"
    and "\<And>w'. \<lbrakk>good w'; ma_at w' = ma_at w; \<forall>k. k \<noteq> unstructured_key t \<longrightarrow> target_at w' k = target_at w k;
      \<forall>t'. target_at w' (unstructured_key t) = Some t' \<longrightarrow> finalized t'\<rbrakk> \<Longrightarrow> Q () w'"
    and "\<And>e w'. \<lbrakk>good w'; ma_at w' = ma_at w; \<forall>k. k \<noteq> unstructured_key t \<longrightarrow> target_at w' k = target_at w k;
      \<not> is_panic e; \<not> IsNotFound e\<rbrakk> \<Longrightarrow> E e w'"
  shows "wp (FinalizeTarget env t) Q E w"
proof (rule wp_FinalizeTarget [OF assms(1-3)])
  fix w' assume "\<And>k. k \<in> set finalize_keys \<Longrightarrow> map_get (GetAnnotations t) k = None" "w' = w"
  then show "Q () w'" using assms(1,4) by (intro assms(5)) (auto simp: finalized_def)
next
  fix t1 t' w' assume *: "good w'" "ma_at w' = ma_at w" "Finalize t = (True, t1)"
    "unstructured_key t1 = unstructured_key t"
    "target_at w' = (target_at w)(unstructured_key t := if target_gone t1 then None else Some t')"
    "unstructured_spec t' = unstructured_spec t1"
  then have "finalized t'"
    using Finalize_get(1) [OF assms(2) *(3)] by (simp add: finalized_def unstructured_spec_def)
  with * show "Q () w'" by (intro assms(5)) (auto split: if_splits)
next
  fix e w' x assume "good w'" "ma_at w' = ma_at w" "target_at w' = (target_at w)(unstructured_key t := x)"
    "\<not> is_panic e" "IsNotFound e \<longrightarrow> target_at w (unstructured_key t) = None"
  then show "E e w'" using assms(4) by (intro assms(6)) auto
qed

text \<open>
  Deleting a MachineAutoscaler: its finalizer goes, and only its, once no configuration is
  left on the target; a run that fails before that leaves the MachineAutoscaler as it is.
\<close>

lemma wp_HandleDelete:
  assumes "in_hand ma w"
    and "\<And>w'. \<lbrakk>good w'; \<forall>k. k \<noteq> ma_target_key cfg ma \<longrightarrow> target_at w' k = target_at w k;
      \<forall>t. target_at w' (ma_target_key cfg ma) = Some t \<longrightarrow> finalized t;
      \<forall>k. k \<noteq> ma_key ma \<longrightarrow> ma_at w' k = ma_at w k;
      \<forall>ma'. ma_at w' (ma_key ma) = Some ma' \<longrightarrow>
        ma_GetFinalizers ma' = filter (\<lambda>f. f \<noteq> MachineTargetFinalizer) (ma_GetFinalizers ma)\<rbrakk> \<Longrightarrow> Q () w'"
    and "\<And>e w'. \<lbrakk>good w'; \<not> is_panic e; \<forall>k. k \<noteq> ma_target_key cfg ma \<longrightarrow> target_at w' k = target_at w k;
      \<forall>k. k \<noteq> ma_key ma \<longrightarrow> ma_at w' k = ma_at w k;
      ma_at w' = ma_at w \<or> (\<forall>t. target_at w' (ma_target_key cfg ma) = Some t \<longrightarrow> finalized t)\<rbrakk> \<Longrightarrow> E e w'"
  shows "wp (HandleDelete env cfg ma) Q E w"
proof -
  have w: "good w" "ma_at w (ma_key ma) = Some ma" using assms(1) by (simp_all add: in_hand_def)
  have remove: "wp (RemoveFinalizer env ma) Q E w1"
    if 1: "good w1" "ma_at w1 = ma_at w" "\<forall>k. k \<noteq> ma_target_key cfg ma \<longrightarrow> target_at w1 k = target_at w k"
      "\<forall>t. target_at w1 (ma_target_key cfg ma) = Some t \<longrightarrow> finalized t" for w1
    by (rule wp_RemoveFinalizer; use 1 w assms(2,3) in \<open>auto simp: in_hand_def\<close>)
  show ?thesis
    unfolding HandleDelete_def Let_def wp_simps
  proof (rule wp_GetTarget [OF w(1)])
    fix t w1 assume 1: "good w1" "ma_at w1 = ma_at w" "target_at w1 = target_at w"
      "target_at w (target_key cfg (objectReference (ma_ScaleTargetRef ma))) = Some t"
      "unstructured_key t = target_key cfg (objectReference (ma_ScaleTargetRef ma))"
      "wf_unstructured t" "\<not> target_gone t"
    then have t: "target_at w1 (unstructured_key t) = Some t" by simp
    have "wp (FinalizeTarget env t) (\<lambda>_. wp (RemoveFinalizer env ma) Q E)
        (\<lambda>e w. if IsNotFound e then wp (RemoveFinalizer env ma) Q E w else E e w) w1"
      by (rule wp_finalize [OF 1(1,6,7) t]; use 1 remove assms(3) in \<open>auto simp: ma_target_key_def\<close>)
    then show "(case Some t of None \<Rightarrow> wp (RemoveFinalizer env ma) Q E
        | Some a \<Rightarrow> wp (FinalizeTarget env a) (\<lambda>_. wp (RemoveFinalizer env ma) Q E)
            (\<lambda>e w. if IsNotFound e then wp (RemoveFinalizer env ma) Q E w else E e w)) w1"
      by simp
  next
    fix e w1 assume "good w1" "ma_at w1 = ma_at w" "target_at w1 = target_at w" "\<not> is_panic e"
      "IsNotFound e \<longrightarrow> target_at w (target_key cfg (objectReference (ma_ScaleTargetRef ma))) = None"
    then show "if IsNotFound e then (case None of None \<Rightarrow> wp (RemoveFinalizer env ma) Q E
        | Some a \<Rightarrow> wp (FinalizeTarget env a) (\<lambda>_. wp (RemoveFinalizer env ma) Q E)
            (\<lambda>e w. if IsNotFound e then wp (RemoveFinalizer env ma) Q E w else E e w)) w1 else E e w1"
      using remove assms(3) by (auto simp: ma_target_key_def)
  qed
qed

text \<open>
  A change of the target finalizes the previous one before the status notes the new one.
\<close>

lemma wp_HandleTargetChange:
  assumes "in_hand ma w" "ma_LastTargetRef ma = Some lastRef"
    and "\<And>ma' w'. \<lbrakk>in_hand ma' w'; ma_written ma' = ma_written ma;
      ma_LastTargetRef ma' = Some (noted_ref (ma_ScaleTargetRef ma));
      \<forall>k. k \<noteq> target_key cfg (objectReference lastRef) \<longrightarrow> target_at w' k = target_at w k;
      \<forall>t. target_at w' (target_key cfg (objectReference lastRef)) = Some t \<longrightarrow> finalized t;
      \<forall>k. k \<noteq> ma_key ma \<longrightarrow> ma_at w' k = ma_at w k\<rbrakk> \<Longrightarrow> Q ma' w'"
    and "\<And>e w'. \<lbrakk>good w'; \<not> is_panic e;
      \<forall>k. k \<noteq> target_key cfg (objectReference lastRef) \<longrightarrow> target_at w' k = target_at w k;
      \<forall>k. k \<noteq> ma_key ma \<longrightarrow> ma_at w' k = ma_at w k;
      ma_at w' = ma_at w \<or>
      (\<forall>t. target_at w' (target_key cfg (objectReference lastRef)) = Some t \<longrightarrow> finalized t)\<rbrakk> \<Longrightarrow> E e w'"
  shows "wp (HandleTargetChange env cfg ma) Q E w"
proof -
  let ?k = "target_key cfg (objectReference lastRef)"
  have w: "good w" "ma_at w (ma_key ma) = Some ma" using assms(1) by (simp_all add: in_hand_def)
  have note_new: "wp (SetLastTarget env ma (objectReference (ma_ScaleTargetRef ma))) Q
      (\<lambda>e w'. E e (if is_panic e then w' else me_record env (ev e) w')) w1"
    if 1: "good w1" "ma_at w1 = ma_at w" "\<forall>k. k \<noteq> ?k \<longrightarrow> target_at w1 k = target_at w k"
      "\<forall>t. target_at w1 ?k = Some t \<longrightarrow> finalized t" for w1 ev
    by (rule wp_SetLastTarget; use 1 w assms(3,4) in \<open>auto simp: in_hand_def noted_ref_def Let_def\<close>)
  show ?thesis
    unfolding HandleTargetChange_def Let_def assms(2) option.case wp_simps
  proof (rule wp_GetTarget [OF w(1)], goal_cases)
    case (1 t w1)
    then have t: "target_at w1 (unstructured_key t) = Some t" by simp
    show ?case unfolding option.case wp_simps
      by (rule wp_finalize [OF 1(1,7,8) t]; use 1 note_new assms(4) in auto)
  next
    case (2 e w1)
    then show ?case using note_new assms(4) by auto
  qed
qed

text \<open>
  What a run of \<open>reconcile_target\<close> leaves: of one that succeeds, the finalizer, the
  target noted in the status, and the target with the limits, the owner and the rest of its
  configuration; of one that fails, a target that is as it was unless it could be owned and
  the finalizer is there.
\<close>

definition served ::
  "ma_config \<Rightarrow> MachineAutoscaler \<Rightarrow> 'w \<Rightarrow> MachineAutoscaler \<Rightarrow> unstructured \<Rightarrow> unstructured \<Rightarrow> 'w \<Rightarrow> bool" where
  "served cfg ma w ma' t t' w' \<longleftrightarrow>
    good w' \<and> ma_at w' (ma_key ma) = Some ma' \<and>
    MachineTargetFinalizer \<in> set (ma_GetFinalizers ma') \<and> ma_GetDeletionTimestamp ma' = None \<and>
    ValidateReference cfg (Some (objectReference (ma_ScaleTargetRef ma))) = Inr () \<and>
    ma_LastTargetRef ma' = (if ma_LastTargetRef ma = None then Some (noted_ref (ma_ScaleTargetRef ma))
      else ma_LastTargetRef ma) \<and>
    ma_MinReplicas ma' = ma_MinReplicas ma \<and> ma_MaxReplicas ma' = ma_MaxReplicas ma \<and>
    ma_ScaleTargetRef ma' = ma_ScaleTargetRef ma \<and>
    target_at w (ma_target_key cfg ma) = Some t \<and> wf_unstructured t \<and>
    (owner_of t = None \<or> owner_of t = Some (NamespacedName_String (ma_key ma))) \<and>
    target_at w' (ma_target_key cfg ma) = Some t' \<and>
    GetLimits t' = Inr (sint (ma_MinReplicas ma), sint (ma_MaxReplicas ma)) \<and>
    owner_of t' = Some (NamespacedName_String (ma_key ma)) \<and>
    (\<forall>k. k \<notin> set finalize_keys \<longrightarrow>
      map_get (GetAnnotations t') k \<in> {map_get (GetAnnotations t) k, sfz_spec (GetAnnotations t) k}) \<and>
    snd (unstructured_spec t') = snd (unstructured_spec t) \<and>
    (\<forall>k. k \<noteq> ma_target_key cfg ma \<longrightarrow> target_at w' k = target_at w k) \<and>
    (\<forall>k. k \<noteq> ma_key ma \<longrightarrow> ma_at w' k = ma_at w k)"

definition spared :: "ma_config \<Rightarrow> MachineAutoscaler \<Rightarrow> 'w \<Rightarrow> go_error \<Rightarrow> 'w \<Rightarrow> bool" where
  "spared cfg ma w e w' \<longleftrightarrow>
    good w' \<and> (\<forall>k. k \<noteq> ma_target_key cfg ma \<longrightarrow> target_at w' k = target_at w k) \<and>
    (\<forall>k. k \<noteq> ma_key ma \<longrightarrow> ma_at w' k = ma_at w k) \<and>
    (target_at w' = target_at w \<or>
      (\<exists>t ma'. target_at w (ma_target_key cfg ma) = Some t \<and>
        owner_of t \<in> {None, Some (NamespacedName_String (ma_key ma))} \<and>
        ma_at w' (ma_key ma) = Some ma' \<and> MachineTargetFinalizer \<in> set (ma_GetFinalizers ma'))) \<and>
    (is_panic e \<longrightarrow> (\<exists>t. target_at w (ma_target_key cfg ma) = Some t \<and> malformed_gpu t))"

text \<open>
  The point reached before the target is written: \<open>ma'\<close> is the MachineAutoscaler at hand,
  with the target noted, and no target has changed.
\<close>

definition prepared :: "MachineAutoscaler \<Rightarrow> 'w \<Rightarrow> MachineAutoscaler \<Rightarrow> 'w \<Rightarrow> bool" where
  "prepared ma w ma' w' \<longleftrightarrow>
    in_hand ma' w' \<and> target_at w' = target_at w \<and> ma_key ma' = ma_key ma \<and>
    ma_GetDeletionTimestamp ma' = None \<and>
    ma_MinReplicas ma' = ma_MinReplicas ma \<and> ma_MaxReplicas ma' = ma_MaxReplicas ma \<and>
    ma_ScaleTargetRef ma' = ma_ScaleTargetRef ma \<and>
    ma_LastTargetRef ma' = (if ma_LastTargetRef ma = None then Some (noted_ref (ma_ScaleTargetRef ma))
      else ma_LastTargetRef ma) \<and>
    (\<forall>k. k \<noteq> ma_key ma \<longrightarrow> ma_at w' k = ma_at w k)"

text \<open>The stored target \<open>t\<close>, and \<open>t1\<close> as it is once its owner is set.\<close>

definition owned_copy ::
  "ma_config \<Rightarrow> MachineAutoscaler \<Rightarrow> 'w \<Rightarrow> unstructured \<Rightarrow> unstructured \<Rightarrow> bool" where
  "owned_copy cfg ma w t t1 \<longleftrightarrow>
    ValidateReference cfg (Some (objectReference (ma_ScaleTargetRef ma))) = Inr () \<and>
    target_at w (ma_target_key cfg ma) = Some t \<and> wf_unstructured t \<and>
    unstructured_key t = ma_target_key cfg ma \<and> \<not> target_gone t \<and>
    (\<exists>b t0. SetOwner (ma_key ma) t = Inr (b, t0) \<and> t1 = take_over b t0)"

lemma owned_copyD:
  assumes "owned_copy cfg ma w t t1"
  shows "wf_unstructured t1" "unstructured_key t1 = ma_target_key cfg ma" "\<not> target_gone t1"
    and "snd (unstructured_spec t1) = snd (unstructured_spec t)"
    and "owner_of t1 = Some (NamespacedName_String (ma_key ma))"
    and "t1 = t \<or> GetLimits t1 = Inl ErrTargetMissingAnnotations"
    and "k \<notin> set finalize_keys \<Longrightarrow> map_get (GetAnnotations t1) k = map_get (GetAnnotations t) k"
    and "owner_of t = None \<or> owner_of t = Some (NamespacedName_String (ma_key ma))"
    and "malformed_gpu t1 = malformed_gpu t"
    and "target_at w (ma_target_key cfg ma) = Some t" "wf_unstructured t"
    and "ValidateReference cfg (Some (objectReference (ma_ScaleTargetRef ma))) = Inr ()"
proof -
  obtain b t0 where t1: "SetOwner (ma_key ma) t = Inr (b, t0)" "t1 = take_over b t0"
    using assms by (auto simp: owned_copy_def)
  have t: "wf_unstructured t" "unstructured_key t = ma_target_key cfg ma" "\<not> target_gone t"
    "target_at w (ma_target_key cfg ma) = Some t"
    "ValidateReference cfg (Some (objectReference (ma_ScaleTargetRef ma))) = Inr ()"
    using assms by (auto simp: owned_copy_def)
  note own = take_over [OF t(1) t1(1)]
  show "wf_unstructured t1" "unstructured_key t1 = ma_target_key cfg ma" "\<not> target_gone t1"
    and "snd (unstructured_spec t1) = snd (unstructured_spec t)"
    and "owner_of t1 = Some (NamespacedName_String (ma_key ma))"
    and "t1 = t \<or> GetLimits t1 = Inl ErrTargetMissingAnnotations"
    and "k \<notin> set finalize_keys \<Longrightarrow> map_get (GetAnnotations t1) k = map_get (GetAnnotations t) k"
    and "owner_of t = None \<or> owner_of t = Some (NamespacedName_String (ma_key ma))"
    using own t by (auto simp: t1(2))
  show "malformed_gpu t1 = malformed_gpu t"
    using malformed_gpu_take_over [OF t(1) t1(1)] by (simp add: t1(2))
qed (use assms in \<open>auto simp: owned_copy_def\<close>)

text \<open>The last step: the target's limits and derived annotations.\<close>

lemma wp_write_target:
  assumes own: "owned_copy cfg ma w t t1" and p: "prepared ma w ma2 w3"
    and fin: "MachineTargetFinalizer \<in> set (ma_GetFinalizers ma2)"
    and Q: "\<And>w' ma' t t'. served cfg ma w ma' t t' w' \<Longrightarrow> Q () w'"
    and E: "\<And>e w'. spared cfg ma w e w' \<Longrightarrow> E e w'"
  shows "wp (UpdateTarget env t1 (sint (ma_MinReplicas ma2)) (sint (ma_MaxReplicas ma2)))
    (\<lambda>_ w'. Q () (me_record env (ev1 ma2) w'))
    (\<lambda>e w'. E e (if is_panic e then w' else me_record env (ev2 ma2 e) w')) w3"
proof -
  note t1 = owned_copyD [OF own]
  note p = p [unfolded prepared_def]
  show ?thesis
  proof (rule wp_UpdateTarget [OF _ t1(1,3)], goal_cases)
    case 4
    then have "t1 = t" using t1(6) by auto
    with p 4 t1 fin show ?case
      by (intro Q [where ma' = ma2 and t = t and t' = t]) (auto simp: in_hand_def served_def)
  next
    case (5 t' w')
    have "owner_of t' = Some (NamespacedName_String (ma_key ma))"
      using 5(6) [of MachineTargetOwnerAnnotation] t1(5) by (simp add: owner_of_def sfz_spec_keeps)
    moreover have "map_get (GetAnnotations t') k = sfz_spec (GetAnnotations t) k"
      if "k \<notin> set finalize_keys" for k
    proof -
      have "sfz_spec (GetAnnotations t1) k = sfz_spec (GetAnnotations t) k"
        by (rule sfz_spec_cong) (use t1(7) that in \<open>auto simp: finalize_keys_def\<close>)
      then show ?thesis using 5(6) [of k] that by (auto simp: finalize_keys_def)
    qed
    ultimately show ?case using 5 p t1 fin
      by (intro Q [where ma' = ma2 and t = t and t' = t']) (auto simp: in_hand_def served_def)
  next
    case (6 e w' x)
    with p t1 fin show ?case by (intro E) (auto simp: in_hand_def spared_def)
  qed (use p in \<open>auto simp: in_hand_def is_int64_sint32\<close>)
qed

text \<open>Before it, the finalizer.\<close>

lemma wp_ensure_write:
  assumes own: "owned_copy cfg ma w t t1" and p: "prepared ma w ma1 w2"
    and Q: "\<And>w' ma' t t'. served cfg ma w ma' t t' w' \<Longrightarrow> Q () w'"
    and E: "\<And>e w'. spared cfg ma w e w' \<Longrightarrow> E e w'"
  shows "wp (EnsureFinalizer env ma1)
    (\<lambda>ma2. wp (UpdateTarget env t1 (sint (ma_MinReplicas ma2)) (sint (ma_MaxReplicas ma2)))
      (\<lambda>_ w'. Q () (me_record env (ev1 ma2) w'))
      (\<lambda>e w'. E e (if is_panic e then w' else me_record env (ev2 ma2 e) w'))) E w2"
proof (rule wp_EnsureFinalizer, goal_cases)
  case (3 ma' w')
  show ?case by (rule wp_write_target [OF own]) (use 3 p Q E in \<open>auto simp: prepared_def\<close>)
next
  case (4 e w' x)
  then show ?case using p by (intro E) (auto simp: prepared_def in_hand_def spared_def)
qed (use p in \<open>auto simp: prepared_def\<close>)

text \<open>The target at hand: the stored one, or one whose limits an update has yet to write.\<close>

lemma wp_reconcile_target:
  assumes "in_hand ma w" "ma_GetDeletionTimestamp ma = None"
    and Q: "\<And>w' ma' t t'. served cfg ma w ma' t t' w' \<Longrightarrow> Q () w'"
    and E: "\<And>e w'. spared cfg ma w e w' \<Longrightarrow> E e w'"
  shows "wp (reconcile_target env cfg ma) Q E w"
proof -
  have w: "good w" "ma_at w (ma_key ma) = Some ma" using assms(1) by (simp_all add: in_hand_def)
  show ?thesis
    unfolding reconcile_target_def Let_def wp_simps
  proof (rule wp_GetTarget [OF w(1)], goal_cases)
    case (2 e w1)
    then show ?case by (auto intro!: E simp: spared_def)
  next
    case (1 t w1)
    note t = this [folded ma_target_key_def]
    have same: "prepared ma w ma w1" if "ma_LastTargetRef ma \<noteq> None"
      using that t w assms(2) by (auto simp: prepared_def in_hand_def)
    show ?case
    proof (cases "SetOwner (ma_key ma) t")
      case (Inl e)
      then have "\<not> is_panic e" by (auto simp: SetOwner_def Let_def ErrTargetAlreadyOwned_def errorf_def split: option.splits if_splits)
      with Inl t show ?thesis by (auto intro!: E simp: spared_def)
    next
      case (Inr bt)
      then obtain b t0 where bt: "SetOwner (ma_key ma) t = Inr (b, t0)" "bt = (b, t0)" by (cases bt) auto
      then have own: "owned_copy cfg ma w t (take_over b t0)" using t by (auto simp: owned_copy_def)
      note run = wp_ensure_write [OF own]
      show ?thesis
      proof (cases "ma_LastTargetRef ma = None")
        case None: True
        show ?thesis
          unfolding bt sum.case prod.case if_P [OF None] wp_simps take_over_def [symmetric]
        proof (rule wp_SetLastTarget, goal_cases)
          case 1 show ?case using w t by (simp add: in_hand_def)
        next
          case (2 ma' w')
          show ?case by (rule run)
            (use 2 t assms(2) None Q E ma_written_eqD [OF 2(3)] in \<open>auto simp: prepared_def noted_ref_def Let_def\<close>)
        next
          case (3 e w' x)
          then show ?case using t by (intro E) (auto simp: spared_def)
        qed
      next
        case False
        show ?thesis
          unfolding bt sum.case prod.case if_not_P [OF False] wp_simps take_over_def [symmetric]
          by (rule run [OF same [OF False]]) (use Q E in auto)
      qed
    qed
  qed
qed

subsection \<open>The reconcile loop\<close>

text \<open>The rest of a run once a change of the target has been dealt with.\<close>

abbreviation reconcile_checked :: "ma_config \<Rightarrow> MachineAutoscaler \<Rightarrow> ('w, unit) act" where
  "reconcile_checked cfg ma \<equiv>
    if \<not> IsValid (Validate (Some ma)) then
      act_bind (act_do (me_record env (warning_event (inv_ma ma) InvNil
             ''FailedValidation'' ''Validate'' ''MachineAutoscaler validation error: %v''
             [ArgE (aggregate_error (Validate (Some ma)))])))
           (\<lambda>_. act_raise (aggregate_error (Validate (Some ma))))
    else reconcile_target env cfg ma"

text \<open>A stored MachineAutoscaler, by what its state asks for.\<close>

lemma wp_Reconcile:
  assumes "good w" "ma_at w req = Some ma"
    and "\<And>w1. \<lbrakk>in_hand ma w1; ma_key ma = req; ma_at w1 = ma_at w; target_at w1 = target_at w\<rbrakk> \<Longrightarrow>
      wp (if ma_GetDeletionTimestamp ma \<noteq> None then HandleDelete env cfg ma
          else act_bind
            (if TargetChanged ma then HandleTargetChange env cfg ma else act_return ma)
            (reconcile_checked cfg)) Q E w1"
    and "\<And>e w1. \<lbrakk>good w1; ma_at w1 = ma_at w; target_at w1 = target_at w; \<not> is_panic e\<rbrakk> \<Longrightarrow> E e w1"
  shows "wp (Reconcile env cfg req) Q E w"
  unfolding Reconcile_def wp_bind wp_ignore_not_found
proof (rule mas.wp_get [OF assms(1)], goal_cases)
  case (1 obj w1)
  then have obj: "obj = ma" "target_at w1 = target_at w"
    using assms(2) client_preservesD(1) [OF ma_frame] by auto
  have changed: "(ma_LastTargetRef ma \<noteq> None \<and> TargetChanged ma) = TargetChanged ma"
    by (auto simp: TargetChanged_def split: option.splits)
  show ?case unfolding obj option.case Let_def changed
    by (rule assms(3)) (use 1 obj in \<open>simp_all add: in_hand_def\<close>)
next
  case (2 e w1)
  then show ?case using assms(2,4) client_preservesD(1) [OF ma_frame] by auto
qed

text \<open>
  A live MachineAutoscaler, whose target may have changed: the targets a run may write are
  the current one and, after a change, the previous one.  \<open>run_settled\<close> is what a run that
  succeeds leaves and \<open>run_stopped\<close> what one that fails does; \<open>switched\<close> is the point between
  the change of the target and the rest of the run.
\<close>

definition run_settled ::
  "ma_config \<Rightarrow> NamespacedName \<Rightarrow> MachineAutoscaler \<Rightarrow> 'w \<Rightarrow> MachineAutoscaler \<Rightarrow> unstructured \<Rightarrow> 'w \<Rightarrow> bool" where
  "run_settled cfg req ma w ma' t' w' \<longleftrightarrow>
    good w' \<and> ma_at w' req = Some ma' \<and>
    MachineTargetFinalizer \<in> set (ma_GetFinalizers ma') \<and> ma_ScaleTargetRef ma' = ma_ScaleTargetRef ma \<and>
    ma_MinReplicas ma' = ma_MinReplicas ma \<and> ma_MaxReplicas ma' = ma_MaxReplicas ma \<and>
    IsValid (Validate (Some ma)) \<and> target_at w' (ma_target_key cfg ma) = Some t' \<and>
    GetLimits t' = Inr (sint (ma_MinReplicas ma), sint (ma_MaxReplicas ma)) \<and>
    owner_of t' = Some (NamespacedName_String req) \<and>
    (\<exists>t. (\<not> (TargetChanged ma \<and> ma_last_target_key cfg ma = Some (ma_target_key cfg ma)) \<longrightarrow>
        target_at w (ma_target_key cfg ma) = Some t) \<and>
      owner_of t \<in> {None, Some (NamespacedName_String req)} \<and>
      snd (unstructured_spec t') = snd (unstructured_spec t) \<and>
      (\<forall>k. k \<notin> set finalize_keys \<longrightarrow>
        map_get (GetAnnotations t') k \<in> {map_get (GetAnnotations t) k, sfz_spec (GetAnnotations t) k})) \<and>
    ValidateReference cfg (Some (objectReference (ma_ScaleTargetRef ma))) = Inr () \<and>
    ma_GetDeletionTimestamp ma' = None \<and>
    ma_LastTargetRef ma' \<in> {Some (ma_ScaleTargetRef ma), Some (noted_ref (ma_ScaleTargetRef ma))} \<and>
    (TargetChanged ma \<longrightarrow> (\<forall>k t. ma_last_target_key cfg ma = Some k \<longrightarrow> k \<noteq> ma_target_key cfg ma \<longrightarrow>
      target_at w' k = Some t \<longrightarrow> finalized t)) \<and>
    (\<forall>k. k \<noteq> ma_target_key cfg ma \<longrightarrow> \<not> (TargetChanged ma \<and> ma_last_target_key cfg ma = Some k) \<longrightarrow>
      target_at w' k = target_at w k) \<and>
    (\<forall>k. k \<noteq> req \<longrightarrow> ma_at w' k = ma_at w k)"

definition run_stopped ::
  "ma_config \<Rightarrow> NamespacedName \<Rightarrow> MachineAutoscaler \<Rightarrow> 'w \<Rightarrow> go_error \<Rightarrow> 'w \<Rightarrow> bool" where
  "run_stopped cfg req ma w e w' \<longleftrightarrow>
    good w' \<and>
    (\<forall>k. k \<noteq> ma_target_key cfg ma \<longrightarrow> \<not> (TargetChanged ma \<and> ma_last_target_key cfg ma = Some k) \<longrightarrow>
      target_at w' k = target_at w k) \<and>
    (\<forall>k. k \<noteq> req \<longrightarrow> ma_at w' k = ma_at w k) \<and>
    (\<not> TargetChanged ma \<longrightarrow> target_at w' = target_at w \<or>
      (\<exists>t ma'. target_at w (ma_target_key cfg ma) = Some t \<and>
        owner_of t \<in> {None, Some (NamespacedName_String req)} \<and>
        ma_at w' req = Some ma' \<and> MachineTargetFinalizer \<in> set (ma_GetFinalizers ma'))) \<and>
    (\<not> TargetChanged ma \<longrightarrow> is_panic e \<longrightarrow>
      (\<exists>t. target_at w (ma_target_key cfg ma) = Some t \<and> malformed_gpu t)) \<and>
    (\<not> IsValid (Validate (Some ma)) \<longrightarrow> \<not> TargetChanged ma \<longrightarrow>
      ma_at w' = ma_at w \<and> target_at w' = target_at w)"

definition switched ::
  "ma_config \<Rightarrow> NamespacedName \<Rightarrow> MachineAutoscaler \<Rightarrow> 'w \<Rightarrow> MachineAutoscaler \<Rightarrow> 'w \<Rightarrow> bool" where
  "switched cfg req ma w ma1 w2 \<longleftrightarrow>
    in_hand ma1 w2 \<and> ma_written ma1 = ma_written ma \<and>
    (\<forall>k. k \<noteq> req \<longrightarrow> ma_at w2 k = ma_at w k) \<and>
    (TargetChanged ma \<or> (ma1 = ma \<and> ma_at w2 = ma_at w \<and> target_at w2 = target_at w)) \<and>
    (\<forall>k. \<not> (TargetChanged ma \<and> ma_last_target_key cfg ma = Some k) \<longrightarrow> target_at w2 k = target_at w k) \<and>
    (TargetChanged ma \<longrightarrow> (\<forall>k t. ma_last_target_key cfg ma = Some k \<longrightarrow>
      target_at w2 k = Some t \<longrightarrow> finalized t)) \<and>
    (TargetChanged ma \<longrightarrow> ma_LastTargetRef ma1 = Some (noted_ref (ma_ScaleTargetRef ma)))"

lemma switchedD:
  assumes "switched cfg req ma w ma1 w2"
  shows "IsValid (Validate (Some ma1)) = IsValid (Validate (Some ma))"
    and "ma_target_key cfg ma1 = ma_target_key cfg ma"
    and "ma_GetDeletionTimestamp ma1 = ma_GetDeletionTimestamp ma" "ma_key ma1 = ma_key ma"
    and "ma_ScaleTargetRef ma1 = ma_ScaleTargetRef ma"
    and "ma_MinReplicas ma1 = ma_MinReplicas ma" "ma_MaxReplicas ma1 = ma_MaxReplicas ma"
proof -
  note same = ma_written_eqD [of ma1 ma]
  show "IsValid (Validate (Some ma1)) = IsValid (Validate (Some ma))"
    and "ma_target_key cfg ma1 = ma_target_key cfg ma"
    and "ma_GetDeletionTimestamp ma1 = ma_GetDeletionTimestamp ma" "ma_key ma1 = ma_key ma"
    and "ma_ScaleTargetRef ma1 = ma_ScaleTargetRef ma"
    and "ma_MinReplicas ma1 = ma_MinReplicas ma" "ma_MaxReplicas ma1 = ma_MaxReplicas ma"
    using assms same by (simp_all add: switched_def Validate_IsValid ma_target_key_def)
qed

text \<open>What serving the target after the switch makes of the whole run.\<close>

lemma served_run_settled:
  assumes sw: "switched cfg req ma w ma1 w2" and req: "ma_key ma = req"
    and valid: "IsValid (Validate (Some ma))" and served: "served cfg ma1 w2 ma' t t' w'"
  shows "run_settled cfg req ma w ma' t' w'"
proof -
  note 1 = sw [unfolded switched_def] and 2 = served [unfolded served_def] and same = switchedD [OF sw]
  have origin: "\<exists>t. (\<not> (TargetChanged ma \<and> ma_last_target_key cfg ma = Some (ma_target_key cfg ma)) \<longrightarrow>
      target_at w (ma_target_key cfg ma) = Some t) \<and>
    owner_of t \<in> {None, Some (NamespacedName_String req)} \<and>
    snd (unstructured_spec t') = snd (unstructured_spec t) \<and>
    (\<forall>k. k \<notin> set finalize_keys \<longrightarrow>
      map_get (GetAnnotations t') k \<in> {map_get (GetAnnotations t) k, sfz_spec (GetAnnotations t) k})"
  proof (rule exI [of _ t], intro conjI impI)
    assume "\<not> (TargetChanged ma \<and> ma_last_target_key cfg ma = Some (ma_target_key cfg ma))"
    with 1 2 same(2) show "target_at w (ma_target_key cfg ma) = Some t" by metis
  qed (use 2 same req in auto)
  have noted: "ma_LastTargetRef ma' \<in> {Some (ma_ScaleTargetRef ma), Some (noted_ref (ma_ScaleTargetRef ma))}"
    using 1 2 same by (auto simp: TargetChanged_def split: option.splits if_splits)
  show ?thesis unfolding run_settled_def using origin noted 1 2 same valid req by (auto 4 4)
qed

lemma spared_run_stopped:
  assumes sw: "switched cfg req ma w ma1 w2" and req: "ma_key ma = req"
    and valid: "IsValid (Validate (Some ma))" and spared: "spared cfg ma1 w2 e w'"
  shows "run_stopped cfg req ma w e w'"
  using sw [unfolded switched_def] spared [unfolded spared_def] switchedD [OF sw] valid req
  unfolding run_stopped_def by (auto 4 4)

lemma wp_reconcile_checked:
  assumes sw: "switched cfg req ma w ma1 w2" and "ma_key ma = req" "ma_GetDeletionTimestamp ma = None"
    and Q: "\<And>w' ma' t'. run_settled cfg req ma w ma' t' w' \<Longrightarrow> Q () w'"
    and E: "\<And>e w'. run_stopped cfg req ma w e w' \<Longrightarrow> E e w'"
  shows "wp (reconcile_checked cfg ma1) Q E w2"
proof (cases "IsValid (Validate (Some ma))")
  case False
  then have "run_stopped cfg req ma w e (me_record env ev w2)" if "\<not> is_panic e" for e ev
    using sw that by (auto simp: run_stopped_def switched_def in_hand_def)
  with False show ?thesis
    by (auto simp: wp_simps aggregate_error_def switchedD [OF sw] intro: E)
next
  case True
  have "wp (reconcile_target env cfg ma1) Q E w2"
  proof (rule wp_reconcile_target, goal_cases)
    case 1 then show ?case using sw by (simp add: switched_def)
  next
    case 2 then show ?case using assms(3) by (simp add: switchedD [OF sw])
  next
    case (3 w' ma' t t')
    then show ?case by (intro Q served_run_settled [OF sw assms(2) True])
  next
    case (4 e w')
    then show ?case by (intro E spared_run_stopped [OF sw assms(2) True])
  qed
  with True show ?thesis by (simp add: switchedD [OF sw])
qed

lemma wp_Reconcile_run:
  assumes "good w" "ma_at w req = Some ma" "ma_GetDeletionTimestamp ma = None"
    and Q: "\<And>w' ma' t'. run_settled cfg req ma w ma' t' w' \<Longrightarrow> Q () w'"
    and E: "\<And>e w'. run_stopped cfg req ma w e w' \<Longrightarrow> E e w'"
  shows "wp (Reconcile env cfg req) Q E w"
proof (rule wp_Reconcile [OF assms(1,2)])
  fix e w1 assume "good w1" "ma_at w1 = ma_at w" "target_at w1 = target_at w" "\<not> is_panic e"
  then show "E e w1" by (intro E) (auto simp: run_stopped_def)
next
  fix w1 assume 1: "in_hand ma w1" "ma_key ma = req" "ma_at w1 = ma_at w" "target_at w1 = target_at w"
  have rest: "wp (reconcile_checked cfg ma1) Q E w2" if "switched cfg req ma w ma1 w2" for ma1 w2
    using that 1(2) assms(3) Q E by (rule wp_reconcile_checked)
  show "wp (if ma_GetDeletionTimestamp ma \<noteq> None then HandleDelete env cfg ma
          else act_bind
            (if TargetChanged ma then HandleTargetChange env cfg ma else act_return ma)
            (reconcile_checked cfg)) Q E w1"
  proof (cases "TargetChanged ma")
    case False
    then have "switched cfg req ma w ma w1" using 1 by (simp add: switched_def)
    from rest [OF this] False assms(3) show ?thesis by (simp add: wp_simps)
  next
    case True
    then obtain lastRef where last: "ma_LastTargetRef ma = Some lastRef"
      by (auto simp: TargetChanged_def split: option.splits)
    have lk: "ma_last_target_key cfg ma = Some (target_key cfg (objectReference lastRef))"
      by (simp add: ma_last_target_key_def last)
    have "wp (HandleTargetChange env cfg ma) (\<lambda>ma1. wp (reconcile_checked cfg ma1) Q E) E w1"
    proof (rule wp_HandleTargetChange [OF 1(1) last, where cfg = cfg], goal_cases)
      case (1 ma' w')
      then have "switched cfg req ma w ma' w'"
        using True lk \<open>ma_at w1 = ma_at w\<close> \<open>target_at w1 = target_at w\<close> \<open>ma_key ma = req\<close>
        by (auto simp: switched_def)
      then show ?case by (rule rest)
    next
      case (2 e w')
      then show ?case
        using True lk \<open>ma_at w1 = ma_at w\<close> \<open>target_at w1 = target_at w\<close> \<open>ma_key ma = req\<close>
        by (intro E) (auto simp: run_stopped_def)
    qed
    with True assms(3) show ?thesis by (simp add: wp_bind)
  qed
qed

lemmas wp_Reconcile_live = wp_Reconcile_run [unfolded run_settled_def run_stopped_def conj_imp_eq_imp_imp]

text \<open>Nothing is left to do: the run writes no object.\<close>

lemma wp_Reconcile_stable:
  assumes "good w" "ma_at w req = Some ma" "ma_GetDeletionTimestamp ma = None"
    and "ma_LastTargetRef ma = Some (ma_ScaleTargetRef ma)"
    and "MachineTargetFinalizer \<in> set (ma_GetFinalizers ma)"
    and "target_at w (ma_target_key cfg ma) = Some t"
    and "GetLimits t = Inr (sint (ma_MinReplicas ma), sint (ma_MaxReplicas ma))"
    and "owner_of t = Some (NamespacedName_String req)"
    and Q: "\<And>r w'. \<lbrakk>ma_at w' = ma_at w; target_at w' = target_at w\<rbrakk> \<Longrightarrow> Q r w'"
    and E: "\<And>e w'. \<lbrakk>ma_at w' = ma_at w; target_at w' = target_at w\<rbrakk> \<Longrightarrow> E e w'"
  shows "wp (Reconcile env cfg req) Q E w"
proof (rule wp_Reconcile [OF assms(1,2)])
  fix w1 assume 1: "in_hand ma w1" "ma_key ma = req" "ma_at w1 = ma_at w" "target_at w1 = target_at w"
  have unchanged: "\<not> TargetChanged ma" by (simp add: TargetChanged_def assms(4))
  have fin: "EnsureFinalizer env ma = act_return ma"
    using assms(5) by (simp add: EnsureFinalizer_def list_ex_iff)
  have own: "SetOwner (ma_key ma) t = Inr (False, t)"
    using assms(8) 1(2) by (simp add: SetOwner_def Let_def owner_of_def)
  have upd: "UpdateTarget env t (sint (ma_MinReplicas ma)) (sint (ma_MaxReplicas ma)) =
      (case checkScaleFromZeroAnnotations (GetAnnotations t) of
         Inl err \<Rightarrow> act_raise err | Inr _ \<Rightarrow> act_return ())" if wf: "wf_unstructured t"
  proof (cases "checkScaleFromZeroAnnotations (GetAnnotations t)")
    case (Inr a)
    have "GetLimits (SetAnnotations a t) = GetLimits t"
      by (rule GetLimits_cong) (use wf checkScale_Inr [OF Inr] in \<open>auto simp: sfz_spec_keeps upstream_keys_def\<close>)
    then show ?thesis using Inr assms(7) by (simp add: UpdateTarget_def NeedsUpdate_iff)
  qed (simp add: UpdateTarget_def)
  have "wp (reconcile_target env cfg ma) Q E w1"
    unfolding reconcile_target_def Let_def wp_simps
  proof (rule wp_GetTarget, goal_cases)
    case 1 then show ?case using \<open>in_hand ma w1\<close> by (simp add: in_hand_def)
  next
    case (2 t' w2)
    with assms(6) 1 have "t' = t" by (simp add: ma_target_key_def)
    with 2 1 own upd fin assms(4) show ?case
      by (auto simp: wp_simps intro!: Q E split: sum.split)
  next
    case (3 e w2) then show ?case using 1 by (intro E) auto
  qed
  with unchanged assms(3) show "wp (if ma_GetDeletionTimestamp ma \<noteq> None then HandleDelete env cfg ma
          else act_bind
            (if TargetChanged ma then HandleTargetChange env cfg ma else act_return ma)
            (reconcile_checked cfg)) Q E w1"
    using 1 by (auto simp: wp_simps aggregate_error_def intro!: E)
next
  fix e w1 assume "ma_at w1 = ma_at w" "target_at w1 = target_at w"
  then show "E e w1" by (rule E)
qed

end
end
