(* ===== verification/MA_Properties.thy ===== *)
theory MA_Properties
  imports MA_Cluster
begin

text \<open>
  The properties of the MachineAutoscaler controller.  Those of the reconcile loop hold for
  every API server that meets the contract \<open>ma_cluster\<close>; the fake cluster below meets it,
  and the witnesses run the loop on it.
\<close>

section \<open>A cluster of fake clients\<close>

record fake_world =
  fw_mas :: "(NamespacedName, MachineAutoscaler) tracker"
  fw_targets :: "(GroupVersionKind \<times> NamespacedName, unstructured) tracker"
  fw_events :: "event list"

definition fake_env :: "fake_world ma_env" where
  "fake_env =
     \<lparr>me_ma = fake_client ma_ops ''2024-01-01T00:00:00Z'' fw_mas (\<lambda>s w. w\<lparr>fw_mas := s\<rparr>),
      me_target = fake_client unstructured_ops ''2024-01-01T00:00:00Z'' fw_targets
        (\<lambda>s w. w\<lparr>fw_targets := s\<rparr>),
      me_record = \<lambda>ev w. w\<lparr>fw_events := fw_events w @ [ev]\<rparr>\<rparr>"

definition fake_good :: "fake_world \<Rightarrow> bool" where
  "fake_good w \<longleftrightarrow> keyed ma_ops (fw_mas w) \<and> keyed unstructured_ops (fw_targets w)"

interpretation fake_mas: kube_kind ma_ops ma_written ma_LastTargetRef "''2024-01-01T00:00:00Z''"
  fw_mas "\<lambda>s w. w\<lparr>fw_mas := s\<rparr>" fake_good
  by unfold_locales (simp_all add: fake_good_def)

interpretation fake_targets: kube_kind unstructured_ops unstructured_spec "\<lambda>u. map_of u ''status''"
  "''2024-01-01T00:00:00Z''" fw_targets "\<lambda>s w. w\<lparr>fw_targets := s\<rparr>" fake_good
  by unfold_locales (simp_all add: fake_good_def)

lemma fake_stores:
  "object_store (me_ma fake_env) ma_key fw_mas ma_written ma_LastTargetRef ma_pending ma_gone
     (\<lambda>_. True) fake_good"
  "object_store (me_target fake_env) unstructured_key fw_targets unstructured_spec
     (\<lambda>u. map_of u ''status'') target_pending target_gone wf_unstructured fake_good"
  using fake_mas.object_store_axioms fake_targets.object_store_axioms
  by (simp_all add: fake_env_def ma_pending_def [abs_def] ma_gone_def [abs_def]
      target_pending_def [abs_def] target_gone_def [abs_def])

interpretation fake: ma_cluster fake_env fw_mas fw_targets fake_good
  by (rule ma_cluster.intro [OF fake_stores], unfold_locales)
     (auto simp: fake_env_def fake_good_def intro!: fake_client_preserves)

section \<open>A cluster to run on\<close>

definition demo_config :: ma_config where
  "demo_config = \<lparr>mc_Namespace = ''ns'', mc_SupportedTargetGVKs = DefaultSupportedTargetGVKs\<rparr>"

definition demo_meta :: "string \<Rightarrow> ObjectMeta" where
  "demo_meta name = empty_meta\<lparr>om_name := name, om_namespace := ''ns'', om_resourceVersion := 1\<rparr>"

definition demo_ref :: "string \<Rightarrow> CrossVersionObjectReference" where
  "demo_ref name = \<lparr>cv_APIVersion = ''machine.openshift.io/v1beta1'', cv_Kind = ''MachineSet'', cv_Name = name\<rparr>"

definition demo_ma :: MachineAutoscaler where
  "demo_ma = \<lparr>ma_meta = demo_meta ''ma'', ma_MinReplicas = 1, ma_MaxReplicas = 3,
     ma_ScaleTargetRef = demo_ref ''ms'', ma_LastTargetRef = None\<rparr>"

definition demo_target :: "(string \<times> string) list \<Rightarrow> unstructured" where
  "demo_target ann =
     [(''apiVersion'', JStr ''machine.openshift.io/v1beta1''), (''kind'', JStr ''MachineSet''),
      (''metadata'', JObj [(''name'', JStr ''ms''), (''namespace'', JStr ''ns''),
         (''annotations'', JObj (map (\<lambda>(k, v). (k, JStr v)) ann))])]"

definition demo_name :: "string \<Rightarrow> NamespacedName" where
  "demo_name n = \<lparr>nn_namespace = ''ns'', nn_name = n\<rparr>"

definition demo_key :: "GroupVersionKind \<times> NamespacedName" where
  "demo_key = (hd DefaultSupportedTargetGVKs, demo_name ''ms'')"

definition demo_world :: "MachineAutoscaler \<Rightarrow> (string \<times> string) list \<Rightarrow> fake_world" where
  "demo_world ma ann =
     \<lparr>fw_mas = [demo_name ''ma'' \<mapsto> ma], fw_targets = [demo_key \<mapsto> demo_target ann], fw_events = []\<rparr>"

lemma demo_world_sel [simp]:
  "fw_mas (demo_world ma ann) = [demo_name ''ma'' \<mapsto> ma]"
  "fw_targets (demo_world ma ann) = [demo_key \<mapsto> demo_target ann]"
  by (simp_all add: demo_world_def)

lemma demo_good:
  assumes "ma_key ma = demo_name ''ma''" "\<not> ma_gone ma"
  shows "fake_good (demo_world ma ann)"
proof -
  have "unstructured_key (demo_target ann) = demo_key" "wf_unstructured (demo_target ann)"
    "GetDeletionTimestamp (demo_target ann) = None"
    by (simp_all add: demo_target_def unstructured_key_def getNestedString_def NestedString_def GetKind_def
        GetName_def GetNamespace_def FromAPIVersionAndKind_def ParseGroupVersion_def cut_on_def
        demo_key_def demo_name_def DefaultSupportedTargetGVKs_def wf_unstructured_def
        GetDeletionTimestamp_def metadata_string_def)
  with assms show ?thesis
    by (auto simp: fake_good_def keyed_def ma_gone_def split: if_splits)
qed

lemma demo_ma_ok [simp]:
  "ma_key demo_ma = demo_name ''ma''" "\<not> ma_gone demo_ma" "ma_GetDeletionTimestamp demo_ma = None"
  by (simp_all add: demo_ma_def ma_key_def meta_key_def demo_meta_def demo_name_def ma_gone_def
      ma_GetDeletionTimestamp_def empty_meta_def)

text \<open>The run of the loop on a demonstration world.\<close>

definition demo_run :: "MachineAutoscaler \<Rightarrow> (string \<times> string) list \<Rightarrow> (go_error + unit) \<times> fake_world" where
  "demo_run ma ann = Reconcile fake_env demo_config (demo_name ''ma'') (demo_world ma ann)"

lemma demo_run_eq:
  "Reconcile fake_env demo_config (demo_name ''ma'') (demo_world ma ann) =
   (fst (demo_run ma ann), snd (demo_run ma ann))"
  by (simp add: demo_run_def)

lemma demo_run_Inr:
  "isl (fst (demo_run ma ann)) = False \<Longrightarrow>
   Reconcile fake_env demo_config (demo_name ''ma'') (demo_world ma ann) = (Inr (), snd (demo_run ma ann))"
  by (cases "demo_run ma ann"; cases "fst (demo_run ma ann)") (simp_all add: demo_run_def)

section \<open>The reconcile loop\<close>

text \<open>
  C1: where \<open>Reconcile\<close> returns no error for a live MachineAutoscaler, the server holds the
  MachineAutoscaler with the target finalizer, and its target with the limits of the spec
  and the MachineAutoscaler as the owner.
\<close>

theorem reconcile_success:
  assumes "ma_cluster env ma_at target_at good" "good w"
    and "ma_at w req = Some ma" "ma_GetDeletionTimestamp ma = None"
    and "Reconcile env cfg req w = (Inr (), w')"
  shows "\<exists>ma' t'. ma_at w' req = Some ma' \<and> MachineTargetFinalizer \<in> set (ma_GetFinalizers ma') \<and>
    target_at w' (ma_target_key cfg ma) = Some t' \<and>
    GetLimits t' = Inr (sint (ma_MinReplicas ma), sint (ma_MaxReplicas ma)) \<and>
    owner_of t' = Some (NamespacedName_String req)"
proof -
  have "wp (Reconcile env cfg req) (\<lambda>_ w'. \<exists>ma' t'. ma_at w' req = Some ma' \<and>
      MachineTargetFinalizer \<in> set (ma_GetFinalizers ma') \<and>
      target_at w' (ma_target_key cfg ma) = Some t' \<and>
      GetLimits t' = Inr (sint (ma_MinReplicas ma), sint (ma_MaxReplicas ma)) \<and>
      owner_of t' = Some (NamespacedName_String req)) (\<lambda>_ _. True) w"
    by (rule ma_cluster.wp_Reconcile_live [OF assms(1-4)]) auto
  from wpD(1) [OF this assms(5)] show ?thesis .
qed

theorem reconcile_success_witness:
  "\<exists>ma' t'. fw_mas (snd (demo_run demo_ma [])) (demo_name ''ma'') = Some ma' \<and>
    MachineTargetFinalizer \<in> set (ma_GetFinalizers ma') \<and>
    fw_targets (snd (demo_run demo_ma [])) (ma_target_key demo_config demo_ma) = Some t' \<and>
    GetLimits t' = Inr (sint (ma_MinReplicas demo_ma), sint (ma_MaxReplicas demo_ma)) \<and>
    owner_of t' = Some (NamespacedName_String (demo_name ''ma''))"
proof -
  have ok: "isl (fst (demo_run demo_ma [])) = False" by code_simp
  show ?thesis
    by (rule reconcile_success [OF fake.ma_cluster_axioms demo_good [OF demo_ma_ok(1,2)] _ _ demo_run_Inr [OF ok]])
       simp_all
qed

text \<open>
  C4: ownership.  A run for a live MachineAutoscaler whose target has not changed, whether it
  returns an error or not, writes at most its own target, and that only when the target has
  no owner or is owned by this MachineAutoscaler, and only with the finalizer already stored.
\<close>

theorem reconcile_ownership:
  assumes "ma_cluster env ma_at target_at good" "good w"
    and "ma_at w req = Some ma" "ma_GetDeletionTimestamp ma = None" "\<not> TargetChanged ma"
    and "Reconcile env cfg req w = (r, w')" "target_at w' k \<noteq> target_at w k"
  shows "k = ma_target_key cfg ma \<and>
    (\<exists>t. target_at w k = Some t \<and> owner_of t \<in> {None, Some (NamespacedName_String req)}) \<and>
    (\<exists>ma'. ma_at w' req = Some ma' \<and> MachineTargetFinalizer \<in> set (ma_GetFinalizers ma'))"
proof -
  let ?P = "\<lambda>w'. target_at w' k \<noteq> target_at w k \<longrightarrow> k = ma_target_key cfg ma \<and>
    (\<exists>t. target_at w k = Some t \<and> owner_of t \<in> {None, Some (NamespacedName_String req)}) \<and>
    (\<exists>ma'. ma_at w' req = Some ma' \<and> MachineTargetFinalizer \<in> set (ma_GetFinalizers ma'))"
  have "wp (Reconcile env cfg req) (\<lambda>_. ?P) (\<lambda>_. ?P) w"
    by (rule ma_cluster.wp_Reconcile_live [OF assms(1-4)]) (use assms(5) in metis)+
  from wp_result [OF this assms(6)] assms(7) show ?thesis by (auto split: sum.splits)
qed

theorem reconcile_ownership_witness:
  "\<exists>ma'. fw_mas (snd (demo_run demo_ma [])) (demo_name ''ma'') = Some ma' \<and>
    MachineTargetFinalizer \<in> set (ma_GetFinalizers ma')"
proof -
  have "map_option owner_of (fw_targets (snd (demo_run demo_ma [])) demo_key) = Some (Some ''ns/ma'')"
    "map_option owner_of (fw_targets (demo_world demo_ma []) demo_key) = Some None" by code_simp+
  then have "fw_targets (snd (demo_run demo_ma [])) demo_key \<noteq> fw_targets (demo_world demo_ma []) demo_key"
    by (metis option.distinct(1) option.inject)
  moreover have "\<not> TargetChanged demo_ma" by code_simp
  ultimately show ?thesis
    using reconcile_ownership [OF fake.ma_cluster_axioms demo_good [OF demo_ma_ok(1,2)] _ _ _ demo_run_eq]
    by fastforce
qed

text \<open>
  A run for a live MachineAutoscaler edits nothing of its target but the annotations, and of
  these only the limits, the owner and scale-from-zero annotations that were missing and are
  derived from their deprecated keys.
\<close>

theorem reconcile_target_frame:
  assumes "ma_cluster env ma_at target_at good" "good w"
    and "ma_at w req = Some ma" "ma_GetDeletionTimestamp ma = None" "\<not> TargetChanged ma"
    and "Reconcile env cfg req w = (Inr (), w')"
    and "target_at w (ma_target_key cfg ma) = Some t" "target_at w' (ma_target_key cfg ma) = Some t'"
  shows "snd (unstructured_spec t') = snd (unstructured_spec t) \<and>
    (\<forall>k. k \<notin> set finalize_keys \<longrightarrow>
      map_get (GetAnnotations t') k \<in> {map_get (GetAnnotations t) k, sfz_spec (GetAnnotations t) k})"
proof -
  let ?P = "\<lambda>w'. \<forall>t'. target_at w' (ma_target_key cfg ma) = Some t' \<longrightarrow>
    snd (unstructured_spec t') = snd (unstructured_spec t) \<and>
    (\<forall>k. k \<notin> set finalize_keys \<longrightarrow>
      map_get (GetAnnotations t') k \<in> {map_get (GetAnnotations t) k, sfz_spec (GetAnnotations t) k})"
  have "wp (Reconcile env cfg req) (\<lambda>_. ?P) (\<lambda>_ _. True) w"
  proof (rule ma_cluster.wp_Reconcile_live [OF assms(1-4), where cfg = cfg], goal_cases)
    case (1 w' ma' t')
    from 1(11) obtain t0 where "target_at w (ma_target_key cfg ma) = Some t0"
      "snd (unstructured_spec t') = snd (unstructured_spec t0)"
      "\<forall>k. k \<notin> set finalize_keys \<longrightarrow>
        map_get (GetAnnotations t') k \<in> {map_get (GetAnnotations t0) k, sfz_spec (GetAnnotations t0) k}"
      using assms(5) by blast
    with 1(8) assms(7) show ?case by simp
  qed simp
  from wpD(1) [OF this assms(6)] assms(8) show ?thesis by blast
qed

text \<open>The witness: a target with deprecated capacity annotations gets the upstream copies.\<close>

definition demo_capacity :: "(string \<times> string) list" where
  "demo_capacity = [(CpuKeyDeprecated, ''4''), (GpuCountKeyDeprecated, ''0'')]"

lemma demo_stored:
  assumes "map_option f (fw_targets w demo_key) = Some x"
  obtains t where "fw_targets w demo_key = Some t" "f t = x"
  using assms by (cases "fw_targets w demo_key") auto

lemma demo_target_key: "ma_target_key demo_config demo_ma = demo_key"
  by code_simp

theorem reconcile_target_frame_witness:
  "\<exists>t'. fw_targets (snd (demo_run demo_ma demo_capacity)) demo_key = Some t' \<and>
    map_get (GetAnnotations t') CpuKeyDeprecated = Some ''4'' \<and>
    map_get (GetAnnotations t') GpuTypeKey = Some ''''"
proof -
  have ok: "isl (fst (demo_run demo_ma demo_capacity)) = False" by code_simp
  have "map_option (\<lambda>t. map_get (GetAnnotations t) GpuTypeKey)
      (fw_targets (snd (demo_run demo_ma demo_capacity)) demo_key) = Some (Some '''')" by code_simp
  then obtain t' where t': "fw_targets (snd (demo_run demo_ma demo_capacity)) demo_key = Some t'"
    "map_get (GetAnnotations t') GpuTypeKey = Some ''''" by (rule demo_stored)
  have unchanged: "\<not> TargetChanged demo_ma" by code_simp
  have "CpuKeyDeprecated \<notin> set finalize_keys" by (simp add: finalize_keys_def)
  moreover have "map_get (GetAnnotations (demo_target demo_capacity)) CpuKeyDeprecated = Some ''4''" by code_simp
  ultimately have "map_get (GetAnnotations t') CpuKeyDeprecated = Some ''4''"
    using reconcile_target_frame [OF fake.ma_cluster_axioms demo_good [OF demo_ma_ok(1,2)] _ demo_ma_ok(3)
        unchanged demo_run_Inr [OF ok], of "demo_target demo_capacity" t'] t'(1)
    by (auto simp: demo_target_key sfz_spec_keeps(1))
  with t' show ?thesis by blast
qed

text \<open>
  A live MachineAutoscaler with invalid limits is refused: the run returns an error and
  writes no object.
\<close>

lemma reconcile_invalid:
  assumes "ma_cluster env ma_at target_at good" "good w"
    and "ma_at w req = Some ma" "ma_GetDeletionTimestamp ma = None" "\<not> TargetChanged ma"
    and "\<not> (0 \<le> sint (ma_MinReplicas ma) \<and> sint (ma_MinReplicas ma) \<le> sint (ma_MaxReplicas ma))"
    and "Reconcile env cfg req w = (r, w')"
  shows "(\<exists>e. r = Inl e) \<and> ma_at w' = ma_at w \<and> target_at w' = target_at w"
proof -
  have "\<not> IsValid (Validate (Some ma))" using assms(6) by (simp add: Validate_IsValid)
  then have "wp (Reconcile env cfg req) (\<lambda>_ _. False)
      (\<lambda>e w'. ma_at w' = ma_at w \<and> target_at w' = target_at w) w"
    by (intro ma_cluster.wp_Reconcile_live [OF assms(1-4)]) (use assms(5) in auto)
  from wp_result [OF this assms(7)] show ?thesis by (auto split: sum.splits)
qed

definition demo_bad :: MachineAutoscaler where
  "demo_bad = demo_ma\<lparr>ma_MinReplicas := 4\<rparr>"

lemma demo_bad_ok [simp]:
  "ma_key demo_bad = demo_name ''ma''" "\<not> ma_gone demo_bad" "ma_GetDeletionTimestamp demo_bad = None"
  using demo_ma_ok
  by (simp_all add: demo_bad_def ma_key_def ma_gone_def ma_GetDeletionTimestamp_def ma_GetFinalizers_def)

lemma reconcile_invalid_witness:
  "fw_targets (snd (demo_run demo_bad [])) = fw_targets (demo_world demo_bad [])"
proof -
  have "\<not> TargetChanged demo_bad"
    "\<not> (0 \<le> sint (ma_MinReplicas demo_bad) \<and> sint (ma_MinReplicas demo_bad) \<le> sint (ma_MaxReplicas demo_bad))"
    by code_simp+
  then show ?thesis
    using reconcile_invalid [OF fake.ma_cluster_axioms demo_good [OF demo_bad_ok(1,2)] _ demo_bad_ok(3) _ _ demo_run_eq]
    by simp
qed

text \<open>
  C8: convergence.  After a run for a live MachineAutoscaler that returns no error a second run
  writes no object, whatever it returns, when no supported kind is in the core group.
\<close>

theorem reconcile_converges:
  assumes "ma_cluster env ma_at target_at good" "good w"
    and "ma_at w req = Some ma" "ma_GetDeletionTimestamp ma = None"
    and "\<forall>gvk \<in> set (mc_SupportedTargetGVKs cfg). gvk_group gvk \<noteq> ''''"
    and "Reconcile env cfg req w = (Inr (), w1)" "Reconcile env cfg req w1 = (r, w2)"
  shows "ma_at w2 = ma_at w1 \<and> target_at w2 = target_at w1"
proof -
  let ?stable = "\<lambda>w1. good w1 \<and> (\<exists>ma' t'. ma_at w1 req = Some ma' \<and> ma_GetDeletionTimestamp ma' = None \<and>
    ma_LastTargetRef ma' = Some (ma_ScaleTargetRef ma') \<and>
    MachineTargetFinalizer \<in> set (ma_GetFinalizers ma') \<and>
    target_at w1 (ma_target_key cfg ma') = Some t' \<and>
    GetLimits t' = Inr (sint (ma_MinReplicas ma'), sint (ma_MaxReplicas ma')) \<and>
    owner_of t' = Some (NamespacedName_String req))"
  have "wp (Reconcile env cfg req) (\<lambda>_. ?stable) (\<lambda>_ _. True) w"
  proof (rule ma_cluster.wp_Reconcile_live [OF assms(1-4), where cfg = cfg], goal_cases)
    case (1 w' ma' t')
    then have "noted_ref (ma_ScaleTargetRef ma) = ma_ScaleTargetRef ma"
      using noted_ref_supported assms(5) by blast
    with 1 show ?case by (auto simp: ma_target_key_def)
  qed simp
  from wpD(1) [OF this assms(6)] obtain ma' t' where s: "good w1" "ma_at w1 req = Some ma'"
    "ma_GetDeletionTimestamp ma' = None" "ma_LastTargetRef ma' = Some (ma_ScaleTargetRef ma')"
    "MachineTargetFinalizer \<in> set (ma_GetFinalizers ma')"
    "target_at w1 (ma_target_key cfg ma') = Some t'"
    "GetLimits t' = Inr (sint (ma_MinReplicas ma'), sint (ma_MaxReplicas ma'))"
    "owner_of t' = Some (NamespacedName_String req)" by blast
  have "wp (Reconcile env cfg req) (\<lambda>_ w2. ma_at w2 = ma_at w1 \<and> target_at w2 = target_at w1)
      (\<lambda>_ w2. ma_at w2 = ma_at w1 \<and> target_at w2 = target_at w1) w1"
    by (rule ma_cluster.wp_Reconcile_stable [OF assms(1) s]) auto
  from wp_result [OF this assms(7)] show ?thesis by (auto split: sum.splits)
qed

theorem reconcile_converges_witness:
  "fw_targets (snd (Reconcile fake_env demo_config (demo_name ''ma'') (snd (demo_run demo_ma [])))) =
   fw_targets (snd (demo_run demo_ma []))"
proof -
  have ok: "isl (fst (demo_run demo_ma [])) = False" by code_simp
  have "\<forall>gvk \<in> set (mc_SupportedTargetGVKs demo_config). gvk_group gvk \<noteq> ''''"
    by (simp add: demo_config_def DefaultSupportedTargetGVKs_def)
  then show ?thesis
    using reconcile_converges [OF fake.ma_cluster_axioms demo_good [OF demo_ma_ok(1,2)] _ demo_ma_ok(3)
        _ demo_run_Inr [OF ok]]
    by (metis demo_world_sel(1) fun_upd_same prod.collapse)
qed

text \<open>
  C38: a panic in a run for a live MachineAutoscaler whose target has not changed comes from a
  GPU capacity annotation on the target that is not a quantity.
\<close>

theorem reconcile_panic:
  assumes "ma_cluster env ma_at target_at good" "good w"
    and "ma_at w req = Some ma" "ma_GetDeletionTimestamp ma = None" "\<not> TargetChanged ma"
    and "Reconcile env cfg req w = (Inl e, w')" "is_panic e"
  shows "\<exists>t v err. target_at w (ma_target_key cfg ma) = Some t \<and>
    map_get (GetAnnotations t) autoscalerCapacityGPU = Some v \<and> ParseQuantity v = Inl err"
proof -
  have "wp (Reconcile env cfg req) (\<lambda>_ _. True) (\<lambda>e w'. is_panic e \<longrightarrow>
      (\<exists>t. target_at w (ma_target_key cfg ma) = Some t \<and> malformed_gpu t)) w"
    by (rule ma_cluster.wp_Reconcile_live [OF assms(1-4)]) (use assms(5) in auto)
  from wpD(2) [OF this assms(6)] assms(7) obtain t where
    t: "target_at w (ma_target_key cfg ma) = Some t" "malformed_gpu t" by blast
  from t(2) obtain v err where "map_get (GetAnnotations t) autoscalerCapacityGPU = Some v"
    "ParseQuantity v = Inl err" by (auto simp: malformed_gpu_def split: option.splits sum.splits)
  with t(1) show ?thesis by blast
qed

theorem reconcile_panic_witness:
  "(case fst (demo_run demo_ma [(autoscalerCapacityGPU, ''one'')]) of
      Inl e \<Rightarrow> is_panic e | Inr _ \<Rightarrow> False) \<and>
   (\<exists>err. ParseQuantity ''one'' = Inl err)"
proof -
  let ?ann = "[(autoscalerCapacityGPU, ''one'')]"
  have p: "case fst (demo_run demo_ma ?ann) of Inl e \<Rightarrow> is_panic e | Inr _ \<Rightarrow> False" by code_simp
  then obtain e where e: "fst (demo_run demo_ma ?ann) = Inl e" "is_panic e" by (auto split: sum.splits)
  have unchanged: "\<not> TargetChanged demo_ma" by code_simp
  have "Reconcile fake_env demo_config (demo_name ''ma'') (demo_world demo_ma ?ann) =
      (Inl e, snd (demo_run demo_ma ?ann))" using e(1) demo_run_eq [of demo_ma ?ann] by simp
  from reconcile_panic [OF fake.ma_cluster_axioms demo_good [OF demo_ma_ok(1,2)] _ demo_ma_ok(3) unchanged this e(2)]
  obtain v err where "map_get (GetAnnotations (demo_target ?ann)) autoscalerCapacityGPU = Some v"
    "ParseQuantity v = Inl err" by (auto simp: demo_target_key)
  moreover have "map_get (GetAnnotations (demo_target ?ann)) autoscalerCapacityGPU = Some ''one''" by code_simp
  ultimately show ?thesis using p by auto
qed

section \<open>Deletion and change of the target\<close>

text \<open>
  C16: where \<open>Reconcile\<close> returns no error for a MachineAutoscaler being deleted, no
  autoscaling configuration is left on its target, and the MachineAutoscaler is gone or has lost
  exactly the target finalizer.  The target is stripped whoever owns it.
\<close>

theorem delete_success:
  assumes "ma_cluster env ma_at target_at good" "good w"
    and "ma_at w req = Some ma" "ma_GetDeletionTimestamp ma = Some time"
    and "Reconcile env cfg req w = (Inr (), w')"
  shows "(\<forall>t. target_at w' (ma_target_key cfg ma) = Some t \<longrightarrow> finalized t) \<and>
    (\<forall>ma'. ma_at w' req = Some ma' \<longrightarrow>
      ma_GetFinalizers ma' = filter (\<lambda>f. f \<noteq> MachineTargetFinalizer) (ma_GetFinalizers ma)) \<and>
    (\<forall>k. k \<noteq> ma_target_key cfg ma \<longrightarrow> target_at w' k = target_at w k)"
proof -
  let ?Q = "\<lambda>w'. (\<forall>t. target_at w' (ma_target_key cfg ma) = Some t \<longrightarrow> finalized t) \<and>
    (\<forall>ma'. ma_at w' req = Some ma' \<longrightarrow>
      ma_GetFinalizers ma' = filter (\<lambda>f. f \<noteq> MachineTargetFinalizer) (ma_GetFinalizers ma)) \<and>
    (\<forall>k. k \<noteq> ma_target_key cfg ma \<longrightarrow> target_at w' k = target_at w k)"
  have "wp (Reconcile env cfg req) (\<lambda>_. ?Q) (\<lambda>_ _. True) w"
  proof (rule ma_cluster.wp_Reconcile [OF assms(1-3)], goal_cases)
    case (1 w1)
    have "wp (HandleDelete env cfg ma) (\<lambda>_. ?Q) (\<lambda>_ _. True) w1"
      by (rule ma_cluster.wp_HandleDelete [OF assms(1) 1(1), where cfg = cfg]) (use 1 in auto)
    with assms(4) show ?case by simp
  qed simp
  from wpD(1) [OF this assms(5)] show ?thesis .
qed

definition demo_deleted :: MachineAutoscaler where
  "demo_deleted = demo_ma\<lparr>ma_meta := (demo_meta ''ma'')\<lparr>om_deletionTimestamp := Some ''2024-01-01T00:00:00Z'',
     om_finalizers := [MachineTargetFinalizer, ''example.com/other'']\<rparr>\<rparr>"

lemma demo_deleted_ok [simp]:
  "ma_key demo_deleted = demo_name ''ma''" "\<not> ma_gone demo_deleted"
  "ma_GetDeletionTimestamp demo_deleted = Some ''2024-01-01T00:00:00Z''"
  by (simp_all add: demo_deleted_def ma_key_def meta_key_def demo_meta_def demo_name_def ma_gone_def
      ma_GetDeletionTimestamp_def ma_GetFinalizers_def empty_meta_def)

text \<open>The witness: the target of the deleted MachineAutoscaler is owned by another one.\<close>

theorem delete_success_witness:
  "\<exists>t. fw_targets (demo_world demo_deleted [(MachineTargetOwnerAnnotation, ''ns/other'')]) demo_key = Some t \<and>
     owner_of t = Some ''ns/other'' \<and>
     (\<exists>t'. fw_targets (snd (demo_run demo_deleted [(MachineTargetOwnerAnnotation, ''ns/other'')])) demo_key = Some t' \<and>
       finalized t' \<and> owner_of t' = None)"
proof -
  let ?ann = "[(MachineTargetOwnerAnnotation, ''ns/other'')]"
  have ok: "isl (fst (demo_run demo_deleted ?ann)) = False" by code_simp
  have k: "ma_target_key demo_config demo_deleted = demo_key" by code_simp
  have "map_option (\<lambda>_. True) (fw_targets (snd (demo_run demo_deleted ?ann)) demo_key) = Some True"
    by code_simp
  then obtain t' where t': "fw_targets (snd (demo_run demo_deleted ?ann)) demo_key = Some t'"
    by (rule demo_stored)
  then have "finalized t'"
    using delete_success [OF fake.ma_cluster_axioms demo_good [OF demo_deleted_ok(1,2)] _
        demo_deleted_ok(3) demo_run_Inr [OF ok]] by (simp add: k)
  moreover from this have "owner_of t' = None" by (simp add: finalized_def finalize_keys_def owner_of_def)
  moreover have "owner_of (demo_target ?ann) = Some ''ns/other''" by code_simp
  ultimately show ?thesis using t' by auto
qed

text \<open>
  C6: the finalizer keeps the target in reach.  Whatever a run for a MachineAutoscaler being
  deleted returns, it has not touched the MachineAutoscaler unless no autoscaling configuration is
  left on its target.
\<close>

theorem delete_order:
  assumes "ma_cluster env ma_at target_at good" "good w"
    and "ma_at w req = Some ma" "ma_GetDeletionTimestamp ma = Some time"
    and "Reconcile env cfg req w = (r, w')" "ma_at w' req \<noteq> ma_at w req"
    and "target_at w' (ma_target_key cfg ma) = Some t"
  shows "finalized t"
proof -
  let ?Q = "\<lambda>w'. ma_at w' req \<noteq> ma_at w req \<longrightarrow>
    (\<forall>t. target_at w' (ma_target_key cfg ma) = Some t \<longrightarrow> finalized t)"
  have "wp (Reconcile env cfg req) (\<lambda>_. ?Q) (\<lambda>_. ?Q) w"
  proof (rule ma_cluster.wp_Reconcile [OF assms(1-3)], goal_cases)
    case (1 w1)
    have "wp (HandleDelete env cfg ma) (\<lambda>_. ?Q) (\<lambda>_. ?Q) w1"
      by (rule ma_cluster.wp_HandleDelete [OF assms(1) 1(1), where cfg = cfg]) (use 1 in auto)
    with assms(4) show ?case by simp
  qed simp
  from wp_result [OF this assms(5)] assms(6,7) show ?thesis by (auto split: sum.splits)
qed

theorem delete_order_witness:
  "\<exists>t. fw_targets (snd (demo_run demo_deleted [(minSizeAnnotation, ''1'')])) demo_key = Some t \<and> finalized t"
proof -
  let ?ann = "[(minSizeAnnotation, ''1'')]"
  have k: "ma_target_key demo_config demo_deleted = demo_key" by code_simp
  have "map_option ma_GetFinalizers (fw_mas (snd (demo_run demo_deleted ?ann)) (demo_name ''ma'')) = Some [''example.com/other'']"
    "ma_GetFinalizers demo_deleted = [MachineTargetFinalizer, ''example.com/other'']" by code_simp+
  then have changed: "fw_mas (snd (demo_run demo_deleted ?ann)) (demo_name ''ma'') \<noteq>
      fw_mas (demo_world demo_deleted ?ann) (demo_name ''ma'')" by auto
  have "map_option (\<lambda>_. True) (fw_targets (snd (demo_run demo_deleted ?ann)) demo_key) = Some True"
    by code_simp
  then obtain t where t: "fw_targets (snd (demo_run demo_deleted ?ann)) demo_key = Some t"
    by (rule demo_stored)
  from delete_order [OF fake.ma_cluster_axioms demo_good [OF demo_deleted_ok(1,2)] _
      demo_deleted_ok(3) demo_run_eq changed, of t] t k
  show ?thesis by auto
qed

text \<open>
  C25: where a run for a live MachineAutoscaler whose target has changed returns no error, no
  autoscaling configuration is left on the previous target, the new one carries it, and no
  other target has been written.
\<close>

theorem target_change:
  assumes "ma_cluster env ma_at target_at good" "good w"
    and "ma_at w req = Some ma" "ma_GetDeletionTimestamp ma = None" "TargetChanged ma"
    and "ma_last_target_key cfg ma = Some k" "k \<noteq> ma_target_key cfg ma"
    and "Reconcile env cfg req w = (Inr (), w')"
  shows "(\<forall>t. target_at w' k = Some t \<longrightarrow> finalized t) \<and>
    (\<exists>t'. target_at w' (ma_target_key cfg ma) = Some t' \<and>
      GetLimits t' = Inr (sint (ma_MinReplicas ma), sint (ma_MaxReplicas ma)) \<and>
      owner_of t' = Some (NamespacedName_String req)) \<and>
    (\<forall>l. l \<noteq> k \<longrightarrow> l \<noteq> ma_target_key cfg ma \<longrightarrow> target_at w' l = target_at w l)"
proof -
  let ?Q = "\<lambda>w'. (\<forall>t. target_at w' k = Some t \<longrightarrow> finalized t) \<and>
    (\<exists>t'. target_at w' (ma_target_key cfg ma) = Some t' \<and>
      GetLimits t' = Inr (sint (ma_MinReplicas ma), sint (ma_MaxReplicas ma)) \<and>
      owner_of t' = Some (NamespacedName_String req)) \<and>
    (\<forall>l. l \<noteq> k \<longrightarrow> l \<noteq> ma_target_key cfg ma \<longrightarrow> target_at w' l = target_at w l)"
  have "wp (Reconcile env cfg req) (\<lambda>_. ?Q) (\<lambda>_ _. True) w"
  proof (rule ma_cluster.wp_Reconcile_live [OF assms(1-4), where cfg = cfg], goal_cases)
    case (1 w' ma' t')
    have "finalized t" if "target_at w' k = Some t" for t using 1(15) that assms(5-7) by blast
    moreover have "target_at w' l = target_at w l" if "l \<noteq> k" "l \<noteq> ma_target_key cfg ma" for l
      using 1(16) that assms(6) by (metis option.inject)
    ultimately show ?case using 1(8-10) by blast
  qed simp
  from wpD(1) [OF this assms(8)] show ?thesis .
qed

definition demo_moved :: MachineAutoscaler where
  "demo_moved = demo_ma\<lparr>ma_LastTargetRef := Some (demo_ref ''gone'')\<rparr>"

lemma demo_moved_ok [simp]:
  "ma_key demo_moved = demo_name ''ma''" "\<not> ma_gone demo_moved" "ma_GetDeletionTimestamp demo_moved = None"
  using demo_ma_ok
  by (simp_all add: demo_moved_def ma_key_def ma_gone_def ma_GetDeletionTimestamp_def ma_GetFinalizers_def)

theorem target_change_witness:
  "\<exists>t'. fw_targets (snd (demo_run demo_moved [])) demo_key = Some t' \<and>
    owner_of t' = Some ''ns/ma''"
proof -
  have ok: "isl (fst (demo_run demo_moved [])) = False" by code_simp
  have k: "ma_target_key demo_config demo_moved = demo_key"
    "ma_last_target_key demo_config demo_moved = Some (hd DefaultSupportedTargetGVKs, demo_name ''gone'')"
    "TargetChanged demo_moved" "NamespacedName_String (demo_name ''ma'') = ''ns/ma''" by code_simp+
  have "(hd DefaultSupportedTargetGVKs, demo_name ''gone'') \<noteq> demo_key" by (simp add: demo_key_def demo_name_def)
  with target_change [OF fake.ma_cluster_axioms demo_good [OF demo_moved_ok(1,2)] _ demo_moved_ok(3)
      k(3,2) _ demo_run_Inr [OF ok]] show ?thesis by (auto simp: k)
qed

text \<open>
  A run for a MachineAutoscaler that is being deleted fails where its target reference is not valid
  for the configuration, before it has changed anything.
\<close>

context ma_cluster
begin

lemma Reconcile_delete_invalid:
  assumes "good w" "ma_at w req = Some ma" "ma_GetDeletionTimestamp ma = Some time"
    and "ValidateReference cfg (Some (objectReference (ma_ScaleTargetRef ma))) = Inl err"
    and "Reconcile env cfg req w = (r, w')"
  shows "(\<exists>e. r = Inl e) \<and> ma_at w' = ma_at w \<and> target_at w' = target_at w"
proof -
  have "\<not> IsNotFound err"
    using assms(4) by (auto simp: ValidateReference_def ErrInvalidTarget_def ErrUnsupportedTarget_def
        errorf_def split: if_splits)
  then have stop: "wp (HandleDelete env cfg ma) Q E = E err" for Q E
    using assms(4) by (simp add: HandleDelete_def GetTarget_def wp_simps fun_eq_iff)
  have "wp (Reconcile env cfg req) (\<lambda>_ _. False)
      (\<lambda>e w'. ma_at w' = ma_at w \<and> target_at w' = target_at w) w"
    by (rule wp_Reconcile [OF assms(1,2), where cfg = cfg]) (use assms(3) stop in auto)
  from wp_result [OF this assms(5)] show ?thesis by (auto split: sum.splits)
qed

end

end
