(* ===== verification/MA_System.thy ===== *)
theory MA_System
  imports MA_Watches MA_Properties
begin

text \<open>
  The MachineAutoscaler controller as a system: runs of the reconcile loop for any
  MachineAutoscalers in any order, with whatever else happens to the cluster in between.
\<close>

section \<open>States of the system\<close>

text \<open>The MachineAutoscaler at a key is settled: a run for it has nothing left to do.\<close>

definition settled ::
    "ma_config \<Rightarrow> (NamespacedName \<Rightarrow> MachineAutoscaler option) \<Rightarrow>
     (GroupVersionKind \<times> NamespacedName \<Rightarrow> unstructured option) \<Rightarrow> NamespacedName \<Rightarrow> bool" where
  "settled cfg M T req \<longleftrightarrow>
     (case M req of
        None \<Rightarrow> False
      | Some ma \<Rightarrow>
          ma_GetDeletionTimestamp ma = None \<and> ma_LastTargetRef ma = Some (ma_ScaleTargetRef ma) \<and>
          MachineTargetFinalizer \<in> set (ma_GetFinalizers ma) \<and>
          (case T (ma_target_key cfg ma) of
             None \<Rightarrow> False
           | Some t \<Rightarrow> GetLimits t = Inr (sint (ma_MinReplicas ma), sint (ma_MaxReplicas ma)) \<and>
               owner_of t = Some (NamespacedName_String req)))"

lemma settledE:
  assumes "settled cfg M T req"
  obtains ma t where "M req = Some ma" "ma_GetDeletionTimestamp ma = None"
    "ma_LastTargetRef ma = Some (ma_ScaleTargetRef ma)" "MachineTargetFinalizer \<in> set (ma_GetFinalizers ma)"
    "T (ma_target_key cfg ma) = Some t" "GetLimits t = Inr (sint (ma_MinReplicas ma), sint (ma_MaxReplicas ma))"
    "owner_of t = Some (NamespacedName_String req)"
  using assms by (auto simp: settled_def split: option.splits)

text \<open>The targets a MachineAutoscaler names: the one of its spec and the one its status notes.\<close>

definition refers :: "ma_config \<Rightarrow> MachineAutoscaler \<Rightarrow> GroupVersionKind \<times> NamespacedName \<Rightarrow> bool" where
  "refers cfg ma k \<longleftrightarrow> ma_target_key cfg ma = k \<or> ma_last_target_key cfg ma = Some k"

text \<open>
  The others are harmless for a target: those that name it are neither being deleted nor moved
  away from it.  (Their keys are well formed: a namespace contains no slash.)
\<close>

definition harmless ::
    "ma_config \<Rightarrow> (NamespacedName \<Rightarrow> MachineAutoscaler option) \<Rightarrow> GroupVersionKind \<times> NamespacedName \<Rightarrow>
     NamespacedName \<Rightarrow> bool" where
  "harmless cfg M k req \<longleftrightarrow>
     (\<forall>r ma. r \<noteq> req \<longrightarrow> M r = Some ma \<longrightarrow> refers cfg ma k \<longrightarrow>
        ma_GetDeletionTimestamp ma = None \<and> \<not> TargetChanged ma \<and> CHR ''/'' \<notin> set (nn_namespace r))"

text \<open>Every MachineAutoscaler is live, and no other one names its target.\<close>

definition apart ::
    "ma_config \<Rightarrow> (NamespacedName \<Rightarrow> MachineAutoscaler option) \<Rightarrow> bool" where
  "apart cfg M \<longleftrightarrow>
     (\<forall>r ma. M r = Some ma \<longrightarrow> ma_GetDeletionTimestamp ma = None \<and>
        (\<forall>r' ma'. r' \<noteq> r \<longrightarrow> M r' = Some ma' \<longrightarrow> \<not> refers cfg ma' (ma_target_key cfg ma)))"

lemma apartD:
  assumes "apart cfg M" "M r = Some ma"
  shows "ma_GetDeletionTimestamp ma = None"
    and "r' \<noteq> r \<Longrightarrow> M r' = Some ma' \<Longrightarrow> \<not> refers cfg ma' (ma_target_key cfg ma)"
  using assms unfolding apart_def by blast+

text \<open>Updating one of them keeps them apart when it names no further target.\<close>

lemma apart_upd:
  assumes "apart cfg M" "M req = Some ma" "M' req = Some ma'" "\<And>q. q \<noteq> req \<Longrightarrow> M' q = M q"
    and "ma_GetDeletionTimestamp ma' = None" "ma_target_key cfg ma' = ma_target_key cfg ma"
    and "\<And>k. refers cfg ma' k \<Longrightarrow> refers cfg ma k"
  shows "apart cfg M'"
  unfolding apart_def
proof (intro allI impI conjI)
  fix r x assume r: "M' r = Some x"
  obtain y where y: "M r = Some y" "ma_GetDeletionTimestamp x = None" "ma_target_key cfg x = ma_target_key cfg y"
    using assms r apartD(1) [OF assms(1)] by (cases "r = req") auto
  then show "ma_GetDeletionTimestamp x = None" by simp
  fix r' x' assume r': "r' \<noteq> r" "M' r' = Some x'"
  obtain y' where y': "M r' = Some y'" "\<And>k. refers cfg x' k \<Longrightarrow> refers cfg y' k"
  proof (cases "r' = req")
    case True
    then have "x' = ma'" using r' assms(3) by simp
    then show ?thesis using True assms(2,7) by (intro that [of ma]) simp_all
  next
    case False
    then show ?thesis using r' assms(4) by (intro that [of x']) simp_all
  qed
  show "\<not> refers cfg x' (ma_target_key cfg x)"
    unfolding y(3) using y'(2) apartD(2) [OF assms(1) y(1) r'(1) y'(1)] by blast
qed

section \<open>One run in the system\<close>

context ma_cluster
begin

lemma wp_Reconcile_absent:
  assumes "good w" "ma_at w req = None"
    and "\<And>w'. \<lbrakk>good w'; ma_at w' = ma_at w; target_at w' = target_at w\<rbrakk> \<Longrightarrow> Q () w' \<and> (\<forall>e. E e w')"
  shows "wp (Reconcile env cfg req) Q E w"
  unfolding Reconcile_def wp_bind wp_ignore_not_found
proof (rule mas.wp_get [OF assms(1)], goal_cases)
  case (1 obj w1) then show ?case using assms(2) by simp
next
  case (2 e w1)
  then have "target_at w1 = target_at w" using client_preservesD(1) [OF ma_frame] by auto
  with 2 assms(3) [of w1] show ?case by (auto simp: wp_simps)
qed

text \<open>Whatever a run returns, it writes its MachineAutoscaler and the targets that one names at most.\<close>

lemma wp_Reconcile_frame:
  fixes w cfg req
  assumes "good w"
  defines "P \<equiv> \<lambda>w'. good w' \<and> (\<forall>q. q \<noteq> req \<longrightarrow> ma_at w' q = ma_at w q) \<and>
    (\<forall>k. (\<forall>ma. ma_at w req = Some ma \<longrightarrow> \<not> refers cfg ma k) \<longrightarrow> target_at w' k = target_at w k)"
  shows "wp (Reconcile env cfg req) (\<lambda>_. P) (\<lambda>_. P) w"
proof (cases "ma_at w req")
  case None
  then show ?thesis by (intro wp_Reconcile_absent [OF assms(1)]) (simp_all add: P_def)
next
  case (Some ma)
  show ?thesis
  proof (cases "ma_GetDeletionTimestamp ma = None")
    case True
    show ?thesis
      by (rule wp_Reconcile_live [OF assms(1) Some True, where cfg = cfg])
        (use Some in \<open>auto simp: P_def refers_def\<close>)
  next
    case False
    show ?thesis
    proof (rule wp_Reconcile [OF assms(1) Some], goal_cases)
      case (1 w1)
      have "wp (HandleDelete env cfg ma) (\<lambda>_. P) (\<lambda>_. P) w1"
        by (rule wp_HandleDelete [OF 1(1), where cfg = cfg]) (use 1 Some in \<open>auto simp: P_def refers_def\<close>)
      with False show ?case by simp
    next
      case (2 e w1)
      then show ?case by (simp add: P_def)
    qed
  qed
qed

lemma Reconcile_frame:
  assumes "good w" "Reconcile env cfg req w = (r, w')"
  shows "good w'" "q \<noteq> req \<Longrightarrow> ma_at w' q = ma_at w q"
    and "(\<And>ma. ma_at w req = Some ma \<Longrightarrow> \<not> refers cfg ma k) \<Longrightarrow> target_at w' k = target_at w k"
  using wp_result [OF wp_Reconcile_frame [OF assms(1)] assms(2)]
  by (auto simp del: split_paired_All split: sum.splits)

text \<open>A run for a settled MachineAutoscaler writes nothing.\<close>

lemma Reconcile_settled:
  assumes "good w" "settled cfg (ma_at w) (target_at w) req" "Reconcile env cfg req w = (r, w')"
  shows "ma_at w' = ma_at w \<and> target_at w' = target_at w"
proof -
  from assms(2) obtain ma t where s: "ma_at w req = Some ma" "ma_GetDeletionTimestamp ma = None"
    "ma_LastTargetRef ma = Some (ma_ScaleTargetRef ma)" "MachineTargetFinalizer \<in> set (ma_GetFinalizers ma)"
    "target_at w (ma_target_key cfg ma) = Some t" "GetLimits t = Inr (sint (ma_MinReplicas ma), sint (ma_MaxReplicas ma))"
    "owner_of t = Some (NamespacedName_String req)" by (rule settledE)
  have "wp (Reconcile env cfg req) (\<lambda>_ w'. ma_at w' = ma_at w \<and> target_at w' = target_at w)
      (\<lambda>_ w'. ma_at w' = ma_at w \<and> target_at w' = target_at w) w"
    by (rule wp_Reconcile_stable [OF assms(1) s]) auto
  from wp_result [OF this assms(3)] show ?thesis by (auto split: sum.splits)
qed

text \<open>A live run that does not change its target keeps off a target that someone else owns.\<close>

lemma Reconcile_foreign:
  assumes "good w" "ma_at w req = Some ma" "ma_GetDeletionTimestamp ma = None" "\<not> TargetChanged ma"
    and "target_at w k = Some t" "owner_of t = Some owner" "owner \<noteq> NamespacedName_String req"
    and "Reconcile env cfg req w = (r, w')"
  shows "target_at w' k = target_at w k"
proof -
  let ?P = "\<lambda>w'. target_at w' k = target_at w k"
  have "wp (Reconcile env cfg req) (\<lambda>_. ?P) (\<lambda>_. ?P) w"
  proof (rule wp_Reconcile_live [OF assms(1-3), where cfg = cfg], goal_cases)
    case (1 w' ma' t')
    then show ?case using assms(4-7)
      by (cases "k = ma_target_key cfg ma") (auto simp del: split_paired_All)
  next
    case (2 e w')
    then show ?case using assms(4-7)
      by (cases "k = ma_target_key cfg ma") (auto simp del: split_paired_All)
  qed
  from wp_result [OF this assms(8)] show ?thesis by (auto split: sum.splits)
qed

text \<open>A live run without error settles its MachineAutoscaler.\<close>

lemma Reconcile_live_settles:
  assumes "good w" "ma_at w req = Some ma" "ma_GetDeletionTimestamp ma = None"
    and core: "\<forall>gvk \<in> set (mc_SupportedTargetGVKs cfg). gvk_group gvk \<noteq> ''''"
    and run: "Reconcile env cfg req w = (Inr (), w')"
  shows "settled cfg (ma_at w') (target_at w') req \<and>
    (\<exists>ma'. ma_at w' req = Some ma' \<and> ma_target_key cfg ma' = ma_target_key cfg ma \<and>
      ma_GetDeletionTimestamp ma' = None \<and> ma_LastTargetRef ma' = Some (ma_ScaleTargetRef ma'))"
proof -
  let ?Q = "\<lambda>w'. settled cfg (ma_at w') (target_at w') req \<and>
    (\<exists>ma'. ma_at w' req = Some ma' \<and> ma_target_key cfg ma' = ma_target_key cfg ma \<and>
      ma_GetDeletionTimestamp ma' = None \<and> ma_LastTargetRef ma' = Some (ma_ScaleTargetRef ma'))"
  have "wp (Reconcile env cfg req) (\<lambda>_. ?Q) (\<lambda>_ _. True) w"
  proof (rule wp_Reconcile_live [OF assms(1-3), where cfg = cfg], goal_cases)
    case (1 w' ma' t')
    then have "noted_ref (ma_ScaleTargetRef ma) = ma_ScaleTargetRef ma"
      using noted_ref_supported core by blast
    with 1 show ?case by (auto simp: settled_def ma_target_key_def)
  qed simp
  from wpD(1) [OF this run] show ?thesis .
qed

text \<open>Whatever a run returns, it unsettles no MachineAutoscaler while they are apart.\<close>

lemma Reconcile_unsettles_none:
  assumes w: "good w" "apart cfg (ma_at w)" and run: "Reconcile env cfg req w = (res, w')"
    and q: "settled cfg (ma_at w) (target_at w) q"
  shows "settled cfg (ma_at w') (target_at w') q"
proof (cases "q = req")
  case True
  with q Reconcile_settled [OF w(1) _ run] show ?thesis by simp
next
  case False
  note frame = Reconcile_frame [OF w(1) run]
  from q obtain ma where ma: "ma_at w q = Some ma" by (rule settledE)
  have "target_at w' (ma_target_key cfg ma) = target_at w (ma_target_key cfg ma)"
    using False by (intro frame(3) apartD(2) [OF w(2) ma, of req]) auto
  with q ma frame(2) [OF False] show ?thesis by (simp add: settled_def)
qed

text \<open>A run without error settles its MachineAutoscaler and unsettles none, and keeps them apart.\<close>

lemma Reconcile_settles:
  assumes w: "good w" "apart cfg (ma_at w)"
    and core: "\<forall>gvk \<in> set (mc_SupportedTargetGVKs cfg). gvk_group gvk \<noteq> ''''"
    and run: "Reconcile env cfg req w = (Inr (), w')"
  shows "apart cfg (ma_at w')" "dom (ma_at w') = dom (ma_at w)"
    and "ma_at w req \<noteq> None \<Longrightarrow> settled cfg (ma_at w') (target_at w') req"
    and "settled cfg (ma_at w) (target_at w) q \<Longrightarrow> settled cfg (ma_at w') (target_at w') q"
proof -
  note frame = Reconcile_frame [OF w(1) run]
  have *: "apart cfg (ma_at w') \<and> dom (ma_at w') = dom (ma_at w) \<and>
    (ma_at w req \<noteq> None \<longrightarrow> settled cfg (ma_at w') (target_at w') req)"
  proof (cases "ma_at w req")
    case None
    have "wp (Reconcile env cfg req) (\<lambda>_ w'. ma_at w' = ma_at w) (\<lambda>_ w'. ma_at w' = ma_at w) w"
      by (rule wp_Reconcile_absent [OF w(1) None]) auto
    from wpD(1) [OF this run] show ?thesis using w(2) None by simp
  next
    case (Some ma)
    with w(2) have live: "ma_GetDeletionTimestamp ma = None" by (auto simp: apart_def)
    from Reconcile_live_settles [OF w(1) Some live core run] obtain ma' where
      ma': "settled cfg (ma_at w') (target_at w') req" "ma_at w' req = Some ma'"
      "ma_target_key cfg ma' = ma_target_key cfg ma" "ma_GetDeletionTimestamp ma' = None"
      "ma_LastTargetRef ma' = Some (ma_ScaleTargetRef ma')" by blast
    have refers': "refers cfg ma' k \<Longrightarrow> refers cfg ma k" for k
      using ma' by (auto simp: refers_def ma_last_target_key_def ma_target_key_def)
    have "apart cfg (ma_at w')"
      by (rule apart_upd [where M = "ma_at w" and M' = "ma_at w'" and req = req, OF w(2) Some ma'(2) _ ma'(4,3) refers'])
        (use frame(2) in auto)
    moreover have "dom (ma_at w') = dom (ma_at w)"
      using frame(2) ma'(2) Some by (metis (mono_tags) domIff option.distinct(1) subsetI subset_antisym)
    ultimately show ?thesis using ma' by blast
  qed
  then show "apart cfg (ma_at w')" "dom (ma_at w') = dom (ma_at w)"
    "ma_at w req \<noteq> None \<Longrightarrow> settled cfg (ma_at w') (target_at w') req" by blast+
  show "settled cfg (ma_at w) (target_at w) q \<Longrightarrow> settled cfg (ma_at w') (target_at w') q"
    by (rule Reconcile_unsettles_none [OF w run])
qed

end

section \<open>Runs of the system\<close>

text \<open>
  The states reached by runs of the reconcile loop, with any result, and by what else happens to
  the cluster (\<open>others\<close>), as long as \<open>guard\<close> holds of the states in between.
\<close>

inductive ma_run :: "'w ma_env \<Rightarrow> ma_config \<Rightarrow> ('w \<Rightarrow> bool) \<Rightarrow> ('w \<Rightarrow> 'w \<Rightarrow> bool) \<Rightarrow> 'w \<Rightarrow> 'w \<Rightarrow> bool"
  for env :: "'w ma_env" and cfg :: ma_config and guard :: "'w \<Rightarrow> bool" and others :: "'w \<Rightarrow> 'w \<Rightarrow> bool" and w0 :: 'w where
  run_begin: "ma_run env cfg guard others w0 w0"
| run_reconcile: "ma_run env cfg guard others w0 w \<Longrightarrow> guard w \<Longrightarrow> Reconcile env cfg req w = (r, w') \<Longrightarrow>
    ma_run env cfg guard others w0 w'"
| run_others: "ma_run env cfg guard others w0 w \<Longrightarrow> guard w \<Longrightarrow> others w w' \<Longrightarrow> ma_run env cfg guard others w0 w'"

context ma_cluster
begin

lemma settled_undisturbed:
  assumes w: "good w" and s: "settled cfg (ma_at w) (target_at w) req" "ma_at w req = Some ma"
    and h: "harmless cfg (ma_at w) (ma_target_key cfg ma) req" "CHR ''/'' \<notin> set (nn_namespace req)"
    and run: "Reconcile env cfg r w = (res, w')"
  shows "ma_at w' req = ma_at w req \<and> target_at w' (ma_target_key cfg ma) = target_at w (ma_target_key cfg ma)"
proof (cases "r = req")
  case True
  with Reconcile_settled [OF w s(1)] run show ?thesis by simp
next
  case False
  note frame = Reconcile_frame [OF w run]
  from s obtain t where t: "target_at w (ma_target_key cfg ma) = Some t" "owner_of t = Some (NamespacedName_String req)"
    by (auto elim: settledE)
  have "target_at w' (ma_target_key cfg ma) = target_at w (ma_target_key cfg ma)"
  proof (cases "\<exists>mb. ma_at w r = Some mb \<and> refers cfg mb (ma_target_key cfg ma)")
    case True
    then obtain mb where mb: "ma_at w r = Some mb" "refers cfg mb (ma_target_key cfg ma)" by blast
    with h False have "ma_GetDeletionTimestamp mb = None" "\<not> TargetChanged mb" "CHR ''/'' \<notin> set (nn_namespace r)"
      unfolding harmless_def by blast+
    moreover have "NamespacedName_String req \<noteq> NamespacedName_String r"
      using NamespacedName_String_inj [OF h(2) calculation(3)] False by auto
    ultimately show ?thesis using Reconcile_foreign [OF w mb(1) _ _ t _ run] by blast
  next
    case False
    then show ?thesis by (intro frame(3)) blast
  qed
  with frame(2) [of req] False show ?thesis by simp
qed

end

text \<open>
  C5: no interference.  Once a MachineAutoscaler is settled, it and its target stay exactly as
  they are through any interleaving of reconciles, whatever these return and even if other
  MachineAutoscalers name the same target, with other changes to the cluster that leave the two
  alone, as long as no other MachineAutoscaler that names the target is deleted or moved away
  from it.
\<close>

theorem no_interference:
  assumes cl: "ma_cluster env ma_at target_at good" "good w0"
    and start: "settled cfg (ma_at w0) (target_at w0) req" "ma_at w0 req = Some ma" "CHR ''/'' \<notin> set (nn_namespace req)"
    and rely: "\<And>w w'. good w \<Longrightarrow> others w w' \<Longrightarrow> good w' \<and> ma_at w' req = ma_at w req \<and>
      target_at w' (ma_target_key cfg ma) = target_at w (ma_target_key cfg ma)"
    and run: "ma_run env cfg (\<lambda>w. harmless cfg (ma_at w) (ma_target_key cfg ma) req) others w0 w"
  shows "ma_at w req = ma_at w0 req \<and> target_at w (ma_target_key cfg ma) = target_at w0 (ma_target_key cfg ma) \<and>
    settled cfg (ma_at w) (target_at w) req"
proof -
  have "good w \<and> ma_at w req = ma_at w0 req \<and> target_at w (ma_target_key cfg ma) = target_at w0 (ma_target_key cfg ma)"
    using run
  proof (induction rule: ma_run.induct)
    case run_begin
    show ?case using cl(2) by simp
  next
    case (run_reconcile w q r w')
    then have "settled cfg (ma_at w) (target_at w) req" using start by (simp add: settled_def)
    from ma_cluster.settled_undisturbed [OF cl(1) _ this _ run_reconcile.hyps(2) start(3) run_reconcile.hyps(3)]
      ma_cluster.Reconcile_frame(1) [OF cl(1) _ run_reconcile.hyps(3)] run_reconcile.IH start(2)
    show ?case by simp
  next
    case (run_others w w')
    with rely [of w w'] show ?case by simp
  qed
  with start show ?thesis by (simp add: settled_def)
qed

text \<open>The witness: a second MachineAutoscaler names the target of the first, and loses.\<close>

definition demo_mb :: MachineAutoscaler where
  "demo_mb = \<lparr>ma_meta = demo_meta ''mb'', ma_MinReplicas = 2, ma_MaxReplicas = 6,
     ma_ScaleTargetRef = demo_ref ''ms'', ma_LastTargetRef = None\<rparr>"

definition shared_world :: fake_world where
  "shared_world = (demo_world demo_ma [])\<lparr>fw_mas := [demo_name ''ma'' \<mapsto> demo_ma, demo_name ''mb'' \<mapsto> demo_mb]\<rparr>"

definition shared_first :: fake_world where
  "shared_first = snd (Reconcile fake_env demo_config (demo_name ''ma'') shared_world)"

definition shared_second :: fake_world where
  "shared_second = snd (Reconcile fake_env demo_config (demo_name ''mb'') shared_first)"

lemma demo_names [simp]: "demo_name ''mb'' \<noteq> demo_name ''ma''" "demo_name ''ma'' \<noteq> demo_name ''mb''"
  by (simp_all add: demo_name_def)

lemma demo_mb_ok [simp]:
  "ma_key demo_mb = demo_name ''mb''" "\<not> ma_gone demo_mb" "ma_GetDeletionTimestamp demo_mb = None"
  by (simp_all add: demo_mb_def ma_key_def meta_key_def demo_meta_def demo_name_def ma_gone_def
      ma_GetDeletionTimestamp_def empty_meta_def)

lemma run_Inr:
  fixes p :: "(go_error + unit) \<times> 'w"
  shows "isl (fst p) = False \<Longrightarrow> p = (Inr (), snd p)"
  by (cases p; cases "fst p") simp_all

lemma shared_good: "fake_good shared_world"
  using demo_good [OF demo_ma_ok(1,2), of "[]"] demo_ma_ok demo_mb_ok
  by (auto simp: shared_world_def fake_good_def keyed_def ma_gone_def split: if_splits)

theorem no_interference_witness:
  "fw_targets shared_second demo_key = fw_targets shared_first demo_key \<and>
   fw_mas shared_second (demo_name ''ma'') = fw_mas shared_first (demo_name ''ma'')"
proof -
  have "isl (fst (Reconcile fake_env demo_config (demo_name ''ma'') shared_world)) = False" by code_simp
  then have first: "Reconcile fake_env demo_config (demo_name ''ma'') shared_world = (Inr (), shared_first)"
    unfolding shared_first_def by (rule run_Inr)
  note frame = fake.Reconcile_frame [OF shared_good first]
  have "fw_mas shared_world (demo_name ''ma'') = Some demo_ma" by (simp add: shared_world_def)
  from fake.Reconcile_live_settles [OF shared_good this demo_ma_ok(3) _ first] obtain ma where
    set: "settled demo_config (fw_mas shared_first) (fw_targets shared_first) (demo_name ''ma'')"
    and ma: "fw_mas shared_first (demo_name ''ma'') = Some ma" "ma_target_key demo_config ma = demo_key"
    by (auto simp: demo_target_key) (auto simp: demo_config_def DefaultSupportedTargetGVKs_def)
  note key = ma(2)
  have other: "r = demo_name ''mb'' \<and> x = demo_mb" if "r \<noteq> demo_name ''ma''" "fw_mas shared_first r = Some x" for r x
    using that frame(2) [of r] by (auto simp: shared_world_def split: if_splits)
  have "harmless demo_config (fw_mas shared_first) demo_key (demo_name ''ma'')"
    using other demo_mb_ok unfolding harmless_def
    by (fastforce simp: TargetChanged_def demo_mb_def demo_name_def)
  then have "harmless demo_config (fw_mas shared_first) (ma_target_key demo_config ma) (demo_name ''ma'')"
    unfolding key .
  then have "ma_run fake_env demo_config (\<lambda>w. harmless demo_config (fw_mas w) (ma_target_key demo_config ma) (demo_name ''ma''))
      (\<lambda>_ _. False) shared_first shared_second"
    unfolding shared_second_def by (rule ma_run.run_reconcile [OF ma_run.run_begin _ surjective_pairing])
  from no_interference [OF fake.ma_cluster_axioms frame(1) set ma(1) _ _ this] key show ?thesis
    by (simp add: demo_name_def)
qed

section \<open>Deletion with a reference that is not valid\<close>

text \<open>
  C40: a MachineAutoscaler that is being deleted and whose target reference is not valid for the
  configuration stays.  Through any interleaving of reconciles, with any other changes to the cluster
  that leave it alone, it is stored as it was, its finalizers included, and every run for it returns
  an error and changes neither MachineAutoscalers nor targets.
\<close>

theorem delete_unsupported_stuck:
  assumes cl: "ma_cluster env ma_at target_at good" "good w0"
    and ma: "ma_at w0 req = Some ma" "ma_GetDeletionTimestamp ma = Some time"
    and invalid: "ValidateReference cfg (Some (objectReference (ma_ScaleTargetRef ma))) = Inl err"
    and rely: "\<And>w w'. good w \<Longrightarrow> others w w' \<Longrightarrow> good w' \<and> ma_at w' req = ma_at w req"
    and run: "ma_run env cfg (\<lambda>_. True) others w0 w"
  shows "ma_at w req = Some ma \<and>
    (\<exists>e w'. Reconcile env cfg req w = (Inl e, w') \<and> ma_at w' = ma_at w \<and> target_at w' = target_at w)"
proof -
  note fails = ma_cluster.Reconcile_delete_invalid [OF cl(1) _ _ ma(2) invalid]
  have "good w \<and> ma_at w req = Some ma" using run
  proof (induction rule: ma_run.induct)
    case run_begin
    show ?case using cl(2) ma(1) by simp
  next
    case (run_reconcile w q r w')
    then show ?case
      using fails [of w req r w'] ma_cluster.Reconcile_frame [OF cl(1) _ run_reconcile.hyps(3)]
      by (cases "q = req") auto
  next
    case (run_others w w')
    with rely [of w w'] show ?case by simp
  qed
  then have w: "good w" "ma_at w req = Some ma" by simp_all
  obtain r w' where run: "Reconcile env cfg req w = (r, w')" by fastforce
  from fails [OF w run] w(2) run show ?thesis by blast
qed

definition demo_stuck :: MachineAutoscaler where
  "demo_stuck = demo_deleted\<lparr>ma_ScaleTargetRef := (demo_ref ''ms'')\<lparr>cv_Kind := ''Deployment''\<rparr>\<rparr>"

lemma demo_stuck_ok [simp]:
  "ma_key demo_stuck = demo_name ''ma''" "\<not> ma_gone demo_stuck"
  "ma_GetDeletionTimestamp demo_stuck = Some ''2024-01-01T00:00:00Z''"
  using demo_deleted_ok
  by (simp_all add: demo_stuck_def ma_key_def ma_gone_def ma_GetDeletionTimestamp_def ma_GetFinalizers_def)

theorem delete_unsupported_stuck_witness:
  "fw_mas (snd (demo_run demo_stuck [])) (demo_name ''ma'') = Some demo_stuck"
proof -
  have "isl (ValidateReference demo_config (Some (objectReference (ma_ScaleTargetRef demo_stuck))))"
    by code_simp
  then obtain err where err: "ValidateReference demo_config (Some (objectReference (ma_ScaleTargetRef demo_stuck))) = Inl err"
    by (auto simp: isl_def)
  have start: "fw_mas (demo_world demo_stuck []) (demo_name ''ma'') = Some demo_stuck" by simp
  have run: "ma_run fake_env demo_config (\<lambda>_. True) (\<lambda>_ _. False) (demo_world demo_stuck []) (snd (demo_run demo_stuck []))"
    by (rule ma_run.run_reconcile [OF ma_run.run_begin _ demo_run_eq]) (rule TrueI)
  from delete_unsupported_stuck [OF fake.ma_cluster_axioms demo_good [OF demo_stuck_ok(1,2)] start demo_stuck_ok(3) err _ run]
  show ?thesis by blast
qed

end
