(* ===== verification/MA_Loop.thy ===== *)
theory MA_Loop
  imports MA_System
begin

text \<open>
  The loop of the MachineAutoscaler controller: it runs the reconciler for the requests in its queue,
  puts the request of a run that failed back and queues what its watches ask for when a run has
  changed something.  Unless runs keep failing the loop comes to rest, with every MachineAutoscaler
  that was asked for settled.
\<close>

section \<open>The loop of the controller\<close>

text \<open>
  The requests of the events a run leads to.  The run can have changed its MachineAutoscaler and the
  targets that one named before the run.
\<close>

definition named_keys :: "ma_config \<Rightarrow> MachineAutoscaler option \<Rightarrow> (GroupVersionKind \<times> NamespacedName) list" where
  "named_keys cfg found =
     (case found of
        None \<Rightarrow> []
      | Some ma \<Rightarrow>
          remdups (ma_target_key cfg ma # (case ma_last_target_key cfg ma of None \<Rightarrow> [] | Some k \<Rightarrow> [k])))"

definition run_requests ::
    "ma_config \<Rightarrow> (NamespacedName \<Rightarrow> MachineAutoscaler option) \<Rightarrow>
     (GroupVersionKind \<times> NamespacedName \<Rightarrow> unstructured option) \<Rightarrow>
     (NamespacedName \<Rightarrow> MachineAutoscaler option) \<Rightarrow>
     (GroupVersionKind \<times> NamespacedName \<Rightarrow> unstructured option) \<Rightarrow> NamespacedName \<Rightarrow> NamespacedName list" where
  "run_requests cfg M T M' T' req =
     concat (map (\<lambda>ev. ma_requests cfg (map_watch_event MAObject ev)) (change_events (M req) (M' req))) @
     concat (map (\<lambda>k. concat (map (\<lambda>ev. ma_requests cfg (map_watch_event TargetObject ev)) (change_events (T k) (T' k))))
       (named_keys cfg (M req)))"

text \<open>A request that waits already is not added again.\<close>

fun add_requests :: "NamespacedName list \<Rightarrow> NamespacedName list \<Rightarrow> NamespacedName list" where
  "add_requests [] q = q"
| "add_requests (r # rs) q = add_requests rs (if r \<in> set q then q else q @ [r])"

text \<open>
  \<open>reconcileHandler\<close> of the controller of controller-runtime: what it does to the queue after a run.
  \<open>AddRateLimited\<close> and \<open>AddAfter\<close> put the request back, with a delay; \<open>Forget\<close> only resets the rate
  limiter.  A panic has been recovered into an error.  The reconciler returns the empty \<open>Result\<close> on
  every path, and no error that is marked as terminal.
\<close>

datatype queue_op = AddRateLimited | AddAfter int | Forget

record reconcile_Result =
  rres_Requeue :: bool
  rres_RequeueAfter :: int

definition empty_Result :: reconcile_Result where
  "empty_Result = \<lparr>rres_Requeue = False, rres_RequeueAfter = 0\<rparr>"

definition queue_ops :: "reconcile_Result \<Rightarrow> go_error option \<Rightarrow> queue_op list" where
  "queue_ops result err =
     (if err \<noteq> None then [AddRateLimited]
      else if rres_RequeueAfter result > 0 then [Forget, AddAfter (rres_RequeueAfter result)]
      else if rres_Requeue result then [AddRateLimited]
      else [Forget])"

definition reconcileHandler :: "'w ma_env \<Rightarrow> ma_config \<Rightarrow> NamespacedName \<Rightarrow> 'w \<Rightarrow> queue_op list \<times> 'w" where
  "reconcileHandler env cfg req w =
     (case Reconcile env cfg req w of
        (Inl err, w') \<Rightarrow> (queue_ops empty_Result (Some err), w')
      | (Inr _, w') \<Rightarrow> (queue_ops empty_Result None, w'))"

text \<open>
  \<open>processNextWorkItem\<close> for the request it gets from the queue, with what the watches add for the
  changes the run has made.  The result says whether the request goes back, as after a failed run.
\<close>

definition process_request ::
    "'w ma_env \<Rightarrow> ma_config \<Rightarrow> ('w \<Rightarrow> NamespacedName \<Rightarrow> MachineAutoscaler option) \<Rightarrow>
     ('w \<Rightarrow> GroupVersionKind \<times> NamespacedName \<Rightarrow> unstructured option) \<Rightarrow> NamespacedName \<Rightarrow>
     NamespacedName list \<Rightarrow> 'w \<Rightarrow> bool \<times> NamespacedName list \<times> 'w" where
  "process_request env cfg ma_at target_at req q w =
     (let (ops, w') = reconcileHandler env cfg req w;
          failed = list_ex (\<lambda>op. op \<noteq> Forget) ops;
          changed = run_requests cfg (ma_at w) (target_at w) (ma_at w') (target_at w') req
      in (failed, add_requests (changed @ (if failed then [req] else [])) (removeAll req q), w'))"

text \<open>
  The loop of a worker, \<open>for c.processNextWorkItem(ctx) {}\<close>: from a queue and a state, the queues and
  states after \<open>n\<close> runs of which \<open>f\<close> have failed.  Which request is next is left open, since it depends
  on the delays of the rate limiter and on priorities.  A failed write may have reached the server,
  or found another writer there; after a failed run the loop goes on as long as the
  MachineAutoscalers are still the same ones and apart.
\<close>

definition undisturbed ::
    "ma_config \<Rightarrow> (NamespacedName \<Rightarrow> MachineAutoscaler option) \<Rightarrow> (NamespacedName \<Rightarrow> MachineAutoscaler option) \<Rightarrow> bool" where
  "undisturbed cfg M M' \<longleftrightarrow> dom M' = dom M \<and> apart cfg M'"

inductive control_loop ::
    "'w ma_env \<Rightarrow> ma_config \<Rightarrow> ('w \<Rightarrow> NamespacedName \<Rightarrow> MachineAutoscaler option) \<Rightarrow>
     ('w \<Rightarrow> GroupVersionKind \<times> NamespacedName \<Rightarrow> unstructured option) \<Rightarrow> NamespacedName list \<Rightarrow> 'w \<Rightarrow>
     nat \<Rightarrow> nat \<Rightarrow> NamespacedName list \<Rightarrow> 'w \<Rightarrow> bool"
  for env :: "'w ma_env" and cfg :: ma_config
    and ma_at :: "'w \<Rightarrow> NamespacedName \<Rightarrow> MachineAutoscaler option"
    and target_at :: "'w \<Rightarrow> GroupVersionKind \<times> NamespacedName \<Rightarrow> unstructured option"
    and q0 :: "NamespacedName list" and w0 :: 'w where
  loop_begin: "control_loop env cfg ma_at target_at q0 w0 0 0 q0 w0"
| loop_succeeds: "control_loop env cfg ma_at target_at q0 w0 n f q w \<Longrightarrow> req \<in> set q \<Longrightarrow>
    process_request env cfg ma_at target_at req q w = (False, q', w') \<Longrightarrow>
    control_loop env cfg ma_at target_at q0 w0 (Suc n) f q' w'"
| loop_fails: "control_loop env cfg ma_at target_at q0 w0 n f q w \<Longrightarrow> req \<in> set q \<Longrightarrow>
    process_request env cfg ma_at target_at req q w = (True, q', w') \<Longrightarrow>
    undisturbed cfg (ma_at w) (ma_at w') \<Longrightarrow>
    control_loop env cfg ma_at target_at q0 w0 (Suc n) (Suc f) q' w'"

text \<open>The run behind a request processed.\<close>

lemma process_requestE:
  assumes "process_request env cfg ma_at target_at req q w = (failed, q', w')"
  obtains res where "Reconcile env cfg req w = (res, w')" "failed \<longleftrightarrow> isl res"
    "q' = add_requests (run_requests cfg (ma_at w) (target_at w) (ma_at w') (target_at w') req @
      (if failed then [req] else [])) (removeAll req q)"
  using assms
  by (cases "Reconcile env cfg req w"; cases "fst (Reconcile env cfg req w)")
    (auto simp: process_request_def reconcileHandler_def queue_ops_def empty_Result_def Let_def)

lemma set_add_requests [simp]: "set (add_requests rs q) = set rs \<union> set q"
  by (induction rs q rule: add_requests.induct) auto

lemma length_add_requests: "length (add_requests rs q) \<le> length q + card (set rs)"
proof -
  have "length (add_requests rs q) = length q + card (set rs - set q)"
  proof (induction rs q rule: add_requests.induct)
    case (2 r rs q)
    show ?case
    proof (cases "r \<in> set q")
      case True
      then show ?thesis using 2 by (simp add: insert_Diff_if)
    next
      case False
      have "card (set (r # rs) - set q) = Suc (card (set rs - set (q @ [r])))"
      proof -
        have "set (r # rs) - set q = insert r (set rs - set (q @ [r]))" using False by auto
        then show ?thesis by simp
      qed
      with 2 False show ?thesis by simp
    qed
  qed simp
  then show ?thesis using card_mono [of "set rs" "set rs - set q"] by simp
qed

lemma change_events_same [simp]: "change_events x x = []"
  by (cases x) simp_all

text \<open>A run leads to at most seven different requests, and to none where it changes nothing.\<close>

lemma run_requests_unchanged [simp]: "run_requests cfg M T M T req = []"
  by (simp add: run_requests_def)

lemma card_targetOwnerRequest: "card (set (targetOwnerRequest u)) \<le> 1"
  by (cases "GetOwner u") (simp_all add: targetOwnerRequest_def)

lemma change_events_objects:
  "ev \<in> set (change_events x y) \<Longrightarrow> u \<in> set (event_objects ev) \<Longrightarrow> x = Some u \<or> y = Some u"
  by (cases x; cases y) (auto split: if_splits)

definition owners_at :: "unstructured option \<Rightarrow> NamespacedName list" where
  "owners_at x = (case x of None \<Rightarrow> [] | Some u \<Rightarrow> targetOwnerRequest u)"

lemma card_owners_at: "card (set (owners_at x)) \<le> 1"
  using card_targetOwnerRequest by (cases x) (simp_all add: owners_at_def)

lemma target_change_requests:
  assumes "\<And>u. T k = Some u \<or> T' k = Some u \<Longrightarrow> unstructured_key u = k"
  shows "set (concat (map (\<lambda>ev. ma_requests cfg (map_watch_event TargetObject ev)) (change_events (T k) (T' k)))) \<subseteq>
    insert (snd k) (set (owners_at (T k)) \<union> set (owners_at (T' k)))"
proof -
  have "set (ma_requests cfg (map_watch_event TargetObject ev)) \<subseteq>
      insert (snd k) (set (owners_at (T k)) \<union> set (owners_at (T' k)))" if ev: "ev \<in> set (change_events (T k) (T' k))" for ev
  proof -
    have key: "unstructured_key u = k" if "u \<in> set (event_objects ev)" for u
      using change_events_objects [OF ev that] assms by blast
    have "set (targetOwnerRequest u) \<subseteq> set (owners_at (T k)) \<union> set (owners_at (T' k))" if "u \<in> set (event_objects ev)" for u
      using change_events_objects [OF ev that] by (auto simp: owners_at_def)
    with ma_requests_target [of ev k cfg, OF key] show ?thesis by blast
  qed
  then show ?thesis by auto
qed

lemma two_named_keys: "\<exists>k1 k2. set (named_keys cfg x) \<subseteq> {k1, k2}"
proof (cases x)
  case (Some ma)
  then show ?thesis
    by (intro exI [of _ "ma_target_key cfg ma"]
        exI [of _ "case ma_last_target_key cfg ma of None \<Rightarrow> ma_target_key cfg ma | Some k \<Rightarrow> k"])
      (cases "ma_last_target_key cfg ma"; simp add: named_keys_def)
qed (simp add: named_keys_def)

lemma card_run_requests:
  assumes "\<And>u k. T k = Some u \<or> T' k = Some u \<Longrightarrow> unstructured_key u = k"
    and "\<And>ma. M req = Some ma \<or> M' req = Some ma \<Longrightarrow> ma_key ma = req"
  shows "card (set (run_requests cfg M T M' T' req)) \<le> 7"
proof -
  let ?B = "\<lambda>k. insert (snd k) (set (owners_at (T k)) \<union> set (owners_at (T' k)))"
  have B: "card (?B k) \<le> 3" for k
    using card_owners_at [of "T k"] card_owners_at [of "T' k"]
      card_Un_le [of "set (owners_at (T k))" "set (owners_at (T' k))"]
      card_insert_le_m1 [of 3 "set (owners_at (T k)) \<union> set (owners_at (T' k))" "snd k"] by simp
  have ma: "set (concat (map (\<lambda>ev. ma_requests cfg (map_watch_event MAObject ev)) (change_events (M req) (M' req)))) \<subseteq> {req}"
  proof -
    have "set (ma_requests cfg (map_watch_event MAObject ev)) \<subseteq> {req}" if ev: "ev \<in> set (change_events (M req) (M' req))" for ev
      using change_events_objects [OF ev] assms(2) enqueue_for_object_subset [of ma_key ev]
      by (fastforce simp: ma_requests_ma)
    then show ?thesis by auto
  qed
  obtain k1 k2 where k: "set (named_keys cfg (M req)) \<subseteq> {k1, k2}" using two_named_keys by blast
  have "set (run_requests cfg M T M' T' req) \<subseteq> {req} \<union> (?B k1 \<union> ?B k2)"
  proof -
    have "set (concat (map (\<lambda>ev. ma_requests cfg (map_watch_event TargetObject ev)) (change_events (T k) (T' k)))) \<subseteq> ?B k" for k
      by (rule target_change_requests) (use assms(1) in blast)
    with ma k show ?thesis unfolding run_requests_def by fastforce
  qed
  moreover have "card ({req} \<union> (?B k1 \<union> ?B k2)) \<le> 7"
    using card_Un_le [of "{req}" "?B k1 \<union> ?B k2"] card_Un_le [of "?B k1" "?B k2"] B [of k1] B [of k2] by simp
  ultimately show ?thesis
    using card_mono [of "{req} \<union> (?B k1 \<union> ?B k2)" "set (run_requests cfg M T M' T' req)"] by simp
qed

section \<open>The loop ends\<close>

definition unsettled ::
    "ma_config \<Rightarrow> (NamespacedName \<Rightarrow> MachineAutoscaler option) \<Rightarrow>
     (GroupVersionKind \<times> NamespacedName \<Rightarrow> unstructured option) \<Rightarrow> NamespacedName set" where
  "unsettled cfg M T = {r \<in> dom M. \<not> settled cfg M T r}"

context ma_cluster
begin

text \<open>What a run without error leads to is paid for by the MachineAutoscalers it settles.\<close>

lemma run_progress:
  assumes w: "good w" "apart cfg (ma_at w)" "finite (dom (ma_at w))"
    and core: "\<forall>gvk \<in> set (mc_SupportedTargetGVKs cfg). gvk_group gvk \<noteq> ''''"
    and run: "Reconcile env cfg r w = (Inr (), w')"
  shows "card (set (run_requests cfg (ma_at w) (target_at w) (ma_at w') (target_at w') r)) +
      7 * card (unsettled cfg (ma_at w') (target_at w')) \<le>
    7 * card (unsettled cfg (ma_at w) (target_at w))"
proof (cases "r \<in> unsettled cfg (ma_at w) (target_at w)")
  case False
  have "ma_at w' = ma_at w \<and> target_at w' = target_at w"
  proof (cases "ma_at w r")
    case None
    have "wp (Reconcile env cfg r) (\<lambda>_ w'. ma_at w' = ma_at w \<and> target_at w' = target_at w) (\<lambda>_ _. True) w"
      by (rule wp_Reconcile_absent [OF w(1) None]) simp
    from wpD(1) [OF this run] show ?thesis .
  next
    case (Some ma)
    with False show ?thesis by (intro Reconcile_settled [OF w(1) _ run]) (auto simp: unsettled_def)
  qed
  then show ?thesis by simp
next
  case True
  note st = Reconcile_settles [OF w(1,2) core run]
  note good' = Reconcile_frame(1) [OF w(1) run]
  have fin: "finite (unsettled cfg (ma_at w) (target_at w))"
    by (rule finite_subset [OF _ w(3)]) (auto simp: unsettled_def)
  have "unsettled cfg (ma_at w') (target_at w') \<subset> unsettled cfg (ma_at w) (target_at w)"
    using st True by (auto simp: unsettled_def)
  from psubset_card_mono [OF fin this]
  have "card (unsettled cfg (ma_at w') (target_at w')) < card (unsettled cfg (ma_at w) (target_at w))" .
  moreover have "card (set (run_requests cfg (ma_at w) (target_at w) (ma_at w') (target_at w') r)) \<le> 7"
    by (rule card_run_requests)
      (use tgs.stored [OF w(1)] tgs.stored [OF good'] mas.stored [OF w(1)] mas.stored [OF good'] in blast)+
  ultimately show ?thesis by simp
qed

text \<open>A run that fails leads to seven requests at most, and to its own again; it unsettles none.\<close>

lemma failed_run:
  assumes w: "good w" "apart cfg (ma_at w)" "finite (dom (ma_at w))"
    and run: "Reconcile env cfg r w = (res, w')" and kept: "dom (ma_at w') = dom (ma_at w)"
  shows "card (set (run_requests cfg (ma_at w) (target_at w) (ma_at w') (target_at w') r)) \<le> 7"
    and "card (unsettled cfg (ma_at w') (target_at w')) \<le> card (unsettled cfg (ma_at w) (target_at w))"
proof -
  note good' = Reconcile_frame(1) [OF w(1) run]
  show "card (set (run_requests cfg (ma_at w) (target_at w) (ma_at w') (target_at w') r)) \<le> 7"
    by (rule card_run_requests)
      (use tgs.stored [OF w(1)] tgs.stored [OF good'] mas.stored [OF w(1)] mas.stored [OF good'] in blast)+
  show "card (unsettled cfg (ma_at w') (target_at w')) \<le> card (unsettled cfg (ma_at w) (target_at w))"
  proof (rule card_mono)
    show "finite (unsettled cfg (ma_at w) (target_at w))"
      by (rule finite_subset [OF _ w(3)]) (auto simp: unsettled_def)
    show "unsettled cfg (ma_at w') (target_at w') \<subseteq> unsettled cfg (ma_at w) (target_at w)"
      using Reconcile_unsettles_none [OF w(1,2) run] kept unfolding unsettled_def by blast
  qed
qed

text \<open>
  The invariant of the loop.  Its credit, the requests in the queue and seven for each
  MachineAutoscaler that is not settled, pays for the runs; a run that fails adds at most eight.
\<close>

lemma control_loop_credit:
  assumes w0: "good w0" "apart cfg (ma_at w0)" "finite (dom (ma_at w0))"
    and core: "\<forall>gvk \<in> set (mc_SupportedTargetGVKs cfg). gvk_group gvk \<noteq> ''''"
    and loop: "control_loop env cfg ma_at target_at q0 w0 n f q w"
  shows "good w \<and> apart cfg (ma_at w) \<and> dom (ma_at w) = dom (ma_at w0) \<and>
    n + length q + 7 * card (unsettled cfg (ma_at w) (target_at w)) \<le>
      length q0 + 7 * card (unsettled cfg (ma_at w0) (target_at w0)) + 8 * f \<and>
    (\<forall>r \<in> set q0 \<inter> dom (ma_at w0). settled cfg (ma_at w) (target_at w) r \<or> r \<in> set q)"
  using loop
proof (induction rule: control_loop.induct)
  case loop_begin
  show ?case using w0 by simp
next
  case (loop_succeeds n f q w req q' w')
  from loop_succeeds.hyps(3) have run: "Reconcile env cfg req w = (Inr (), w')"
    and q': "q' = add_requests (run_requests cfg (ma_at w) (target_at w) (ma_at w') (target_at w') req) (removeAll req q)"
    by (auto elim!: process_requestE) (metis old.unit.exhaust sum.collapse(2))
  have w: "good w" "apart cfg (ma_at w)" "finite (dom (ma_at w))" using loop_succeeds.IH w0(3) by simp_all
  note st = Reconcile_settles [OF w(1,2) core run] and good' = Reconcile_frame(1) [OF w(1) run]
  have "length (removeAll req q) < length q" using loop_succeeds.hyps(2) by (rule length_removeAll_less)
  with run_progress [OF w core run] loop_succeeds.IH
    length_add_requests [of "run_requests cfg (ma_at w) (target_at w) (ma_at w') (target_at w') req" "removeAll req q"]
  have "Suc n + length q' + 7 * card (unsettled cfg (ma_at w') (target_at w')) \<le>
      length q0 + 7 * card (unsettled cfg (ma_at w0) (target_at w0)) + 8 * f"
    unfolding q' by linarith
  moreover have "settled cfg (ma_at w') (target_at w') r \<or> r \<in> set q'" if "r \<in> set q0 \<inter> dom (ma_at w0)" for r
    using that loop_succeeds.IH st(3) st(4) [where q = r] by (cases "r = req") (auto simp: q')
  ultimately show ?case using good' st(1,2) loop_succeeds.IH by blast
next
  case (loop_fails n f q w req q' w')
  from loop_fails.hyps(3) obtain res where run: "Reconcile env cfg req w = (res, w')"
    and q': "q' = add_requests (run_requests cfg (ma_at w) (target_at w) (ma_at w') (target_at w') req @ [req]) (removeAll req q)"
    by (rule process_requestE) simp
  let ?rs = "run_requests cfg (ma_at w) (target_at w) (ma_at w') (target_at w') req"
  have w: "good w" "apart cfg (ma_at w)" "finite (dom (ma_at w))" using loop_fails.IH w0(3) by simp_all
  have kept: "dom (ma_at w') = dom (ma_at w)" "apart cfg (ma_at w')"
    using loop_fails.hyps(4) by (simp_all add: undisturbed_def)
  note fr = failed_run [OF w run kept(1)] and good' = Reconcile_frame(1) [OF w(1) run]
  have "card (set (?rs @ [req])) \<le> 8" using fr(1) card_insert_le_m1 [of 8 "set ?rs" req] by simp
  then have "length q' \<le> length (removeAll req q) + 8"
    using length_add_requests [of "?rs @ [req]" "removeAll req q"] unfolding q' by (rule order_trans [OF _ add_left_mono, rotated])
  moreover have "length (removeAll req q) < length q" using loop_fails.hyps(2) by (rule length_removeAll_less)
  moreover have "n + length q + 7 * card (unsettled cfg (ma_at w) (target_at w)) \<le>
      length q0 + 7 * card (unsettled cfg (ma_at w0) (target_at w0)) + 8 * f" using loop_fails.IH by blast
  ultimately have "Suc n + length q' + 7 * card (unsettled cfg (ma_at w') (target_at w')) \<le>
      length q0 + 7 * card (unsettled cfg (ma_at w0) (target_at w0)) + 8 * Suc f"
    using fr(2) by simp
  moreover have "settled cfg (ma_at w') (target_at w') r \<or> r \<in> set q'" if "r \<in> set q0 \<inter> dom (ma_at w0)" for r
    using that loop_fails.IH Reconcile_unsettles_none [OF w(1,2) run, of r] by (cases "r = req") (auto simp: q')
  ultimately show ?case using good' kept loop_fails.IH by blast
qed

end

text \<open>
  C9: the controller comes to rest.  Started with any queue of requests in a cluster whose
  MachineAutoscalers are live and do not share targets, and without a supported kind in the core
  group, the loop has made, after \<open>f\<close> failed runs, at most
  one run for each request, seven for each MachineAutoscaler and eight for each failure: its failed
  requests go back to the queue, and unless runs keep failing it ends.  A request in the queue can
  always be processed; when the queue is empty, every MachineAutoscaler that was asked for is
  settled, so that from then on a run for one of them writes nothing and leads to no request.
\<close>

theorem control_loop_rests:
  assumes cl: "ma_cluster env ma_at target_at good" "good w0"
    and apart: "apart cfg (ma_at w0)" "finite (dom (ma_at w0))"
    and core: "\<forall>gvk \<in> set (mc_SupportedTargetGVKs cfg). gvk_group gvk \<noteq> ''''"
    and loop: "control_loop env cfg ma_at target_at q0 w0 n f q w"
  shows "n \<le> length q0 + 7 * card (dom (ma_at w0)) + 8 * f \<and>
    (\<forall>req \<in> set q. \<forall>failed q' w'. process_request env cfg ma_at target_at req q w = (failed, q', w') \<longrightarrow>
      (if failed then req \<in> set q' else control_loop env cfg ma_at target_at q0 w0 (Suc n) f q' w')) \<and>
    (q = [] \<longrightarrow>
      (\<forall>r \<in> set q0. ma_at w0 r \<noteq> None \<longrightarrow>
        settled cfg (ma_at w) (target_at w) r \<and>
        (\<forall>res w'. Reconcile env cfg r w = (res, w') \<longrightarrow>
          ma_at w' = ma_at w \<and> target_at w' = target_at w \<and>
          run_requests cfg (ma_at w) (target_at w) (ma_at w') (target_at w') r = [])))"
proof -
  note credit = ma_cluster.control_loop_credit [OF cl(1) cl(2) apart core loop]
  have "card (unsettled cfg (ma_at w0) (target_at w0)) \<le> card (dom (ma_at w0))"
    by (rule card_mono [OF apart(2)]) (auto simp: unsettled_def)
  then have bound: "n \<le> length q0 + 7 * card (dom (ma_at w0)) + 8 * f" using credit by linarith
  have goes_on: "if failed then req \<in> set q' else control_loop env cfg ma_at target_at q0 w0 (Suc n) f q' w'"
    if "req \<in> set q" "process_request env cfg ma_at target_at req q w = (failed, q', w')" for req failed q' w'
    using that control_loop.loop_succeeds [OF loop that(1)] by (cases failed) (auto elim!: process_requestE)
  have rests: "settled cfg (ma_at w) (target_at w) r \<and>
      (\<forall>res w'. Reconcile env cfg r w = (res, w') \<longrightarrow> ma_at w' = ma_at w \<and> target_at w' = target_at w \<and>
        run_requests cfg (ma_at w) (target_at w) (ma_at w') (target_at w') r = [])"
    if "q = []" "r \<in> set q0" "ma_at w0 r \<noteq> None" for r
  proof -
    have settled: "settled cfg (ma_at w) (target_at w) r" using that credit by auto
    show ?thesis
    proof (intro conjI allI impI settled)
      fix res w' assume "Reconcile env cfg r w = (res, w')"
      from ma_cluster.Reconcile_settled [OF cl(1) _ settled this] credit
      show "ma_at w' = ma_at w" "target_at w' = target_at w"
        "run_requests cfg (ma_at w) (target_at w) (ma_at w') (target_at w') r = []" by simp_all
    qed
  qed
  show ?thesis using bound goes_on rests by blast
qed

text \<open>
  The witness: the first run writes both objects and leads to one more, which changes nothing.
\<close>

definition rest_world :: fake_world where
  "rest_world =
     \<lparr>fw_mas = [demo_name ''ma'' \<mapsto> demo_ma\<lparr>
        ma_meta := (ma_meta demo_ma)\<lparr>om_resourceVersion := 3, om_finalizers := [MachineTargetFinalizer]\<rparr>,
        ma_LastTargetRef := Some (demo_ref ''ms'')\<rparr>],
      fw_targets = [demo_key \<mapsto>
        [(''apiVersion'', JStr ''machine.openshift.io/v1beta1''), (''kind'', JStr ''MachineSet''),
         (''metadata'', JObj [(''name'', JStr ''ms''), (''namespace'', JStr ''ns''),
           (''annotations'', JObj [(MachineTargetOwnerAnnotation, JStr ''ns/ma''), (minSizeAnnotation, JStr ''1''),
             (maxSizeAnnotation, JStr ''3'')]), (''resourceVersion'', JStr ''1'')])]],
      fw_events =
        [\<lparr>ev_regarding = InvObject ''MachineAutoscaler'' (demo_name ''ma''),
          ev_related = InvObject ''MachineSet'' (demo_name ''ms''), ev_type = ''Normal'',
          ev_reason = ''SuccessfulUpdate'', ev_action = ''UpdateTarget'',
          ev_note = ''Updated MachineAutoscaler target: %s'', ev_args = [ArgS ''ns/ms'']\<rparr>]\<rparr>"

lemma demo_run_rest: "demo_run demo_ma [] = (Inr (), rest_world)"
proof -
  let ?w = "demo_world demo_ma []" and ?w' = "snd (demo_run demo_ma [])"
  have ok: "isl (fst (demo_run demo_ma [])) = False" by code_simp
  note good = demo_good [OF demo_ma_ok(1,2), of "[]"]
  note frame = fake.Reconcile_frame [OF good demo_run_Inr [OF ok]]
  have at: "fw_mas ?w' (demo_name ''ma'') = fw_mas rest_world (demo_name ''ma'')"
    "fw_targets ?w' demo_key = fw_targets rest_world demo_key" "fw_events ?w' = fw_events rest_world" by code_simp+
  have refers: "\<not> refers demo_config demo_ma k" if "k \<noteq> demo_key" for k
    using that demo_target_key by (simp add: refers_def ma_last_target_key_def) (simp add: demo_ma_def)
  have "fw_mas ?w' = fw_mas rest_world"
  proof
    fix q show "fw_mas ?w' q = fw_mas rest_world q"
      using at(1) frame(2) [of q] by (cases "q = demo_name ''ma''") (simp_all add: rest_world_def)
  qed
  moreover have "fw_targets ?w' = fw_targets rest_world"
  proof
    fix k show "fw_targets ?w' k = fw_targets rest_world k"
    proof (cases "k = demo_key")
      case False
      then have "fw_targets ?w' k = fw_targets ?w k" by (intro frame(3)) (auto dest: refers)
      with False show ?thesis by (simp add: rest_world_def)
    qed (simp add: at(2))
  qed
  ultimately have "?w' = rest_world" using at(3) by (intro fake_world.equality) simp_all
  with demo_run_Inr [OF ok] show ?thesis by (simp add: demo_run_def)
qed

lemma rest_again:
  obtains w' where "Reconcile fake_env demo_config (demo_name ''ma'') rest_world = (Inr (), w')"
    "fw_mas w' = fw_mas rest_world" "fw_targets w' = fw_targets rest_world"
proof -
  note good = demo_good [OF demo_ma_ok(1,2), of "[]"]
  have run: "Reconcile fake_env demo_config (demo_name ''ma'') (demo_world demo_ma []) = (Inr (), rest_world)"
    using demo_run_rest by (simp add: demo_run_def)
  have settled: "settled demo_config (fw_mas rest_world) (fw_targets rest_world) (demo_name ''ma'')"
    using fake.Reconcile_live_settles [OF good _ demo_ma_ok(3) _ run]
    by (simp add: demo_config_def DefaultSupportedTargetGVKs_def)
  have "isl (fst (Reconcile fake_env demo_config (demo_name ''ma'') rest_world)) = False" by code_simp
  then have again: "Reconcile fake_env demo_config (demo_name ''ma'') rest_world =
      (Inr (), snd (Reconcile fake_env demo_config (demo_name ''ma'') rest_world))" by (rule run_Inr)
  from fake.Reconcile_settled [OF fake.Reconcile_frame(1) [OF good run] settled again] show ?thesis
    by (intro that [OF again]) simp_all
qed

text \<open>The loop on one MachineAutoscaler: two runs, of which the second finds nothing to do.\<close>

lemma demo_loop:
  obtains w' where "control_loop fake_env demo_config fw_mas fw_targets [demo_name ''ma''] (demo_world demo_ma []) 2 0 [] w'"
proof -
  have reqs: "run_requests demo_config (fw_mas (demo_world demo_ma [])) (fw_targets (demo_world demo_ma []))
      (fw_mas rest_world) (fw_targets rest_world) (demo_name ''ma'') = [demo_name ''ma'', demo_name ''ma'']" by code_simp
  have first: "process_request fake_env demo_config fw_mas fw_targets (demo_name ''ma'') [demo_name ''ma''] (demo_world demo_ma []) =
      (False, [demo_name ''ma''], rest_world)"
    using demo_run_rest reqs by (simp add: process_request_def reconcileHandler_def queue_ops_def empty_Result_def demo_run_def)
  obtain w' where again: "Reconcile fake_env demo_config (demo_name ''ma'') rest_world = (Inr (), w')"
    "fw_mas w' = fw_mas rest_world" "fw_targets w' = fw_targets rest_world" by (rule rest_again)
  then have second: "process_request fake_env demo_config fw_mas fw_targets (demo_name ''ma'') [demo_name ''ma''] rest_world =
      (False, [], w')"
    by (simp add: process_request_def reconcileHandler_def queue_ops_def empty_Result_def)
  have mem: "demo_name ''ma'' \<in> set [demo_name ''ma'']" by simp
  note one = control_loop.loop_succeeds [OF control_loop.loop_begin mem first]
  from control_loop.loop_succeeds [OF one mem second] show ?thesis by (intro that) (simp add: eval_nat_numeral)
qed

theorem control_loop_rests_witness:
  "\<exists>w'. control_loop fake_env demo_config fw_mas fw_targets [demo_name ''ma''] (demo_world demo_ma []) 2 0 [] w' \<and>
    settled demo_config (fw_mas w') (fw_targets w') (demo_name ''ma'')"
proof -
  have apart: "apart demo_config (fw_mas (demo_world demo_ma []))"
    by (auto simp: apart_def split: if_splits)
  have core: "\<forall>gvk \<in> set (mc_SupportedTargetGVKs demo_config). gvk_group gvk \<noteq> ''''"
    by (simp add: demo_config_def DefaultSupportedTargetGVKs_def)
  have fin: "finite (dom (fw_mas (demo_world demo_ma [])))"
    and ma: "fw_mas (demo_world demo_ma []) (demo_name ''ma'') \<noteq> None" by simp_all
  obtain w' where loop: "control_loop fake_env demo_config fw_mas fw_targets [demo_name ''ma''] (demo_world demo_ma []) 2 0 [] w'"
    by (rule demo_loop)
  from control_loop_rests [OF fake.ma_cluster_axioms demo_good [OF demo_ma_ok(1,2)] apart fin core loop] ma
  have "settled demo_config (fw_mas w') (fw_targets w') (demo_name ''ma'')" by (simp del: split_paired_All)
  with loop show ?thesis by blast
qed

end
