(* ===== verification/MA_Target_Properties.thy ===== *)
theory MA_Target_Properties
  imports MA_Properties
begin

text \<open>
  The properties of the operations on a target, of the validator of MachineAutoscalers, and
  of the start of their controller.
\<close>

section \<open>The operations as a whole\<close>

text \<open>The operations of a target that write; an error leaves it as it was.\<close>

datatype target_op =
    OpSetLimits int int
  | OpRemoveLimits
  | OpSetOwner NamespacedName
  | OpRemoveOwner
  | OpFinalize
  | OpUpdateScaleFromZero

fun target_step :: "target_op \<Rightarrow> unstructured \<Rightarrow> unstructured" where
  "target_step (OpSetLimits mn mx) t = SetLimits mn mx t"
| "target_step OpRemoveLimits t = snd (RemoveLimits t)"
| "target_step (OpSetOwner owner) t = (case SetOwner owner t of Inl _ \<Rightarrow> t | Inr (_, t') \<Rightarrow> t')"
| "target_step OpRemoveOwner t = snd (RemoveOwner t)"
| "target_step OpFinalize t = snd (Finalize t)"
| "target_step OpUpdateScaleFromZero t = (case UpdateScaleFromZeroAnnotations t of Inl _ \<Rightarrow> t | Inr t' \<Rightarrow> t')"

text \<open>Two objects that differ in their annotations only, the second one well formed.\<close>

definition annotated :: "unstructured \<Rightarrow> unstructured \<Rightarrow> bool" where
  "annotated t t' \<longleftrightarrow>
     wf_unstructured t' \<and> unstructured_key t' = unstructured_key t \<and>
     (\<forall>f. f \<noteq> ''metadata'' \<longrightarrow> map_of t' f = map_of t f) \<and>
     (\<forall>f. f \<noteq> ''annotations'' \<longrightarrow> nested_field (JObj t') [''metadata'', f] = nested_field (JObj t) [''metadata'', f])"

lemma annotated_SetAnnotations: "wf_unstructured t \<Longrightarrow> annotated t (SetAnnotations a t)"
  by (simp add: annotated_def nested_SetAnnotations del: nested_field.simps)

lemma annotated_refl: "wf_unstructured t \<Longrightarrow> annotated t t"
  by (simp add: annotated_def)

lemma annotated_trans: "annotated t t' \<Longrightarrow> annotated t' t'' \<Longrightarrow> annotated t t''"
  by (simp add: annotated_def)

lemma annotated_Remove:
  assumes "wf_unstructured t"
  shows "annotated t (snd (RemoveAnnotations keys t))"
  using assms by (simp add: RemoveAnnotations_def annotated_SetAnnotations split: prod.split)

lemma annotated_step:
  assumes "wf_unstructured t"
  shows "annotated t (target_step op t)"
proof (cases op)
  case OpFinalize
  have 1: "annotated t (snd (RemoveLimits t))"
    unfolding RemoveLimits_def by (rule annotated_Remove [OF assms])
  then have "annotated (snd (RemoveLimits t)) (snd (RemoveOwner (snd (RemoveLimits t))))"
    unfolding RemoveOwner_def by (intro annotated_Remove) (simp add: annotated_def)
  with annotated_trans [OF 1] OpFinalize show ?thesis by (simp add: Finalize_def split_beta)
qed (use assms in \<open>auto simp: SetLimits_def SetOwner_def RemoveLimits_def RemoveOwner_def
    UpdateScaleFromZeroAnnotations_def Let_def annotated_refl
    intro: annotated_SetAnnotations annotated_Remove split: option.splits sum.splits\<close>)

text \<open>
  C30: the operations are typed.  Whatever sequence of them is applied to a target whose metadata is
  an object, and whichever of them fail, the result is such a target of the same kind, namespace
  and name, and nothing but its annotations has changed.
\<close>

theorem target_ops_typed:
  assumes "wf_unstructured t"
  shows "annotated t (fold target_step ops t)"
  using assms
proof (induction ops arbitrary: t)
  case (Cons op ops)
  have 1: "annotated t (target_step op t)" by (rule annotated_step [OF Cons.prems])
  then have "annotated (target_step op t) (fold target_step ops (target_step op t))"
    by (intro Cons.IH) (simp add: annotated_def)
  with annotated_trans [OF 1] show ?case by simp
qed (simp add: annotated_refl)

theorem target_ops_typed_witness:
  "annotated (demo_target []) (fold target_step [OpSetOwner (demo_name ''ma''), OpSetLimits 1 3, OpFinalize] (demo_target []))"
  by (rule target_ops_typed) code_simp

section \<open>Limits\<close>

text \<open>
  C37: the limits written are the limits read, for every pair of machine integers, and writing
  them changes no other annotation.
\<close>

theorem limits_roundtrip:
  assumes "wf_unstructured mt" "is_int64 mn" "is_int64 mx"
  shows "GetLimits (SetLimits mn mx mt) = Inr (mn, mx) \<and> \<not> NeedsUpdate mn mx (SetLimits mn mx mt) \<and>
    (\<forall>k. k \<notin> {minSizeAnnotation, maxSizeAnnotation} \<longrightarrow>
      map_get (GetAnnotations (SetLimits mn mx mt)) k = map_get (GetAnnotations mt) k)"
  using assms by (simp add: GetLimits_SetLimits NeedsUpdate_iff annotation_SetLimits)

theorem limits_roundtrip_witness:
  "GetLimits (SetLimits 0 (2 ^ 31 - 1) (demo_target [(CpuKey, ''4'')])) = Inr (0, 2 ^ 31 - 1)"
proof -
  have "wf_unstructured (demo_target [(CpuKey, ''4'')])" by code_simp
  then show ?thesis using limits_roundtrip [of "demo_target [(CpuKey, ''4'')]" 0 "2 ^ 31 - 1"]
    by (simp add: is_int64_def)
qed

section \<open>Owner\<close>

text \<open>
  A target that \<open>SetOwner\<close> accepted is owned by that MachineAutoscaler alone: its owner
  reads back, the watch enqueues exactly that MachineAutoscaler, a second \<open>SetOwner\<close> by the
  same one changes nothing, and one by any other is refused.
\<close>

lemma owner_exclusive:
  assumes "wf_unstructured mt" "SetOwner owner mt = Inr (b, mt')"
    and "CHR ''/'' \<notin> set (nn_namespace owner)" "CHR ''/'' \<notin> set (nn_name owner)"
    and "CHR ''/'' \<notin> set (nn_namespace other)" "other \<noteq> owner"
  shows "GetOwner mt' = Inr owner \<and> targetOwnerRequest mt' = [owner] \<and>
    SetOwner owner mt' = Inr (False, mt') \<and> SetOwner other mt' = Inl ErrTargetAlreadyOwned"
proof -
  have a: "map_get (GetAnnotations mt') MachineTargetOwnerAnnotation = Some (NamespacedName_String owner)"
    using SetOwner_get(1) [OF assms(1,2)] by simp
  then have g: "GetOwner mt' = Inr owner"
    using split_NamespacedName [OF assms(3,4)] by (simp add: GetOwner_eq)
  have "NamespacedName_String other \<noteq> NamespacedName_String owner"
    using NamespacedName_String_inj [OF assms(5,3)] assms(6) by blast
  with a g show ?thesis by (auto simp: targetOwnerRequest_def SetOwner_def Let_def)
qed

lemma owner_exclusive_witness:
  "\<exists>mt'. SetOwner (demo_name ''ma'') (demo_target []) = Inr (True, mt') \<and>
     targetOwnerRequest mt' = [demo_name ''ma''] \<and>
     SetOwner (demo_name ''mb'') mt' = Inl ErrTargetAlreadyOwned"
proof -
  have wf: "wf_unstructured (demo_target [])" by code_simp
  have "map_get (GetAnnotations (demo_target [])) MachineTargetOwnerAnnotation = None" by code_simp
  then obtain mt' where s: "SetOwner (demo_name ''ma'') (demo_target []) = Inr (True, mt')"
    by (cases rule: SetOwner_cases [of "demo_target []" "demo_name ''ma''"]) auto
  have "demo_name ''mb'' \<noteq> demo_name ''ma''" by (simp add: demo_name_def)
  with owner_exclusive [OF wf s, of "demo_name ''mb''"] s show ?thesis by (simp add: demo_name_def)
qed

section \<open>Finalization\<close>

text \<open>
  \<open>Finalize\<close> removes the limits and the owner and no other annotation, says truly
  whether it removed anything, and has nothing to do the second time.
\<close>

lemma finalize_exact:
  assumes "wf_unstructured mt" "Finalize mt = (modified, mt')"
  shows "(\<forall>k. map_get (GetAnnotations mt') k =
      (if k \<in> {minSizeAnnotation, maxSizeAnnotation, MachineTargetOwnerAnnotation} then None
       else map_get (GetAnnotations mt) k)) \<and>
    (modified \<longleftrightarrow> (\<exists>k \<in> {minSizeAnnotation, maxSizeAnnotation, MachineTargetOwnerAnnotation}.
      map_get (GetAnnotations mt) k \<noteq> None)) \<and>
    \<not> fst (Finalize mt')"
proof -
  obtain b2 mt2 where f2: "Finalize mt' = (b2, mt2)" by fastforce
  have "\<not> b2"
    using Finalize_get(2) [OF Finalize_get(4) [OF assms] f2] Finalize_get(1) [OF assms] by auto
  then show ?thesis using Finalize_get(1,2) [OF assms] f2 by (auto simp: finalize_keys_def)
qed

lemma finalize_exact_witness:
  "fst (Finalize (demo_target [(minSizeAnnotation, ''1'')])) \<and>
   \<not> fst (Finalize (snd (Finalize (demo_target [(minSizeAnnotation, ''1'')]))))"
proof -
  let ?t = "demo_target [(minSizeAnnotation, ''1'')]"
  have wf: "wf_unstructured ?t" by code_simp
  have "map_get (GetAnnotations ?t) minSizeAnnotation = Some ''1''" by code_simp
  then show ?thesis using finalize_exact [OF wf, of "fst (Finalize ?t)" "snd (Finalize ?t)"] by auto
qed

section \<open>Scale from zero\<close>

text \<open>
  C26: \<open>checkScaleFromZeroAnnotations\<close> fails exactly when a deprecated memory annotation
  without upstream copy is not an integer.  Else every annotation stays, the upstream keys that
  were missing are derived from the deprecated ones, and a second call changes nothing.  It never
  writes to a nil map.
\<close>

theorem scale_from_zero:
  "(sfz_bad_memory a \<longrightarrow> (\<exists>err. checkScaleFromZeroAnnotations a =
      Inl (GoWrap ''could not parse integer: %w'' err))) \<and>
   (\<not> sfz_bad_memory a \<longrightarrow> (\<exists>b c. checkScaleFromZeroAnnotations a = Inr b \<and>
      (\<forall>k. map_get b k = (case map_get a k of Some v \<Rightarrow> Some v | None \<Rightarrow> sfz_derived a k)) \<and>
      checkScaleFromZeroAnnotations b = Inr c \<and> map_get c = map_get b))"
proof (cases "sfz_bad_memory a")
  case True
  then show ?thesis using checkScale_bad by blast
next
  case False
  obtain b where b: "checkScaleFromZeroAnnotations a = Inr b" "map_get b = sfz_spec a"
    using checkScale_ok [OF False] by blast
  have good: "\<not> sfz_bad_memory b"
    using False b(2) by (auto simp: sfz_bad_memory_def sfz_spec_def sfz_derived_def upstream_keys_def
        split: option.splits sum.splits)
  then obtain c where c: "checkScaleFromZeroAnnotations b = Inr c" "map_get c = sfz_spec b"
    using checkScale_ok by blast
  have dep: "map_get b k = map_get a k" if "k \<notin> set upstream_keys" for k
    using b(2) sfz_spec_keeps(2) [OF that] by simp
  have "sfz_spec b k = sfz_spec a k" for k
  proof (cases "map_get b k")
    case None
    have "sfz_derived b k = sfz_derived a k"
      by (simp add: sfz_derived_def dep upstream_keys_def)
    moreover have "map_get a k = None" using None b(2) by (auto simp: sfz_spec_def split: option.splits)
    ultimately show ?thesis using None by (simp add: sfz_spec_def)
  next
    case (Some v)
    then show ?thesis using b(2) by (simp add: sfz_spec_Some)
  qed
  then have "map_get c = map_get b" using c(2) b(2) by (simp add: fun_eq_iff)
  moreover have "\<forall>k. map_get b k = (case map_get a k of Some v \<Rightarrow> Some v | None \<Rightarrow> sfz_derived a k)"
    using b(2) by (simp add: sfz_spec_def)
  ultimately show ?thesis using False b(1) c(1) by blast
qed

theorem scale_from_zero_witness:
  "\<exists>b. checkScaleFromZeroAnnotations (Some [(CpuKeyDeprecated, ''2'')]) = Inr b \<and>
     map_get b CpuKey = Some ''2''"
proof -
  have "\<not> sfz_bad_memory (Some [(CpuKeyDeprecated, ''2'')])"
    by (simp add: sfz_bad_memory_def CpuKeyDeprecated_def MemoryKeyDeprecated_def)
  with scale_from_zero [of "Some [(CpuKeyDeprecated, ''2'')]"] obtain b where
    "checkScaleFromZeroAnnotations (Some [(CpuKeyDeprecated, ''2'')]) = Inr b"
    "map_get b CpuKey = (case map_get (Some [(CpuKeyDeprecated, ''2'')]) CpuKey of Some v \<Rightarrow> Some v
       | None \<Rightarrow> sfz_derived (Some [(CpuKeyDeprecated, ''2'')]) CpuKey)" by blast
  then show ?thesis by (simp add: sfz_derived_def)
qed

text \<open>
  The memory annotation written for a deprecated one of \<open>n\<close> MiB is a quantity that
  denotes the bytes, for every amount below \<open>10 ^ 18\<close> bytes.
\<close>

lemma memory_bytes:
  assumes "0 < n" "n * MiB < 10 ^ 18"
  shows "\<exists>q. ParseQuantity (memory_in_bytes (Itoa n)) = Inr q \<and> AsInt64 q = Some (n * MiB)"
proof -
  have i: "is_int64 n" "is_int64 (n * MiB)" using assms by (simp_all add: is_int64_def MiB_def)
  then have "memory_in_bytes (Itoa n) = quantity_string (n * MiB)"
    using parse_int_Itoa [OF i(1)] by (simp add: memory_in_bytes_def ParseInt_def wrap64_id)
  then show ?thesis using quantity_string_roundtrip [of "n * MiB"] assms by (simp add: MiB_def)
qed

lemma memory_bytes_witness:
  "\<exists>q. ParseQuantity (memory_in_bytes (Itoa 8192)) = Inr q \<and> AsInt64 q = Some 8589934592"
  using memory_bytes [of 8192] by (simp add: MiB_def)



section \<open>Validation and startup\<close>

text \<open>
  C31: the validator and the admission webhook accept exactly the MachineAutoscalers with
  \<open>0 \<le> minReplicas \<le> maxReplicas\<close>, without warnings; a refusal names each violated rule.
\<close>

theorem validator_exact:
  "(IsValid (Validate (Some ma)) \<longleftrightarrow>
     0 \<le> sint (ma_MinReplicas ma) \<and> sint (ma_MinReplicas ma) \<le> sint (ma_MaxReplicas ma)) \<and>
   Handle (Inr ma) =
     (if IsValid (Validate (Some ma)) then Allowed ''MachineAutoscaler valid'' []
      else Denied
        ((if sint (ma_MinReplicas ma) < 0 \<or> sint (ma_MaxReplicas ma) < 0
          then [errorf ''min and max replicas must be greater than 0''] else []) @
         (if sint (ma_MaxReplicas ma) < sint (ma_MinReplicas ma)
          then [errorf ''max replicas must be greater than or equal to min''] else [])) [])"
  by (auto simp: Validate_IsValid Handle_def Let_def)
     (auto simp: Validate_def NewAggregate_def Let_def word_sless_alt split: if_splits)

text \<open>
  At startup the configuration keeps exactly the supported kinds the API has registered, in
  their order, and fails if there are none or if a lookup fails for another reason.
\<close>

lemma startup_supported:
  "(\<forall>cfg'. supported_at_startup kindFor cfg = Inr cfg' \<longrightarrow>
     mc_SupportedTargetGVKs cfg' = filter (\<lambda>g. isl (kindFor g) = False) (mc_SupportedTargetGVKs cfg) \<and>
     mc_SupportedTargetGVKs cfg' \<noteq> [] \<and> mc_Namespace cfg' = mc_Namespace cfg \<and>
     (\<forall>g. SupportedTarget cfg' g \<longleftrightarrow> SupportedTarget cfg g \<and> isl (kindFor g) = False)) \<and>
   (\<forall>g \<in> set (mc_SupportedTargetGVKs cfg). \<forall>err. kindFor g = Inl (err, False) \<longrightarrow>
     isl (supported_at_startup kindFor cfg))"
proof -
  let ?gs = "mc_SupportedTargetGVKs cfg"
  have missing: "getMissingGVKs kindFor gs m =
      (if \<exists>g \<in> set gs. \<exists>err. kindFor g = Inl (err, False) then getMissingGVKs kindFor gs m
       else Inr (m @ filter (\<lambda>g. isl (kindFor g)) gs))" for gs m
    by (induction gs arbitrary: m) (auto split: sum.split)
  have fails: "(\<exists>g \<in> set gs. \<exists>err. kindFor g = Inl (err, False)) \<Longrightarrow> isl (getMissingGVKs kindFor gs m)" for gs m
    by (induction gs arbitrary: m) (auto split: sum.split)
  have remove: "fold RemoveSupportedGVK ms c =
      c\<lparr>mc_SupportedTargetGVKs := filter (\<lambda>g. g \<notin> set ms) (mc_SupportedTargetGVKs c)\<rparr>" for ms c
    by (induction ms arbitrary: c) (auto simp: RemoveSupportedGVK_def intro!: filter_cong)
  show ?thesis
  proof (cases "\<exists>g \<in> set ?gs. \<exists>err. kindFor g = Inl (err, False)")
    case True
    then have "isl (supported_at_startup kindFor cfg)"
      using fails [OF True, of "[]"]
      by (auto simp: supported_at_startup_def SupportedGVKs_def isl_def)
    then show ?thesis by (auto simp: isl_def)
  next
    case False
    have f: "filter (\<lambda>g. g \<notin> set (filter (\<lambda>g. isl (kindFor g)) ?gs)) ?gs =
        filter (\<lambda>g. isl (kindFor g) = False) ?gs" by (rule filter_cong) auto
    have "supported_at_startup kindFor cfg =
        (if filter (\<lambda>g. isl (kindFor g) = False) ?gs = [] then Inl ErrNoSupportedTargets
         else Inr (cfg\<lparr>mc_SupportedTargetGVKs := filter (\<lambda>g. isl (kindFor g) = False) ?gs\<rparr>))"
      using False missing [of ?gs "[]"] f
      by (simp add: supported_at_startup_def SupportedGVKs_def remove Let_def)
    with False show ?thesis by (auto simp: SupportedTarget_def list_ex_iff)
  qed
qed

lemma startup_supported_witness:
  "\<exists>cfg'. supported_at_startup (\<lambda>_. Inr ()) demo_config = Inr cfg' \<and>
     mc_SupportedTargetGVKs cfg' = DefaultSupportedTargetGVKs"
proof -
  have "isl (supported_at_startup (\<lambda>_. Inr ()) demo_config) = False" by code_simp
  then obtain cfg' where "supported_at_startup (\<lambda>_. Inr ()) demo_config = Inr cfg'"
    by (cases "supported_at_startup (\<lambda>_. Inr ()) demo_config") auto
  with startup_supported [of "\<lambda>_. Inr ()" demo_config] show ?thesis by (auto simp: demo_config_def)
qed

end
