(* ===== verification/CA_Types.thy ===== *)
theory CA_Types
  imports Kube_Client CAO_Util
begin

text \<open>
  The resource \<open>ClusterAutoscaler\<close>
  (\<open>pkg/apis/autoscaling/v1/clusterautoscaler_types.go\<close>), the reconciler's configuration
  (\<open>Config\<close> of \<open>clusterautoscaler_controller.go\<close>), and the feature gates the configuration
  gives access to (\<open>featuregate.go\<close> of library-go).  A nil pointer is \<open>None\<close>.
\<close>

section \<open>The resource\<close>

text \<open>Strings of an enumeration stay strings: nothing but the API server's validation of
  the custom resource keeps other values out.\<close>

type_synonym ExpanderString = string
type_synonym CordonNodeBeforeTerminatingMode = string
type_synonym EnforceNodeGroupMinSizeMode = string

definition LeastWasteExpander :: ExpanderString where
  "LeastWasteExpander = ''LeastWaste''"

definition PriorityExpander :: ExpanderString where
  "PriorityExpander = ''Priority''"

definition RandomExpander :: ExpanderString where
  "RandomExpander = ''Random''"

definition CordonNodeBeforeTerminatingModeEnabled :: CordonNodeBeforeTerminatingMode where
  "CordonNodeBeforeTerminatingModeEnabled = ''Enabled''"

definition CordonNodeBeforeTerminatingModeDisabled :: CordonNodeBeforeTerminatingMode where
  "CordonNodeBeforeTerminatingModeDisabled = ''Disabled''"

definition EnforceNodeGroupMinSizeModeEnabled :: EnforceNodeGroupMinSizeMode where
  "EnforceNodeGroupMinSizeModeEnabled = ''Enabled''"

definition EnforceNodeGroupMinSizeModeDisabled :: EnforceNodeGroupMinSizeMode where
  "EnforceNodeGroupMinSizeModeDisabled = ''Disabled''"

record ResourceRange =
  rr_Min :: int32
  rr_Max :: int32

record GPULimit =
  gl_Type :: string
  gl_Min :: int32
  gl_Max :: int32

record ResourceLimits =
  rl_MaxNodesTotal :: "int32 option"
  rl_Cores :: "ResourceRange option"
  rl_Memory :: "ResourceRange option"
  rl_GPUS :: "GPULimit list"

record ScaleDownConfig =
  sd_Enabled :: bool
  sd_DelayAfterAdd :: "string option"
  sd_DelayAfterDelete :: "string option"
  sd_DelayAfterFailure :: "string option"
  sd_UnneededTime :: "string option"
  sd_UtilizationThreshold :: "string option"
  sd_CordonNodeBeforeTerminating :: "CordonNodeBeforeTerminatingMode option"

record ScaleUpConfig =
  su_NewPodScaleUpDelay :: "string option"

record ClusterAutoscalerSpec =
  cs_ResourceLimits :: "ResourceLimits option"
  cs_ScaleDown :: "ScaleDownConfig option"
  cs_ScaleUp :: "ScaleUpConfig option"
  cs_MaxPodGracePeriod :: "int32 option"
  cs_MaxNodeProvisionTime :: string
  cs_PodPriorityThreshold :: "int32 option"
  cs_BalanceSimilarNodeGroups :: "bool option"
  cs_BalancingIgnoredLabels :: "string list"
  cs_IgnoreDaemonsetsUtilization :: "bool option"
  cs_SkipNodesWithLocalStorage :: "bool option"
  cs_LogVerbosity :: "int32 option"
  cs_Expanders :: "ExpanderString list"
  cs_EnforceNodeGroupMinSize :: "EnforceNodeGroupMinSizeMode option"
  cs_StartupTaints :: "string list"

record ClusterAutoscaler =
  ca_meta :: ObjectMeta
  ca_Spec :: ClusterAutoscalerSpec

definition ca_Name :: "ClusterAutoscaler \<Rightarrow> string" where
  "ca_Name ca = om_name (ca_meta ca)"

definition ca_GetDeletionTimestamp :: "ClusterAutoscaler \<Rightarrow> string option" where
  "ca_GetDeletionTimestamp ca = om_deletionTimestamp (ca_meta ca)"

definition ca_key :: "ClusterAutoscaler \<Rightarrow> NamespacedName" where
  "ca_key ca = meta_key (ca_meta ca)"

text \<open>The specification with every field at its zero value.\<close>

definition empty_spec :: ClusterAutoscalerSpec where
  "empty_spec =
     \<lparr>cs_ResourceLimits = None, cs_ScaleDown = None, cs_ScaleUp = None, cs_MaxPodGracePeriod = None,
      cs_MaxNodeProvisionTime = '''', cs_PodPriorityThreshold = None,
      cs_BalanceSimilarNodeGroups = None, cs_BalancingIgnoredLabels = [],
      cs_IgnoreDaemonsetsUtilization = None, cs_SkipNodesWithLocalStorage = None,
      cs_LogVerbosity = None, cs_Expanders = [], cs_EnforceNodeGroupMinSize = None,
      cs_StartupTaints = []\<rparr>"

section \<open>Feature gates\<close>

text \<open>
  The gates of library-go: \<open>Enabled\<close> panics on a name that is not registered.  The accessor
  of the configuration is a nil interface (\<open>None\<close>) or answers \<open>CurrentFeatureGates\<close> with an
  error or with the gates.
\<close>

record FeatureGate =
  fg_enabled :: "string list"
  fg_disabled :: "string list"

type_synonym FeatureGateAccess = "(go_error + FeatureGate) option"

definition KnownFeatures :: "FeatureGate \<Rightarrow> string list" where
  "KnownFeatures f = fg_enabled f @ fg_disabled f"

definition FeatureGate_Enabled :: "FeatureGate \<Rightarrow> string \<Rightarrow> go_error + bool" where
  "FeatureGate_Enabled f key =
     (if key \<in> set (fg_enabled f) then Inr True
      else if key \<in> set (fg_disabled f) then Inr False
      else Inl (GoPanic ''feature is not registered in FeatureGates''))"

section \<open>The reconciler's configuration\<close>

record ca_config =
  cc_ReleaseVersion :: string
  cc_Name :: string
  cc_Namespace :: string
  cc_Image :: string
  cc_Replicas :: int32
  cc_CloudProvider :: string
  cc_Verbosity :: int
  cc_ExtraArgs :: string
  cc_platformType :: string
  cc_FeatureGateAccessor :: FeatureGateAccess
  cc_WebhooksPort :: int

text \<open>The platform types of \<open>configv1\<close> the source distinguishes.\<close>

definition AWSPlatformType :: string where "AWSPlatformType = ''AWS''"
definition AzurePlatformType :: string where "AzurePlatformType = ''Azure''"
definition BareMetalPlatformType :: string where "BareMetalPlatformType = ''BareMetal''"
definition GCPPlatformType :: string where "GCPPlatformType = ''GCP''"
definition IBMCloudPlatformType :: string where "IBMCloudPlatformType = ''IBMCloud''"
definition NutanixPlatformType :: string where "NutanixPlatformType = ''Nutanix''"
definition OpenStackPlatformType :: string where "OpenStackPlatformType = ''OpenStack''"
definition PowerVSPlatformType :: string where "PowerVSPlatformType = ''PowerVS''"
definition VSpherePlatformType :: string where "VSpherePlatformType = ''VSphere''"

lemmas platform_defs =
  AWSPlatformType_def AzurePlatformType_def BareMetalPlatformType_def GCPPlatformType_def
  IBMCloudPlatformType_def NutanixPlatformType_def OpenStackPlatformType_def
  PowerVSPlatformType_def VSpherePlatformType_def

end
