(* ===== verification/CA_Args.thy ===== *)
theory CA_Args
  imports CA_Types
begin

text \<open>
  The command line of the cluster autoscaler
  (\<open>pkg/controller/clusterautoscaler/clusterautoscaler.go\<close>): what the operator asks of the
  autoscaler it deploys, from the ClusterAutoscaler resource and its own configuration.
  The last section reads the command line back, flag by flag.
\<close>

section \<open>Arguments\<close>

text \<open>A value of \<open>interface{}\<close> as the source passes it to \<open>%v\<close>.\<close>

datatype arg_value = StrV string | Int32V int32 | IntV int | BoolV bool

fun format_v :: "arg_value \<Rightarrow> string" where
  "format_v (StrV s) = s"
| "format_v (Int32V n) = Itoa (sint n)"
| "format_v (IntV n) = Itoa n"
| "format_v (BoolV b) = FormatBool b"

definition Value :: "string \<Rightarrow> arg_value \<Rightarrow> string" where
  "Value a v = a @ ''='' @ format_v v"

definition Range :: "string \<Rightarrow> int \<Rightarrow> int \<Rightarrow> string" where
  "Range a mn mx = a @ ''='' @ Itoa mn @ '':'' @ Itoa mx"

definition TypeRange :: "string \<Rightarrow> string \<Rightarrow> int \<Rightarrow> int \<Rightarrow> string" where
  "TypeRange a t mn mx = a @ ''='' @ t @ '':'' @ Itoa mn @ '':'' @ Itoa mx"

definition LogToStderrArg :: string where "LogToStderrArg = ''--logtostderr''"
definition RecordDuplicatedEventsArg :: string where "RecordDuplicatedEventsArg = ''--record-duplicated-events''"
definition NamespaceArg :: string where "NamespaceArg = ''--namespace''"
definition CloudProviderArg :: string where "CloudProviderArg = ''--cloud-provider''"
definition MaxGracefulTerminationSecArg :: string where
  "MaxGracefulTerminationSecArg = ''--max-graceful-termination-sec''"
definition ExpendablePodsPriorityCutoffArg :: string where
  "ExpendablePodsPriorityCutoffArg = ''--expendable-pods-priority-cutoff''"
definition ScaleDownEnabledArg :: string where "ScaleDownEnabledArg = ''--scale-down-enabled''"
definition ScaleDownDelayAfterAddArg :: string where "ScaleDownDelayAfterAddArg = ''--scale-down-delay-after-add''"
definition ScaleDownDelayAfterDeleteArg :: string where
  "ScaleDownDelayAfterDeleteArg = ''--scale-down-delay-after-delete''"
definition ScaleDownDelayAfterFailureArg :: string where
  "ScaleDownDelayAfterFailureArg = ''--scale-down-delay-after-failure''"
definition ScaleDownUnneededTimeArg :: string where "ScaleDownUnneededTimeArg = ''--scale-down-unneeded-time''"
definition ScaleDownUtilizationThresholdArg :: string where
  "ScaleDownUtilizationThresholdArg = ''--scale-down-utilization-threshold''"
definition CordonNodeBeforeTerminatingArg :: string where
  "CordonNodeBeforeTerminatingArg = ''--cordon-node-before-terminating''"
definition EnforceNodeGroupMinSizeArg :: string where
  "EnforceNodeGroupMinSizeArg = ''--enforce-node-group-min-size''"
definition NewPodScaleUpDelayArg :: string where "NewPodScaleUpDelayArg = ''--new-pod-scale-up-delay''"
definition MaxNodesTotalArg :: string where "MaxNodesTotalArg = ''--max-nodes-total''"
definition MaxNodeProvisionTimeArg :: string where "MaxNodeProvisionTimeArg = ''--max-node-provision-time''"
definition CoresTotalArg :: string where "CoresTotalArg = ''--cores-total''"
definition MemoryTotalArg :: string where "MemoryTotalArg = ''--memory-total''"
definition GPUTotalArg :: string where "GPUTotalArg = ''--gpu-total''"
definition VerbosityArg :: string where "VerbosityArg = ''--v''"
definition BalanceSimilarNodeGroupsArg :: string where
  "BalanceSimilarNodeGroupsArg = ''--balance-similar-node-groups''"
definition BalancingIgnoreLabelArg :: string where "BalancingIgnoreLabelArg = ''--balancing-ignore-label''"
definition IgnoreDaemonsetsUtilization :: string where
  "IgnoreDaemonsetsUtilization = ''--ignore-daemonsets-utilization''"
definition SkipNodesWithLocalStorage :: string where
  "SkipNodesWithLocalStorage = ''--skip-nodes-with-local-storage''"
definition LeaderElectLeaseDurationArg :: string where
  "LeaderElectLeaseDurationArg = ''--leader-elect-lease-duration''"
definition LeaderElectRenewDeadlineArg :: string where
  "LeaderElectRenewDeadlineArg = ''--leader-elect-renew-deadline''"
definition LeaderElectRetryPeriodArg :: string where
  "LeaderElectRetryPeriodArg = ''--leader-elect-retry-period''"
definition ExpanderArg :: string where "ExpanderArg = ''--expander''"
definition MaxBulkSoftTaintCountArg :: string where "MaxBulkSoftTaintCountArg = ''--max-bulk-soft-taint-count''"
definition EnableProvisioningRequestsArg :: string where
  "EnableProvisioningRequestsArg = ''--enable-provisioning-requests''"
definition KubeAPIContentType :: string where "KubeAPIContentType = ''--kube-api-content-type''"
definition NodeGroupAutoDiscovery :: string where "NodeGroupAutoDiscovery = ''--node-group-auto-discovery''"
definition StartupTaint :: string where "StartupTaint = ''--startup-taint''"

lemmas arg_defs =
  LogToStderrArg_def RecordDuplicatedEventsArg_def NamespaceArg_def CloudProviderArg_def
  MaxGracefulTerminationSecArg_def ExpendablePodsPriorityCutoffArg_def ScaleDownEnabledArg_def
  ScaleDownDelayAfterAddArg_def ScaleDownDelayAfterDeleteArg_def ScaleDownDelayAfterFailureArg_def
  ScaleDownUnneededTimeArg_def ScaleDownUtilizationThresholdArg_def CordonNodeBeforeTerminatingArg_def
  EnforceNodeGroupMinSizeArg_def NewPodScaleUpDelayArg_def MaxNodesTotalArg_def
  MaxNodeProvisionTimeArg_def CoresTotalArg_def MemoryTotalArg_def GPUTotalArg_def VerbosityArg_def
  BalanceSimilarNodeGroupsArg_def BalancingIgnoreLabelArg_def IgnoreDaemonsetsUtilization_def
  SkipNodesWithLocalStorage_def LeaderElectLeaseDurationArg_def LeaderElectRenewDeadlineArg_def
  LeaderElectRetryPeriodArg_def ExpanderArg_def MaxBulkSoftTaintCountArg_def
  EnableProvisioningRequestsArg_def KubeAPIContentType_def NodeGroupAutoDiscovery_def StartupTaint_def

definition leaderElectLeaseDuration :: string where "leaderElectLeaseDuration = ''137s''"
definition leaderElectRenewDeadline :: string where "leaderElectRenewDeadline = ''107s''"
definition leaderElectRetryPeriod :: string where "leaderElectRetryPeriod = ''26s''"
definition maxBulkSoftTaintCount :: string where "maxBulkSoftTaintCount = ''0''"
definition autoscalerAPIContentType :: string where "autoscalerAPIContentType = ''application/json''"
definition provisioningRequestFGName :: string where "provisioningRequestFGName = ''ProvisioningRequestAvailable''"
definition leastWasteFlag :: string where "leastWasteFlag = ''least-waste''"
definition priorityFlag :: string where "priorityFlag = ''priority''"
definition randomFlag :: string where "randomFlag = ''random''"
definition trueFlag :: string where "trueFlag = ''true''"

lemmas arg_const_defs =
  leaderElectLeaseDuration_def leaderElectRenewDeadline_def leaderElectRetryPeriod_def
  maxBulkSoftTaintCount_def autoscalerAPIContentType_def provisioningRequestFGName_def
  leastWasteFlag_def priorityFlag_def randomFlag_def trueFlag_def

section \<open>Feature gates\<close>

text \<open>A panic of the gates' \<open>Enabled\<close> would unwind the caller.\<close>

definition isFeatureGateEnabled :: "FeatureGateAccess \<Rightarrow> string \<Rightarrow> go_error + bool" where
  "isFeatureGateEnabled accessor name =
     (case accessor of
        Some (Inr featureGates) \<Rightarrow>
          if name \<in> set (KnownFeatures featureGates) then FeatureGate_Enabled featureGates name
          else Inr False
      | Some (Inl err) \<Rightarrow> Inr False
      | None \<Rightarrow> Inr False)"

definition capi_feature_gate :: "string \<Rightarrow> string" where
  "capi_feature_gate platformType =
     (if platformType = AWSPlatformType then ''ClusterAPIMachineManagementAWS''
      else if platformType = AzurePlatformType then ''ClusterAPIMachineManagementAzure''
      else if platformType = BareMetalPlatformType then ''ClusterAPIMachineManagementBareMetal''
      else if platformType = GCPPlatformType then ''ClusterAPIMachineManagementGCP''
      else if platformType = OpenStackPlatformType then ''ClusterAPIMachineManagementOpenStack''
      else if platformType = PowerVSPlatformType then ''ClusterAPIMachineManagementPowerVS''
      else if platformType = VSpherePlatformType then ''ClusterAPIMachineManagementVSphere''
      else '''')"

definition shouldDisableClusterAPIProviderFor :: "ca_config \<Rightarrow> go_error + bool" where
  "shouldDisableClusterAPIProviderFor cfg =
     (let fgName = capi_feature_gate (cc_platformType cfg)
      in if length fgName > 0 then
           res_bind (isFeatureGateEnabled (cc_FeatureGateAccessor cfg) fgName) (\<lambda>on. Inr (\<not> on))
         else Inr True)"

text \<open>No gate is asked for that is not registered.\<close>

definition gate_on :: "FeatureGateAccess \<Rightarrow> string \<Rightarrow> bool" where
  "gate_on accessor name \<longleftrightarrow> (\<exists>f. accessor = Some (Inr f) \<and> name \<in> set (fg_enabled f))"

lemma isFeatureGateEnabled_eq [simp]: "isFeatureGateEnabled accessor name = Inr (gate_on accessor name)"
  by (auto simp: isFeatureGateEnabled_def FeatureGate_Enabled_def KnownFeatures_def gate_on_def
      split: option.split sum.split)

definition capi_enabled :: "ca_config \<Rightarrow> bool" where
  "capi_enabled cfg \<longleftrightarrow>
     capi_feature_gate (cc_platformType cfg) \<noteq> '''' \<and>
     gate_on (cc_FeatureGateAccessor cfg) (capi_feature_gate (cc_platformType cfg))"

lemma shouldDisableClusterAPIProviderFor_eq [simp]:
  "shouldDisableClusterAPIProviderFor cfg = Inr (\<not> capi_enabled cfg)"
  by (auto simp: shouldDisableClusterAPIProviderFor_def capi_enabled_def Let_def)

section \<open>The groups of arguments\<close>

definition basic_ignore_labels :: "string \<Rightarrow> string list" where
  "basic_ignore_labels platformType =
     (if platformType = AWSPlatformType then
        [''topology.ebs.csi.aws.com/zone'', ''lifecycle'', ''k8s.amazonaws.com/eniConfig'',
         ''eks.amazonaws.com/nodegroup'', ''alpha.eksctl.io/nodegroup-name'',
         ''alpha.eksctl.io/instance-id'', ''topology.k8s.aws/zone-id'']
      else if platformType = AzurePlatformType then
        [''topology.disk.csi.azure.com/zone'', ''agentpool'', ''kubernetes.azure.com/agentpool'']
      else if platformType = GCPPlatformType then [''topology.gke.io/zone'']
      else if platformType = IBMCloudPlatformType then
        [''ibm-cloud.kubernetes.io/worker-id'', ''vpc-block-csi-driver-labels'',
         ''ibm-cloud.kubernetes.io/vpc-instance-id'']
      else if platformType = NutanixPlatformType then
        [''nutanix.com/prism-element-name'', ''nutanix.com/prism-element-uuid'',
         ''nutanix.com/prism-host-name'', ''nutanix.com/prism-host-uuid'']
      else [])"

definition appendBasicIgnoreLabels :: "string list \<Rightarrow> ca_config \<Rightarrow> string list" where
  "appendBasicIgnoreLabels args cfg =
     args @ map (\<lambda>l. Value BalancingIgnoreLabelArg (StrV l)) (basic_ignore_labels (cc_platformType cfg))"

text \<open>The idiom \<open>if p != nil { args = append(args, f(*p)) }\<close>.\<close>

definition opt_arg :: "'a option \<Rightarrow> ('a \<Rightarrow> string) \<Rightarrow> string list" where
  "opt_arg p f = (case p of None \<Rightarrow> [] | Some v \<Rightarrow> [f v])"

definition ScaleDownArgs :: "ScaleDownConfig \<Rightarrow> string list" where
  "ScaleDownArgs sd =
     (if \<not> sd_Enabled sd then [Value ScaleDownEnabledArg (BoolV False)]
      else
        [Value ScaleDownEnabledArg (BoolV True)]
        @ opt_arg (sd_DelayAfterAdd sd) (\<lambda>v. Value ScaleDownDelayAfterAddArg (StrV v))
        @ opt_arg (sd_DelayAfterDelete sd) (\<lambda>v. Value ScaleDownDelayAfterDeleteArg (StrV v))
        @ opt_arg (sd_DelayAfterFailure sd) (\<lambda>v. Value ScaleDownDelayAfterFailureArg (StrV v))
        @ opt_arg (sd_UnneededTime sd) (\<lambda>v. Value ScaleDownUnneededTimeArg (StrV v))
        @ opt_arg (sd_UtilizationThreshold sd) (\<lambda>v. Value ScaleDownUtilizationThresholdArg (StrV v))
        @ (case sd_CordonNodeBeforeTerminating sd of
             None \<Rightarrow> []
           | Some mode \<Rightarrow>
               if mode = CordonNodeBeforeTerminatingModeEnabled then
                 [Value CordonNodeBeforeTerminatingArg (BoolV True)]
               else if mode = CordonNodeBeforeTerminatingModeDisabled then
                 [Value CordonNodeBeforeTerminatingArg (BoolV False)]
               else []))"

definition ScaleUpArgs :: "ScaleUpConfig \<Rightarrow> string list" where
  "ScaleUpArgs su = opt_arg (su_NewPodScaleUpDelay su) (\<lambda>v. Value NewPodScaleUpDelayArg (StrV v))"

definition ResourceArgs :: "ResourceLimits \<Rightarrow> string list" where
  "ResourceArgs rl =
     opt_arg (rl_MaxNodesTotal rl) (\<lambda>v. Value MaxNodesTotalArg (Int32V v))
     @ opt_arg (rl_Cores rl) (\<lambda>r. Range CoresTotalArg (sint (rr_Min r)) (sint (rr_Max r)))
     @ opt_arg (rl_Memory rl) (\<lambda>r. Range MemoryTotalArg (sint (rr_Min r)) (sint (rr_Max r)))
     @ map (\<lambda>g. TypeRange GPUTotalArg (gl_Type g) (sint (gl_Min g)) (sint (gl_Max g))) (rl_GPUS rl)"

text \<open>One round of the loop over the expanders: an unknown one is skipped.\<close>

definition expander_flag :: "ExpanderString \<Rightarrow> string list" where
  "expander_flag v =
     (if v = LeastWasteExpander then [leastWasteFlag]
      else if v = PriorityExpander then [priorityFlag]
      else if v = RandomExpander then [randomFlag]
      else [])"

definition expander_args :: "ExpanderString list \<Rightarrow> string list" where
  "expander_args exps =
     (if length exps > 0 then
        [Value ExpanderArg (StrV (join_with '','' (concat (map expander_flag exps))))]
      else [])"

definition enforce_args :: "EnforceNodeGroupMinSizeMode option \<Rightarrow> string list" where
  "enforce_args p =
     (case p of
        None \<Rightarrow> []
      | Some mode \<Rightarrow>
          if mode = EnforceNodeGroupMinSizeModeEnabled then [Value EnforceNodeGroupMinSizeArg (BoolV True)]
          else if mode = EnforceNodeGroupMinSizeModeDisabled then
            [Value EnforceNodeGroupMinSizeArg (BoolV False)]
          else [])"

section \<open>The command line\<close>

definition AutoscalerArgs :: "ClusterAutoscaler \<Rightarrow> ca_config \<Rightarrow> go_error + string list" where
  "AutoscalerArgs ca cfg =
     (let s = ca_Spec ca in
      res_bind (shouldDisableClusterAPIProviderFor cfg) (\<lambda>disable.
      res_bind (isFeatureGateEnabled (cc_FeatureGateAccessor cfg) provisioningRequestFGName) (\<lambda>provisioning.
      Inr
       ([LogToStderrArg,
         RecordDuplicatedEventsArg,
         Value CloudProviderArg (StrV (cc_CloudProvider cfg)),
         Value NamespaceArg (StrV (cc_Namespace cfg)),
         Value LeaderElectLeaseDurationArg (StrV leaderElectLeaseDuration),
         Value LeaderElectRenewDeadlineArg (StrV leaderElectRenewDeadline),
         Value LeaderElectRetryPeriodArg (StrV leaderElectRetryPeriod),
         Value MaxBulkSoftTaintCountArg (StrV maxBulkSoftTaintCount),
         Value KubeAPIContentType (StrV autoscalerAPIContentType)]
        @ (if \<not> disable then [Value NodeGroupAutoDiscovery (StrV ''clusterapi:namespace=openshift-cluster-api'')]
           else [])
        @ (if provisioning then [Value EnableProvisioningRequestsArg (StrV trueFlag)] else [])
        @ map (\<lambda>taint. Value StartupTaint (StrV taint)) (cs_StartupTaints s)
        @ opt_arg (cs_MaxPodGracePeriod s) (\<lambda>v. Value MaxGracefulTerminationSecArg (Int32V v))
        @ (if cs_MaxNodeProvisionTime s \<noteq> ''''
           then [Value MaxNodeProvisionTimeArg (StrV (cs_MaxNodeProvisionTime s))] else [])
        @ opt_arg (cs_PodPriorityThreshold s) (\<lambda>v. Value ExpendablePodsPriorityCutoffArg (Int32V v))
        @ (case cs_ResourceLimits s of None \<Rightarrow> [] | Some rl \<Rightarrow> ResourceArgs rl)
        @ (case cs_ScaleDown s of None \<Rightarrow> [] | Some sd \<Rightarrow> ScaleDownArgs sd)
        @ (case cs_ScaleUp s of None \<Rightarrow> [] | Some su \<Rightarrow> ScaleUpArgs su)
        @ (case cs_BalanceSimilarNodeGroups s of
             None \<Rightarrow> []
           | Some b \<Rightarrow> appendBasicIgnoreLabels [Value BalanceSimilarNodeGroupsArg (BoolV b)] cfg)
        @ opt_arg (cs_IgnoreDaemonsetsUtilization s) (\<lambda>b. Value IgnoreDaemonsetsUtilization (BoolV b))
        @ opt_arg (cs_SkipNodesWithLocalStorage s) (\<lambda>b. Value SkipNodesWithLocalStorage (BoolV b))
        @ map (\<lambda>l. Value BalancingIgnoreLabelArg (StrV l)) (cs_BalancingIgnoredLabels s)
        @ [Value VerbosityArg
             (case cs_LogVerbosity s of Some v \<Rightarrow> Int32V v | None \<Rightarrow> IntV (cc_Verbosity cfg))]
        @ expander_args (cs_Expanders s)
        @ enforce_args (cs_EnforceNodeGroupMinSize s)))))"

section \<open>Reading the command line back\<close>

text \<open>What the autoscaler's flag parser sees: a flag and the text after its first \<open>=\<close>.\<close>

definition parse_arg :: "string \<Rightarrow> string \<times> string" where
  "parse_arg a = (case cut_on (CHR ''='') a of None \<Rightarrow> (a, '''') | Some p \<Rightarrow> p)"

definition flag_values :: "string list \<Rightarrow> string \<Rightarrow> string list" where
  "flag_values args f = map snd (filter (\<lambda>p. fst p = f) (map parse_arg args))"

text \<open>The flags the operator sets have no \<open>=\<close> in their names.\<close>

lemma flags_no_eq:
  "\<forall>a \<in> set [LogToStderrArg, RecordDuplicatedEventsArg, NamespaceArg, CloudProviderArg,
     MaxGracefulTerminationSecArg, ExpendablePodsPriorityCutoffArg, ScaleDownEnabledArg,
     ScaleDownDelayAfterAddArg, ScaleDownDelayAfterDeleteArg, ScaleDownDelayAfterFailureArg,
     ScaleDownUnneededTimeArg, ScaleDownUtilizationThresholdArg, CordonNodeBeforeTerminatingArg,
     EnforceNodeGroupMinSizeArg, NewPodScaleUpDelayArg, MaxNodesTotalArg, MaxNodeProvisionTimeArg,
     CoresTotalArg, MemoryTotalArg, GPUTotalArg, VerbosityArg, BalanceSimilarNodeGroupsArg,
     BalancingIgnoreLabelArg, IgnoreDaemonsetsUtilization, SkipNodesWithLocalStorage,
     LeaderElectLeaseDurationArg, LeaderElectRenewDeadlineArg, LeaderElectRetryPeriodArg, ExpanderArg,
     MaxBulkSoftTaintCountArg, EnableProvisioningRequestsArg, KubeAPIContentType,
     NodeGroupAutoDiscovery, StartupTaint]. CHR ''='' \<notin> set a"
  by (simp add: arg_defs)

lemmas flag_facts [simp] = flags_no_eq [unfolded list.set ball_simps, simplified]

lemma parse_arg_simps [simp]:
  "CHR ''='' \<notin> set a \<Longrightarrow> parse_arg a = (a, '''')"
  "CHR ''='' \<notin> set a \<Longrightarrow> parse_arg (Value a v) = (a, format_v v)"
  "CHR ''='' \<notin> set a \<Longrightarrow> parse_arg (Range a m n) = (a, Itoa m @ '':'' @ Itoa n)"
  "CHR ''='' \<notin> set a \<Longrightarrow> parse_arg (TypeRange a t m n) = (a, t @ '':'' @ Itoa m @ '':'' @ Itoa n)"
  by (simp_all add: parse_arg_def Value_def Range_def TypeRange_def cut_on_no_sep)
     (simp add: cut_on_def)

text \<open>A command line as groups, each a flag with the values given for it.\<close>

type_synonym groups = "(string \<times> string list) list"

definition spread :: "groups \<Rightarrow> (string \<times> string) list" where
  "spread gs = concat (map (\<lambda>(g, vs). map (Pair g) vs) gs)"

definition group_values :: "groups \<Rightarrow> string \<Rightarrow> string list" where
  "group_values gs f = concat (map snd (filter (\<lambda>g. fst g = f) gs))"

lemma spread_simps [simp]:
  "spread [] = []" "spread ((g, vs) # gs) = map (Pair g) vs @ spread gs"
  "spread (gs @ hs) = spread gs @ spread hs"
  by (simp_all add: spread_def)

lemma group_values_simps [simp]:
  "group_values [] f = []"
  "group_values (g # gs) f = (if fst g = f then snd g else []) @ group_values gs f"
  "group_values (gs @ hs) f = group_values gs f @ group_values hs f"
  by (simp_all add: group_values_def)

lemma flag_values_spread: "map parse_arg args = spread gs \<Longrightarrow> flag_values args f = group_values gs f"
proof -
  have "map snd (filter (\<lambda>p. fst p = f) (map (Pair g) vs)) = (if g = f then vs else [])" for g :: string and vs :: "string list"
    by (induction vs) auto
  then have "map snd (filter (\<lambda>p. fst p = f) (spread gs)) = group_values gs f"
    by (induction gs) (auto simp: comp_def)
  then show "map parse_arg args = spread gs \<Longrightarrow> flag_values args f = group_values gs f"
    by (simp add: flag_values_def)
qed

text \<open>A flag that is set in two places, as the ignored labels are, is told both groups.\<close>

lemma group_values_notin: "g \<notin> fst ` set hs \<Longrightarrow> group_values hs g = []"
  by (induction hs) auto

lemma group_values_join:
  "g \<notin> fst ` set hs \<Longrightarrow>
   group_values (gs @ (g, vs) # hs @ (g, ws) # ks) f = group_values (gs @ [(g, vs @ ws)] @ hs @ ks) f"
  by (auto simp: group_values_notin)

lemma group_values_distinct:
  "distinct (map fst gs) \<Longrightarrow> group_values gs f = (case map_of gs f of None \<Rightarrow> [] | Some vs \<Rightarrow> vs)"
proof (induction gs)
  case (Cons g gs)
  then show ?case by (cases g) (auto simp: group_values_notin)
qed simp

text \<open>The argument groups.\<close>

definition values_of :: "'a option \<Rightarrow> ('a \<Rightarrow> string) \<Rightarrow> string list" where
  "values_of p h = (case p of None \<Rightarrow> [] | Some x \<Rightarrow> [h x])"

definition mode_flag :: "string option \<Rightarrow> string list" where
  "mode_flag p =
     (if p = Some ''Enabled'' then [''true''] else if p = Some ''Disabled'' then [''false''] else [])"

lemma parse_opt_arg:
  "(\<And>x. parse_arg (h x) = (g, w x)) \<Longrightarrow> map parse_arg (opt_arg p h) = map (Pair g) (values_of p w)"
  by (simp add: opt_arg_def values_of_def split: option.split)

definition range_v :: "ResourceRange \<Rightarrow> string" where
  "range_v r = Itoa (sint (rr_Min r)) @ '':'' @ Itoa (sint (rr_Max r))"

definition gpu_v :: "GPULimit \<Rightarrow> string" where
  "gpu_v g = gl_Type g @ '':'' @ Itoa (sint (gl_Min g)) @ '':'' @ Itoa (sint (gl_Max g))"

definition resource_groups :: "ResourceLimits option \<Rightarrow> groups" where
  "resource_groups p =
     (let limits = (\<lambda>h. case p of None \<Rightarrow> [] | Some rl \<Rightarrow> h rl) in
      [(MaxNodesTotalArg, limits (\<lambda>rl. values_of (rl_MaxNodesTotal rl) (\<lambda>n. Itoa (sint n)))),
       (CoresTotalArg, limits (\<lambda>rl. values_of (rl_Cores rl) range_v)),
       (MemoryTotalArg, limits (\<lambda>rl. values_of (rl_Memory rl) range_v)),
       (GPUTotalArg, limits (\<lambda>rl. map gpu_v (rl_GPUS rl)))])"

lemma parse_ResourceArgs:
  "map parse_arg (case p of None \<Rightarrow> [] | Some rl \<Rightarrow> ResourceArgs rl) = spread (resource_groups p)"
  by (cases p)
    (simp_all add: ResourceArgs_def resource_groups_def range_v_def gpu_v_def
      parse_opt_arg [where g = MaxNodesTotalArg and w = "\<lambda>n. Itoa (sint n)"]
      parse_opt_arg [where g = CoresTotalArg and w = range_v]
      parse_opt_arg [where g = MemoryTotalArg and w = range_v] comp_def)

definition scale_down_groups :: "ScaleDownConfig option \<Rightarrow> groups" where
  "scale_down_groups p =
     (let down = (\<lambda>h. case p of None \<Rightarrow> [] | Some sd \<Rightarrow> if sd_Enabled sd then h sd else []) in
      [(ScaleDownEnabledArg, values_of p (\<lambda>sd. FormatBool (sd_Enabled sd))),
       (ScaleDownDelayAfterAddArg, down (\<lambda>sd. values_of (sd_DelayAfterAdd sd) id)),
       (ScaleDownDelayAfterDeleteArg, down (\<lambda>sd. values_of (sd_DelayAfterDelete sd) id)),
       (ScaleDownDelayAfterFailureArg, down (\<lambda>sd. values_of (sd_DelayAfterFailure sd) id)),
       (ScaleDownUnneededTimeArg, down (\<lambda>sd. values_of (sd_UnneededTime sd) id)),
       (ScaleDownUtilizationThresholdArg, down (\<lambda>sd. values_of (sd_UtilizationThreshold sd) id)),
       (CordonNodeBeforeTerminatingArg, down (\<lambda>sd. mode_flag (sd_CordonNodeBeforeTerminating sd)))])"

lemma parse_ScaleDownArgs:
  "map parse_arg (case p of None \<Rightarrow> [] | Some sd \<Rightarrow> ScaleDownArgs sd) = spread (scale_down_groups p)"
proof (cases p)
  case (Some sd)
  have mode: "map parse_arg
      (case sd_CordonNodeBeforeTerminating sd of
         None \<Rightarrow> []
       | Some mode \<Rightarrow>
           if mode = CordonNodeBeforeTerminatingModeEnabled then [Value CordonNodeBeforeTerminatingArg (BoolV True)]
           else if mode = CordonNodeBeforeTerminatingModeDisabled then
             [Value CordonNodeBeforeTerminatingArg (BoolV False)]
           else []) =
     map (Pair CordonNodeBeforeTerminatingArg) (mode_flag (sd_CordonNodeBeforeTerminating sd))"
    by (simp add: mode_flag_def CordonNodeBeforeTerminatingModeEnabled_def FormatBool_def
        CordonNodeBeforeTerminatingModeDisabled_def split: option.split)
  show ?thesis
    by (simp add: Some ScaleDownArgs_def scale_down_groups_def mode parse_opt_arg [where w = id] values_of_def)
qed (simp add: scale_down_groups_def values_of_def)

lemma parse_ScaleUpArgs:
  "map parse_arg (case p of None \<Rightarrow> [] | Some su \<Rightarrow> ScaleUpArgs su) =
   map (Pair NewPodScaleUpDelayArg)
     (case p of None \<Rightarrow> [] | Some su \<Rightarrow> values_of (su_NewPodScaleUpDelay su) id)"
  by (cases p) (simp_all add: ScaleUpArgs_def parse_opt_arg [where w = id])

lemma parse_balance:
  "map parse_arg
     (case p of None \<Rightarrow> [] | Some b \<Rightarrow> appendBasicIgnoreLabels [Value BalanceSimilarNodeGroupsArg (BoolV b)] cfg) =
   map (Pair BalanceSimilarNodeGroupsArg) (values_of p FormatBool) @
   map (Pair BalancingIgnoreLabelArg)
     (if p = None then [] else basic_ignore_labels (cc_platformType cfg))"
  by (cases p) (simp_all add: appendBasicIgnoreLabels_def values_of_def)

lemma parse_expander_args:
  "map parse_arg (expander_args exps) =
   map (Pair ExpanderArg)
     (if exps = [] then [] else [join_with '','' (concat (map expander_flag exps))])"
  by (simp add: expander_args_def)

lemma parse_enforce_args:
  "map parse_arg (enforce_args p) = map (Pair EnforceNodeGroupMinSizeArg) (mode_flag p)"
  by (simp add: enforce_args_def mode_flag_def FormatBool_def
      EnforceNodeGroupMinSizeModeEnabled_def EnforceNodeGroupMinSizeModeDisabled_def split: option.split)

lemmas parse_groups =
  parse_ResourceArgs parse_ScaleDownArgs parse_ScaleUpArgs parse_balance parse_expander_args parse_enforce_args

text \<open>
  What the autoscaler is told: every flag with the values given for it, in order.
\<close>

definition told_before_labels :: "ClusterAutoscaler \<Rightarrow> ca_config \<Rightarrow> groups" where
  "told_before_labels ca cfg =
     (let s = ca_Spec ca in
      [(LogToStderrArg, [[]]),
       (RecordDuplicatedEventsArg, [[]]),
       (CloudProviderArg, [cc_CloudProvider cfg]),
       (NamespaceArg, [cc_Namespace cfg]),
       (LeaderElectLeaseDurationArg, [''137s'']),
       (LeaderElectRenewDeadlineArg, [''107s'']),
       (LeaderElectRetryPeriodArg, [''26s'']),
       (MaxBulkSoftTaintCountArg, [''0'']),
       (KubeAPIContentType, [''application/json'']),
       (NodeGroupAutoDiscovery,
          if capi_enabled cfg then [''clusterapi:namespace=openshift-cluster-api''] else []),
       (EnableProvisioningRequestsArg,
          if gate_on (cc_FeatureGateAccessor cfg) ''ProvisioningRequestAvailable'' then [''true''] else []),
       (StartupTaint, cs_StartupTaints s),
       (MaxGracefulTerminationSecArg, values_of (cs_MaxPodGracePeriod s) (\<lambda>n. Itoa (sint n))),
       (MaxNodeProvisionTimeArg,
          if cs_MaxNodeProvisionTime s = '''' then [] else [cs_MaxNodeProvisionTime s]),
       (ExpendablePodsPriorityCutoffArg, values_of (cs_PodPriorityThreshold s) (\<lambda>n. Itoa (sint n)))]
      @ resource_groups (cs_ResourceLimits s)
      @ scale_down_groups (cs_ScaleDown s)
      @ [(NewPodScaleUpDelayArg,
            (case cs_ScaleUp s of None \<Rightarrow> [] | Some su \<Rightarrow> values_of (su_NewPodScaleUpDelay su) id)),
         (BalanceSimilarNodeGroupsArg, values_of (cs_BalanceSimilarNodeGroups s) FormatBool)])"

definition told_basic_labels :: "ClusterAutoscaler \<Rightarrow> ca_config \<Rightarrow> string list" where
  "told_basic_labels ca cfg =
     (if cs_BalanceSimilarNodeGroups (ca_Spec ca) = None then []
      else basic_ignore_labels (cc_platformType cfg))"

definition told_between_labels :: "ClusterAutoscaler \<Rightarrow> groups" where
  "told_between_labels ca =
     (let s = ca_Spec ca in
      [(IgnoreDaemonsetsUtilization, values_of (cs_IgnoreDaemonsetsUtilization s) FormatBool),
       (SkipNodesWithLocalStorage, values_of (cs_SkipNodesWithLocalStorage s) FormatBool)])"

definition told_after_labels :: "ClusterAutoscaler \<Rightarrow> ca_config \<Rightarrow> groups" where
  "told_after_labels ca cfg =
     (let s = ca_Spec ca in
      [(VerbosityArg,
          [case cs_LogVerbosity s of Some v \<Rightarrow> Itoa (sint v) | None \<Rightarrow> Itoa (cc_Verbosity cfg)]),
       (ExpanderArg,
          if cs_Expanders s = [] then []
          else [join_with '','' (concat (map expander_flag (cs_Expanders s)))]),
       (EnforceNodeGroupMinSizeArg, mode_flag (cs_EnforceNodeGroupMinSize s))])"

definition told :: "ClusterAutoscaler \<Rightarrow> ca_config \<Rightarrow> groups" where
  "told ca cfg =
     told_before_labels ca cfg
     @ [(BalancingIgnoreLabelArg, told_basic_labels ca cfg @ cs_BalancingIgnoredLabels (ca_Spec ca))]
     @ told_between_labels ca @ told_after_labels ca cfg"

lemmas told_part_defs =
  told_before_labels_def told_basic_labels_def told_between_labels_def told_after_labels_def

lemma parse_AutoscalerArgs:
  "\<exists>args. AutoscalerArgs ca cfg = Inr args \<and>
     map parse_arg args =
       spread (told_before_labels ca cfg @ (BalancingIgnoreLabelArg, told_basic_labels ca cfg) #
         told_between_labels ca @ (BalancingIgnoreLabelArg, cs_BalancingIgnoredLabels (ca_Spec ca)) #
         told_after_labels ca cfg)"
proof -
  have verb: "format_v (case p of Some v \<Rightarrow> Int32V v | None \<Rightarrow> IntV n) =
      (case p of Some v \<Rightarrow> Itoa (sint v) | None \<Rightarrow> Itoa n)" for p n
    by (simp split: option.split)
  show ?thesis
    by (simp add: AutoscalerArgs_def Let_def told_part_defs parse_groups comp_def arg_const_defs verb
        parse_opt_arg [where w = "\<lambda>n. Itoa (sint n)"] parse_opt_arg [where w = FormatBool])
qed

text \<open>No flag stands twice in the table: a flag that may be given once is given once.\<close>

lemma told_distinct: "distinct (map fst (told ca cfg))"
  by (simp add: told_def told_part_defs resource_groups_def scale_down_groups_def Let_def arg_defs)

text \<open>
  C7: the command line the operator composes tells the autoscaler, for every flag, exactly
  the values of the table: one value at most for every single-valued flag, the scale-down
  settings only while scale-down is enabled, the built-in ignore labels of the platform
  before the user's own and only with balancing configured, cluster API discovery only with
  its feature gate, the resource's verbosity before the operator's, and nothing else.
\<close>

theorem args_told:
  "\<exists>args. AutoscalerArgs ca cfg = Inr args \<and>
     (\<forall>f. flag_values args f = (case map_of (told ca cfg) f of None \<Rightarrow> [] | Some vs \<Rightarrow> vs))"
proof -
  obtain args where args: "AutoscalerArgs ca cfg = Inr args"
    and "\<And>f. flag_values args f =
      group_values (told_before_labels ca cfg @ (BalancingIgnoreLabelArg, told_basic_labels ca cfg) #
         told_between_labels ca @ (BalancingIgnoreLabelArg, cs_BalancingIgnoredLabels (ca_Spec ca)) #
         told_after_labels ca cfg) f"
    using parse_AutoscalerArgs [of ca cfg] flag_values_spread by blast
  moreover have "BalancingIgnoreLabelArg \<notin> fst ` set (told_between_labels ca)"
    by (simp add: told_between_labels_def Let_def arg_defs)
  ultimately have "flag_values args f = group_values (told ca cfg) f" for f
    by (simp only: group_values_join told_def not_False_eq_True)
  with args show ?thesis by (simp add: group_values_distinct [OF told_distinct])
qed

end
