(* ===== verification/CA_Workload.thy ===== *)
theory CA_Workload
  imports CA_Args Kube_Objects
begin

text \<open>
  The objects the operator keeps for a ClusterAutoscaler, as pure functions of the resource
  and the configuration: the deployment of the autoscaler
  (\<open>pkg/controller/clusterautoscaler/clusterautoscaler_controller.go\<close>), and its service,
  service monitor and alerting rules (\<open>monitoring.go\<close>).  The properties say that the pieces
  fit together: selectors select, and ports and names refer to what exists.
\<close>

section \<open>Pods\<close>

text \<open>Resource quantities are kept as the constants the source parses.\<close>

record ContainerPort =
  cp_Name :: string
  cp_ContainerPort :: int32

record Container =
  ct_Name :: string
  ct_Image :: string
  ct_Command :: "string list"
  ct_Args :: "string list"
  ct_Ports :: "ContainerPort list"
  ct_Env :: "(string \<times> string) list"
  ct_Requests :: "(string \<times> string) list"

record Toleration =
  tl_Key :: string
  tl_Operator :: string
  tl_Effect :: string

record PodSpec =
  ps_ServiceAccountName :: string
  ps_PriorityClassName :: string
  ps_NodeSelector :: strmap
  ps_Containers :: "Container list"
  ps_Tolerations :: "Toleration list"

record PodTemplateSpec =
  pt_Labels :: strmap
  pt_Annotations :: strmap
  pt_Spec :: PodSpec

record DeploymentSpec =
  dp_Replicas :: "int32 option"
  dp_Selector :: strmap
  dp_Template :: PodTemplateSpec

text \<open>What the API server fills in: of the deployment, and of its pod template's specification.\<close>

record deployment_rest =
  dr_deployment :: json
  dr_pod :: json

type_synonym Deployment = "(DeploymentSpec, deployment_rest, DeploymentStatus) kobject"

definition caServiceAccount :: string where "caServiceAccount = ''cluster-autoscaler''"
definition caPriorityClassName :: string where "caPriorityClassName = ''system-cluster-critical''"
definition CAPIScaleZeroDefaultArchEnvVar :: string where
  "CAPIScaleZeroDefaultArchEnvVar = ''CAPI_SCALE_ZERO_DEFAULT_ARCH''"
definition CAPIDisableEnvVar :: string where "CAPIDisableEnvVar = ''OPENSHIFT_CLUSTERAPI_DISABLE''"

definition AutoscalerName :: "ca_config \<Rightarrow> ClusterAutoscaler \<Rightarrow> NamespacedName" where
  "AutoscalerName cfg ca =
     \<lparr>nn_namespace = cc_Namespace cfg, nn_name = ''cluster-autoscaler-'' @ ca_Name ca\<rparr>"

text \<open>\<open>goarch\<close> is \<open>runtime.GOARCH\<close> of the build.\<close>

definition AutoscalerPodSpec :: "string \<Rightarrow> ca_config \<Rightarrow> ClusterAutoscaler \<Rightarrow> go_error + PodSpec" where
  "AutoscalerPodSpec goarch cfg ca =
     res_bind (AutoscalerArgs ca cfg) (\<lambda>args.
       (let args = (if cc_ExtraArgs cfg \<noteq> '''' then args @ [cc_ExtraArgs cfg] else args);
            container =
              \<lparr>ct_Name = ''cluster-autoscaler'',
               ct_Image = cc_Image cfg,
               ct_Command = [''cluster-autoscaler''],
               ct_Args = args,
               ct_Ports = [\<lparr>cp_Name = ''metrics'', cp_ContainerPort = 8085\<rparr>],
               ct_Env = [(CAPIScaleZeroDefaultArchEnvVar, goarch)],
               ct_Requests = [(''cpu'', ''10m''), (''memory'', ''20Mi'')]\<rparr>;
            spec =
              \<lparr>ps_ServiceAccountName = caServiceAccount,
               ps_PriorityClassName = caPriorityClassName,
               ps_NodeSelector =
                 Some [(''node-role.kubernetes.io/master'', ''''), (''beta.kubernetes.io/os'', ''linux'')],
               ps_Containers = [container],
               ps_Tolerations =
                 [\<lparr>tl_Key = ''CriticalAddonsOnly'', tl_Operator = ''Exists'', tl_Effect = ''''\<rparr>,
                  \<lparr>tl_Key = ''node-role.kubernetes.io/master'', tl_Operator = ''Exists'',
                   tl_Effect = ''NoSchedule''\<rparr>]\<rparr>
        in res_bind (shouldDisableClusterAPIProviderFor cfg) (\<lambda>disable.
             if disable then
               Inr (spec\<lparr>ps_Containers :=
                 [container\<lparr>ct_Env := ct_Env container @ [(CAPIDisableEnvVar, ''true'')]\<rparr>]\<rparr>)
             else Inr spec)))"

definition UpdateAnnotations :: "ca_config \<Rightarrow> strmap \<Rightarrow> strmap" where
  "UpdateAnnotations cfg annotations =
     (let annotations = map_make annotations;
          annotations = map_set annotations CriticalPodAnnotation '''';
          annotations = map_set annotations ReleaseVersionAnnotation (cc_ReleaseVersion cfg)
      in annotations)"

definition autoscaler_labels :: "ClusterAutoscaler \<Rightarrow> strmap" where
  "autoscaler_labels ca = Some [(''cluster-autoscaler'', ca_Name ca), (''k8s-app'', ''cluster-autoscaler'')]"

definition zero_deployment_status :: DeploymentStatus where
  "zero_deployment_status =
     \<lparr>ds_observedGeneration = 0, ds_replicas = 0, ds_updatedReplicas = 0, ds_availableReplicas = 0\<rparr>"

definition AutoscalerDeployment :: "string \<Rightarrow> ca_config \<Rightarrow> ClusterAutoscaler \<Rightarrow> go_error + Deployment" where
  "AutoscalerDeployment goarch cfg ca =
     (let namespacedName = AutoscalerName cfg ca;
          labels = autoscaler_labels ca;
          annotations = Some
            [(CriticalPodAnnotation, ''''),
             (ReleaseVersionAnnotation, cc_ReleaseVersion cfg),
             (WorkloadManagementAnnotation, WorkloadManagementSchedulingPreferred)]
      in res_bind (AutoscalerPodSpec goarch cfg ca) (\<lambda>podSpec.
           Inr
            \<lparr>ko_meta = empty_meta
               \<lparr>om_name := nn_name namespacedName, om_namespace := nn_namespace namespacedName,
                om_annotations := annotations\<rparr>,
             ko_spec =
               \<lparr>dp_Replicas = Some (cc_Replicas cfg), dp_Selector = labels,
                dp_Template = \<lparr>pt_Labels = labels, pt_Annotations = annotations, pt_Spec = podSpec\<rparr>\<rparr>,
             ko_rest = \<lparr>dr_deployment = JNull, dr_pod = JNull\<rparr>,
             ko_status = zero_deployment_status\<rparr>))"

section \<open>Monitoring\<close>

datatype intstr = PortInt int32 | PortStr string

record ServicePort =
  sp_Name :: string
  sp_TargetPort :: intstr
  sp_Protocol :: string
  sp_Port :: int32

record ServiceSpec =
  sv_Type :: string
  sv_Ports :: "ServicePort list"
  sv_Selector :: strmap
  sv_SessionAffinity :: string

text \<open>The server allocates the cluster IP.\<close>

record service_rest =
  sr_ClusterIP :: string
  sr_other :: json

type_synonym Service = "(ServiceSpec, service_rest, json) kobject"

definition AutoscalerService :: "ca_config \<Rightarrow> ClusterAutoscaler \<Rightarrow> Service" where
  "AutoscalerService cfg ca =
     (let namespacedName = AutoscalerName cfg ca in
      \<lparr>ko_meta = empty_meta
         \<lparr>om_name := nn_name namespacedName, om_namespace := nn_namespace namespacedName,
          om_labels := Some [(''k8s-app'', ''cluster-autoscaler'')]\<rparr>,
       ko_spec =
         \<lparr>sv_Type = ''ClusterIP'',
          sv_Ports =
            [\<lparr>sp_Name = ''metrics'', sp_TargetPort = PortStr ''metrics'', sp_Protocol = ''TCP'', sp_Port = 8085\<rparr>],
          sv_Selector = Some [(''k8s-app'', ''cluster-autoscaler'')],
          sv_SessionAffinity = ''None''\<rparr>,
       ko_rest = \<lparr>sr_ClusterIP = '''', sr_other = JNull\<rparr>,
       ko_status = JNull\<rparr>)"

record MonitorEndpoint =
  ep_BearerTokenFile :: string
  ep_Interval :: string
  ep_Port :: string
  ep_Scheme :: string

record ServiceMonitorSpec =
  sm_Endpoints :: "MonitorEndpoint list"
  sm_MatchNames :: "string list"
  sm_Selector :: strmap

type_synonym ServiceMonitor = "(ServiceMonitorSpec, json, json) kobject"

definition AutoscalerServiceMonitor :: "ca_config \<Rightarrow> ClusterAutoscaler \<Rightarrow> ServiceMonitor" where
  "AutoscalerServiceMonitor cfg ca =
     (let namespacedName = AutoscalerName cfg ca in
      \<lparr>ko_meta = empty_meta
         \<lparr>om_name := nn_name namespacedName, om_namespace := nn_namespace namespacedName,
          om_labels := Some [(''k8s-app'', ''cluster-autoscaler'')]\<rparr>,
       ko_spec =
         \<lparr>sm_Endpoints =
            [\<lparr>ep_BearerTokenFile = ''/var/run/secrets/kubernetes.io/serviceaccount/token'',
              ep_Interval = ''30s'', ep_Port = ''metrics'', ep_Scheme = ''HTTP''\<rparr>],
          sm_MatchNames = [nn_namespace namespacedName],
          sm_Selector = Some [(''k8s-app'', ''cluster-autoscaler'')]\<rparr>,
       ko_rest = JNull, ko_status = JNull\<rparr>)"

record AlertRule =
  al_Alert :: string
  al_Expr :: string
  al_For :: string
  al_Labels :: strmap
  al_Annotations :: strmap

record RuleGroup =
  rg_Name :: string
  rg_Rules :: "AlertRule list"

type_synonym PrometheusRule = "(RuleGroup list, json, json) kobject"

definition newline :: string where "newline = [CHR 0x0A]"
definition dquote :: "string \<Rightarrow> string" where "dquote s = [CHR 0x22] @ s @ [CHR 0x22]"

definition alert :: "string \<Rightarrow> string \<Rightarrow> string \<Rightarrow> string \<Rightarrow> string \<Rightarrow> string \<Rightarrow> AlertRule" where
  "alert name expr duration severity summary description =
     \<lparr>al_Alert = name, al_Expr = expr, al_For = duration, al_Labels = Some [(''severity'', severity)],
      al_Annotations = Some [(''summary'', summary), (''description'', description)]\<rparr>"

definition autoscaler_rules :: "string \<Rightarrow> AlertRule list" where
  "autoscaler_rules service =
     [alert ''ClusterAutoscalerUnschedulablePods''
        (''cluster_autoscaler_unschedulable_pods_count{service='' @ dquote service @ ''} > 0'')
        ''20m'' ''info''
        ''Cluster Autoscaler has {{ $value }} unschedulable pods''
        (''The cluster autoscaler is unable to scale up and is alerting that there are unschedulable pods because of this condition.'' @ newline @
         ''This may be caused by the cluster autoscaler reaching its resources limits, or by Kubernetes waiting for new nodes to become ready.''),
      alert ''ClusterAutoscalerNotSafeToScale''
        (''cluster_autoscaler_cluster_safe_to_autoscale{service='' @ dquote service @ ''} != 1'')
        ''15m'' ''warning''
        ''Cluster Autoscaler is reporting that the cluster is not ready for scaling''
        (''The cluster autoscaler has detected that the number of unready nodes is too high'' @ newline @
         ''and it is not safe to continute scaling operations. It makes this determination by checking that the number of ready nodes is greater than the minimum ready count'' @ newline @
         ''(default of 3) and the ratio of unready to ready nodes is less than the maximum unready node percentage (default of 45%). If either of those conditions are not'' @ newline @
         ''true then the cluster autoscaler will enter an unsafe to scale state until the conditions change.''),
      alert ''ClusterAutoscalerUnableToScaleCPULimitReached''
        (''increase(cluster_autoscaler_skipped_scale_events_count{direction='' @ dquote ''up'' @ '',reason='' @ dquote ''CpuResourceLimit'' @ ''}[15m]) > 0'')
        ''15m'' ''info''
        ''Cluster Autoscaler has reached its maximum CPU core limit and is unable to scale out''
        (''The number of total cores in the cluster has exceeded the maximum number set on the'' @ newline @
         ''cluster autoscaler. This is calculated by summing the cpu capacity for all nodes in the cluster and comparing that number against the maximum cores value set for the'' @ newline @
         ''cluster autoscaler (default 320000 cores). Limits can be adjusted by modifying the ClusterAutoscaler resource.''),
      alert ''ClusterAutoscalerUnableToScaleMemoryLimitReached''
        (''increase(cluster_autoscaler_skipped_scale_events_count{direction='' @ dquote ''up'' @ '',reason='' @ dquote ''MemoryResourceLimit'' @ ''}[15m]) > 0'')
        ''15m'' ''info''
        ''Cluster Autoscaler has reached its maximum Memory bytes limit and is unable to scale out''
        (''The number of total bytes of RAM in the cluster has exceeded the maximum number set on'' @ newline @
         ''the cluster autoscaler. This is calculated by summing the memory capacity for all nodes in the cluster and comparing that number against the maximum memory bytes value set'' @ newline @
         ''for the cluster autoscaler (default 6400000 gigabytes). Limits can be adjusted by modifying the ClusterAutoscaler resource.'')]"

definition AutoscalerPrometheusRule :: "ca_config \<Rightarrow> ClusterAutoscaler \<Rightarrow> PrometheusRule" where
  "AutoscalerPrometheusRule cfg ca =
     (let namespacedName = AutoscalerName cfg ca in
      \<lparr>ko_meta = empty_meta
         \<lparr>om_name := nn_name namespacedName, om_namespace := nn_namespace namespacedName,
          om_labels := Some [(''prometheus'', ''k8s''), (''role'', ''alert-rules'')]\<rparr>,
       ko_spec = [\<lparr>rg_Name = ''general.rules'', rg_Rules = autoscaler_rules (nn_name namespacedName)\<rparr>],
       ko_rest = JNull, ko_status = JNull\<rparr>)"

section \<open>The pieces fit together\<close>

text \<open>A label selector selects the objects that carry all its labels.\<close>

definition selects :: "strmap \<Rightarrow> strmap \<Rightarrow> bool" where
  "selects selector labels \<longleftrightarrow>
     list_all (\<lambda>(k, v). map_get labels k = Some v) (case selector of None \<Rightarrow> [] | Some al \<Rightarrow> al)"

text \<open>The pod specification in full: the deployment is always composed, never an error.\<close>

definition expected_args :: "ca_config \<Rightarrow> ClusterAutoscaler \<Rightarrow> string list" where
  "expected_args cfg ca = (case AutoscalerArgs ca cfg of Inr args \<Rightarrow> args | Inl _ \<Rightarrow> [])"

lemma AutoscalerArgs_expected: "AutoscalerArgs ca cfg = Inr (expected_args cfg ca)"
  using parse_AutoscalerArgs [of ca cfg] by (auto simp: expected_args_def)

definition pod_spec :: "string \<Rightarrow> ca_config \<Rightarrow> ClusterAutoscaler \<Rightarrow> PodSpec" where
  "pod_spec goarch cfg ca = (case AutoscalerPodSpec goarch cfg ca of Inr s \<Rightarrow> s)"

lemma AutoscalerPodSpec_eq: "AutoscalerPodSpec goarch cfg ca = Inr (pod_spec goarch cfg ca)"
proof -
  have "\<exists>s. AutoscalerPodSpec goarch cfg ca = Inr s"
    by (simp add: AutoscalerPodSpec_def AutoscalerArgs_expected Let_def)
  then show ?thesis by (auto simp: pod_spec_def)
qed

lemma pod_spec_container:
  "\<exists>c. ps_Containers (pod_spec goarch cfg ca) = [c] \<and> ct_Image c = cc_Image cfg \<and>
     ct_Ports c = [\<lparr>cp_Name = ''metrics'', cp_ContainerPort = 8085\<rparr>] \<and>
     ct_Args c = expected_args cfg ca @ (if cc_ExtraArgs cfg = '''' then [] else [cc_ExtraArgs cfg]) \<and>
     (map_of (ct_Env c) CAPIDisableEnvVar = Some ''true'' \<longleftrightarrow> \<not> capi_enabled cfg)"
  by (auto simp: pod_spec_def AutoscalerPodSpec_def AutoscalerArgs_expected Let_def
      CAPIDisableEnvVar_def CAPIScaleZeroDefaultArchEnvVar_def)

definition deployment :: "string \<Rightarrow> ca_config \<Rightarrow> ClusterAutoscaler \<Rightarrow> Deployment" where
  "deployment goarch cfg ca = (case AutoscalerDeployment goarch cfg ca of Inr d \<Rightarrow> d)"

lemma AutoscalerDeployment_eq: "AutoscalerDeployment goarch cfg ca = Inr (deployment goarch cfg ca)"
  by (simp add: deployment_def AutoscalerDeployment_def AutoscalerPodSpec_eq Let_def)

lemma deployment_simps [simp]:
  "ko_key (deployment goarch cfg ca) = AutoscalerName cfg ca"
  "ko_deletion (deployment goarch cfg ca) = None"
  "om_ownerReferences (ko_meta (deployment goarch cfg ca)) = []"
  "dp_Selector (ko_spec (deployment goarch cfg ca)) = autoscaler_labels ca"
  "dp_Replicas (ko_spec (deployment goarch cfg ca)) = Some (cc_Replicas cfg)"
  "pt_Labels (dp_Template (ko_spec (deployment goarch cfg ca))) = autoscaler_labels ca"
  "pt_Spec (dp_Template (ko_spec (deployment goarch cfg ca))) = pod_spec goarch cfg ca"
  by (simp_all add: deployment_def AutoscalerDeployment_def AutoscalerPodSpec_eq Let_def ko_key_def
      meta_key_def ko_deletion_def empty_meta_def AutoscalerName_def)

lemma deployment_annotations:
  "map_get (om_annotations (ko_meta (deployment goarch cfg ca))) ReleaseVersionAnnotation =
     Some (cc_ReleaseVersion cfg)"
  "map_get (pt_Annotations (dp_Template (ko_spec (deployment goarch cfg ca)))) ReleaseVersionAnnotation =
     Some (cc_ReleaseVersion cfg)"
  by (simp_all add: deployment_def AutoscalerDeployment_def AutoscalerPodSpec_eq Let_def map_get_def
      CriticalPodAnnotation_def ReleaseVersionAnnotation_def)

text \<open>
  C23: for every resource and configuration the deployment is composed without an error, its
  selector selects its own pods, and the metrics of those pods reach the alerts: the service
  selects the pods and targets a port the container names, the service monitor selects the
  service in its namespace and scrapes a port the service names, and the two alerts about
  the autoscaler itself name the service; the container runs the configured image with the
  composed command line and is told to disable Cluster API exactly where that is not enabled.
\<close>

theorem workload_consistent:
  "\<exists>d c. AutoscalerDeployment goarch cfg ca = Inr d \<and>
     ps_Containers (pt_Spec (dp_Template (ko_spec d))) = [c] \<and>
     (let pod_labels = pt_Labels (dp_Template (ko_spec d));
          svc = AutoscalerService cfg ca; mon = AutoscalerServiceMonitor cfg ca;
          rules = concat (map rg_Rules (ko_spec (AutoscalerPrometheusRule cfg ca))) in
      selects (dp_Selector (ko_spec d)) pod_labels \<and>
      selects (sv_Selector (ko_spec svc)) pod_labels \<and>
      (\<exists>p cp. sv_Ports (ko_spec svc) = [p] \<and> ct_Ports c = [cp] \<and>
         sp_TargetPort p = PortStr (cp_Name cp) \<and> sp_Port p = cp_ContainerPort cp \<and>
         map ep_Port (sm_Endpoints (ko_spec mon)) = [sp_Name p]) \<and>
      selects (sm_Selector (ko_spec mon)) (om_labels (ko_meta svc)) \<and>
      om_namespace (ko_meta svc) \<in> set (sm_MatchNames (ko_spec mon)) \<and>
      map al_Expr (take 2 rules) =
        [''cluster_autoscaler_unschedulable_pods_count{service='' @ dquote (om_name (ko_meta svc)) @ ''} > 0'',
         ''cluster_autoscaler_cluster_safe_to_autoscale{service='' @ dquote (om_name (ko_meta svc)) @ ''} != 1''] \<and>
      ct_Image c = cc_Image cfg \<and>
      ct_Args c = expected_args cfg ca @ (if cc_ExtraArgs cfg = '''' then [] else [cc_ExtraArgs cfg]) \<and>
      (map_of (ct_Env c) CAPIDisableEnvVar = Some ''true'' \<longleftrightarrow> \<not> capi_enabled cfg))"
proof -
  obtain c where c: "ps_Containers (pod_spec goarch cfg ca) = [c]" "ct_Image c = cc_Image cfg"
    "ct_Ports c = [\<lparr>cp_Name = ''metrics'', cp_ContainerPort = 8085\<rparr>]"
    "ct_Args c = expected_args cfg ca @ (if cc_ExtraArgs cfg = '''' then [] else [cc_ExtraArgs cfg])"
    "map_of (ct_Env c) CAPIDisableEnvVar = Some ''true'' \<longleftrightarrow> \<not> capi_enabled cfg"
    using pod_spec_container by blast
  show ?thesis
    by (intro exI [of _ "deployment goarch cfg ca"] exI [of _ c])
      (simp add: AutoscalerDeployment_eq c Let_def selects_def autoscaler_labels_def map_get_def
        AutoscalerService_def AutoscalerServiceMonitor_def AutoscalerPrometheusRule_def autoscaler_rules_def
        alert_def empty_meta_def)
qed

end
