(* ===== verification/CA_NetworkPolicies.thy ===== *)
theory CA_NetworkPolicies
  imports CA_Workload
begin

text \<open>
  The network policies of the autoscaler's pods
  (\<open>pkg/controller/clusterautoscaler/networkpolicies.go\<close>), and what they permit: the
  meaning of a set of policies, as the Kubernetes API documents it, for the traffic of one pod.
\<close>

section \<open>Policies\<close>

record NetworkPolicyPort =
  npp_Protocol :: "string option"
  npp_Port :: "intstr option"
  npp_EndPort :: "int32 option"

record NetworkPolicyPeer =
  npe_PodSelector :: "strmap option"
  npe_NamespaceSelector :: "strmap option"

text \<open>A rule for ingress or egress: ports, and the peers at the other end.\<close>

record NetworkPolicyRule =
  npr_Ports :: "NetworkPolicyPort list"
  npr_Peers :: "NetworkPolicyPeer list"

record NetworkPolicySpec =
  nps_PodSelector :: strmap
  nps_Ingress :: "NetworkPolicyRule list"
  nps_Egress :: "NetworkPolicyRule list"
  nps_PolicyTypes :: "string list"

type_synonym NetworkPolicy = "(NetworkPolicySpec, json, unit) kobject"

text \<open>\<open>intstr.FromInt\<close> truncates to 32 bits.\<close>

definition FromInt :: "int \<Rightarrow> intstr" where
  "FromInt val = PortInt (word_of_int val)"

definition makePort :: "string option \<Rightarrow> intstr \<Rightarrow> int32 \<Rightarrow> NetworkPolicyPort" where
  "makePort proto port endPort =
     \<lparr>npp_Protocol = proto,
      npp_Port =
        (if port \<noteq> PortInt 0 \<and> port \<noteq> PortStr '''' \<and> port \<noteq> PortStr ''0'' then Some port else None),
      npp_EndPort = (if endPort \<noteq> 0 then Some endPort else None)\<rparr>"

definition network_policy :: "ca_config \<Rightarrow> ClusterAutoscaler \<Rightarrow> string \<Rightarrow> NetworkPolicyRule list \<Rightarrow>
    NetworkPolicyRule list \<Rightarrow> string list \<Rightarrow> NetworkPolicy" where
  "network_policy cfg ca suffix ingress egress types =
     (let namespacedName = AutoscalerName cfg ca in
      \<lparr>ko_meta = empty_meta
         \<lparr>om_name := nn_name namespacedName @ suffix, om_namespace := nn_namespace namespacedName\<rparr>,
       ko_spec =
         \<lparr>nps_PodSelector = autoscaler_labels ca, nps_Ingress = ingress, nps_Egress = egress,
          nps_PolicyTypes = types\<rparr>,
       ko_rest = JNull, ko_status = ()\<rparr>)"

definition AutoscalerNetworkPolicies :: "ca_config \<Rightarrow> ClusterAutoscaler \<Rightarrow> NetworkPolicy list" where
  "AutoscalerNetworkPolicies cfg ca =
     (let protocolTCP = ''TCP''; protocolUDP = ''UDP'' in
      [network_policy cfg ca ''-default-deny'' [] [] [''Egress'', ''Ingress''],
       network_policy cfg ca ''-allow-egress-to-dns'' []
         [\<lparr>npr_Ports = [makePort (Some protocolTCP) (PortInt 5353) 0, makePort (Some protocolUDP) (PortInt 5353) 0],
           npr_Peers =
             [\<lparr>npe_PodSelector = Some (Some [(''dns.operator.openshift.io/daemonset-dns'', ''default'')]),
               npe_NamespaceSelector = Some (Some [(''kubernetes.io/metadata.name'', ''openshift-dns'')])\<rparr>]\<rparr>]
         [''Egress''],
       network_policy cfg ca ''-allow-egress-to-api-server'' []
         [\<lparr>npr_Ports = [makePort (Some protocolTCP) (PortInt 6443) 0], npr_Peers = []\<rparr>]
         [''Egress''],
       network_policy cfg ca ''-allow-ingress-to-webhooks''
         [\<lparr>npr_Ports = [makePort (Some protocolTCP) (FromInt (cc_WebhooksPort cfg)) 0], npr_Peers = []\<rparr>] []
         [''Ingress''],
       network_policy cfg ca ''-allow-ingress-to-metrics''
         [\<lparr>npr_Ports = [makePort (Some protocolTCP) (PortInt 8085) 0], npr_Peers = []\<rparr>] []
         [''Ingress'']])"

section \<open>What a set of policies permits\<close>

text \<open>
  The other end of a connection, in a namespace with labels; the port is a number.  A rule
  without ports permits all ports and one without peers all peers; traffic of a direction is
  permitted where no policy that selects the pod has that direction, or where a rule of one
  that has it permits it.
\<close>

record peer =
  pr_pod :: strmap
  pr_namespace :: strmap

definition port_permits :: "NetworkPolicyPort \<Rightarrow> string \<Rightarrow> int \<Rightarrow> bool" where
  "port_permits p proto n \<longleftrightarrow>
     (case npp_Protocol p of None \<Rightarrow> proto = ''TCP'' | Some q \<Rightarrow> proto = q) \<and>
     (case npp_Port p of
        None \<Rightarrow> True
      | Some (PortInt m) \<Rightarrow>
          (case npp_EndPort p of None \<Rightarrow> n = sint m | Some e \<Rightarrow> sint m \<le> n \<and> n \<le> sint e)
      | Some (PortStr _) \<Rightarrow> False)"

definition peer_permits :: "NetworkPolicyPeer \<Rightarrow> peer \<Rightarrow> bool" where
  "peer_permits e p \<longleftrightarrow>
     (case npe_PodSelector e of None \<Rightarrow> True | Some s \<Rightarrow> selects s (pr_pod p)) \<and>
     (case npe_NamespaceSelector e of None \<Rightarrow> True | Some s \<Rightarrow> selects s (pr_namespace p))"

definition rule_permits :: "NetworkPolicyRule \<Rightarrow> peer \<Rightarrow> string \<Rightarrow> int \<Rightarrow> bool" where
  "rule_permits r p proto n \<longleftrightarrow>
     (npr_Ports r = [] \<or> list_ex (\<lambda>pt. port_permits pt proto n) (npr_Ports r)) \<and>
     (npr_Peers r = [] \<or> list_ex (\<lambda>e. peer_permits e p) (npr_Peers r))"

definition permits ::
    "string \<Rightarrow> (NetworkPolicySpec \<Rightarrow> NetworkPolicyRule list) \<Rightarrow> NetworkPolicySpec list \<Rightarrow> strmap \<Rightarrow> peer \<Rightarrow>
     string \<Rightarrow> int \<Rightarrow> bool" where
  "permits direction rules policies pod p proto n \<longleftrightarrow>
     (let applying = filter (\<lambda>s. selects (nps_PodSelector s) pod \<and> direction \<in> set (nps_PolicyTypes s)) policies
      in applying = [] \<or> list_ex (\<lambda>s. list_ex (\<lambda>r. rule_permits r p proto n) (rules s)) applying)"

lemma selects_Some: "selects (Some al) labels \<longleftrightarrow> list_all (\<lambda>(k, v). map_get labels k = Some v) al"
  by (simp add: selects_def)

lemma port_permits_makePort:
  "port_permits (makePort (Some q) (PortInt m) 0) proto n \<longleftrightarrow> proto = q \<and> (m = 0 \<or> n = sint m)"
  by (auto simp: port_permits_def makePort_def)

text \<open>
  C12: the policies leave the pods of the deployment exactly these connections: into them TCP
  to the metrics port 8085 and to the configured webhook port (every TCP port where that is
  zero in 32 bits); out of them TCP to port 6443 anywhere, and port 5353 in TCP and UDP to
  the pods of the cluster's DNS.
\<close>

theorem network_policies_exact:
  "let policies = map ko_spec (AutoscalerNetworkPolicies cfg ca);
       pod = pt_Labels (dp_Template (ko_spec (deployment goarch cfg ca))) in
    (permits ''Ingress'' nps_Ingress policies pod p proto n \<longleftrightarrow>
      proto = ''TCP'' \<and>
      (n = 8085 \<or> n = sint (word_of_int (cc_WebhooksPort cfg) :: int32) \<or>
       (word_of_int (cc_WebhooksPort cfg) :: int32) = 0)) \<and>
    (permits ''Egress'' nps_Egress policies pod p proto n \<longleftrightarrow>
      (proto = ''TCP'' \<and> n = 6443) \<or>
      (proto \<in> {''TCP'', ''UDP''} \<and> n = 5353 \<and>
       map_get (pr_pod p) ''dns.operator.openshift.io/daemonset-dns'' = Some ''default'' \<and>
       map_get (pr_namespace p) ''kubernetes.io/metadata.name'' = Some ''openshift-dns''))"
proof -
  have sel: "selects (autoscaler_labels ca) (autoscaler_labels ca)"
    by (simp add: selects_def autoscaler_labels_def map_get_def)
  show ?thesis
    by (auto simp: AutoscalerNetworkPolicies_def network_policy_def Let_def permits_def sel
        rule_permits_def port_permits_makePort peer_permits_def selects_Some FromInt_def)
qed

end
