(* ===== verification/Go_Float.thy ===== *)
theory Go_Float
  imports Go_Strings "HOL-Library.Log_Nat"
begin

text \<open>
  The parts of Go's standard library the validators use on numbers in strings: IEEE 754
  double precision (\<open>round64\<close>, round to nearest, ties to even), \<open>strconv.ParseFloat\<close> and
  \<open>time.ParseDuration\<close>.  A finite float is its exact rational value; the two zeros are
  not told apart, as no comparison of the source does.
\<close>

section \<open>Double precision\<close>

datatype float64 = Finite rat | Infinite bool \<comment> \<open>negative\<close> | NotANumber

text \<open>The largest \<open>k\<close> with \<open>2 ^ k \<le> x\<close>, for \<open>x > 0\<close>.\<close>

definition log2_floor :: "rat \<Rightarrow> int" where
  "log2_floor x = (if x \<ge> 1 then bitlen \<lfloor>x\<rfloor> - 1 else - bitlen (\<lceil>1 / x\<rceil> - 1))"

definition round_even :: "rat \<Rightarrow> int" where
  "round_even y =
     (let f = \<lfloor>y\<rfloor>; d = y - of_int f
      in if d < 1 / 2 then f else if 1 / 2 < d then f + 1 else if even f then f else f + 1)"

text \<open>A positive rational: 53 bits, no finer than \<open>2 ^ -1074\<close>, and infinite from \<open>2 ^ 1024\<close>.\<close>

definition round_pos :: "rat \<Rightarrow> rat" where
  "round_pos x =
     (let e = max (log2_floor x - 52) (- 1074)
      in of_int (round_even (x / 2 powi e)) * 2 powi e)"

definition round64 :: "rat \<Rightarrow> float64" where
  "round64 x =
     (if x = 0 then Finite 0
      else let v = round_pos \<bar>x\<bar>
           in if v \<ge> 2 ^ 1024 then Infinite (x < 0) else Finite (if x < 0 then - v else v))"

lemma log2_floor_bounds:
  assumes "0 < x"
  shows "2 powi log2_floor x \<le> x" "x < 2 powi (log2_floor x + 1)"
proof -
  have "2 powi log2_floor x \<le> x \<and> x < 2 powi (log2_floor x + 1)"
  proof (cases "x \<ge> 1")
    case True
    then have f: "\<lfloor>x\<rfloor> \<ge> 1" by simp
    define b where "b = bitlen \<lfloor>x\<rfloor>"
    have b: "b \<ge> 1" using f bitlen_eq_zero_iff [of "\<lfloor>x\<rfloor>"] bitlen_nonneg [of "\<lfloor>x\<rfloor>"] by (simp add: b_def)
    from bitlen_bounds [of "\<lfloor>x\<rfloor>"] f
    have bb: "2 ^ nat (b - 1) \<le> \<lfloor>x\<rfloor>" "\<lfloor>x\<rfloor> < 2 ^ nat b" by (simp_all add: b_def)
    from bb(1) have "(2::rat) ^ nat (b - 1) \<le> x" by (simp add: le_floor_iff)
    moreover from bb(2) have "x < 2 ^ nat b" by (simp add: floor_less_iff)
    ultimately show ?thesis using True b
      by (simp add: log2_floor_def power_int_def flip: b_def)
  next
    case False
    define c where "c = \<lceil>1 / x\<rceil>"
    define b where "b = bitlen (c - 1)"
    have c: "c \<ge> 2" using False assms by (simp add: c_def le_ceiling_iff)
    have b: "b \<ge> 1" using c bitlen_eq_zero_iff [of "c - 1"] bitlen_nonneg [of "c - 1"] by (simp add: b_def)
    from bitlen_bounds [of "c - 1"] c
    have bb: "2 ^ nat (b - 1) \<le> c - 1" "c \<le> 2 ^ nat b" by (simp_all add: b_def)
    from bb(2) have "1 / x \<le> 2 ^ nat b" by (simp add: c_def ceiling_le_iff)
    then have 1: "1 / 2 ^ nat b \<le> x" using assms by (simp add: field_simps)
    from bb(1) have "2 ^ nat (b - 1) < 1 / x"
      using less_ceiling_iff [of "2 ^ nat (b - 1)" "1 / x"] by (simp add: c_def)
    then have "x < 1 / 2 ^ nat (b - 1)" using assms by (simp add: field_simps)
    with 1 False b show ?thesis
      by (simp add: log2_floor_def power_int_def inverse_eq_divide power_one_over flip: c_def b_def)
  qed
  then show "2 powi log2_floor x \<le> x" "x < 2 powi (log2_floor x + 1)" by simp_all
qed

lemma round_even_le: "round_even y \<le> n \<longleftrightarrow> y < of_int n + 1 / 2 \<or> (y = of_int n + 1 / 2 \<and> even n)"
proof -
  define f where "f = \<lfloor>y\<rfloor>"
  have f: "of_int f \<le> y" "y < of_int f + 1" unfolding f_def by linarith+
  consider "f < n" | "f = n" | "n < f" by linarith
  then show ?thesis
  proof cases
    case 1
    then have "of_int f + 1 \<le> (of_int n :: rat)" by linarith
    with f have "y < of_int n + 1 / 2" by linarith
    moreover have "round_even y \<le> n" using 1 by (simp add: round_even_def Let_def flip: f_def)
    ultimately show ?thesis by simp
  next
    case 2
    then show ?thesis using f by (auto simp: round_even_def Let_def simp flip: f_def)
  next
    case 3
    then have "of_int n + 1 \<le> (of_int f :: rat)" by linarith
    with f have "\<not> (y < of_int n + 1 / 2 \<or> (y = of_int n + 1 / 2 \<and> even n))" by linarith
    moreover have "\<not> round_even y \<le> n" using 3 by (simp add: round_even_def Let_def flip: f_def)
    ultimately show ?thesis by simp
  qed
qed

lemma round_even_ge: "n \<le> round_even y \<longleftrightarrow> of_int n - 1 / 2 < y \<or> (y = of_int n - 1 / 2 \<and> even n)"
  using round_even_le [of y "n - 1"] by (auto simp: not_less algebra_simps)

text \<open>Where rounding reaches zero and one: the comparisons the validator makes.\<close>

lemma powi_le_iff: "2 powi m \<le> (2 powi n :: rat) \<longleftrightarrow> m \<le> n"
  using power_int_increasing [of m n "2::rat"] power_int_strict_increasing [of n m "2::rat"]
  by (meson leD leI one_le_numeral one_less_numeral_iff semiring_norm(76))

lemma round_pos_le_zero:
  assumes "0 < x"
  shows "round_pos x \<le> 0 \<longleftrightarrow> x \<le> 2 powi (- 1075)"
proof (cases "log2_floor x \<le> - 1022")
  case True
  then have "round_pos x \<le> 0 \<longleftrightarrow> round_even (x / 2 powi (- 1074)) \<le> 0"
    by (simp add: round_pos_def max_def mult_le_0_iff zero_less_power_int not_le)
  also have "\<dots> \<longleftrightarrow> x \<le> 2 powi (- 1074) / 2"
    by (simp add: round_even_le zero_less_power_int divide_less_eq divide_eq_eq) linarith
  finally show ?thesis by (simp add: power_int_minus)
next
  case False
  define e where "e = log2_floor x - 52"
  have em: "max e (- 1074) = e" using False by (simp add: e_def)
  have le: "2 powi log2_floor x \<le> x" using assms by (rule log2_floor_bounds)
  have "2 powi 52 \<le> x / 2 powi e"
    using le by (simp add: e_def field_simps zero_less_power_int power_int_diff)
  moreover have "(1 / 2 :: rat) < 2 powi 52" by simp
  ultimately have "1 / 2 < x / 2 powi e" by (rule order_less_le_trans [rotated])
  then have "1 \<le> round_even (x / 2 powi e)" by (subst round_even_ge) simp
  then have "\<not> round_pos x \<le> 0"
    by (simp add: round_pos_def em mult_le_0_iff zero_less_power_int not_le flip: e_def)
  moreover have "2 powi (- 1075) < x"
  proof -
    have "(2 powi (- 1075) :: rat) < 2 powi log2_floor x"
      using False powi_le_iff [of "log2_floor x" "- 1075"] by linarith
    with le show ?thesis by (rule order_less_le_trans [rotated])
  qed
  ultimately show ?thesis by simp
qed

lemma round_pos_ge_one:
  assumes "0 < x"
  shows "1 \<le> round_pos x \<longleftrightarrow> 1 - 2 powi (- 54) \<le> x"
proof -
  note b = log2_floor_bounds [OF assms]
  consider "log2_floor x \<ge> 0" | "log2_floor x = - 1" | "log2_floor x \<le> - 2" by linarith
  then show ?thesis
  proof cases
    case 1
    define e where "e = log2_floor x - 52"
    have e: "max (log2_floor x - 52) (- 1074) = e" using 1 by (simp add: e_def)
    have "of_int (2 ^ 52) \<le> x / 2 powi e"
      using b(1) by (simp add: e_def field_simps zero_less_power_int power_int_diff)
    then have "of_int (2 ^ 52) - 1 / 2 < x / 2 powi e" by linarith
    then have "2 ^ 52 \<le> round_even (x / 2 powi e)" by (subst round_even_ge) blast
    then have "(2 ^ 52 :: rat) \<le> of_int (round_even (x / 2 powi e))"
      using of_int_le_iff [of "2 ^ 52" "round_even (x / 2 powi e)", where 'a = rat] by simp
    then have "2 ^ 52 * 2 powi e \<le> round_pos x"
      by (simp add: round_pos_def e zero_less_power_int)
    moreover have "(2 ^ 52 * 2 powi e :: rat) = 2 powi log2_floor x"
      by (simp add: e_def power_int_diff)
    moreover have "1 \<le> (2 powi log2_floor x :: rat)" using 1 by (simp add: one_le_power_int)
    ultimately have "1 \<le> round_pos x" "1 \<le> x" using b(1) by linarith+
    then show ?thesis by (simp add: power_int_minus)
  next
    case 2
    then have "round_pos x = of_int (round_even (x * 2 ^ 53)) / 2 ^ 53"
      by (simp add: round_pos_def power_int_minus divide_simps)
    then have "1 \<le> round_pos x \<longleftrightarrow> of_int (2 ^ 53) \<le> (of_int (round_even (x * 2 ^ 53)) :: rat)"
      by (simp only: le_divide_eq) simp
    then have "1 \<le> round_pos x \<longleftrightarrow> 2 ^ 53 \<le> round_even (x * 2 ^ 53)" by (simp only: of_int_le_iff)
    also have "\<dots> \<longleftrightarrow> 2 ^ 53 - 1 / 2 \<le> x * 2 ^ 53" by (simp add: round_even_ge) linarith
    finally show ?thesis by (simp add: power_int_minus mult.commute)
  next
    case 3
    define e where "e = max (log2_floor x - 52) (- 1074)"
    have e: "log2_floor x + 1 \<le> 53 + e" "e \<le> - 54" using 3 by (auto simp: e_def)
    have "x < 2 powi (53 + e)"
      using b(2) e(1) powi_le_iff [of "log2_floor x + 1" "53 + e"] by linarith
    then have "x / 2 powi e < 2 ^ 53"
      by (simp add: divide_less_eq zero_less_power_int power_int_add)
    then have "x / 2 powi e < of_int (2 ^ 53) + 1 / 2" by (rule order_less_trans) simp
    then have "round_even (x / 2 powi e) \<le> 2 ^ 53" by (simp only: round_even_le simp_thms)
    then have "round_pos x \<le> 2 ^ 53 * 2 powi e"
      by (simp add: round_pos_def zero_less_power_int flip: e_def)
    also have "\<dots> = 2 powi (53 + e)" by (simp add: power_int_add)
    also have "\<dots> \<le> 2 powi (- 1)" using e(2) by (simp only: powi_le_iff)
    finally have "round_pos x < 1" by (simp add: power_int_minus)
    moreover have "x < 2 powi (- 1)"
      using b(2) 3 powi_le_iff [of "log2_floor x + 1" "- 1"] by linarith
    ultimately show ?thesis by (simp add: power_int_minus)
  qed
qed

text \<open>A rational that rounds strictly between zero and one.\<close>

definition in_unit :: "float64 \<Rightarrow> bool" where
  "in_unit v \<longleftrightarrow> (case v of Finite r \<Rightarrow> 0 < r \<and> r < 1 | Infinite _ \<Rightarrow> False | NotANumber \<Rightarrow> False)"

lemma round_pos_nonneg: "0 < x \<Longrightarrow> 0 \<le> round_pos x"
proof -
  assume "0 < x"
  then have "0 < x / 2 powi max (log2_floor x - 52) (- 1074)" by (simp add: zero_less_power_int)
  then have "0 \<le> round_even (x / 2 powi max (log2_floor x - 52) (- 1074))" by (subst round_even_ge) simp
  then show ?thesis by (simp add: round_pos_def Let_def)
qed

lemma round64_in_unit: "in_unit (round64 x) \<longleftrightarrow> 2 powi (- 1075) < x \<and> x < 1 - 2 powi (- 54)"
proof -
  consider "x = 0" | "x < 0" | "0 < x" by linarith
  then show ?thesis
  proof cases
    case 2
    then have "0 \<le> round_pos (- x)" by (intro round_pos_nonneg) simp
    with 2 show ?thesis
      by (auto simp: round64_def in_unit_def Let_def power_int_minus)
  next
    case 3
    have "in_unit (round64 x) \<longleftrightarrow> \<not> round_pos x \<le> 0 \<and> \<not> 1 \<le> round_pos x"
      using 3 by (auto simp: round64_def in_unit_def Let_def)
    also have "\<dots> \<longleftrightarrow> 2 powi (- 1075) < x \<and> x < 1 - 2 powi (- 54)"
      by (simp only: round_pos_le_zero [OF 3] round_pos_ge_one [OF 3] not_le)
    finally show ?thesis .
  qed (simp add: round64_def in_unit_def power_int_minus)
qed

section \<open>\<open>strconv.ParseFloat\<close>\<close>

definition lower :: "char \<Rightarrow> char" where
  "lower c =
     (if 65 \<le> (of_char c :: nat) \<and> (of_char c :: nat) \<le> 90 then char_of (of_char c + 32 :: nat) else c)"

definition is_sign :: "char \<Rightarrow> bool" where
  "is_sign c \<longleftrightarrow> c = CHR ''+'' \<or> c = CHR ''-''"

definition strip_sign :: "string \<Rightarrow> bool \<times> string" where
  "strip_sign s =
     (case s of [] \<Rightarrow> (False, []) | c # r \<Rightarrow> if is_sign c then (c = CHR ''-'', r) else (False, s))"

definition hex_digit :: "char \<Rightarrow> bool" where
  "hex_digit c \<longleftrightarrow> 97 \<le> (of_char (lower c) :: nat) \<and> (of_char (lower c) :: nat) \<le> 102"

text \<open>\<open>special\<close>: infinities and NaN, in any case, over the whole string.\<close>

definition parse_special :: "string \<Rightarrow> float64 option" where
  "parse_special s =
     (let (neg, r) = strip_sign s; l = map lower r
      in if l = ''inf'' \<or> l = ''infinity'' then Some (Infinite neg)
         else if map lower s = ''nan'' then Some NotANumber else None)"

text \<open>\<open>underscoreOK\<close>; the state is the last byte seen: \<open>^\<close>, \<open>0\<close>, \<open>_\<close> or \<open>!\<close>.\<close>

fun underscore_loop :: "bool \<Rightarrow> char \<Rightarrow> string \<Rightarrow> bool" where
  "underscore_loop hex i [] \<longleftrightarrow> i \<noteq> CHR ''_''"
| "underscore_loop hex i (c # s) \<longleftrightarrow>
     (if is_digit c \<or> (hex \<and> hex_digit c) then underscore_loop hex (CHR ''0'') s
      else if c = CHR ''_'' then i = CHR ''0'' \<and> underscore_loop hex (CHR ''_'') s
      else i \<noteq> CHR ''_'' \<and> underscore_loop hex (CHR ''!'') s)"

definition underscoreOK :: "string \<Rightarrow> bool" where
  "underscoreOK s \<longleftrightarrow>
     (let r = snd (strip_sign s) in
      case r of
        z # x # r' \<Rightarrow>
          if z = CHR ''0'' \<and> lower x \<in> {CHR ''b'', CHR ''o'', CHR ''x''}
          then underscore_loop (lower x = CHR ''x'') (CHR ''0'') r'
          else underscore_loop False (CHR ''^'') r
      | _ \<Rightarrow> underscore_loop False (CHR ''^'') r)"

text \<open>
  The mantissa loop of \<open>readFloat\<close>: the digits seen as one number, how many of them follow
  the point, whether there were a point and any digit, and what is left.
\<close>

fun mantissa_loop :: "nat \<Rightarrow> string \<Rightarrow> nat \<Rightarrow> nat \<Rightarrow> bool \<Rightarrow> bool \<Rightarrow> nat \<times> nat \<times> bool \<times> string" where
  "mantissa_loop base [] m fd sawdot sawdigits = (m, fd, sawdigits, [])"
| "mantissa_loop base (c # s) m fd sawdot sawdigits =
     (if c = CHR ''_'' then mantissa_loop base s m fd sawdot sawdigits
      else if c = CHR ''.'' then
        (if sawdot then (m, fd, sawdigits, c # s) else mantissa_loop base s m fd True sawdigits)
      else if is_digit c then
        mantissa_loop base s (m * base + digit_val c) (if sawdot then Suc fd else fd) sawdot True
      else if base = 16 \<and> hex_digit c then
        mantissa_loop base s (m * base + (of_char (lower c) - 97 + 10)) (if sawdot then Suc fd else fd)
          sawdot True
      else (m, fd, sawdigits, c # s))"

fun exponent_loop :: "string \<Rightarrow> int \<Rightarrow> int \<times> string" where
  "exponent_loop [] e = (e, [])"
| "exponent_loop (c # s) e =
     (if c = CHR ''_'' then exponent_loop s e
      else if is_digit c then exponent_loop s (if e < 10000 then e * 10 + int (digit_val c) else e)
      else (e, c # s))"

text \<open>The optional exponent: its value and the rest; nothing where it is malformed.\<close>

definition read_exponent :: "bool \<Rightarrow> string \<Rightarrow> (int \<times> string) option" where
  "read_exponent hex s =
     (case s of
        c # r \<Rightarrow>
          if lower c = (if hex then CHR ''p'' else CHR ''e'') then
            (let (neg, d) = strip_sign r in
             case d of
               [] \<Rightarrow> None
             | x # _ \<Rightarrow>
                 if is_digit x
                 then (let (e, rest) = exponent_loop d 0 in Some (if neg then - e else e, rest))
                 else None)
          else if hex then None else Some (0, s)
      | [] \<Rightarrow> if hex then None else Some (0, []))"

text \<open>\<open>readFloat\<close>: the exact value of a well-formed number and what follows it.\<close>

definition readFloat :: "string \<Rightarrow> (rat \<times> string) option" where
  "readFloat s =
     (let (neg, r) = strip_sign s;
          (hex, r) = (case r of
                        z # x # y # r' \<Rightarrow>
                          if z = CHR ''0'' \<and> lower x = CHR ''x'' then (True, y # r') else (False, r)
                      | _ \<Rightarrow> (False, r));
          (m, fd, sawdigits, r) = mantissa_loop (if hex then 16 else 10) r 0 0 False False
      in if \<not> sawdigits then None
         else case read_exponent hex r of
           None \<Rightarrow> None
         | Some (e, rest) \<Rightarrow>
             (let v = of_nat m *
                  (if hex then 2 powi (e - 4 * int fd) else 10 powi (e - int fd))
              in if \<not> underscoreOK (take (length s - length rest) s) then None
                 else Some (if neg then - v else v, rest)))"

text \<open>The value and the error, which Go returns together.\<close>

definition ParseFloat :: "string \<Rightarrow> float64 \<times> go_error option" where
  "ParseFloat s =
     (case parse_special s of
        Some f \<Rightarrow> (f, None)
      | None \<Rightarrow>
          case readFloat s of
            Some (v, []) \<Rightarrow>
              (case round64 v of
                 Infinite n \<Rightarrow> (Infinite n, Some (num_error ''ParseFloat'' s ''value out of range''))
               | f \<Rightarrow> (f, None))
          | _ \<Rightarrow> (Finite 0, Some (num_error ''ParseFloat'' s ''invalid syntax'')))"

section \<open>\<open>time.ParseDuration\<close>\<close>

text \<open>Products and quotients of the non-negative floats the parser computes with.\<close>

fun float_mul :: "float64 \<Rightarrow> float64 \<Rightarrow> float64" where
  "float_mul (Finite a) (Finite b) = round64 (a * b)"
| "float_mul (Finite a) (Infinite n) = (if a = 0 then NotANumber else Infinite ((a < 0) \<noteq> n))"
| "float_mul (Infinite n) (Finite b) = (if b = 0 then NotANumber else Infinite ((b < 0) \<noteq> n))"
| "float_mul (Infinite m) (Infinite n) = Infinite (m \<noteq> n)"
| "float_mul _ _ = NotANumber"

fun float_div :: "float64 \<Rightarrow> float64 \<Rightarrow> float64" where
  "float_div (Finite a) (Finite b) =
     (if b = 0 then (if a = 0 then NotANumber else Infinite (a < 0)) else round64 (a / b))"
| "float_div (Finite a) (Infinite n) = Finite 0"
| "float_div (Infinite m) (Finite b) = Infinite (m \<noteq> (b < 0))"
| "float_div _ _ = NotANumber"

text \<open>\<open>uint64(f)\<close> truncates; the parser only converts finite values below \<open>2 ^ 64\<close>, as a
  fraction is less than the unit, up to rounding.\<close>

definition uint64_of :: "float64 \<Rightarrow> nat" where
  "uint64_of f = (case f of Finite r \<Rightarrow> nat \<lfloor>r\<rfloor> | Infinite _ \<Rightarrow> 0 | NotANumber \<Rightarrow> 0)"

text \<open>\<open>leadingInt\<close>: \<open>None\<close> on overflow.\<close>

fun leadingInt :: "string \<Rightarrow> nat \<Rightarrow> (nat \<times> string) option" where
  "leadingInt [] x = Some (x, [])"
| "leadingInt (c # s) x =
     (if \<not> is_digit c then Some (x, c # s)
      else if x > 2 ^ 63 div 10 then None
      else if x * 10 + digit_val c > 2 ^ 63 then None
      else leadingInt s (x * 10 + digit_val c))"

text \<open>\<open>leadingFraction\<close>: digits that would overflow are skipped.\<close>

fun leadingFraction :: "string \<Rightarrow> nat \<Rightarrow> float64 \<Rightarrow> bool \<Rightarrow> nat \<times> float64 \<times> string" where
  "leadingFraction [] x scale overflow = (x, scale, [])"
| "leadingFraction (c # s) x scale overflow =
     (if \<not> is_digit c then (x, scale, c # s)
      else if overflow then leadingFraction s x scale True
      else if x > (2 ^ 63 - 1) div 10 then leadingFraction s x scale True
      else if x * 10 + digit_val c > 2 ^ 63 then leadingFraction s x scale True
      else leadingFraction s (x * 10 + digit_val c) (float_mul scale (Finite 10)) False)"

definition unitMap :: "string \<Rightarrow> nat option" where
  "unitMap = map_of
     [(''ns'', 1), (''us'', 1000),
      ([CHR 0xC2, CHR 0xB5, CHR ''s''], 1000), \<comment> \<open>U+00B5, micro symbol\<close>
      ([CHR 0xCE, CHR 0xBC, CHR ''s''], 1000), \<comment> \<open>U+03BC, Greek letter mu\<close>
      (''ms'', 1000000), (''s'', 1000000000), (''m'', 60000000000), (''h'', 3600000000000)]"

definition invalid_duration :: "string \<Rightarrow> go_error" where
  "invalid_duration orig = GoError ''time: invalid duration %s'' [ArgS orig]"

definition unit_char :: "char \<Rightarrow> bool" where
  "unit_char c \<longleftrightarrow> c \<noteq> CHR ''.'' \<and> \<not> is_digit c"

text \<open>One round of the loop: a number and its unit, in nanoseconds, and the rest.\<close>

definition duration_component :: "string \<Rightarrow> string \<Rightarrow> go_error + (nat \<times> string)" where
  "duration_component orig s =
     (if s = [] \<or> unit_char (hd s) then Inl (invalid_duration orig)
      else case leadingInt s 0 of
        None \<Rightarrow> Inl (invalid_duration orig)
      | Some (v, s1) \<Rightarrow>
          (let pre = (length s \<noteq> length s1);
               point = (s1 \<noteq> [] \<and> hd s1 = CHR ''.'');
               (f, scale, s2) = (if point then leadingFraction (tl s1) 0 (Finite 1) False else (0, Finite 1, s1));
               post = (point \<and> length (tl s1) \<noteq> length s2)
           in if \<not> pre \<and> \<not> post then Inl (invalid_duration orig)
              else
                (let u = takeWhile unit_char s2; s3 = dropWhile unit_char s2
                 in if u = [] then Inl (GoError ''time: missing unit in duration %s'' [ArgS orig])
                    else case unitMap u of
                      None \<Rightarrow> Inl (GoError ''time: unknown unit %s in duration %s'' [ArgS u, ArgS orig])
                    | Some unit \<Rightarrow>
                        if v > 2 ^ 63 div unit then Inl (invalid_duration orig)
                        else
                          (let v = v * unit;
                               v = (if f > 0
                                    then v + uint64_of (float_mul (round64 (of_nat f))
                                                          (float_div (Finite (of_nat unit)) scale))
                                    else v)
                           in if f > 0 \<and> v > 2 ^ 63 then Inl (invalid_duration orig)
                              else Inr (v, s3)))))"

lemma leadingInt_length: "leadingInt s x = Some (v, r) \<Longrightarrow> length r \<le> length s"
  by (induction s arbitrary: x) (auto split: if_splits intro: le_SucI)

lemma leadingFraction_length: "leadingFraction s x sc ov = (f, sc', r) \<Longrightarrow> length r \<le> length s"
  by (induction s arbitrary: x sc ov) (fastforce split: if_splits)+

lemma duration_component_length:
  assumes "duration_component orig s = Inr (v, r)"
  shows "length r < length s"
proof -
  obtain v0 s1 where s1: "leadingInt s 0 = Some (v0, s1)" and ne: "s \<noteq> []"
    using assms by (auto simp: duration_component_def split: if_splits option.splits)
  obtain f sc s2 where s2: "(if s1 \<noteq> [] \<and> hd s1 = CHR ''.'' then leadingFraction (tl s1) 0 (Finite 1) False
      else (0, Finite 1, s1)) = (f, sc, s2)" by (cases "if s1 \<noteq> [] \<and> hd s1 = CHR ''.'' then leadingFraction (tl s1) 0 (Finite 1) False
      else (0, Finite 1, s1)") auto
  have "takeWhile unit_char s2 \<noteq> [] \<and> r = dropWhile unit_char s2"
    using assms s1 s2 unfolding duration_component_def
    by (auto simp: Let_def split: if_splits option.splits prod.splits)
  then have "length r < length s2"
    by (metis length_append length_greater_0_conv less_add_same_cancel2 takeWhile_dropWhile_id)
  moreover have "length s2 \<le> length s1"
    using s2 leadingFraction_length [of "tl s1" 0 "Finite 1" False f sc s2]
    by (auto split: if_splits)
  ultimately show ?thesis using leadingInt_length [OF s1] by linarith
qed

text \<open>The sum is of 64-bit unsigned integers.\<close>

function duration_loop :: "string \<Rightarrow> string \<Rightarrow> nat \<Rightarrow> go_error + nat" where
  "duration_loop orig s d =
     (if s = [] then Inr d
      else case duration_component orig s of
        Inl e \<Rightarrow> Inl e
      | Inr (v, r) \<Rightarrow>
          if (d + v) mod 2 ^ 64 > 2 ^ 63 then Inl (invalid_duration orig)
          else duration_loop orig r ((d + v) mod 2 ^ 64))"
  by pat_completeness auto
termination
  by (relation "measure (\<lambda>(_, s, _). length s)") (auto intro: duration_component_length)

declare duration_loop.simps [simp del]

definition ParseDuration :: "string \<Rightarrow> go_error + int" where
  "ParseDuration orig =
     (let (neg, s) = strip_sign orig
      in if s = ''0'' then Inr 0
         else if s = [] then Inl (invalid_duration orig)
         else res_bind (duration_loop orig s 0) (\<lambda>d.
           if neg then Inr (- int d)
           else if d > 2 ^ 63 - 1 then Inl (invalid_duration orig)
           else Inr (int d)))"

text \<open>A whole number with its unit.\<close>

lemma leadingInt_digits:
  assumes "list_all is_digit ds" "rest = [] \<or> \<not> is_digit (hd rest)"
    and "foldl (\<lambda>n c. n * 10 + digit_val c) x ds \<le> 2 ^ 63"
  shows "leadingInt (ds @ rest) x = Some (foldl (\<lambda>n c. n * 10 + digit_val c) x ds, rest)"
  using assms
proof (induction ds arbitrary: x)
  case Nil
  then show ?case by (cases rest) auto
next
  case (Cons c ds)
  have "x * 10 + digit_val c \<le> foldl (\<lambda>n c. n * 10 + digit_val c) (x * 10 + digit_val c) ds"
    by (rule foldl_digits_ge)
  with Cons.prems have "x * 10 + digit_val c \<le> 2 ^ 63" by simp
  then have "\<not> x > 2 ^ 63 div 10" by linarith
  with \<open>x * 10 + digit_val c \<le> 2 ^ 63\<close> Cons show ?case by simp
qed

lemma not_unit_char_digits: "list_all is_digit ds \<Longrightarrow> ds \<noteq> [] \<Longrightarrow> \<not> unit_char (hd (ds @ r))"
  by (cases ds) (auto simp: unit_char_def)

lemma duration_component_int:
  assumes "unitMap u = Some k" "list_all unit_char u" "u \<noteq> []" "rest = [] \<or> \<not> unit_char (hd rest)"
    and "n * k \<le> 2 ^ 63" "k > 0"
  shows "duration_component orig (format_nat n @ u @ rest) = Inr (n * k, rest)"
proof -
  have u: "takeWhile unit_char (u @ rest) = u" "dropWhile unit_char (u @ rest) = rest"
    using assms(2,4) by (induction u) (auto simp: takeWhile_eq_Nil_iff dropWhile_eq_self_iff)
  have h: "unit_char (hd (u @ rest))" "u @ rest \<noteq> []" using assms(2,3) by (cases u; simp)+
  have "n \<le> n * k" using assms(6) by simp
  with assms(5) have "n \<le> 2 ^ 63" by (rule order_trans [rotated])
  moreover have "\<not> n > 2 ^ 63 div k"
    using assms(5,6) by (simp add: less_eq_div_iff_mult_less_eq not_less)
  ultimately have n: "n \<le> 2 ^ 63" "\<not> n > 2 ^ 63 div k" .
  have li: "leadingInt (format_nat n @ u @ rest) 0 = Some (n, u @ rest)"
    using leadingInt_digits [OF format_nat_digits, of "u @ rest" 0 n] h n(1)
      digits_val_format_nat [of n] by (simp add: digits_val_def unit_char_def)
  have "hd (u @ rest) \<noteq> CHR ''.''" using h(1) by (auto simp: unit_char_def)
  with li u h n not_unit_char_digits [OF format_nat_digits format_nat_not_Nil, of n "u @ rest"]
  show ?thesis
    unfolding duration_component_def by (simp add: assms(1,3) format_nat_not_Nil Let_def)
qed

lemma unit_facts:
  "unitMap ''h'' = Some 3600000000000" "unitMap ''m'' = Some 60000000000" "unitMap ''s'' = Some 1000000000"
  "unitMap ''ms'' = Some 1000000" "unitMap ''us'' = Some 1000" "unitMap ''ns'' = Some 1"
  by (simp_all add: unitMap_def)

text \<open>The sum of components is the duration, as long as it stays in range.\<close>

lemma duration_loop_int:
  assumes "unitMap u = Some k" "list_all unit_char u" "u \<noteq> []" "rest = [] \<or> \<not> unit_char (hd rest)"
    and "d + n * k \<le> 2 ^ 63" "k > 0"
  shows "duration_loop orig (format_nat n @ u @ rest) d = duration_loop orig rest (d + n * k)"
  using assms by (subst duration_loop.simps) (simp add: duration_component_int format_nat_not_Nil)

text \<open>Hours, minutes and seconds, the form in which durations are printed.\<close>

definition hms :: "nat \<Rightarrow> nat \<Rightarrow> nat \<Rightarrow> string" where
  "hms h m s = format_nat h @ ''h'' @ format_nat m @ ''m'' @ format_nat s @ ''s''"

definition hms_nanos :: "nat \<Rightarrow> nat \<Rightarrow> nat \<Rightarrow> nat" where
  "hms_nanos h m s = h * 3600000000000 + m * 60000000000 + s * 1000000000"

lemma unit_char_unit [simp]: "unit_char CHR ''h''" "unit_char CHR ''m''" "unit_char CHR ''s''"
  by (simp_all add: unit_char_def is_digit_def)

lemma duration_loop_hms:
  assumes "hms_nanos h m s \<le> 2 ^ 63"
  shows "duration_loop orig (hms h m s) 0 = Inr (hms_nanos h m s)"
proof -
  note nd = not_unit_char_digits [OF format_nat_digits format_nat_not_Nil]
  have "duration_loop orig (hms h m s) 0 =
      duration_loop orig (format_nat m @ ''m'' @ format_nat s @ ''s'') (0 + h * 3600000000000)"
    unfolding hms_def
    by (rule duration_loop_int) (use assms nd [of m "''m'' @ format_nat s @ ''s''"] in \<open>auto simp: unit_facts hms_nanos_def\<close>)
  also have "\<dots> = duration_loop orig (format_nat s @ ''s'') (0 + h * 3600000000000 + m * 60000000000)"
    by (rule duration_loop_int) (use assms nd [of s "''s''"] in \<open>auto simp: unit_facts hms_nanos_def\<close>)
  also have "\<dots> = duration_loop orig [] (0 + h * 3600000000000 + m * 60000000000 + s * 1000000000)"
    using duration_loop_int [of "''s''" 1000000000 "[]" _ s orig] assms
    by (simp add: unit_facts hms_nanos_def)
  finally show ?thesis by (simp add: duration_loop.simps hms_nanos_def)
qed

lemma strip_sign_digit: "is_digit (hd s) \<Longrightarrow> s \<noteq> [] \<Longrightarrow> strip_sign s = (False, s)"
  by (cases s) (auto simp: strip_sign_def is_sign_def is_digit_def)

lemma hms_hd: "is_digit (hd (hms h m s))" "hms h m s \<noteq> []" "hms h m s \<noteq> ''0''"
proof -
  show "is_digit (hd (hms h m s))"
    using format_nat_digits [of h] format_nat_not_Nil [of h] by (cases "format_nat h") (auto simp: hms_def)
  show "hms h m s \<noteq> []" by (simp add: hms_def)
  have "last (hms h m s) = CHR ''s''" by (simp add: hms_def)
  then show "hms h m s \<noteq> ''0''" by auto
qed

lemma ParseDuration_hms:
  "hms_nanos h m s < 2 ^ 63 \<Longrightarrow> ParseDuration (hms h m s) = Inr (int (hms_nanos h m s))"
  "hms_nanos h m s \<le> 2 ^ 63 \<Longrightarrow> ParseDuration (CHR ''-'' # hms h m s) = Inr (- int (hms_nanos h m s))"
  by (simp_all add: ParseDuration_def strip_sign_digit hms_hd duration_loop_hms)
     (simp add: strip_sign_def is_sign_def hms_hd duration_loop_hms)

text \<open>What parses is in the range of \<open>time.Duration\<close>.\<close>

lemma duration_loop_range: "duration_loop orig s d = Inr n \<Longrightarrow> d \<le> 2 ^ 63 \<Longrightarrow> n \<le> 2 ^ 63"
proof (induction orig s d rule: duration_loop.induct)
  case (1 orig s d)
  from "1.prems" show ?case
    by (subst (asm) duration_loop.simps)
       (use "1.IH" in \<open>auto simp: not_less split: if_splits sum.splits prod.splits\<close>)
qed

lemma ParseDuration_range: "ParseDuration s = Inr d \<Longrightarrow> is_int64 d"
  by (auto simp: ParseDuration_def is_int64_def res_bind_Inr_iff split: prod.splits if_splits
      dest!: duration_loop_range)

section \<open>Decimal fractions\<close>

text \<open>A fraction \<open>0.\<close> and digits, the form the API server admits for thresholds.\<close>

lemma mantissa_loop_digits:
  "list_all is_digit ds \<Longrightarrow> mantissa_loop 10 ds m fd True sd =
     (foldl (\<lambda>n c. n * 10 + digit_val c) m ds, fd + length ds, sd \<or> ds \<noteq> [], [])"
  by (induction ds arbitrary: m fd sd) (auto simp: is_digit_def)

lemma underscore_digits:
  "list_all is_digit ds \<Longrightarrow> i \<noteq> CHR ''_'' \<Longrightarrow> underscore_loop False i ds"
  by (induction ds arbitrary: i) auto

lemma readFloat_fraction:
  assumes "list_all is_digit ds"
  shows "readFloat (CHR ''0'' # CHR ''.'' # ds) = Some (of_nat (digits_val ds) / 10 ^ length ds, [])"
proof -
  have u: "underscoreOK (CHR ''0'' # CHR ''.'' # ds)"
    using assms by (simp add: underscoreOK_def strip_sign_def is_sign_def lower_def is_digit_def underscore_digits)
  have l: "lower CHR ''.'' = CHR ''.''" by (simp add: lower_def)
  have m: "mantissa_loop 10 (CHR ''0'' # CHR ''.'' # ds) 0 0 False False = (digits_val ds, length ds, True, [])"
    using mantissa_loop_digits [OF assms, of 0 0 True] by (simp add: is_digit_def digit_val_def digits_val_def)
  have h: "(case CHR ''0'' # CHR ''.'' # ds of
       z # x # y # r' \<Rightarrow> if z = CHR ''0'' \<and> lower x = CHR ''x'' then (True, y # r')
         else (False, CHR ''0'' # CHR ''.'' # ds)
     | _ \<Rightarrow> (False, CHR ''0'' # CHR ''.'' # ds)) = (False, CHR ''0'' # CHR ''.'' # ds)"
    by (cases ds) (simp_all add: l)
  have s: "strip_sign (CHR ''0'' # CHR ''.'' # ds) = (False, CHR ''0'' # CHR ''.'' # ds)"
    by (simp add: strip_sign_def is_sign_def)
  show ?thesis
    unfolding readFloat_def s prod.case Let_def h if_False m
    using u by (simp add: read_exponent_def power_int_minus divide_inverse del: mantissa_loop.simps)
qed

lemma ParseFloat_fraction:
  assumes "list_all is_digit ds"
  shows "in_unit (fst (ParseFloat (CHR ''0'' # CHR ''.'' # ds))) \<longleftrightarrow>
      2 powi (- 1075) < of_nat (digits_val ds) / (10 :: rat) ^ length ds \<and>
      of_nat (digits_val ds) / (10 :: rat) ^ length ds < 1 - 2 powi (- 54)"
    and "fst (ParseFloat (CHR ''0'' # CHR ''.'' # ds)) \<noteq> NotANumber"
    and "in_unit (fst (ParseFloat (CHR ''0'' # CHR ''.'' # ds))) \<longrightarrow>
      snd (ParseFloat (CHR ''0'' # CHR ''.'' # ds)) = None"
proof -
  define v :: rat where "v = of_nat (digits_val ds) / 10 ^ length ds"
  have sp: "parse_special (CHR ''0'' # CHR ''.'' # ds) = None"
    by (simp add: parse_special_def strip_sign_def is_sign_def lower_def Let_def)
  have p: "ParseFloat (CHR ''0'' # CHR ''.'' # ds) =
      (case round64 v of
         Infinite n \<Rightarrow> (Infinite n, Some (num_error ''ParseFloat'' (CHR ''0'' # CHR ''.'' # ds) ''value out of range''))
       | f \<Rightarrow> (f, None))"
    by (simp add: ParseFloat_def sp readFloat_fraction [OF assms] v_def)
  have fst: "fst (ParseFloat (CHR ''0'' # CHR ''.'' # ds)) = round64 v"
    by (simp add: p split: float64.split)
  show "in_unit (fst (ParseFloat (CHR ''0'' # CHR ''.'' # ds))) \<longleftrightarrow>
      2 powi (- 1075) < of_nat (digits_val ds) / (10 :: rat) ^ length ds \<and>
      of_nat (digits_val ds) / (10 :: rat) ^ length ds < 1 - 2 powi (- 54)"
    by (simp only: fst round64_in_unit v_def)
  show "fst (ParseFloat (CHR ''0'' # CHR ''.'' # ds)) \<noteq> NotANumber"
    by (simp add: fst round64_def Let_def)
  show "in_unit (fst (ParseFloat (CHR ''0'' # CHR ''.'' # ds))) \<longrightarrow>
      snd (ParseFloat (CHR ''0'' # CHR ''.'' # ds)) = None"
    by (cases "round64 v") (simp_all add: p in_unit_def)
qed

end
