(* ===== verification/CA_Validator.thy ===== *)
theory CA_Validator
  imports CA_Types Go_Float
begin

text \<open>
  The validator of ClusterAutoscalers
  (\<open>pkg/controller/clusterautoscaler/validator.go\<close>), which both the admission webhook and
  the reconciler run.  Go iterates over the map of durations in an unspecified order: it is
  an argument, and what the validator decides does not depend on it.
\<close>

section \<open>Ranges and limits\<close>

definition validateResourceRange :: "ResourceRange \<Rightarrow> go_error list option" where
  "validateResourceRange rr =
     NewAggregate
       ((if rr_Min rr <s 0 \<or> rr_Max rr <s 0 then [errorf ''Min and Max must be greater than zero''] else [])
        @ (if rr_Max rr <s rr_Min rr then [errorf ''Max must be greater than or equal to Min''] else []))"

text \<open>\<open>if errs := f(x); errs != nil { append(fmt.Errorf(format, ..., errs)) }\<close>.\<close>

definition wrap_errors :: "string \<Rightarrow> go_arg list \<Rightarrow> go_error list option \<Rightarrow> go_error list" where
  "wrap_errors format args p =
     (case p of None \<Rightarrow> [] | Some errs \<Rightarrow> [GoError format (args @ [ArgE (GoAggregate errs)])])"

definition validateResourceLimits :: "ResourceLimits \<Rightarrow> go_error list option" where
  "validateResourceLimits rl =
     NewAggregate
       ((case rl_MaxNodesTotal rl of
           None \<Rightarrow> []
         | Some n \<Rightarrow>
             if n <s 0 then [errorf ''ResourceLimits.MaxNodesTotal must be greater than 0''] else [])
        @ (case rl_Cores rl of
             None \<Rightarrow> []
           | Some rr \<Rightarrow> wrap_errors ''ResourceLimits.Cores: %v'' [] (validateResourceRange rr))
        @ (case rl_Memory rl of
             None \<Rightarrow> []
           | Some rr \<Rightarrow> wrap_errors ''ResourceLimits.Memory: %v'' [] (validateResourceRange rr))
        @ concat (map (\<lambda>gpu.
            wrap_errors ''ResourceLimits.GPUS.%s: %v'' [ArgS (gl_Type gpu)]
              (validateResourceRange \<lparr>rr_Min = gl_Min gpu, rr_Max = gl_Max gpu\<rparr>)) (rl_GPUS rl)))"

definition validateGPULimitsTypes :: "GPULimit list \<Rightarrow> string list" where
  "validateGPULimitsTypes gpus =
     concat (map (\<lambda>gpu. let warning = IsValidGPUAcceleratorLabel (gl_Type gpu)
                        in if length warning > 0 then [warning] else []) gpus)"

section \<open>Scaling down and up\<close>

definition duration_errors :: "string \<Rightarrow> string \<Rightarrow> go_arg list \<Rightarrow> string option \<Rightarrow> go_error list" where
  "duration_errors invalid negative args durationString =
     (case durationString of
        None \<Rightarrow> []
      | Some s \<Rightarrow>
          (case ParseDuration s of
             Inl err \<Rightarrow> [GoError invalid (args @ [ArgE err])]
           | Inr duration \<Rightarrow> if duration < 0 then [GoError negative args] else []))"

definition durations :: "ScaleDownConfig \<Rightarrow> (string \<times> string option) list" where
  "durations sd =
     [(''DelayAfterAdd'', sd_DelayAfterAdd sd),
      (''DelayAfterDelete'', sd_DelayAfterDelete sd),
      (''DelayAfterFailure'', sd_DelayAfterFailure sd),
      (''UnneededTime'', sd_UnneededTime sd)]"

text \<open>The names in the order in which the loop takes them.\<close>

definition iteration_order :: "string list \<Rightarrow> bool" where
  "iteration_order order \<longleftrightarrow>
     distinct order \<and> set order = {''DelayAfterAdd'', ''DelayAfterDelete'', ''DelayAfterFailure'', ''UnneededTime''}"

definition float_le_0 :: "float64 \<Rightarrow> bool" where
  "float_le_0 f \<longleftrightarrow> (case f of Finite r \<Rightarrow> r \<le> 0 | Infinite neg \<Rightarrow> neg | NotANumber \<Rightarrow> False)"

definition float_ge_1 :: "float64 \<Rightarrow> bool" where
  "float_ge_1 f \<longleftrightarrow> (case f of Finite r \<Rightarrow> 1 \<le> r | Infinite neg \<Rightarrow> \<not> neg | NotANumber \<Rightarrow> False)"

definition validateScaleDownConfig :: "string list \<Rightarrow> ScaleDownConfig \<Rightarrow> go_error list option" where
  "validateScaleDownConfig order sd =
     NewAggregate
       (concat (map (\<lambda>name. case map_of (durations sd) name of
            None \<Rightarrow> []
          | Some durationString \<Rightarrow>
              duration_errors ''ScaleDown.%s: %v'' ''ScaleDown.%s: cannot use a negative time''
                [ArgS name] durationString) order)
        @ (case sd_UtilizationThreshold sd of
             None \<Rightarrow> []
           | Some s \<Rightarrow>
               (let (utilizationThreshold, err) = ParseFloat s
                in (if err \<noteq> None
                    then [errorf ''ScaleDown.UtilizationThreshold must be a string representing float value.'']
                    else [])
                   @ (if float_le_0 utilizationThreshold \<or> float_ge_1 utilizationThreshold
                      then [errorf ''ScaleDown.UtilizationThreshold must be a value between 0 and 1.'']
                      else []))))"

definition validateScaleUpConfig :: "ScaleUpConfig \<Rightarrow> go_error list option" where
  "validateScaleUpConfig su =
     NewAggregate
       (duration_errors ''ScaleUp.NewPodScaleUpDelay: %v''
          ''ScaleUp.NewPodScaleUpDelay: cannot use a negative time'' [] (su_NewPodScaleUpDelay su))"

section \<open>The whole resource\<close>

text \<open>\<open>if aggErr != nil { errs = append(errs, aggErr.Errors()...) }\<close>.\<close>

definition agg_list :: "go_error list option \<Rightarrow> go_error list" where
  "agg_list p = (case p of None \<Rightarrow> [] | Some errs \<Rightarrow> errs)"

text \<open>\<open>name\<close> is the validator's \<open>clusterAutoscalerName\<close>.\<close>

definition ca_Validate :: "string list \<Rightarrow> string \<Rightarrow> ClusterAutoscaler option \<Rightarrow> ValidatorResponse" where
  "ca_Validate order name ca_ptr =
     (case ca_ptr of
        None \<Rightarrow>
          \<lparr>vr_Warnings = [], vr_Errors = NewAggregate [errorf ''ClusterAutoscaler is nil'']\<rparr>
      | Some ca \<Rightarrow>
          (let spec = ca_Spec ca;
               errs =
                 (if ca_Name ca \<noteq> name
                  then [GoError ''Name %q is invalid, only %q is allowed'' [ArgS (ca_Name ca), ArgS name]] else [])
                 @ (case cs_ResourceLimits spec of None \<Rightarrow> [] | Some rl \<Rightarrow> agg_list (validateResourceLimits rl))
                 @ (case cs_ScaleDown spec of None \<Rightarrow> [] | Some sd \<Rightarrow> agg_list (validateScaleDownConfig order sd))
                 @ (case cs_ScaleUp spec of None \<Rightarrow> [] | Some su \<Rightarrow> agg_list (validateScaleUpConfig su));
               warns =
                 (case cs_ResourceLimits spec of None \<Rightarrow> [] | Some rl \<Rightarrow> validateGPULimitsTypes (rl_GPUS rl))
           in \<lparr>vr_Warnings = warns, vr_Errors = NewAggregate errs\<rparr>))"

definition ca_Handle :: "string list \<Rightarrow> string \<Rightarrow> go_error + ClusterAutoscaler \<Rightarrow> admission_response" where
  "ca_Handle order name decoded =
     (case decoded of
        Inl err \<Rightarrow> Errored StatusBadRequest err
      | Inr ca \<Rightarrow>
          (let valRes = ca_Validate order name (Some ca)
           in if IsValid valRes then Allowed ''ClusterAutoscaler valid'' (vr_Warnings valRes)
              else Denied (agg_list (vr_Errors valRes)) (vr_Warnings valRes)))"

section \<open>What is accepted\<close>

definition range_ok :: "int32 \<Rightarrow> int32 \<Rightarrow> bool" where
  "range_ok mn mx \<longleftrightarrow> 0 \<le> sint mn \<and> sint mn \<le> sint mx"

definition limits_ok :: "ResourceLimits \<Rightarrow> bool" where
  "limits_ok rl \<longleftrightarrow>
     (\<forall>n. rl_MaxNodesTotal rl = Some n \<longrightarrow> 0 \<le> sint n) \<and>
     (\<forall>r. rl_Cores rl = Some r \<longrightarrow> range_ok (rr_Min r) (rr_Max r)) \<and>
     (\<forall>r. rl_Memory rl = Some r \<longrightarrow> range_ok (rr_Min r) (rr_Max r)) \<and>
     (\<forall>g \<in> set (rl_GPUS rl). range_ok (gl_Min g) (gl_Max g))"

definition duration_ok :: "string option \<Rightarrow> bool" where
  "duration_ok p \<longleftrightarrow> (\<forall>s. p = Some s \<longrightarrow> (\<exists>d. ParseDuration s = Inr d \<and> 0 \<le> d))"

definition threshold_ok :: "string option \<Rightarrow> bool" where
  "threshold_ok p \<longleftrightarrow>
     (\<forall>s. p = Some s \<longrightarrow>
        snd (ParseFloat s) = None \<and> (fst (ParseFloat s) = NotANumber \<or> in_unit (fst (ParseFloat s))))"

definition scale_down_ok :: "ScaleDownConfig \<Rightarrow> bool" where
  "scale_down_ok sd \<longleftrightarrow>
     duration_ok (sd_DelayAfterAdd sd) \<and> duration_ok (sd_DelayAfterDelete sd) \<and>
     duration_ok (sd_DelayAfterFailure sd) \<and> duration_ok (sd_UnneededTime sd) \<and>
     threshold_ok (sd_UtilizationThreshold sd)"

lemma validateResourceRange_None: "validateResourceRange rr = None \<longleftrightarrow> range_ok (rr_Min rr) (rr_Max rr)"
  by (auto simp: validateResourceRange_def NewAggregate_def range_ok_def word_sless_alt)

lemma NewAggregate_None [simp]: "NewAggregate es = None \<longleftrightarrow> es = []"
  by (simp add: NewAggregate_def)

lemma agg_list_Nil: "agg_list (NewAggregate es) = es"
  by (simp add: agg_list_def NewAggregate_def)

lemma wrap_errors_Nil [simp]: "wrap_errors f as p = [] \<longleftrightarrow> p = None"
  by (simp add: wrap_errors_def split: option.split)

lemma validateResourceLimits_None: "agg_list (validateResourceLimits rl) = [] \<longleftrightarrow> limits_ok rl"
  by (auto simp: validateResourceLimits_def agg_list_Nil validateResourceRange_None limits_ok_def
      word_sless_alt split: option.split)

lemma duration_errors_Nil: "duration_errors f g as p = [] \<longleftrightarrow> duration_ok p"
  by (cases p) (auto simp: duration_errors_def duration_ok_def split: sum.split)

lemma threshold_Nil:
  "(case p of
      None \<Rightarrow> []
    | Some s \<Rightarrow>
        (let (v, err) = ParseFloat s
         in (if err \<noteq> None then [e1] else []) @ (if float_le_0 v \<or> float_ge_1 v then [e2] else []))) = []
   \<longleftrightarrow> threshold_ok p"
proof (cases p)
  case (Some s)
  obtain v err where "ParseFloat s = (v, err)" by (cases "ParseFloat s")
  then show ?thesis
    by (cases v) (auto simp: Some threshold_ok_def float_le_0_def float_ge_1_def in_unit_def)
qed (simp add: threshold_ok_def)

lemma validateScaleDownConfig_None:
  assumes "iteration_order order"
  shows "agg_list (validateScaleDownConfig order sd) = [] \<longleftrightarrow> scale_down_ok sd"
proof -
  have "set order = {''DelayAfterAdd'', ''DelayAfterDelete'', ''DelayAfterFailure'', ''UnneededTime''}"
    using assms by (simp add: iteration_order_def)
  then show ?thesis
    unfolding validateScaleDownConfig_def agg_list_Nil append_is_Nil_conv threshold_Nil
    by (simp add: durations_def duration_errors_Nil scale_down_ok_def conj_ac)
qed

lemma validateScaleUpConfig_None:
  "agg_list (validateScaleUpConfig su) = [] \<longleftrightarrow> duration_ok (su_NewPodScaleUpDelay su)"
  by (simp add: validateScaleUpConfig_def agg_list_Nil duration_errors_Nil)

lemma ca_Validate_IsValid:
  assumes "iteration_order order"
  shows "IsValid (ca_Validate order name (Some ca)) \<longleftrightarrow>
     ca_Name ca = name \<and>
     (\<forall>rl. cs_ResourceLimits (ca_Spec ca) = Some rl \<longrightarrow> limits_ok rl) \<and>
     (\<forall>sd. cs_ScaleDown (ca_Spec ca) = Some sd \<longrightarrow> scale_down_ok sd) \<and>
     (\<forall>su. cs_ScaleUp (ca_Spec ca) = Some su \<longrightarrow> duration_ok (su_NewPodScaleUpDelay su))"
proof -
  have "IsValid \<lparr>vr_Warnings = w, vr_Errors = NewAggregate es\<rparr> \<longleftrightarrow> es = []" for w es
    by (simp add: IsValid_def NewAggregate_def)
  then show ?thesis
    by (simp add: ca_Validate_def Let_def validateResourceLimits_None validateScaleDownConfig_None [OF assms]
        validateScaleUpConfig_None split: option.split)
qed

section \<open>Properties\<close>

definition accepted :: "string \<Rightarrow> ClusterAutoscaler \<Rightarrow> bool" where
  "accepted name ca \<longleftrightarrow>
     ca_Name ca = name \<and>
     (\<forall>rl. cs_ResourceLimits (ca_Spec ca) = Some rl \<longrightarrow> limits_ok rl) \<and>
     (\<forall>sd. cs_ScaleDown (ca_Spec ca) = Some sd \<longrightarrow> scale_down_ok sd) \<and>
     (\<forall>su. cs_ScaleUp (ca_Spec ca) = Some su \<longrightarrow> duration_ok (su_NewPodScaleUpDelay su))"

text \<open>
  C22: in whatever order the map of durations is iterated over, the webhook admits a decoded
  ClusterAutoscaler exactly when it has the configured name, every limit and range is
  non-negative and ordered, every delay parses to a non-negative duration, and the
  utilization threshold parses to NaN or to a float strictly between 0 and 1; the warnings
  of an admission or a denial are about the GPU types alone and there is none exactly when
  every type is a non-empty label value.
\<close>

theorem ca_validator_exact:
  assumes "iteration_order order"
  shows "((\<exists>w. ca_Handle order name (Inr ca) = Allowed ''ClusterAutoscaler valid'' w) \<longleftrightarrow> accepted name ca) \<and>
     (\<not> accepted name ca \<longrightarrow> (\<exists>es w. es \<noteq> [] \<and> ca_Handle order name (Inr ca) = Denied es w)) \<and>
     (vr_Warnings (ca_Validate order name (Some ca)) = [] \<longleftrightarrow>
        (\<forall>rl g. cs_ResourceLimits (ca_Spec ca) = Some rl \<and> g \<in> set (rl_GPUS rl) \<longrightarrow>
           gl_Type g \<noteq> [] \<and> label_value (gl_Type g)))"
proof -
  have valid: "IsValid (ca_Validate order name (Some ca)) \<longleftrightarrow> accepted name ca"
    using ca_Validate_IsValid [OF assms, of name ca] by (simp add: accepted_def)
  have errs: "agg_list (vr_Errors r) \<noteq> []" if "\<not> IsValid r" for r
    using that by (auto simp: IsValid_def agg_list_def split: option.splits)
  have "(vr_Warnings (ca_Validate order name (Some ca)) = [] \<longleftrightarrow>
        (\<forall>rl g. cs_ResourceLimits (ca_Spec ca) = Some rl \<and> g \<in> set (rl_GPUS rl) \<longrightarrow>
           gl_Type g \<noteq> [] \<and> label_value (gl_Type g)))"
    by (auto simp: ca_Validate_def Let_def validateGPULimitsTypes_def IsValidGPUAcceleratorLabel_iff split: option.split)
  then show ?thesis
    using valid errs [of "ca_Validate order name (Some ca)"]
    by (auto simp: ca_Handle_def Let_def)
qed

definition gpu_demo :: ClusterAutoscaler where
  "gpu_demo =
     \<lparr>ca_meta = empty_meta\<lparr>om_name := ''default''\<rparr>,
      ca_Spec = empty_spec\<lparr>cs_ResourceLimits :=
        Some \<lparr>rl_MaxNodesTotal = Some 24, rl_Cores = None, rl_Memory = None,
              rl_GPUS = [\<lparr>gl_Type = ''nvidia.com/gpu'', gl_Min = 0, gl_Max = 16\<rparr>]\<rparr>\<rparr>\<rparr>"

theorem ca_validator_exact_witness:
  "(\<exists>w. w \<noteq> [] \<and> ca_Handle [''UnneededTime'', ''DelayAfterAdd'', ''DelayAfterFailure'', ''DelayAfterDelete'']
      ''default'' (Inr gpu_demo) = Allowed ''ClusterAutoscaler valid'' w)"
proof -
  let ?o = "[''UnneededTime'', ''DelayAfterAdd'', ''DelayAfterFailure'', ''DelayAfterDelete'']"
  have o: "iteration_order ?o" by (auto simp: iteration_order_def)
  have a: "accepted ''default'' gpu_demo"
    by (simp add: accepted_def gpu_demo_def empty_spec_def limits_ok_def range_ok_def ca_Name_def)
  have "\<not> label_value ''nvidia.com/gpu''"
    by (simp add: label_value_def labelKeyExtChar_def labelKeyChar_def char_range_def)
  then have "vr_Warnings (ca_Validate ?o ''default'' (Some gpu_demo)) \<noteq> []"
    using ca_validator_exact [OF o, of "''default''" gpu_demo] by (auto simp: gpu_demo_def empty_spec_def)
  with ca_validator_exact [OF o, of "''default''" gpu_demo] a show ?thesis
    by (auto simp: ca_Handle_def Let_def split: if_splits)
qed

text \<open>
  C36: a threshold written as a decimal fraction is accepted exactly when the nearest double
  lies strictly between 0 and 1, that is when the fraction is above \<open>2 ^ -1075\<close> and below
  \<open>1 - 2 ^ -54\<close>: fractions just below 1 are rejected as 1, and \<open>NaN\<close> is accepted.
\<close>

theorem threshold_exact:
  assumes "list_all is_digit ds"
  shows "(validateScaleDownConfig order
      \<lparr>sd_Enabled = True, sd_DelayAfterAdd = None, sd_DelayAfterDelete = None, sd_DelayAfterFailure = None,
       sd_UnneededTime = None, sd_UtilizationThreshold = Some (CHR ''0'' # CHR ''.'' # ds),
       sd_CordonNodeBeforeTerminating = None\<rparr> = None \<longleftrightarrow>
      2 powi (- 1075) < of_nat (digits_val ds) / (10 :: rat) ^ length ds \<and>
      of_nat (digits_val ds) / (10 :: rat) ^ length ds < 1 - 2 powi (- 54)) \<and>
    threshold_ok (Some ''NaN'')"
proof
  have "parse_special ''NaN'' = Some NotANumber" by code_simp
  then have nan: "threshold_ok (Some ''NaN'')" by (simp add: threshold_ok_def ParseFloat_def)
  show "threshold_ok (Some ''NaN'')" by (rule nan)
  have "threshold_ok (Some (CHR ''0'' # CHR ''.'' # ds)) \<longleftrightarrow> in_unit (fst (ParseFloat (CHR ''0'' # CHR ''.'' # ds)))"
    using ParseFloat_fraction(2,3) [OF assms] by (auto simp: threshold_ok_def)
  moreover have "validateScaleDownConfig order \<lparr>sd_Enabled = True, sd_DelayAfterAdd = None, sd_DelayAfterDelete = None,
       sd_DelayAfterFailure = None, sd_UnneededTime = None, sd_UtilizationThreshold = p,
       sd_CordonNodeBeforeTerminating = None\<rparr> = None \<longleftrightarrow> threshold_ok p" for p
    unfolding validateScaleDownConfig_def by (simp only: NewAggregate_None append_is_Nil_conv threshold_Nil) (auto simp: durations_def duration_errors_def split: option.split)
  ultimately show "validateScaleDownConfig order
      \<lparr>sd_Enabled = True, sd_DelayAfterAdd = None, sd_DelayAfterDelete = None, sd_DelayAfterFailure = None,
       sd_UnneededTime = None, sd_UtilizationThreshold = Some (CHR ''0'' # CHR ''.'' # ds),
       sd_CordonNodeBeforeTerminating = None\<rparr> = None \<longleftrightarrow>
      2 powi (- 1075) < of_nat (digits_val ds) / (10 :: rat) ^ length ds \<and>
      of_nat (digits_val ds) / (10 :: rat) ^ length ds < 1 - 2 powi (- 54)"
    by (simp only: ParseFloat_fraction(1) [OF assms])
qed

theorem threshold_exact_witness:
  "validateScaleDownConfig [''UnneededTime'', ''DelayAfterAdd'', ''DelayAfterFailure'', ''DelayAfterDelete'']
      \<lparr>sd_Enabled = True, sd_DelayAfterAdd = None, sd_DelayAfterDelete = None, sd_DelayAfterFailure = None,
       sd_UnneededTime = None, sd_UtilizationThreshold = Some ''0.4'', sd_CordonNodeBeforeTerminating = None\<rparr>
   = None"
  using threshold_exact [of "''4''" "[''UnneededTime'', ''DelayAfterAdd'', ''DelayAfterFailure'', ''DelayAfterDelete'']"] by (simp add: is_digit_def digits_val_def digit_val_def power_int_minus)

text \<open>
  Every delay in the form hours, minutes, seconds is accepted up to the largest duration
  of \<open>time.Duration\<close> and rejected with a minus sign unless it is zero.
\<close>

lemma delay_exact:
  assumes "hms_nanos h m s < 2 ^ 63"
  shows "duration_errors invalid neg args (Some (hms h m s)) = [] \<and>
    duration_errors invalid neg args (Some (CHR ''-'' # hms h m s)) =
      (if hms_nanos h m s = 0 then [] else [GoError neg args])"
  using assms by (simp add: duration_errors_def ParseDuration_hms)

lemma delay_exact_witness:
  "duration_errors ''ScaleDown.%s: %v'' ''ScaleDown.%s: cannot use a negative time'' [ArgS ''UnneededTime'']
     (Some (CHR ''-'' # hms 0 10 0)) =
   [GoError ''ScaleDown.%s: cannot use a negative time'' [ArgS ''UnneededTime'']]"
  using delay_exact [where h = 0 and m = 10 and s = 0 and args = "[ArgS ''UnneededTime'']"]
  by (simp add: hms_nanos_def)

end
