(* ===== verification/CA_Reconciler.thy ===== *)
theory CA_Reconciler
  imports CA_NetworkPolicies CA_Validator
begin

text \<open>
  The controller of ClusterAutoscalers
  (\<open>pkg/controller/clusterautoscaler/clusterautoscaler_controller.go\<close>, with the functions of
  \<open>monitoring.go\<close> and \<open>networkpolicies.go\<close> that write): every handler of the reconcile loop
  as an action on the world.  The clients, the event recorder and the reconciler's own
  configuration, which the loop updates, are fields of \<open>ca_env\<close>.
\<close>

section \<open>The environment\<close>

text \<open>\<open>Infrastructure\<close>, the one field read: the type of the platform status, if it is set.\<close>

record Infrastructure =
  inf_PlatformStatus :: "string option"

text \<open>
  \<open>ce_gvk\<close> is the kind the scheme registers ClusterAutoscalers under, \<open>ce_goarch\<close> the
  architecture of the build, and \<open>ce_order\<close> the order in which the validator's map of
  durations is iterated over.
\<close>

record 'w ca_env =
  ce_get_ca :: "NamespacedName \<Rightarrow> ('w, ClusterAutoscaler) act"
  ce_get_infra :: "NamespacedName \<Rightarrow> ('w, Infrastructure) act"
  ce_deployments :: "('w, NamespacedName, Deployment) client"
  ce_services :: "('w, NamespacedName, Service) client"
  ce_monitors :: "('w, NamespacedName, ServiceMonitor) client"
  ce_rules :: "('w, NamespacedName, PrometheusRule) client"
  ce_policies :: "('w, NamespacedName, NetworkPolicy) client"
  ce_record :: "event \<Rightarrow> 'w \<Rightarrow> 'w"
  ce_config :: "'w \<Rightarrow> ca_config"
  ce_set_config :: "ca_config \<Rightarrow> 'w \<Rightarrow> 'w"
  ce_gvk :: GroupVersionKind
  ce_goarch :: string
  ce_order :: "string list"

text \<open>\<open>SetConfig\<close>.\<close>

definition SetConfig :: "'w ca_env \<Rightarrow> ca_config \<Rightarrow> ('w, unit) act" where
  "SetConfig env cfg = act_do (ce_set_config env cfg)"

definition NamePredicate :: "ca_config \<Rightarrow> ObjectMeta \<Rightarrow> bool" where
  "NamePredicate cfg meta \<longleftrightarrow> (if om_name meta \<noteq> cc_Name cfg then False else True)"

text \<open>The reference of events: in the namespace of the deployments if the object has none.\<close>

definition ca_objectReference :: "ca_config \<Rightarrow> ClusterAutoscaler \<Rightarrow> involved" where
  "ca_objectReference cfg ca =
     (let ref = ca_key ca
      in InvObject ''ClusterAutoscaler''
           (if nn_namespace ref = '''' then ref\<lparr>nn_namespace := cc_Namespace cfg\<rparr> else ref))"

definition ca_event ::
    "'w ca_env \<Rightarrow> ca_config \<Rightarrow> ClusterAutoscaler \<Rightarrow> string \<Rightarrow> string \<Rightarrow> string \<Rightarrow> string \<Rightarrow> go_arg list \<Rightarrow> 'w \<Rightarrow> 'w" where
  "ca_event env cfg ca type reason action note args =
     ce_record env
       \<lparr>ev_regarding = ca_objectReference cfg ca, ev_related = InvObject ''ClusterAutoscaler'' (ca_key ca),
        ev_type = type, ev_reason = reason, ev_action = action, ev_note = note, ev_args = args\<rparr>"

text \<open>A failing step is reported as a warning event before its error is returned.\<close>

definition ca_warning ::
    "'w ca_env \<Rightarrow> ca_config \<Rightarrow> ClusterAutoscaler \<Rightarrow> string \<Rightarrow> string \<Rightarrow> string \<Rightarrow> go_error \<Rightarrow> 'w \<Rightarrow> 'w" where
  "ca_warning env cfg ca reason action note err =
     ca_event env cfg ca ''Warning'' reason action note [ArgE err]"

section \<open>The platform\<close>

definition infrastructureName :: string where
  "infrastructureName = ''cluster''"

definition getPlatformType :: "'w ca_env \<Rightarrow> ('w, string) act" where
  "getPlatformType env =
     act_bind (act_try (ce_get_infra env \<lparr>nn_namespace = '''', nn_name = infrastructureName\<rparr>)) (\<lambda>r.
       case r of
         Inl err \<Rightarrow> act_raise (GoWrap ''unable to get infrastructure object: %w'' err)
       | Inr infrastructure \<Rightarrow>
           (case inf_PlatformStatus infrastructure of
              None \<Rightarrow> act_raise (GoPanic ''nil pointer dereference'')
            | Some t \<Rightarrow> act_return t))"

section \<open>Owned objects\<close>

text \<open>\<open>equality.Semantic.DeepEqual\<close> on two objects of one kind.\<close>

definition ko_sem_eq :: "('s \<Rightarrow> 's \<Rightarrow> bool) \<Rightarrow> ('s, 'r, 't) kobject \<Rightarrow> ('s, 'r, 't) kobject \<Rightarrow> bool" where
  "ko_sem_eq spec_eq a b \<longleftrightarrow>
     ko_meta a = ko_meta b \<and> spec_eq (ko_spec a) (ko_spec b) \<and> ko_rest a = ko_rest b \<and> ko_status a = ko_status b"

definition createOrUpdateObjectForCA ::
    "'w ca_env \<Rightarrow> ClusterAutoscaler \<Rightarrow> ('w, NamespacedName, ('s, 'r, 't) kobject) client \<Rightarrow> ('s \<Rightarrow> 's \<Rightarrow> bool) \<Rightarrow>
     ('s, 'r, 't) kobject \<Rightarrow> (('s, 'r, 't) kobject \<Rightarrow> ('s, 'r, 't) kobject) \<Rightarrow> ('w, OperationResult) act" where
  "createOrUpdateObjectForCA env ca C spec_eq desired f =
     act_bind (act_lift (SetControllerReference (ce_gvk env) (ca_meta ca) (ko_meta desired))) (\<lambda>meta.
       CreateOrUpdate C ko_key (ko_sem_eq spec_eq) f (desired\<lparr>ko_meta := meta\<rparr>))"

text \<open>Maps are compared by what they hold; nil and empty are equal.\<close>

definition service_eq :: "ServiceSpec \<Rightarrow> ServiceSpec \<Rightarrow> bool" where
  "service_eq a b \<longleftrightarrow>
     sv_Type a = sv_Type b \<and> sv_Ports a = sv_Ports b \<and> map_eq (sv_Selector a) (sv_Selector b) \<and>
     sv_SessionAffinity a = sv_SessionAffinity b"

definition monitor_eq :: "ServiceMonitorSpec \<Rightarrow> ServiceMonitorSpec \<Rightarrow> bool" where
  "monitor_eq a b \<longleftrightarrow>
     sm_Endpoints a = sm_Endpoints b \<and> sm_MatchNames a = sm_MatchNames b \<and>
     map_eq (sm_Selector a) (sm_Selector b)"

definition alert_eq :: "AlertRule \<Rightarrow> AlertRule \<Rightarrow> bool" where
  "alert_eq a b \<longleftrightarrow>
     al_Alert a = al_Alert b \<and> al_Expr a = al_Expr b \<and> al_For a = al_For b \<and>
     map_eq (al_Labels a) (al_Labels b) \<and> map_eq (al_Annotations a) (al_Annotations b)"

definition rules_eq :: "RuleGroup list \<Rightarrow> RuleGroup list \<Rightarrow> bool" where
  "rules_eq = list_all2 (\<lambda>a b. rg_Name a = rg_Name b \<and> list_all2 alert_eq (rg_Rules a) (rg_Rules b))"

fun selector_eq :: "strmap option \<Rightarrow> strmap option \<Rightarrow> bool" where
  "selector_eq None None = True"
| "selector_eq (Some a) (Some b) = map_eq a b"
| "selector_eq _ _ = False"

definition peer_eq :: "NetworkPolicyPeer \<Rightarrow> NetworkPolicyPeer \<Rightarrow> bool" where
  "peer_eq a b \<longleftrightarrow>
     selector_eq (npe_PodSelector a) (npe_PodSelector b) \<and>
     selector_eq (npe_NamespaceSelector a) (npe_NamespaceSelector b)"

definition np_rule_eq :: "NetworkPolicyRule \<Rightarrow> NetworkPolicyRule \<Rightarrow> bool" where
  "np_rule_eq a b \<longleftrightarrow> npr_Ports a = npr_Ports b \<and> list_all2 peer_eq (npr_Peers a) (npr_Peers b)"

definition policy_eq :: "NetworkPolicySpec \<Rightarrow> NetworkPolicySpec \<Rightarrow> bool" where
  "policy_eq a b \<longleftrightarrow>
     map_eq (nps_PodSelector a) (nps_PodSelector b) \<and>
     list_all2 np_rule_eq (nps_Ingress a) (nps_Ingress b) \<and>
     list_all2 np_rule_eq (nps_Egress a) (nps_Egress b) \<and> nps_PolicyTypes a = nps_PolicyTypes b"

text \<open>The cluster IP of a service is immutable and kept.\<close>

definition mutate_service :: "ca_config \<Rightarrow> ClusterAutoscaler \<Rightarrow> Service \<Rightarrow> Service" where
  "mutate_service cfg ca desired =
     (let currentClusterIP = sr_ClusterIP (ko_rest desired);
          fresh = AutoscalerService cfg ca
      in desired\<lparr>ko_spec := ko_spec fresh,
                 ko_rest := (ko_rest fresh)\<lparr>sr_ClusterIP := currentClusterIP\<rparr>\<rparr>)"

definition createOrUpdateAutoscalerService ::
    "'w ca_env \<Rightarrow> ca_config \<Rightarrow> ClusterAutoscaler \<Rightarrow> ('w, OperationResult) act" where
  "createOrUpdateAutoscalerService env cfg ca =
     createOrUpdateObjectForCA env ca (ce_services env) service_eq (AutoscalerService cfg ca) (mutate_service cfg ca)"

definition replace_spec :: "('s, 'r, 't) kobject \<Rightarrow> ('s, 'r, 't) kobject \<Rightarrow> ('s, 'r, 't) kobject" where
  "replace_spec fresh desired = desired\<lparr>ko_spec := ko_spec fresh, ko_rest := ko_rest fresh\<rparr>"

definition createOrUpdateAutoscalerServiceMonitor ::
    "'w ca_env \<Rightarrow> ca_config \<Rightarrow> ClusterAutoscaler \<Rightarrow> ('w, OperationResult) act" where
  "createOrUpdateAutoscalerServiceMonitor env cfg ca =
     createOrUpdateObjectForCA env ca (ce_monitors env) monitor_eq (AutoscalerServiceMonitor cfg ca)
       (replace_spec (AutoscalerServiceMonitor cfg ca))"

definition createOrUpdateAutoscalerPrometheusRule ::
    "'w ca_env \<Rightarrow> ca_config \<Rightarrow> ClusterAutoscaler \<Rightarrow> ('w, OperationResult) act" where
  "createOrUpdateAutoscalerPrometheusRule env cfg ca =
     createOrUpdateObjectForCA env ca (ce_rules env) rules_eq (AutoscalerPrometheusRule cfg ca)
       (replace_spec (AutoscalerPrometheusRule cfg ca))"

text \<open>\<open>fmt.Errorf\<close> with \<open>%v\<close>: the error is printed, not wrapped.\<close>

definition wrap_v :: "string \<Rightarrow> ('w, 'a) act \<Rightarrow> ('w, unit) act" where
  "wrap_v format m =
     act_bind (act_try m) (\<lambda>r.
       case r of Inl err \<Rightarrow> act_raise (GoError format [ArgE err]) | Inr _ \<Rightarrow> act_return ())"

definition ensureAutoscalerMonitoring :: "'w ca_env \<Rightarrow> ca_config \<Rightarrow> ClusterAutoscaler \<Rightarrow> ('w, unit) act" where
  "ensureAutoscalerMonitoring env cfg ca =
     act_bind (wrap_v ''error ensuring cluster autoscaler service: %v''
       (createOrUpdateAutoscalerService env cfg ca)) (\<lambda>_.
     act_bind (wrap_v ''error ensuring cluster autoscaler serviceMonitor: %v''
       (createOrUpdateAutoscalerServiceMonitor env cfg ca)) (\<lambda>_.
     wrap_v ''error ensuring cluster autoscaler prometheusRule: %v''
       (createOrUpdateAutoscalerPrometheusRule env cfg ca)))"

text \<open>\<open>errors.Join\<close> of two errors, each of which may be nil.\<close>

definition errors_Join :: "go_error option \<Rightarrow> go_error option \<Rightarrow> go_error option" where
  "errors_Join a b =
     (case (a, b) of
        (None, None) \<Rightarrow> None
      | (Some e, None) \<Rightarrow> Some (GoJoin [e])
      | (None, Some e) \<Rightarrow> Some (GoJoin [e])
      | (Some e, Some e') \<Rightarrow> Some (GoJoin [e, e']))"

text \<open>
  The loop over the policies goes on after an error.  Each \<open>desired[i]\<close> is a second copy of
  the policy.
\<close>

fun policies_loop ::
    "'w ca_env \<Rightarrow> ClusterAutoscaler \<Rightarrow> (NetworkPolicy \<times> NetworkPolicy) list \<Rightarrow> OperationResult list \<Rightarrow>
     go_error option \<Rightarrow> ('w, OperationResult list \<times> go_error option) act" where
  "policies_loop env ca [] result err = act_return (result, err)"
| "policies_loop env ca ((policy, desired) # ps) result err =
     act_bind (act_try (createOrUpdateObjectForCA env ca (ce_policies env) policy_eq policy (replace_spec desired)))
       (\<lambda>r. case r of
              Inl e \<Rightarrow> policies_loop env ca ps (result @ [OpFailed]) (errors_Join err (Some e))
            | Inr op \<Rightarrow> policies_loop env ca ps (result @ [op]) (errors_Join err None))"

definition createOrUpdateAutoscalerNetworkPolicies ::
    "'w ca_env \<Rightarrow> ca_config \<Rightarrow> ClusterAutoscaler \<Rightarrow> ('w, OperationResult list) act" where
  "createOrUpdateAutoscalerNetworkPolicies env cfg ca =
     (let policies = AutoscalerNetworkPolicies cfg ca; desired = AutoscalerNetworkPolicies cfg ca
      in act_bind (policies_loop env ca (zip policies desired) [] None) (\<lambda>(result, err).
           case err of Some e \<Rightarrow> act_raise e | None \<Rightarrow> act_return result))"

section \<open>The deployment\<close>

definition GetAutoscaler :: "'w ca_env \<Rightarrow> ca_config \<Rightarrow> ClusterAutoscaler \<Rightarrow> ('w, Deployment) act" where
  "GetAutoscaler env cfg ca = cl_get (ce_deployments env) (AutoscalerName cfg ca)"

definition CreateAutoscaler :: "'w ca_env \<Rightarrow> ca_config \<Rightarrow> ClusterAutoscaler \<Rightarrow> ('w, Deployment) act" where
  "CreateAutoscaler env cfg ca =
     act_bind (act_lift (AutoscalerDeployment (ce_goarch env) cfg ca)) (\<lambda>d.
     act_bind (act_lift (SetControllerReference (ce_gvk env) (ca_meta ca) (ko_meta d))) (\<lambda>meta.
       cl_create (ce_deployments env) (d\<lparr>ko_meta := meta\<rparr>)))"

text \<open>
  The two arguments of the semantic comparison in \<open>UpdateAutoscaler\<close> are interface values, a
  pod specification and a pointer to one; values of different types are not equal.
\<close>

datatype pod_value = PodSpecValue PodSpec json | PodSpecPointer PodSpec json

fun pod_DeepEqual :: "pod_value \<Rightarrow> pod_value \<Rightarrow> bool" where
  "pod_DeepEqual (PodSpecValue a x) (PodSpecValue b y) \<longleftrightarrow> a = b \<and> x = y"
| "pod_DeepEqual (PodSpecPointer a x) (PodSpecPointer b y) \<longleftrightarrow> a = b \<and> x = y"
| "pod_DeepEqual _ _ \<longleftrightarrow> False"

definition update_deployment :: "ca_config \<Rightarrow> PodSpec \<Rightarrow> Deployment \<Rightarrow> Deployment" where
  "update_deployment cfg expectedSpec d =
     (let template = dp_Template (ko_spec d);
          meta = ko_meta d
      in d\<lparr>ko_meta := meta\<lparr>om_annotations := UpdateAnnotations cfg (om_annotations meta)\<rparr>,
           ko_spec := (ko_spec d)\<lparr>dp_Template := template
             \<lparr>pt_Annotations := UpdateAnnotations cfg (pt_Annotations template), pt_Spec := expectedSpec\<rparr>\<rparr>,
           ko_rest := (ko_rest d)\<lparr>dr_pod := JNull\<rparr>\<rparr>)"

definition UpdateAutoscaler :: "'w ca_env \<Rightarrow> ca_config \<Rightarrow> ClusterAutoscaler \<Rightarrow> ('w, unit) act" where
  "UpdateAutoscaler env cfg ca =
     act_bind (GetAutoscaler env cfg ca) (\<lambda>existingDeployment.
     act_bind (act_lift (AutoscalerPodSpec (ce_goarch env) cfg ca)) (\<lambda>expectedSpec.
       (let existingSpec = pt_Spec (dp_Template (ko_spec existingDeployment))
        in if pod_DeepEqual (PodSpecValue existingSpec (dr_pod (ko_rest existingDeployment)))
                (PodSpecPointer expectedSpec JNull)
              \<and> ReleaseVersionMatches (om_annotations (ca_meta ca)) (cc_ReleaseVersion cfg)
           then act_return ()
           else act_bind (cl_update (ce_deployments env) (update_deployment cfg expectedSpec existingDeployment))
                  (\<lambda>_. act_return ()))))"

section \<open>The reconcile loop\<close>

text \<open>The deletion of the resource: the deployment is removed if it is there.\<close>

definition ca_delete :: "'w ca_env \<Rightarrow> Deployment option \<Rightarrow> ('w, unit) act" where
  "ca_delete env existingDeployment =
     (case existingDeployment of
        None \<Rightarrow> act_return ()
      | Some d \<Rightarrow> act_bind (ignore_not_found (cl_delete (ce_deployments env) d)) (\<lambda>_. act_return ()))"

definition update_platform :: "'w ca_env \<Rightarrow> ('w, ca_config) act" where
  "update_platform env =
     act_bind (act_read (ce_config env)) (\<lambda>cfg.
       if cc_platformType cfg = '''' then
         act_bind (getPlatformType env) (\<lambda>platformType.
         act_bind (act_do (ce_set_config env (cfg\<lparr>cc_platformType := platformType\<rparr>))) (\<lambda>_.
           act_return (cfg\<lparr>cc_platformType := platformType\<rparr>)))
       else act_return cfg)"

definition create_or_update :: "'w ca_env \<Rightarrow> ca_config \<Rightarrow> ClusterAutoscaler \<Rightarrow> bool \<Rightarrow> ('w, unit) act" where
  "create_or_update env cfg ca exists =
     (if \<not> exists then
        act_bind (on_error (CreateAutoscaler env cfg ca)
          (ca_warning env cfg ca ''FailedCreate'' ''CreateDeployment''
             ''Error creating ClusterAutoscaler deployment: %v'')) (\<lambda>_.
          act_do (ca_event env cfg ca ''Normal'' ''SuccessfulCreate'' ''CreateDeployment''
            ''Created ClusterAutoscaler deployment: %s'' [ArgS (NamespacedName_String (AutoscalerName cfg ca))]))
      else
        act_bind (on_error (UpdateAutoscaler env cfg ca)
          (ca_warning env cfg ca ''FailedUpdate'' ''UpdateDeployment''
             ''Error updating cluster-autoscaler deployment: %v'')) (\<lambda>_.
          act_do (ca_event env cfg ca ''Normal'' ''SuccessfulUpdate'' ''UpdateDeployment''
            ''Updated ClusterAutoscaler deployment: %s'' [ArgS (NamespacedName_String (AutoscalerName cfg ca))])))"

definition reconcile_live :: "'w ca_env \<Rightarrow> ClusterAutoscaler \<Rightarrow> bool \<Rightarrow> ('w, unit) act" where
  "reconcile_live env ca exists =
     act_bind (update_platform env) (\<lambda>cfg.
     act_bind (on_error (ensureAutoscalerMonitoring env cfg ca)
       (ca_warning env cfg ca ''FailedCreate'' ''EnsureMonitoring''
          ''Error ensuring ClusterAutoscaler monitoring: %v'')) (\<lambda>_.
     act_bind (on_error (createOrUpdateAutoscalerNetworkPolicies env cfg ca)
       (ca_warning env cfg ca ''FailedCreate'' ''EnsureNetworkPolicies''
          ''Error ensuring ClusterAutoscaler networkpolicies: %v'')) (\<lambda>_.
       create_or_update env cfg ca exists)))"

text \<open>The validator keeps the name it was made with: \<open>validatorName\<close>.\<close>

definition reconcile_found :: "'w ca_env \<Rightarrow> string \<Rightarrow> ClusterAutoscaler \<Rightarrow> ('w, unit) act" where
  "reconcile_found env validatorName ca =
     act_bind (act_read (ce_config env)) (\<lambda>cfg.
       (let res = ca_Validate (ce_order env) validatorName (Some ca) in
        if \<not> IsValid res then
          act_bind (act_do (ca_warning env cfg ca ''FailedValidation'' ''Validate''
            ''ClusterAutoscaler validation error: %v'' (aggregate_error res))) (\<lambda>_.
            act_raise (aggregate_error res))
        else
          act_bind (on_error (ignore_not_found (GetAutoscaler env cfg ca))
            (ca_warning env cfg ca ''FailedGetDeployment'' ''GetDeployment''
               ''Error getting cluster-autoscaler deployment: %v'')) (\<lambda>existingDeployment.
            if ca_GetDeletionTimestamp ca \<noteq> None then ca_delete env existingDeployment
            else reconcile_live env ca (existingDeployment \<noteq> None))))"

definition ca_Reconcile :: "'w ca_env \<Rightarrow> string \<Rightarrow> NamespacedName \<Rightarrow> ('w, unit) act" where
  "ca_Reconcile env validatorName request =
     act_bind (ignore_not_found (ce_get_ca env request)) (\<lambda>found.
       case found of
         None \<Rightarrow> act_return ()
       | Some ca \<Rightarrow> reconcile_found env validatorName ca)"

end
