(* ===== verification/CA_Cluster.thy ===== *)
theory CA_Cluster
  imports CA_Reconciler
begin

text \<open>
  What the controller of ClusterAutoscalers relies on of its environment (the locale
  \<open>ca_cluster\<close>), and the weakest preconditions of its steps.  Each kind of object is in a
  store of its own, and a client of one kind leaves the other kinds, the ClusterAutoscalers
  and the reconciler's configuration alone.
\<close>

section \<open>An owned object\<close>

definition owner_ref :: "'w ca_env \<Rightarrow> ClusterAutoscaler \<Rightarrow> OwnerReference" where
  "owner_ref env ca = controller_ref (ce_gvk env) (ca_meta ca)"

text \<open>What is stored where the specification \<open>S\<close> was asked for.\<close>

definition owned_by :: "'w ca_env \<Rightarrow> ClusterAutoscaler \<Rightarrow> ('s, 'r, 't) kobject option \<Rightarrow> ('s, 'r, 't) kobject \<Rightarrow> bool" where
  "owned_by env ca before obj \<longleftrightarrow>
     (case before of
        None \<Rightarrow> om_ownerReferences (ko_meta obj) = [owner_ref env ca]
      | Some old \<Rightarrow> om_ownerReferences (ko_meta obj) = om_ownerReferences (ko_meta old) \<and>
          om_labels (ko_meta obj) = om_labels (ko_meta old))"

text \<open>Each key of \<open>K\<close> has an object: a new one is controlled by the resource, an old one keeps its owners.\<close>

definition adopted ::
    "'w ca_env \<Rightarrow> ClusterAutoscaler \<Rightarrow> NamespacedName set \<Rightarrow> (NamespacedName \<Rightarrow> ('s, 'r, 't) kobject option) \<Rightarrow>
     (NamespacedName \<Rightarrow> ('s, 'r, 't) kobject option) \<Rightarrow> bool" where
  "adopted env ca K before after \<longleftrightarrow> (\<forall>k \<in> K. \<exists>obj. after k = Some obj \<and> owned_by env ca (before k) obj)"

lemma wp_createOrUpdateObjectForCA:
  assumes store: "object_store C ko_key look ko_written ko_status (\<lambda>x. ko_deletion x \<noteq> None) ko_gone (\<lambda>_. True) good"
    and pres: "client_preserves C obs" and w: "good w"
    and ca: "om_namespace (ca_meta ca) = ''''"
    and desired: "om_ownerReferences (ko_meta desired) = []" "ko_deletion desired = None" "ko_key desired = k"
    and f: "\<And>x. ko_meta (f x) = ko_meta x" "\<And>x. ko_spec (f x) = S"
    and refl: "spec_eq S S"
    and Q: "\<And>r w' o'. \<lbrakk>good w'; obs w' = obs w; look w' = (look w)(k \<mapsto> o'); spec_eq (ko_spec o') S;
        owned_by env ca (look w k) o'\<rbrakk> \<Longrightarrow> Q r w'"
    and E: "\<And>e w' x. \<lbrakk>good w'; obs w' = obs w; look w' = (look w)(k := x); \<not> is_panic e\<rbrakk> \<Longrightarrow> E e w'"
  shows "wp (createOrUpdateObjectForCA env ca C spec_eq desired f) Q E w"
proof -
  define meta where "meta = (ko_meta desired)\<lparr>om_ownerReferences := [owner_ref env ca]\<rparr>"
  define obj where "obj = desired\<lparr>ko_meta := meta\<rparr>"
  have scr: "SetControllerReference (ce_gvk env) (ca_meta ca) (ko_meta desired) = Inr meta"
    by (simp add: SetControllerReference_fresh ca desired meta_def owner_ref_def)
  have key: "ko_key obj = k" and del: "ko_deletion obj = None"
    using desired by (simp_all add: obj_def meta_def ko_key_def meta_key_def ko_deletion_def)
  have own: "om_ownerReferences (ko_meta obj) = [owner_ref env ca]" by (simp add: obj_def meta_def)
  have fk: "ko_key (f x) = ko_key x" "ko_gone (f x) = ko_gone x" "ko_deletion (f x) = ko_deletion x" for x
    by (simp_all add: ko_key_def ko_gone_def ko_deletion_def f)
  have "wp (CreateOrUpdate C ko_key (ko_sem_eq spec_eq) f obj) Q E w"
  proof (rule wp_preserves [OF CreateOrUpdate_preserves [OF pres]],
      rule object_store.wp_CreateOrUpdate [OF store w], goal_cases)
    case (4 r w' o' base)
    have m: "meta_written (ko_meta o') = meta_written (ko_meta base)" and s: "spec_eq (ko_spec o') S"
      using 4(4,5) f refl by (auto simp: ko_written_def ko_sem_eq_def)
    have o: "owned_by env ca (look w k) o'"
      using 4(4) [unfolded key] meta_written_eqD [OF m] own by (auto simp: owned_by_def split: option.splits)
    show ?case
    proof
      assume "obs w' = obs w"
      with 4 s o show "Q r w'" by (intro Q [where o' = o']) (simp_all add: key)
    qed
  next
    case (5 e w' x)
    then show ?case by (auto intro: E [where x = x] simp: key)
  qed (simp_all add: fk del)
  then show ?thesis
    by (simp add: createOrUpdateObjectForCA_def scr wp_simps flip: obj_def)
qed

section \<open>The environment's contract\<close>

abbreviation pending_deletion :: "('s, 'r, 't) kobject \<Rightarrow> bool" where
  "pending_deletion obj \<equiv> ko_deletion obj \<noteq> None"

text \<open>
  \<open>deps\<close> to \<open>pols\<close> are the stores of the five kinds, \<open>cas\<close> the ClusterAutoscalers, which are
  scoped to the cluster.  The reads of ClusterAutoscalers and of the infrastructure change
  nothing that is observed.
\<close>

locale ca_cluster =
  D: object_store "ce_deployments env" ko_key deps ko_written ko_status pending_deletion ko_gone "\<lambda>_. True" good +
  DD: object_deletion "ce_deployments env" ko_key deps pending_deletion good +
  S: object_store "ce_services env" ko_key svcs ko_written ko_status pending_deletion ko_gone "\<lambda>_. True" good +
  M: object_store "ce_monitors env" ko_key mons ko_written ko_status pending_deletion ko_gone "\<lambda>_. True" good +
  R: object_store "ce_rules env" ko_key ruls ko_written ko_status pending_deletion ko_gone "\<lambda>_. True" good +
  P: object_store "ce_policies env" ko_key pols ko_written ko_status pending_deletion ko_gone "\<lambda>_. True" good
  for env :: "'w ca_env" and deps svcs mons ruls pols good +
  fixes cas :: "'w \<Rightarrow> NamespacedName \<Rightarrow> ClusterAutoscaler option"
  assumes D_frame: "client_preserves (ce_deployments env) (\<lambda>w. (svcs w, mons w, ruls w, pols w, ce_config env w, cas w))"
    and S_frame: "client_preserves (ce_services env) (\<lambda>w. (deps w, mons w, ruls w, pols w, ce_config env w, cas w))"
    and M_frame: "client_preserves (ce_monitors env) (\<lambda>w. (deps w, svcs w, ruls w, pols w, ce_config env w, cas w))"
    and R_frame: "client_preserves (ce_rules env) (\<lambda>w. (deps w, svcs w, mons w, pols w, ce_config env w, cas w))"
    and P_frame: "client_preserves (ce_policies env) (\<lambda>w. (deps w, svcs w, mons w, ruls w, ce_config env w, cas w))"
    and get_ca: "good w \<Longrightarrow> ce_get_ca env k w = (r, w') \<Longrightarrow>
      good w' \<and> deps w' = deps w \<and> svcs w' = svcs w \<and> mons w' = mons w \<and> ruls w' = ruls w \<and> pols w' = pols w \<and>
      ce_config env w' = ce_config env w \<and> cas w' = cas w \<and>
      (\<forall>ca. r = Inr ca \<longrightarrow> cas w k = Some ca \<and> om_namespace (ca_meta ca) = '''') \<and>
      (\<forall>e. r = Inl e \<longrightarrow> \<not> is_panic e \<and> (IsNotFound e \<longrightarrow> cas w k = None))"
    and get_infra: "good w \<Longrightarrow> ce_get_infra env k w = (r', w') \<Longrightarrow>
      good w' \<and> deps w' = deps w \<and> svcs w' = svcs w \<and> mons w' = mons w \<and> ruls w' = ruls w \<and> pols w' = pols w \<and>
      ce_config env w' = ce_config env w \<and> cas w' = cas w \<and> (\<forall>e. r' = Inl e \<longrightarrow> \<not> is_panic e)"
    and set_config: "good w \<Longrightarrow>
      good (ce_set_config env c w) \<and> deps (ce_set_config env c w) = deps w \<and> svcs (ce_set_config env c w) = svcs w \<and>
      mons (ce_set_config env c w) = mons w \<and> ruls (ce_set_config env c w) = ruls w \<and>
      pols (ce_set_config env c w) = pols w \<and> cas (ce_set_config env c w) = cas w \<and>
      ce_config env (ce_set_config env c w) = c"
    and recorded: "good w \<Longrightarrow>
      good (ce_record env ev w) \<and> deps (ce_record env ev w) = deps w \<and> svcs (ce_record env ev w) = svcs w \<and>
      mons (ce_record env ev w) = mons w \<and> ruls (ce_record env ev w) = ruls w \<and>
      pols (ce_record env ev w) = pols w \<and> cas (ce_record env ev w) = cas w \<and>
      ce_config env (ce_record env ev w) = ce_config env w"

lemma AutoscalerName_key [simp]:
  "ko_key (AutoscalerService cfg ca) = AutoscalerName cfg ca"
  "ko_key (AutoscalerServiceMonitor cfg ca) = AutoscalerName cfg ca"
  "ko_key (AutoscalerPrometheusRule cfg ca) = AutoscalerName cfg ca"
  by (simp_all add: ko_key_def meta_key_def AutoscalerService_def AutoscalerServiceMonitor_def
      AutoscalerPrometheusRule_def AutoscalerName_def Let_def)

lemma fresh_objects [simp]:
  "om_ownerReferences (ko_meta (AutoscalerService cfg ca)) = []" "ko_deletion (AutoscalerService cfg ca) = None"
  "om_ownerReferences (ko_meta (AutoscalerServiceMonitor cfg ca)) = []"
  "ko_deletion (AutoscalerServiceMonitor cfg ca) = None"
  "om_ownerReferences (ko_meta (AutoscalerPrometheusRule cfg ca)) = []"
  "ko_deletion (AutoscalerPrometheusRule cfg ca) = None"
  by (simp_all add: ko_deletion_def AutoscalerService_def AutoscalerServiceMonitor_def
      AutoscalerPrometheusRule_def empty_meta_def Let_def)

lemma rules_eq_refl: "rules_eq a a"
  by (auto simp: rules_eq_def alert_eq_def map_eq_iff intro!: list_all2_refl)

lemma policy_eq_refl: "policy_eq a a"
proof -
  have s: "selector_eq x x" for x by (cases x) (simp_all add: map_eq_iff)
  then show ?thesis
    by (auto simp: policy_eq_def np_rule_eq_def peer_eq_def map_eq_iff intro!: list_all2_refl)
qed

context ca_cluster
begin

text \<open>The steps that ensure one object: what they store, and that nothing else changes.\<close>

lemma wp_service:
  assumes "good w" "om_namespace (ca_meta ca) = ''''"
    and "\<And>r w' x. \<lbrakk>good w'; deps w' = deps w; mons w' = mons w; ruls w' = ruls w; pols w' = pols w;
      ce_config env w' = ce_config env w; cas w' = cas w; svcs w' = (svcs w)(AutoscalerName cfg ca \<mapsto> x);
      service_eq (ko_spec x) (ko_spec (AutoscalerService cfg ca)); owned_by env ca (svcs w (AutoscalerName cfg ca)) x\<rbrakk>
      \<Longrightarrow> Q r w'"
    and "\<And>e w' x. \<lbrakk>good w'; deps w' = deps w; mons w' = mons w; ruls w' = ruls w; pols w' = pols w;
      ce_config env w' = ce_config env w; cas w' = cas w; svcs w' = (svcs w)(AutoscalerName cfg ca := x);
      \<not> is_panic e\<rbrakk> \<Longrightarrow> E e w'"
  shows "wp (createOrUpdateAutoscalerService env cfg ca) Q E w"
  unfolding createOrUpdateAutoscalerService_def
  by (rule wp_createOrUpdateObjectForCA [OF S.object_store_axioms S_frame assms(1,2)])
    (use assms(3,4) in \<open>auto simp: mutate_service_def Let_def service_eq_def map_eq_iff\<close>)

lemma wp_monitor:
  assumes "good w" "om_namespace (ca_meta ca) = ''''"
    and "\<And>r w' x. \<lbrakk>good w'; deps w' = deps w; svcs w' = svcs w; ruls w' = ruls w; pols w' = pols w;
      ce_config env w' = ce_config env w; cas w' = cas w; mons w' = (mons w)(AutoscalerName cfg ca \<mapsto> x);
      monitor_eq (ko_spec x) (ko_spec (AutoscalerServiceMonitor cfg ca));
      owned_by env ca (mons w (AutoscalerName cfg ca)) x\<rbrakk> \<Longrightarrow> Q r w'"
    and "\<And>e w' x. \<lbrakk>good w'; deps w' = deps w; svcs w' = svcs w; ruls w' = ruls w; pols w' = pols w;
      ce_config env w' = ce_config env w; cas w' = cas w; mons w' = (mons w)(AutoscalerName cfg ca := x);
      \<not> is_panic e\<rbrakk> \<Longrightarrow> E e w'"
  shows "wp (createOrUpdateAutoscalerServiceMonitor env cfg ca) Q E w"
  unfolding createOrUpdateAutoscalerServiceMonitor_def
  by (rule wp_createOrUpdateObjectForCA [OF M.object_store_axioms M_frame assms(1,2)])
    (use assms(3,4) in \<open>auto simp: replace_spec_def monitor_eq_def map_eq_iff\<close>)

lemma wp_rule:
  assumes "good w" "om_namespace (ca_meta ca) = ''''"
    and "\<And>r w' x. \<lbrakk>good w'; deps w' = deps w; svcs w' = svcs w; mons w' = mons w; pols w' = pols w;
      ce_config env w' = ce_config env w; cas w' = cas w; ruls w' = (ruls w)(AutoscalerName cfg ca \<mapsto> x);
      rules_eq (ko_spec x) (ko_spec (AutoscalerPrometheusRule cfg ca));
      owned_by env ca (ruls w (AutoscalerName cfg ca)) x\<rbrakk> \<Longrightarrow> Q r w'"
    and "\<And>e w' x. \<lbrakk>good w'; deps w' = deps w; svcs w' = svcs w; mons w' = mons w; pols w' = pols w;
      ce_config env w' = ce_config env w; cas w' = cas w; ruls w' = (ruls w)(AutoscalerName cfg ca := x);
      \<not> is_panic e\<rbrakk> \<Longrightarrow> E e w'"
  shows "wp (createOrUpdateAutoscalerPrometheusRule env cfg ca) Q E w"
  unfolding createOrUpdateAutoscalerPrometheusRule_def
  by (rule wp_createOrUpdateObjectForCA [OF R.object_store_axioms R_frame assms(1,2)])
    (use assms(3,4) in \<open>auto simp: replace_spec_def rules_eq_refl\<close>)

lemma wp_policy:
  assumes "good w" "om_namespace (ca_meta ca) = ''''"
    and "om_ownerReferences (ko_meta p) = []" "ko_deletion p = None" "ko_spec d = ko_spec p"
    and "\<And>r w' x. \<lbrakk>good w'; deps w' = deps w; svcs w' = svcs w; mons w' = mons w; ruls w' = ruls w;
      ce_config env w' = ce_config env w; cas w' = cas w; pols w' = (pols w)(ko_key p \<mapsto> x);
      policy_eq (ko_spec x) (ko_spec p); owned_by env ca (pols w (ko_key p)) x\<rbrakk> \<Longrightarrow> Q r w'"
    and "\<And>e w' x. \<lbrakk>good w'; deps w' = deps w; svcs w' = svcs w; mons w' = mons w; ruls w' = ruls w;
      ce_config env w' = ce_config env w; cas w' = cas w; pols w' = (pols w)(ko_key p := x);
      \<not> is_panic e\<rbrakk> \<Longrightarrow> E e w'"
  shows "wp (createOrUpdateObjectForCA env ca (ce_policies env) policy_eq p (replace_spec d)) Q E w"
  by (rule wp_createOrUpdateObjectForCA [OF P.object_store_axioms P_frame assms(1,2)])
    (use assms(3-) in \<open>auto simp: replace_spec_def policy_eq_refl\<close>)

end

section \<open>The monitoring objects and the policies\<close>

lemma wp_wrap_v [wp_simps]:
  "wp (wrap_v f m) Q E = wp m (\<lambda>_. Q ()) (\<lambda>e w. if is_panic e then E e w else E (GoError f [ArgE e]) w)"
  by (simp add: wrap_v_def wp_simps)

lemma policy_objects:
  assumes "p \<in> set (AutoscalerNetworkPolicies cfg ca)"
  shows "om_ownerReferences (ko_meta p) = []" "ko_deletion p = None"
  using assms
  by (auto simp: AutoscalerNetworkPolicies_def network_policy_def empty_meta_def ko_deletion_def Let_def)

lemma distinct_policies: "distinct (map ko_key (AutoscalerNetworkPolicies cfg ca))"
  by (simp add: AutoscalerNetworkPolicies_def network_policy_def ko_key_def meta_key_def Let_def)

definition policy_keys :: "ca_config \<Rightarrow> ClusterAutoscaler \<Rightarrow> NamespacedName set" where
  "policy_keys cfg ca = ko_key ` set (AutoscalerNetworkPolicies cfg ca)"

text \<open>The policies as they should be in the store \<open>look\<close>.\<close>

definition policies_stored :: "NetworkPolicy list \<Rightarrow> (NamespacedName \<Rightarrow> NetworkPolicy option) \<Rightarrow> bool" where
  "policies_stored ps look \<longleftrightarrow> (\<forall>p \<in> set ps. \<exists>x. look (ko_key p) = Some x \<and> policy_eq (ko_spec x) (ko_spec p))"

context ca_cluster
begin

lemma wp_monitoring:
  fixes w cfg ca
  defines "n \<equiv> AutoscalerName cfg ca"
  assumes w: "good w" and ca: "om_namespace (ca_meta ca) = ''''"
    and Q: "\<And>w' s m r. \<lbrakk>good w'; deps w' = deps w; pols w' = pols w; ce_config env w' = ce_config env w; cas w' = cas w;
      svcs w' = (svcs w)(n \<mapsto> s); mons w' = (mons w)(n \<mapsto> m); ruls w' = (ruls w)(n \<mapsto> r);
      service_eq (ko_spec s) (ko_spec (AutoscalerService cfg ca)); owned_by env ca (svcs w n) s;
      monitor_eq (ko_spec m) (ko_spec (AutoscalerServiceMonitor cfg ca)); owned_by env ca (mons w n) m;
      rules_eq (ko_spec r) (ko_spec (AutoscalerPrometheusRule cfg ca)); owned_by env ca (ruls w n) r\<rbrakk> \<Longrightarrow> Q () w'"
    and E: "\<And>e w' x y z. \<lbrakk>good w'; deps w' = deps w; pols w' = pols w; ce_config env w' = ce_config env w;
      cas w' = cas w; svcs w' = (svcs w)(n := x); mons w' = (mons w)(n := y); ruls w' = (ruls w)(n := z);
      \<not> is_panic e\<rbrakk> \<Longrightarrow> E e w'"
  shows "wp (ensureAutoscalerMonitoring env cfg ca) Q E w"
  unfolding ensureAutoscalerMonitoring_def wp_simps
proof (rule wp_service [OF w ca], goal_cases)
  case (1 _ w1 s)
  note s = 1
  show ?case
  proof (rule wp_monitor [OF s(1) ca], goal_cases)
    case (1 _ w2 m)
    note m = 1
    show ?case
    proof (rule wp_rule [OF m(1) ca], goal_cases)
      case (1 _ w3 r)
      then show ?case using s m by (intro Q [where s = s and m = m and r = r]) (simp_all add: n_def)
    next
      case (2 e w3 z)
      then show ?case using s m by (auto intro!: E [where x = "Some s" and y = "Some m" and z = z] simp: n_def)
    qed
  next
    case (2 e w2 y)
    then show ?case using s by (auto intro!: E [where x = "Some s" and y = y and z = "ruls w n"] simp: n_def)
  qed
next
  case (2 e w1 x)
  then show ?case by (auto intro!: E [where x = x and y = "mons w n" and z = "ruls w n"] simp: n_def)
qed

text \<open>
  The loop over the policies: without an error at the end, every policy is in place.  The
  worlds are those before and after the loop over \<open>ps\<close>, the errors those collected so far
  and at the end.
\<close>

definition policies_done ::
  "ClusterAutoscaler \<Rightarrow> (NetworkPolicy \<times> NetworkPolicy) list \<Rightarrow> 'w \<Rightarrow> go_error option \<Rightarrow>
    go_error option \<Rightarrow> 'w \<Rightarrow> bool" where
  "policies_done ca ps w err err' w' \<longleftrightarrow>
    good w' \<and> deps w' = deps w \<and> svcs w' = svcs w \<and> mons w' = mons w \<and> ruls w' = ruls w \<and>
    ce_config env w' = ce_config env w \<and> cas w' = cas w \<and>
    (\<forall>k. k \<notin> ko_key ` fst ` set ps \<longrightarrow> pols w' k = pols w k) \<and>
    (\<forall>e. err' = Some e \<longrightarrow> err = Some e \<or> \<not> is_panic e) \<and>
    (err' = None \<longrightarrow> err = None \<and> policies_stored (map fst ps) (pols w') \<and>
      adopted env ca (ko_key ` fst ` set ps) (pols w) (pols w'))"

lemma adopted_insert:
  assumes "k \<notin> K" "adopted env ca K st1 st2" "\<And>k'. k' \<noteq> k \<Longrightarrow> st1 k' = st k'"
    and "st2 k = Some x" "owned_by env ca (st k) x"
  shows "adopted env ca (insert k K) st st2"
  using assms unfolding adopted_def by (metis insert_iff)

lemma wp_policies_loop:
  assumes "good w" and ca: "om_namespace (ca_meta ca) = []"
    and "\<And>p d. (p, d) \<in> set ps \<Longrightarrow>
      om_ownerReferences (ko_meta p) = [] \<and> ko_deletion p = None \<and> ko_spec d = ko_spec p"
    and "distinct (map (\<lambda>(p, d). ko_key p) ps)"
  shows "wp (policies_loop env ca ps res err) (\<lambda>(res', err'). policies_done ca ps w err err') (\<lambda>e w'. False) w"
  using assms(1,3,4)
proof (induction ps arbitrary: w res err)
  case Nil
  then show ?case by (simp add: wp_simps policies_done_def policies_stored_def adopted_def)
next
  case (Cons pd ps)
  obtain p d where pd: "pd = (p, d)" by (cases pd)
  have p: "om_ownerReferences (ko_meta p) = []" "ko_deletion p = None" "ko_spec d = ko_spec p"
    using Cons.prems(2) [of p d] by (auto simp: pd)
  have key: "ko_key p \<notin> ko_key ` fst ` set ps" using Cons.prems(3) by (auto simp: pd)
  have rest: "wp (policies_loop env ca ps res1 err1) (\<lambda>(res', err'). policies_done ca ps w1 err1 err') (\<lambda>e w'. False) w1"
    if "good w1" for w1 res1 err1
    by (rule Cons.IH [OF that]) (use Cons.prems(2,3) in auto)
  show ?case
    unfolding pd policies_loop.simps wp_simps sum.case
  proof (rule wp_policy [OF Cons.prems(1) ca p], goal_cases)
    case (1 r w1 x)
    note x = 1
    show ?case
    proof (rule wp_mono [OF rest [OF x(1)]], goal_cases)
      case (1 re w2)
      then obtain res' err' where 3: "re = (res', err')" "policies_done ca ps w1 (errors_Join err None) err' w2"
        by (cases re) auto
      note 3 = 3(1) 3(2) [unfolded policies_done_def]
      have stored: "pols w2 (ko_key p) = Some x" using 3 x(8) key by auto
      have "adopted env ca (insert (ko_key p) (ko_key ` fst ` set ps)) (pols w) (pols w2)" if "err' = None"
        by (rule adopted_insert [where ?st1.0 = "pols w1" and x = x]) (use 3 x key stored that in auto)
      with 3 x stored show ?case
        by (auto simp: policies_done_def policies_stored_def errors_Join_def split: option.splits)
    qed simp
  next
    case (2 e w1 x)
    note x = 2
    have "wp (policies_loop env ca ps (res @ [OpFailed]) (errors_Join err (Some e)))
       (\<lambda>(res', err'). policies_done ca (pd # ps) w err err') (\<lambda>e w'. False) w1"
      by (rule wp_mono [OF rest [OF x(1)]])
        (use x in \<open>auto simp: policies_done_def errors_Join_def pd split: option.splits\<close>)
    with x(9) show ?case by (simp add: pd)
  qed
qed

end

section \<open>The deployment and the whole loop\<close>

lemma GoJoin_not_panic: "errors_Join a b = Some e \<Longrightarrow> \<not> is_panic e"
  by (auto simp: errors_Join_def split: option.splits)

lemma zip_self: "(p, d) \<in> set (zip xs xs) \<Longrightarrow> d = p \<and> p \<in> set xs"
  by (auto simp: zip_same)

text \<open>What the operator leaves of a deployment.\<close>

definition deployed :: "string \<Rightarrow> ca_config \<Rightarrow> ClusterAutoscaler \<Rightarrow> Deployment \<Rightarrow> bool" where
  "deployed goarch cfg ca d \<longleftrightarrow>
     pt_Spec (dp_Template (ko_spec d)) = pod_spec goarch cfg ca \<and>
     ReleaseVersionMatches (om_annotations (ko_meta d)) (cc_ReleaseVersion cfg) \<and>
     ReleaseVersionMatches (pt_Annotations (dp_Template (ko_spec d))) (cc_ReleaseVersion cfg)"

lemma UpdateAnnotations_release:
  "map_get (UpdateAnnotations cfg a) ReleaseVersionAnnotation = Some (cc_ReleaseVersion cfg)"
  "k \<notin> {ReleaseVersionAnnotation, CriticalPodAnnotation} \<Longrightarrow> map_get (UpdateAnnotations cfg a) k = map_get a k"
  by (simp_all add: UpdateAnnotations_def Let_def)

lemma deployed_update: "deployed goarch cfg ca (update_deployment cfg (pod_spec goarch cfg ca) d)"
  by (simp add: deployed_def update_deployment_def Let_def ReleaseVersionMatches_iff UpdateAnnotations_release)

lemma update_deployment_key [simp]:
  "ko_key (update_deployment cfg s d) = ko_key d" "ko_gone (update_deployment cfg s d) = ko_gone d"
  by (simp_all add: update_deployment_def ko_key_def meta_key_def ko_gone_def ko_deletion_def Let_def)

lemma deployed_written: "ko_written a = ko_written b \<Longrightarrow> deployed g cfg ca b \<Longrightarrow> deployed g cfg ca a"
  using meta_written_eqD [of "ko_meta a" "ko_meta b"] by (simp add: ko_written_def deployed_def)

context ca_cluster
begin

text \<open>Nothing but the objects of the resource's own names has changed, and the configuration
  at most by the platform type.\<close>

definition framed :: "ClusterAutoscaler \<Rightarrow> 'w \<Rightarrow> 'w \<Rightarrow> bool" where
  "framed ca w w' \<longleftrightarrow>
     good w' \<and> cas w' = cas w \<and>
     (\<exists>t. ce_config env w' = (ce_config env w)\<lparr>cc_platformType := t\<rparr> \<and>
        (cc_platformType (ce_config env w) \<noteq> [] \<longrightarrow> t = cc_platformType (ce_config env w))) \<and>
     (\<forall>k. k \<noteq> AutoscalerName (ce_config env w) ca \<longrightarrow>
        deps w' k = deps w k \<and> svcs w' k = svcs w k \<and> mons w' k = mons w k \<and> ruls w' k = ruls w k) \<and>
     (\<forall>k. k \<notin> policy_keys (ce_config env w) ca \<longrightarrow> pols w' k = pols w k)"

text \<open>A new object of the other four kinds is controlled by the resource; an old one keeps its owners.\<close>

definition all_adopted :: "ClusterAutoscaler \<Rightarrow> 'w \<Rightarrow> 'w \<Rightarrow> bool" where
  "all_adopted ca w w' \<longleftrightarrow>
     (let n = AutoscalerName (ce_config env w) ca in
      adopted env ca {n} (svcs w) (svcs w') \<and> adopted env ca {n} (mons w) (mons w') \<and>
      adopted env ca {n} (ruls w) (ruls w') \<and>
      adopted env ca (policy_keys (ce_config env w) ca) (pols w) (pols w'))"

lemma wp_networkpolicies:
  assumes w: "good w" and ca: "om_namespace (ca_meta ca) = []"
    and Q: "\<And>r w'. \<lbrakk>good w'; deps w' = deps w; svcs w' = svcs w; mons w' = mons w; ruls w' = ruls w;
      ce_config env w' = ce_config env w; cas w' = cas w;
      \<forall>k. k \<notin> policy_keys cfg ca \<longrightarrow> pols w' k = pols w k;
      policies_stored (AutoscalerNetworkPolicies cfg ca) (pols w');
      adopted env ca (policy_keys cfg ca) (pols w) (pols w')\<rbrakk> \<Longrightarrow> Q r w'"
    and E: "\<And>e w'. \<lbrakk>good w'; deps w' = deps w; svcs w' = svcs w; mons w' = mons w; ruls w' = ruls w;
      ce_config env w' = ce_config env w; cas w' = cas w;
      \<forall>k. k \<notin> policy_keys cfg ca \<longrightarrow> pols w' k = pols w k; \<not> is_panic e\<rbrakk> \<Longrightarrow> E e w'"
  shows "wp (createOrUpdateAutoscalerNetworkPolicies env cfg ca) Q E w"
proof -
  let ?ps = "AutoscalerNetworkPolicies cfg ca"
  have m: "map fst (zip ?ps ?ps) = ?ps" by simp
  have z: "map fst (zip ?ps ?ps) = ?ps" "fst ` set (zip ?ps ?ps) = set ?ps"
    "map (\<lambda>(p, d). ko_key p) (zip ?ps ?ps) = map ko_key ?ps"
    using m arg_cong [OF m, of set, unfolded set_map] arg_cong [OF m, of "map ko_key", unfolded map_map comp_def]
    by (simp_all only: case_prod_unfold)
  have "wp (policies_loop env ca (zip ?ps ?ps) [] None)
      (\<lambda>(res, err). (case err of None \<Rightarrow> Q res | Some e \<Rightarrow> E e)) E w"
  proof (rule wp_mono [OF wp_policies_loop [OF w ca, of "zip ?ps ?ps"]], goal_cases)
    case (1 p d)
    then show ?case using zip_self [OF 1] policy_objects [of p] by auto
  next
    case 2
    then show ?case using distinct_policies [of cfg ca] by (simp only: z)
  next
    case (3 re w')
    obtain res err where re: "re = (res, err)" by (cases re)
    note 3 = 3 [unfolded re prod.case policies_done_def]
    show ?case
    proof (cases err)
      case None
      with 3 re show ?thesis by (auto intro!: Q simp: z(1,2) policy_keys_def)
    next
      case (Some e)
      with 3 re show ?thesis by (auto intro!: E simp: z(1,2) policy_keys_def)
    qed
  qed auto
  then show ?thesis
    by (simp add: createOrUpdateAutoscalerNetworkPolicies_def wp_simps case_prod_unfold cong: option.case_cong)
qed

lemma wp_CreateAutoscaler:
  assumes w: "good w" and ca: "om_namespace (ca_meta ca) = []"
    and Q: "\<And>r w'. \<lbrakk>good w'; svcs w' = svcs w; mons w' = mons w; ruls w' = ruls w; pols w' = pols w;
      ce_config env w' = ce_config env w; cas w' = cas w; deps w' = (deps w)(AutoscalerName cfg ca \<mapsto> r);
      deployed (ce_goarch env) cfg ca r; om_ownerReferences (ko_meta r) = [owner_ref env ca]\<rbrakk> \<Longrightarrow> Q r w'"
    and E: "\<And>e w' x. \<lbrakk>good w'; svcs w' = svcs w; mons w' = mons w; ruls w' = ruls w; pols w' = pols w;
      ce_config env w' = ce_config env w; cas w' = cas w; deps w' = (deps w)(AutoscalerName cfg ca := x);
      \<not> is_panic e\<rbrakk> \<Longrightarrow> E e w'"
  shows "wp (CreateAutoscaler env cfg ca) Q E w"
proof -
  let ?d = "deployment (ce_goarch env) cfg ca"
  define meta where "meta = (ko_meta ?d)\<lparr>om_ownerReferences := [owner_ref env ca]\<rparr>"
  define obj where "obj = ?d\<lparr>ko_meta := meta\<rparr>"
  have scr: "SetControllerReference (ce_gvk env) (ca_meta ca) (ko_meta ?d) = Inr meta"
    by (simp add: SetControllerReference_fresh ca meta_def owner_ref_def)
  have key: "ko_key obj = AutoscalerName cfg ca" "ko_deletion obj = None"
    using deployment_simps(1,2) [of "ce_goarch env" cfg ca]
    by (simp_all add: obj_def meta_def ko_key_def meta_key_def ko_deletion_def del: deployment_simps)
  have dep: "deployed (ce_goarch env) cfg ca obj"
    by (simp add: deployed_def obj_def meta_def ReleaseVersionMatches_iff deployment_annotations)
  have "wp (cl_create (ce_deployments env) obj) Q E w"
  proof (rule wp_preserves [OF client_act_preserves(2) [OF D_frame]], rule D.wp_create [OF w], goal_cases)
    case (1 r w')
    then have wr: "ko_written r = ko_written obj" by (simp add: key)
    have "om_ownerReferences (ko_meta r) = [owner_ref env ca]"
      using ko_written_eqD(2) [OF wr, THEN meta_written_eqD(5)] by (simp add: obj_def meta_def)
    with 1 key deployed_written [OF wr dep] show ?case by (auto intro: Q)
  next
    case (2 e w' x)
    with key show ?case by (auto intro: E)
  qed
  then show ?thesis
    by (simp add: CreateAutoscaler_def wp_simps AutoscalerDeployment_eq scr flip: obj_def)
qed

lemma wp_UpdateAutoscaler:
  assumes w: "good w"
    and Q: "\<And>w' d d'. \<lbrakk>good w'; svcs w' = svcs w; mons w' = mons w; ruls w' = ruls w; pols w' = pols w;
      ce_config env w' = ce_config env w; cas w' = cas w; deps w (AutoscalerName cfg ca) = Some d;
      deps w' = (deps w)(AutoscalerName cfg ca \<mapsto> d');
      ko_written d' = ko_written (update_deployment cfg (pod_spec (ce_goarch env) cfg ca) d);
      deployed (ce_goarch env) cfg ca d'\<rbrakk> \<Longrightarrow> Q () w'"
    and E: "\<And>e w' x. \<lbrakk>good w'; svcs w' = svcs w; mons w' = mons w; ruls w' = ruls w; pols w' = pols w;
      ce_config env w' = ce_config env w; cas w' = cas w; deps w' = (deps w)(AutoscalerName cfg ca := x);
      \<not> is_panic e\<rbrakk> \<Longrightarrow> E e w'"
  shows "wp (UpdateAutoscaler env cfg ca) Q E w"
  unfolding UpdateAutoscaler_def GetAutoscaler_def wp_simps AutoscalerPodSpec_eq sum.case Let_def
    pod_DeepEqual.simps simp_thms if_False
proof (rule wp_preserves [OF client_act_preserves(1) [OF D_frame]], rule D.wp_get [OF w], goal_cases)
  case (1 d w1)
  note d = 1
  let ?new = "update_deployment cfg (pod_spec (ce_goarch env) cfg ca) d"
  show ?case
  proof
    assume s: "(svcs w1, mons w1, ruls w1, pols w1, ce_config env w1, cas w1) =
      (svcs w, mons w, ruls w, pols w, ce_config env w, cas w)"
    show "wp (cl_update (ce_deployments env) ?new) (\<lambda>_. Q ()) E w1"
    proof (rule wp_preserves [OF client_act_preserves(3) [OF D_frame]], rule D.wp_update [OF d(1)], goal_cases)
      case (1 d' w2)
      then show ?case using d s deployed_written [OF 1(4) deployed_update]
        by (auto intro!: Q [where d = d and d' = d'])
    next
      case (2 e w2 x)
      then show ?case using d s by (auto intro!: E [where x = x])
    qed
  qed
next
  case (2 e w1)
  then show ?case by (auto intro!: E [where x = "deps w (AutoscalerName cfg ca)"])
qed

end

section \<open>The loop\<close>

text \<open>Everything the resource asks for is in place in the five stores.\<close>

definition ca_converged ::
    "string \<Rightarrow> ca_config \<Rightarrow> ClusterAutoscaler \<Rightarrow> (NamespacedName \<Rightarrow> Deployment option) \<Rightarrow>
     (NamespacedName \<Rightarrow> Service option) \<Rightarrow> (NamespacedName \<Rightarrow> ServiceMonitor option) \<Rightarrow>
     (NamespacedName \<Rightarrow> PrometheusRule option) \<Rightarrow> (NamespacedName \<Rightarrow> NetworkPolicy option) \<Rightarrow> bool" where
  "ca_converged goarch cfg ca D S M R P \<longleftrightarrow>
     (let n = AutoscalerName cfg ca in
      (\<exists>d. D n = Some d \<and> deployed goarch cfg ca d) \<and>
      (\<exists>s. S n = Some s \<and> service_eq (ko_spec s) (ko_spec (AutoscalerService cfg ca))) \<and>
      (\<exists>m. M n = Some m \<and> monitor_eq (ko_spec m) (ko_spec (AutoscalerServiceMonitor cfg ca))) \<and>
      (\<exists>r. R n = Some r \<and> rules_eq (ko_spec r) (ko_spec (AutoscalerPrometheusRule cfg ca))) \<and>
      policies_stored (AutoscalerNetworkPolicies cfg ca) P)"

text \<open>How the deployment came about: created with its owner, or the old one updated.\<close>

definition rolled_out ::
    "'w ca_env \<Rightarrow> ca_config \<Rightarrow> ClusterAutoscaler \<Rightarrow> Deployment option \<Rightarrow> Deployment option \<Rightarrow> bool" where
  "rolled_out env cfg ca before after \<longleftrightarrow>
     (\<exists>d'. after = Some d' \<and>
        (case before of
           None \<Rightarrow> om_ownerReferences (ko_meta d') = [owner_ref env ca]
         | Some d \<Rightarrow> ko_written d' = ko_written (update_deployment cfg (pod_spec (ce_goarch env) cfg ca) d)))"

text \<open>The platform type is no part of the names or the policies.\<close>

lemma platform_irrelevant [simp]:
  "AutoscalerName (cfg\<lparr>cc_platformType := t\<rparr>) ca = AutoscalerName cfg ca"
  "AutoscalerNetworkPolicies (cfg\<lparr>cc_platformType := t\<rparr>) ca = AutoscalerNetworkPolicies cfg ca"
  "policy_keys (cfg\<lparr>cc_platformType := t\<rparr>) ca = policy_keys cfg ca"
  by (simp_all add: AutoscalerName_def AutoscalerNetworkPolicies_def network_policy_def policy_keys_def)

context ca_cluster
begin

lemma wp_update_platform:
  assumes w: "good w"
    and Q: "\<And>cfg w' t. \<lbrakk>good w'; deps w' = deps w; svcs w' = svcs w; mons w' = mons w; ruls w' = ruls w;
      pols w' = pols w; cas w' = cas w; ce_config env w' = cfg; cfg = (ce_config env w)\<lparr>cc_platformType := t\<rparr>;
      cc_platformType (ce_config env w) \<noteq> [] \<longrightarrow> t = cc_platformType (ce_config env w)\<rbrakk> \<Longrightarrow> Q cfg w'"
    and E: "\<And>e w'. \<lbrakk>good w'; deps w' = deps w; svcs w' = svcs w; mons w' = mons w; ruls w' = ruls w;
      pols w' = pols w; cas w' = cas w; ce_config env w' = ce_config env w\<rbrakk> \<Longrightarrow> E e w'"
  shows "wp (update_platform env) Q E w"
proof (cases "cc_platformType (ce_config env w) = []")
  case True
  have "wp (ce_get_infra env k)
      (\<lambda>i. case inf_PlatformStatus i of None \<Rightarrow> E (GoPanic s)
         | Some t \<Rightarrow> (\<lambda>w'. Q ((ce_config env w)\<lparr>cc_platformType := t\<rparr>)
             (ce_set_config env ((ce_config env w)\<lparr>cc_platformType := t\<rparr>) w')))
      (\<lambda>e w'. (is_panic e \<longrightarrow> E e w') \<and> (\<not> is_panic e \<longrightarrow> E (GoWrap f e) w')) w" for k s f
  proof (rule wpI)
    fix i w1 assume "ce_get_infra env k w = (Inr i, w1)"
    note w1 = get_infra [OF w this]
    show "(case inf_PlatformStatus i of None \<Rightarrow> E (GoPanic s)
         | Some t \<Rightarrow> (\<lambda>w'. Q ((ce_config env w)\<lparr>cc_platformType := t\<rparr>)
             (ce_set_config env ((ce_config env w)\<lparr>cc_platformType := t\<rparr>) w'))) w1"
    proof (cases "inf_PlatformStatus i")
      case None
      with w1 show ?thesis by (simp add: E)
    next
      case (Some t)
      have "Q ((ce_config env w)\<lparr>cc_platformType := t\<rparr>) (ce_set_config env ((ce_config env w)\<lparr>cc_platformType := t\<rparr>) w1)"
        by (rule Q [where t = t])
          (use w1 set_config [of w1 "(ce_config env w)\<lparr>cc_platformType := t\<rparr>"] True in simp_all)
      with Some show ?thesis by simp
    qed
  next
    fix e w1 assume "ce_get_infra env k w = (Inl e, w1)"
    note w1 = get_infra [OF w this]
    show "(is_panic e \<longrightarrow> E e w1) \<and> (\<not> is_panic e \<longrightarrow> E (GoWrap f e) w1)" using w1 by (simp add: E)
  qed
  then show ?thesis
    unfolding update_platform_def getPlatformType_def wp_simps using True
    by (simp add: wp_simps cong: option.case_cong)
next
  case False
  have "(ce_config env w)\<lparr>cc_platformType := cc_platformType (ce_config env w)\<rparr> = ce_config env w" by simp
  with False w show ?thesis
    unfolding update_platform_def wp_simps by (auto intro!: Q)
qed

end

context ca_cluster
begin

lemma recorded_warning:
  "good w \<Longrightarrow> good (ca_warning env cfg ca a b c e w)" "good w \<Longrightarrow> deps (ca_warning env cfg ca a b c e w) = deps w"
  "good w \<Longrightarrow> svcs (ca_warning env cfg ca a b c e w) = svcs w" "good w \<Longrightarrow> mons (ca_warning env cfg ca a b c e w) = mons w"
  "good w \<Longrightarrow> ruls (ca_warning env cfg ca a b c e w) = ruls w" "good w \<Longrightarrow> pols (ca_warning env cfg ca a b c e w) = pols w"
  "good w \<Longrightarrow> cas (ca_warning env cfg ca a b c e w) = cas w"
  "good w \<Longrightarrow> ce_config env (ca_warning env cfg ca a b c e w) = ce_config env w"
  using recorded [of w] by (simp_all add: ca_warning_def ca_event_def)

lemma recorded_event:
  "good w \<Longrightarrow> good (ca_event env cfg ca a b c n e w)" "good w \<Longrightarrow> deps (ca_event env cfg ca a b c n e w) = deps w"
  "good w \<Longrightarrow> svcs (ca_event env cfg ca a b c n e w) = svcs w" "good w \<Longrightarrow> mons (ca_event env cfg ca a b c n e w) = mons w"
  "good w \<Longrightarrow> ruls (ca_event env cfg ca a b c n e w) = ruls w" "good w \<Longrightarrow> pols (ca_event env cfg ca a b c n e w) = pols w"
  "good w \<Longrightarrow> cas (ca_event env cfg ca a b c n e w) = cas w"
  "good w \<Longrightarrow> ce_config env (ca_event env cfg ca a b c n e w) = ce_config env w"
  using recorded [of w] by (simp_all add: ca_event_def)

lemmas recorded_facts = recorded_warning recorded_event

lemma framed_warning [simp]:
  "good w' \<Longrightarrow> framed ca w (ca_warning env cfg ca' a b c e w') \<longleftrightarrow> framed ca w w'"
  "good w' \<Longrightarrow> framed ca w (ca_event env cfg ca' a b c n as w') \<longleftrightarrow> framed ca w w'"
  by (simp_all add: framed_def recorded_facts)

lemma framed_warn: "framed ca w w' \<Longrightarrow> framed ca w (if is_panic e then w' else ca_warning env cfg ca' a b c e w')"
  by (simp add: framed_def recorded_facts)

lemma wp_create_or_update:
  assumes w: "good w" and ca: "om_namespace (ca_meta ca) = []"
    and Q: "\<And>w' d. \<lbrakk>good w'; svcs w' = svcs w; mons w' = mons w; ruls w' = ruls w; pols w' = pols w;
      ce_config env w' = ce_config env w; cas w' = cas w; deps w' = (deps w)(AutoscalerName cfg ca \<mapsto> d);
      deployed (ce_goarch env) cfg ca d;
      ex = (deps w (AutoscalerName cfg ca) \<noteq> None) \<longrightarrow> rolled_out env cfg ca (deps w (AutoscalerName cfg ca)) (Some d)\<rbrakk>
      \<Longrightarrow> Q () w'"
    and E: "\<And>e w' x. \<lbrakk>good w'; svcs w' = svcs w; mons w' = mons w; ruls w' = ruls w; pols w' = pols w;
      ce_config env w' = ce_config env w; cas w' = cas w; deps w' = (deps w)(AutoscalerName cfg ca := x)\<rbrakk> \<Longrightarrow> E e w'"
  shows "wp (create_or_update env cfg ca ex) Q E w"
proof (cases ex)
  case True
  show ?thesis
    unfolding create_or_update_def wp_simps using True
    by simp (rule wp_UpdateAutoscaler [OF w]; auto intro!: Q E simp: recorded_facts rolled_out_def)
next
  case False
  show ?thesis
    unfolding create_or_update_def wp_simps using False
    by simp (rule wp_CreateAutoscaler [OF w ca]; auto intro!: Q E simp: recorded_facts rolled_out_def)
qed

lemma wp_reconcile_live:
  assumes w: "good w" and ca: "om_namespace (ca_meta ca) = []"
    and Q: "\<And>w'. \<lbrakk>framed ca w w';
      ca_converged (ce_goarch env) (ce_config env w') ca (deps w') (svcs w') (mons w') (ruls w') (pols w');
      all_adopted ca w w';
      ex = (deps w (AutoscalerName (ce_config env w) ca) \<noteq> None) \<longrightarrow>
        rolled_out env (ce_config env w') ca (deps w (AutoscalerName (ce_config env w) ca))
          (deps w' (AutoscalerName (ce_config env w) ca))\<rbrakk> \<Longrightarrow> Q () w'"
    and E: "\<And>e w'. framed ca w w' \<Longrightarrow> E e w'"
  shows "wp (reconcile_live env ca ex) Q E w"
  unfolding reconcile_live_def wp_simps
proof (rule wp_update_platform [OF w], goal_cases)
  case (1 cfg w1 t)
  note cfg = 1
  have n: "AutoscalerName cfg ca = AutoscalerName (ce_config env w) ca" and pk: "policy_keys cfg ca = policy_keys (ce_config env w) ca"
    by (simp_all add: cfg(9))
  have fr: "framed ca w w2" if "good w2" "cas w2 = cas w" "ce_config env w2 = cfg"
    "\<And>k. k \<noteq> AutoscalerName cfg ca \<Longrightarrow> deps w2 k = deps w k \<and> svcs w2 k = svcs w k \<and> mons w2 k = mons w k \<and> ruls w2 k = ruls w k"
    "\<And>k. k \<notin> policy_keys cfg ca \<Longrightarrow> pols w2 k = pols w k" for w2
    unfolding framed_def using that cfg n pk by auto
  show ?case
  proof (rule wp_monitoring [OF cfg(1) ca], goal_cases)
    case (1 w2 s m r)
    note mon = 1
    show ?case
    proof (rule wp_networkpolicies [OF mon(1) ca], goal_cases)
      case (1 _ w3)
      note pol = 1
      show ?case
      proof (rule wp_create_or_update [OF pol(1) ca], goal_cases)
        case (1 w4 d)
        note dep = 1
        have c: "ce_config env w4 = cfg" using dep pol mon cfg by simp
        have "ca_converged (ce_goarch env) cfg ca (deps w4) (svcs w4) (mons w4) (ruls w4) (pols w4)"
          using dep pol mon by (simp add: ca_converged_def Let_def)
        moreover have "all_adopted ca w w4"
          using dep pol mon cfg n pk by (simp add: all_adopted_def adopted_def Let_def)
        moreover have "framed ca w w4"
          by (rule fr) (use dep pol mon cfg in auto)
        moreover have "ex = (deps w (AutoscalerName cfg ca) \<noteq> None) \<longrightarrow>
            rolled_out env cfg ca (deps w (AutoscalerName cfg ca)) (deps w4 (AutoscalerName cfg ca))"
          using dep pol mon cfg by simp
        ultimately show ?case by (intro Q) (simp_all add: c n)
      next
        case (2 e w4 x)
        show ?case by (rule E, rule fr) (use 2 pol mon cfg in auto)
      qed
    next
      case (2 e w3)
      show ?case by (rule E, rule framed_warn, rule fr) (use 2 mon cfg in auto)
    qed
  next
    case (2 e w2 x y z)
    show ?case by (rule E, rule framed_warn, rule fr) (use 2 cfg in auto)
  qed
next
  case (2 e w1)
  show ?case by (rule E) (use 2 in \<open>auto simp: framed_def intro!: exI [of _ "cc_platformType (ce_config env w)"]\<close>)
qed

end

context ca_cluster
begin

definition unchanged :: "'w \<Rightarrow> 'w \<Rightarrow> bool" where
  "unchanged w w' \<longleftrightarrow>
     good w' \<and> deps w' = deps w \<and> svcs w' = svcs w \<and> mons w' = mons w \<and> ruls w' = ruls w \<and> pols w' = pols w \<and>
     ce_config env w' = ce_config env w \<and> cas w' = cas w"

lemma unchanged_framed: "unchanged w w' \<Longrightarrow> framed ca w w'"
  by (auto simp: unchanged_def framed_def intro!: exI [of _ "cc_platformType (ce_config env w)"])

lemma unchanged_trans:
  "unchanged w w1 \<Longrightarrow> unchanged w1 w2 \<Longrightarrow> unchanged w w2" "unchanged w w1 \<Longrightarrow> framed ca w1 w2 \<Longrightarrow> framed ca w w2"
  "unchanged w w1 \<Longrightarrow> all_adopted ca w1 w2 \<Longrightarrow> all_adopted ca w w2"
  by (simp_all add: unchanged_def framed_def all_adopted_def)

lemma unchanged_recorded: "unchanged w w' \<Longrightarrow> unchanged w (ca_warning env cfg ca a b c e w')"
  by (simp add: unchanged_def recorded_facts)

lemma wp_GetAutoscaler:
  assumes "good w"
    and "\<And>d w'. \<lbrakk>unchanged w w'; deps w (AutoscalerName cfg ca) = Some d; ko_key d = AutoscalerName cfg ca\<rbrakk> \<Longrightarrow> Q d w'"
    and "\<And>e w'. \<lbrakk>unchanged w w'; \<not> is_panic e; IsNotFound e \<longrightarrow> deps w (AutoscalerName cfg ca) = None\<rbrakk> \<Longrightarrow> E e w'"
  shows "wp (GetAutoscaler env cfg ca) Q E w"
  unfolding GetAutoscaler_def
  by (rule wp_preserves [OF client_act_preserves(1) [OF D_frame]], rule D.wp_get [OF assms(1)])
    (auto intro!: assms(2,3) simp: unchanged_def)

text \<open>A resource that is being deleted loses its deployment, and nothing is created.\<close>

lemma wp_ca_delete:
  assumes "good w" and d: "\<And>d. p = Some d \<Longrightarrow> ko_key d = n" "p = None \<Longrightarrow> deps w n = None"
    and Q: "\<And>w' x. \<lbrakk>good w'; svcs w' = svcs w; mons w' = mons w; ruls w' = ruls w; pols w' = pols w;
      ce_config env w' = ce_config env w; cas w' = cas w; deps w' = (deps w)(n := x);
      \<forall>y. x = Some y \<longrightarrow> pending_deletion y\<rbrakk> \<Longrightarrow> Q () w'"
    and E: "\<And>e w' x. \<lbrakk>good w'; svcs w' = svcs w; mons w' = mons w; ruls w' = ruls w; pols w' = pols w;
      ce_config env w' = ce_config env w; cas w' = cas w; deps w' = (deps w)(n := x)\<rbrakk> \<Longrightarrow> E e w'"
  shows "wp (ca_delete env p) Q E w"
proof (cases p)
  case None
  have "deps w = (deps w)(n := None)" using d(2) [OF None] by (simp add: fun_upd_idem)
  then show ?thesis using assms(1) by (simp add: None ca_delete_def wp_simps Q)
next
  case (Some d)
  have k: "ko_key d = n" using d(1) Some by simp
  show ?thesis
    unfolding ca_delete_def Some option.case wp_simps
  proof (rule wp_preserves [OF client_act_preserves(4) [OF D_frame]], rule DD.wp_delete [OF assms(1)], goal_cases)
    case (1 w' x)
    then show ?case by (auto intro!: Q [where x = x] simp: k)
  next
    case (2 e w' x)
    then show ?case by (auto intro!: Q [where x = x] E [where x = x] simp: k)
  qed
qed

text \<open>The run once the deployment has been looked up.\<close>

lemma wp_found_tail:
  assumes w1: "unchanged w w1" and ca: "om_namespace (ca_meta ca) = []"
    and p: "\<And>d. p = Some d \<Longrightarrow> ko_key d = AutoscalerName (ce_config env w) ca"
      "p = None \<longleftrightarrow> deps w (AutoscalerName (ce_config env w) ca) = None"
    and X: "\<And>w' x. \<lbrakk>ca_GetDeletionTimestamp ca \<noteq> None;
      good w'; svcs w' = svcs w; mons w' = mons w; ruls w' = ruls w; pols w' = pols w;
      ce_config env w' = ce_config env w; cas w' = cas w;
      deps w' = (deps w)(AutoscalerName (ce_config env w) ca := x); \<forall>d. x = Some d \<longrightarrow> pending_deletion d\<rbrakk> \<Longrightarrow> Q () w'"
    and L: "\<And>w'. \<lbrakk>ca_GetDeletionTimestamp ca = None; framed ca w w';
      ca_converged (ce_goarch env) (ce_config env w') ca (deps w') (svcs w') (mons w') (ruls w') (pols w');
      all_adopted ca w w';
      rolled_out env (ce_config env w') ca (deps w (AutoscalerName (ce_config env w) ca))
        (deps w' (AutoscalerName (ce_config env w) ca))\<rbrakk> \<Longrightarrow> Q () w'"
    and E: "\<And>e w'. \<lbrakk>framed ca w w';
      ca_GetDeletionTimestamp ca \<noteq> None \<longrightarrow> svcs w' = svcs w \<and> mons w' = mons w \<and> ruls w' = ruls w \<and> pols w' = pols w\<rbrakk>
      \<Longrightarrow> E e w'"
  shows "wp (if ca_GetDeletionTimestamp ca \<noteq> None then ca_delete env p else reconcile_live env ca (p \<noteq> None)) Q E w1"
proof (cases "ca_GetDeletionTimestamp ca = None")
  case del: False
  have "wp (ca_delete env p) Q E w1"
  proof (rule wp_ca_delete [where n = "AutoscalerName (ce_config env w) ca"], goal_cases)
    case (4 w' x)
    then show ?case using w1 del by (intro X [of w' x]) (simp_all add: unchanged_def)
  next
    case (5 e w' x)
    then have "framed ca w w'" using w1
      by (auto simp: framed_def unchanged_def intro!: exI [of _ "cc_platformType (ce_config env w)"])
    with 5 w1 del show ?case by (intro E) (simp_all add: unchanged_def)
  qed (use w1 p in \<open>auto simp: unchanged_def\<close>)
  with del show ?thesis by simp
next
  case live: True
  have "wp (reconcile_live env ca (p \<noteq> None)) Q E w1"
  proof (rule wp_reconcile_live [OF _ ca], goal_cases)
    case (2 w')
    then show ?case using w1 p(2) live
      by (intro L) (auto intro: unchanged_trans simp: unchanged_def)
  next
    case (3 e w')
    then show ?case using w1 live by (intro E) (auto intro: unchanged_trans)
  qed (use w1 in \<open>simp add: unchanged_def\<close>)
  with live show ?thesis by simp
qed

text \<open>
  The outcomes for a resource that was found: it is invalid (\<open>R\<close>); it is being deleted
  (\<open>X\<close>); it is live and everything is in place (\<open>L\<close>); or some step failed (\<open>E\<close>).
\<close>

lemma wp_reconcile_found:
  assumes w: "good w" and ca: "om_namespace (ca_meta ca) = []"
    and R: "\<And>w'. \<lbrakk>\<not> IsValid (ca_Validate (ce_order env) name (Some ca)); unchanged w w'\<rbrakk>
      \<Longrightarrow> E (aggregate_error (ca_Validate (ce_order env) name (Some ca))) w'"
    and X: "\<And>w' x. \<lbrakk>IsValid (ca_Validate (ce_order env) name (Some ca)); ca_GetDeletionTimestamp ca \<noteq> None;
      good w'; svcs w' = svcs w; mons w' = mons w; ruls w' = ruls w; pols w' = pols w;
      ce_config env w' = ce_config env w; cas w' = cas w;
      deps w' = (deps w)(AutoscalerName (ce_config env w) ca := x); \<forall>d. x = Some d \<longrightarrow> pending_deletion d\<rbrakk> \<Longrightarrow> Q () w'"
    and L: "\<And>w'. \<lbrakk>IsValid (ca_Validate (ce_order env) name (Some ca)); ca_GetDeletionTimestamp ca = None; framed ca w w';
      ca_converged (ce_goarch env) (ce_config env w') ca (deps w') (svcs w') (mons w') (ruls w') (pols w');
      all_adopted ca w w';
      rolled_out env (ce_config env w') ca (deps w (AutoscalerName (ce_config env w) ca))
        (deps w' (AutoscalerName (ce_config env w) ca))\<rbrakk> \<Longrightarrow> Q () w'"
    and E: "\<And>e w'. \<lbrakk>IsValid (ca_Validate (ce_order env) name (Some ca)); framed ca w w';
      ca_GetDeletionTimestamp ca \<noteq> None \<longrightarrow> svcs w' = svcs w \<and> mons w' = mons w \<and> ruls w' = ruls w \<and> pols w' = pols w\<rbrakk>
      \<Longrightarrow> E e w'"
  shows "wp (reconcile_found env name ca) Q E w"
proof (cases "IsValid (ca_Validate (ce_order env) name (Some ca))")
  case False
  have "unchanged w w" using w by (simp add: unchanged_def)
  with False show ?thesis
    by (simp add: reconcile_found_def Let_def wp_simps R unchanged_recorded)
next
  case True
  let ?n = "AutoscalerName (ce_config env w) ca"
  have tail: "wp (if ca_GetDeletionTimestamp ca \<noteq> None then ca_delete env p else reconcile_live env ca (p \<noteq> None)) Q E w1"
    if "unchanged w w1" "\<And>d. p = Some d \<Longrightarrow> ko_key d = ?n" "p = None \<longleftrightarrow> deps w ?n = None" for p w1
    using that(1) ca that(2,3) X [OF True] L [OF True] E [OF True] by (rule wp_found_tail)
  have get: "wp (GetAutoscaler env (ce_config env w) ca)
     (\<lambda>d. wp (if ca_GetDeletionTimestamp ca \<noteq> None then ca_delete env (Some d) else reconcile_live env ca (Some d \<noteq> None)) Q E)
     (\<lambda>e w'. if IsNotFound e
        then wp (if ca_GetDeletionTimestamp ca \<noteq> None then ca_delete env None
                 else reconcile_live env ca (None \<noteq> (None :: Deployment option))) Q E w'
        else E e (if is_panic e then w' else ca_warning env (ce_config env w) ca ''FailedGetDeployment'' ''GetDeployment''
          ''Error getting cluster-autoscaler deployment: %v'' e w')) w"
  proof (rule wp_GetAutoscaler [OF w], goal_cases)
    case (1 d w1)
    then show ?case by (intro tail) auto
  next
    case (2 e w1)
    show ?case
    proof (cases "IsNotFound e")
      case nf: True
      with 2 have "wp (if ca_GetDeletionTimestamp ca \<noteq> None then ca_delete env None
          else reconcile_live env ca (None \<noteq> (None :: Deployment option))) Q E w1" by (intro tail) auto
      with nf show ?thesis by simp
    next
      case nf: False
      with 2 show ?thesis
        by (auto intro!: E True unchanged_framed unchanged_recorded simp: unchanged_def recorded_facts)
    qed
  qed
  then show ?thesis
    using True unfolding reconcile_found_def Let_def wp_simps by simp
qed

end

context ca_cluster
begin

lemma unchanged_simps:
  "unchanged w w1 \<Longrightarrow> good w1" "unchanged w w1 \<Longrightarrow> deps w1 = deps w" "unchanged w w1 \<Longrightarrow> svcs w1 = svcs w"
  "unchanged w w1 \<Longrightarrow> mons w1 = mons w" "unchanged w w1 \<Longrightarrow> ruls w1 = ruls w" "unchanged w w1 \<Longrightarrow> pols w1 = pols w"
  "unchanged w w1 \<Longrightarrow> ce_config env w1 = ce_config env w"
  by (simp_all add: unchanged_def)

text \<open>The whole handler: \<open>N\<close> for a resource that is gone, \<open>G\<close> for a failed read of it.\<close>

lemma wp_ca_Reconcile:
  assumes w: "good w"
    and N: "\<And>w'. \<lbrakk>unchanged w w'; cas w req = None\<rbrakk> \<Longrightarrow> Q () w'"
    and G: "\<And>e w'. \<lbrakk>unchanged w w'; \<not> is_panic e\<rbrakk> \<Longrightarrow> E e w'"
    and R: "\<And>w' ca. \<lbrakk>cas w req = Some ca; \<not> IsValid (ca_Validate (ce_order env) name (Some ca)); unchanged w w'\<rbrakk>
      \<Longrightarrow> E (aggregate_error (ca_Validate (ce_order env) name (Some ca))) w'"
    and X: "\<And>w' ca x. \<lbrakk>cas w req = Some ca; IsValid (ca_Validate (ce_order env) name (Some ca));
      ca_GetDeletionTimestamp ca \<noteq> None; good w'; svcs w' = svcs w; mons w' = mons w; ruls w' = ruls w;
      pols w' = pols w; ce_config env w' = ce_config env w; cas w' = cas w;
      deps w' = (deps w)(AutoscalerName (ce_config env w) ca := x); \<forall>d. x = Some d \<longrightarrow> pending_deletion d\<rbrakk> \<Longrightarrow> Q () w'"
    and L: "\<And>w' ca. \<lbrakk>cas w req = Some ca; IsValid (ca_Validate (ce_order env) name (Some ca));
      ca_GetDeletionTimestamp ca = None; framed ca w w';
      ca_converged (ce_goarch env) (ce_config env w') ca (deps w') (svcs w') (mons w') (ruls w') (pols w');
      all_adopted ca w w';
      rolled_out env (ce_config env w') ca (deps w (AutoscalerName (ce_config env w) ca))
        (deps w' (AutoscalerName (ce_config env w) ca))\<rbrakk> \<Longrightarrow> Q () w'"
    and E: "\<And>e w' ca. \<lbrakk>cas w req = Some ca; IsValid (ca_Validate (ce_order env) name (Some ca)); framed ca w w';
      ca_GetDeletionTimestamp ca \<noteq> None \<longrightarrow> svcs w' = svcs w \<and> mons w' = mons w \<and> ruls w' = ruls w \<and> pols w' = pols w\<rbrakk>
      \<Longrightarrow> E e w'"
  shows "wp (ca_Reconcile env name req) Q E w"
  unfolding ca_Reconcile_def wp_simps
proof (rule wpI)
  fix ca w1 assume "ce_get_ca env req w = (Inr ca, w1)"
  note g = get_ca [OF w this]
  then have u: "unchanged w w1" and ca: "cas w req = Some ca" "om_namespace (ca_meta ca) = []"
    by (simp_all add: unchanged_def)
  note s = unchanged_simps [OF u]
  have "wp (reconcile_found env name ca) Q E w1"
  proof (rule wp_reconcile_found [OF s(1) ca(2)], goal_cases)
    case (1 w') then show ?case by (intro R [OF ca(1)] unchanged_trans [OF u])
  next
    case (2 w' x) then show ?case using g by (intro X [OF ca(1)]) (simp_all add: s)
  next
    case (3 w') then show ?case by (intro L [OF ca(1)] unchanged_trans [OF u]) (simp_all add: s)
  next
    case (4 e w') then show ?case by (intro E [OF ca(1)] unchanged_trans [OF u]) (simp_all add: s)
  qed
  then show "(case Some ca of None \<Rightarrow> Q () | Some ca \<Rightarrow> wp (reconcile_found env name ca) Q E) w1" by simp
next
  fix e w1 assume "ce_get_ca env req w = (Inl e, w1)"
  note g = get_ca [OF w this]
  then have "unchanged w w1" by (simp add: unchanged_def)
  with g show "(if IsNotFound e then (case None of None \<Rightarrow> Q () | Some ca \<Rightarrow> wp (reconcile_found env name ca) Q E) w1
      else E e w1)"
    by (auto intro: N G)
qed

end

end
