(* ===== verification/CA_Properties.thy ===== *)
theory CA_Properties
  imports CA_Cluster
begin

text \<open>
  The properties of the ClusterAutoscaler controller, for every API server that meets the
  contract \<open>ca_cluster\<close>.  The cluster of fake clients below meets it, and the witnesses run
  the loop on it.
\<close>

section \<open>A cluster of fake clients\<close>

record ca_world =
  cw_cas :: "NamespacedName \<Rightarrow> ClusterAutoscaler option"
  cw_infra :: "NamespacedName \<Rightarrow> Infrastructure option"
  cw_deps :: "(NamespacedName, Deployment) tracker"
  cw_svcs :: "(NamespacedName, Service) tracker"
  cw_mons :: "(NamespacedName, ServiceMonitor) tracker"
  cw_ruls :: "(NamespacedName, PrometheusRule) tracker"
  cw_pols :: "(NamespacedName, NetworkPolicy) tracker"
  cw_config :: ca_config
  cw_events :: "event list"

definition fake_now :: string where
  "fake_now = ''2024-01-01T00:00:00Z''"

definition fake_ca_env :: "ca_world ca_env" where
  "fake_ca_env =
     \<lparr>ce_get_ca = \<lambda>k w. (case cw_cas w k of None \<Rightarrow> Inl not_found | Some ca \<Rightarrow> Inr ca, w),
      ce_get_infra = \<lambda>k w. (case cw_infra w k of None \<Rightarrow> Inl not_found | Some i \<Rightarrow> Inr i, w),
      ce_deployments = fake_client (kobject_ops True) fake_now cw_deps (\<lambda>s w. w\<lparr>cw_deps := s\<rparr>),
      ce_services = fake_client (kobject_ops True) fake_now cw_svcs (\<lambda>s w. w\<lparr>cw_svcs := s\<rparr>),
      ce_monitors = fake_client (kobject_ops True) fake_now cw_mons (\<lambda>s w. w\<lparr>cw_mons := s\<rparr>),
      ce_rules = fake_client (kobject_ops True) fake_now cw_ruls (\<lambda>s w. w\<lparr>cw_ruls := s\<rparr>),
      ce_policies = fake_client (kobject_ops False) fake_now cw_pols (\<lambda>s w. w\<lparr>cw_pols := s\<rparr>),
      ce_record = \<lambda>ev w. w\<lparr>cw_events := cw_events w @ [ev]\<rparr>,
      ce_config = cw_config,
      ce_set_config = \<lambda>c w. w\<lparr>cw_config := c\<rparr>,
      ce_gvk = \<lparr>gvk_group = ''autoscaling.openshift.io'', gvk_version = ''v1'', gvk_kind = ''ClusterAutoscaler''\<rparr>,
      ce_goarch = ''amd64'',
      ce_order = [''DelayAfterAdd'', ''DelayAfterDelete'', ''DelayAfterFailure'', ''UnneededTime'']\<rparr>"

definition fake_ca_good :: "ca_world \<Rightarrow> bool" where
  "fake_ca_good w \<longleftrightarrow>
     keyed (kobject_ops True) (cw_deps w) \<and> keyed (kobject_ops True) (cw_svcs w) \<and>
     keyed (kobject_ops True) (cw_mons w) \<and> keyed (kobject_ops True) (cw_ruls w) \<and>
     keyed (kobject_ops False) (cw_pols w) \<and>
     (\<forall>k ca. cw_cas w k = Some ca \<longrightarrow> om_namespace (ca_meta ca) = [])"

interpretation fake_deps: kube_deletable "kobject_ops True" ko_written ko_status fake_now cw_deps
  "\<lambda>s w. w\<lparr>cw_deps := s\<rparr>" fake_ca_good
  by unfold_locales (simp_all add: fake_ca_good_def kobject_ops_def ko_deletion_def ko_key_def meta_key_def)

interpretation fake_svcs: kube_kind "kobject_ops True" ko_written ko_status fake_now cw_svcs
  "\<lambda>s w. w\<lparr>cw_svcs := s\<rparr>" fake_ca_good
  by unfold_locales (simp_all add: fake_ca_good_def)

interpretation fake_mons: kube_kind "kobject_ops True" ko_written ko_status fake_now cw_mons
  "\<lambda>s w. w\<lparr>cw_mons := s\<rparr>" fake_ca_good
  by unfold_locales (simp_all add: fake_ca_good_def)

interpretation fake_ruls: kube_kind "kobject_ops True" ko_written ko_status fake_now cw_ruls
  "\<lambda>s w. w\<lparr>cw_ruls := s\<rparr>" fake_ca_good
  by unfold_locales (simp_all add: fake_ca_good_def)

interpretation fake_pols: kube_kind "kobject_ops False" ko_written ko_status fake_now cw_pols
  "\<lambda>s w. w\<lparr>cw_pols := s\<rparr>" fake_ca_good
  by unfold_locales (simp_all add: fake_ca_good_def)

lemma fake_ca_stores:
  "object_store (ce_deployments fake_ca_env) ko_key cw_deps ko_written ko_status pending_deletion ko_gone (\<lambda>_. True) fake_ca_good"
  "object_deletion (ce_deployments fake_ca_env) ko_key cw_deps pending_deletion fake_ca_good"
  "object_store (ce_services fake_ca_env) ko_key cw_svcs ko_written ko_status pending_deletion ko_gone (\<lambda>_. True) fake_ca_good"
  "object_store (ce_monitors fake_ca_env) ko_key cw_mons ko_written ko_status pending_deletion ko_gone (\<lambda>_. True) fake_ca_good"
  "object_store (ce_rules fake_ca_env) ko_key cw_ruls ko_written ko_status pending_deletion ko_gone (\<lambda>_. True) fake_ca_good"
  "object_store (ce_policies fake_ca_env) ko_key cw_pols ko_written ko_status pending_deletion ko_gone (\<lambda>_. True) fake_ca_good"
  using fake_deps.object_store_axioms fake_deps.deletion.object_deletion_axioms fake_svcs.object_store_axioms
    fake_mons.object_store_axioms fake_ruls.object_store_axioms fake_pols.object_store_axioms
  by (simp_all add: fake_ca_env_def ko_gone_def [abs_def])

interpretation fake_ca: ca_cluster fake_ca_env cw_deps cw_svcs cw_mons cw_ruls cw_pols fake_ca_good cw_cas
  by (rule ca_cluster.intro [OF fake_ca_stores], unfold_locales)
     (auto simp: fake_ca_env_def fake_ca_good_def not_found_def intro!: fake_client_preserves split: option.splits)

section \<open>A cluster to run on\<close>

definition demo_cfg :: ca_config where
  "demo_cfg =
     \<lparr>cc_ReleaseVersion = ''4.17.0'', cc_Name = ''default'', cc_Namespace = ''ns'', cc_Image = ''img'',
      cc_Replicas = 1, cc_CloudProvider = ''clusterapi'', cc_Verbosity = 1, cc_ExtraArgs = '''',
      cc_platformType = '''', cc_FeatureGateAccessor = Some (Inr \<lparr>fg_enabled = [], fg_disabled = []\<rparr>),
      cc_WebhooksPort = 8443\<rparr>"

definition demo_ca :: ClusterAutoscaler where
  "demo_ca =
     \<lparr>ca_meta = empty_meta\<lparr>om_name := ''default'', om_uid := ''u''\<rparr>,
      ca_Spec = empty_spec\<lparr>cs_ResourceLimits :=
        Some \<lparr>rl_MaxNodesTotal = Some 24, rl_Cores = Some \<lparr>rr_Min = 8, rr_Max = 128\<rparr>, rl_Memory = None, rl_GPUS = []\<rparr>\<rparr>\<rparr>"

definition demo_req :: NamespacedName where
  "demo_req = \<lparr>nn_namespace = '''', nn_name = ''default''\<rparr>"

definition ca_demo_world :: "ClusterAutoscaler \<Rightarrow> ca_world" where
  "ca_demo_world ca =
     \<lparr>cw_cas = [demo_req \<mapsto> ca],
      cw_infra = [\<lparr>nn_namespace = '''', nn_name = ''cluster''\<rparr> \<mapsto> \<lparr>inf_PlatformStatus = Some ''AWS''\<rparr>],
      cw_deps = Map.empty, cw_svcs = Map.empty, cw_mons = Map.empty, cw_ruls = Map.empty, cw_pols = Map.empty,
      cw_config = demo_cfg, cw_events = []\<rparr>"

lemma demo_ca_good: "om_namespace (ca_meta ca) = [] \<Longrightarrow> fake_ca_good (ca_demo_world ca)"
  by (simp add: fake_ca_good_def ca_demo_world_def keyed_def)

definition ca_demo_run :: "ClusterAutoscaler \<Rightarrow> (go_error + unit) \<times> ca_world" where
  "ca_demo_run ca = ca_Reconcile fake_ca_env ''default'' demo_req (ca_demo_world ca)"

lemma ca_demo_run_eq: "ca_Reconcile fake_ca_env ''default'' demo_req (ca_demo_world ca) = (fst (ca_demo_run ca), snd (ca_demo_run ca))"
  by (simp add: ca_demo_run_def)

lemma ca_demo_run_Inr:
  "isl (fst (ca_demo_run ca)) = False \<Longrightarrow>
   ca_Reconcile fake_ca_env ''default'' demo_req (ca_demo_world ca) = (Inr (), snd (ca_demo_run ca))"
  by (cases "ca_demo_run ca"; cases "fst (ca_demo_run ca)") (simp_all add: ca_demo_run_def)

lemma demo_ca_ok: "isl (fst (ca_demo_run demo_ca)) = False"
  by code_simp

lemma demo_ca_facts [simp]:
  "om_namespace (ca_meta demo_ca) = []" "ca_GetDeletionTimestamp demo_ca = None"
  "cw_cas (ca_demo_world ca) = [demo_req \<mapsto> ca]" "cw_config (ca_demo_world ca) = demo_cfg"
  "ce_config fake_ca_env = cw_config" "ce_goarch fake_ca_env = ''amd64''"
  "cw_deps (ca_demo_world ca) = Map.empty"
  by (simp_all add: demo_ca_def ca_GetDeletionTimestamp_def empty_meta_def ca_demo_world_def fake_ca_env_def)

section \<open>The reconcile loop\<close>

text \<open>
  C2: where \<open>Reconcile\<close> returns no error for a live ClusterAutoscaler, everything the resource
  asks for is on the server under the configuration the reconciler now has: the deployment
  with the expected pod specification and release version, the service, the service monitor,
  the alerting rules and all five network policies, each with its expected specification;
  and a deployment that was created is controlled by the resource.
\<close>

theorem ca_reconcile_success:
  assumes "ca_cluster env deps svcs mons ruls pols good cas" "good w"
    and "cas w req = Some ca" "ca_GetDeletionTimestamp ca = None"
    and "ca_Reconcile env name req w = (Inr (), w')"
  shows "ca_converged (ce_goarch env) (ce_config env w') ca (deps w') (svcs w') (mons w') (ruls w') (pols w') \<and>
    (deps w (AutoscalerName (ce_config env w) ca) = None \<longrightarrow>
      (\<exists>d. deps w' (AutoscalerName (ce_config env w) ca) = Some d \<and>
        om_ownerReferences (ko_meta d) = [controller_ref (ce_gvk env) (ca_meta ca)]))"
proof -
  let ?n = "AutoscalerName (ce_config env w) ca"
  have "wp (ca_Reconcile env name req)
     (\<lambda>_ w'. ca_converged (ce_goarch env) (ce_config env w') ca (deps w') (svcs w') (mons w') (ruls w') (pols w') \<and>
        rolled_out env (ce_config env w') ca (deps w ?n) (deps w' ?n)) (\<lambda>_ _. True) w"
    by (rule ca_cluster.wp_ca_Reconcile [OF assms(1,2)]) (use assms(3,4) in auto)
  from wpD(1) [OF this assms(5)] show ?thesis
    by (auto simp: rolled_out_def owner_ref_def)
qed

theorem ca_reconcile_success_witness:
  "ca_converged ''amd64'' (cw_config (snd (ca_demo_run demo_ca))) demo_ca (cw_deps (snd (ca_demo_run demo_ca)))
     (cw_svcs (snd (ca_demo_run demo_ca))) (cw_mons (snd (ca_demo_run demo_ca)))
     (cw_ruls (snd (ca_demo_run demo_ca))) (cw_pols (snd (ca_demo_run demo_ca)))"
  using ca_reconcile_success [OF fake_ca.ca_cluster_axioms demo_ca_good _ _ ca_demo_run_Inr [OF demo_ca_ok]] by simp

text \<open>
  C13: whatever \<open>Reconcile\<close> returns, it writes no object but those of the resource's own names
  (the deployment, service, monitor and rules of one name and the five policies), leaves the
  ClusterAutoscalers alone, and changes its configuration at most by filling in a platform
  type it did not have.
\<close>

theorem ca_reconcile_frame:
  assumes "ca_cluster env deps svcs mons ruls pols good cas" "good w"
    and "cas w req = Some ca" "ca_Reconcile env name req w = (r, w')"
  shows "good w' \<and> cas w' = cas w \<and>
    (\<forall>k. k \<noteq> AutoscalerName (ce_config env w) ca \<longrightarrow>
       deps w' k = deps w k \<and> svcs w' k = svcs w k \<and> mons w' k = mons w k \<and> ruls w' k = ruls w k) \<and>
    (\<forall>k. k \<notin> policy_keys (ce_config env w) ca \<longrightarrow> pols w' k = pols w k) \<and>
    (\<exists>t. ce_config env w' = (ce_config env w)\<lparr>cc_platformType := t\<rparr> \<and>
       (cc_platformType (ce_config env w) \<noteq> '''' \<longrightarrow> t = cc_platformType (ce_config env w)))"
proof -
  note cl = assms(1)
  have fr: "ca_cluster.framed env deps svcs mons ruls pols good cas ca w w'"
    if "good w'" "svcs w' = svcs w" "mons w' = mons w" "ruls w' = ruls w" "pols w' = pols w" "cas w' = cas w"
      "ce_config env w' = ce_config env w" "deps w' = (deps w)(AutoscalerName (ce_config env w) ca := x)" for w' x
    unfolding ca_cluster.framed_def [OF cl] using that
    by (auto intro!: exI [of _ "cc_platformType (ce_config env w)"])
  let ?P = "ca_cluster.framed env deps svcs mons ruls pols good cas ca w"
  have "wp (ca_Reconcile env name req) (\<lambda>_. ?P) (\<lambda>_. ?P) w"
    by (rule ca_cluster.wp_ca_Reconcile [OF assms(1,2)])
       (use assms(3) in \<open>auto intro: ca_cluster.unchanged_framed [OF cl] fr\<close>)
  from wp_result [OF this assms(4)] show ?thesis
    unfolding ca_cluster.framed_def [OF cl] by (auto split: sum.splits)
qed

theorem ca_reconcile_frame_witness:
  "\<exists>t. cw_config (snd (ca_demo_run demo_ca)) = demo_cfg\<lparr>cc_platformType := t\<rparr>"
  using ca_reconcile_frame [OF fake_ca.ca_cluster_axioms demo_ca_good _ ca_demo_run_eq, of demo_ca demo_ca] by auto

text \<open>
  An update of an existing deployment replaces its pod specification and refreshes the
  critical-pod and release-version annotations, and keeps everything else of it: replicas,
  selector, labels, owners and every other annotation.  So replicas that were scaled by hand
  stay, and so does the absence of the workload-management annotation, which a created
  deployment has.
\<close>

theorem ca_update_keeps:
  assumes "ca_cluster env deps svcs mons ruls pols good cas" "good w"
    and "cas w req = Some ca" "ca_GetDeletionTimestamp ca = None"
    and "deps w (AutoscalerName (ce_config env w) ca) = Some d"
    and "ca_Reconcile env name req w = (Inr (), w')"
  shows "\<exists>d'. deps w' (AutoscalerName (ce_config env w) ca) = Some d' \<and>
    deployed (ce_goarch env) (ce_config env w') ca d' \<and>
    dp_Replicas (ko_spec d') = dp_Replicas (ko_spec d) \<and> dp_Selector (ko_spec d') = dp_Selector (ko_spec d) \<and>
    pt_Labels (dp_Template (ko_spec d')) = pt_Labels (dp_Template (ko_spec d)) \<and>
    om_ownerReferences (ko_meta d') = om_ownerReferences (ko_meta d) \<and>
    (\<forall>k. k \<notin> {ReleaseVersionAnnotation, CriticalPodAnnotation} \<longrightarrow>
       map_get (om_annotations (ko_meta d')) k = map_get (om_annotations (ko_meta d)) k)"
proof -
  let ?n = "AutoscalerName (ce_config env w) ca"
  have "wp (ca_Reconcile env name req)
     (\<lambda>_ w'. ca_converged (ce_goarch env) (ce_config env w') ca (deps w') (svcs w') (mons w') (ruls w') (pols w') \<and>
        rolled_out env (ce_config env w') ca (deps w ?n) (deps w' ?n) \<and>
        AutoscalerName (ce_config env w') ca = ?n) (\<lambda>_ _. True) w"
    by (rule ca_cluster.wp_ca_Reconcile [OF assms(1,2)])
       (use assms(3,4) in \<open>auto simp: ca_cluster.framed_def [OF assms(1)]\<close>)
  from wpD(1) [OF this assms(6)] assms(5) obtain d' where d': "deps w' ?n = Some d'"
    "ko_written d' = ko_written (update_deployment (ce_config env w') (pod_spec (ce_goarch env) (ce_config env w') ca) d)"
    "deployed (ce_goarch env) (ce_config env w') ca d'"
    by (auto simp: rolled_out_def ca_converged_def Let_def)
  note m = ko_written_eqD(2) [OF d'(2), THEN meta_written_eqD(5)] ko_written_eqD(2) [OF d'(2), THEN meta_written_eqD(2)]
    ko_written_eqD(1) [OF d'(2)]
  show ?thesis
    using d'(1,3) m by (auto simp: update_deployment_def Let_def UpdateAnnotations_release(2))
qed

text \<open>The witness: a deployment scaled to five replicas without the management annotation.\<close>

definition demo_old :: Deployment where
  "demo_old =
     (deployment ''amd64'' demo_cfg demo_ca)
       \<lparr>ko_meta := empty_meta\<lparr>om_name := ''cluster-autoscaler-default'', om_namespace := ''ns'', om_resourceVersion := 7\<rparr>,
        ko_spec := \<lparr>dp_Replicas = Some 5, dp_Selector = None,
          dp_Template = \<lparr>pt_Labels = None, pt_Annotations = None, pt_Spec = pod_spec ''arm64'' demo_cfg demo_ca\<rparr>\<rparr>\<rparr>"

definition demo_world_old :: ca_world where
  "demo_world_old = (ca_demo_world demo_ca)\<lparr>cw_deps := [AutoscalerName demo_cfg demo_ca \<mapsto> demo_old]\<rparr>"

lemma demo_world_old_good: "fake_ca_good demo_world_old"
proof -
  have "ko_key demo_old = AutoscalerName demo_cfg demo_ca" "ko_deletion demo_old = None"
    by (simp_all add: demo_old_def ko_key_def meta_key_def AutoscalerName_def demo_cfg_def demo_ca_def ca_Name_def
        ko_deletion_def empty_meta_def)
  then show ?thesis
    using demo_ca_good [of demo_ca] by (auto simp: demo_world_old_def fake_ca_good_def keyed_def split: if_splits)
qed

definition demo_run_old :: "(go_error + unit) \<times> ca_world" where
  "demo_run_old = ca_Reconcile fake_ca_env ''default'' demo_req demo_world_old"

theorem ca_update_keeps_witness:
  "\<exists>d'. cw_deps (snd demo_run_old) (AutoscalerName demo_cfg demo_ca) = Some d' \<and>
     dp_Replicas (ko_spec d') = Some 5 \<and> map_get (om_annotations (ko_meta d')) WorkloadManagementAnnotation = None"
proof -
  have "isl (fst demo_run_old) = False" by code_simp
  then have run: "ca_Reconcile fake_ca_env ''default'' demo_req demo_world_old = (Inr (), snd demo_run_old)"
    by (cases demo_run_old; cases "fst demo_run_old") (simp_all add: demo_run_old_def)
  have w: "cw_cas demo_world_old demo_req = Some demo_ca" "cw_config demo_world_old = demo_cfg"
    "cw_deps demo_world_old (AutoscalerName demo_cfg demo_ca) = Some demo_old"
    by (simp_all add: demo_world_old_def)
  have o: "dp_Replicas (ko_spec demo_old) = Some 5"
    "map_get (om_annotations (ko_meta demo_old)) WorkloadManagementAnnotation = None"
    by (simp_all add: demo_old_def empty_meta_def)
  have k: "WorkloadManagementAnnotation \<notin> {ReleaseVersionAnnotation, CriticalPodAnnotation}"
    by (simp add: WorkloadManagementAnnotation_def ReleaseVersionAnnotation_def CriticalPodAnnotation_def)
  show ?thesis
    using ca_update_keeps [OF fake_ca.ca_cluster_axioms demo_world_old_good w(1) demo_ca_facts(2) _ run, of demo_old] w o k
    by auto
qed

text \<open>
  An invalid ClusterAutoscaler is refused, live or being deleted: the run returns an error
  and changes no object and no configuration.
\<close>

lemma ca_reconcile_invalid:
  assumes "ca_cluster env deps svcs mons ruls pols good cas" "good w"
    and "cas w req = Some ca" "iteration_order (ce_order env)" "\<not> accepted name ca"
    and "ca_Reconcile env name req w = (r, w')"
  shows "(\<exists>e. r = Inl e) \<and> deps w' = deps w \<and> svcs w' = svcs w \<and> mons w' = mons w \<and> ruls w' = ruls w \<and>
    pols w' = pols w \<and> ce_config env w' = ce_config env w"
proof -
  have inv: "\<not> IsValid (ca_Validate (ce_order env) name (Some ca))"
    using ca_Validate_IsValid [OF assms(4), of name ca] assms(5) by (simp add: accepted_def)
  let ?E = "\<lambda>_ w'. deps w' = deps w \<and> svcs w' = svcs w \<and> mons w' = mons w \<and> ruls w' = ruls w \<and>
    pols w' = pols w \<and> ce_config env w' = ce_config env w"
  have "wp (ca_Reconcile env name req) (\<lambda>_ _. False) ?E w"
    by (rule ca_cluster.wp_ca_Reconcile [OF assms(1,2)])
       (use assms(3) inv in \<open>auto simp: ca_cluster.unchanged_def [OF assms(1)]\<close>)
  from wp_result [OF this assms(6)] show ?thesis by (cases r) simp_all
qed

definition demo_ca_bad :: ClusterAutoscaler where
  "demo_ca_bad = demo_ca\<lparr>ca_meta := empty_meta\<lparr>om_name := ''other''\<rparr>\<rparr>"

lemma ca_reconcile_invalid_witness:
  "cw_deps (snd (ca_demo_run demo_ca_bad)) = Map.empty"
proof -
  have "\<not> accepted ''default'' demo_ca_bad" by (simp add: accepted_def demo_ca_bad_def ca_Name_def)
  moreover have "om_namespace (ca_meta demo_ca_bad) = []" by (simp add: demo_ca_bad_def empty_meta_def)
  moreover have "iteration_order (ce_order fake_ca_env)" by (auto simp: iteration_order_def fake_ca_env_def)
  ultimately show ?thesis
    using ca_reconcile_invalid [OF fake_ca.ca_cluster_axioms demo_ca_good _ _ _ ca_demo_run_eq, of demo_ca_bad demo_ca_bad]
    by simp
qed

text \<open>
  Deletion.  Where \<open>Reconcile\<close> returns no error for a ClusterAutoscaler that is being
  deleted, its deployment is gone or its deletion is pending; and whatever it returns, nothing
  is created or updated and no other object is touched.
\<close>

lemma ca_reconcile_deleted:
  assumes "ca_cluster env deps svcs mons ruls pols good cas" "good w"
    and "cas w req = Some ca" "ca_GetDeletionTimestamp ca \<noteq> None"
    and "ca_Reconcile env name req w = (r, w')"
  shows "(r = Inr () \<longrightarrow> (\<forall>d. deps w' (AutoscalerName (ce_config env w) ca) = Some d \<longrightarrow> ko_deletion d \<noteq> None)) \<and>
    (\<forall>k. k \<noteq> AutoscalerName (ce_config env w) ca \<longrightarrow> deps w' k = deps w k) \<and>
    svcs w' = svcs w \<and> mons w' = mons w \<and> ruls w' = ruls w \<and> pols w' = pols w"
proof -
  let ?n = "AutoscalerName (ce_config env w) ca"
  let ?P = "\<lambda>w'. (\<forall>k. k \<noteq> ?n \<longrightarrow> deps w' k = deps w k) \<and> svcs w' = svcs w \<and> mons w' = mons w \<and>
    ruls w' = ruls w \<and> pols w' = pols w"
  have "wp (ca_Reconcile env name req) (\<lambda>_ w'. ?P w' \<and> (\<forall>d. deps w' ?n = Some d \<longrightarrow> ko_deletion d \<noteq> None)) (\<lambda>_. ?P) w"
    by (rule ca_cluster.wp_ca_Reconcile [OF assms(1,2)])
       (use assms(3,4) in \<open>auto simp: ca_cluster.unchanged_def [OF assms(1)] ca_cluster.framed_def [OF assms(1)]\<close>)
  from wp_result [OF this assms(5)] show ?thesis by (cases r) simp_all
qed

definition demo_deleted :: ClusterAutoscaler where
  "demo_deleted = demo_ca\<lparr>ca_meta := (ca_meta demo_ca)\<lparr>om_deletionTimestamp := Some ''t''\<rparr>\<rparr>"

definition demo_world_deleted :: ca_world where
  "demo_world_deleted = demo_world_old\<lparr>cw_cas := [demo_req \<mapsto> demo_deleted]\<rparr>"

definition demo_run_deleted :: "(go_error + unit) \<times> ca_world" where
  "demo_run_deleted = ca_Reconcile fake_ca_env ''default'' demo_req demo_world_deleted"

lemma ca_reconcile_deleted_witness:
  "cw_deps demo_world_deleted (AutoscalerName demo_cfg demo_ca) = Some demo_old \<and>
   cw_deps (snd demo_run_deleted) (AutoscalerName demo_cfg demo_ca) = None \<and>
   cw_svcs (snd demo_run_deleted) = cw_svcs demo_world_deleted"
proof (intro conjI)
  have "isl (fst demo_run_deleted) = False" by code_simp
  then have run: "ca_Reconcile fake_ca_env ''default'' demo_req demo_world_deleted = (Inr (), snd demo_run_deleted)"
    by (cases demo_run_deleted; cases "fst demo_run_deleted") (simp_all add: demo_run_deleted_def)
  have good: "fake_ca_good demo_world_deleted"
    using demo_world_old_good
    by (auto simp: demo_world_deleted_def fake_ca_good_def demo_deleted_def split: if_splits)
  have w: "cw_cas demo_world_deleted demo_req = Some demo_deleted"
    by (simp add: demo_world_deleted_def demo_world_old_def)
  show "cw_svcs (snd demo_run_deleted) = cw_svcs demo_world_deleted"
    using ca_reconcile_deleted [OF fake_ca.ca_cluster_axioms good w _ run]
    by (simp add: demo_deleted_def ca_GetDeletionTimestamp_def)
  show "cw_deps (snd demo_run_deleted) (AutoscalerName demo_cfg demo_ca) = None" by code_simp
qed (simp add: demo_world_deleted_def demo_world_old_def)

end
