(* ===== verification/CA_Watches.thy ===== *)
theory CA_Watches
  imports Kube_Manager CA_Properties
begin

text \<open>
  What the controller of ClusterAutoscalers watches (\<open>AddToManager\<close> of
  \<open>pkg/controller/clusterautoscaler/clusterautoscaler_controller.go\<close>), and that the objects its
  reconcile loop leaves in the cluster are watched: whoever changes or deletes one of them makes
  the controller run again.
\<close>

section \<open>The kinds and the sources\<close>

definition ca_gvk :: GroupVersionKind where
  "ca_gvk = \<lparr>gvk_group = ''autoscaling.openshift.io'', gvk_version = ''v1'', gvk_kind = ''ClusterAutoscaler''\<rparr>"

definition deployment_gvk :: GroupVersionKind where
  "deployment_gvk = \<lparr>gvk_group = ''apps'', gvk_version = ''v1'', gvk_kind = ''Deployment''\<rparr>"

definition policy_gvk :: GroupVersionKind where
  "policy_gvk = \<lparr>gvk_group = ''networking.k8s.io'', gvk_version = ''v1'', gvk_kind = ''NetworkPolicy''\<rparr>"

definition service_gvk :: GroupVersionKind where
  "service_gvk = \<lparr>gvk_group = [], gvk_version = ''v1'', gvk_kind = ''Service''\<rparr>"

definition monitor_gvk :: GroupVersionKind where
  "monitor_gvk = \<lparr>gvk_group = ''monitoring.coreos.com'', gvk_version = ''v1'', gvk_kind = ''ServiceMonitor''\<rparr>"

definition rule_gvk :: GroupVersionKind where
  "rule_gvk = \<lparr>gvk_group = ''monitoring.coreos.com'', gvk_version = ''v1'', gvk_kind = ''PrometheusRule''\<rparr>"

lemmas gvk_defs = ca_gvk_def deployment_gvk_def policy_gvk_def service_gvk_def monitor_gvk_def rule_gvk_def

definition ca_controllerName :: string where
  "ca_controllerName = ''cluster_autoscaler_controller''"

text \<open>The watch of one secondary kind: the requests are for the controller among the owners.\<close>

definition watch_owned :: "string \<Rightarrow> GroupVersionKind \<Rightarrow> ('r manager, unit) act" where
  "watch_owned c kind =
     act_bind (owner_handler ca_gvk True) (\<lambda>h.
       controller_Watch c \<lparr>wt_kind = kind, wt_handler = h, wt_filtered = False\<rparr>)"

definition ca_AddToManager :: "'r mgr_env \<Rightarrow> ('r manager, unit) act" where
  "ca_AddToManager env =
     (let c = ca_controllerName in
      act_bind (controller_New env c) (\<lambda>_.
      act_bind (controller_Watch c \<lparr>wt_kind = ca_gvk, wt_handler = EnqueueRequestForObject, wt_filtered = True\<rparr>) (\<lambda>_.
      act_bind (watch_owned c deployment_gvk) (\<lambda>_.
      act_bind (watch_owned c policy_gvk) (\<lambda>_.
      act_bind (watch_owned c service_gvk) (\<lambda>_.
      act_bind (watch_owned c monitor_gvk) (\<lambda>_.
      watch_owned c rule_gvk)))))))"

text \<open>The sources that are registered in the end.\<close>

definition ca_watches :: "watch list" where
  "ca_watches =
     \<lparr>wt_kind = ca_gvk, wt_handler = EnqueueRequestForObject, wt_filtered = True\<rparr> #
     map (\<lambda>kind. \<lparr>wt_kind = kind, wt_handler = EnqueueRequestForOwner ca_gvk True, wt_filtered = False\<rparr>)
       [deployment_gvk, policy_gvk, service_gvk, monitor_gvk, rule_gvk]"

lemma wp_watch_owned:
  assumes "mg_controllers m = cs @ [(c, ws)]" "c \<notin> fst ` set cs" "ca_gvk \<in> set (mg_scheme m)"
    and "\<And>m'. \<lbrakk>mg_scheme m' = mg_scheme m; mg_usedNames m' = mg_usedNames m; mg_runnables m' = mg_runnables m;
      mg_controllers m' = cs @ [(c, ws @ [\<lparr>wt_kind = kind, wt_handler = EnqueueRequestForOwner ca_gvk True,
        wt_filtered = False\<rparr>])]\<rbrakk> \<Longrightarrow> Q () m'"
  shows "wp (watch_owned c kind) Q E m"
  unfolding watch_owned_def wp_simps using assms(3)
  by (simp, intro wp_controller_Watch [OF assms(1,2)] assms(4)) simp_all

text \<open>With the type registered, adding the controller fails only where the manager refuses it.\<close>

lemma wp_ca_AddToManager:
  assumes "ca_controllerName \<notin> set (mg_usedNames m)" "ca_controllerName \<notin> fst ` set (mg_controllers m)"
    and "ca_gvk \<in> set (mg_scheme m)"
    and Q: "\<And>m'. \<lbrakk>mg_scheme m' = mg_scheme m; mg_usedNames m' = ca_controllerName # mg_usedNames m;
        mg_controllers m' = mg_controllers m @ [(ca_controllerName, ca_watches)];
        mg_runnables m' = mg_runnables m @ [RunController ca_controllerName];
        \<exists>m1. me_Add env (RunController ca_controllerName) m1 = None \<and> mg_runnables m1 = mg_runnables m\<rbrakk> \<Longrightarrow> Q () m'"
    and E: "\<And>e m'. \<lbrakk>mg_runnables m' = mg_runnables m; me_Add env (RunController ca_controllerName) m' = Some e\<rbrakk> \<Longrightarrow> E e m'"
  shows "wp (ca_AddToManager env) Q E m"
  unfolding ca_AddToManager_def Let_def wp_bind
proof (rule wp_controller_New [OF _ assms(1)], goal_cases)
  case 1 show ?case by (simp add: ca_controllerName_def)
next
  case (2 m1)
  note new = 2
  show ?case
    by (rule wp_controller_Watch [OF new(3) assms(2)],
        (rule wp_watch_owned [OF _ assms(2)], assumption, simp add: new assms(3))+,
        intro Q) (simp_all add: new ca_watches_def)
next
  case (3 e m1) then show ?case by (rule E)
qed

section \<open>The requests\<close>

datatype ca_object =
    CAObject ClusterAutoscaler
  | DeploymentObject Deployment
  | PolicyObject NetworkPolicy
  | ServiceObject Service
  | MonitorObject ServiceMonitor
  | RuleObject PrometheusRule

fun ca_object_kind :: "ca_object \<Rightarrow> GroupVersionKind" where
  "ca_object_kind (CAObject _) = ca_gvk"
| "ca_object_kind (DeploymentObject _) = deployment_gvk"
| "ca_object_kind (PolicyObject _) = policy_gvk"
| "ca_object_kind (ServiceObject _) = service_gvk"
| "ca_object_kind (MonitorObject _) = monitor_gvk"
| "ca_object_kind (RuleObject _) = rule_gvk"

fun ca_object_meta :: "ca_object \<Rightarrow> ObjectMeta" where
  "ca_object_meta (CAObject ca) = ca_meta ca"
| "ca_object_meta (DeploymentObject d) = ko_meta d"
| "ca_object_meta (PolicyObject p) = ko_meta p"
| "ca_object_meta (ServiceObject s) = ko_meta s"
| "ca_object_meta (MonitorObject m) = ko_meta m"
| "ca_object_meta (RuleObject r) = ko_meta r"

text \<open>The predicate: each of its functions asks for the configured name, of the new object in an update.\<close>

definition ca_predicate :: "ca_config \<Rightarrow> ca_object predicate_funcs" where
  "ca_predicate cfg =
     \<lparr>pf_CreateFunc = Some (\<lambda>obj. NamePredicate cfg (ca_object_meta obj)),
      pf_DeleteFunc = Some (\<lambda>obj. NamePredicate cfg (ca_object_meta obj)),
      pf_UpdateFunc = Some (\<lambda>old new. NamePredicate cfg (ca_object_meta new)),
      pf_GenericFunc = Some (\<lambda>obj. NamePredicate cfg (ca_object_meta obj))\<rparr>"

definition ca_view :: "ca_config \<Rightarrow> ca_object object_view" where
  "ca_view cfg =
     \<lparr>ov_kind = ca_object_kind, ov_key = \<lambda>obj. meta_key (ca_object_meta obj), ov_meta = ca_object_meta,
      ov_map = \<lambda>_. [], ov_predicate = ca_predicate cfg\<rparr>"

definition ca_requests ::
    "(GroupVersionKind \<Rightarrow> string \<Rightarrow> go_error + bool) \<Rightarrow> ca_config \<Rightarrow> ca_object watch_event \<Rightarrow> NamespacedName list" where
  "ca_requests mapping cfg ev = controller_requests mapping (ca_view cfg) ca_watches ev"

text \<open>An event about one secondary object: the objects it carries are all of that kind.\<close>

definition owned_event :: "ca_object \<Rightarrow> ca_object watch_event \<Rightarrow> bool" where
  "owned_event obj ev \<longleftrightarrow>
     obj \<in> set (event_objects ev) \<and> ca_object_kind obj \<noteq> ca_gvk \<and>
     list_all (\<lambda>obj'. ca_object_kind obj' = ca_object_kind obj) (event_objects ev)"

lemma ca_requests_owned:
  assumes ev: "owned_event obj ev" and ref: "GetControllerOf (ca_object_meta obj) = Some (controller_ref ca_gvk meta)"
    and mapping: "mapping ca_gvk ''v1'' = Inr True"
  shows "\<lparr>nn_namespace = [], nn_name = om_name meta\<rparr> \<in> set (ca_requests mapping cfg ev)"
proof -
  have gv: "ParseGroupVersion (owr_apiVersion (controller_ref ca_gvk meta)) =
      Inr \<lparr>gv_group = ''autoscaling.openshift.io'', gv_version = ''v1''\<rparr>"
    by (simp add: controller_ref_def ca_gvk_def GVK_GroupVersion_def GroupVersion_String_def ParseGroupVersion_def cut_on_def)
  have "\<lparr>nn_namespace = [], nn_name = owr_name (controller_ref ca_gvk meta)\<rparr> \<in>
      set (enqueue_for_owner (mapping ca_gvk) (gvk_group ca_gvk) (gvk_kind ca_gvk) True (map_watch_event ca_object_meta ev))"
    by (rule enqueue_for_owner_controlled [OF _ ref gv])
      (use ev mapping in \<open>auto simp: owned_event_def controller_ref_def ca_gvk_def\<close>)
  moreover have "\<lparr>wt_kind = ca_object_kind obj, wt_handler = EnqueueRequestForOwner ca_gvk True, wt_filtered = False\<rparr>
      \<in> set ca_watches" (is "?w \<in> _")
    using ev by (cases obj) (auto simp: ca_watches_def owned_event_def)
  ultimately show ?thesis
    using ev unfolding ca_requests_def set_controller_requests
    by (intro UN_I [of ?w])
      (auto simp: watch_requests_def ca_view_def owned_event_def handler_requests_def controller_ref_def)
qed

lemma ca_requests_unowned:
  assumes "owned_event obj ev" and "\<And>obj'. obj' \<in> set (event_objects ev) \<Longrightarrow> GetControllerOf (ca_object_meta obj') = None"
  shows "ca_requests mapping cfg ev = []"
proof -
  have none: "enqueue_for_owner m g k True (map_watch_event ca_object_meta ev) = []" for m g k
    by (rule enqueue_for_owner_uncontrolled) (use assms(2) in auto)
  have kinds: "list_all (\<lambda>obj'. ca_object_kind obj' = k) (event_objects ev) \<Longrightarrow> k = ca_object_kind obj" for k
    using assms(1) by (auto simp: owned_event_def list_all_iff)
  have "watch_requests mapping (ca_view cfg) w ev = []" if "w \<in> set ca_watches" for w
    using that kinds [of "wt_kind w"] assms(1) none
    by (auto simp: watch_requests_def ca_watches_def ca_view_def handler_requests_def owned_event_def)
  then show ?thesis by (simp add: ca_requests_def controller_requests_def)
qed

section \<open>The objects of a resource\<close>

definition managed_object ::
    "ca_config \<Rightarrow> ClusterAutoscaler \<Rightarrow> (NamespacedName \<Rightarrow> Deployment option) \<Rightarrow> (NamespacedName \<Rightarrow> Service option) \<Rightarrow>
     (NamespacedName \<Rightarrow> ServiceMonitor option) \<Rightarrow> (NamespacedName \<Rightarrow> PrometheusRule option) \<Rightarrow>
     (NamespacedName \<Rightarrow> NetworkPolicy option) \<Rightarrow> ca_object \<Rightarrow> bool" where
  "managed_object cfg ca D S M R P obj \<longleftrightarrow>
     (let n = AutoscalerName cfg ca in
      case obj of
        CAObject _ \<Rightarrow> False
      | DeploymentObject d \<Rightarrow> D n = Some d
      | ServiceObject s \<Rightarrow> S n = Some s
      | MonitorObject m \<Rightarrow> M n = Some m
      | RuleObject r \<Rightarrow> R n = Some r
      | PolicyObject p \<Rightarrow> (\<exists>k \<in> policy_keys cfg ca. P k = Some p))"

lemma managed_kind: "managed_object cfg ca D S M R P obj \<Longrightarrow> ca_object_kind obj \<noteq> ca_gvk"
  by (cases obj) (simp_all add: managed_object_def gvk_defs)

text \<open>An adopted object has a controller that is the resource, unless it was there with another one or none.\<close>

lemma GetControllerOf_cong:
  "om_ownerReferences a = om_ownerReferences b \<Longrightarrow> GetControllerOf a = GetControllerOf b"
  by (simp add: GetControllerOf_def)

lemma owned_by_controller:
  assumes "owned_by env ca before obj"
    and "\<And>old. before = Some old \<Longrightarrow> GetControllerOf (ko_meta old) = Some (owner_ref env ca)"
  shows "GetControllerOf (ko_meta obj) = Some (owner_ref env ca)"
proof (cases before)
  case None
  with assms(1) show ?thesis by (simp add: owned_by_def GetControllerOf_def owner_ref_def controller_ref_def)
next
  case (Some old)
  with assms show ?thesis using GetControllerOf_cong [of "ko_meta obj" "ko_meta old"] by (simp add: owned_by_def)
qed

section \<open>Changes are noticed\<close>

text \<open>The controllers of the objects after a run without error.\<close>

lemma reconciled_controllers:
  assumes cl: "ca_cluster env deps svcs mons ruls pols good cas" and "good w"
    and "cas w req = Some ca" "ca_GetDeletionTimestamp ca = None"
    and run: "ca_Reconcile env name req w = (Inr (), w')"
  shows "ca_cluster.all_adopted env svcs mons ruls pols ca w w' \<and>
    rolled_out env (ce_config env w') ca (deps w (AutoscalerName (ce_config env w) ca))
      (deps w' (AutoscalerName (ce_config env w) ca)) \<and>
    AutoscalerName (ce_config env w') ca = AutoscalerName (ce_config env w) ca \<and>
    policy_keys (ce_config env w') ca = policy_keys (ce_config env w) ca"
proof -
  have "wp (ca_Reconcile env name req)
     (\<lambda>_ w'. ca_cluster.all_adopted env svcs mons ruls pols ca w w' \<and>
        rolled_out env (ce_config env w') ca (deps w (AutoscalerName (ce_config env w) ca))
          (deps w' (AutoscalerName (ce_config env w) ca)) \<and>
        AutoscalerName (ce_config env w') ca = AutoscalerName (ce_config env w) ca \<and>
        policy_keys (ce_config env w') ca = policy_keys (ce_config env w) ca) (\<lambda>_ _. True) w"
    by (rule ca_cluster.wp_ca_Reconcile [OF assms(1,2)])
       (use assms(3,4) in \<open>auto simp: ca_cluster.framed_def [OF cl]\<close>)
  from wpD(1) [OF this run] show ?thesis .
qed

lemma rolled_out_controller:
  assumes "rolled_out env cfg ca before (Some d)"
    and "\<And>old. before = Some old \<Longrightarrow> GetControllerOf (ko_meta old) = Some (owner_ref env ca)"
  shows "GetControllerOf (ko_meta d) = Some (owner_ref env ca)"
proof (cases before)
  case None
  with assms(1) show ?thesis
    by (simp add: rolled_out_def GetControllerOf_def owner_ref_def controller_ref_def)
next
  case (Some old)
  with assms(1) have "ko_written d = ko_written (update_deployment cfg (pod_spec (ce_goarch env) cfg ca) old)"
    by (simp add: rolled_out_def)
  then have "om_ownerReferences (ko_meta d) = om_ownerReferences (ko_meta old)"
    using meta_written_eqD(5) [OF ko_written_eqD(2)] by (fastforce simp: update_deployment_def Let_def)
  from GetControllerOf_cong [OF this] assms(2) [OF Some] show ?thesis by simp
qed

text \<open>
  C14: self-healing.  After a run for a live ClusterAutoscaler that returns no error, any later event about one of the managed objects (the deployment, the service, the monitor, the
  rules and the five policies), be it an update that takes the owner away or a deletion, makes
  the watches that \<open>AddToManager\<close> registers ask for the ClusterAutoscaler again, provided that the
  managed objects that were there before the run were controlled by it already.
\<close>

theorem ca_self_healing:
  assumes cl: "ca_cluster env deps svcs mons ruls pols good cas" "good w"
    and ca: "cas w req = Some ca" "ca_GetDeletionTimestamp ca = None"
    and run: "ca_Reconcile env name req w = (Inr (), w')"
    and kind: "ce_gvk env = ca_gvk" "mapping ca_gvk ''v1'' = Inr True"
    and before: "\<And>old. managed_object (ce_config env w) ca (deps w) (svcs w) (mons w) (ruls w) (pols w) old \<Longrightarrow>
      GetControllerOf (ca_object_meta old) = Some (controller_ref ca_gvk (ca_meta ca))"
    and obj: "managed_object (ce_config env w') ca (deps w') (svcs w') (mons w') (ruls w') (pols w') obj"
      "owned_event obj ev"
  shows "\<lparr>nn_namespace = [], nn_name = om_name (ca_meta ca)\<rparr> \<in> set (ca_requests mapping (ce_config env w') ev)"
proof -
  let ?n = "AutoscalerName (ce_config env w) ca"
  note r = reconciled_controllers [OF cl ca run]
  have ref: "owner_ref env ca = controller_ref ca_gvk (ca_meta ca)" by (simp add: owner_ref_def kind)
  have ad: "adopted env ca {?n} (svcs w) (svcs w')" "adopted env ca {?n} (mons w) (mons w')"
    "adopted env ca {?n} (ruls w) (ruls w')" "adopted env ca (policy_keys (ce_config env w) ca) (pols w) (pols w')"
    using r unfolding ca_cluster.all_adopted_def [OF cl(1)] Let_def by blast+
  have "GetControllerOf (ca_object_meta obj) = Some (owner_ref env ca)"
  proof (cases obj)
    case (DeploymentObject d)
    have "rolled_out env (ce_config env w') ca (deps w ?n) (Some d)"
      using r obj(1) by (simp add: DeploymentObject managed_object_def)
    then show ?thesis unfolding DeploymentObject ca_object_meta.simps
      by (rule rolled_out_controller) (use before [of "DeploymentObject _"] ref in \<open>simp add: managed_object_def\<close>)
  next
    case (ServiceObject s)
    have "owned_by env ca (svcs w ?n) s" using ad(1) r obj(1) by (simp add: ServiceObject managed_object_def adopted_def)
    then show ?thesis unfolding ServiceObject ca_object_meta.simps
      by (rule owned_by_controller) (use before [of "ServiceObject _"] ref in \<open>simp add: managed_object_def\<close>)
  next
    case (MonitorObject m)
    have "owned_by env ca (mons w ?n) m" using ad(2) r obj(1) by (simp add: MonitorObject managed_object_def adopted_def)
    then show ?thesis unfolding MonitorObject ca_object_meta.simps
      by (rule owned_by_controller) (use before [of "MonitorObject _"] ref in \<open>simp add: managed_object_def\<close>)
  next
    case (RuleObject u)
    have "owned_by env ca (ruls w ?n) u" using ad(3) r obj(1) by (simp add: RuleObject managed_object_def adopted_def)
    then show ?thesis unfolding RuleObject ca_object_meta.simps
      by (rule owned_by_controller) (use before [of "RuleObject _"] ref in \<open>simp add: managed_object_def\<close>)
  next
    case (PolicyObject p)
    then obtain k where k: "k \<in> policy_keys (ce_config env w) ca" "pols w' k = Some p"
      using r obj(1) by (auto simp: managed_object_def)
    with ad(4) have "owned_by env ca (pols w k) p" by (auto simp: adopted_def)
    then show ?thesis unfolding PolicyObject ca_object_meta.simps
      by (rule owned_by_controller)
        (use before [of "PolicyObject _"] ref k(1) in \<open>auto simp: managed_object_def\<close>)
  qed (use obj(1) in \<open>simp add: managed_object_def\<close>)
  then show ?thesis unfolding ref by (rule ca_requests_owned [where mapping = mapping, OF obj(2) _ kind(2)])
qed

definition demo_mapping :: "GroupVersionKind \<Rightarrow> string \<Rightarrow> go_error + bool" where
  "demo_mapping kind version = Inr (kind = ca_gvk)"

lemma fake_ca_gvk: "ce_gvk fake_ca_env = ca_gvk"
  by (simp add: fake_ca_env_def ca_gvk_def)

text \<open>The witness: nothing was there before the run, and the deployment it created is deleted.\<close>

theorem ca_self_healing_witness:
  "\<exists>d. cw_deps (snd (ca_demo_run demo_ca)) (AutoscalerName demo_cfg demo_ca) = Some d \<and>
     demo_req \<in> set (ca_requests demo_mapping (cw_config (snd (ca_demo_run demo_ca))) (DeleteEvent (DeploymentObject d)))"
proof -
  let ?w = "ca_demo_world demo_ca" and ?w' = "snd (ca_demo_run demo_ca)"
  have req: "\<lparr>nn_namespace = [], nn_name = om_name (ca_meta demo_ca)\<rparr> = demo_req"
    by (simp add: demo_ca_def demo_req_def)
  have "AutoscalerName (cw_config ?w') demo_ca = AutoscalerName demo_cfg demo_ca"
    "map_option (\<lambda>_. True) (cw_deps ?w' (AutoscalerName demo_cfg demo_ca)) = Some True" by code_simp+
  then obtain d where d: "cw_deps ?w' (AutoscalerName demo_cfg demo_ca) = Some d"
    "AutoscalerName (cw_config ?w') demo_ca = AutoscalerName demo_cfg demo_ca" by auto
  have none: "\<not> managed_object cfg demo_ca (cw_deps ?w) (cw_svcs ?w) (cw_mons ?w) (cw_ruls ?w) (cw_pols ?w) old" for cfg old
    by (cases old) (simp_all add: managed_object_def ca_demo_world_def)
  have "\<lparr>nn_namespace = [], nn_name = om_name (ca_meta demo_ca)\<rparr> \<in>
      set (ca_requests demo_mapping (ce_config fake_ca_env ?w') (DeleteEvent (DeploymentObject d)))"
    by (rule ca_self_healing [OF fake_ca.ca_cluster_axioms demo_ca_good _ _ ca_demo_run_Inr [OF demo_ca_ok] fake_ca_gvk])
      (use d none in \<open>auto simp: demo_mapping_def managed_object_def owned_event_def gvk_defs\<close>)
  with d show ?thesis by (simp add: req)
qed

text \<open>
  An object is never adopted.  A service that is there without a controller is given the
  wanted specification by a run without error, but no owner: its deletion asks for nothing, and
  is not repaired until something else makes the controller run.
\<close>

theorem unadopted_unwatched:
  assumes cl: "ca_cluster env deps svcs mons ruls pols good cas" "good w"
    and ca: "cas w req = Some ca" "ca_GetDeletionTimestamp ca = None"
    and run: "ca_Reconcile env name req w = (Inr (), w')"
    and old: "svcs w (AutoscalerName (ce_config env w) ca) = Some old" "GetControllerOf (ko_meta old) = None"
  shows "\<exists>s. svcs w' (AutoscalerName (ce_config env w) ca) = Some s \<and>
    service_eq (ko_spec s) (ko_spec (AutoscalerService (ce_config env w') ca)) \<and>
    ca_requests mapping (ce_config env w') (DeleteEvent (ServiceObject s)) = []"
proof -
  let ?n = "AutoscalerName (ce_config env w) ca"
  note r = reconciled_controllers [OF cl ca run]
  have "wp (ca_Reconcile env name req)
     (\<lambda>_ w'. ca_converged (ce_goarch env) (ce_config env w') ca (deps w') (svcs w') (mons w') (ruls w') (pols w')) (\<lambda>_ _. True) w"
    by (rule ca_cluster.wp_ca_Reconcile [OF cl]) (use ca in auto)
  from wpD(1) [OF this run] r obtain s where s: "svcs w' ?n = Some s"
    "service_eq (ko_spec s) (ko_spec (AutoscalerService (ce_config env w') ca))"
    by (auto simp: ca_converged_def Let_def)
  have "owned_by env ca (svcs w ?n) s"
    using r s(1) unfolding ca_cluster.all_adopted_def [OF cl(1)] Let_def by (simp add: adopted_def)
  then have "GetControllerOf (ko_meta s) = None"
    using GetControllerOf_cong [of "ko_meta s" "ko_meta old"] old by (simp add: owned_by_def)
  then have "ca_requests mapping (ce_config env w') (DeleteEvent (ServiceObject s)) = []"
    by (intro ca_requests_unowned [of "ServiceObject s"]) (auto simp: owned_event_def gvk_defs)
  with s show ?thesis by blast
qed

definition demo_world_service :: ca_world where
  "demo_world_service = (ca_demo_world demo_ca)\<lparr>cw_svcs := [AutoscalerName demo_cfg demo_ca \<mapsto> AutoscalerService demo_cfg demo_ca]\<rparr>"

definition demo_run_service :: "(go_error + unit) \<times> ca_world" where
  "demo_run_service = ca_Reconcile fake_ca_env ''default'' demo_req demo_world_service"

theorem unadopted_unwatched_witness:
  "\<exists>s. cw_svcs (snd demo_run_service) (AutoscalerName demo_cfg demo_ca) = Some s \<and>
    ca_requests demo_mapping (cw_config (snd demo_run_service)) (DeleteEvent (ServiceObject s)) = []"
proof -
  have good: "fake_ca_good demo_world_service"
    using demo_ca_good [of demo_ca]
    by (auto simp: demo_world_service_def fake_ca_good_def keyed_def split: if_splits)
  have ok: "isl (fst demo_run_service) = False" by code_simp
  have run: "ca_Reconcile fake_ca_env ''default'' demo_req demo_world_service = (Inr (), snd demo_run_service)"
    using ok by (cases demo_run_service; cases "fst demo_run_service") (simp_all add: demo_run_service_def)
  have cfg: "ce_config fake_ca_env demo_world_service = demo_cfg" by (simp add: demo_world_service_def)
  show ?thesis
    using unadopted_unwatched [OF fake_ca.ca_cluster_axioms good _ _ run, of demo_ca "AutoscalerService demo_cfg demo_ca" demo_mapping]
    by (auto simp: cfg demo_world_service_def GetControllerOf_def)
qed

end
