(* ===== verification/Go_Semver.thy ===== *)
theory Go_Semver
  imports Kube_Meta
begin

text \<open>
  Semantic versions as the vendored \<open>github.com/blang/semver/v4\<close> parses and prints them.  The
  status reporter compares the major and minor numbers of two releases.
\<close>

section \<open>Versions\<close>

record PRVersion =
  pr_VersionStr :: string
  pr_VersionNum :: nat
  pr_IsNum :: bool

record Version =
  ve_Major :: nat
  ve_Minor :: nat
  ve_Patch :: nat
  ve_Pre :: "PRVersion list"
  ve_Build :: "string list"

definition alphanum_char :: "char \<Rightarrow> bool" where
  "alphanum_char c \<longleftrightarrow>
     (let n = (of_char c :: nat) in
      97 \<le> n \<and> n \<le> 122 \<or> 65 \<le> n \<and> n \<le> 90 \<or> c = CHR ''-'' \<or> is_digit c)"

definition hasLeadingZeroes :: "string \<Rightarrow> bool" where
  "hasLeadingZeroes s \<longleftrightarrow> length s > 1 \<and> hd s = CHR ''0''"

text \<open>\<open>part\<close> is \<open>Major\<close>, \<open>Minor\<close> or \<open>Patch\<close>: the three numbers are read alike.\<close>

definition version_number :: "string \<Rightarrow> string \<Rightarrow> go_error + nat" where
  "version_number part s =
     (if \<not> list_all is_digit s then
        Inl (GoError (''Invalid character(s) found in '' @ part @ '' number %q'') [ArgS s])
      else if hasLeadingZeroes s then
        Inl (GoError (part @ '' number must not contain leading zeroes %q'') [ArgS s])
      else ParseUint s)"

definition NewPRVersion :: "string \<Rightarrow> go_error + PRVersion" where
  "NewPRVersion s =
     (if s = [] then Inl (errorf ''Prerelease is empty'')
      else if list_all is_digit s then
        (if hasLeadingZeroes s then
           Inl (GoError ''Numeric PreRelease version must not contain leading zeroes %q'' [ArgS s])
         else res_bind (ParseUint s) (\<lambda>num.
           Inr \<lparr>pr_VersionStr = [], pr_VersionNum = num, pr_IsNum = True\<rparr>))
      else if list_all alphanum_char s then
        Inr \<lparr>pr_VersionStr = s, pr_VersionNum = 0, pr_IsNum = False\<rparr>
      else Inl (GoError ''Invalid character(s) found in prerelease %q'' [ArgS s]))"

fun prerelease_loop :: "string list \<Rightarrow> go_error + PRVersion list" where
  "prerelease_loop [] = Inr []"
| "prerelease_loop (s # ss) =
     res_bind (NewPRVersion s) (\<lambda>v. res_bind (prerelease_loop ss) (\<lambda>vs. Inr (v # vs)))"

fun build_loop :: "string list \<Rightarrow> go_error + string list" where
  "build_loop [] = Inr []"
| "build_loop (s # ss) =
     (if s = [] then Inl (errorf ''Build meta data is empty'')
      else if \<not> list_all alphanum_char s then
        Inl (GoError ''Invalid character(s) found in build meta data %q'' [ArgS s])
      else res_bind (build_loop ss) (\<lambda>bs. Inr (s # bs)))"

text \<open>What follows the first \<open>sep\<close>, split at the dots, and what precedes it.\<close>

definition cut_parts :: "char \<Rightarrow> string \<Rightarrow> string \<times> string list" where
  "cut_parts sep s =
     (case cut_on sep s of None \<Rightarrow> (s, []) | Some (p, rest) \<Rightarrow> (p, split_on (CHR ''.'') rest))"

definition Parse :: "string \<Rightarrow> go_error + Version" where
  "Parse s =
     (if s = [] then Inl (errorf ''Version string empty'')
      else case split_n 3 (CHR ''.'') s of
        [a, b, c] \<Rightarrow>
          res_bind (version_number ''Major'' a) (\<lambda>major.
          res_bind (version_number ''Minor'' b) (\<lambda>minor.
            (let (patchStr, build) = cut_parts (CHR ''+'') c;
                 (patchStr, prerelease) = cut_parts (CHR ''-'') patchStr
             in res_bind (version_number ''Patch'' patchStr) (\<lambda>patch.
                res_bind (prerelease_loop prerelease) (\<lambda>pre.
                res_bind (build_loop build) (\<lambda>bld.
                  Inr \<lparr>ve_Major = major, ve_Minor = minor, ve_Patch = patch, ve_Pre = pre,
                       ve_Build = bld\<rparr>))))))
      | _ \<Rightarrow> Inl (errorf ''No Major.Minor.Patch elements found''))"

definition PRVersion_String :: "PRVersion \<Rightarrow> string" where
  "PRVersion_String v = (if pr_IsNum v then format_nat (pr_VersionNum v) else pr_VersionStr v)"

definition Version_String :: "Version \<Rightarrow> string" where
  "Version_String v =
     format_nat (ve_Major v) @ ''.'' @ format_nat (ve_Minor v) @ ''.'' @ format_nat (ve_Patch v)
     @ (if length (ve_Pre v) > 0 then ''-'' @ join_with ''.'' (map PRVersion_String (ve_Pre v)) else [])
     @ (if length (ve_Build v) > 0 then ''+'' @ join_with ''.'' (ve_Build v) else [])"

section \<open>A printed version parses back\<close>

definition pr_valid :: "PRVersion \<Rightarrow> bool" where
  "pr_valid v \<longleftrightarrow>
     (if pr_IsNum v then pr_VersionNum v < 2 ^ 64 \<and> pr_VersionStr v = []
      else pr_VersionNum v = 0 \<and> pr_VersionStr v \<noteq> [] \<and> list_all alphanum_char (pr_VersionStr v) \<and>
        \<not> list_all is_digit (pr_VersionStr v))"

definition version_valid :: "Version \<Rightarrow> bool" where
  "version_valid v \<longleftrightarrow>
     ve_Major v < 2 ^ 64 \<and> ve_Minor v < 2 ^ 64 \<and> ve_Patch v < 2 ^ 64 \<and> list_all pr_valid (ve_Pre v) \<and>
     list_all (\<lambda>b. b \<noteq> [] \<and> list_all alphanum_char b) (ve_Build v)"

lemma cut_on_none: "c \<notin> set p \<Longrightarrow> cut_on c p = None"
  by (simp add: cut_on_def)

lemma alphanum_not: "alphanum_char c \<Longrightarrow> c \<noteq> CHR ''.'' \<and> c \<noteq> CHR ''+''"
  by (auto simp: alphanum_char_def is_digit_def)

lemma digit_alphanum: "is_digit c \<Longrightarrow> alphanum_char c \<and> c \<noteq> CHR ''-''"
  by (auto simp: alphanum_char_def is_digit_def)

lemma format_nat_alphanum: "list_all alphanum_char (format_nat n)"
  using format_nat_digits [of n] digit_alphanum by (auto simp: list_all_iff)

lemma alphanum_free: "list_all alphanum_char s \<Longrightarrow> CHR ''.'' \<notin> set s \<and> CHR ''+'' \<notin> set s"
  using alphanum_not by (auto simp: list_all_iff)

lemma format_nat_free: "CHR ''.'' \<notin> set (format_nat n)" "CHR ''+'' \<notin> set (format_nat n)"
  "CHR ''-'' \<notin> set (format_nat n)"
  using alphanum_free [OF format_nat_alphanum] format_nat_digits [of n] digit_alphanum
  by (auto simp: list_all_iff)

lemma format_nat_no_leading: "\<not> hasLeadingZeroes (format_nat n)"
proof (induction n rule: format_nat.induct)
  case (1 n)
  show ?case
  proof (cases "n < 10")
    case True
    then show ?thesis by (subst format_nat.simps) (simp add: hasLeadingZeroes_def)
  next
    case False
    obtain d ds where d: "format_nat (n div 10) = d # ds"
      using format_nat_not_Nil by (cases "format_nat (n div 10)") auto
    have "d \<noteq> CHR ''0''"
    proof (cases ds)
      case Nil
      then have "digits_val (format_nat (n div 10)) = digit_val d" by (simp add: d digits_val_def)
      then have "digit_val d \<noteq> 0" using False by (simp add: digits_val_format_nat)
      moreover have "digit_val (CHR ''0'') = 0" by (simp add: digit_val_def)
      ultimately show ?thesis by metis
    qed (use 1 False d in \<open>auto simp: hasLeadingZeroes_def\<close>)
    with False d show ?thesis by (subst format_nat.simps) (simp add: hasLeadingZeroes_def)
  qed
qed

lemma ParseUint_format_nat: "n < 2 ^ 64 \<Longrightarrow> ParseUint (format_nat n) = Inr n"
  by (simp add: ParseUint_def parse_uint_format_nat)

lemma version_number_format: "n < 2 ^ 64 \<Longrightarrow> version_number part (format_nat n) = Inr n"
  by (simp add: version_number_def format_nat_digits format_nat_no_leading ParseUint_format_nat)

lemma NewPRVersion_String: "pr_valid v \<Longrightarrow> NewPRVersion (PRVersion_String v) = Inr v"
  by (cases v) (auto simp: pr_valid_def NewPRVersion_def PRVersion_String_def format_nat_not_Nil
      format_nat_digits format_nat_no_leading ParseUint_format_nat split: if_splits)

lemma prerelease_String: "list_all pr_valid vs \<Longrightarrow> prerelease_loop (map PRVersion_String vs) = Inr vs"
  by (induction vs) (auto simp: NewPRVersion_String)

lemma build_String: "list_all (\<lambda>b. b \<noteq> [] \<and> list_all alphanum_char b) bs \<Longrightarrow> build_loop bs = Inr bs"
  by (induction bs) auto

lemma pr_String_alphanum: "pr_valid v \<Longrightarrow> list_all alphanum_char (PRVersion_String v)"
  by (auto simp: pr_valid_def PRVersion_String_def format_nat_alphanum split: if_splits)

lemma join_free: "c \<notin> set sep \<Longrightarrow> list_all (\<lambda>p. c \<notin> set p) ps \<Longrightarrow> c \<notin> set (join_with sep ps)"
  by (induction sep ps rule: join_with.induct) auto

lemma cut_parts_append:
  assumes "sep \<notin> set p" "ps \<noteq> []" "list_all (\<lambda>x. CHR ''.'' \<notin> set x) ps"
  shows "cut_parts sep (p @ sep # join_with ''.'' ps) = (p, ps)"
  using assms split_join [of ps "CHR ''.''"] by (simp add: cut_parts_def cut_on_no_sep list_all_iff)

lemma cut_parts_none: "sep \<notin> set p \<Longrightarrow> cut_parts sep p = (p, [])"
  by (simp add: cut_parts_def cut_on_none)

theorem Parse_String:
  assumes "version_valid v"
  shows "Parse (Version_String v) = Inr v"
proof -
  define pre where "pre = map PRVersion_String (ve_Pre v)"
  define patch where "patch = format_nat (ve_Patch v) @ (if pre = [] then [] else CHR ''-'' # join_with ''.'' pre)"
  define rest where "rest = patch @ (if ve_Build v = [] then [] else CHR ''+'' # join_with ''.'' (ve_Build v))"
  have valid: "list_all pr_valid (ve_Pre v)" "list_all (\<lambda>b. b \<noteq> [] \<and> list_all alphanum_char b) (ve_Build v)"
    using assms by (simp_all add: version_valid_def)
  have pre: "list_all (\<lambda>p. CHR ''.'' \<notin> set p \<and> CHR ''+'' \<notin> set p) pre"
    using valid(1) alphanum_free [OF pr_String_alphanum] by (auto simp: pre_def list_all_iff)
  have bld: "list_all (\<lambda>p. CHR ''.'' \<notin> set p) (ve_Build v)"
    using valid(2) alphanum_free by (auto simp: list_all_iff)
  have "CHR ''+'' \<notin> set (join_with ''.'' pre)"
    using pre by (intro join_free) (auto simp: list_all_iff)
  then have "CHR ''+'' \<notin> set patch" by (simp add: patch_def format_nat_free)
  then have c1: "cut_parts (CHR ''+'') rest = (patch, ve_Build v)"
    using bld by (simp add: rest_def cut_parts_none cut_parts_append)
  have c2: "cut_parts (CHR ''-'') patch = (format_nat (ve_Patch v), pre)"
    using pre by (auto simp: patch_def cut_parts_none cut_parts_append format_nat_free list_all_iff)
  have s: "Version_String v = format_nat (ve_Major v) @ CHR ''.'' # format_nat (ve_Minor v) @ CHR ''.'' # rest"
    by (simp add: Version_String_def rest_def patch_def pre_def)
  have split: "split_n 3 (CHR ''.'') (Version_String v) = [format_nat (ve_Major v), format_nat (ve_Minor v), rest]"
    by (simp add: s numeral_3_eq_3 cut_on_no_sep format_nat_free)
  have ne: "Version_String v \<noteq> []" by (simp add: s)
  have "prerelease_loop pre = Inr (ve_Pre v)" using valid(1) by (simp add: pre_def prerelease_String)
  then show ?thesis
    using assms build_String [OF valid(2)]
    by (simp add: Parse_def split ne c1 c2 version_number_format version_valid_def)
qed

end
