(* ===== verification/Op_Status.thy ===== *)
theory Op_Status
  imports CA_Workload CA_Types Go_Semver
begin

text \<open>
  The status reporter (\<open>pkg/operator/status.go\<close>): the ClusterOperator it maintains, the checks
  it makes of its dependency and its operand, the conditions it derives, and the counter that
  keeps a transient failure from being reported.  The clients, the clock, the reporter's
  configuration and its counter are fields of \<open>sr_env\<close>.
\<close>

section \<open>The ClusterOperator\<close>

record OperandVersion =
  ov_Name :: string
  ov_Version :: string

text \<open>\<open>configv1.ObjectReference\<close>.\<close>

record RelatedObject =
  ro_Group :: string
  ro_Resource :: string
  ro_Namespace :: string
  ro_Name :: string

text \<open>
  \<open>ClusterOperatorStatus\<close>.  The reporter never makes an empty slice that is not nil, so the
  empty list is nil.  Times are those the API server keeps, whole seconds, and 0 is the zero
  time.
\<close>

record COStatus =
  co_Conditions :: "condition list"
  co_Versions :: "OperandVersion list"
  co_RelatedObjects :: "RelatedObject list"
  co_ExtensionRaw :: string
  co_ExtensionObject :: "json option"

type_synonym ClusterOperator = "(unit, unit, COStatus) kobject"

definition zero_status :: COStatus where
  "zero_status = \<lparr>co_Conditions = [], co_Versions = [], co_RelatedObjects = [], co_ExtensionRaw = [],
     co_ExtensionObject = None\<rparr>"

text \<open>\<open>IsStatusConditionPresentAndEqual\<close> of \<open>v1helpers\<close>.\<close>

fun IsStatusConditionPresentAndEqual :: "condition list \<Rightarrow> string \<Rightarrow> string \<Rightarrow> bool" where
  "IsStatusConditionPresentAndEqual [] t s = False"
| "IsStatusConditionPresentAndEqual (c # cs) t s =
     (if cond_type c = t then cond_status c = s else IsStatusConditionPresentAndEqual cs t s)"

definition OperatorName :: string where
  "OperatorName = ''cluster-autoscaler''"

definition ReasonAsExpected :: string where
  "ReasonAsExpected = ''AsExpected''"

definition ReasonMissingDependency :: string where
  "ReasonMissingDependency = ''MissingDependency''"

definition ReasonSyncing :: string where
  "ReasonSyncing = ''SyncingResources''"

definition ReasonCheckAutoscaler :: string where
  "ReasonCheckAutoscaler = ''UnableToCheckAutoscalers''"

definition DegradedCountThreshold :: int where
  "DegradedCountThreshold = 3"

section \<open>The reporter\<close>

text \<open>A call that returns no error.\<close>

definition act_call :: "('w \<Rightarrow> 'a \<times> 'w) \<Rightarrow> ('w, 'a) act" where
  "act_call f w = (case f w of (a, w') \<Rightarrow> (Inr a, w'))"

lemma wp_call [wp_simps]: "wp (act_call f) Q E = (\<lambda>w. case f w of (a, w') \<Rightarrow> Q a w')"
  by (simp add: wp_def act_call_def fun_eq_iff split: prod.split)

record StatusReporterConfig =
  sc_ClusterAutoscalerName :: string
  sc_ClusterAutoscalerNamespace :: string
  sc_ReleaseVersion :: string
  sc_RelatedObjects :: "RelatedObject list"

text \<open>
  \<open>se_related\<close> is the getter of related objects, if there is one, \<open>se_now\<close> a reading of the
  clock and \<open>se_show\<close> the text of an error, which messages quote.
\<close>

record 'w sr_env =
  se_cos :: "('w, NamespacedName, ClusterOperator) client"
  se_get_ca :: "NamespacedName \<Rightarrow> ('w, ClusterAutoscaler) act"
  se_get_deployment :: "NamespacedName \<Rightarrow> ('w, Deployment) act"
  se_related :: "('w \<Rightarrow> RelatedObject list \<times> 'w) option"
  se_now :: "'w \<Rightarrow> int \<times> 'w"
  se_show :: "go_error \<Rightarrow> string"
  se_config :: "'w \<Rightarrow> StatusReporterConfig"
  se_set_config :: "StatusReporterConfig \<Rightarrow> 'w \<Rightarrow> 'w"
  se_count :: "'w \<Rightarrow> int"
  se_set_count :: "int \<Rightarrow> 'w \<Rightarrow> 'w"

definition SetReleaseVersion :: "'w sr_env \<Rightarrow> string \<Rightarrow> ('w, unit) act" where
  "SetReleaseVersion env version =
     act_do (\<lambda>w. se_set_config env ((se_config env w)\<lparr>sc_ReleaseVersion := version\<rparr>) w)"

definition SetRelatedObjects :: "'w sr_env \<Rightarrow> RelatedObject list \<Rightarrow> ('w, unit) act" where
  "SetRelatedObjects env objs =
     act_do (\<lambda>w. se_set_config env ((se_config env w)\<lparr>sc_RelatedObjects := objs\<rparr>) w)"

definition AddRelatedObjects :: "'w sr_env \<Rightarrow> RelatedObject list \<Rightarrow> ('w, unit) act" where
  "AddRelatedObjects env objs =
     act_do (\<lambda>w. let cfg = se_config env w in
       se_set_config env (cfg\<lparr>sc_RelatedObjects := foldl (\<lambda>l obj. l @ [obj]) (sc_RelatedObjects cfg) objs\<rparr>) w)"

definition co_name_key :: "string \<Rightarrow> NamespacedName" where
  "co_name_key name = \<lparr>nn_namespace = [], nn_name = name\<rparr>"

definition GetClusterOperator :: "'w sr_env \<Rightarrow> ('w, ClusterOperator) act" where
  "GetClusterOperator env = cl_get (se_cos env) (co_name_key OperatorName)"

definition new_cluster_operator :: ClusterOperator where
  "new_cluster_operator =
     \<lparr>ko_meta = empty_meta\<lparr>om_name := OperatorName\<rparr>, ko_spec = (), ko_rest = (), ko_status = zero_status\<rparr>"

definition GetOrCreateClusterOperator :: "'w sr_env \<Rightarrow> ('w, ClusterOperator) act" where
  "GetOrCreateClusterOperator env =
     act_bind (ignore_not_found (GetClusterOperator env)) (\<lambda>existing.
       case existing of
         None \<Rightarrow> cl_create (se_cos env) new_cluster_operator
       | Some co \<Rightarrow> act_return co)"

section \<open>Applying a status\<close>

definition ensureClusterOperatorStatus :: "COStatus \<Rightarrow> COStatus \<Rightarrow> bool \<times> COStatus" where
  "ensureClusterOperatorStatus existing required =
     (let (modified, existing) =
            (if co_Conditions existing \<noteq> co_Conditions required
             then (True, existing\<lparr>co_Conditions := co_Conditions required\<rparr>) else (False, existing));
          (modified, existing) =
            (if co_Versions existing \<noteq> co_Versions required
             then (True, existing\<lparr>co_Versions := co_Versions required\<rparr>) else (modified, existing));
          (modified, existing) =
            (if co_ExtensionRaw existing \<noteq> co_ExtensionRaw required
             then (True, existing\<lparr>co_ExtensionRaw := co_ExtensionRaw required\<rparr>) else (modified, existing));
          (modified, existing) =
            (if co_ExtensionObject existing \<noteq> co_ExtensionObject required
             then (True, existing\<lparr>co_ExtensionObject := co_ExtensionObject required\<rparr>) else (modified, existing))
      in if co_RelatedObjects existing \<noteq> co_RelatedObjects required
         then (True, existing\<lparr>co_RelatedObjects := co_RelatedObjects required\<rparr>) else (modified, existing))"

text \<open>One round of the loop over the conditions, with the time read in it.\<close>

definition transition_time :: "condition list \<Rightarrow> int \<Rightarrow> condition \<Rightarrow> condition" where
  "transition_time old timestamp cond =
     (let c = cond_of old (cond_type cond);
          cond = (case c of Some c \<Rightarrow> if cond_status c \<noteq> cond_status cond then cond\<lparr>cond_time := timestamp\<rparr> else cond
                  | None \<Rightarrow> cond);
          cond = (case c of Some c \<Rightarrow> if cond_status c = cond_status cond then cond\<lparr>cond_time := cond_time c\<rparr> else cond
                  | None \<Rightarrow> cond)
      in if cond_time cond = 0 then cond\<lparr>cond_time := timestamp\<rparr> else cond)"

fun transition_times :: "'w sr_env \<Rightarrow> condition list \<Rightarrow> condition list \<Rightarrow> ('w, condition list) act" where
  "transition_times env old [] = act_return []"
| "transition_times env old (c # cs) =
     act_bind (act_call (se_now env)) (\<lambda>timestamp.
     act_bind (transition_times env old cs) (\<lambda>cs'. act_return (transition_time old timestamp c # cs')))"

definition upgradeable :: condition where
  "upgradeable = \<lparr>cond_type = ''Upgradeable'', cond_status = ''True'', cond_reason = [], cond_message = [], cond_time = 0\<rparr>"

definition configured_objects :: "'w sr_env \<Rightarrow> ('w, RelatedObject list) act" where
  "configured_objects env =
     (case se_related env of
        Some getter \<Rightarrow> act_call getter
      | None \<Rightarrow> act_read (\<lambda>w. sc_RelatedObjects (se_config env w)))"

definition reset_progressing :: "'w sr_env \<Rightarrow> bool \<Rightarrow> condition list \<Rightarrow> ('w, condition list) act" where
  "reset_progressing env versions_changed conds =
     (if versions_changed then
        act_bind (act_call (se_now env)) (\<lambda>now. act_bind (act_call (se_now env)) (\<lambda>now'.
          act_return (ResetProgressingTime now now' conds)))
      else act_return conds)"

definition write_status :: "'w sr_env \<Rightarrow> ClusterOperator \<Rightarrow> COStatus \<Rightarrow> ('w, unit) act" where
  "write_status env co required =
     (let (modified, existing) = ensureClusterOperatorStatus (ko_status co) required
      in if modified then
           act_bind (cl_update_status (se_cos env) (co\<lparr>ko_status := existing\<rparr>)) (\<lambda>_. act_return ())
         else act_return ())"

definition ApplyStatus :: "'w sr_env \<Rightarrow> COStatus \<Rightarrow> ('w, unit) act" where
  "ApplyStatus env status =
     act_bind (GetOrCreateClusterOperator env) (\<lambda>co.
     act_bind (act_call (se_now env)) (\<lambda>now.
       (let conditions = SetStatusCondition now upgradeable (co_Conditions status) in
     act_bind (configured_objects env) (\<lambda>related.
       (let versions = (if co_Versions status = [] then co_Versions (ko_status co) else co_Versions status) in
     act_bind (transition_times env (co_Conditions (ko_status co)) conditions) (\<lambda>conditions.
     act_bind (reset_progressing env (versions \<noteq> co_Versions (ko_status co)) conditions) (\<lambda>conditions.
       write_status env co
         (status\<lparr>co_Conditions := conditions, co_RelatedObjects := related, co_Versions := versions\<rparr>))))))))"

definition co_condition :: "string \<Rightarrow> string \<Rightarrow> string \<Rightarrow> string \<Rightarrow> condition" where
  "co_condition t s reason message =
     \<lparr>cond_type = t, cond_status = s, cond_reason = reason, cond_message = message, cond_time = 0\<rparr>"

definition operator_version :: "string \<Rightarrow> OperandVersion list" where
  "operator_version v = [\<lparr>ov_Name = ''operator'', ov_Version = v\<rparr>]"

definition available_status :: "StatusReporterConfig \<Rightarrow> string \<Rightarrow> string \<Rightarrow> COStatus" where
  "available_status cfg reason message =
     zero_status\<lparr>co_Conditions :=
         [co_condition ''Available'' ''True'' reason message, co_condition ''Progressing'' ''False'' [] [],
          co_condition ''Degraded'' ''False'' [] []],
       co_Versions := operator_version (sc_ReleaseVersion cfg)\<rparr>"

definition available :: "'w sr_env \<Rightarrow> string \<Rightarrow> string \<Rightarrow> ('w, unit) act" where
  "available env reason message =
     act_bind (act_read (se_config env)) (\<lambda>cfg. ApplyStatus env (available_status cfg reason message))"

definition degraded_status :: "string \<Rightarrow> string \<Rightarrow> COStatus" where
  "degraded_status reason message =
     zero_status\<lparr>co_Conditions :=
         [co_condition ''Available'' ''True'' [] [], co_condition ''Progressing'' ''False'' [] [],
          co_condition ''Degraded'' ''True'' reason message]\<rparr>"

text \<open>The counter is a 64-bit integer.\<close>

definition degraded :: "'w sr_env \<Rightarrow> string \<Rightarrow> string \<Rightarrow> ('w, unit) act" where
  "degraded env reason message =
     act_bind (act_read (se_count env)) (\<lambda>n.
       (let n = wrap64 (n + 1) in
        act_bind (act_do (se_set_count env n)) (\<lambda>_.
          if n \<ge> DegradedCountThreshold then
            act_bind (act_do (se_set_count env DegradedCountThreshold)) (\<lambda>_.
              ApplyStatus env (degraded_status reason message))
          else available env ReasonAsExpected ''available, but observed potential degradations.'')))"

definition progressing_status :: "string \<Rightarrow> string \<Rightarrow> OperandVersion list \<Rightarrow> COStatus" where
  "progressing_status reason message versions =
     zero_status\<lparr>co_Conditions :=
         [co_condition ''Available'' ''True'' [] [], co_condition ''Progressing'' ''True'' reason message,
          co_condition ''Degraded'' ''False'' [] []],
       co_Versions := versions\<rparr>"

definition progressing :: "'w sr_env \<Rightarrow> string \<Rightarrow> string \<Rightarrow> OperandVersion list \<Rightarrow> ('w, unit) act" where
  "progressing env reason message versions = ApplyStatus env (progressing_status reason message versions)"

section \<open>The checks\<close>

text \<open>The loop over the reported versions; \<open>newParsed\<close> is the parsed release version.\<close>

fun version_loop :: "Version \<Rightarrow> OperandVersion list \<Rightarrow> go_error + bool" where
  "version_loop newParsed [] = Inr False"
| "version_loop newParsed (v # vs) =
     (if ov_Name v \<noteq> ''operator'' then version_loop newParsed vs
      else case Parse (trim_prefix (CHR ''v'') (ov_Version v)) of
        Inl err \<Rightarrow> Inl (GoWrap (''failed to parse current version '' @ dquote (ov_Version v) @ '': %w'') err)
      | Inr currentParsed \<Rightarrow>
          if ve_Major newParsed \<noteq> ve_Major currentParsed \<or> ve_Minor newParsed \<noteq> ve_Minor currentParsed
          then Inr True else version_loop newParsed vs)"

definition version_changed :: "string \<Rightarrow> OperandVersion list \<Rightarrow> go_error + bool" where
  "version_changed releaseVersion versions =
     (case Parse (trim_prefix (CHR ''v'') releaseVersion) of
        Inl err \<Rightarrow> Inl (GoWrap (''failed to parse new version '' @ dquote releaseVersion @ '': %w'') err)
      | Inr newParsed \<Rightarrow> if length versions = 0 then Inr False else version_loop newParsed versions)"

definition shouldSetProgressingForVersionChange :: "'w sr_env \<Rightarrow> ('w, bool) act" where
  "shouldSetProgressingForVersionChange env =
     act_bind (act_try (GetOrCreateClusterOperator env)) (\<lambda>r.
       case r of
         Inl err \<Rightarrow> act_raise (GoWrap ''failed to get ClusterOperator: %w'' err)
       | Inr co \<Rightarrow>
           act_bind (act_read (se_config env)) (\<lambda>cfg.
             act_lift (version_changed (sc_ReleaseVersion cfg) (co_Versions (ko_status co)))))"

definition machine_api_ready :: "condition list \<Rightarrow> bool" where
  "machine_api_ready conds \<longleftrightarrow>
     (if IsStatusConditionPresentAndEqual conds ''Available'' ''True'' \<and>
         IsStatusConditionPresentAndEqual conds ''Degraded'' ''False'' then True else False)"

definition CheckMachineAPI :: "'w sr_env \<Rightarrow> ('w, bool) act" where
  "CheckMachineAPI env =
     act_bind (cl_get (se_cos env) (co_name_key ''machine-api'')) (\<lambda>mao.
       act_return (machine_api_ready (co_Conditions (ko_status mao))))"

definition deployment_key :: "StatusReporterConfig \<Rightarrow> NamespacedName" where
  "deployment_key cfg =
     \<lparr>nn_namespace = sc_ClusterAutoscalerNamespace cfg,
      nn_name = OperatorName @ ''-'' @ sc_ClusterAutoscalerName cfg\<rparr>"

definition deployment_level :: "string \<Rightarrow> Deployment \<Rightarrow> bool" where
  "deployment_level releaseVersion d \<longleftrightarrow>
     (if \<not> ReleaseVersionMatches (om_annotations (ko_meta d)) releaseVersion then False
      else if \<not> DeploymentUpdated (om_generation (ko_meta d)) (ko_status d) then False
      else True)"

definition CheckClusterAutoscaler :: "'w sr_env \<Rightarrow> ('w, bool) act" where
  "CheckClusterAutoscaler env =
     act_bind (act_read (se_config env)) (\<lambda>cfg.
     act_bind (ignore_not_found (se_get_ca env (co_name_key (sc_ClusterAutoscalerName cfg)))) (\<lambda>ca.
       case ca of
         None \<Rightarrow> act_return True
       | Some _ \<Rightarrow>
           act_bind (ignore_not_found (se_get_deployment env (deployment_key cfg))) (\<lambda>deployment.
             case deployment of
               None \<Rightarrow> act_return False
             | Some d \<Rightarrow> act_return (deployment_level (sc_ReleaseVersion cfg) d))))"

section \<open>The report\<close>

text \<open>The call \<open>return false, f()\<close>.\<close>

definition not_done :: "('w, unit) act \<Rightarrow> ('w, bool) act" where
  "not_done m = act_bind m (\<lambda>_. act_return False)"

text \<open>The last part of the report, where the operand is level or absent.\<close>

definition report_version :: "'w sr_env \<Rightarrow> ('w, bool) act" where
  "report_version env =
     act_bind (act_try (shouldSetProgressingForVersionChange env)) (\<lambda>r.
       case r of
         Inl versionErr \<Rightarrow>
           not_done (degraded env ReasonCheckAutoscaler (''error checking version upgrade: '' @ se_show env versionErr))
       | Inr versionUpgrade \<Rightarrow>
           act_bind (act_do (se_set_count env 0)) (\<lambda>_.
           act_bind (act_read (se_config env)) (\<lambda>cfg.
             if versionUpgrade then
               not_done (progressing env ReasonSyncing (''upgrading operator version to '' @ sc_ReleaseVersion cfg)
                 (operator_version (sc_ReleaseVersion cfg)))
             else
               act_bind (available env ReasonAsExpected (''at version '' @ sc_ReleaseVersion cfg)) (\<lambda>_.
                 act_return True))))"

text \<open>The part where the dependency is ready.\<close>

definition report_operand :: "'w sr_env \<Rightarrow> ('w, bool) act" where
  "report_operand env =
     act_bind (act_try (CheckClusterAutoscaler env)) (\<lambda>r.
       case r of
         Inl err \<Rightarrow>
           not_done (degraded env ReasonCheckAutoscaler (''error checking autoscaler status: '' @ se_show env err))
       | Inr ok \<Rightarrow>
           if \<not> ok then
             act_bind (act_do (se_set_count env 0)) (\<lambda>_.
             act_bind (act_read (se_config env)) (\<lambda>cfg.
               not_done (progressing env ReasonSyncing (''updating to '' @ sc_ReleaseVersion cfg) [])))
           else report_version env)"

definition ReportStatus :: "'w sr_env \<Rightarrow> ('w, bool) act" where
  "ReportStatus env =
     act_bind (act_try (CheckMachineAPI env)) (\<lambda>r.
       case r of
         Inl err \<Rightarrow>
           not_done (degraded env ReasonMissingDependency (''error checking machine-api status: '' @ se_show env err))
       | Inr ok \<Rightarrow>
           if \<not> ok then not_done (degraded env ReasonMissingDependency ''machine-api not ready'')
           else report_operand env)"

end
