(* ===== verification/Op_Reporter.thy ===== *)
theory Op_Reporter
  imports Op_Status Kube_Objects
begin

text \<open>
  The contract the status reporter relies on (\<open>status_cluster\<close>), and what its operations do
  under it: what applying a status stores, and the report as the composition of an observation
  of the cluster (\<open>observe\<close>) with a pure decision (\<open>reported_status\<close>, \<open>next_count\<close>).
\<close>

section \<open>Conditions up to their times\<close>

definition untimed :: "condition list \<Rightarrow> condition list" where
  "untimed = map (cond_time_update (\<lambda>_. 0))"

lemma untimed_simps [simp]: "untimed [] = []" "untimed (c # cs) = c\<lparr>cond_time := 0\<rparr> # untimed cs"
  "untimed (as @ bs) = untimed as @ untimed bs"
  by (simp_all add: untimed_def)

lemma untimed_update [simp]: "i < length cs \<Longrightarrow> untimed (cs[i := (cs ! i)\<lparr>cond_time := t\<rparr>]) = untimed cs"
  by (simp add: untimed_def map_update) (metis (no_types, lifting) condition.surjective condition.update_convs(5)
      length_map list_update_id nth_map)

lemma IsStatusConditionPresentAndEqual_iff:
  "IsStatusConditionPresentAndEqual cs t s \<longleftrightarrow> (\<exists>c. cond_of cs t = Some c \<and> cond_status c = s)"
  by (induction cs) (auto simp: cond_of_def)

lemma cond_of_set: "cond_of cs t = Some c \<Longrightarrow> c \<in> set cs \<and> cond_type c = t"
  by (auto simp: cond_of_def dest: FindStatusCondition_Some)

lemma cond_of_distinct: "distinct (map cond_type cs) \<Longrightarrow> c \<in> set cs \<Longrightarrow> cond_of cs (cond_type c) = Some c"
proof (induction cs)
  case (Cons d cs)
  then show ?case by (cases "c = d") (auto simp: cond_of_def image_iff split: option.splits)
qed simp

lemma untimed_types: "untimed cs = untimed ds \<Longrightarrow> map cond_type cs = map cond_type ds"
proof -
  have "map cond_type cs = map cond_type (untimed cs)" for cs by (simp add: untimed_def)
  then show "untimed cs = untimed ds \<Longrightarrow> map cond_type cs = map cond_type ds" by metis
qed

lemma SetStatusCondition_absent:
  "cond_type new \<notin> cond_type ` set cs \<Longrightarrow> SetStatusCondition now new cs = cs @ [new\<lparr>cond_time := now\<rparr>]"
proof -
  assume "cond_type new \<notin> cond_type ` set cs"
  then have "FindStatusCondition cs (cond_type new) = None"
    by (metis FindStatusCondition_None imageI)
  then show ?thesis by (simp add: SetStatusCondition_def)
qed

lemma ResetProgressingTime_present:
  assumes "FindStatusCondition cs ''Progressing'' = Some i"
  shows "ResetProgressingTime now now' cs = cs[i := (cs ! i)\<lparr>cond_time := now\<rparr>]"
proof -
  note i = FindStatusCondition_Some [OF assms]
  define d where "d = cs[i := (cs ! i)\<lparr>cond_time := now\<rparr>]"
  have "FindStatusCondition d ''Progressing'' = Some i" "d ! i = (cs ! i)\<lparr>cond_time := now\<rparr>"
    using i assms by (simp_all add: d_def FindStatusCondition_update)
  then show ?thesis
    using i by (simp add: ResetProgressingTime_def assms SetStatusCondition_def Let_def flip: d_def)
      (simp add: d_def)
qed

lemma transition_time_frame [simp]:
  "cond_type (transition_time old ts c) = cond_type c" "cond_status (transition_time old ts c) = cond_status c"
  "(transition_time old ts c)\<lparr>cond_time := 0\<rparr> = c\<lparr>cond_time := 0\<rparr>"
  by (simp_all add: transition_time_def Let_def split: option.split)

lemma transition_time_kept:
  "cond_of old (cond_type c) = Some p \<Longrightarrow> cond_status p = cond_status c \<Longrightarrow> cond_time p \<noteq> 0 \<Longrightarrow>
   transition_time old ts c = c\<lparr>cond_time := cond_time p\<rparr>"
  by (simp add: transition_time_def)

lemma transition_time_nonzero: "ts \<noteq> 0 \<Longrightarrow> cond_time (transition_time old ts c) \<noteq> 0"
  by (simp add: transition_time_def Let_def split: option.split)

lemma ensureClusterOperatorStatus_eq:
  "ensureClusterOperatorStatus existing required = (existing \<noteq> required, required)"
  by (cases existing; cases required) (simp add: ensureClusterOperatorStatus_def)


section \<open>The contract\<close>

abbreviation own_key :: NamespacedName where
  "own_key \<equiv> co_name_key OperatorName"

text \<open>What no write of a ClusterOperator changes.\<close>

definition reporter_state ::
    "'w sr_env \<Rightarrow> ('w \<Rightarrow> NamespacedName \<Rightarrow> ClusterAutoscaler option) \<Rightarrow>
     ('w \<Rightarrow> NamespacedName \<Rightarrow> Deployment option) \<Rightarrow> 'w \<Rightarrow>
     StatusReporterConfig \<times> int \<times> (NamespacedName \<Rightarrow> ClusterAutoscaler option) \<times>
     (NamespacedName \<Rightarrow> Deployment option)" where
  "reporter_state env cas deps w = (se_config env w, se_count env w, cas w, deps w)"

text \<open>
  \<open>cos\<close> are the ClusterOperators, \<open>cas\<close> and \<open>deps\<close> the objects the reads find.  A read, the
  clock and the getter of related objects change none of them.  A ClusterOperator is created
  without a status, and the clock never reads the zero time.
\<close>

definition unchanged_by ::
    "'w sr_env \<Rightarrow> ('w \<Rightarrow> NamespacedName \<Rightarrow> ClusterOperator option) \<Rightarrow> ('w \<Rightarrow> bool) \<Rightarrow>
     ('w \<Rightarrow> NamespacedName \<Rightarrow> ClusterAutoscaler option) \<Rightarrow>
     ('w \<Rightarrow> NamespacedName \<Rightarrow> Deployment option) \<Rightarrow> 'w \<Rightarrow> 'w \<Rightarrow> bool" where
  "unchanged_by env cos good cas deps w w' \<longleftrightarrow>
     good w' \<and> cos w' = cos w \<and> reporter_state env cas deps w' = reporter_state env cas deps w"

text \<open>A read either finds what is there, or fails without a panic, as not found only where
  nothing is there.\<close>

definition finds :: "('k \<Rightarrow> 'o option) \<Rightarrow> 'k \<Rightarrow> go_error + 'o \<Rightarrow> bool" where
  "finds look k r \<longleftrightarrow>
     (case r of
        Inr x \<Rightarrow> look k = Some x
      | Inl e \<Rightarrow> \<not> is_panic e \<and> (IsNotFound e \<longrightarrow> look k = None))"

locale status_cluster =
  O: object_store "se_cos env" ko_key cos ko_written ko_status "\<lambda>obj. ko_deletion obj \<noteq> None" ko_gone "\<lambda>_. True" good
  for env :: "'w sr_env" and cos :: "'w \<Rightarrow> NamespacedName \<Rightarrow> ClusterOperator option" and good :: "'w \<Rightarrow> bool" +
  fixes cas :: "'w \<Rightarrow> NamespacedName \<Rightarrow> ClusterAutoscaler option"
    and deps :: "'w \<Rightarrow> NamespacedName \<Rightarrow> Deployment option"
  assumes cos_preserve: "client_preserves (se_cos env) (reporter_state env cas deps)"
    and create_status: "good w \<Longrightarrow> cl_create (se_cos env) new_cluster_operator w = (Inr co, w') \<Longrightarrow>
      ko_status co = zero_status"
    and read_ca: "good w \<Longrightarrow> se_get_ca env k w = (r, w') \<Longrightarrow>
      unchanged_by env cos good cas deps w w' \<and> finds (cas w) k r"
    and read_deployment: "good w \<Longrightarrow> se_get_deployment env k w = (r', w') \<Longrightarrow>
      unchanged_by env cos good cas deps w w' \<and> finds (deps w) k r'"
    and clock: "good w \<Longrightarrow> se_now env w = (t, w') \<Longrightarrow> unchanged_by env cos good cas deps w w' \<and> t \<noteq> 0"
    and getter: "se_related env = Some f \<Longrightarrow> good w \<Longrightarrow> f w = (l, w') \<Longrightarrow>
      unchanged_by env cos good cas deps w w'"
    and counter: "good w \<Longrightarrow> good (se_set_count env n w)" "cos (se_set_count env n w) = cos w"
      "reporter_state env cas deps (se_set_count env n w) = (se_config env w, n, cas w, deps w)"

section \<open>Applying a status\<close>

text \<open>The status the operator's ClusterOperator has; before it is created, none.\<close>

definition status_now :: "('w \<Rightarrow> NamespacedName \<Rightarrow> ClusterOperator option) \<Rightarrow> 'w \<Rightarrow> COStatus" where
  "status_now cos w = (case cos w own_key of None \<Rightarrow> zero_status | Some co \<Rightarrow> ko_status co)"

text \<open>The statuses the reporter applies.\<close>

definition reportable :: "COStatus \<Rightarrow> bool" where
  "reportable st \<longleftrightarrow>
     map cond_type (co_Conditions st) = [''Available'', ''Progressing'', ''Degraded''] \<and>
     untimed (co_Conditions st) = co_Conditions st \<and> co_ExtensionRaw st = [] \<and> co_ExtensionObject st = None"

text \<open>
  What applying \<open>st\<close> over \<open>old\<close> stores: its conditions and \<open>Upgradeable\<close>, its versions or the
  old ones, the related objects, no extension; a condition whose status does not change keeps
  its transition time, unless it is \<open>Progressing\<close> and the versions change.
\<close>

definition applied :: "COStatus \<Rightarrow> COStatus \<Rightarrow> RelatedObject list \<Rightarrow> COStatus \<Rightarrow> bool" where
  "applied old st related new \<longleftrightarrow>
     untimed (co_Conditions new) = co_Conditions st @ [upgradeable] \<and>
     co_Versions new = (if co_Versions st = [] then co_Versions old else co_Versions st) \<and>
     co_RelatedObjects new = related \<and> co_ExtensionRaw new = [] \<and> co_ExtensionObject new = None \<and>
     (\<forall>c \<in> set (co_Conditions new). cond_time c \<noteq> 0 \<and>
       (\<forall>p. cond_of (co_Conditions old) (cond_type c) = Some p \<and> cond_status p = cond_status c \<and>
         cond_time p \<noteq> 0 \<and> (cond_type c = ''Progressing'' \<longrightarrow> co_Versions new = co_Versions old) \<longrightarrow>
         cond_time c = cond_time p))"

text \<open>The related objects stay \<open>l\<close> as long as nothing but ClusterOperators is written.\<close>

definition related_fixed ::
    "'w sr_env \<Rightarrow> ('w \<Rightarrow> NamespacedName \<Rightarrow> ClusterAutoscaler option) \<Rightarrow>
     ('w \<Rightarrow> NamespacedName \<Rightarrow> Deployment option) \<Rightarrow> 'w \<Rightarrow> RelatedObject list \<Rightarrow> bool" where
  "related_fixed env cas deps w l \<longleftrightarrow>
     (\<forall>v. reporter_state env cas deps v = reporter_state env cas deps w \<longrightarrow> fst (configured_objects env v) = Inr l)"

text \<open>A write of the operator's own ClusterOperator.\<close>

definition writes_own ::
    "'w sr_env \<Rightarrow> ('w \<Rightarrow> NamespacedName \<Rightarrow> ClusterOperator option) \<Rightarrow> ('w \<Rightarrow> bool) \<Rightarrow>
     ('w \<Rightarrow> NamespacedName \<Rightarrow> ClusterAutoscaler option) \<Rightarrow>
     ('w \<Rightarrow> NamespacedName \<Rightarrow> Deployment option) \<Rightarrow> 'w \<Rightarrow> 'w \<Rightarrow> bool" where
  "writes_own env cos good cas deps w w' \<longleftrightarrow>
     good w' \<and> reporter_state env cas deps w' = reporter_state env cas deps w \<and>
     (\<forall>k. k \<noteq> own_key \<longrightarrow> cos w' k = cos w k)"

lemma writes_own_trans:
  "writes_own env cos good cas deps w w' \<Longrightarrow> writes_own env cos good cas deps w' w'' \<Longrightarrow>
   writes_own env cos good cas deps w w''"
  by (simp add: writes_own_def)

lemma unchanged_writes_own:
  "unchanged_by env cos good cas deps w w' \<Longrightarrow> writes_own env cos good cas deps w w'"
  by (simp add: writes_own_def unchanged_by_def)

lemma unchanged_by_trans:
  "unchanged_by env cos good cas deps w w' \<Longrightarrow> unchanged_by env cos good cas deps w' w'' \<Longrightarrow>
   unchanged_by env cos good cas deps w w''"
  by (simp add: unchanged_by_def)

text \<open>What the loop over the conditions makes of each.\<close>

definition timed :: "condition list \<Rightarrow> condition \<Rightarrow> condition \<Rightarrow> bool" where
  "timed old c c' \<longleftrightarrow> (\<exists>ts. ts \<noteq> 0 \<and> c' = transition_time old ts c)"

lemma timed_untimed: "list_all2 (timed old) cs cs' \<Longrightarrow> untimed cs' = untimed cs"
  by (induction rule: list_all2_induct) (auto simp: timed_def)

lemma timed_types: "list_all2 (timed old) cs cs' \<Longrightarrow> map cond_type cs' = map cond_type cs"
  by (metis timed_untimed untimed_types)

lemma timed_frame:
  assumes "timed old c c'"
  shows "cond_type c' = cond_type c" "cond_status c' = cond_status c" "c'\<lparr>cond_time := 0\<rparr> = c\<lparr>cond_time := 0\<rparr>"
    "cond_time c' \<noteq> 0"
    "cond_of old (cond_type c) = Some p \<Longrightarrow> cond_status p = cond_status c \<Longrightarrow> cond_time p \<noteq> 0 \<Longrightarrow>
     cond_time c' = cond_time p"
  using assms by (auto simp: timed_def transition_time_nonzero transition_time_kept)

lemma applied_intro:
  assumes "reportable st"
    and conds: "list_all2 (timed (co_Conditions old)) (SetStatusCondition now upgradeable (co_Conditions st)) conds"
    and n: "n \<noteq> 0" and vs: "vs = (if co_Versions st = [] then co_Versions old else co_Versions st)"
  shows "applied old st related
    (st\<lparr>co_Conditions := (if vs \<noteq> co_Versions old then ResetProgressingTime n n' conds else conds),
        co_RelatedObjects := related, co_Versions := vs\<rparr>)"
proof -
  from assms(1) have types: "map cond_type (co_Conditions st) = [''Available'', ''Progressing'', ''Degraded'']"
    and untimed: "untimed (co_Conditions st) = co_Conditions st"
    and ext: "co_ExtensionRaw st = []" "co_ExtensionObject st = None"
    by (simp_all add: reportable_def)
  then obtain x y z where xyz: "co_Conditions st = [x, y, z]" "cond_type x = ''Available''"
    "cond_type y = ''Progressing''" "cond_type z = ''Degraded''"
    by auto
  have set: "SetStatusCondition now upgradeable (co_Conditions st) = [x, y, z, upgradeable\<lparr>cond_time := now\<rparr>]"
    using xyz by (subst SetStatusCondition_absent) (auto simp: upgradeable_def)
  from conds obtain a b c d where abcd: "conds = [a, b, c, d]" and
    t: "timed (co_Conditions old) x a" "timed (co_Conditions old) y b" "timed (co_Conditions old) z c"
    "timed (co_Conditions old) (upgradeable\<lparr>cond_time := now\<rparr>) d"
    unfolding set by (auto simp: list_all2_Cons1)
  note f = timed_frame [OF t(1)] timed_frame [OF t(2)] timed_frame [OF t(3)] timed_frame [OF t(4)]
  define b' where "b' = (if vs \<noteq> co_Versions old then b\<lparr>cond_time := n\<rparr> else b)"
  have find: "FindStatusCondition conds ''Progressing'' = Some 1"
    using f xyz by (simp add: abcd)
  have final: "(if vs \<noteq> co_Versions old then ResetProgressingTime n n' conds else conds) = [a, b', c, d]"
    using ResetProgressingTime_present [OF find, of n n'] by (simp add: b'_def abcd)
  have "untimed [a, b', c, d] = co_Conditions st @ [upgradeable]"
    using f untimed by (simp add: b'_def xyz) (simp add: upgradeable_def)
  then show ?thesis
    using f xyz n vs ext unfolding applied_def final
    by (simp add: b'_def upgradeable_def)
qed

context status_cluster
begin

abbreviation quiet :: "'w \<Rightarrow> 'w \<Rightarrow> bool" where
  "quiet \<equiv> unchanged_by env cos good cas deps"

abbreviation state :: "'w \<Rightarrow> StatusReporterConfig \<times> int \<times> (NamespacedName \<Rightarrow> ClusterAutoscaler option) \<times>
     (NamespacedName \<Rightarrow> Deployment option)" where
  "state \<equiv> reporter_state env cas deps"

lemma wp_now:
  assumes "good w" and "\<And>t w'. quiet w w' \<Longrightarrow> t \<noteq> 0 \<Longrightarrow> Q t w'"
  shows "wp (act_call (se_now env)) Q E w"
  using clock [OF assms(1)] assms(2) by (auto simp: wp_simps split: prod.split)

lemma wp_transition_times:
  assumes "good w" and "\<And>cs' w'. quiet w w' \<Longrightarrow> list_all2 (timed old) cs cs' \<Longrightarrow> Q cs' w'"
  shows "wp (transition_times env old cs) Q E w"
  using assms
proof (induction cs arbitrary: w Q)
  case Nil
  then show ?case by (simp add: wp_simps unchanged_by_def)
next
  case (Cons c cs)
  have "wp (transition_times env old cs) (\<lambda>cs'. Q (transition_time old ts c # cs')) E w'"
    if "quiet w w'" "ts \<noteq> 0" for ts w'
  proof (rule Cons.IH)
    show "good w'" using that(1) by (simp add: unchanged_by_def)
    have "timed old c (transition_time old ts c)" using that(2) by (auto simp: timed_def)
    then show "Q (transition_time old ts c # cs') w''" if "quiet w' w''" "list_all2 (timed old) cs cs'" for cs' w''
      using that \<open>quiet w w'\<close> by (intro Cons.prems(2)) (auto intro: unchanged_by_trans)
  qed
  then show ?case
    unfolding transition_times.simps wp_bind wp_base by (rule wp_now [OF Cons.prems(1)])
qed

abbreviation own_write :: "'w \<Rightarrow> 'w \<Rightarrow> bool" where
  "own_write \<equiv> writes_own env cos good cas deps"

lemma new_cluster_operator_key: "ko_key new_cluster_operator = own_key"
  by (simp add: new_cluster_operator_def ko_key_def meta_key_def co_name_key_def empty_meta_def)

lemma wp_GetOrCreateClusterOperator:
  assumes "good w"
    and Q: "\<And>co w'. \<lbrakk>own_write w w'; cos w' own_key = Some co; ko_key co = own_key;
      ko_status co = status_now cos w\<rbrakk> \<Longrightarrow> Q co w'"
    and E: "\<And>e w'. \<lbrakk>own_write w w'; \<not> is_panic e\<rbrakk> \<Longrightarrow> E e w'"
  shows "wp (GetOrCreateClusterOperator env) Q E w"
proof -
  have "wp (cl_create (se_cos env) new_cluster_operator) Q E w'"
    if w': "good w'" "cos w' = cos w" "state w' = state w" "cos w own_key = None" for w'
  proof (rule O.wp_create [OF w'(1)])
    fix co w'' assume c: "good w''" "cos w'' = (cos w')(ko_key new_cluster_operator \<mapsto> co)"
      "ko_key co = ko_key new_cluster_operator"
      and run: "cl_create (se_cos env) new_cluster_operator w' = (Inr co, w'')"
    show "Q co w''"
      using c w' create_status [OF w'(1) run] client_preservesD(2) [OF cos_preserve run]
      by (intro Q) (simp_all add: writes_own_def new_cluster_operator_key status_now_def)
  next
    fix e w'' x assume c: "good w''" "cos w'' = (cos w')(ko_key new_cluster_operator := x)" "\<not> is_panic e"
      and run: "cl_create (se_cos env) new_cluster_operator w' = (Inl e, w'')"
    show "E e w''"
      using c w' client_preservesD(2) [OF cos_preserve run]
      by (intro E) (simp_all add: writes_own_def new_cluster_operator_key)
  qed
  then show ?thesis
    unfolding GetOrCreateClusterOperator_def GetClusterOperator_def wp_simps
    by (intro O.wp_get [OF assms(1)])
       (auto simp: wp_simps writes_own_def status_now_def intro!: Q E dest: client_preservesD(1) [OF cos_preserve])
qed

text \<open>
  A status that is applied without an error is on the server; whatever happens, no other
  ClusterOperator is written.
\<close>

lemma wp_write_status:
  assumes co: "own_write w w'" "cos w' own_key = Some co" "ko_key co = own_key" "ko_status co = status_now cos w"
    and required: "applied (status_now cos w) st related required"
    and Q: "\<And>co w'. \<lbrakk>own_write w w'; cos w' own_key = Some co;
      applied (status_now cos w) st related (ko_status co)\<rbrakk> \<Longrightarrow> Q () w'"
    and E: "\<And>e w'. \<lbrakk>own_write w w'; \<not> is_panic e\<rbrakk> \<Longrightarrow> E e w'"
  shows "wp (write_status env co required) Q E w'"
proof -
  let ?co = "co\<lparr>ko_status := required\<rparr>"
  have w': "good w'" using co(1) by (simp add: writes_own_def)
  have key: "ko_key ?co = own_key" using co(3) by (simp add: ko_key_def)
  have "wp (cl_update_status (se_cos env) ?co) (\<lambda>_. Q ()) E w'"
  proof (rule O.wp_update_status [OF w'])
    fix obj' old w'' assume "good w''" "cos w'' = (cos w')(ko_key ?co \<mapsto> obj')" "ko_status obj' = ko_status ?co"
      and run: "cl_update_status (se_cos env) ?co w' = (Inr obj', w'')"
    then show "Q () w''"
      using co(1) required client_preservesD(4) [OF cos_preserve run] key
      by (intro Q [where co = obj']) (simp_all add: writes_own_def)
  next
    fix e w'' x assume "good w''" "cos w'' = (cos w')(ko_key ?co := x)" "\<not> is_panic e"
      and run: "cl_update_status (se_cos env) ?co w' = (Inl e, w'')"
    then show "E e w''"
      using co(1) client_preservesD(4) [OF cos_preserve run] key by (intro E) (simp_all add: writes_own_def)
  qed
  moreover have "Q () w'" if "required = ko_status co"
    using co required that by (intro Q [where co = co]) simp_all
  ultimately show ?thesis by (simp add: write_status_def ensureClusterOperatorStatus_eq wp_simps)
qed

lemma wp_configured_objects:
  assumes "good w" and "\<And>related w'. quiet w w' \<Longrightarrow> Q related w'"
  shows "wp (configured_objects env) Q E w"
  using assms getter
  by (auto simp: configured_objects_def wp_simps unchanged_by_def split: option.split prod.split)

lemma wp_configured_fixed:
  assumes "good w" "related_fixed env cas deps w0 l" "state w = state w0" and "\<And>w'. quiet w w' \<Longrightarrow> Q l w'"
  shows "wp (configured_objects env) Q E w"
proof -
  have "wp (configured_objects env) (\<lambda>_. quiet w) (\<lambda>_ _. False) w"
    using assms(1) by (rule wp_configured_objects)
  moreover have "fst (configured_objects env w) = Inr l"
    using assms(2,3) by (simp add: related_fixed_def)
  ultimately show ?thesis
    using assms(4) by (auto simp: wp_def split: prod.splits)
qed

lemma wp_reset_progressing:
  assumes "good w"
    and "\<And>n n' w'. \<lbrakk>quiet w w'; n \<noteq> 0\<rbrakk> \<Longrightarrow> Q (if b then ResetProgressingTime n n' conds else conds) w'"
  shows "wp (reset_progressing env b conds) Q E w"
proof (cases b)
  case True
  have "wp (act_call (se_now env)) (\<lambda>now'. Q (ResetProgressingTime n now' conds)) E w'" if "quiet w w'" "n \<noteq> 0" for n w'
    using that assms(2) True
    by (intro wp_now) (auto simp: unchanged_by_def)
  then have "wp (act_call (se_now env)) (\<lambda>n. wp (act_call (se_now env)) (\<lambda>now'. Q (ResetProgressingTime n now' conds)) E) E w"
    by (intro wp_now [OF assms(1)])
  then show ?thesis using True unfolding reset_progressing_def by (simp add: wp_bind wp_base)
next
  case False
  then show ?thesis using assms(1) assms(2) [of w 1] by (simp add: reset_progressing_def wp_simps unchanged_by_def)
qed

lemma wp_configured_objects':
  assumes "good w" and Q: "\<And>related w'. \<lbrakk>quiet w w'; \<And>l. related_fixed env cas deps w l \<Longrightarrow> related = l\<rbrakk> \<Longrightarrow> Q related w'"
  shows "wp (configured_objects env) Q E w"
proof (rule wpI)
  have quiet: "wp (configured_objects env) (\<lambda>_. quiet w) (\<lambda>_ _. False) w"
    using assms(1) by (rule wp_configured_objects)
  fix related w' assume run: "configured_objects env w = (Inr related, w')"
  show "Q related w'"
    using wpD(1) [OF quiet run] run by (auto intro!: Q simp: related_fixed_def dest!: spec [of _ w])
next
  have quiet: "wp (configured_objects env) (\<lambda>_. quiet w) (\<lambda>_ _. False) w"
    using assms(1) by (rule wp_configured_objects)
  fix e w' assume run: "configured_objects env w = (Inl e, w')"
  show "E e w'" using wpD(2) [OF quiet run] by simp
qed

lemma wp_ApplyStatus:
  assumes "good w" and st: "reportable st"
    and Q: "\<And>co related w'. \<lbrakk>own_write w w'; cos w' own_key = Some co;
      applied (status_now cos w) st related (ko_status co);
      \<And>l. related_fixed env cas deps w l \<Longrightarrow> related = l\<rbrakk> \<Longrightarrow> Q () w'"
    and E: "\<And>e w'. \<lbrakk>own_write w w'; \<not> is_panic e\<rbrakk> \<Longrightarrow> E e w'"
  shows "wp (ApplyStatus env st) Q E w"
  unfolding ApplyStatus_def wp_bind Let_def
proof (rule wp_GetOrCreateClusterOperator [OF assms(1)], rule wp_now, goal_cases)
  case (1 co w1) then show ?case by (simp add: writes_own_def)
next
  case (2 co w1 now w2)
  note co = 2
  show ?case
  proof (rule wp_configured_objects', goal_cases)
    case 1 show ?case using co by (simp add: unchanged_by_def)
  next
    case (2 related w3)
    note related = 2
    have fixed: "related = l" if "related_fixed env cas deps w l" for l
      using related(2) [of l] co that by (simp add: related_fixed_def unchanged_by_def writes_own_def)
    show ?case
    proof (rule wp_transition_times, goal_cases)
      case 1 show ?case using related by (simp add: unchanged_by_def)
    next
      case (2 conds w4)
      note conds = 2
      show ?case
      proof (rule wp_reset_progressing, goal_cases)
        case 1 show ?case using conds by (simp add: unchanged_by_def)
      next
        case (2 n n' w5)
        then have "quiet w1 w5" using co related conds by (meson unchanged_by_trans)
        then have "own_write w w5" and "cos w5 own_key = Some co"
          using co(1,2) by (simp_all add: unchanged_by_def writes_own_def)
        note own = this
        show ?case
          unfolding co(4)
          by (rule wp_write_status [OF own co(3,4)], rule applied_intro [OF st conds(2) 2(2) refl, unfolded co(4)])
            (auto intro!: Q E fixed)
      qed
    qed
  qed
qed (rule E)

end

section \<open>Applying the same status again\<close>

lemma cond_eqD:
  assumes "c\<lparr>cond_time := 0\<rparr> = x"
  shows "cond_type c = cond_type x" "cond_status c = cond_status x" "cond_reason c = cond_reason x"
    "cond_message c = cond_message x"
  unfolding assms [symmetric] by simp_all

lemma cond_timeI: "cond_type c = cond_type p \<Longrightarrow> cond_status c = cond_status p \<Longrightarrow> cond_reason c = cond_reason p \<Longrightarrow>
  cond_message c = cond_message p \<Longrightarrow> c\<lparr>cond_time := cond_time p\<rparr> = (p :: condition)"
  by (cases c; cases p) simp

lemma untimed_Cons: "untimed cs = x # xs \<longleftrightarrow> (\<exists>c cs'. cs = c # cs' \<and> c\<lparr>cond_time := 0\<rparr> = x \<and> untimed cs' = xs)"
  by (cases cs) simp_all

lemma untimed_Nil: "untimed cs = [] \<longleftrightarrow> cs = []"
  by (cases cs) simp_all

lemma stable_conditions:
  assumes st: "reportable st" and S: "applied old st l S"
    and conds: "list_all2 (timed (co_Conditions S)) (SetStatusCondition now upgradeable (co_Conditions st)) conds"
  shows "conds = co_Conditions S"
proof -
  from st obtain x y z where xyz: "co_Conditions st = [x, y, z]" "cond_type x = ''Available''"
    "cond_type y = ''Progressing''" "cond_type z = ''Degraded''"
    by (auto simp: reportable_def)
  have set: "SetStatusCondition now upgradeable (co_Conditions st) = [x, y, z, upgradeable\<lparr>cond_time := now\<rparr>]"
    using xyz by (subst SetStatusCondition_absent) (auto simp: upgradeable_def)
  from S have "untimed (co_Conditions S) = [x, y, z, upgradeable]" by (simp add: applied_def xyz(1))
  then obtain a b c d where abcd: "co_Conditions S = [a, b, c, d]"
    and e: "a\<lparr>cond_time := 0\<rparr> = x" "b\<lparr>cond_time := 0\<rparr> = y" "c\<lparr>cond_time := 0\<rparr> = z" "d\<lparr>cond_time := 0\<rparr> = upgradeable"
    unfolding untimed_Cons untimed_Nil by blast
  from S have "\<forall>c \<in> set (co_Conditions S). cond_time c \<noteq> 0" unfolding applied_def by blast
  then have t: "cond_time a \<noteq> 0" "cond_time b \<noteq> 0" "cond_time c \<noteq> 0" "cond_time d \<noteq> 0"
    by (simp_all add: abcd)
  have types: "cond_type a = ''Available''" "cond_type b = ''Progressing''" "cond_type c = ''Degraded''"
      "cond_type d = ''Upgradeable''"
    using xyz(2-) cond_eqD(1) [OF e(1)] cond_eqD(1) [OF e(2)] cond_eqD(1) [OF e(3)] cond_eqD(1) [OF e(4)]
    by (simp_all add: upgradeable_def)
  then have of: "cond_of [a, b, c, d] (cond_type a) = Some a" "cond_of [a, b, c, d] (cond_type b) = Some b"
      "cond_of [a, b, c, d] (cond_type c) = Some c" "cond_of [a, b, c, d] (cond_type d) = Some d"
    by (simp_all add: cond_of_def)
  have kept: "c' = p" if "timed [a, b, c, d] q c'" "q\<lparr>cond_time := 0\<rparr> = p\<lparr>cond_time := 0\<rparr>"
      "cond_of [a, b, c, d] (cond_type p) = Some p" "cond_time p \<noteq> 0" for p q c'
  proof -
    have q: "cond_type q = cond_type p" "cond_status q = cond_status p" "cond_reason q = cond_reason p"
      "cond_message q = cond_message p"
      using cond_eqD [OF that(2)] by simp_all
    from that(1) obtain ts where "c' = transition_time [a, b, c, d] ts q" by (auto simp: timed_def)
    also have "\<dots> = q\<lparr>cond_time := cond_time p\<rparr>"
      using that(3,4) q by (intro transition_time_kept) simp_all
    also have "\<dots> = p" using q by (rule cond_timeI)
    finally show ?thesis .
  qed
  from conds obtain a' b' c' d' where conds': "conds = [a', b', c', d']" and
    t': "timed [a, b, c, d] x a'" "timed [a, b, c, d] y b'" "timed [a, b, c, d] z c'"
      "timed [a, b, c, d] (upgradeable\<lparr>cond_time := now\<rparr>) d'"
    unfolding set abcd by (auto simp: list_all2_Cons1)
  have z: "x\<lparr>cond_time := 0\<rparr> = a\<lparr>cond_time := 0\<rparr>" "y\<lparr>cond_time := 0\<rparr> = b\<lparr>cond_time := 0\<rparr>"
    "z\<lparr>cond_time := 0\<rparr> = c\<lparr>cond_time := 0\<rparr>" "upgradeable\<lparr>cond_time := now\<rparr>\<lparr>cond_time := 0\<rparr> = d\<lparr>cond_time := 0\<rparr>"
    by (simp_all flip: e)
  show ?thesis
    using kept [OF t'(1) z(1) of(1) t(1)] kept [OF t'(2) z(2) of(2) t(2)] kept [OF t'(3) z(3) of(3) t(3)]
      kept [OF t'(4) z(4) of(4) t(4)]
    by (simp add: conds' abcd)
qed

context status_cluster
begin

lemma wp_GetOrCreate_found:
  assumes "good w" "cos w own_key = Some co"
    and Q: "\<And>w'. quiet w w' \<Longrightarrow> Q co w'" and E: "\<And>e w'. quiet w w' \<Longrightarrow> \<not> is_panic e \<Longrightarrow> E e w'"
  shows "wp (GetOrCreateClusterOperator env) Q E w"
  unfolding GetOrCreateClusterOperator_def GetClusterOperator_def wp_simps
  using assms(2)
  by (intro O.wp_get [OF assms(1)])
    (auto simp: wp_simps unchanged_by_def intro!: Q E dest: client_preservesD(1) [OF cos_preserve])

lemma wp_ApplyStatus_stable:
  assumes "good w" and st: "reportable st" and co: "cos w own_key = Some co" "applied old st l (ko_status co)"
    and l: "related_fixed env cas deps w l"
    and Q: "\<And>w'. quiet w w' \<Longrightarrow> Q () w'" and E: "\<And>e w'. quiet w w' \<Longrightarrow> \<not> is_panic e \<Longrightarrow> E e w'"
  shows "wp (ApplyStatus env st) Q E w"
  unfolding ApplyStatus_def wp_bind Let_def
proof (rule wp_GetOrCreate_found [OF assms(1) co(1)], rule wp_now, goal_cases)
  case (1 w1) then show ?case by (simp add: unchanged_by_def)
next
  case (2 w1 now w2)
  then have w2: "quiet w w2" by (blast intro: unchanged_by_trans)
  have vs: "(if co_Versions st = [] then co_Versions (ko_status co) else co_Versions st) = co_Versions (ko_status co)"
    using co(2) by (simp add: applied_def)
  show ?case
  proof (rule wp_configured_fixed [OF _ l], goal_cases)
    case (3 w3)
    then have w3: "quiet w w3" using w2 by (blast intro: unchanged_by_trans)
    show ?case
    proof (rule wp_transition_times, goal_cases)
      case 1 show ?case using w3 by (simp add: unchanged_by_def)
    next
      case (2 conds w4)
      note conds = stable_conditions [OF st co(2) 2(2)]
      have w4: "quiet w w4" using w3 2(1) by (rule unchanged_by_trans)
      have "st\<lparr>co_Conditions := co_Conditions (ko_status co), co_RelatedObjects := l,
          co_Versions := co_Versions (ko_status co)\<rparr> = ko_status co"
        using co(2) st by (cases "ko_status co"; cases st) (simp add: applied_def reportable_def)
      then show ?case
        using w4 Q by (simp add: conds vs reset_progressing_def wp_simps write_status_def
            ensureClusterOperatorStatus_eq)
    qed
  qed (use w2 in \<open>simp_all add: unchanged_by_def\<close>)
qed (rule E)

end

end
