(* ===== verification/Op_Report.thy ===== *)
theory Op_Report
  imports Op_Reporter
begin

text \<open>
  The report as an observation of the cluster followed by a decision.  \<open>observe\<close> runs the checks
  and gives a verdict, \<open>verdict_holds\<close> says what a verdict means, and \<open>reported_status\<close> and
  \<open>next_count\<close> are what a verdict makes the reporter apply and count.
\<close>

section \<open>Verdicts\<close>

datatype verdict = Failing string string | Syncing | Upgrading | Level

fun is_failing :: "verdict \<Rightarrow> bool" where
  "is_failing (Failing reason msg) = True"
| "is_failing _ = False"

definition next_count :: "verdict \<Rightarrow> int \<Rightarrow> int" where
  "next_count v n = (if is_failing v then min DegradedCountThreshold (n + 1) else 0)"

definition not_yet_degraded :: string where
  "not_yet_degraded = ''available, but observed potential degradations.''"

text \<open>The status applied for a verdict where the counter was \<open>n\<close>.\<close>

fun reported_status :: "StatusReporterConfig \<Rightarrow> verdict \<Rightarrow> int \<Rightarrow> COStatus" where
  "reported_status cfg (Failing reason msg) n =
     (if n + 1 \<ge> DegradedCountThreshold then degraded_status reason msg
      else available_status cfg ReasonAsExpected not_yet_degraded)"
| "reported_status cfg Syncing n =
     progressing_status ReasonSyncing (''updating to '' @ sc_ReleaseVersion cfg) []"
| "reported_status cfg Upgrading n =
     progressing_status ReasonSyncing (''upgrading operator version to '' @ sc_ReleaseVersion cfg)
       (operator_version (sc_ReleaseVersion cfg))"
| "reported_status cfg Level n =
     available_status cfg ReasonAsExpected (''at version '' @ sc_ReleaseVersion cfg)"

lemma reportable_reported_status: "reportable (reported_status cfg v n)"
  by (cases v) (simp_all add: reportable_def degraded_status_def available_status_def progressing_status_def
      zero_status_def co_condition_def)

section \<open>The checks, separated from what they lead to\<close>

definition observe_version :: "'w sr_env \<Rightarrow> ('w, verdict) act" where
  "observe_version env =
     act_bind (act_try (shouldSetProgressingForVersionChange env)) (\<lambda>r.
       case r of
         Inl e \<Rightarrow> act_return (Failing ReasonCheckAutoscaler (''error checking version upgrade: '' @ se_show env e))
       | Inr b \<Rightarrow> act_return (if b then Upgrading else Level))"

definition observe_operand :: "'w sr_env \<Rightarrow> ('w, verdict) act" where
  "observe_operand env =
     act_bind (act_try (CheckClusterAutoscaler env)) (\<lambda>r.
       case r of
         Inl e \<Rightarrow> act_return (Failing ReasonCheckAutoscaler (''error checking autoscaler status: '' @ se_show env e))
       | Inr ok \<Rightarrow> if ok then observe_version env else act_return Syncing)"

definition observe :: "'w sr_env \<Rightarrow> ('w, verdict) act" where
  "observe env =
     act_bind (act_try (CheckMachineAPI env)) (\<lambda>r.
       case r of
         Inl e \<Rightarrow> act_return (Failing ReasonMissingDependency (''error checking machine-api status: '' @ se_show env e))
       | Inr ok \<Rightarrow>
           if ok then observe_operand env
           else act_return (Failing ReasonMissingDependency ''machine-api not ready''))"

definition act_on :: "'w sr_env \<Rightarrow> verdict \<Rightarrow> ('w, bool) act" where
  "act_on env v =
     (case v of
        Failing reason msg \<Rightarrow> not_done (degraded env reason msg)
      | _ \<Rightarrow>
          act_bind (act_do (se_set_count env 0)) (\<lambda>_.
          act_bind (act_read (se_config env)) (\<lambda>cfg.
          act_bind (ApplyStatus env (reported_status cfg v 0)) (\<lambda>_. act_return (v = Level)))))"

lemma act_bind_assoc: "act_bind (act_bind m f) g = act_bind m (\<lambda>a. act_bind (f a) g)"
  by (simp add: act_bind_def fun_eq_iff split: prod.split sum.split)

lemma act_bind_cong:
  assumes "\<And>a. f a = g a"
  shows "act_bind m f = act_bind m g"
proof -
  have "f = g" using assms by blast
  then show ?thesis by simp
qed

lemma act_bind_read: "act_bind (act_read f) (\<lambda>a. act_bind (act_read f) (g a)) = act_bind (act_read f) (\<lambda>a. g a a)"
  by (simp add: act_bind_def act_read_def fun_eq_iff)

lemma act_on_simps:
  "act_on env (Failing reason msg) = not_done (degraded env reason msg)"
  "act_on env Syncing = act_bind (act_do (se_set_count env 0)) (\<lambda>_. act_bind (act_read (se_config env)) (\<lambda>cfg.
     not_done (progressing env ReasonSyncing (''updating to '' @ sc_ReleaseVersion cfg) [])))"
  "act_on env Upgrading = act_bind (act_do (se_set_count env 0)) (\<lambda>_. act_bind (act_read (se_config env)) (\<lambda>cfg.
     not_done (progressing env ReasonSyncing (''upgrading operator version to '' @ sc_ReleaseVersion cfg)
       (operator_version (sc_ReleaseVersion cfg)))))"
  "act_on env Level = act_bind (act_do (se_set_count env 0)) (\<lambda>_. act_bind (act_read (se_config env)) (\<lambda>cfg.
     act_bind (available env ReasonAsExpected (''at version '' @ sc_ReleaseVersion cfg)) (\<lambda>_. act_return True)))"
  by (simp_all add: act_on_def not_done_def progressing_def available_def act_bind_assoc act_bind_read)

lemma report_version_eq: "report_version env = act_bind (observe_version env) (act_on env)"
  unfolding report_version_def observe_version_def act_bind_assoc
  by (intro act_bind_cong) (simp add: act_on_simps split: sum.split bool.split)

lemma report_operand_eq: "report_operand env = act_bind (observe_operand env) (act_on env)"
  unfolding report_operand_def observe_operand_def act_bind_assoc
  by (intro act_bind_cong) (simp add: act_on_simps report_version_eq split: sum.split)

lemma ReportStatus_eq: "ReportStatus env = act_bind (observe env) (act_on env)"
  unfolding ReportStatus_def observe_def act_bind_assoc
  by (intro act_bind_cong) (simp add: act_on_simps report_operand_eq split: sum.split)

section \<open>What a verdict means\<close>

definition api_ready :: "('w \<Rightarrow> NamespacedName \<Rightarrow> ClusterOperator option) \<Rightarrow> 'w \<Rightarrow> bool" where
  "api_ready cos w \<longleftrightarrow>
     (\<exists>mao. cos w (co_name_key ''machine-api'') = Some mao \<and> machine_api_ready (co_Conditions (ko_status mao)))"

definition operand_level ::
    "StatusReporterConfig \<Rightarrow> (NamespacedName \<Rightarrow> ClusterAutoscaler option) \<Rightarrow>
     (NamespacedName \<Rightarrow> Deployment option) \<Rightarrow> bool" where
  "operand_level cfg cas deps \<longleftrightarrow>
     cas (co_name_key (sc_ClusterAutoscalerName cfg)) = None \<or>
     (\<exists>d. deps (deployment_key cfg) = Some d \<and> deployment_level (sc_ReleaseVersion cfg) d)"

definition verdict_holds ::
    "'w sr_env \<Rightarrow> ('w \<Rightarrow> NamespacedName \<Rightarrow> ClusterOperator option) \<Rightarrow>
     ('w \<Rightarrow> NamespacedName \<Rightarrow> ClusterAutoscaler option) \<Rightarrow>
     ('w \<Rightarrow> NamespacedName \<Rightarrow> Deployment option) \<Rightarrow> 'w \<Rightarrow> verdict \<Rightarrow> bool" where
  "verdict_holds env cos cas deps w v \<longleftrightarrow>
     (let cfg = se_config env w;
          ready = api_ready cos w;
          level = operand_level cfg (cas w) (deps w);
          changed = version_changed (sc_ReleaseVersion cfg) (co_Versions (status_now cos w))
      in case v of
        Level \<Rightarrow> ready \<and> level \<and> changed = Inr False
      | Upgrading \<Rightarrow> ready \<and> level \<and> changed = Inr True
      | Syncing \<Rightarrow> ready \<and> \<not> level
      | Failing reason msg \<Rightarrow>
          (reason = ReasonMissingDependency \<and>
             (msg = ''machine-api not ready'' \<and> \<not> ready \<or>
              (\<exists>e. msg = ''error checking machine-api status: '' @ se_show env e))) \<or>
          (reason = ReasonCheckAutoscaler \<and> ready \<and>
             ((\<exists>e. msg = ''error checking autoscaler status: '' @ se_show env e) \<or>
              level \<and> (\<exists>e. msg = ''error checking version upgrade: '' @ se_show env e))))"

lemma version_loop_no_panic: "version_loop v vs = Inl e \<Longrightarrow> \<not> is_panic e"
  by (induction v vs rule: version_loop.induct) (auto split: if_splits sum.splits)

context status_cluster
begin

lemma wp_CheckMachineAPI:
  assumes "good w"
    and "\<And>w'. quiet w w' \<Longrightarrow> Q (api_ready cos w) w'"
    and "\<And>e w'. quiet w w' \<Longrightarrow> \<not> is_panic e \<Longrightarrow> E e w'"
  shows "wp (CheckMachineAPI env) Q E w"
  unfolding CheckMachineAPI_def wp_bind wp_base
proof (rule O.wp_get [OF assms(1)], goal_cases)
  case (1 mao w')
  have "api_ready cos w = machine_api_ready (co_Conditions (ko_status mao))" using 1(3) by (simp add: api_ready_def)
  moreover have "quiet w w'" using 1 client_preservesD(1) [OF cos_preserve 1(7)] by (simp add: unchanged_by_def)
  ultimately show ?case using assms(2) [of w'] by simp
next
  case (2 e w')
  then show ?case using client_preservesD(1) [OF cos_preserve 2(5)] by (intro assms(3)) (simp_all add: unchanged_by_def)
qed

lemma wp_read_ca:
  assumes "good w" and "\<And>w'. quiet w w' \<Longrightarrow> Q (cas w k) w'"
    and "\<And>e w'. quiet w w' \<Longrightarrow> \<not> is_panic e \<Longrightarrow> E e w'"
  shows "wp (ignore_not_found (se_get_ca env k)) Q E w"
  unfolding wp_ignore_not_found
  by (rule wpI; drule read_ca [OF assms(1)]) (auto simp: finds_def dest: assms(2,3))

lemma wp_read_deployment:
  assumes "good w" and "\<And>w'. quiet w w' \<Longrightarrow> Q (deps w k) w'"
    and "\<And>e w'. quiet w w' \<Longrightarrow> \<not> is_panic e \<Longrightarrow> E e w'"
  shows "wp (ignore_not_found (se_get_deployment env k)) Q E w"
  unfolding wp_ignore_not_found
  by (rule wpI; drule read_deployment [OF assms(1)]) (auto simp: finds_def dest: assms(2,3))

lemma quiet_state:
  "quiet w w' \<Longrightarrow> good w' \<and> cos w' = cos w \<and> se_config env w' = se_config env w \<and>
   se_count env w' = se_count env w \<and> cas w' = cas w \<and> deps w' = deps w"
  by (simp add: unchanged_by_def reporter_state_def)

lemma own_write_state:
  "own_write w w' \<Longrightarrow> good w' \<and> se_config env w' = se_config env w \<and> se_count env w' = se_count env w \<and>
   cas w' = cas w \<and> deps w' = deps w \<and> (\<forall>k. k \<noteq> own_key \<longrightarrow> cos w' k = cos w k)"
  by (simp add: writes_own_def reporter_state_def)

lemma wp_CheckClusterAutoscaler:
  assumes w: "good w"
    and Q: "\<And>w'. quiet w w' \<Longrightarrow> Q (operand_level (se_config env w) (cas w) (deps w)) w'"
    and E: "\<And>e w'. quiet w w' \<Longrightarrow> \<not> is_panic e \<Longrightarrow> E e w'"
  shows "wp (CheckClusterAutoscaler env) Q E w"
proof -
  let ?cfg = "se_config env w"
  have "wp (ignore_not_found (se_get_deployment env (deployment_key ?cfg)))
      (\<lambda>d. case d of None \<Rightarrow> Q False | Some d \<Rightarrow> Q (deployment_level (sc_ReleaseVersion ?cfg) d)) E w'"
    if ca: "cas w (co_name_key (sc_ClusterAutoscalerName ?cfg)) = Some ca" and q: "quiet w w'" for ca w'
  proof (rule wp_read_deployment)
    show "good w'" using q by (simp add: unchanged_by_def)
    fix w'' assume "quiet w' w''"
    with q have "quiet w w''" and "deps w' = deps w" by (blast intro: unchanged_by_trans, simp add: quiet_state)
    then show "(case deps w' (deployment_key ?cfg) of None \<Rightarrow> Q False
        | Some d \<Rightarrow> Q (deployment_level (sc_ReleaseVersion ?cfg) d)) w''"
      using Q [of w''] ca by (cases "deps w (deployment_key ?cfg)") (simp_all add: operand_level_def)
  qed (use q in \<open>blast intro: E unchanged_by_trans\<close>)
  then show ?thesis
    unfolding CheckClusterAutoscaler_def wp_bind wp_read wp_case_option wp_base
    using Q E by (intro wp_read_ca [OF w]) (auto simp: operand_level_def split: option.split)
qed

lemma wp_shouldSetProgressing:
  assumes w: "good w"
    and Q: "\<And>b w'. \<lbrakk>own_write w w'; status_now cos w' = status_now cos w;
      version_changed (sc_ReleaseVersion (se_config env w)) (co_Versions (status_now cos w)) = Inr b\<rbrakk> \<Longrightarrow> Q b w'"
    and E: "\<And>e w'. \<lbrakk>own_write w w'; \<not> is_panic e\<rbrakk> \<Longrightarrow> E e w'"
  shows "wp (shouldSetProgressingForVersionChange env) Q E w"
  unfolding shouldSetProgressingForVersionChange_def wp_bind wp_try
proof (rule wp_GetOrCreateClusterOperator [OF w], goal_cases)
  case (1 co w')
  then have "status_now cos w' = status_now cos w" by (simp add: status_now_def)
  moreover have "\<not> is_panic e" if "version_changed v vs = Inl e" for v vs e
    using that version_loop_no_panic by (auto simp: version_changed_def split: sum.splits if_splits)
  ultimately show ?case
    using 1 own_write_state [OF 1(1)] by (auto simp: wp_simps split: sum.split intro: Q E)
next
  case (2 e w')
  then show ?case by (auto simp: wp_simps intro: E)
qed

text \<open>
  Observing never fails, and writes at most the operator's own ClusterOperator, which it creates
  where it is missing.
\<close>

lemma wp_observe_version:
  assumes w: "good w" "api_ready cos w" "operand_level (se_config env w) (cas w) (deps w)"
    and Q: "\<And>v w'. \<lbrakk>own_write w w'; \<not> is_failing v \<longrightarrow> status_now cos w' = status_now cos w;
      verdict_holds env cos cas deps w v\<rbrakk> \<Longrightarrow> Q v w'"
  shows "wp (observe_version env) Q E w"
  unfolding observe_version_def wp_bind wp_try
proof (rule wp_shouldSetProgressing [OF w(1)], goal_cases)
  case (1 b w')
  then show ?case using w(2,3) by (cases b) (auto simp: wp_simps verdict_holds_def intro!: Q)
next
  case (2 e w')
  then show ?case using w(2,3) by (auto simp: wp_simps verdict_holds_def intro!: Q)
qed

lemma wp_observe_operand:
  assumes w: "good w" "api_ready cos w"
    and Q: "\<And>v w'. \<lbrakk>own_write w w'; \<not> is_failing v \<longrightarrow> status_now cos w' = status_now cos w;
      verdict_holds env cos cas deps w v\<rbrakk> \<Longrightarrow> Q v w'"
  shows "wp (observe_operand env) Q E w"
  unfolding observe_operand_def wp_bind wp_try
proof (rule wp_CheckClusterAutoscaler [OF w(1)], goal_cases)
  case (1 w1)
  have own: "own_write w w1" "status_now cos w1 = status_now cos w" and same: "api_ready cos w1"
      "verdict_holds env cos cas deps w1 v = verdict_holds env cos cas deps w v" for v
    using 1 w quiet_state [OF 1] by (simp_all add: unchanged_writes_own status_now_def api_ready_def verdict_holds_def)
  have "wp (observe_version env) Q E w1" if "operand_level (se_config env w) (cas w) (deps w)"
    using that quiet_state [OF 1] own same
    by (intro wp_observe_version) (auto intro: Q writes_own_trans)
  then show ?case using own w(2) by (auto simp: wp_simps verdict_holds_def intro!: Q)
next
  case (2 e w1)
  then show ?case using w(2) by (auto simp: wp_simps verdict_holds_def intro!: Q unchanged_writes_own)
qed

lemma wp_observe:
  assumes w: "good w"
    and Q: "\<And>v w'. \<lbrakk>own_write w w'; \<not> is_failing v \<longrightarrow> status_now cos w' = status_now cos w;
      verdict_holds env cos cas deps w v\<rbrakk> \<Longrightarrow> Q v w'"
  shows "wp (observe env) Q E w"
  unfolding observe_def wp_bind wp_try
proof (rule wp_CheckMachineAPI [OF w], goal_cases)
  case (1 w1)
  have own: "own_write w w1" "status_now cos w1 = status_now cos w" and same: "api_ready cos w1 = api_ready cos w"
      "verdict_holds env cos cas deps w1 v = verdict_holds env cos cas deps w v" for v
    using 1 quiet_state [OF 1] by (simp_all add: unchanged_writes_own status_now_def api_ready_def verdict_holds_def)
  have "wp (observe_operand env) Q E w1" if "api_ready cos w"
    using that quiet_state [OF 1] own same
    by (intro wp_observe_operand) (auto intro: Q writes_own_trans)
  then show ?case using own by (auto simp: wp_simps verdict_holds_def intro!: Q)
next
  case (2 e w1)
  then show ?case by (auto simp: wp_simps verdict_holds_def intro!: Q unchanged_writes_own)
qed

lemma counter_state:
  "good w \<Longrightarrow> good (se_set_count env n w) \<and> cos (se_set_count env n w) = cos w \<and>
   se_config env (se_set_count env n w) = se_config env w \<and> se_count env (se_set_count env n w) = n \<and>
   cas (se_set_count env n w) = cas w \<and> deps (se_set_count env n w) = deps w"
  using counter [where w = w and n = n] by (simp add: reporter_state_def)

end

text \<open>Acting on a verdict sets the counter and writes the operator's own ClusterOperator.\<close>

definition acted ::
    "'w sr_env \<Rightarrow> ('w \<Rightarrow> NamespacedName \<Rightarrow> ClusterOperator option) \<Rightarrow> ('w \<Rightarrow> bool) \<Rightarrow>
     ('w \<Rightarrow> NamespacedName \<Rightarrow> ClusterAutoscaler option) \<Rightarrow>
     ('w \<Rightarrow> NamespacedName \<Rightarrow> Deployment option) \<Rightarrow> verdict \<Rightarrow> 'w \<Rightarrow> 'w \<Rightarrow> bool" where
  "acted env cos good cas deps v w w' \<longleftrightarrow>
     good w' \<and> se_config env w' = se_config env w \<and> cas w' = cas w \<and> deps w' = deps w \<and>
     (\<forall>k. k \<noteq> own_key \<longrightarrow> cos w' k = cos w k) \<and> se_count env w' = next_count v (se_count env w)"

text \<open>The operator's ClusterOperator holds the status of the verdict, applied over \<open>old\<close>.\<close>

definition status_applied ::
    "('w \<Rightarrow> NamespacedName \<Rightarrow> ClusterOperator option) \<Rightarrow> COStatus \<Rightarrow> COStatus \<Rightarrow> 'w \<Rightarrow> bool" where
  "status_applied cos old st w \<longleftrightarrow>
     (\<exists>co related. cos w own_key = Some co \<and> applied old st related (ko_status co))"

lemma next_count_wrap:
  "0 \<le> n \<Longrightarrow> n \<le> 3 \<Longrightarrow> is_failing v \<Longrightarrow>
   (if wrap64 (n + 1) \<ge> DegradedCountThreshold then DegradedCountThreshold else wrap64 (n + 1)) = next_count v n \<and>
   (wrap64 (n + 1) \<ge> DegradedCountThreshold \<longleftrightarrow> n + 1 \<ge> DegradedCountThreshold)"
  by (simp add: next_count_def DegradedCountThreshold_def wrap64_id is_int64_def)

context status_cluster
begin

lemma wp_apply_counted:
  assumes w: "good w" and v: "n = next_count v (se_count env w)" "reportable st"
    and w1: "w1 = se_set_count env n w \<or> (\<exists>m. w1 = se_set_count env n (se_set_count env m w))"
    and Q: "\<And>w'. \<lbrakk>acted env cos good cas deps v w w'; status_applied cos (status_now cos w) st w'\<rbrakk> \<Longrightarrow> Q () w'"
    and E: "\<And>e w'. \<lbrakk>acted env cos good cas deps v w w'; \<not> is_panic e\<rbrakk> \<Longrightarrow> E e w'"
  shows "wp (ApplyStatus env st) Q E w1"
proof -
  have s: "good w1" "cos w1 = cos w" "se_config env w1 = se_config env w" "se_count env w1 = n"
    "cas w1 = cas w" "deps w1 = deps w"
    using w1 counter_state w by auto
  then have now: "status_now cos w1 = status_now cos w" by (simp add: status_now_def)
  show ?thesis
  proof (rule wp_ApplyStatus [OF s(1) v(2)], goal_cases)
    case (1 co related w')
    then show ?case
      using own_write_state [OF 1(1)] s v(1) now by (intro Q) (auto simp: acted_def status_applied_def)
  next
    case (2 e w')
    then show ?case using own_write_state [OF 2(1)] s v(1) by (intro E) (auto simp: acted_def)
  qed
qed

lemma wp_act_on:
  assumes w: "good w" and n: "0 \<le> se_count env w" "se_count env w \<le> 3"
    and Q: "\<And>w'. \<lbrakk>acted env cos good cas deps v w w';
      status_applied cos (status_now cos w) (reported_status (se_config env w) v (se_count env w)) w'\<rbrakk> \<Longrightarrow>
      Q (v = Level) w'"
    and E: "\<And>e w'. \<lbrakk>acted env cos good cas deps v w w'; \<not> is_panic e\<rbrakk> \<Longrightarrow> E e w'"
  shows "wp (act_on env v) Q E w"
proof (cases "is_failing v")
  case True
  then obtain reason msg where v: "v = Failing reason msg" by (cases v) auto
  let ?n = "wrap64 (se_count env w + 1)"
  note c = next_count_wrap [OF n True] counter_state [OF w, of ?n]
    reportable_reported_status [of "se_config env w" v "se_count env w"]
  have d: "wp (ApplyStatus env (degraded_status reason msg)) (\<lambda>_. Q False) E
      (se_set_count env DegradedCountThreshold (se_set_count env ?n w))" if "?n \<ge> DegradedCountThreshold"
    using that c v Q E by (intro wp_apply_counted [OF w, where n = DegradedCountThreshold and v = v]) auto
  have a: "wp (ApplyStatus env (available_status (se_config env w) ReasonAsExpected not_yet_degraded)) (\<lambda>_. Q False) E
      (se_set_count env ?n w)" if "\<not> ?n \<ge> DegradedCountThreshold"
    using that c v Q E by (intro wp_apply_counted [OF w, where n = ?n and v = v]) auto
  show ?thesis
    using a d c unfolding v act_on_simps not_done_def degraded_def available_def
    by (simp add: wp_simps Let_def not_yet_degraded_def)
next
  case False
  then have v: "act_on env v = act_bind (act_do (se_set_count env 0)) (\<lambda>_. act_bind (act_read (se_config env)) (\<lambda>cfg.
      act_bind (ApplyStatus env (reported_status cfg v 0)) (\<lambda>_. act_return (v = Level))))"
    and r: "reported_status cfg v n = reported_status cfg v 0" for cfg n
    by (cases v; simp add: act_on_def)+
  have "wp (ApplyStatus env (reported_status (se_config env w) v 0)) (\<lambda>_. Q (v = Level)) E (se_set_count env 0 w)"
    using False Q E reportable_reported_status unfolding r [of "se_config env w" "se_count env w"]
    by (intro wp_apply_counted [OF w, where n = 0 and v = v]) (auto simp: next_count_def)
  then show ?thesis using counter_state [OF w, of 0] by (simp add: v wp_simps)
qed

lemma wp_ReportStatus:
  assumes w: "good w" and n: "0 \<le> se_count env w" "se_count env w \<le> 3"
    and Q: "\<And>v old w'. \<lbrakk>verdict_holds env cos cas deps w v; acted env cos good cas deps v w w';
      \<not> is_failing v \<longrightarrow> old = status_now cos w;
      status_applied cos old (reported_status (se_config env w) v (se_count env w)) w'\<rbrakk> \<Longrightarrow> Q (v = Level) w'"
    and E: "\<And>v e w'. \<lbrakk>verdict_holds env cos cas deps w v; acted env cos good cas deps v w w'; \<not> is_panic e\<rbrakk> \<Longrightarrow>
      E e w'"
  shows "wp (ReportStatus env) Q E w"
  unfolding ReportStatus_eq wp_bind
proof (rule wp_observe [OF w], goal_cases)
  case (1 v w1)
  note s = own_write_state [OF 1(1)]
  then have a: "acted env cos good cas deps v w w'" if "acted env cos good cas deps v w1 w'" for w'
    using that by (simp add: acted_def)
  show ?case
    using s n 1 by (intro wp_act_on) (auto intro: E Q a)
qed

lemma observe_total:
  assumes "good w"
  obtains v w1 where "observe env w = (Inr v, w1)" "own_write w w1" "verdict_holds env cos cas deps w v"
proof -
  have "wp (observe env) (\<lambda>v w1. own_write w w1 \<and> verdict_holds env cos cas deps w v) (\<lambda>_ _. False) w"
    by (rule wp_observe [OF assms]) simp
  from wp_result [OF this] that show thesis
    by (cases "observe env w"; cases "fst (observe env w)") force+
qed

lemma report_step:
  assumes w: "good w" "0 \<le> se_count env w" "se_count env w \<le> 3"
    and obs: "observe env w = (Inr v, w1)" and act: "act_on env v w1 = (r, w')"
  shows "acted env cos good cas deps v w w' \<and>
    (\<forall>b. r = Inr b \<longrightarrow> (\<exists>old. status_applied cos old (reported_status (se_config env w) v (se_count env w)) w'))"
proof -
  obtain "own_write w w1" using observe_total [OF w(1)] obs by (metis Pair_inject sum.inject(2))
  note s = own_write_state [OF this]
  have "wp (act_on env v)
      (\<lambda>_ w'. acted env cos good cas deps v w w' \<and>
        (\<exists>old. status_applied cos old (reported_status (se_config env w) v (se_count env w)) w'))
      (\<lambda>_. acted env cos good cas deps v w) w1"
    using s w(2,3) by (intro wp_act_on) (auto simp: acted_def)
  from wp_result [OF this act] show ?thesis by (cases r) auto
qed

end

section \<open>A sequence of reports\<close>

text \<open>
  \<open>others\<close> is what happens to the cluster between two reports; \<open>vs\<close> are the verdicts, the last
  one at the end.  The counter starts at 0.
\<close>

inductive reports :: "'w sr_env \<Rightarrow> ('w \<Rightarrow> 'w \<Rightarrow> bool) \<Rightarrow> verdict list \<Rightarrow> 'w \<Rightarrow> bool"
  for env :: "'w sr_env" and others :: "'w \<Rightarrow> 'w \<Rightarrow> bool" where
  reports_start: "se_count env w = 0 \<Longrightarrow> reports env others [] w"
| reports_step: "reports env others vs w \<Longrightarrow> others w w1 \<Longrightarrow> observe env w1 = (Inr v, w2) \<Longrightarrow>
    act_on env v w2 = (r, w3) \<Longrightarrow> reports env others (vs @ [v]) w3"

inductive_cases reports_NilE: "reports env others [] w"
inductive_cases reports_snocE: "reports env others (vs @ [v]) w"

definition failing_streak :: "verdict list \<Rightarrow> nat" where
  "failing_streak vs = length (takeWhile is_failing (rev vs))"

lemma failing_streak_simps [simp]:
  "failing_streak [] = 0"
  "failing_streak (vs @ [v]) = (if is_failing v then Suc (failing_streak vs) else 0)"
  by (simp_all add: failing_streak_def)

text \<open>Nothing else touches the counter, and the environment keeps its contract.\<close>

definition leaves_counter :: "'w sr_env \<Rightarrow> ('w \<Rightarrow> bool) \<Rightarrow> ('w \<Rightarrow> 'w \<Rightarrow> bool) \<Rightarrow> bool" where
  "leaves_counter env good others \<longleftrightarrow>
     (\<forall>w w'. others w w' \<longrightarrow> good w' \<and> se_count env w' = se_count env w)"

context status_cluster
begin

lemma reports_count:
  assumes "leaves_counter env good others" "reports env others vs w"
  shows "se_count env w = min 3 (int (failing_streak vs))"
  using assms(2)
proof induction
  case (reports_step vs w w1 v w2 r w3)
  then have w1: "good w1" "se_count env w1 = min 3 (int (failing_streak vs))"
    using assms(1) by (simp_all add: leaves_counter_def)
  have "acted env cos good cas deps v w1 w3"
    using report_step [OF w1(1) _ _ reports_step.hyps(3,4)] w1(2) by simp
  then have "se_count env w3 = next_count v (se_count env w1)" by (simp add: acted_def)
  then show ?case using w1(2) by (auto simp: next_count_def DegradedCountThreshold_def)
qed simp

end

end
