(* ===== verification/Op_Worker.thy ===== *)
theory Op_Worker
  imports Op_Report
begin

text \<open>
  The worker of the status reporter (\<open>processNextWorkItem\<close> of \<open>pkg/operator/status.go\<close>) on the work
  queue of client-go it takes its items from, and their interleaving with the informer and the
  timer that ask for reports.
\<close>

section \<open>The work queue\<close>

text \<open>The fields of \<open>workqueue.Typed\<close> that are not about metrics, locking and draining.\<close>

record 'k workqueue =
  wq_queue :: "'k list"
  wq_dirty :: "'k set"
  wq_processing :: "'k set"
  wq_shuttingDown :: bool

definition newQueue :: "'k workqueue" where
  "newQueue = \<lparr>wq_queue = [], wq_dirty = {}, wq_processing = {}, wq_shuttingDown = False\<rparr>"

definition wq_Add :: "'k \<Rightarrow> 'k workqueue \<Rightarrow> 'k workqueue" where
  "wq_Add item q =
     (if wq_shuttingDown q then q
      else if item \<in> wq_dirty q then q
      else (let q = q\<lparr>wq_dirty := insert item (wq_dirty q)\<rparr>
            in if item \<in> wq_processing q then q else q\<lparr>wq_queue := wq_queue q @ [item]\<rparr>))"

text \<open>\<open>None\<close> is a call that blocks, \<open>Some (None, q)\<close> one that returns the signal to quit.\<close>

definition wq_Get :: "'k workqueue \<Rightarrow> ('k option \<times> 'k workqueue) option" where
  "wq_Get q =
     (case wq_queue q of
        [] \<Rightarrow> if wq_shuttingDown q then Some (None, q) else None
      | item # rest \<Rightarrow>
          Some (Some item, q\<lparr>wq_queue := rest, wq_processing := insert item (wq_processing q),
            wq_dirty := wq_dirty q - {item}\<rparr>))"

definition wq_Done :: "'k \<Rightarrow> 'k workqueue \<Rightarrow> 'k workqueue" where
  "wq_Done item q =
     (let q = q\<lparr>wq_processing := wq_processing q - {item}\<rparr>
      in if item \<in> wq_dirty q then q\<lparr>wq_queue := wq_queue q @ [item]\<rparr> else q)"

text \<open>The invariant the comments of the queue state, without duplicates.\<close>

definition wq_ok :: "'k workqueue \<Rightarrow> bool" where
  "wq_ok q \<longleftrightarrow> distinct (wq_queue q) \<and> set (wq_queue q) = wq_dirty q - wq_processing q"

lemma wq_ok_new: "wq_ok newQueue"
  by (simp add: wq_ok_def newQueue_def)

lemma wq_ok_Add: "wq_ok q \<Longrightarrow> wq_ok (wq_Add item q)"
  by (auto simp: wq_ok_def wq_Add_def Let_def)

lemma wq_ok_Get: "wq_ok q \<Longrightarrow> wq_Get q = Some (x, q') \<Longrightarrow> wq_ok q'"
  by (auto simp: wq_ok_def wq_Get_def split: list.splits if_splits)

lemma wq_ok_Done: "wq_ok q \<Longrightarrow> item \<in> wq_processing q \<Longrightarrow> wq_ok (wq_Done item q)"
  by (auto simp: wq_ok_def wq_Done_def Let_def)

section \<open>The worker\<close>

text \<open>
  \<open>wk_item\<close> is the item being processed, \<open>wk_delayed\<close> the items whose rate-limited addition has not
  fallen due.  \<open>wk_unseen\<close> is no state of the code: it says whether a report has been asked for since
  the last one began.
\<close>

record 'w worker =
  wk_world :: 'w
  wk_queue :: "string workqueue"
  wk_delayed :: "string set"
  wk_item :: "string option"
  wk_unseen :: bool

definition queue_key :: string where
  "queue_key = ''cluster''"

text \<open>The handlers of the informer, the timer, and a delayed addition that falls due.\<close>

definition wk_request :: "string \<Rightarrow> 'w worker \<Rightarrow> 'w worker" where
  "wk_request key s = s\<lparr>wk_queue := wq_Add key (wk_queue s), wk_unseen := True\<rparr>"

text \<open>\<open>processNextWorkItem\<close> up to the report; \<open>None\<close> where the worker waits or is busy.\<close>

definition wk_start :: "'w worker \<Rightarrow> 'w worker option" where
  "wk_start s =
     (if wk_item s \<noteq> None then None
      else case wq_Get (wk_queue s) of
        None \<Rightarrow> None
      | Some (None, q) \<Rightarrow> Some (s\<lparr>wk_queue := q\<rparr>)
      | Some (Some key, q) \<Rightarrow> Some (s\<lparr>wk_queue := q, wk_item := Some key, wk_unseen := False\<rparr>))"

text \<open>
  The report and what follows it: an error adds the item again after a delay, which the waiting
  queue keeps once per item; \<open>Forget\<close> only resets that delay; the deferred \<open>Done\<close> comes last.
\<close>

definition wk_finish :: "'w sr_env \<Rightarrow> 'w worker \<Rightarrow> 'w worker option" where
  "wk_finish env s =
     (case wk_item s of
        None \<Rightarrow> None
      | Some key \<Rightarrow>
          (case ReportStatus env (wk_world s) of
             (Inl err, w) \<Rightarrow>
               Some (s\<lparr>wk_world := w, wk_delayed := insert key (wk_delayed s),
                 wk_queue := wq_Done key (wk_queue s), wk_item := None\<rparr>)
           | (Inr _, w) \<Rightarrow>
               Some (s\<lparr>wk_world := w, wk_queue := wq_Done key (wk_queue s), wk_item := None\<rparr>)))"

lemma wk_finish_total: "wk_item s = Some key \<Longrightarrow> \<exists>s'. wk_finish env s = Some s'"
  by (cases "ReportStatus env (wk_world s)"; cases "fst (ReportStatus env (wk_world s))") (simp_all add: wk_finish_def)

section \<open>Runs\<close>

text \<open>
  The states of the worker in any interleaving with requests and with what else happens to the
  cluster (\<open>others\<close>), with the verdicts so far.  A report is one step; the cluster may change
  between its beginning, where the item is taken, and that step.
\<close>

inductive worker_run :: "'w sr_env \<Rightarrow> ('w \<Rightarrow> bool) \<Rightarrow> ('w \<Rightarrow> 'w \<Rightarrow> bool) \<Rightarrow> verdict list \<Rightarrow> 'w worker \<Rightarrow> bool"
  for env :: "'w sr_env" and good :: "'w \<Rightarrow> bool" and others :: "'w \<Rightarrow> 'w \<Rightarrow> bool" where
  run_start: "good w \<Longrightarrow> se_count env w = 0 \<Longrightarrow>
    worker_run env good others [] \<lparr>wk_world = w, wk_queue = newQueue, wk_delayed = {}, wk_item = None, wk_unseen = False\<rparr>"
| run_request: "worker_run env good others vs s \<Longrightarrow> worker_run env good others vs (wk_request queue_key s)"
| run_due: "worker_run env good others vs s \<Longrightarrow> key \<in> wk_delayed s \<Longrightarrow>
    worker_run env good others vs (wk_request key (s\<lparr>wk_delayed := wk_delayed s - {key}\<rparr>))"
| run_take: "worker_run env good others vs s \<Longrightarrow> wk_start s = Some s' \<Longrightarrow> worker_run env good others vs s'"
| run_report: "worker_run env good others vs s \<Longrightarrow> observe env (wk_world s) = (Inr v, w1) \<Longrightarrow>
    wk_finish env s = Some s' \<Longrightarrow> worker_run env good others (vs @ [v]) s'"
| run_change: "worker_run env good others vs s \<Longrightarrow> others (wk_world s) w \<Longrightarrow>
    worker_run env good others vs (s\<lparr>wk_world := w\<rparr>)"

text \<open>
  With one key and one worker the queue is determined by the item and whether something is
  unseen.
\<close>

definition worker_inv :: "'w worker \<Rightarrow> bool" where
  "worker_inv s \<longleftrightarrow>
     wk_item s \<in> {None, Some queue_key} \<and> wk_delayed s \<subseteq> {queue_key} \<and>
     wk_queue s =
       \<lparr>wq_queue = (if wk_unseen s \<and> wk_item s = None then [queue_key] else []),
        wq_dirty = (if wk_unseen s then {queue_key} else {}),
        wq_processing = set_option (wk_item s), wq_shuttingDown = False\<rparr>"

lemma worker_inv_request:
  "worker_inv s \<Longrightarrow> worker_inv (wk_request queue_key s)"
  "worker_inv s \<Longrightarrow> key \<in> wk_delayed s \<Longrightarrow> worker_inv (wk_request key (s\<lparr>wk_delayed := wk_delayed s - {key}\<rparr>))"
  by (auto simp: worker_inv_def wk_request_def wq_Add_def Let_def)

lemma worker_inv_start:
  assumes "worker_inv s"
  shows "wk_start s = (if wk_unseen s \<and> wk_item s = None
     then Some (s\<lparr>wk_queue := (newQueue :: string workqueue)\<lparr>wq_processing := {queue_key}\<rparr>,
       wk_item := Some queue_key, wk_unseen := False\<rparr>) else None)"
  using assms by (auto simp: worker_inv_def wk_start_def wq_Get_def newQueue_def)

lemma worker_inv_finish:
  assumes "worker_inv s" "wk_finish env s = Some s'"
  shows "worker_inv s' \<and> wk_item s' = None \<and> wk_unseen s' = wk_unseen s \<and>
    wk_world s' = snd (ReportStatus env (wk_world s)) \<and>
    wk_delayed s' = wk_delayed s \<union> (if isl (fst (ReportStatus env (wk_world s))) then {queue_key} else {})"
  using assms
  by (auto simp: worker_inv_def wk_finish_def wq_Done_def Let_def split: option.splits prod.splits sum.splits)

lemma worker_run_inv: "worker_run env good others vs s \<Longrightarrow> worker_inv s"
proof (induction rule: worker_run.induct)
  case (run_start w) then show ?case by (simp add: worker_inv_def newQueue_def)
next
  case (run_take vs s s')
  then show ?case by (auto simp: worker_inv_start worker_inv_def newQueue_def split: if_splits)
next
  case (run_change vs s w) then show ?case by (simp add: worker_inv_def)
qed (use worker_inv_request worker_inv_finish in blast)+

section \<open>The loops\<close>

text \<open>
  \<open>runWorker\<close>: an iteration until the context is done, each with what happens before the worker looks at
  the queue.  Where the worker waits in \<open>Get\<close>, the next one continues the wait.
\<close>

fun runWorker :: "'w sr_env \<Rightarrow> ('w worker \<Rightarrow> 'w worker) list \<Rightarrow> 'w worker \<Rightarrow> 'w worker" where
  "runWorker env [] s = s"
| "runWorker env (f # fs) s =
     (case wk_start (f s) of
        None \<Rightarrow> runWorker env fs (f s)
      | Some s \<Rightarrow> (case wk_finish env s of None \<Rightarrow> runWorker env fs s | Some s \<Rightarrow> runWorker env fs s))"

lemma runWorker_inv:
  assumes "\<And>f s. f \<in> set fs \<Longrightarrow> worker_inv s \<Longrightarrow> worker_inv (f s)" "worker_inv s"
  shows "worker_inv (runWorker env fs s)"
  using assms
proof (induction fs arbitrary: s)
  case (Cons f fs)
  have inv: "worker_inv (f s)" using Cons.prems by simp
  then have next_inv: "worker_inv s'" if "wk_start (f s) = Some s'" for s'
    using that by (auto simp: worker_inv_start worker_inv_def newQueue_def split: if_splits)
  have IH: "worker_inv (runWorker env fs t)" if "worker_inv t" for t
    using Cons.IH [of t] Cons.prems(1) that by simp
  show ?case
    using IH inv next_inv worker_inv_finish by (fastforce split: option.split)
qed simp

text \<open>
  \<open>wait.PollImmediateUntil\<close>: the condition runs at once and after each interval; the list has what
  happens in the intervals before the stop channel is closed.
\<close>

definition ErrWaitTimeout :: go_error where
  "ErrWaitTimeout = errorf ''timed out waiting for the condition''"

fun PollImmediateUntil :: "('s \<Rightarrow> (go_error + bool) \<times> 's) \<Rightarrow> ('s \<Rightarrow> 's) list \<Rightarrow> 's \<Rightarrow> (go_error + unit) \<times> 's" where
  "PollImmediateUntil condition intervals s =
     (case condition s of
        (Inl err, s) \<Rightarrow> (Inl err, s)
      | (Inr done, s) \<Rightarrow>
          if done then (Inr (), s)
          else (case intervals of
              [] \<Rightarrow> (Inl ErrWaitTimeout, s)
            | f # fs \<Rightarrow> PollImmediateUntil condition fs (f s)))"

definition pollFunc :: "'w worker \<Rightarrow> (go_error + bool) \<times> 'w worker" where
  "pollFunc s = (Inr False, wk_request queue_key s)"

text \<open>
  \<open>Start\<close> of the reporter, after which it waits for the stop channel.  \<open>synced\<close> is whether the informer's
  cache syncs within 30 seconds; the worker and the informer's handlers run in the intervals.
\<close>

definition reporter_Start :: "bool \<Rightarrow> ('w worker \<Rightarrow> 'w worker) list \<Rightarrow> 'w worker \<Rightarrow> (go_error + unit) \<times> 'w worker" where
  "reporter_Start synced intervals s =
     (if \<not> synced then (Inl (errorf ''unable to sync clusteroperators informer''), s)
      else PollImmediateUntil pollFunc intervals s)"

text \<open>\<open>Start\<close> asks for a report in every interval and never returns without an error.\<close>

lemma reporter_Start_polls:
  "reporter_Start True intervals s =
     (Inl ErrWaitTimeout, fold (\<lambda>f s. wk_request queue_key (f s)) intervals (wk_request queue_key s))"
proof -
  have "PollImmediateUntil pollFunc intervals s =
      (Inl ErrWaitTimeout, fold (\<lambda>f s. wk_request queue_key (f s)) intervals (wk_request queue_key s))"
    by (induction intervals arbitrary: s) (simp_all add: pollFunc_def)
  then show ?thesis by (simp add: reporter_Start_def)
qed

lemma reporter_Start_run:
  assumes "\<And>f vs s. f \<in> set intervals \<Longrightarrow> worker_run env good others vs s \<Longrightarrow> \<exists>vs'. worker_run env good others vs' (f s)"
    and "worker_run env good others vs s"
  shows "\<exists>s' vs'. reporter_Start True intervals s = (Inl ErrWaitTimeout, s') \<and> worker_run env good others vs' s' \<and>
    wk_unseen s'"
proof -
  have "\<exists>vs'. worker_run env good others vs' (fold (\<lambda>f s. wk_request queue_key (f s)) intervals s)"
    if "worker_run env good others vs s" for vs s
    using assms(1) that
  proof (induction intervals arbitrary: vs s)
    case (Cons f fs)
    then obtain vs' where "worker_run env good others vs' (f s)" by fastforce
    then have "worker_run env good others vs' (wk_request queue_key (f s))" by (rule run_request)
    with Cons.IH [of vs'] Cons.prems(1) show ?case by simp
  qed auto
  from this [OF run_request [OF assms(2)]] obtain vs' where
    "worker_run env good others vs' (fold (\<lambda>f s. wk_request queue_key (f s)) intervals (wk_request queue_key s))" ..
  moreover have "wk_unseen (fold (\<lambda>f s. wk_request queue_key (f s)) intervals (wk_request queue_key s))"
    by (induction intervals rule: rev_induct) (simp_all add: wk_request_def)
  ultimately show ?thesis by (simp add: reporter_Start_polls) blast
qed

context status_cluster
begin

lemma worker_run_count:
  assumes "leaves_counter env good others" "worker_run env good others vs s"
  shows "good (wk_world s) \<and> se_count env (wk_world s) = min 3 (int (failing_streak vs))"
  using assms(2)
proof (induction rule: worker_run.induct)
  case (run_take vs s s')
  then show ?case using worker_inv_start [OF worker_run_inv [OF run_take.hyps(1)]] by (auto split: if_splits)
next
  case (run_report vs s v w1 s')
  note IH = run_report.IH
  obtain r w2 where a: "act_on env v w1 = (r, w2)" by fastforce
  have "ReportStatus env (wk_world s) = (r, w2)"
    using run_report.hyps(2) a by (simp add: ReportStatus_eq act_bind_def)
  then have w': "wk_world s' = w2"
    using worker_inv_finish [OF worker_run_inv [OF run_report.hyps(1)] run_report.hyps(3)] by simp
  have "acted env cos good cas deps v (wk_world s) w2"
    using report_step [OF _ _ _ run_report.hyps(2) a] IH by simp
  then have "good w2" "se_count env w2 = next_count v (se_count env (wk_world s))"
    by (simp_all add: acted_def)
  then show ?case using IH by (auto simp: w' next_count_def DegradedCountThreshold_def)
next
  case (run_change vs s w) then show ?case using assms(1) by (simp add: leaves_counter_def)
qed (simp_all add: wk_request_def)

end

end
