(* ===== verification/Op_Status_Properties.thy ===== *)
theory Op_Status_Properties
  imports Op_Worker
begin

text \<open>
  The properties of the status reporter, for every environment that meets the contract
  \<open>status_cluster\<close>.  The fake cluster below meets it and the witnesses report on it.
\<close>

section \<open>A fake cluster\<close>

record sr_world =
  sw_cos :: "(NamespacedName, ClusterOperator) tracker"
  sw_cas :: "NamespacedName \<Rightarrow> ClusterAutoscaler option"
  sw_deps :: "NamespacedName \<Rightarrow> Deployment option"
  sw_config :: StatusReporterConfig
  sw_count :: int
  sw_clock :: nat

definition fake_sr_env :: "sr_world sr_env" where
  "fake_sr_env =
     \<lparr>se_cos = fake_client (kobject_ops True) ''now'' sw_cos (\<lambda>s w. w\<lparr>sw_cos := s\<rparr>),
      se_get_ca = \<lambda>k w. (case sw_cas w k of None \<Rightarrow> Inl not_found | Some ca \<Rightarrow> Inr ca, w),
      se_get_deployment = \<lambda>k w. (case sw_deps w k of None \<Rightarrow> Inl not_found | Some d \<Rightarrow> Inr d, w),
      se_related = None,
      se_now = \<lambda>w. (int (sw_clock w) + 1, w\<lparr>sw_clock := Suc (sw_clock w)\<rparr>),
      se_show = \<lambda>e. ''error'',
      se_config = sw_config, se_set_config = \<lambda>c w. w\<lparr>sw_config := c\<rparr>,
      se_count = sw_count, se_set_count = \<lambda>n w. w\<lparr>sw_count := n\<rparr>\<rparr>"

definition fake_sr_good :: "sr_world \<Rightarrow> bool" where
  "fake_sr_good w \<longleftrightarrow> keyed (kobject_ops True) (sw_cos w)"

interpretation fake_cos: kube_kind "kobject_ops True" ko_written ko_status "''now''" sw_cos
  "\<lambda>s w. w\<lparr>sw_cos := s\<rparr>" fake_sr_good
  by unfold_locales (simp_all add: fake_sr_good_def)

lemma fake_cos_store:
  "object_store (se_cos fake_sr_env) ko_key sw_cos ko_written ko_status (\<lambda>obj. ko_deletion obj \<noteq> None) ko_gone
     (\<lambda>_. True) fake_sr_good"
  using fake_cos.object_store_axioms by (simp add: fake_sr_env_def ko_gone_def [abs_def])

lemma tracker_create_status:
  "tracker_create (kobject_ops st) obj s = (Inr obj', s') \<Longrightarrow> ko_status obj' = ko_status obj"
  by (auto simp: tracker_create_def kobject_ops_def Let_def split: if_splits)

lemma fake_create_status:
  "cl_create (se_cos fake_sr_env) new_cluster_operator w = (Inr co, w') \<Longrightarrow> ko_status co = zero_status"
  by (auto simp: fake_sr_env_def fake_client_def act_zoom_def new_cluster_operator_def
      dest!: tracker_create_status split: prod.splits)

interpretation fake_reporter: status_cluster fake_sr_env sw_cos fake_sr_good sw_cas sw_deps
  by (rule status_cluster.intro [OF fake_cos_store], unfold_locales)
    (auto simp: fake_create_status, auto simp: fake_sr_env_def fake_sr_good_def unchanged_by_def
      reporter_state_def finds_def not_found_def intro!: fake_client_preserves split: option.splits)

section \<open>A cluster to report on\<close>

text \<open>There is no ClusterAutoscaler; \<open>ready\<close> says whether the machine API is available.\<close>

definition demo_status_config :: StatusReporterConfig where
  "demo_status_config =
     \<lparr>sc_ClusterAutoscalerName = ''default'', sc_ClusterAutoscalerNamespace = ''ns'',
      sc_ReleaseVersion = ''4.17.0'', sc_RelatedObjects = []\<rparr>"

definition demo_machine_api :: "bool \<Rightarrow> ClusterOperator" where
  "demo_machine_api ready =
     \<lparr>ko_meta = empty_meta\<lparr>om_name := ''machine-api'', om_resourceVersion := 1\<rparr>, ko_spec = (), ko_rest = (),
      ko_status = zero_status\<lparr>co_Conditions :=
        [co_condition ''Available'' (if ready then ''True'' else ''False'') [] [],
         co_condition ''Degraded'' ''False'' [] []]\<rparr>\<rparr>"

definition demo_status_world :: "bool \<Rightarrow> int \<Rightarrow> sr_world" where
  "demo_status_world ready n =
     \<lparr>sw_cos = [co_name_key ''machine-api'' \<mapsto> demo_machine_api ready], sw_cas = Map.empty, sw_deps = Map.empty,
      sw_config = demo_status_config, sw_count = n, sw_clock = 0\<rparr>"

definition demo_report :: "bool \<Rightarrow> int \<Rightarrow> (go_error + bool) \<times> sr_world" where
  "demo_report ready n = ReportStatus fake_sr_env (demo_status_world ready n)"

lemma demo_status_good: "fake_sr_good (demo_status_world ready n)"
  by (simp add: fake_sr_good_def keyed_def demo_status_world_def demo_machine_api_def ko_key_def meta_key_def
      co_name_key_def empty_meta_def ko_deletion_def)

lemma demo_status_simps [simp]:
  "se_count fake_sr_env = sw_count" "se_config fake_sr_env = sw_config"
  "sw_count (demo_status_world ready n) = n" "sw_config (demo_status_world ready n) = demo_status_config"
  by (simp_all add: fake_sr_env_def demo_status_world_def)

lemma demo_report_eq:
  "fst (demo_report ready n) = x \<Longrightarrow> ReportStatus fake_sr_env (demo_status_world ready n) = (x, snd (demo_report ready n))"
  by (cases "demo_report ready n") (simp add: demo_report_def)

lemma applied_pairs:
  assumes "applied old st related new"
  shows "map (\<lambda>c. (cond_type c, cond_status c)) (co_Conditions new) =
    map (\<lambda>c. (cond_type c, cond_status c)) (co_Conditions st) @ [(''Upgradeable'', ''True'')]"
proof -
  let ?pair = "\<lambda>c. (cond_type c, cond_status c)"
  have "map ?pair (co_Conditions new) = map ?pair (untimed (co_Conditions new))" by (simp add: untimed_def)
  also have "\<dots> = map ?pair (co_Conditions st @ [upgradeable])" using assms by (simp add: applied_def)
  finally show ?thesis by (simp add: upgradeable_def)
qed

section \<open>The report\<close>

text \<open>
  C3: the report refines its specification.  Whatever it returns, there is a verdict that holds
  of the cluster and that alone determines the counter, and nothing is written but the
  operator's own ClusterOperator; where it returns no error, that carries exactly the
  conditions and versions of the verdict, with transition times that move only with the
  status of a condition (for \<open>Progressing\<close> also with the versions), and the reporter says
  it is done exactly where everything is level.
\<close>

theorem report_refines:
  assumes "status_cluster env cos good cas deps" "good w"
    and "0 \<le> se_count env w" "se_count env w \<le> 3"
    and "ReportStatus env w = (r, w')"
  shows "\<exists>v. verdict_holds env cos cas deps w v \<and> acted env cos good cas deps v w w' \<and>
    (\<forall>b. r = Inr b \<longrightarrow> (b \<longleftrightarrow> v = Level) \<and>
      (\<exists>old. (\<not> is_failing v \<longrightarrow> old = status_now cos w) \<and>
        status_applied cos old (reported_status (se_config env w) v (se_count env w)) w'))"
proof -
  let ?P = "\<lambda>v w'. verdict_holds env cos cas deps w v \<and> acted env cos good cas deps v w w'"
  have "wp (ReportStatus env)
      (\<lambda>b w'. \<exists>v old. ?P v w' \<and> (b \<longleftrightarrow> v = Level) \<and> (\<not> is_failing v \<longrightarrow> old = status_now cos w) \<and>
        status_applied cos old (reported_status (se_config env w) v (se_count env w)) w')
      (\<lambda>_ w'. \<exists>v. ?P v w') w"
    by (rule status_cluster.wp_ReportStatus [OF assms(1-4)]) blast+
  from wp_result [OF this assms(5)] show ?thesis by (cases r) auto
qed

theorem report_refines_witness:
  "\<exists>co. sw_cos (snd (demo_report True 0)) own_key = Some co \<and>
     co_Versions (ko_status co) = operator_version ''4.17.0''"
proof -
  have run: "fst (demo_report True 0) = Inr True" by code_simp
  show ?thesis
    using report_refines [OF fake_reporter.status_cluster_axioms demo_status_good _ _ demo_report_eq [OF run]]
    by (auto simp: status_applied_def applied_def available_status_def operator_version_def demo_status_config_def)
qed

section \<open>The degraded counter\<close>

text \<open>
  C17: after any sequence of reports, whatever they returned and whatever happened in between, the
  counter is the number of failing verdicts since the last that was not, and stops at the
  threshold.
\<close>

theorem degraded_counter:
  assumes "status_cluster env cos good cas deps" "leaves_counter env good others" "reports env others vs w"
  shows "se_count env w = min 3 (int (failing_streak vs))"
  by (rule status_cluster.reports_count [OF assms])

text \<open>The demo's environment does nothing between two reports.\<close>

definition demo_idle :: "sr_world \<Rightarrow> sr_world \<Rightarrow> bool" where
  "demo_idle w w' \<longleftrightarrow> fake_sr_good w \<and> w' = w"

lemma demo_idle_leaves: "leaves_counter fake_sr_env fake_sr_good demo_idle"
  by (simp add: leaves_counter_def demo_idle_def)

definition demo_verdict :: verdict where
  "demo_verdict = Failing ReasonMissingDependency ''machine-api not ready''"

primrec demo_after :: "nat \<Rightarrow> sr_world" where
  "demo_after 0 = demo_status_world False 0"
| "demo_after (Suc n) = snd (ReportStatus fake_sr_env (demo_after n))"

lemma demo_verdicts:
  "fst (observe fake_sr_env (demo_after 0)) = Inr demo_verdict"
  "fst (observe fake_sr_env (demo_after 1)) = Inr demo_verdict"
  "fst (observe fake_sr_env (demo_after 2)) = Inr demo_verdict"
  by code_simp+

lemma demo_step:
  assumes "reports fake_sr_env demo_idle vs (demo_after n)" "fake_sr_good (demo_after n)"
    and "fst (observe fake_sr_env (demo_after n)) = Inr demo_verdict"
  shows "reports fake_sr_env demo_idle (vs @ [demo_verdict]) (demo_after (Suc n)) \<and> fake_sr_good (demo_after (Suc n))"
proof -
  let ?w = "demo_after n"
  obtain w1 where o: "observe fake_sr_env ?w = (Inr demo_verdict, w1)"
    using assms(3) by (cases "observe fake_sr_env ?w") simp
  obtain r w2 where a: "act_on fake_sr_env demo_verdict w1 = (r, w2)" by fastforce
  have w2: "demo_after (Suc n) = w2" using o a by (simp add: ReportStatus_eq act_bind_def split: sum.split)
  have c: "se_count fake_sr_env ?w = min 3 (int (failing_streak vs))"
    using fake_reporter.reports_count [OF demo_idle_leaves assms(1)] .
  have "fake_sr_good w2"
    using fake_reporter.report_step [OF assms(2) _ _ o a] c by (simp add: acted_def)
  moreover have "demo_idle ?w ?w" using assms(2) by (simp add: demo_idle_def)
  ultimately show ?thesis using reports_step [OF assms(1) _ o a] w2 by simp
qed

lemma demo_reports:
  "reports fake_sr_env demo_idle [demo_verdict] (demo_after 1) \<and> fake_sr_good (demo_after 1)"
  "reports fake_sr_env demo_idle [demo_verdict, demo_verdict] (demo_after 2) \<and> fake_sr_good (demo_after 2)"
proof -
  have s: "reports fake_sr_env demo_idle [] (demo_after 0)" "fake_sr_good (demo_after 0)"
    by (auto intro: reports_start demo_status_good)
  show 1: "reports fake_sr_env demo_idle [demo_verdict] (demo_after 1) \<and> fake_sr_good (demo_after 1)"
    using demo_step [OF s demo_verdicts(1)] by simp
  show "reports fake_sr_env demo_idle [demo_verdict, demo_verdict] (demo_after 2) \<and> fake_sr_good (demo_after 2)"
    using demo_step [OF conjunct1 [OF 1] conjunct2 [OF 1] demo_verdicts(2)] by (simp add: numeral_2_eq_2)
qed

theorem degraded_counter_witness:
  "sw_count (demo_after 2) = 2"
  using degraded_counter [OF fake_reporter.status_cluster_axioms demo_idle_leaves conjunct1 [OF demo_reports(2)]]
  by (simp add: demo_verdict_def failing_streak_def)

text \<open>
  C24: a report that returns no error says Degraded exactly where this and the two reports before
  it failed, and always says Available and Upgradeable: neither one transient failure nor
  two are shown, and the third is.
\<close>

theorem degraded_reported:
  assumes "status_cluster env cos good cas deps" "leaves_counter env good others" "reports env others vs w"
    and "others w w1" "observe env w1 = (Inr v, w2)" "ReportStatus env w1 = (Inr b, w3)"
  shows "\<exists>co. cos w3 own_key = Some co \<and>
    map (\<lambda>c. (cond_type c, cond_status c)) (co_Conditions (ko_status co)) =
      [(''Available'', ''True''),
       (''Progressing'', if v \<in> {Syncing, Upgrading} then ''True'' else ''False''),
       (''Degraded'', if failing_streak (vs @ [v]) \<ge> 3 then ''True'' else ''False''),
       (''Upgradeable'', ''True'')]"
proof -
  have n: "good w1" "se_count env w1 = min 3 (int (failing_streak vs))"
    using status_cluster.reports_count [OF assms(1-3)] assms(2,4) by (simp_all add: leaves_counter_def)
  have "act_on env v w2 = (Inr b, w3)" using assms(5,6) by (simp add: ReportStatus_eq act_bind_def)
  then obtain old co related where co: "cos w3 own_key = Some co" and
    a: "applied old (reported_status (se_config env w1) v (se_count env w1)) related (ko_status co)"
    using status_cluster.report_step [OF assms(1) n(1) _ _ assms(5)] n(2) by (auto simp: status_applied_def)
  show ?thesis
    using co n(2) unfolding applied_pairs [OF a]
    by (cases v) (auto simp: applied_pairs [OF a] available_status_def degraded_status_def progressing_status_def
        co_condition_def DegradedCountThreshold_def)
qed

theorem degraded_reported_witness:
  "\<exists>co. sw_cos (demo_after 3) own_key = Some co \<and>
    (''Degraded'', ''True'') \<in> (\<lambda>c. (cond_type c, cond_status c)) ` set (co_Conditions (ko_status co))"
proof -
  obtain w2 where o: "observe fake_sr_env (demo_after 2) = (Inr demo_verdict, w2)"
    using demo_verdicts(3) by (cases "observe fake_sr_env (demo_after 2)") simp
  have "fst (ReportStatus fake_sr_env (demo_after 2)) = Inr False" by code_simp
  then have r: "ReportStatus fake_sr_env (demo_after 2) = (Inr False, demo_after 3)"
    by (simp add: numeral_3_eq_3 numeral_2_eq_2 prod_eq_iff)
  have i: "demo_idle (demo_after 2) (demo_after 2)" using demo_reports(2) by (simp add: demo_idle_def)
  obtain co where co: "sw_cos (demo_after 3) own_key = Some co" and
    m: "map (\<lambda>c. (cond_type c, cond_status c)) (co_Conditions (ko_status co)) =
      [(''Available'', ''True''), (''Progressing'', ''False''), (''Degraded'', ''True''), (''Upgradeable'', ''True'')]"
    using degraded_reported [OF fake_reporter.status_cluster_axioms demo_idle_leaves conjunct1 [OF demo_reports(2)] i o r]
    by (auto simp: demo_verdict_def failing_streak_def)
  have "(''Degraded'', ''True'') \<in> set (map (\<lambda>c. (cond_type c, cond_status c)) (co_Conditions (ko_status co)))"
    unfolding m by simp
  then show ?thesis using co by (simp only: list.set_map) blast
qed

text \<open>
  C27: the reporter settles.  Once a status is applied, and as long as the list of related objects
  does not change, applying it again, whatever it returns, writes nothing: every transition
  time is the one already stored.  A reordered list of related objects is a change.
\<close>

theorem apply_stable:
  assumes "status_cluster env cos good cas deps" "good w" "reportable st" "related_fixed env cas deps w l"
    and "ApplyStatus env st w = (Inr (), w1)" "ApplyStatus env st w1 = (r, w2)"
  shows "cos w2 = cos w1 \<and> good w2 \<and> reporter_state env cas deps w2 = reporter_state env cas deps w1 \<and>
    (\<exists>co. cos w1 own_key = Some co \<and> applied (status_now cos w) st l (ko_status co))"
proof -
  have "wp (ApplyStatus env st)
      (\<lambda>_ w1. writes_own env cos good cas deps w w1 \<and>
        (\<exists>co. cos w1 own_key = Some co \<and> applied (status_now cos w) st l (ko_status co))) (\<lambda>_ _. True) w"
    by (rule status_cluster.wp_ApplyStatus [OF assms(1-3)]) (use assms(4) in blast)+
  from wp_result [OF this assms(5)] obtain co where own: "writes_own env cos good cas deps w w1"
    and co: "cos w1 own_key = Some co" "applied (status_now cos w) st l (ko_status co)"
    by auto
  have "good w1" and fixed: "related_fixed env cas deps w1 l"
    using own assms(4) by (simp_all add: writes_own_def related_fixed_def)
  have "wp (ApplyStatus env st) (\<lambda>_. unchanged_by env cos good cas deps w1)
      (\<lambda>_. unchanged_by env cos good cas deps w1) w1"
    by (rule status_cluster.wp_ApplyStatus_stable [OF assms(1) \<open>good w1\<close> assms(3) co fixed])
  from wp_result [OF this assms(6)] have "unchanged_by env cos good cas deps w1 w2"
    by (cases r) simp_all
  then show ?thesis using co by (auto simp: unchanged_by_def)
qed

text \<open>The demo's reporter has a fixed list of related objects.\<close>

lemma demo_related_fixed: "related_fixed fake_sr_env sw_cas sw_deps (demo_status_world ready n) []"
  by (simp add: related_fixed_def reporter_state_def configured_objects_def fake_sr_env_def act_read_def
      demo_status_world_def demo_status_config_def)

definition demo_status :: COStatus where
  "demo_status = available_status demo_status_config ReasonAsExpected ''ok''"

lemma demo_status_reportable: "reportable demo_status"
  by (simp add: demo_status_def reportable_def available_status_def zero_status_def co_condition_def)

theorem apply_stable_witness:
  "\<exists>co. sw_cos (snd (ApplyStatus fake_sr_env demo_status (snd (ApplyStatus fake_sr_env demo_status
      (demo_status_world True 0))))) own_key = Some co \<and>
    map cond_time (co_Conditions (ko_status co)) =
      map cond_time (co_Conditions (status_now sw_cos (snd (ApplyStatus fake_sr_env demo_status (demo_status_world True 0)))))"
proof -
  let ?m = "ApplyStatus fake_sr_env demo_status" and ?w = "demo_status_world True 0"
  have run: "?m ?w = (Inr (), snd (?m ?w))"
  proof -
    have "fst (?m ?w) = Inr ()" by code_simp
    then show ?thesis by (simp add: prod_eq_iff)
  qed
  obtain r w2 where again: "?m (snd (?m ?w)) = (r, w2)" by fastforce
  show ?thesis
    using apply_stable [OF fake_reporter.status_cluster_axioms demo_status_good demo_status_reportable
      demo_related_fixed run again] again
    by (auto simp: status_now_def)
qed

text \<open>
  C33: a report that finds the machine API not ready, with at most one failure before it, writes
  the release version into the ClusterOperator and says that nothing is progressing or degraded,
  although neither the ClusterAutoscaler nor the version has been checked.
\<close>

theorem premature_version:
  assumes "status_cluster env cos good cas deps" "good w"
    and "0 \<le> se_count env w" "se_count env w \<le> 1" "\<not> api_ready cos w" "ReportStatus env w = (Inr b, w')"
  shows "\<not> b \<and> (\<exists>co. cos w' own_key = Some co \<and>
    co_Versions (ko_status co) = operator_version (sc_ReleaseVersion (se_config env w)) \<and>
    map (\<lambda>c. (cond_type c, cond_status c)) (co_Conditions (ko_status co)) =
      [(''Available'', ''True''), (''Progressing'', ''False''), (''Degraded'', ''False''), (''Upgradeable'', ''True'')])"
proof -
  have n: "se_count env w \<le> 3" using assms(4) by simp
  let ?P = "\<lambda>v w'. verdict_holds env cos cas deps w v \<and> acted env cos good cas deps v w w'"
  have "wp (ReportStatus env)
      (\<lambda>b w'. \<exists>v old. ?P v w' \<and> (b \<longleftrightarrow> v = Level) \<and>
        status_applied cos old (reported_status (se_config env w) v (se_count env w)) w') (\<lambda>_ _. True) w"
    by (rule status_cluster.wp_ReportStatus [OF assms(1-3) n]) blast+
  from wp_result [OF this assms(6)] obtain v old where v: "verdict_holds env cos cas deps w v" "b \<longleftrightarrow> v = Level"
    and s: "status_applied cos old (reported_status (se_config env w) v (se_count env w)) w'"
    by auto
  obtain reason msg where f: "v = Failing reason msg"
    using v(1) assms(5) by (cases v) (auto simp: verdict_holds_def Let_def)
  have st: "reported_status (se_config env w) v (se_count env w) =
      available_status (se_config env w) ReasonAsExpected not_yet_degraded"
    using assms(4) by (simp add: f DegradedCountThreshold_def)
  obtain co related where co: "cos w' own_key = Some co" and
    a: "applied old (available_status (se_config env w) ReasonAsExpected not_yet_degraded) related (ko_status co)"
    using s unfolding st by (auto simp: status_applied_def)
  have "map (\<lambda>c. (cond_type c, cond_status c)) (co_Conditions (ko_status co)) =
      [(''Available'', ''True''), (''Progressing'', ''False''), (''Degraded'', ''False''), (''Upgradeable'', ''True'')]"
    unfolding applied_pairs [OF a] by (simp add: available_status_def co_condition_def)
  then show ?thesis
    using v(2) f co a by (simp add: applied_def available_status_def operator_version_def)
qed

lemma demo_machine_api_ready: "\<not> machine_api_ready (co_Conditions (ko_status (demo_machine_api False)))"
  by code_simp

theorem premature_version_witness:
  "\<exists>co. sw_cos (snd (demo_report False 0)) own_key = Some co \<and>
     co_Versions (ko_status co) = operator_version ''4.17.0''"
proof -
  have run: "fst (demo_report False 0) = Inr False" by code_simp
  have "\<not> api_ready sw_cos (demo_status_world False 0)"
    using demo_machine_api_ready by (simp add: api_ready_def demo_status_world_def)
  from premature_version [OF fake_reporter.status_cluster_axioms demo_status_good _ _ this demo_report_eq [OF run]]
  show ?thesis by (auto simp: demo_status_config_def)
qed

section \<open>The worker\<close>

text \<open>
  C21: no request for a report is lost, whatever the interleaving.  Where one has been made since the
  last report began, an idle worker can take the item, and a busy worker puts it back when it is
  done; a report that fails asks for another one; the queue never holds more than one item; and
  the counter is that of the reports run.
\<close>

theorem worker_loses_nothing:
  assumes "status_cluster env cos good cas deps" "leaves_counter env good others" "worker_run env good others vs s"
  shows "se_count env (wk_world s) = min 3 (int (failing_streak vs)) \<and>
    wq_ok (wk_queue s) \<and> length (wq_queue (wk_queue s)) \<le> 1 \<and>
    (wk_item s = None \<longrightarrow>
       (wk_unseen s \<longleftrightarrow> (\<exists>s'. wk_start s = Some s' \<and> wk_item s' = Some queue_key))) \<and>
    (wk_item s \<noteq> None \<longrightarrow>
       (\<exists>s'. wk_finish env s = Some s' \<and> wk_item s' = None \<and>
          (wk_unseen s \<longleftrightarrow> (\<exists>s''. wk_start s' = Some s'' \<and> wk_item s'' = Some queue_key)) \<and>
          (isl (fst (ReportStatus env (wk_world s))) \<longrightarrow> queue_key \<in> wk_delayed s')))"
proof -
  note inv = worker_run_inv [OF assms(3)]
  have idle: "wk_unseen t \<longleftrightarrow> (\<exists>s'. wk_start t = Some s' \<and> wk_item s' = Some queue_key)"
    if "worker_inv t" "wk_item t = None" for t :: "'a worker"
    using that by (simp add: worker_inv_start)
  have busy: "\<exists>s'. wk_finish env s = Some s' \<and> wk_item s' = None \<and>
          (wk_unseen s \<longleftrightarrow> (\<exists>s''. wk_start s' = Some s'' \<and> wk_item s'' = Some queue_key)) \<and>
          (isl (fst (ReportStatus env (wk_world s))) \<longrightarrow> queue_key \<in> wk_delayed s')"
    if some: "wk_item s \<noteq> None"
  proof -
    obtain s' where f: "wk_finish env s = Some s'"
      using some wk_finish_total by blast
    note s' = worker_inv_finish [OF inv f]
    show ?thesis using f s' idle [of s'] by auto
  qed
  have "wq_ok (wk_queue s)" "length (wq_queue (wk_queue s)) \<le> 1"
    using inv by (auto simp: worker_inv_def wq_ok_def)
  then show ?thesis
    using status_cluster.worker_run_count [OF assms] idle [OF inv] busy by blast
qed

text \<open>A request that comes in while the worker is reporting is taken up afterwards.\<close>

definition demo_worker :: "sr_world worker" where
  "demo_worker = \<lparr>wk_world = demo_status_world True 0, wk_queue = newQueue, wk_delayed = {}, wk_item = None, wk_unseen = False\<rparr>"

definition demo_busy :: "sr_world worker" where
  "demo_busy = wk_request queue_key (the (wk_start (wk_request queue_key demo_worker)))"

lemma demo_busy_run: "worker_run fake_sr_env fake_sr_good demo_idle [] demo_busy"
proof -
  have "worker_run fake_sr_env fake_sr_good demo_idle [] demo_worker"
    unfolding demo_worker_def by (rule run_start) (simp_all add: demo_status_good)
  then have r: "worker_run fake_sr_env fake_sr_good demo_idle [] (wk_request queue_key demo_worker)" by (rule run_request)
  have "wk_start (wk_request queue_key demo_worker) \<noteq> None"
    by (simp add: wk_start_def wk_request_def demo_worker_def newQueue_def wq_Add_def wq_Get_def)
  then obtain s where s: "wk_start (wk_request queue_key demo_worker) = Some s" by blast
  show ?thesis unfolding demo_busy_def s option.sel by (rule run_request [OF run_take [OF r s]])
qed

theorem worker_loses_nothing_witness:
  "\<exists>s' s''. wk_finish fake_sr_env demo_busy = Some s' \<and> wk_start s' = Some s'' \<and> wk_item s'' = Some queue_key"
proof -
  have "wk_item demo_busy \<noteq> None" "wk_unseen demo_busy"
    by (simp_all add: demo_busy_def wk_start_def wk_request_def demo_worker_def newQueue_def wq_Add_def wq_Get_def)
  then show ?thesis
    using worker_loses_nothing [OF fake_reporter.status_cluster_axioms demo_idle_leaves demo_busy_run] by blast
qed

end
