(* ===== verification/Op_Config.thy ===== *)
theory Op_Config
  imports Go_Strings
begin

text \<open>
  The operator's configuration (\<open>pkg/operator/config.go\<close>): the defaults and their
  overriding by environment variables.  The environment, \<open>os.LookupEnv\<close>, is an argument.
\<close>

section \<open>The record and its defaults\<close>

record Config =
  cfg_ReleaseVersion :: string
  cfg_WatchNamespace :: string
  cfg_LeaderElection :: bool
  cfg_LeaderElectionNamespace :: string
  cfg_LeaderElectionID :: string
  cfg_ClusterAutoscalerNamespace :: string
  cfg_ClusterAutoscalerName :: string
  cfg_ClusterAutoscalerImage :: string
  cfg_ClusterAutoscalerReplicas :: int32
  cfg_ClusterAutoscalerCloudProvider :: string
  cfg_ClusterAutoscalerVerbosity :: int
  cfg_ClusterAutoscalerExtraArgs :: string
  cfg_WebhooksEnabled :: bool
  cfg_WebhooksPort :: int
  cfg_WebhooksCertDir :: string
  cfg_MetricsPort :: int

definition DefaultWatchNamespace :: string where "DefaultWatchNamespace = ''openshift-machine-api''"
definition DefaultLeaderElection :: bool where "DefaultLeaderElection = True"
definition DefaultLeaderElectionNamespace :: string where "DefaultLeaderElectionNamespace = ''openshift-machine-api''"
definition DefaultLeaderElectionID :: string where "DefaultLeaderElectionID = ''cluster-autoscaler-operator-leader''"
definition DefaultClusterAutoscalerNamespace :: string where "DefaultClusterAutoscalerNamespace = ''openshift-machine-api''"
definition DefaultClusterAutoscalerName :: string where "DefaultClusterAutoscalerName = ''default''"
definition DefaultClusterAutoscalerImage :: string where "DefaultClusterAutoscalerImage = ''quay.io/openshift/origin-cluster-autoscaler:v4.0''"
definition DefaultClusterAutoscalerReplicas :: int32 where "DefaultClusterAutoscalerReplicas = 1"
definition DefaultClusterAutoscalerCloudProvider :: string where "DefaultClusterAutoscalerCloudProvider = ''openshift''"
definition DefaultClusterAutoscalerVerbosity :: int where "DefaultClusterAutoscalerVerbosity = 1"
definition DefaultWebhooksEnabled :: bool where "DefaultWebhooksEnabled = True"
definition DefaultWebhooksPort :: int where "DefaultWebhooksPort = 8443"
definition DefaultWebhooksCertDir :: string where "DefaultWebhooksCertDir = ''/etc/cluster-autoscaler-operator/tls''"
definition DefaultMetricsPort :: int where "DefaultMetricsPort = 8080"

lemmas default_defs =
  DefaultWatchNamespace_def DefaultLeaderElection_def DefaultLeaderElectionNamespace_def
  DefaultLeaderElectionID_def DefaultClusterAutoscalerNamespace_def
  DefaultClusterAutoscalerName_def DefaultClusterAutoscalerImage_def
  DefaultClusterAutoscalerReplicas_def DefaultClusterAutoscalerCloudProvider_def
  DefaultClusterAutoscalerVerbosity_def DefaultWebhooksEnabled_def DefaultWebhooksPort_def
  DefaultWebhooksCertDir_def DefaultMetricsPort_def

definition NewConfig :: Config where
  "NewConfig =
     \<lparr>cfg_ReleaseVersion = '''',
      cfg_WatchNamespace = DefaultWatchNamespace,
      cfg_LeaderElection = DefaultLeaderElection,
      cfg_LeaderElectionNamespace = DefaultLeaderElectionNamespace,
      cfg_LeaderElectionID = DefaultLeaderElectionID,
      cfg_ClusterAutoscalerNamespace = DefaultClusterAutoscalerNamespace,
      cfg_ClusterAutoscalerName = DefaultClusterAutoscalerName,
      cfg_ClusterAutoscalerImage = DefaultClusterAutoscalerImage,
      cfg_ClusterAutoscalerReplicas = DefaultClusterAutoscalerReplicas,
      cfg_ClusterAutoscalerCloudProvider = DefaultClusterAutoscalerCloudProvider,
      cfg_ClusterAutoscalerVerbosity = DefaultClusterAutoscalerVerbosity,
      cfg_ClusterAutoscalerExtraArgs = '''',
      cfg_WebhooksEnabled = DefaultWebhooksEnabled,
      cfg_WebhooksPort = DefaultWebhooksPort,
      cfg_WebhooksCertDir = DefaultWebhooksCertDir,
      cfg_MetricsPort = DefaultMetricsPort\<rparr>"

section \<open>The environment\<close>

text \<open>\<open>if v, ok := os.LookupEnv(name); ok { config.F = v }\<close>.\<close>

definition env_string ::
    "(string \<Rightarrow> string option) \<Rightarrow> string \<Rightarrow> (string \<Rightarrow> Config \<Rightarrow> Config) \<Rightarrow> Config \<Rightarrow> Config" where
  "env_string env name set_field config =
     (case env name of None \<Rightarrow> config | Some v \<Rightarrow> set_field v config)"

text \<open>The same with a parser, whose error ends the function.\<close>

definition env_parsed ::
    "(string \<Rightarrow> string option) \<Rightarrow> string \<Rightarrow> (string \<Rightarrow> go_error + 'a) \<Rightarrow> ('a \<Rightarrow> Config \<Rightarrow> Config) \<Rightarrow>
     Config \<Rightarrow> go_error + Config" where
  "env_parsed env name parse set_field config =
     (case env name of
        None \<Rightarrow> Inr config
      | Some v \<Rightarrow>
          (case parse v of
             Inl err \<Rightarrow>
               Inl (GoError (''error parsing '' @ name @ '' (%q) environment variable: %v'') [ArgS v, ArgE err])
           | Inr x \<Rightarrow> Inr (set_field x config)))"

definition ConfigFromEnvironment :: "(string \<Rightarrow> string option) \<Rightarrow> go_error + Config" where
  "ConfigFromEnvironment env =
     (let config = NewConfig;
          config = env_string env ''RELEASE_VERSION'' (\<lambda>v. cfg_ReleaseVersion_update (\<lambda>_. v)) config;
          config = env_string env ''WATCH_NAMESPACE'' (\<lambda>v. cfg_WatchNamespace_update (\<lambda>_. v)) config
      in res_bind (env_parsed env ''LEADER_ELECTION'' ParseBool
           (\<lambda>v. cfg_LeaderElection_update (\<lambda>_. v)) config) (\<lambda>config.
         (let config = env_string env ''LEADER_ELECTION_NAMESPACE''
                (\<lambda>v. cfg_LeaderElectionNamespace_update (\<lambda>_. v)) config;
              config = env_string env ''LEADER_ELECTION_ID'' (\<lambda>v. cfg_LeaderElectionID_update (\<lambda>_. v)) config;
              config = env_string env ''CLUSTER_AUTOSCALER_NAME''
                (\<lambda>v. cfg_ClusterAutoscalerName_update (\<lambda>_. v)) config;
              config = env_string env ''CLUSTER_AUTOSCALER_IMAGE''
                (\<lambda>v. cfg_ClusterAutoscalerImage_update (\<lambda>_. v)) config;
              config = env_string env ''CLUSTER_AUTOSCALER_CLOUD_PROVIDER''
                (\<lambda>v. cfg_ClusterAutoscalerCloudProvider_update (\<lambda>_. v)) config;
              config = env_string env ''CLUSTER_AUTOSCALER_NAMESPACE''
                (\<lambda>v. cfg_ClusterAutoscalerNamespace_update (\<lambda>_. v)) config
          in res_bind (env_parsed env ''CLUSTER_AUTOSCALER_VERBOSITY'' Atoi
               (\<lambda>v. cfg_ClusterAutoscalerVerbosity_update (\<lambda>_. v)) config) (\<lambda>config.
             (let config = env_string env ''CLUSTER_AUTOSCALER_EXTRA_ARGS''
                    (\<lambda>v. cfg_ClusterAutoscalerExtraArgs_update (\<lambda>_. v)) config
              in res_bind (env_parsed env ''WEBHOOKS_ENABLED'' ParseBool
                   (\<lambda>v. cfg_WebhooksEnabled_update (\<lambda>_. v)) config) (\<lambda>config.
                 res_bind (env_parsed env ''WEBHOOKS_PORT'' Atoi
                   (\<lambda>v. cfg_WebhooksPort_update (\<lambda>_. v)) config) (\<lambda>config.
                 (let config = env_string env ''WEBHOOKS_CERT_DIR''
                        (\<lambda>v. cfg_WebhooksCertDir_update (\<lambda>_. v)) config
                  in env_parsed env ''METRICS_PORT'' Atoi (\<lambda>v. cfg_MetricsPort_update (\<lambda>_. v)) config))))))))"

section \<open>What the configuration is\<close>

definition env_or :: "(string \<Rightarrow> string option) \<Rightarrow> string \<Rightarrow> string \<Rightarrow> string" where
  "env_or env name d = (case env name of None \<Rightarrow> d | Some v \<Rightarrow> v)"

definition env_parse :: "(string \<Rightarrow> string option) \<Rightarrow> string \<Rightarrow> (string \<Rightarrow> go_error + 'a) \<Rightarrow> 'a \<Rightarrow> 'a option" where
  "env_parse env name parse d =
     (case env name of None \<Rightarrow> Some d | Some v \<Rightarrow> (case parse v of Inl _ \<Rightarrow> None | Inr x \<Rightarrow> Some x))"

text \<open>An override is a field update with what the environment gives.\<close>

lemma env_string_field:
  "env_string env name (\<lambda>v. cfg_ReleaseVersion_update (\<lambda>_. v)) c =
   cfg_ReleaseVersion_update (env_or env name) c"
  "env_string env name (\<lambda>v. cfg_WatchNamespace_update (\<lambda>_. v)) c =
   cfg_WatchNamespace_update (env_or env name) c"
  "env_string env name (\<lambda>v. cfg_LeaderElectionNamespace_update (\<lambda>_. v)) c =
   cfg_LeaderElectionNamespace_update (env_or env name) c"
  "env_string env name (\<lambda>v. cfg_LeaderElectionID_update (\<lambda>_. v)) c =
   cfg_LeaderElectionID_update (env_or env name) c"
  "env_string env name (\<lambda>v. cfg_ClusterAutoscalerNamespace_update (\<lambda>_. v)) c =
   cfg_ClusterAutoscalerNamespace_update (env_or env name) c"
  "env_string env name (\<lambda>v. cfg_ClusterAutoscalerName_update (\<lambda>_. v)) c =
   cfg_ClusterAutoscalerName_update (env_or env name) c"
  "env_string env name (\<lambda>v. cfg_ClusterAutoscalerImage_update (\<lambda>_. v)) c =
   cfg_ClusterAutoscalerImage_update (env_or env name) c"
  "env_string env name (\<lambda>v. cfg_ClusterAutoscalerCloudProvider_update (\<lambda>_. v)) c =
   cfg_ClusterAutoscalerCloudProvider_update (env_or env name) c"
  "env_string env name (\<lambda>v. cfg_ClusterAutoscalerExtraArgs_update (\<lambda>_. v)) c =
   cfg_ClusterAutoscalerExtraArgs_update (env_or env name) c"
  "env_string env name (\<lambda>v. cfg_WebhooksCertDir_update (\<lambda>_. v)) c =
   cfg_WebhooksCertDir_update (env_or env name) c"
  by (cases "env name"; simp add: env_string_def env_or_def [abs_def])+

lemma env_parsed_field:
  "env_parsed env name parse0 (\<lambda>v. cfg_LeaderElection_update (\<lambda>_. v)) c = Inr c' \<longleftrightarrow>
   (\<exists>x. env_parse env name parse0 (cfg_LeaderElection c) = Some x \<and> c' = c\<lparr>cfg_LeaderElection := x\<rparr>)"
  "env_parsed env name parse1 (\<lambda>v. cfg_ClusterAutoscalerVerbosity_update (\<lambda>_. v)) c = Inr c' \<longleftrightarrow>
   (\<exists>x. env_parse env name parse1 (cfg_ClusterAutoscalerVerbosity c) = Some x \<and> c' = c\<lparr>cfg_ClusterAutoscalerVerbosity := x\<rparr>)"
  "env_parsed env name parse2 (\<lambda>v. cfg_WebhooksEnabled_update (\<lambda>_. v)) c = Inr c' \<longleftrightarrow>
   (\<exists>x. env_parse env name parse2 (cfg_WebhooksEnabled c) = Some x \<and> c' = c\<lparr>cfg_WebhooksEnabled := x\<rparr>)"
  "env_parsed env name parse3 (\<lambda>v. cfg_WebhooksPort_update (\<lambda>_. v)) c = Inr c' \<longleftrightarrow>
   (\<exists>x. env_parse env name parse3 (cfg_WebhooksPort c) = Some x \<and> c' = c\<lparr>cfg_WebhooksPort := x\<rparr>)"
  "env_parsed env name parse4 (\<lambda>v. cfg_MetricsPort_update (\<lambda>_. v)) c = Inr c' \<longleftrightarrow>
   (\<exists>x. env_parse env name parse4 (cfg_MetricsPort c) = Some x \<and> c' = c\<lparr>cfg_MetricsPort := x\<rparr>)"
  by (auto simp: env_parsed_def env_parse_def split: option.splits sum.splits)

text \<open>
  C32: every field of the configuration is the parsed value of its environment variable when that
  is set and its default when not; the replicas cannot be set.
\<close>

theorem config_fields:
  assumes "ConfigFromEnvironment env = Inr c"
  shows "cfg_ReleaseVersion c = env_or env ''RELEASE_VERSION'' '''' \<and>
    cfg_WatchNamespace c = env_or env ''WATCH_NAMESPACE'' ''openshift-machine-api'' \<and>
    Some (cfg_LeaderElection c) = env_parse env ''LEADER_ELECTION'' ParseBool True \<and>
    cfg_LeaderElectionNamespace c = env_or env ''LEADER_ELECTION_NAMESPACE'' ''openshift-machine-api'' \<and>
    cfg_LeaderElectionID c = env_or env ''LEADER_ELECTION_ID'' ''cluster-autoscaler-operator-leader'' \<and>
    cfg_ClusterAutoscalerNamespace c = env_or env ''CLUSTER_AUTOSCALER_NAMESPACE'' ''openshift-machine-api'' \<and>
    cfg_ClusterAutoscalerName c = env_or env ''CLUSTER_AUTOSCALER_NAME'' ''default'' \<and>
    cfg_ClusterAutoscalerImage c =
      env_or env ''CLUSTER_AUTOSCALER_IMAGE'' ''quay.io/openshift/origin-cluster-autoscaler:v4.0'' \<and>
    cfg_ClusterAutoscalerReplicas c = 1 \<and>
    cfg_ClusterAutoscalerCloudProvider c = env_or env ''CLUSTER_AUTOSCALER_CLOUD_PROVIDER'' ''openshift'' \<and>
    Some (cfg_ClusterAutoscalerVerbosity c) = env_parse env ''CLUSTER_AUTOSCALER_VERBOSITY'' Atoi 1 \<and>
    cfg_ClusterAutoscalerExtraArgs c = env_or env ''CLUSTER_AUTOSCALER_EXTRA_ARGS'' '''' \<and>
    Some (cfg_WebhooksEnabled c) = env_parse env ''WEBHOOKS_ENABLED'' ParseBool True \<and>
    Some (cfg_WebhooksPort c) = env_parse env ''WEBHOOKS_PORT'' Atoi 8443 \<and>
    cfg_WebhooksCertDir c = env_or env ''WEBHOOKS_CERT_DIR'' ''/etc/cluster-autoscaler-operator/tls'' \<and>
    Some (cfg_MetricsPort c) = env_parse env ''METRICS_PORT'' Atoi 8080"
  using assms
  unfolding ConfigFromEnvironment_def Let_def res_bind_Inr_iff env_parsed_field env_string_field
  by (elim exE conjE, hypsubst, simp add: NewConfig_def default_defs)

theorem config_fields_witness:
  "\<exists>c. ConfigFromEnvironment (map_of [(''LEADER_ELECTION'', ''false''), (''METRICS_PORT'', Itoa 9000)]) = Inr c \<and>
     \<not> cfg_LeaderElection c \<and> cfg_MetricsPort c = 9000 \<and> cfg_WebhooksPort c = 8443"
proof -
  let ?env = "map_of [(''LEADER_ELECTION'', ''false''), (''METRICS_PORT'', Itoa 9000)]"
  have v: "ParseBool ''false'' = Inr False" by code_simp
  have p: "Atoi (Itoa 9000) = Inr 9000" by (rule Atoi_Itoa) (simp add: is_int64_def)
  then have "\<exists>c. ConfigFromEnvironment ?env = Inr c"
    by (simp add: ConfigFromEnvironment_def Let_def env_string_def env_parsed_def v)
  then obtain c where c: "ConfigFromEnvironment ?env = Inr c" ..
  from config_fields [OF c] have "Some (cfg_LeaderElection c) = Some False"
    "Some (cfg_MetricsPort c) = Some 9000" "Some (cfg_WebhooksPort c) = Some 8443"
    by (simp_all add: env_parse_def v p)
  with c show ?thesis by auto
qed

definition env_bad :: "(string \<Rightarrow> string option) \<Rightarrow> string \<Rightarrow> (string \<Rightarrow> go_error + 'a) \<Rightarrow> bool" where
  "env_bad env name parse \<longleftrightarrow>
     (case env name of None \<Rightarrow> False | Some v \<Rightarrow> (case parse v of Inl _ \<Rightarrow> True | Inr _ \<Rightarrow> False))"

lemma env_parsed_bad: "isl (env_parsed env name parse upd c) \<longleftrightarrow> env_bad env name parse"
  by (simp add: env_parsed_def env_bad_def split: option.split sum.split)

lemma isl_bind_bad:
  assumes "\<And>a. isl (f a) \<longleftrightarrow> B"
  shows "isl (res_bind (env_parsed env name parse upd c) f) \<longleftrightarrow> env_bad env name parse \<or> B"
  using env_parsed_bad [of env name parse upd c] assms
  by (cases "env_parsed env name parse upd c") auto

text \<open>
  The configuration fails exactly when one of the five parsed variables is set to a value
  that does not parse.
\<close>

lemma config_error:
  "isl (ConfigFromEnvironment env) \<longleftrightarrow>
   env_bad env ''LEADER_ELECTION'' ParseBool \<or> env_bad env ''CLUSTER_AUTOSCALER_VERBOSITY'' Atoi \<or>
   env_bad env ''WEBHOOKS_ENABLED'' ParseBool \<or> env_bad env ''WEBHOOKS_PORT'' Atoi \<or>
   env_bad env ''METRICS_PORT'' Atoi"
  unfolding ConfigFromEnvironment_def Let_def by (intro isl_bind_bad env_parsed_bad)

end
