(* ===== verification/Op_Operator.thy ===== *)
theory Op_Operator
  imports Op_Report Op_Config MA_Reconciler "HOL-Library.Multiset"
begin

text \<open>
  The assembly of the operator (\<open>pkg/operator/operator.go\<close>): the configurations it hands to its
  controllers and to the status reporter, the release version it looks feature gates up for,
  and the objects it declares as related.  The listing of MachineAutoscalers and Machines by the
  cached client, and the order in which \<open>range\<close> visits a map, are fields of \<open>op_env\<close>.
\<close>

section \<open>Configuring the parts\<close>

definition getReleaseVersion :: "(string \<Rightarrow> string option) \<Rightarrow> string" where
  "getReleaseVersion env =
     (let releaseVersion = (case env ''RELEASE_VERSION'' of None \<Rightarrow> [] | Some v \<Rightarrow> v)
      in if length releaseVersion = 0 then ''unknown'' else releaseVersion)"

definition ca_controller_config :: "FeatureGateAccess \<Rightarrow> Config \<Rightarrow> ca_config" where
  "ca_controller_config accessor cfg =
     \<lparr>cc_ReleaseVersion = cfg_ReleaseVersion cfg,
      cc_Name = cfg_ClusterAutoscalerName cfg,
      cc_Namespace = cfg_ClusterAutoscalerNamespace cfg,
      cc_Image = cfg_ClusterAutoscalerImage cfg,
      cc_Replicas = cfg_ClusterAutoscalerReplicas cfg,
      cc_CloudProvider = cfg_ClusterAutoscalerCloudProvider cfg,
      cc_Verbosity = cfg_ClusterAutoscalerVerbosity cfg,
      cc_ExtraArgs = cfg_ClusterAutoscalerExtraArgs cfg,
      cc_platformType = [],
      cc_FeatureGateAccessor = accessor,
      cc_WebhooksPort = cfg_WebhooksPort cfg\<rparr>"

definition ma_controller_config :: "Config \<Rightarrow> ma_config" where
  "ma_controller_config cfg =
     \<lparr>mc_Namespace = cfg_ClusterAutoscalerNamespace cfg,
      mc_SupportedTargetGVKs = DefaultSupportedTargetGVKs\<rparr>"

definition status_reporter_config :: "Config \<Rightarrow> StatusReporterConfig" where
  "status_reporter_config cfg =
     \<lparr>sc_ClusterAutoscalerName = cfg_ClusterAutoscalerName cfg,
      sc_ClusterAutoscalerNamespace = cfg_ClusterAutoscalerNamespace cfg,
      sc_ReleaseVersion = cfg_ReleaseVersion cfg,
      sc_RelatedObjects = []\<rparr>"

section \<open>Related objects\<close>

record 'w op_env =
  oe_list_mas :: "string \<Rightarrow> ('w, MachineAutoscaler list) act"
  oe_list_machines :: "string \<Rightarrow> ('w, ObjectMeta list) act"
  oe_range :: "string list \<Rightarrow> 'w \<Rightarrow> string list \<times> 'w"

definition cluster_role :: "string \<Rightarrow> string \<Rightarrow> RelatedObject" where
  "cluster_role resource name =
     \<lparr>ro_Group = ''rbac.authorization.k8s.io'', ro_Resource = resource, ro_Namespace = [], ro_Name = name\<rparr>"

definition static_objects :: "Config \<Rightarrow> RelatedObject list" where
  "static_objects cfg =
     [\<lparr>ro_Group = ''autoscaling.openshift.io'', ro_Resource = ''machineautoscalers'',
       ro_Namespace = cfg_WatchNamespace cfg, ro_Name = []\<rparr>,
      \<lparr>ro_Group = ''autoscaling.openshift.io'', ro_Resource = ''clusterautoscalers'',
       ro_Namespace = cfg_WatchNamespace cfg, ro_Name = []\<rparr>,
      cluster_role ''clusterroles'' ''cluster-autoscaler-operator'',
      cluster_role ''clusterroles'' ''cluster-autoscaler'',
      cluster_role ''clusterroles'' ''cluster-autoscaler-operator:cluster-reader'',
      cluster_role ''clusterrolebindings'' ''cluster-autoscaler-operator'',
      cluster_role ''clusterrolebindings'' ''cluster-autoscaler'']"

definition machine_object :: "string \<Rightarrow> string \<Rightarrow> string \<Rightarrow> RelatedObject" where
  "machine_object resource ns name =
     \<lparr>ro_Group = ''machine.openshift.io'', ro_Resource = resource, ro_Namespace = ns, ro_Name = name\<rparr>"

text \<open>The loop over the MachineAutoscalers; the Go map of booleans is a function that is false
  where nothing was set.\<close>

fun autoscaler_loop ::
    "string \<Rightarrow> MachineAutoscaler list \<Rightarrow> RelatedObject list \<times> (string \<Rightarrow> bool) \<Rightarrow>
     RelatedObject list \<times> (string \<Rightarrow> bool)" where
  "autoscaler_loop ns [] (objs, autoscaled) = (objs, autoscaled)"
| "autoscaler_loop ns (ma # mas) (objs, autoscaled) =
     (let ref = ma_ScaleTargetRef ma in
      if cv_Kind ref = ''MachineSet'' then
        autoscaler_loop ns mas
          (objs @ [machine_object ''machinesets'' ns (cv_Name ref)], autoscaled(cv_Name ref := True))
      else autoscaler_loop ns mas (objs, autoscaled))"

text \<open>The loop over the owners of one machine, which ends at the first match.\<close>

fun owner_loop :: "(string \<Rightarrow> bool) \<Rightarrow> ObjectMeta \<Rightarrow> OwnerReference list \<Rightarrow> RelatedObject list \<Rightarrow> RelatedObject list" where
  "owner_loop autoscaled machine [] objs = objs"
| "owner_loop autoscaled machine (r # rs) objs =
     (if owr_kind r = ''MachineSet'' \<and> autoscaled (owr_name r)
      then objs @ [machine_object ''machines'' (om_namespace machine) (om_name machine)]
      else owner_loop autoscaled machine rs objs)"

fun machine_loop :: "(string \<Rightarrow> bool) \<Rightarrow> ObjectMeta list \<Rightarrow> RelatedObject list \<Rightarrow> RelatedObject list" where
  "machine_loop autoscaled [] objs = objs"
| "machine_loop autoscaled (m # ms) objs =
     machine_loop autoscaled ms (owner_loop autoscaled m (om_ownerReferences m) objs)"

fun namespace_loop :: "string list \<Rightarrow> RelatedObject list \<Rightarrow> RelatedObject list" where
  "namespace_loop [] objs = objs"
| "namespace_loop (ns # nss) objs =
     namespace_loop nss (objs @ [\<lparr>ro_Group = [], ro_Resource = ''namespaces'', ro_Namespace = [], ro_Name = ns\<rparr>])"

text \<open>The keys of the map \<open>relatedNamespaces\<close>, in the order of their insertion.\<close>

definition relatedNamespaces :: "Config \<Rightarrow> string list" where
  "relatedNamespaces cfg =
     (let ks = [cfg_WatchNamespace cfg];
          ks = List.insert (cfg_LeaderElectionNamespace cfg) ks
      in List.insert (cfg_ClusterAutoscalerNamespace cfg) ks)"

definition RelatedObjects :: "'w op_env \<Rightarrow> Config \<Rightarrow> 'w \<Rightarrow> RelatedObject list \<times> 'w" where
  "RelatedObjects env cfg w =
     (let ns = cfg_WatchNamespace cfg;
          relatedObjects = static_objects cfg;
          (relatedObjects, w) =
            (case oe_list_mas env ns w of
               (Inl err, w) \<Rightarrow> (relatedObjects, w)
             | (Inr mas, w) \<Rightarrow>
                 (let (relatedObjects, autoscaled) = autoscaler_loop ns mas (relatedObjects, \<lambda>_. False)
                  in case oe_list_machines env ns w of
                       (Inl err, w) \<Rightarrow> (relatedObjects, w)
                     | (Inr machines, w) \<Rightarrow> (machine_loop autoscaled machines relatedObjects, w)));
          (namespaces, w) = oe_range env (relatedNamespaces cfg) w
      in (namespace_loop namespaces relatedObjects, w))"

text \<open>The reporter of an operator takes its related objects from it.\<close>

definition reporter_env :: "'w op_env \<Rightarrow> Config \<Rightarrow> 'w sr_env \<Rightarrow> 'w sr_env" where
  "reporter_env oenv cfg env = env\<lparr>se_related := Some (RelatedObjects oenv cfg)\<rparr>"

section \<open>The list as a whole\<close>

text \<open>What the two reads list, nothing where a read fails; machines count only when both succeed.\<close>

definition listed :: "go_error + 'a list \<Rightarrow> 'a list" where
  "listed r = (case r of Inl _ \<Rightarrow> [] | Inr l \<Rightarrow> l)"

definition scaled_sets :: "MachineAutoscaler list \<Rightarrow> string list" where
  "scaled_sets mas = map (\<lambda>ma. cv_Name (ma_ScaleTargetRef ma)) (filter (\<lambda>ma. cv_Kind (ma_ScaleTargetRef ma) = ''MachineSet'') mas)"

definition machine_owned_by :: "string set \<Rightarrow> ObjectMeta \<Rightarrow> bool" where
  "machine_owned_by names m \<longleftrightarrow> (\<exists>r \<in> set (om_ownerReferences m). owr_kind r = ''MachineSet'' \<and> owr_name r \<in> names)"

definition namespace_object :: "string \<Rightarrow> RelatedObject" where
  "namespace_object ns = \<lparr>ro_Group = [], ro_Resource = ''namespaces'', ro_Namespace = [], ro_Name = ns\<rparr>"

definition related_list :: "Config \<Rightarrow> MachineAutoscaler list \<Rightarrow> ObjectMeta list \<Rightarrow> string list \<Rightarrow> RelatedObject list" where
  "related_list cfg mas machines namespaces =
     static_objects cfg @ map (machine_object ''machinesets'' (cfg_WatchNamespace cfg)) (scaled_sets mas) @
     map (\<lambda>m. machine_object ''machines'' (om_namespace m) (om_name m))
       (filter (machine_owned_by (set (scaled_sets mas))) machines) @
     map namespace_object namespaces"

lemma autoscaler_loop_eq:
  "autoscaler_loop ns mas (objs, autoscaled) =
     (objs @ map (machine_object ''machinesets'' ns) (scaled_sets mas),
      \<lambda>n. autoscaled n \<or> n \<in> set (scaled_sets mas))"
  by (induction mas arbitrary: objs autoscaled) (auto simp: Let_def scaled_sets_def fun_eq_iff)

lemma owner_loop_eq:
  "owner_loop autoscaled m rs objs =
     objs @ (if \<exists>r \<in> set rs. owr_kind r = ''MachineSet'' \<and> autoscaled (owr_name r)
             then [machine_object ''machines'' (om_namespace m) (om_name m)] else [])"
  by (induction rs) auto

lemma machine_loop_eq:
  "machine_loop (\<lambda>n. n \<in> names) ms objs =
     objs @ map (\<lambda>m. machine_object ''machines'' (om_namespace m) (om_name m)) (filter (machine_owned_by names) ms)"
  by (induction ms arbitrary: objs) (simp_all add: owner_loop_eq machine_owned_by_def)

lemma namespace_loop_eq: "namespace_loop nss objs = objs @ map namespace_object nss"
  by (induction nss arbitrary: objs) (simp_all add: namespace_object_def)

lemma RelatedObjects_eq:
  assumes "oe_list_mas env (cfg_WatchNamespace cfg) w = (r, w1)"
    and "(if isl r then (Inr [], w1) else oe_list_machines env (cfg_WatchNamespace cfg) w1) = (s, w2)"
  shows "RelatedObjects env cfg w =
    (case oe_range env (relatedNamespaces cfg) w2 of
       (nss, w3) \<Rightarrow> (related_list cfg (listed r) (listed s) nss, w3))"
  using assms
  by (cases r; cases s)
    (auto simp: RelatedObjects_def Let_def listed_def related_list_def autoscaler_loop_eq machine_loop_eq
      namespace_loop_eq scaled_sets_def split: prod.split)

lemma set_relatedNamespaces:
  "set (relatedNamespaces cfg) =
     {cfg_WatchNamespace cfg, cfg_LeaderElectionNamespace cfg, cfg_ClusterAutoscalerNamespace cfg}"
  "distinct (relatedNamespaces cfg)"
  by (auto simp: relatedNamespaces_def)

text \<open>The order of what is listed changes the order of the list and nothing else.\<close>

lemma related_list_mset:
  fixes mas mas' :: "MachineAutoscaler list" and machines machines' :: "ObjectMeta list"
  assumes "mset mas = mset mas'" "mset machines = mset machines'" "mset nss = mset nss'"
  shows "mset (related_list cfg mas machines nss) = mset (related_list cfg mas' machines' nss')"
proof -
  have s: "mset (scaled_sets mas) = mset (scaled_sets mas')" 
    by (simp add: scaled_sets_def assms)
  then have "set (scaled_sets mas) = set (scaled_sets mas')" by (rule mset_eq_setD)
  then show ?thesis by (simp add: related_list_def s assms)
qed

lemma ensureClusterOperatorStatus_related:
  "ensureClusterOperatorStatus (st\<lparr>co_RelatedObjects := l\<rparr>) (st\<lparr>co_RelatedObjects := l'\<rparr>) =
     (l \<noteq> l', st\<lparr>co_RelatedObjects := l'\<rparr>)"
  by (auto simp: ensureClusterOperatorStatus_def Let_def)

end
