(* ===== verification/Op_Webhooks.thy ===== *)
theory Op_Webhooks
  imports Op_Status Op_Config
begin

text \<open>
  The webhook configuration (\<open>pkg/operator/webhookconfig.go\<close>) that points the API server at the
  operator's validators, and the updater that creates or overwrites it at startup.
\<close>

section \<open>The configuration\<close>

record ServiceReference =
  wr_Namespace :: string
  wr_Name :: string
  wr_Path :: string

text \<open>
  \<open>CABundle\<close> is the certificate bundle another operator injects; the empty string is none.
\<close>

record WebhookClientConfig =
  wc_Service :: ServiceReference
  wc_CABundle :: string

record RuleWithOperations =
  wr_Operations :: "string list"
  wr_APIGroups :: "string list"
  wr_APIVersions :: "string list"
  wr_Resources :: "string list"

text \<open>\<open>vw_rest\<close> are the fields the operator leaves unset and the API server defaults.\<close>

record ValidatingWebhook =
  vw_Name :: string
  vw_ClientConfig :: WebhookClientConfig
  vw_Rules :: "RuleWithOperations list"
  vw_FailurePolicy :: string
  vw_SideEffects :: string
  vw_AdmissionReviewVersions :: "string list"
  vw_rest :: json

type_synonym WebhookConfiguration = "(ValidatingWebhook list, unit, unit) kobject"

definition WebhookConfigurationName :: string where
  "WebhookConfigurationName = ''autoscaling.openshift.io''"

definition InjectCABundleAnnotationName :: string where
  "InjectCABundleAnnotationName = ''service.beta.openshift.io/inject-cabundle''"

definition validating_webhook :: "string \<Rightarrow> string \<Rightarrow> string \<Rightarrow> string \<Rightarrow> ValidatingWebhook" where
  "validating_webhook namespace resource version path =
     \<lparr>vw_Name = resource @ ''.autoscaling.openshift.io'',
      vw_ClientConfig =
        \<lparr>wc_Service =
           \<lparr>wr_Namespace = namespace, wr_Name = OperatorName @ ''-operator'', wr_Path = path\<rparr>,
         wc_CABundle = []\<rparr>,
      vw_Rules =
        [\<lparr>wr_Operations = [''CREATE'', ''UPDATE''], wr_APIGroups = [''autoscaling.openshift.io''],
          wr_APIVersions = [version], wr_Resources = [resource]\<rparr>],
      vw_FailurePolicy = ''Ignore'',
      vw_SideEffects = ''None'',
      vw_AdmissionReviewVersions = [''v1''],
      vw_rest = JNull\<rparr>"

definition ValidatingWebhooks :: "string \<Rightarrow> go_error + ValidatingWebhook list" where
  "ValidatingWebhooks namespace =
     Inr [validating_webhook namespace ''clusterautoscalers'' ''v1'' ''/validate-clusterautoscalers'',
          validating_webhook namespace ''machineautoscalers'' ''v1beta1'' ''/validate-machineautoscalers'']"

section \<open>The updater\<close>

text \<open>The configuration as it is created; an existing one keeps its own metadata.\<close>

definition new_webhook_configuration :: WebhookConfiguration where
  "new_webhook_configuration =
     \<lparr>ko_meta = empty_meta
        \<lparr>om_name := WebhookConfigurationName,
         om_labels := Some [(''k8s-app'', OperatorName @ ''-operator'')],
         om_annotations := Some [(InjectCABundleAnnotationName, ''true'')]\<rparr>,
      ko_spec = [], ko_rest = (), ko_status = ()\<rparr>"

definition set_webhooks :: "string \<Rightarrow> WebhookConfiguration \<Rightarrow> WebhookConfiguration" where
  "set_webhooks namespace vc =
     (case ValidatingWebhooks namespace of Inl err \<Rightarrow> vc | Inr hooks \<Rightarrow> vc\<lparr>ko_spec := hooks\<rparr>)"

text \<open>\<open>Start\<close> up to its block on the stop channel.\<close>

definition Start :: "('w, NamespacedName, WebhookConfiguration) client \<Rightarrow> string \<Rightarrow> ('w, unit) act" where
  "Start C namespace =
     act_bind (CreateOrUpdate C ko_key (=) (set_webhooks namespace) new_webhook_configuration)
       (\<lambda>op. act_return ())"

section \<open>The webhook server\<close>

text \<open>The paths the server answers (\<open>AddWebhooks\<close> of \<open>operator.go\<close>), each with the resource its
  handler validates.\<close>

definition registered_handlers :: "(string \<times> string) list" where
  "registered_handlers =
     [(''/validate-clusterautoscalers'', ''clusterautoscalers''),
      (''/validate-machineautoscalers'', ''machineautoscalers'')]"

text \<open>What the configuration of a namespace lists.\<close>

definition webhooks :: "string \<Rightarrow> ValidatingWebhook list" where
  "webhooks namespace =
     [validating_webhook namespace ''clusterautoscalers'' ''v1'' ''/validate-clusterautoscalers'',
      validating_webhook namespace ''machineautoscalers'' ''v1beta1'' ''/validate-machineautoscalers'']"

lemma set_webhooks_spec: "ko_spec (set_webhooks ns vc) = webhooks ns"
  by (simp add: set_webhooks_def ValidatingWebhooks_def webhooks_def)

text \<open>Each webhook is called for one resource and at the path of the handler that validates it.\<close>

lemma webhooks_routed:
  assumes "h \<in> set (webhooks ns)"
  shows "\<exists>r. map wr_Resources (vw_Rules h) = [[r]] \<and> (wr_Path (wc_Service (vw_ClientConfig h)), r) \<in> set registered_handlers \<and>
    wr_Namespace (wc_Service (vw_ClientConfig h)) = ns \<and> wc_CABundle (vw_ClientConfig h) = []"
  using assms by (auto simp: webhooks_def validating_webhook_def registered_handlers_def)

lemma set_webhooks_frame [simp]:
  "ko_meta (set_webhooks ns vc) = ko_meta vc" "ko_key (set_webhooks ns vc) = ko_key vc"
  "ko_gone (set_webhooks ns vc) = ko_gone vc" "ko_deletion (set_webhooks ns vc) = ko_deletion vc"
  by (simp_all add: set_webhooks_def ValidatingWebhooks_def ko_key_def ko_gone_def ko_deletion_def)

section \<open>The contract of the updater\<close>

locale webhook_cluster =
  object_store C ko_key vcs ko_written ko_status "\<lambda>vc. ko_deletion vc \<noteq> None" ko_gone "\<lambda>_. True" good
  for C :: "('w, NamespacedName, WebhookConfiguration) client"
    and vcs :: "'w \<Rightarrow> NamespacedName \<Rightarrow> WebhookConfiguration option" and good :: "'w \<Rightarrow> bool"
begin

lemma wp_Start:
  assumes w: "good w"
    and Q: "\<And>w' vc. \<lbrakk>good w'; vcs w' = (vcs w)(ko_key new_webhook_configuration \<mapsto> vc);
      ko_written vc = ko_written (set_webhooks ns
        (case vcs w (ko_key new_webhook_configuration) of None \<Rightarrow> new_webhook_configuration | Some old \<Rightarrow> old))\<rbrakk>
      \<Longrightarrow> Q () w'"
    and E: "\<And>e w' x. \<lbrakk>good w'; vcs w' = (vcs w)(ko_key new_webhook_configuration := x); \<not> is_panic e\<rbrakk> \<Longrightarrow> E e w'"
  shows "wp (Start C ns) Q E w"
  unfolding Start_def wp_simps
proof (rule wp_CreateOrUpdate [OF w], goal_cases)
  case (4 r w' vc base)
  then show ?case by (intro Q [of w' vc]) auto
next
  case (5 e w' x) then show ?case by (rule E)
qed (simp_all add: new_webhook_configuration_def ko_deletion_def empty_meta_def)

end

end
