(* ===== verification/Op_Startup.thy ===== *)
theory Op_Startup
  imports Op_Config CAO_Util
begin

text \<open>
  What the operator derives from the cluster when it starts: the timing of its leader election
  (\<open>pkg/util/leaderelection.go\<close>) and its TLS profile (\<open>pkg/util/tlsprofile.go\<close>), with the helpers
  of \<open>library-go\<close> and \<open>controller-runtime-common\<close> they call, and the watcher that stops the
  operator when the profile changes.  The answers of the API server are arguments.
\<close>

section \<open>Leader election\<close>

text \<open>Durations are nanoseconds.\<close>

definition Second :: int where
  "Second = 1000000000"

record LeaderElection =
  le_Disable :: bool
  le_Namespace :: string
  le_Name :: string
  le_LeaseDuration :: int
  le_RenewDeadline :: int
  le_RetryPeriod :: int

text \<open>\<open>sa_namespace\<close> is the trimmed contents of the service account's namespace file, if it can be read.\<close>

definition LeaderElectionDefaulting ::
    "string option \<Rightarrow> LeaderElection \<Rightarrow> string \<Rightarrow> string \<Rightarrow> LeaderElection" where
  "LeaderElectionDefaulting sa_namespace config defaultNamespace defaultName =
     (let ret = config;
          ret = (if le_LeaseDuration ret = 0 then ret\<lparr>le_LeaseDuration := 137 * Second\<rparr> else ret);
          ret = (if le_RenewDeadline ret = 0 then ret\<lparr>le_RenewDeadline := 107 * Second\<rparr> else ret);
          ret = (if le_RetryPeriod ret = 0 then ret\<lparr>le_RetryPeriod := 26 * Second\<rparr> else ret);
          ret = (if length (le_Namespace ret) = 0 then
                   (if length defaultNamespace > 0 then ret\<lparr>le_Namespace := defaultNamespace\<rparr>
                    else case sa_namespace of
                           None \<Rightarrow> ret
                         | Some ns \<Rightarrow> if length ns > 0 then ret\<lparr>le_Namespace := ns\<rparr> else ret)
                 else ret)
      in if length (le_Name ret) = 0 then ret\<lparr>le_Name := defaultName\<rparr> else ret)"

definition LeaderElectionSNOConfig :: "LeaderElection \<Rightarrow> LeaderElection" where
  "LeaderElectionSNOConfig config =
     config\<lparr>le_LeaseDuration := 270 * Second, le_RenewDeadline := 240 * Second, le_RetryPeriod := 60 * Second\<rparr>"

text \<open>\<open>infra\<close> is the topology of the control plane, or the error of reading it.\<close>

definition GetLeaderElectionDefaults ::
    "string option \<Rightarrow> go_error + string \<Rightarrow> LeaderElection \<Rightarrow> LeaderElection" where
  "GetLeaderElectionDefaults sa_namespace infra leaderElection =
     (let userExplicitlySetLeaderElectionValues =
            le_LeaseDuration leaderElection \<noteq> 0 \<or> le_RenewDeadline leaderElection \<noteq> 0 \<or>
            le_RetryPeriod leaderElection \<noteq> 0;
          defaultLeaderElection = LeaderElectionDefaulting sa_namespace leaderElection [] []
      in if \<not> userExplicitlySetLeaderElectionValues \<and> \<not> le_Disable leaderElection then
           (case infra of
              Inr topology \<Rightarrow>
                if topology = ''SingleReplica'' then LeaderElectionSNOConfig defaultLeaderElection
                else defaultLeaderElection
            | Inl err \<Rightarrow> defaultLeaderElection)
         else defaultLeaderElection)"

text \<open>What \<open>New\<close> asks for; it takes the three durations of the answer.\<close>

definition operator_leader_election :: "Config \<Rightarrow> LeaderElection" where
  "operator_leader_election cfg =
     \<lparr>le_Disable = \<not> cfg_LeaderElection cfg, le_Namespace = cfg_LeaderElectionNamespace cfg,
      le_Name = cfg_LeaderElectionID cfg, le_LeaseDuration = 0, le_RenewDeadline = 0, le_RetryPeriod = 0\<rparr>"

text \<open>The timing of the operator does not depend on the lock's namespace and name.\<close>

lemma Defaulting_zero:
  assumes "le_LeaseDuration c = 0" "le_RenewDeadline c = 0" "le_RetryPeriod c = 0"
  obtains ns n where "LeaderElectionDefaulting sa c dn dm =
    \<lparr>le_Disable = le_Disable c, le_Namespace = ns, le_Name = n,
     le_LeaseDuration = 137 * Second, le_RenewDeadline = 107 * Second, le_RetryPeriod = 26 * Second\<rparr>"
proof -
  let ?ret = "\<lambda>ns n. \<lparr>le_Disable = le_Disable c, le_Namespace = ns, le_Name = n,
     le_LeaseDuration = 137 * Second, le_RenewDeadline = 107 * Second, le_RetryPeriod = 26 * Second\<rparr>"
  have ret: "(let ret = c;
          ret = (if le_LeaseDuration ret = 0 then ret\<lparr>le_LeaseDuration := 137 * Second\<rparr> else ret);
          ret = (if le_RenewDeadline ret = 0 then ret\<lparr>le_RenewDeadline := 107 * Second\<rparr> else ret)
      in if le_RetryPeriod ret = 0 then ret\<lparr>le_RetryPeriod := 26 * Second\<rparr> else ret) = ?ret (le_Namespace c) (le_Name c)"
    using assms by simp
  have "\<exists>ns n. LeaderElectionDefaulting sa c dn dm = ?ret ns n"
    unfolding LeaderElectionDefaulting_def ret [unfolded Let_def] Let_def
    by (cases sa) auto
  then show thesis using that by blast
qed

text \<open>
  Of the operator there are two timings only.  Both leave 30 seconds for the skew of clocks and
  four tries of a renewal before its deadline.
\<close>

lemma operator_timing:
  assumes "le = GetLeaderElectionDefaults sa infra (operator_leader_election cfg)"
  shows "(le_LeaseDuration le, le_RenewDeadline le, le_RetryPeriod le) =
      (if cfg_LeaderElection cfg \<and> infra = Inr ''SingleReplica''
       then (270 * Second, 240 * Second, 60 * Second) else (137 * Second, 107 * Second, 26 * Second))"
    and "le_LeaseDuration le - le_RenewDeadline le = 30 * Second" "le_RenewDeadline le div le_RetryPeriod le = 4"
proof -
  let ?c = "operator_leader_election cfg"
  obtain ns n where d: "LeaderElectionDefaulting sa ?c [] [] =
    \<lparr>le_Disable = le_Disable ?c, le_Namespace = ns, le_Name = n,
     le_LeaseDuration = 137 * Second, le_RenewDeadline = 107 * Second, le_RetryPeriod = 26 * Second\<rparr>"
    by (rule Defaulting_zero [of ?c sa "[]" "[]"]) (simp_all add: operator_leader_election_def)
  have le: "le = (if cfg_LeaderElection cfg \<and> infra = Inr ''SingleReplica''
      then LeaderElectionSNOConfig (LeaderElectionDefaulting sa ?c [] []) else LeaderElectionDefaulting sa ?c [] [])"
    unfolding assms GetLeaderElectionDefaults_def
    by (cases infra) (simp_all add: operator_leader_election_def Let_def)
  show "(le_LeaseDuration le, le_RenewDeadline le, le_RetryPeriod le) =
      (if cfg_LeaderElection cfg \<and> infra = Inr ''SingleReplica''
       then (270 * Second, 240 * Second, 60 * Second) else (137 * Second, 107 * Second, 26 * Second))"
    "le_LeaseDuration le - le_RenewDeadline le = 30 * Second" "le_RenewDeadline le div le_RetryPeriod le = 4"
    unfolding le d by (simp_all add: LeaderElectionSNOConfig_def Second_def)
qed

section \<open>TLS profiles\<close>

text \<open>A nil slice is not an empty one: the watcher compares profiles with \<open>reflect.DeepEqual\<close>.\<close>

record TLSProfileSpec =
  ts_Ciphers :: "string list option"
  ts_Groups :: "string list option"
  ts_MinTLSVersion :: string

record TLSSecurityProfile =
  tp_Type :: string
  tp_Custom :: "TLSProfileSpec option"

record APIServer =
  as_TLSSecurityProfile :: "TLSSecurityProfile option"
  as_TLSAdherence :: string

definition tls_groups :: "string list option" where
  "tls_groups = Some [''X25519MLKEM768'', ''X25519'', ''secp256r1'', ''secp384r1'']"

definition modern_ciphers :: "string list" where
  "modern_ciphers = [''TLS_AES_128_GCM_SHA256'', ''TLS_AES_256_GCM_SHA384'', ''TLS_CHACHA20_POLY1305_SHA256'']"

definition intermediate_ciphers :: "string list" where
  "intermediate_ciphers =
     modern_ciphers @
     [''ECDHE-ECDSA-AES128-GCM-SHA256'', ''ECDHE-RSA-AES128-GCM-SHA256'', ''ECDHE-ECDSA-AES256-GCM-SHA384'',
      ''ECDHE-RSA-AES256-GCM-SHA384'', ''ECDHE-ECDSA-CHACHA20-POLY1305'', ''ECDHE-RSA-CHACHA20-POLY1305'']"

definition old_ciphers :: "string list" where
  "old_ciphers =
     intermediate_ciphers @
     [''ECDHE-ECDSA-AES128-SHA256'', ''ECDHE-RSA-AES128-SHA256'', ''ECDHE-ECDSA-AES128-SHA'',
      ''ECDHE-RSA-AES128-SHA'', ''ECDHE-ECDSA-AES256-SHA384'', ''ECDHE-RSA-AES256-SHA384'',
      ''ECDHE-ECDSA-AES256-SHA'', ''ECDHE-RSA-AES256-SHA'', ''AES128-GCM-SHA256'', ''AES256-GCM-SHA384'',
      ''AES128-SHA256'', ''AES256-SHA256'', ''AES128-SHA'', ''AES256-SHA'', ''DES-CBC3-SHA'']"

definition intermediate_profile :: TLSProfileSpec where
  "intermediate_profile =
     \<lparr>ts_Ciphers = Some intermediate_ciphers, ts_Groups = tls_groups, ts_MinTLSVersion = ''VersionTLS12''\<rparr>"

definition TLSProfiles :: "string \<rightharpoonup> TLSProfileSpec" where
  "TLSProfiles =
     [''Old'' \<mapsto> \<lparr>ts_Ciphers = Some old_ciphers, ts_Groups = tls_groups, ts_MinTLSVersion = ''VersionTLS10''\<rparr>,
      ''Intermediate'' \<mapsto> intermediate_profile,
      ''Modern'' \<mapsto> \<lparr>ts_Ciphers = Some modern_ciphers, ts_Groups = tls_groups, ts_MinTLSVersion = ''VersionTLS13''\<rparr>]"

definition ErrCustomProfileNil :: go_error where
  "ErrCustomProfileNil = errorf ''custom TLS profile specified but Custom field is nil''"

definition GetTLSProfileSpec :: "TLSSecurityProfile option \<Rightarrow> go_error + TLSProfileSpec" where
  "GetTLSProfileSpec profile =
     (let defaultProfile = intermediate_profile in
      case profile of
        None \<Rightarrow> Inr defaultProfile
      | Some p \<Rightarrow>
          if tp_Type p = [] then Inr defaultProfile
          else if tp_Type p \<noteq> ''Custom'' then
            (case TLSProfiles (tp_Type p) of Some tlsConfig \<Rightarrow> Inr tlsConfig | None \<Rightarrow> Inr defaultProfile)
          else (case tp_Custom p of None \<Rightarrow> Inl ErrCustomProfileNil | Some spec \<Rightarrow> Inr spec))"

definition ShouldHonorClusterTLSProfile :: "string \<Rightarrow> bool" where
  "ShouldHonorClusterTLSProfile tlsAdherence \<longleftrightarrow>
     (if tlsAdherence = [] \<or> tlsAdherence = ''LegacyAdheringComponentsOnly'' then False else True)"

text \<open>
  \<open>tls_config\<close> is \<open>NewTLSConfigFromProfile\<close>, whose configuration function is opaque here and whose
  second result is only logged.  The arguments \<open>configClient\<close> and \<open>get\<close> are the results of making the
  client and of reading the APIServer; what a failure returns beside its error is not used.
\<close>

definition FetchClusterTLSProfile ::
    "(TLSProfileSpec \<Rightarrow> 'opt) \<Rightarrow> go_error + unit \<Rightarrow> go_error + APIServer \<Rightarrow> go_error + TLSProfileSpec \<times> 'opt list \<times> bool" where
  "FetchClusterTLSProfile tls_config configClient get =
     (case configClient of
        Inl err \<Rightarrow> Inl (GoWrap ''Unable to create TLS profile. Failed to create config client: %w'' err)
      | Inr _ \<Rightarrow>
     (case get of
        Inl err \<Rightarrow> Inl (GoWrap ''Unable to create TLS profile. Failed to get APIServer \"cluster\": %w'' err)
      | Inr apiServer \<Rightarrow>
          (let shouldHonorTLSProfile = ShouldHonorClusterTLSProfile (as_TLSAdherence apiServer);
               tlsProfile = as_TLSSecurityProfile apiServer;
               tlsProfile = (if \<not> shouldHonorTLSProfile then None else tlsProfile)
           in case GetTLSProfileSpec tlsProfile of
                Inl err \<Rightarrow> Inl (GoWrap ''Unable to create TLS profile. Failed to resolve TLS profile spec: %w'' err)
              | Inr profileSpec \<Rightarrow> Inr (profileSpec, [tls_config profileSpec], shouldHonorTLSProfile))))"

section \<open>The watcher\<close>

record SecurityProfileWatcher =
  sp_InitialTLSProfileSpec :: TLSProfileSpec
  sp_InitialTLSAdherencePolicy :: string

text \<open>The two callbacks, which say whether they cancel; the watcher starts without a policy.\<close>

definition OnProfileChange :: "bool \<Rightarrow> bool" where
  "OnProfileChange shouldHonorTLSProfile = (if shouldHonorTLSProfile then True else False)"

definition OnAdherencePolicyChange :: "bool \<Rightarrow> string \<Rightarrow> bool" where
  "OnAdherencePolicyChange shouldHonorTLSProfile newPolicy =
     (if shouldHonorTLSProfile \<noteq> ShouldHonorClusterTLSProfile newPolicy then True else False)"

definition SetupTLSProfileWatcher :: "TLSProfileSpec \<Rightarrow> SecurityProfileWatcher" where
  "SetupTLSProfileWatcher initialProfile =
     \<lparr>sp_InitialTLSProfileSpec = initialProfile, sp_InitialTLSAdherencePolicy = []\<rparr>"

text \<open>One reconciliation, with the watcher's state and whether the operator has been cancelled.\<close>

definition tls_Reconcile ::
    "bool \<Rightarrow> go_error + APIServer \<Rightarrow> SecurityProfileWatcher \<times> bool \<Rightarrow>
     (go_error + unit) \<times> SecurityProfileWatcher \<times> bool" where
  "tls_Reconcile honor get s =
     (let (r, cancelled) = s in
      case get of
        Inl err \<Rightarrow>
          if IsNotFound err then (Inr (), r, cancelled)
          else (Inl (GoWrap ''failed to get APIServer /cluster: %w'' err), r, cancelled)
      | Inr apiServer \<Rightarrow>
          (case GetTLSProfileSpec (as_TLSSecurityProfile apiServer) of
             Inl err \<Rightarrow> (Inl (GoWrap ''failed to get TLS profile from APIServer /cluster: %w'' err), r, cancelled)
           | Inr current \<Rightarrow>
               (let (r, cancelled) =
                      (if sp_InitialTLSProfileSpec r \<noteq> current
                       then (r\<lparr>sp_InitialTLSProfileSpec := current\<rparr>, cancelled \<or> OnProfileChange honor)
                       else (r, cancelled));
                    policy = as_TLSAdherence apiServer;
                    (r, cancelled) =
                      (if sp_InitialTLSAdherencePolicy r \<noteq> policy
                       then (r\<lparr>sp_InitialTLSAdherencePolicy := policy\<rparr>,
                             cancelled \<or> OnAdherencePolicyChange honor policy)
                       else (r, cancelled))
                in (Inr (), r, cancelled))))"

fun tls_watch :: "bool \<Rightarrow> (go_error + APIServer) list \<Rightarrow> SecurityProfileWatcher \<times> bool \<Rightarrow> SecurityProfileWatcher \<times> bool" where
  "tls_watch honor [] s = s"
| "tls_watch honor (get # gets) s = tls_watch honor gets (snd (tls_Reconcile honor get s))"

text \<open>What the watcher sees of its reads: the profile and the policy of every APIServer it can make sense of.\<close>

fun tls_seen :: "(go_error + APIServer) list \<Rightarrow> (TLSProfileSpec \<times> string) list" where
  "tls_seen [] = []"
| "tls_seen (Inl err # gets) = tls_seen gets"
| "tls_seen (Inr a # gets) =
     (case GetTLSProfileSpec (as_TLSSecurityProfile a) of
        Inl err \<Rightarrow> tls_seen gets
      | Inr spec \<Rightarrow> (spec, as_TLSAdherence a) # tls_seen gets)"

text \<open>
  Where the operator is to be restarted: a profile it honors has changed, or the policy no longer says
  what it said.  Policies that are empty from the start are not compared.
\<close>

definition tls_outdated :: "TLSProfileSpec \<Rightarrow> bool \<Rightarrow> (TLSProfileSpec \<times> string) list \<Rightarrow> bool" where
  "tls_outdated spec honor seen \<longleftrightarrow>
     (honor \<and> (\<exists>x \<in> set seen. fst x \<noteq> spec)) \<or>
     (\<exists>x \<in> set (dropWhile (\<lambda>x. snd x = []) seen). ShouldHonorClusterTLSProfile (snd x) \<noteq> honor)"

text \<open>The state of the watcher after what it has seen: the last profile and policy.\<close>

definition tls_state :: "TLSProfileSpec \<Rightarrow> bool \<Rightarrow> (TLSProfileSpec \<times> string) list \<Rightarrow> SecurityProfileWatcher \<times> bool" where
  "tls_state spec honor seen =
     (\<lparr>sp_InitialTLSProfileSpec = last (spec # map fst seen), sp_InitialTLSAdherencePolicy = last ([] # map snd seen)\<rparr>,
      tls_outdated spec honor seen)"

lemma dropWhile_snoc:
  "dropWhile P (xs @ [x]) = (if list_all P xs then (if P x then [] else [x]) else dropWhile P xs @ [x])"
  by (induction xs) auto

lemma last_map_Nil: "list_all (\<lambda>x. snd x = []) seen \<Longrightarrow> last ([] # map snd seen) = []"
  by (induction seen rule: rev_induct) simp_all

lemma tls_outdated_snoc:
  "tls_outdated spec honor (seen @ [x]) \<longleftrightarrow>
     tls_outdated spec honor seen \<or> (honor \<and> fst x \<noteq> last (spec # map fst seen)) \<or>
     (snd x \<noteq> last ([] # map snd seen) \<and> ShouldHonorClusterTLSProfile (snd x) \<noteq> honor)"
proof -
  let ?empty = "\<lambda>x. snd x = ([] :: string)" and ?bad = "\<lambda>x. ShouldHonorClusterTLSProfile (snd x) \<noteq> honor"
  have 1: "(\<exists>y \<in> set (seen @ [x]). fst y \<noteq> spec) \<longleftrightarrow>
      (\<exists>y \<in> set seen. fst y \<noteq> spec) \<or> fst x \<noteq> last (spec # map fst seen)"
    by (cases seen rule: rev_cases) auto
  have 2: "(\<exists>y \<in> set (dropWhile ?empty (seen @ [x])). ?bad y) \<longleftrightarrow>
      (\<exists>y \<in> set (dropWhile ?empty seen). ?bad y) \<or> (snd x \<noteq> last ([] # map snd seen) \<and> ?bad x)"
  proof (cases "list_all ?empty seen")
    case True
    then have d: "dropWhile ?empty seen = []" by (simp add: list_all_iff)
    show ?thesis unfolding dropWhile_snoc d last_map_Nil [OF True] using True by simp
  next
    case False
    then obtain ys y where seen: "seen = ys @ [y]" by (cases seen rule: rev_cases) auto
    have y: "y \<in> set (dropWhile ?empty seen)" using False unfolding seen dropWhile_snoc by auto
    have d: "dropWhile ?empty (seen @ [x]) = dropWhile ?empty seen @ [x]"
      using False by (simp add: dropWhile_snoc)
    have l: "last ([] # map snd seen) = snd y" by (simp add: seen)
    show ?thesis unfolding d l using y by (cases "snd x = snd y") auto
  qed
  show ?thesis unfolding tls_outdated_def 1 2 by blast
qed

lemma tls_Reconcile_seen:
  "snd (tls_Reconcile honor get (tls_state spec honor seen)) = tls_state spec honor (seen @ tls_seen [get])"
proof (cases get)
  case (Inr a)
  show ?thesis
  proof (cases "GetTLSProfileSpec (as_TLSSecurityProfile a)")
    case (Inr current)
    then show ?thesis using \<open>get = Inr a\<close>
      by (simp add: tls_Reconcile_def tls_state_def tls_outdated_snoc OnProfileChange_def
          OnAdherencePolicyChange_def Let_def)
  qed (simp add: Inr tls_Reconcile_def tls_state_def)
qed (simp add: tls_Reconcile_def tls_state_def)

lemma tls_seen_append: "tls_seen (xs @ ys) = tls_seen xs @ tls_seen ys"
  by (induction xs rule: tls_seen.induct) (auto split: sum.split)

lemma tls_watch_state:
  "tls_watch honor gets (tls_state spec honor seen) = tls_state spec honor (seen @ tls_seen gets)"
proof (induction gets arbitrary: seen)
  case (Cons get gets)
  then show ?case using tls_seen_append [of "[get]" gets] by (simp add: tls_Reconcile_seen)
qed simp

lemma tls_watch_outdated:
  "snd (tls_watch honor gets (SetupTLSProfileWatcher spec, False)) \<longleftrightarrow> tls_outdated spec honor (tls_seen gets)"
proof -
  have "(SetupTLSProfileWatcher spec, False) = tls_state spec honor []"
    by (simp add: SetupTLSProfileWatcher_def tls_state_def tls_outdated_def)
  then show ?thesis by (simp add: tls_watch_state) (simp add: tls_state_def)
qed

end
