(* ===== verification/Op_Properties.thy ===== *)
theory Op_Properties
  imports Op_Operator Op_Webhooks Op_Startup CA_Properties
begin

text \<open>
  The properties of the assembled operator: the objects it declares as related, the two controllers'
  agreement with the status reporter, the webhook configuration and the restart on a TLS change.
\<close>

section \<open>Related objects\<close>

text \<open>
  C28: the operator declares as related exactly its static objects, the machine sets that a
  MachineAutoscaler of its namespace targets, the machines one of them owns, and its three
  namespaces; where a list cannot be read, what depends on it is missing and the rest is there.
\<close>

theorem related_objects:
  assumes "oe_list_mas env (cfg_WatchNamespace cfg) w = (r, w1)"
    and "oe_list_machines env (cfg_WatchNamespace cfg) w1 = (s, w2)"
    and range: "\<forall>ks v. set (fst (oe_range env ks v)) = set ks"
  shows "set (fst (RelatedObjects env cfg w)) =
    set (static_objects cfg) \<union>
    {machine_object ''machinesets'' (cfg_WatchNamespace cfg) (cv_Name (ma_ScaleTargetRef ma)) |ma.
       ma \<in> set (listed r) \<and> cv_Kind (ma_ScaleTargetRef ma) = ''MachineSet''} \<union>
    {machine_object ''machines'' (om_namespace m) (om_name m) |m.
       m \<in> set (listed s) \<and>
       (\<exists>ma \<in> set (listed r). \<exists>o' \<in> set (om_ownerReferences m).
          cv_Kind (ma_ScaleTargetRef ma) = ''MachineSet'' \<and> owr_kind o' = ''MachineSet'' \<and>
          owr_name o' = cv_Name (ma_ScaleTargetRef ma))} \<union>
    namespace_object ` {cfg_WatchNamespace cfg, cfg_LeaderElectionNamespace cfg, cfg_ClusterAutoscalerNamespace cfg}"
proof -
  define s' where "s' = (if isl r then Inr [] else s)"
  define w2' where "w2' = (if isl r then w1 else w2)"
  have "(if isl r then (Inr [], w1) else oe_list_machines env (cfg_WatchNamespace cfg) w1) = (s', w2')"
    using assms(2) by (simp add: s'_def w2'_def)
  from RelatedObjects_eq [OF assms(1) this] obtain nss where
    l: "fst (RelatedObjects env cfg w) = related_list cfg (listed r) (listed s') nss"
    and n: "set nss = set (relatedNamespaces cfg)"
    using range by (cases "oe_range env (relatedNamespaces cfg) w2'") (metis case_prod_conv fst_conv)
  have m: "set (filter (machine_owned_by (set (scaled_sets (listed r)))) (listed s')) =
      {m \<in> set (listed s). machine_owned_by (set (scaled_sets (listed r))) m}"
    by (cases r) (auto simp: s'_def listed_def scaled_sets_def machine_owned_by_def)
  show ?thesis
    unfolding l related_list_def set_append set_map n m set_relatedNamespaces
    by (auto simp: scaled_sets_def machine_owned_by_def image_iff)
qed

definition demo_op_env :: "unit op_env" where
  "demo_op_env =
     \<lparr>oe_list_mas = \<lambda>ns w. (Inr [\<lparr>ma_meta = empty_meta, ma_MinReplicas = 1, ma_MaxReplicas = 3,
        ma_ScaleTargetRef = \<lparr>cv_APIVersion = ''machine.openshift.io/v1beta1'', cv_Kind = ''MachineSet'', cv_Name = ''a''\<rparr>,
        ma_LastTargetRef = None\<rparr>], w),
      oe_list_machines = \<lambda>ns w. (Inr
        [empty_meta\<lparr>om_name := ''m'', om_namespace := ns,
           om_ownerReferences := [\<lparr>owr_apiVersion = ''machine.openshift.io/v1beta1'', owr_kind = ''MachineSet'',
             owr_name = ''a'', owr_uid = '''', owr_controller = Some True, owr_blockOwnerDeletion = None\<rparr>]\<rparr>], w),
      oe_range = \<lambda>ks w. (rev ks, w)\<rparr>"

theorem related_objects_witness:
  "machine_object ''machines'' ''openshift-machine-api'' ''m'' \<in> set (fst (RelatedObjects demo_op_env NewConfig ())) \<and>
   namespace_object ''openshift-machine-api'' \<in> set (fst (RelatedObjects demo_op_env NewConfig ()))"
proof -
  note r = surjective_pairing [of "oe_list_mas demo_op_env (cfg_WatchNamespace NewConfig) ()"]
  note s = surjective_pairing [of "oe_list_machines demo_op_env (cfg_WatchNamespace NewConfig)
    (snd (oe_list_mas demo_op_env (cfg_WatchNamespace NewConfig) ()))"]
  have range: "\<forall>ks v. set (fst (oe_range demo_op_env ks v)) = set ks" by (simp add: demo_op_env_def)
  show ?thesis
    unfolding related_objects [OF r s range]
    by (simp add: demo_op_env_def listed_def NewConfig_def default_defs empty_meta_def)
qed

section \<open>The controllers and the status reporter\<close>

text \<open>
  C18: the parts of one operator agree.  Where a run of the ClusterAutoscaler controller returns no
  error, under the configuration the operator gave it, the deployment it left is the one the
  status reporter of that operator looks for, and the reporter finds it level exactly when its
  rollout is complete.
\<close>

theorem reconciled_is_reported:
  assumes cl: "ca_cluster env deps svcs mons ruls pols good cas" and w: "good w"
    and cfg: "ce_config env w = (ca_controller_config accessor cfg)\<lparr>cc_platformType := t\<rparr>"
    and ca: "cas w (co_name_key (cfg_ClusterAutoscalerName cfg)) = Some ca" "ca_GetDeletionTimestamp ca = None"
    and name: "NamePredicate (ca_controller_config accessor cfg) (ca_meta ca)"
    and run: "ca_Reconcile env n (co_name_key (cfg_ClusterAutoscalerName cfg)) w = (Inr (), w')"
  shows "cas w' (co_name_key (sc_ClusterAutoscalerName (status_reporter_config cfg))) = Some ca \<and>
    (\<exists>d. deps w' (deployment_key (status_reporter_config cfg)) = Some d \<and>
      (deployment_level (sc_ReleaseVersion (status_reporter_config cfg)) d \<longleftrightarrow>
       DeploymentUpdated (om_generation (ko_meta d)) (ko_status d)))"
proof -
  have "wp (ca_Reconcile env n (co_name_key (cfg_ClusterAutoscalerName cfg)))
     (\<lambda>_ w'. ca_cluster.framed env deps svcs mons ruls pols good cas ca w w' \<and>
        ca_converged (ce_goarch env) (ce_config env w') ca (deps w') (svcs w') (mons w') (ruls w') (pols w')) (\<lambda>_ _. True) w"
    by (rule ca_cluster.wp_ca_Reconcile [OF cl w]) (use ca in auto)
  from wpD(1) [OF this run] have fr: "ca_cluster.framed env deps svcs mons ruls pols good cas ca w w'"
    and conv: "ca_converged (ce_goarch env) (ce_config env w') ca (deps w') (svcs w') (mons w') (ruls w') (pols w')"
    by blast+
  from fr have "cas w' = cas w" unfolding ca_cluster.framed_def [OF cl] by blast
  from fr obtain t' where "ce_config env w' = (ce_config env w)\<lparr>cc_platformType := t'\<rparr>"
    unfolding ca_cluster.framed_def [OF cl] by blast
  then have c: "ce_config env w' = (ca_controller_config accessor cfg)\<lparr>cc_platformType := t'\<rparr>"
    by (simp add: cfg)
  from conv obtain d where d: "deps w' (AutoscalerName (ce_config env w') ca) = Some d"
    "deployed (ce_goarch env) (ce_config env w') ca d"
    unfolding ca_converged_def Let_def by blast
  have key: "AutoscalerName (ce_config env w') ca = deployment_key (status_reporter_config cfg)"
    using name by (simp add: c AutoscalerName_def deployment_key_def status_reporter_config_def ca_controller_config_def
        NamePredicate_def ca_Name_def OperatorName_def split: if_splits)
  have "cc_ReleaseVersion (ce_config env w') = sc_ReleaseVersion (status_reporter_config cfg)"
    by (simp add: c ca_controller_config_def status_reporter_config_def)
  with d key show ?thesis
    using \<open>cas w' = cas w\<close> ca(1) by (auto simp: deployed_def deployment_level_def status_reporter_config_def)
qed

definition demo_op_config :: Config where
  "demo_op_config = NewConfig\<lparr>cfg_ReleaseVersion := ''4.17.0'', cfg_ClusterAutoscalerNamespace := ''ns'',
     cfg_ClusterAutoscalerImage := ''img'', cfg_ClusterAutoscalerCloudProvider := ''clusterapi''\<rparr>"

lemma demo_op_config: "demo_cfg = (ca_controller_config (cc_FeatureGateAccessor demo_cfg) demo_op_config)\<lparr>cc_platformType := []\<rparr>"
  by (simp add: demo_cfg_def ca_controller_config_def demo_op_config_def NewConfig_def default_defs)

theorem reconciled_is_reported_witness:
  "\<exists>d. cw_deps (snd (ca_demo_run demo_ca)) (deployment_key (status_reporter_config demo_op_config)) = Some d \<and>
     deployment_level ''4.17.0'' d = DeploymentUpdated (om_generation (ko_meta d)) (ko_status d)"
proof -
  have req: "co_name_key (cfg_ClusterAutoscalerName demo_op_config) = demo_req"
    by (simp add: demo_op_config_def NewConfig_def default_defs co_name_key_def demo_req_def)
  have c: "ce_config fake_ca_env (ca_demo_world demo_ca) =
      (ca_controller_config (cc_FeatureGateAccessor demo_cfg) demo_op_config)\<lparr>cc_platformType := []\<rparr>"
    using demo_op_config by simp
  have n: "NamePredicate (ca_controller_config (cc_FeatureGateAccessor demo_cfg) demo_op_config) (ca_meta demo_ca)"
    by (simp add: NamePredicate_def ca_controller_config_def demo_op_config_def NewConfig_def default_defs demo_ca_def)
  have "sc_ReleaseVersion (status_reporter_config demo_op_config) = ''4.17.0''"
    by (simp add: status_reporter_config_def demo_op_config_def)
  then show ?thesis
    using reconciled_is_reported [OF fake_ca.ca_cluster_axioms demo_ca_good c _ _ n ca_demo_run_Inr [OF demo_ca_ok, folded req]]
    by (auto simp: req)
qed

section \<open>Webhooks\<close>

text \<open>
  The updater writes no other object, and where it returns no error the configuration lists
  exactly the two webhooks, each for the resource its handler validates and at the path it is
  served at.  Metadata is set when the configuration is created and kept when it exists; the
  injected certificates are overwritten with none, and nothing restores a missing injection
  annotation.
\<close>

theorem webhook_start:
  assumes "webhook_cluster C vcs good" "good w" "Start C ns w = (r, w')"
  shows "(\<forall>k. k \<noteq> ko_key new_webhook_configuration \<longrightarrow> vcs w' k = vcs w k) \<and>
    (r = Inr () \<longrightarrow>
      (\<exists>vc. vcs w' (ko_key new_webhook_configuration) = Some vc \<and> ko_spec vc = webhooks ns \<and>
        om_annotations (ko_meta vc) =
          (case vcs w (ko_key new_webhook_configuration) of
             None \<Rightarrow> Some [(InjectCABundleAnnotationName, ''true'')] | Some old \<Rightarrow> om_annotations (ko_meta old)) \<and>
        (\<forall>h \<in> set (ko_spec vc).
           wc_CABundle (vw_ClientConfig h) = [] \<and>
           (\<exists>res. map wr_Resources (vw_Rules h) = [[res]] \<and>
              (wr_Path (wc_Service (vw_ClientConfig h)), res) \<in> set registered_handlers))))"
proof -
  let ?k = "ko_key new_webhook_configuration"
  have "wp (Start C ns)
     (\<lambda>_ w'. (\<forall>k. k \<noteq> ?k \<longrightarrow> vcs w' k = vcs w k) \<and>
        (\<exists>vc. vcs w' ?k = Some vc \<and> ko_written vc = ko_written (set_webhooks ns
          (case vcs w ?k of None \<Rightarrow> new_webhook_configuration | Some old \<Rightarrow> old))))
     (\<lambda>_ w'. \<forall>k. k \<noteq> ?k \<longrightarrow> vcs w' k = vcs w k) w"
    by (rule webhook_cluster.wp_Start [OF assms(1,2)]) auto
  note post = wp_result [OF this assms(3)]
  show ?thesis
  proof (cases r)
    case (Inr u)
    with post obtain vc where vc: "vcs w' ?k = Some vc" and wr: "ko_written vc = ko_written (set_webhooks ns
          (case vcs w ?k of None \<Rightarrow> new_webhook_configuration | Some old \<Rightarrow> old))"
      and frame: "\<forall>k. k \<noteq> ?k \<longrightarrow> vcs w' k = vcs w k"
      by auto
    have spec: "ko_spec vc = webhooks ns" using ko_written_eqD(1) [OF wr] by (simp add: set_webhooks_spec)
    have meta: "om_annotations (ko_meta vc) = (case vcs w ?k of
        None \<Rightarrow> Some [(InjectCABundleAnnotationName, ''true'')] | Some old \<Rightarrow> om_annotations (ko_meta old))"
      using meta_written_eqD(2) [OF ko_written_eqD(2) [OF wr]]
      by (simp add: new_webhook_configuration_def split: option.splits)
    show ?thesis using frame vc spec meta webhooks_routed [of _ ns] by fastforce
  qed (use post in simp)
qed

text \<open>A cluster where the certificates have been injected.\<close>

type_synonym vc_world = "(NamespacedName, WebhookConfiguration) tracker"

definition fake_vc_client :: "(vc_world, NamespacedName, WebhookConfiguration) client" where
  "fake_vc_client = fake_client (kobject_ops False) ''now'' (\<lambda>w. w) (\<lambda>s w. s)"

interpretation fake_vcs: kube_kind "kobject_ops False" ko_written ko_status "''now''" "\<lambda>w :: vc_world. w"
  "\<lambda>s w. s" "keyed (kobject_ops False)"
  by unfold_locales simp_all

interpretation fake_webhooks: webhook_cluster fake_vc_client "\<lambda>w. w" "keyed (kobject_ops False)"
  unfolding webhook_cluster_def
  using fake_vcs.object_store_axioms by (simp add: fake_vc_client_def ko_gone_def [abs_def])

definition demo_vc :: WebhookConfiguration where
  "demo_vc = new_webhook_configuration\<lparr>ko_meta := (ko_meta new_webhook_configuration)
     \<lparr>om_resourceVersion := 1, om_annotations := None\<rparr>,
     ko_spec := map (vw_ClientConfig_update (wc_CABundle_update (\<lambda>_. ''ca''))) (webhooks ''ns'')\<rparr>"

definition demo_vc_world :: vc_world where
  "demo_vc_world = [ko_key new_webhook_configuration \<mapsto> demo_vc]"

theorem webhook_start_witness:
  "\<exists>vc. snd (Start fake_vc_client ''ns'' demo_vc_world) (ko_key new_webhook_configuration) = Some vc \<and>
     om_annotations (ko_meta vc) = None \<and> map (\<lambda>h. wc_CABundle (vw_ClientConfig h)) (ko_spec vc) = [[], []]"
proof -
  have good: "keyed (kobject_ops False) demo_vc_world"
    by (simp add: keyed_def demo_vc_world_def demo_vc_def ko_key_def meta_key_def ko_deletion_def
        new_webhook_configuration_def empty_meta_def)
  have "fst (Start fake_vc_client ''ns'' demo_vc_world) = Inr ()" by code_simp
  then have run: "Start fake_vc_client ''ns'' demo_vc_world = (Inr (), snd (Start fake_vc_client ''ns'' demo_vc_world))"
    by (simp add: prod_eq_iff)
  show ?thesis
    using webhook_start [OF fake_webhooks.webhook_cluster_axioms good run]
    by (auto simp: demo_vc_world_def demo_vc_def webhooks_def validating_webhook_def)
qed

section \<open>TLS\<close>

text \<open>
  C29: for any sequence of reads after a start, the operator has been told to restart exactly when one
  of the profiles seen differs from the one it started with, if it honors the cluster's profile, or
  when one of the policies seen, from the first that is not empty on, says otherwise than the one
  it started with.  A policy withdrawn before the watcher's first look is therefore missed.
\<close>

theorem tls_restart:
  assumes "FetchClusterTLSProfile tls_config configClient (Inr a) = Inr (spec, opts, honor)"
  shows "(snd (tls_watch honor gets (SetupTLSProfileWatcher spec, False)) \<longleftrightarrow>
      (honor \<and> (\<exists>x \<in> set (tls_seen gets). Inr (fst x) \<noteq> GetTLSProfileSpec (as_TLSSecurityProfile a))) \<or>
      (\<exists>x \<in> set (dropWhile (\<lambda>x. snd x = []) (tls_seen gets)).
         ShouldHonorClusterTLSProfile (snd x) \<noteq> ShouldHonorClusterTLSProfile (as_TLSAdherence a)))"
proof -
  have honor: "honor = ShouldHonorClusterTLSProfile (as_TLSAdherence a)"
    and spec: "honor \<longrightarrow> GetTLSProfileSpec (as_TLSSecurityProfile a) = Inr spec"
    using assms by (auto simp: FetchClusterTLSProfile_def Let_def split: sum.splits if_splits)
  show ?thesis
    unfolding tls_watch_outdated tls_outdated_def honor [symmetric] using spec by (cases honor) simp_all
qed

definition demo_api_server :: "string \<Rightarrow> APIServer" where
  "demo_api_server policy = \<lparr>as_TLSSecurityProfile = None, as_TLSAdherence = policy\<rparr>"

theorem tls_restart_witness:
  "\<not> snd (tls_watch True [Inr (demo_api_server [])] (SetupTLSProfileWatcher intermediate_profile, False)) \<and>
   snd (tls_watch True [Inr (demo_api_server ''StrictAllComponents''), Inr (demo_api_server [])]
     (SetupTLSProfileWatcher intermediate_profile, False))"
proof -
  have f: "FetchClusterTLSProfile (\<lambda>_. ()) (Inr ()) (Inr (demo_api_server ''StrictAllComponents'')) =
      Inr (intermediate_profile, [()], True)"
    by (simp add: FetchClusterTLSProfile_def demo_api_server_def ShouldHonorClusterTLSProfile_def GetTLSProfileSpec_def)
  show ?thesis
    unfolding tls_restart [OF f]
    by (auto simp: demo_api_server_def GetTLSProfileSpec_def ShouldHonorClusterTLSProfile_def)
qed

end
