(* ===== verification/Op_FeatureGates.thy ===== *)
theory Op_FeatureGates
  imports Op_Operator
begin

text \<open>
  The feature gates the operator starts with: the accessor of library-go
  (\<open>featuregates/simple_featuregate_reader.go\<close>), which reads them from the status of the FeatureGate
  for one version, and \<open>getFeatureGateAccessor\<close> of \<open>pkg/operator/operator.go\<close>, which waits for them.
\<close>

section \<open>The accessor\<close>

text \<open>The gates of one version in the status of the FeatureGate.\<close>

record FeatureGateDetails =
  fd_Version :: string
  fd_Enabled :: "string list"
  fd_Disabled :: "string list"

text \<open>
  What the two listers answer when the accessor looks: the desired version of the ClusterVersion with
  the versions of its history, and the FeatureGate.
\<close>

record fg_read =
  fr_ClusterVersion :: "go_error + string \<times> string list"
  fr_FeatureGate :: "go_error + FeatureGateDetails list"

text \<open>\<open>fa_exited\<close> says that the process has been ended.\<close>

record fg_access =
  fa_desiredVersion :: string
  fa_missingVersionMarker :: string
  fa_observed :: bool
  fa_initialFeatures :: FeatureGate
  fa_currentFeatures :: FeatureGate
  fa_exited :: bool

definition NewFeatureGateAccess :: "string \<Rightarrow> string \<Rightarrow> fg_access" where
  "NewFeatureGateAccess desiredVersion missingVersion =
     \<lparr>fa_desiredVersion = desiredVersion, fa_missingVersionMarker = missingVersion, fa_observed = False,
      fa_initialFeatures = \<lparr>fg_enabled = [], fg_disabled = []\<rparr>,
      fa_currentFeatures = \<lparr>fg_enabled = [], fg_disabled = []\<rparr>, fa_exited = False\<rparr>"

fun featuresFromFeatureGate :: "FeatureGateDetails list \<Rightarrow> string \<Rightarrow> go_error + FeatureGate" where
  "featuresFromFeatureGate [] desiredVersion =
     Inl (GoError ''missing desired version %q in featuregates.config.openshift.io/cluster'' [ArgS desiredVersion])"
| "featuresFromFeatureGate (d # ds) desiredVersion =
     (if fd_Version d \<noteq> desiredVersion then featuresFromFeatureGate ds desiredVersion
      else Inr \<lparr>fg_enabled = fd_Enabled d, fg_disabled = fd_Disabled d\<rparr>)"

text \<open>The change handler of the accessor.\<close>

definition ForceExit :: "FeatureGate option \<Rightarrow> fg_access \<Rightarrow> fg_access" where
  "ForceExit previous c = (if previous \<noteq> None then c\<lparr>fa_exited := True\<rparr> else c)"

definition setFeatureGates :: "FeatureGate \<Rightarrow> fg_access \<Rightarrow> fg_access" where
  "setFeatureGates features c =
     (let previousFeatures = (if fa_observed c then Some (fa_currentFeatures c) else None);
          c = c\<lparr>fa_currentFeatures := features\<rparr>;
          c = (if \<not> fa_observed c then c\<lparr>fa_initialFeatures := features, fa_observed := True\<rparr> else c)
      in if previousFeatures = None \<or> previousFeatures \<noteq> Some features then ForceExit previousFeatures c else c)"

definition fg_syncHandler :: "fg_read \<Rightarrow> fg_access \<Rightarrow> (go_error + unit) \<times> fg_access" where
  "fg_syncHandler r c =
     (let features = (\<lambda>desiredVersion.
        (case fr_FeatureGate r of
           Inl err \<Rightarrow> if IsNotFound err then (Inr (), c) else (Inl err, c)
         | Inr featureGate \<Rightarrow>
             (case featuresFromFeatureGate featureGate desiredVersion of
                Inl err \<Rightarrow> (Inl (GoWrap ''unable to determine features: %w'' err), c)
              | Inr features \<Rightarrow> (Inr (), setFeatureGates features c))))
      in if fa_missingVersionMarker c = fa_desiredVersion c then
           (case fr_ClusterVersion r of
              Inl err \<Rightarrow> if IsNotFound err then (Inr (), c) else (Inl err, c)
            | Inr (desired, history) \<Rightarrow>
                features (if length desired = 0 \<and> length history > 0 then hd history else desired))
         else features (fa_desiredVersion c))"

text \<open>\<open>Run\<close>: whatever a sync returns, the accessor goes on, until it ends the process.\<close>

fun fg_Run :: "fg_read list \<Rightarrow> fg_access \<Rightarrow> fg_access" where
  "fg_Run [] c = c"
| "fg_Run (r # rs) c = (let c = snd (fg_syncHandler r c) in if fa_exited c then c else fg_Run rs c)"

definition CurrentFeatureGates :: "fg_access \<Rightarrow> go_error + FeatureGate" where
  "CurrentFeatureGates c =
     (if \<not> fa_observed c then Inl (errorf ''featureGates not yet observed'') else Inr (fa_currentFeatures c))"

section \<open>Starting with it\<close>

text \<open>
  What the operator meets: its environment, the results of making the two clients, and what the
  accessor reads until the gates are observed or a minute has passed.  (The owner of the events is
  looked up too; a failure is logged.)  The gates are logged: a nil interface would panic there.
\<close>

record fg_env =
  ff_Getenv :: "string \<Rightarrow> string option"
  ff_ConfigClient :: "go_error + unit"
  ff_KubeClient :: "go_error + unit"
  ff_reads :: "fg_read list"

fun await_features :: "fg_read list \<Rightarrow> fg_access \<Rightarrow> fg_access" where
  "await_features [] c = c"
| "await_features (r # rs) c =
     (let c = snd (fg_syncHandler r c) in if fa_observed c then c else await_features rs c)"

definition getFeatureGateAccessor :: "fg_env \<Rightarrow> go_error + fg_access" where
  "getFeatureGateAccessor env =
     (let desiredVersion = getReleaseVersion (ff_Getenv env);
          missingVersion = ''0.0.1-snapshot''
      in case ff_ConfigClient env of
           Inl err \<Rightarrow> Inl (errorf ''unable to create config client for feature gate informers'')
         | Inr _ \<Rightarrow>
         (case ff_KubeClient env of
            Inl err \<Rightarrow> Inl (errorf ''unable to create kube client for feature gate informers'')
          | Inr _ \<Rightarrow>
              (let featureGateAccessor = await_features (ff_reads env) (NewFeatureGateAccess desiredVersion missingVersion)
               in if fa_observed featureGateAccessor then
                    (case CurrentFeatureGates featureGateAccessor of
                       Inl err \<Rightarrow> Inl (GoPanic ''nil pointer dereference'')
                     | Inr features \<Rightarrow> Inr featureGateAccessor)
                  else Inl (errorf ''time out waiting for FeatureGate detection''))))"

section \<open>The gates do not change\<close>

text \<open>An observed accessor of a running process has the gates it observed first.\<close>

definition fg_stable :: "fg_access \<Rightarrow> bool" where
  "fg_stable c \<longleftrightarrow> fa_observed c \<longrightarrow> fa_exited c \<or> fa_currentFeatures c = fa_initialFeatures c"

lemma fg_sync_cases:
  assumes "fg_syncHandler r c = (res, c')"
  shows "c' = c \<or> (\<exists>features. c' = setFeatureGates features c)"
  using assms by (auto simp: fg_syncHandler_def Let_def split: sum.splits if_splits prod.splits)

lemma setFeatureGates_stable:
  "fg_stable (setFeatureGates features c)" if "fg_stable c"
  using that by (auto simp: fg_stable_def setFeatureGates_def ForceExit_def Let_def)

lemma setFeatureGates_initial:
  "fa_observed c \<Longrightarrow> fa_initialFeatures (setFeatureGates features c) = fa_initialFeatures c"
  "fa_observed (setFeatureGates features c)"
  by (auto simp: setFeatureGates_def ForceExit_def Let_def)

lemma fg_sync_stable:
  assumes "fg_syncHandler r c = (res, c')" "fg_stable c"
  shows "fg_stable c'" "fa_observed c \<Longrightarrow> fa_observed c' \<and> fa_initialFeatures c' = fa_initialFeatures c"
  using fg_sync_cases [OF assms(1)] assms(2) setFeatureGates_stable setFeatureGates_initial by metis+

lemma fg_Run_stable:
  "fg_stable c \<Longrightarrow> fa_observed c \<Longrightarrow>
     fg_stable (fg_Run rs c) \<and> fa_observed (fg_Run rs c) \<and> fa_initialFeatures (fg_Run rs c) = fa_initialFeatures c"
proof (induction rs arbitrary: c)
  case (Cons r rs)
  obtain res c' where s: "fg_syncHandler r c = (res, c')" by fastforce
  note st = fg_sync_stable [OF s Cons.prems(1)]
  show ?case using st Cons.IH [of c'] Cons.prems(2) by (simp add: s)
qed simp

lemma await_stable: "fg_stable c \<Longrightarrow> fg_stable (await_features rs c)"
proof (induction rs arbitrary: c)
  case (Cons r rs)
  obtain res c' where s: "fg_syncHandler r c = (res, c')" by fastforce
  from fg_sync_stable(1) [OF s Cons.prems] Cons.IH [of c'] show ?case by (simp add: s)
qed simp

lemma await_not_exited: "\<not> fa_observed c \<Longrightarrow> \<not> fa_exited c \<Longrightarrow> \<not> fa_exited (await_features rs c)"
proof (induction rs arbitrary: c)
  case (Cons r rs)
  obtain res c' where s: "fg_syncHandler r c = (res, c')" by fastforce
  then have "\<not> fa_exited c'"
    using fg_sync_cases [OF s] Cons.prems by (auto simp: setFeatureGates_def ForceExit_def Let_def)
  with Cons.IH [of c'] show ?case by (simp add: s)
qed simp

lemma new_access [simp]:
  "\<not> fa_observed (NewFeatureGateAccess v m)" "\<not> fa_exited (NewFeatureGateAccess v m)"
  "fa_desiredVersion (NewFeatureGateAccess v m) = v" "fa_missingVersionMarker (NewFeatureGateAccess v m) = m"
  by (simp_all add: NewFeatureGateAccess_def)

lemma getFeatureGateAccessor_Inr:
  assumes "getFeatureGateAccessor env = Inr c"
  shows "c = await_features (ff_reads env) (NewFeatureGateAccess (getReleaseVersion (ff_Getenv env)) ''0.0.1-snapshot'')"
    and "fa_observed c" "\<not> fa_exited c" "fg_stable c"
proof -
  show c: "c = await_features (ff_reads env) (NewFeatureGateAccess (getReleaseVersion (ff_Getenv env)) ''0.0.1-snapshot'')"
    "fa_observed c"
    using assms by (auto simp: getFeatureGateAccessor_def Let_def split: sum.splits if_splits)
  show "\<not> fa_exited c" unfolding c(1) by (rule await_not_exited) simp_all
  show "fg_stable c" unfolding c(1) by (rule await_stable) (simp add: fg_stable_def)
qed

text \<open>
  C20: the gates an operator starts with are the gates it has.  Whatever the cluster reports after
  the start, as long as the process has not been ended the accessor answers with the gates that
  \<open>getFeatureGateAccessor\<close> found, so the arguments of the autoscaler do not depend on when they are
  computed.
\<close>

theorem gates_fixed:
  assumes "getFeatureGateAccessor env = Inr c" "\<not> fa_exited (fg_Run rs c)"
  shows "CurrentFeatureGates (fg_Run rs c) = CurrentFeatureGates c \<and>
    CurrentFeatureGates c = Inr (fa_initialFeatures c)"
proof -
  note c = getFeatureGateAccessor_Inr [OF assms(1)]
  from fg_Run_stable [OF c(4,2), of rs] c assms(2) show ?thesis
    by (simp add: fg_stable_def CurrentFeatureGates_def)
qed

definition demo_fg_env :: "(string \<times> string) list \<Rightarrow> fg_env" where
  "demo_fg_env vars =
     \<lparr>ff_Getenv = map_of vars, ff_ConfigClient = Inr (), ff_KubeClient = Inr (),
      ff_reads = [\<lparr>fr_ClusterVersion = Inl (StatusError NotFound ''version''), fr_FeatureGate = Inr
        [\<lparr>fd_Version = ''4.18'', fd_Enabled = [''A''], fd_Disabled = [''B'']\<rparr>,
         \<lparr>fd_Version = ''4.19'', fd_Enabled = [''A'', ''B''], fd_Disabled = []\<rparr>]\<rparr>]\<rparr>"

theorem gates_fixed_witness:
  "\<exists>c. getFeatureGateAccessor (demo_fg_env [(''RELEASE_VERSION'', ''4.19'')]) = Inr c \<and>
     CurrentFeatureGates (fg_Run (ff_reads (demo_fg_env [])) c) = Inr \<lparr>fg_enabled = [''A'', ''B''], fg_disabled = []\<rparr>"
proof -
  let ?env = "demo_fg_env [(''RELEASE_VERSION'', ''4.19'')]"
  have "isl (getFeatureGateAccessor ?env) = False" by code_simp
  then obtain c where c: "getFeatureGateAccessor ?env = Inr c" by (cases "getFeatureGateAccessor ?env") auto
  have "map_sum id (\<lambda>c. (fa_exited (fg_Run (ff_reads (demo_fg_env [])) c), fa_initialFeatures c)) (getFeatureGateAccessor ?env) =
      Inr (False, \<lparr>fg_enabled = [''A'', ''B''], fg_disabled = []\<rparr>)" by code_simp
  then have "\<not> fa_exited (fg_Run (ff_reads (demo_fg_env [])) c)"
    "fa_initialFeatures c = \<lparr>fg_enabled = [''A'', ''B''], fg_disabled = []\<rparr>" by (simp_all add: c)
  with gates_fixed [OF c this(1)] c show ?thesis by simp
qed

section \<open>A missing release version\<close>

lemma await_unobserved:
  assumes "\<And>r d. r \<in> set rs \<Longrightarrow> fr_FeatureGate r = Inr d \<Longrightarrow> fa_desiredVersion c \<notin> set (map fd_Version d)"
    and "fa_missingVersionMarker c \<noteq> fa_desiredVersion c" "\<not> fa_observed c"
  shows "\<not> fa_observed (await_features rs c)"
  using assms(1)
proof (induction rs)
  case Nil
  show ?case using assms(3) by simp
next
  case (Cons r rs)
  have "isl (featuresFromFeatureGate d v)" if "v \<notin> set (map fd_Version d)" for d v
    using that by (induction d) auto
  then have "snd (fg_syncHandler r c) = c"
    using Cons.prems [of r] assms(2)
    by (fastforce simp: fg_syncHandler_def isl_def split: sum.splits)
  moreover have "\<not> fa_observed (await_features rs c)"
    by (rule Cons.IH) (use Cons.prems in auto)
  ultimately show ?case using assms(3) by simp
qed

text \<open>
  C34: without a release version in its environment the operator cannot start.  It looks the gates up
  for the version \<open>unknown\<close>, which the marker \<open>0.0.1-snapshot\<close> of a missing version does not match, so
  the version of the cluster is never used: unless a FeatureGate lists the version \<open>unknown\<close>, it waits
  in vain, whatever it reads.
\<close>

theorem missing_release_version:
  assumes "ff_Getenv env ''RELEASE_VERSION'' = None \<or> ff_Getenv env ''RELEASE_VERSION'' = Some []"
    and "\<And>r d. r \<in> set (ff_reads env) \<Longrightarrow> fr_FeatureGate r = Inr d \<Longrightarrow> ''unknown'' \<notin> set (map fd_Version d)"
    and "ff_ConfigClient env = Inr ()" "ff_KubeClient env = Inr ()"
  shows "getFeatureGateAccessor env = Inl (errorf ''time out waiting for FeatureGate detection'')"
proof -
  have v: "getReleaseVersion (ff_Getenv env) = ''unknown''"
    using assms(1) by (auto simp: getReleaseVersion_def)
  have "\<not> fa_observed (await_features (ff_reads env) (NewFeatureGateAccess ''unknown'' ''0.0.1-snapshot''))"
    by (rule await_unobserved) (use assms(2) in simp_all)
  with assms(3,4) v show ?thesis by (simp add: getFeatureGateAccessor_def)
qed

theorem missing_release_version_witness:
  "getFeatureGateAccessor (demo_fg_env []) = Inl (errorf ''time out waiting for FeatureGate detection'')"
  by (rule missing_release_version) (auto simp: demo_fg_env_def)

end
