(* ===== verification/Op_New.thy ===== *)
theory Op_New
  imports CA_Watches MA_Watches Op_FeatureGates Op_Startup Op_Webhooks
begin

text \<open>
  The start of the operator: the types it registers (\<open>pkg/apis\<close>), the assembly of its manager (\<open>New\<close>,
  \<open>AddControllers\<close> and \<open>AddWebhooks\<close> of \<open>pkg/operator/operator.go\<close>) and \<open>main\<close>.  What the API server and
  the libraries answer are the fields of \<open>new_env\<close>.
\<close>

section \<open>The scheme\<close>

type_synonym scheme = "GroupVersionKind list"

definition AddKnownTypes :: "string \<Rightarrow> string \<Rightarrow> string list \<Rightarrow> scheme \<Rightarrow> scheme" where
  "AddKnownTypes g v kinds s = s @ map (\<lambda>k. \<lparr>gvk_group = g, gvk_version = v, gvk_kind = k\<rparr>) kinds"

fun SchemeBuilder_AddToScheme :: "(scheme \<Rightarrow> go_error + scheme) list \<Rightarrow> scheme \<Rightarrow> go_error + scheme" where
  "SchemeBuilder_AddToScheme [] s = Inr s"
| "SchemeBuilder_AddToScheme (f # fs) s =
     (case f s of Inl err \<Rightarrow> Inl err | Inr s \<Rightarrow> SchemeBuilder_AddToScheme fs s)"

definition v1_AddToScheme :: "scheme \<Rightarrow> go_error + scheme" where
  "v1_AddToScheme s =
     Inr (AddKnownTypes ''autoscaling.openshift.io'' ''v1'' [''ClusterAutoscaler'', ''ClusterAutoscalerList''] s)"

definition v1beta1_AddToScheme :: "scheme \<Rightarrow> go_error + scheme" where
  "v1beta1_AddToScheme s =
     Inr (AddKnownTypes ''autoscaling.openshift.io'' ''v1beta1'' [''MachineAutoscaler'', ''MachineAutoscalerList''] s)"

definition AddToSchemes :: "(scheme \<Rightarrow> go_error + scheme) list" where
  "AddToSchemes = [v1_AddToScheme, v1beta1_AddToScheme]"

definition apis_AddToScheme :: "scheme \<Rightarrow> go_error + scheme" where
  "apis_AddToScheme s = SchemeBuilder_AddToScheme AddToSchemes s"

definition monitoring_AddToScheme :: "scheme \<Rightarrow> go_error + scheme" where
  "monitoring_AddToScheme s =
     Inr (AddKnownTypes ''monitoring.coreos.com'' ''v1''
       [''Prometheus'', ''PrometheusList'', ''ServiceMonitor'', ''ServiceMonitorList'', ''PodMonitor'', ''PodMonitorList'',
        ''Probe'', ''ProbeList'', ''Alertmanager'', ''AlertmanagerList'', ''PrometheusRule'', ''PrometheusRuleList'',
        ''ThanosRuler'', ''ThanosRulerList''] s)"

text \<open>Each kind of \<open>config.openshift.io/v1\<close> comes with its list.\<close>

definition config_kinds :: "string list" where
  "config_kinds =
     concat (map (\<lambda>k. [k, k @ ''List''])
       [''APIServer'', ''Authentication'', ''Build'', ''ClusterOperator'', ''ClusterVersion'', ''Console'', ''DNS'',
        ''FeatureGate'', ''Image'', ''Infrastructure'', ''Ingress'', ''Node'', ''Network'', ''OAuth'', ''OperatorHub'',
        ''Project'', ''Proxy'', ''Scheduler'', ''ImageContentPolicy'', ''ImageDigestMirrorSet'', ''ImageTagMirrorSet'',
        ''ImagePolicy'', ''ClusterImagePolicy'', ''InsightsDataGather'', ''CRIOCredentialProviderConfig''])"

definition config_AddToScheme :: "scheme \<Rightarrow> go_error + scheme" where
  "config_AddToScheme s = Inr (AddKnownTypes ''config.openshift.io'' ''v1'' config_kinds s)"

definition register :: "(scheme \<Rightarrow> go_error + scheme) \<Rightarrow> ('r manager, unit) act" where
  "register f m =
     (case f (mg_scheme m) of Inl err \<Rightarrow> (Inl err, m) | Inr s \<Rightarrow> (Inr (), m\<lparr>mg_scheme := s\<rparr>))"

section \<open>Errors with a message\<close>

text \<open>\<open>fmt.Errorf(format, err)\<close>; a panic passes by.\<close>

definition wrapped :: "(go_error \<Rightarrow> go_error) \<Rightarrow> go_error \<Rightarrow> go_error" where
  "wrapped f e = (if is_panic e then e else f e)"

definition res_wrap :: "(go_error \<Rightarrow> go_error) \<Rightarrow> go_error + 'a \<Rightarrow> go_error + 'a" where
  "res_wrap f r = (case r of Inl e \<Rightarrow> Inl (wrapped f e) | Inr a \<Rightarrow> Inr a)"

definition act_wrap :: "(go_error \<Rightarrow> go_error) \<Rightarrow> ('w, 'a) act \<Rightarrow> ('w, 'a) act" where
  "act_wrap f a w = (case a w of (r, w') \<Rightarrow> (res_wrap f r, w'))"

definition formatted :: "string \<Rightarrow> go_error \<Rightarrow> go_error" where
  "formatted format err = GoError format [ArgE err]"

lemma wp_act_wrap [wp_simps]: "wp (act_wrap f a) Q E = wp a Q (\<lambda>e. E (wrapped f e))"
  by (auto simp: wp_def act_wrap_def res_wrap_def fun_eq_iff split: prod.split sum.split)

section \<open>The webhook server\<close>

text \<open>
  The server of controller-runtime (\<open>webhook/server.go\<close>); its defaults are set when the first handler
  is registered, the directory of its certificates to one below the temporary directory.
\<close>

record 'opt webhook_server =
  ws_Port :: int
  ws_CertDir :: string
  ws_TLSOpts :: "'opt list"
  ws_webhooks :: "(string \<times> string) list option"

definition NewServer :: "int \<Rightarrow> string \<Rightarrow> 'opt list \<Rightarrow> 'opt webhook_server" where
  "NewServer port certDir tlsOpts =
     \<lparr>ws_Port = port, ws_CertDir = certDir, ws_TLSOpts = tlsOpts, ws_webhooks = None\<rparr>"

definition server_setDefaults :: "string \<Rightarrow> 'opt webhook_server \<Rightarrow> 'opt webhook_server" where
  "server_setDefaults defaultCertDir s =
     (let s = s\<lparr>ws_webhooks := Some []\<rparr>;
          s = (if ws_Port s \<le> 0 then s\<lparr>ws_Port := 9443\<rparr> else s)
      in if length (ws_CertDir s) = 0 then s\<lparr>ws_CertDir := defaultCertDir\<rparr> else s)"

text \<open>A handler is named by the resource it validates.\<close>

definition server_Register :: "string \<Rightarrow> string \<Rightarrow> string \<Rightarrow> 'opt webhook_server \<Rightarrow> go_error + 'opt webhook_server" where
  "server_Register defaultCertDir path hook s =
     (let s = (if ws_webhooks s = None then server_setDefaults defaultCertDir s else s);
          hooks = the (ws_webhooks s)
      in if path \<in> fst ` set hooks then Inl (GoPanic ''can't register duplicate path'')
         else Inr (s\<lparr>ws_webhooks := Some (hooks @ [(path, hook)])\<rparr>))"

section \<open>The operator\<close>

datatype 'opt op_runnable =
    RunStatusReporter StatusReporterConfig
  | RunWebhookConfigUpdater string
  | RunWebhookServer "'opt webhook_server"

record 'opt ManagerOptions =
  mo_DefaultNamespaces :: "string list"
  mo_LeaderElection :: bool
  mo_LeaderElectionNamespace :: string
  mo_LeaderElectionID :: string
  mo_LeaderElectionReleaseOnCancel :: bool
  mo_LeaseDuration :: int
  mo_RenewDeadline :: int
  mo_RetryPeriod :: int
  mo_MetricsSecureServing :: bool
  mo_MetricsBindAddress :: string
  mo_MetricsCertDir :: string
  mo_MetricsTLSOpts :: "'opt list"
  mo_WebhookTLSOpts :: "'opt list"

text \<open>The names tell which call a field answers.\<close>

record 'opt new_env =
  ne_GetConfig :: "go_error + unit"
  ne_TLSConfigClient :: "go_error + unit"
  ne_GetAPIServer :: "go_error + APIServer"
  ne_TLSConfig :: "TLSProfileSpec \<Rightarrow> 'opt"
  ne_ServiceAccountNamespace :: "string option"
  ne_Topology :: "go_error + string"
  ne_NewManager :: "'opt ManagerOptions \<Rightarrow> go_error + 'opt op_runnable manager"
  ne_Manager :: "'opt op_runnable mgr_env"
  ne_FeatureGates :: fg_env
  ne_KindFor :: "GroupVersionKind \<Rightarrow> (go_error \<times> bool) + unit"
  ne_DefaultCertDir :: string
  ne_StatusConfigClient :: "go_error + unit"

record 'opt Operator =
  or_config :: Config
  or_manager :: "'opt op_runnable manager"
  or_ca :: ca_config
  or_ma :: ma_config
  or_FeatureGateAccessor :: fg_access
  or_webhookTLSOpts :: "'opt list"
  or_watcher :: SecurityProfileWatcher

definition manager_options :: "Config \<Rightarrow> LeaderElection \<Rightarrow> 'opt list \<Rightarrow> 'opt ManagerOptions" where
  "manager_options cfg le tlsOpts =
     \<lparr>mo_DefaultNamespaces = [cfg_WatchNamespace cfg],
      mo_LeaderElection = cfg_LeaderElection cfg,
      mo_LeaderElectionNamespace = cfg_LeaderElectionNamespace cfg,
      mo_LeaderElectionID = cfg_LeaderElectionID cfg,
      mo_LeaderElectionReleaseOnCancel = True,
      mo_LeaseDuration = le_LeaseDuration le,
      mo_RenewDeadline = le_RenewDeadline le,
      mo_RetryPeriod = le_RetryPeriod le,
      mo_MetricsSecureServing = True,
      mo_MetricsBindAddress = '':'' @ Itoa (cfg_MetricsPort cfg),
      mo_MetricsCertDir = cfg_WebhooksCertDir cfg,
      mo_MetricsTLSOpts = tlsOpts,
      mo_WebhookTLSOpts = tlsOpts\<rparr>"

text \<open>The configurations of the two controllers; that of the machine autoscalers has lost the kinds
  the cluster does not have.\<close>

definition AddControllers ::
    "'opt new_env \<Rightarrow> fg_access \<Rightarrow> Config \<Rightarrow> ('opt op_runnable manager, ca_config \<times> ma_config) act" where
  "AddControllers env accessor cfg =
     act_bind (ca_AddToManager (ne_Manager env)) (\<lambda>_.
     act_bind (ma_AddToManager (ne_Manager env) (ne_KindFor env) (ma_controller_config cfg)) (\<lambda>ma.
     act_return (ca_controller_config (Some (CurrentFeatureGates accessor)) cfg, ma)))"

definition NewWebhookConfigUpdater :: "string \<Rightarrow> go_error + 'opt op_runnable" where
  "NewWebhookConfigUpdater namespace = Inr (RunWebhookConfigUpdater namespace)"

definition AddWebhooks :: "'opt new_env \<Rightarrow> Config \<Rightarrow> 'opt list \<Rightarrow> ('opt op_runnable manager, unit) act" where
  "AddWebhooks env cfg tlsOpts =
     (let namespace = cfg_WatchNamespace cfg in
      act_bind (act_lift (NewWebhookConfigUpdater namespace)) (\<lambda>webhookUpdater.
      act_bind (manager_Add (ne_Manager env) (RunOther webhookUpdater)) (\<lambda>_.
      (let server = NewServer (cfg_WebhooksPort cfg) (cfg_WebhooksCertDir cfg) tlsOpts;
           dir = ne_DefaultCertDir env in
       act_bind (act_lift (server_Register dir ''/validate-clusterautoscalers'' ''clusterautoscalers'' server)) (\<lambda>server.
       act_bind (act_lift (server_Register dir ''/validate-machineautoscalers'' ''machineautoscalers'' server)) (\<lambda>server.
       manager_Add (ne_Manager env) (RunOther (RunWebhookServer server))))))))"

text \<open>The watcher's controller, which the builder of controller-runtime makes.\<close>

definition apiserver_gvk :: GroupVersionKind where
  "apiserver_gvk = \<lparr>gvk_group = ''config.openshift.io'', gvk_version = ''v1'', gvk_kind = ''APIServer''\<rparr>"

definition tls_controllerName :: string where
  "tls_controllerName = ''tlssecurityprofilewatcher''"

definition tls_watch_source :: watch where
  "tls_watch_source = \<lparr>wt_kind = apiserver_gvk, wt_handler = EnqueueRequestForObject, wt_filtered = True\<rparr>"

definition tls_SetupWithManager :: "'r mgr_env \<Rightarrow> ('r manager, unit) act" where
  "tls_SetupWithManager env =
     act_wrap (GoWrap ''could not set up controller for TLS security profile watcher: %w'')
       (\<lambda>m. if apiserver_gvk \<notin> set (mg_scheme m)
            then (Inl (errorf ''no kind is registered for the type''), m)
            else act_bind (controller_New env tls_controllerName)
              (\<lambda>_. controller_Watch tls_controllerName tls_watch_source) m)"

definition NewStatusReporter :: "go_error + unit \<Rightarrow> StatusReporterConfig \<Rightarrow> go_error + 'opt op_runnable" where
  "NewStatusReporter configClient cfg =
     (case configClient of Inl err \<Rightarrow> Inl err | Inr _ \<Rightarrow> Inr (RunStatusReporter cfg))"

text \<open>The parts of \<open>New\<close> that come after the manager.\<close>

definition register_types :: "('r manager, unit) act" where
  "register_types =
     act_bind (act_wrap (formatted ''failed to register types: %v'') (register apis_AddToScheme)) (\<lambda>_.
     act_bind (act_wrap (formatted ''failed to register monitoring types: %v'') (register monitoring_AddToScheme)) (\<lambda>_.
     act_wrap (formatted ''failed to register configv1 types: %v'') (register config_AddToScheme)))"

definition add_status :: "'opt new_env \<Rightarrow> Config \<Rightarrow> ('opt op_runnable manager, unit) act" where
  "add_status env cfg =
     act_bind (act_wrap (GoWrap ''failed to set up TLS profile watcher: %w'') (tls_SetupWithManager (ne_Manager env))) (\<lambda>_.
     act_bind (act_wrap (formatted ''failed to create status reporter: %v'')
       (act_lift (NewStatusReporter (ne_StatusConfigClient env) (status_reporter_config cfg)))) (\<lambda>statusReporter.
     act_wrap (formatted ''failed to add status reporter to manager: %v'')
       (manager_Add (ne_Manager env) (RunOther statusReporter))))"

definition assemble ::
    "'opt new_env \<Rightarrow> Config \<Rightarrow> TLSProfileSpec \<Rightarrow> 'opt list \<Rightarrow>
     ('opt op_runnable manager, 'opt op_runnable manager \<Rightarrow> 'opt Operator) act" where
  "assemble env cfg tlsProfileSpec tlsOpts =
     act_bind register_types (\<lambda>_.
     act_bind (act_wrap (GoWrap ''failed to get feature gate accessor: %w'')
       (act_lift (getFeatureGateAccessor (ne_FeatureGates env)))) (\<lambda>featureGateAccessor.
     act_bind (act_wrap (formatted ''failed to add controllers: %v'') (AddControllers env featureGateAccessor cfg)) (\<lambda>ctrls.
     act_bind (if cfg_WebhooksEnabled cfg
       then act_wrap (formatted ''failed to start webhook server: %v'') (AddWebhooks env cfg tlsOpts)
       else act_return ()) (\<lambda>_.
     act_bind (add_status env cfg) (\<lambda>_.
     act_return (\<lambda>m. \<lparr>or_config = cfg, or_manager = m, or_ca = fst ctrls, or_ma = snd ctrls,
       or_FeatureGateAccessor = featureGateAccessor, or_webhookTLSOpts = tlsOpts,
       or_watcher = SetupTLSProfileWatcher tlsProfileSpec\<rparr>))))))"

definition New :: "'opt new_env \<Rightarrow> Config \<Rightarrow> go_error + 'opt Operator" where
  "New env cfg =
     res_bind (ne_GetConfig env) (\<lambda>_.
     res_bind (res_wrap (GoWrap ''failed to get cluster TLS profile: %w'')
       (FetchClusterTLSProfile (ne_TLSConfig env) (ne_TLSConfigClient env) (ne_GetAPIServer env)))
       (\<lambda>(tlsProfileSpec, tlsOpts, shouldHonorTLSProfile).
     (let le = GetLeaderElectionDefaults (ne_ServiceAccountNamespace env) (ne_Topology env) (operator_leader_election cfg) in
      res_bind (res_wrap (formatted ''failed to create manager: %v'') (ne_NewManager env (manager_options cfg le tlsOpts))) (\<lambda>m.
      case assemble env cfg tlsProfileSpec tlsOpts m of
        (Inl err, m) \<Rightarrow> Inl err
      | (Inr operator, m) \<Rightarrow> Inr (operator m)))))"

text \<open>\<open>main\<close>: the error is the message it ends with; \<open>start\<close> is \<open>Start\<close> of the manager.\<close>

definition main ::
    "(string \<Rightarrow> string option) \<Rightarrow> 'opt new_env \<Rightarrow> ('opt op_runnable manager \<Rightarrow> go_error + unit) \<Rightarrow> go_error + unit" where
  "main getenv env start =
     res_bind (res_wrap (formatted ''Failed to get config from environment: %v'') (ConfigFromEnvironment getenv)) (\<lambda>config.
     res_bind (res_wrap (formatted ''Failed to create operator: %v'') (New env config)) (\<lambda>operator.
     res_wrap (formatted ''Failed to start operator: %v'') (start (or_manager operator))))"

end
