(* ===== verification/Op_Start.thy ===== *)
theory Op_Start
  imports Op_New
begin

text \<open>
  What a start comes to: either the operator's manager holds its controllers with their watches, its
  webhooks and its status reporter, or \<open>New\<close> returns the error of the first step that failed.
\<close>

section \<open>The steps and their failures\<close>

definition error_of :: "go_error + 'a \<Rightarrow> go_error option" where
  "error_of r = (case r of Inl e \<Rightarrow> Some e | Inr _ \<Rightarrow> None)"

lemma error_of_simps [simp]: "error_of (Inl e) = Some e" "error_of (Inr a) = None"
  by (simp_all add: error_of_def)

text \<open>Every step of a list, with its failure, if any; the first one counts.\<close>

fun first_failure :: "go_error option list \<Rightarrow> go_error option" where
  "first_failure [] = None"
| "first_failure (None # xs) = first_failure xs"
| "first_failure (Some e # xs) = Some e"

lemma first_failure_append [simp]:
  "first_failure (xs @ ys) = (case first_failure xs of None \<Rightarrow> first_failure ys | Some e \<Rightarrow> Some e)"
  by (induction xs rule: first_failure.induct) simp_all

lemma first_failure_map [simp]: "first_failure (map (map_option f) xs) = map_option f (first_failure xs)"
  by (induction xs rule: first_failure.induct) simp_all

text \<open>The servers of the webhooks as they are added, and the failures of the steps from \<open>assemble\<close> on.\<close>

definition the_server :: "'opt new_env \<Rightarrow> Config \<Rightarrow> 'opt list \<Rightarrow> 'opt webhook_server" where
  "the_server env cfg tlsOpts =
     \<lparr>ws_Port = (if cfg_WebhooksPort cfg \<le> 0 then 9443 else cfg_WebhooksPort cfg),
      ws_CertDir = (if cfg_WebhooksCertDir cfg = [] then ne_DefaultCertDir env else cfg_WebhooksCertDir cfg),
      ws_TLSOpts = tlsOpts, ws_webhooks = Some registered_handlers\<rparr>"

definition controller_failures ::
    "'opt new_env \<Rightarrow> Config \<Rightarrow> ('opt op_runnable runnable \<Rightarrow> go_error option) \<Rightarrow> go_error option list" where
  "controller_failures env cfg add =
     [add (RunController ca_controllerName), add (RunController ma_controllerName),
      error_of (supported_at_startup (ne_KindFor env) (ma_controller_config cfg))]"

definition webhook_failures ::
    "'opt new_env \<Rightarrow> Config \<Rightarrow> 'opt list \<Rightarrow> ('opt op_runnable runnable \<Rightarrow> go_error option) \<Rightarrow> go_error option list" where
  "webhook_failures env cfg tlsOpts add =
     [add (RunOther (RunWebhookConfigUpdater (cfg_WatchNamespace cfg))),
      add (RunOther (RunWebhookServer (the_server env cfg tlsOpts)))]"

definition status_failures ::
    "'opt new_env \<Rightarrow> Config \<Rightarrow> ('opt op_runnable runnable \<Rightarrow> go_error option) \<Rightarrow> go_error option list" where
  "status_failures env cfg add =
     [map_option (wrapped (GoWrap ''failed to set up TLS profile watcher: %w''))
        (map_option (wrapped (GoWrap ''could not set up controller for TLS security profile watcher: %w''))
          (add (RunController tls_controllerName))),
      map_option (wrapped (formatted ''failed to create status reporter: %v'')) (error_of (ne_StatusConfigClient env)),
      map_option (wrapped (formatted ''failed to add status reporter to manager: %v''))
        (add (RunOther (RunStatusReporter (status_reporter_config cfg))))]"

definition assembly_failures ::
    "'opt new_env \<Rightarrow> Config \<Rightarrow> 'opt list \<Rightarrow> ('opt op_runnable runnable \<Rightarrow> go_error option) \<Rightarrow> go_error option list" where
  "assembly_failures env cfg tlsOpts add =
     map_option (wrapped (GoWrap ''failed to get feature gate accessor: %w''))
       (error_of (getFeatureGateAccessor (ne_FeatureGates env))) #
     map (map_option (wrapped (formatted ''failed to add controllers: %v''))) (controller_failures env cfg add) @
     map (map_option (wrapped (formatted ''failed to start webhook server: %v'')))
       (if cfg_WebhooksEnabled cfg then webhook_failures env cfg tlsOpts add else []) @
     status_failures env cfg add"

definition startup_failures ::
    "'opt new_env \<Rightarrow> Config \<Rightarrow> ('opt op_runnable runnable \<Rightarrow> go_error option) \<Rightarrow> go_error option list" where
  "startup_failures env cfg add =
     (let tls = FetchClusterTLSProfile (ne_TLSConfig env) (ne_TLSConfigClient env) (ne_GetAPIServer env);
          le = GetLeaderElectionDefaults (ne_ServiceAccountNamespace env) (ne_Topology env) (operator_leader_election cfg)
      in [error_of (ne_GetConfig env),
          map_option (wrapped (GoWrap ''failed to get cluster TLS profile: %w'')) (error_of tls)] @
         (case tls of
            Inl err \<Rightarrow> []
          | Inr (spec, tlsOpts, honor) \<Rightarrow>
              map_option (wrapped (formatted ''failed to create manager: %v''))
                (error_of (ne_NewManager env (manager_options cfg le tlsOpts))) #
              assembly_failures env cfg tlsOpts add))"

section \<open>The steps of the assembly\<close>

lemma wp_register [wp_simps]:
  "wp (register f) Q E = (\<lambda>m. case f (mg_scheme m) of Inl e \<Rightarrow> E e m | Inr s \<Rightarrow> Q () (m\<lparr>mg_scheme := s\<rparr>))"
  by (simp add: wp_def register_def fun_eq_iff split: sum.split)

lemma apis_AddToScheme_eq:
  "apis_AddToScheme s = Inr (s @ [ca_gvk, ca_gvk\<lparr>gvk_kind := ''ClusterAutoscalerList''\<rparr>, ma_gvk,
     ma_gvk\<lparr>gvk_kind := ''MachineAutoscalerList''\<rparr>])"
  by (simp add: apis_AddToScheme_def AddToSchemes_def v1_AddToScheme_def v1beta1_AddToScheme_def
      AddKnownTypes_def ca_gvk_def ma_gvk_def)

lemma apiserver_registered: "config_AddToScheme s = Inr s' \<Longrightarrow> apiserver_gvk \<in> set s' \<and> set s \<subseteq> set s'"
  by (auto simp: config_AddToScheme_def AddKnownTypes_def config_kinds_def apiserver_gvk_def)

lemma controller_names [simp]:
  "ca_controllerName \<noteq> ma_controllerName" "ca_controllerName \<noteq> tls_controllerName" "ma_controllerName \<noteq> tls_controllerName"
  "ma_controllerName \<noteq> ca_controllerName" "tls_controllerName \<noteq> ca_controllerName" "tls_controllerName \<noteq> ma_controllerName"
  by (simp_all add: ca_controllerName_def ma_controllerName_def tls_controllerName_def)

lemma wp_AddControllers:
  fixes m :: "'opt op_runnable manager"
  assumes new: "mg_controllers m = []" "mg_usedNames m = []" and reg: "ca_gvk \<in> set (mg_scheme m)"
    and add: "\<And>r m. me_Add (ne_Manager env) r m = add r"
    and Q: "\<And>m' ma. \<lbrakk>first_failure (controller_failures env cfg add) = None;
        supported_at_startup (ne_KindFor env) (ma_controller_config cfg) = Inr ma;
        mg_scheme m' = mg_scheme m; mg_usedNames m' = [ma_controllerName, ca_controllerName];
        mg_controllers m' = [(ca_controllerName, ca_watches), (ma_controllerName, ma_watches ma)];
        mg_runnables m' = mg_runnables m @ [RunController ca_controllerName, RunController ma_controllerName]\<rbrakk> \<Longrightarrow>
      Q (ca_controller_config (Some (CurrentFeatureGates c)) cfg, ma) m'"
    and E: "\<And>e m'. first_failure (controller_failures env cfg add) = Some e \<Longrightarrow> E e m'"
  shows "wp (AddControllers env c cfg) Q E m"
  unfolding AddControllers_def wp_bind
proof (rule wp_ca_AddToManager, goal_cases)
  case (4 m1)
  note ca = 4
  show ?case
  proof (rule wp_ma_AddToManager, goal_cases)
    case (3 m2 ma)
    with ca show ?case by (auto simp: wp_simps new add controller_failures_def intro!: Q)
  next
    case (4 e m2)
    with ca show ?case by (auto simp: add controller_failures_def intro!: E)
  next
    case (5 e m2)
    with ca show ?case by (auto simp: add controller_failures_def intro!: E)
  qed (use ca new in simp_all)
next
  case (5 e m1)
  then show ?case by (auto simp: add controller_failures_def intro!: E)
qed (use new reg in simp_all)

definition first_server :: "'opt new_env \<Rightarrow> Config \<Rightarrow> 'opt list \<Rightarrow> 'opt webhook_server" where
  "first_server env cfg tlsOpts = (the_server env cfg tlsOpts)\<lparr>ws_webhooks := Some [hd registered_handlers]\<rparr>"

lemma first_handler:
  "server_Register (ne_DefaultCertDir env) ''/validate-clusterautoscalers'' ''clusterautoscalers''
     (NewServer (cfg_WebhooksPort cfg) (cfg_WebhooksCertDir cfg) tlsOpts) = Inr (first_server env cfg tlsOpts)"
  by (cases "cfg_WebhooksPort cfg \<le> 0"; cases "cfg_WebhooksCertDir cfg = []")
    (simp_all add: server_Register_def NewServer_def server_setDefaults_def Let_def first_server_def
      the_server_def registered_handlers_def)

lemma second_handler:
  "server_Register dir ''/validate-machineautoscalers'' ''machineautoscalers'' (first_server env cfg tlsOpts) =
   Inr (the_server env cfg tlsOpts)"
  by (simp add: server_Register_def first_server_def the_server_def registered_handlers_def)

lemma wp_AddWebhooks:
  fixes m :: "'opt op_runnable manager"
  assumes add: "\<And>r m. me_Add (ne_Manager env) r m = add r"
    and Q: "\<And>m'. \<lbrakk>first_failure (webhook_failures env cfg tlsOpts add) = None;
        mg_scheme m' = mg_scheme m; mg_usedNames m' = mg_usedNames m; mg_controllers m' = mg_controllers m;
        mg_runnables m' = mg_runnables m @ [RunOther (RunWebhookConfigUpdater (cfg_WatchNamespace cfg)),
          RunOther (RunWebhookServer (the_server env cfg tlsOpts))]\<rbrakk> \<Longrightarrow> Q () m'"
    and E: "\<And>e m'. first_failure (webhook_failures env cfg tlsOpts add) = Some e \<Longrightarrow> E e m'"
  shows "wp (AddWebhooks env cfg tlsOpts) Q E m"
  unfolding AddWebhooks_def Let_def wp_simps NewWebhookConfigUpdater_def first_handler
  by (auto simp: second_handler add webhook_failures_def intro!: Q E split: option.split)

definition webhook_runnables :: "'opt new_env \<Rightarrow> Config \<Rightarrow> 'opt list \<Rightarrow> 'opt op_runnable runnable list" where
  "webhook_runnables env cfg tlsOpts =
     (if cfg_WebhooksEnabled cfg
      then [RunOther (RunWebhookConfigUpdater (cfg_WatchNamespace cfg)), RunOther (RunWebhookServer (the_server env cfg tlsOpts))]
      else [])"

lemma wp_webhooks_enabled:
  fixes m :: "'opt op_runnable manager"
  assumes add: "\<And>r m. me_Add (ne_Manager env) r m = add r"
    and Q: "\<And>m'. \<lbrakk>first_failure (if cfg_WebhooksEnabled cfg then webhook_failures env cfg tlsOpts add else []) = None;
        mg_scheme m' = mg_scheme m; mg_usedNames m' = mg_usedNames m; mg_controllers m' = mg_controllers m;
        mg_runnables m' = mg_runnables m @ webhook_runnables env cfg tlsOpts\<rbrakk> \<Longrightarrow> Q () m'"
    and E: "\<And>e m'. first_failure (if cfg_WebhooksEnabled cfg then webhook_failures env cfg tlsOpts add else []) = Some e \<Longrightarrow>
        E (wrapped f e) m'"
  shows "wp (if cfg_WebhooksEnabled cfg then act_wrap f (AddWebhooks env cfg tlsOpts) else act_return ()) Q E m"
proof (cases "cfg_WebhooksEnabled cfg")
  case True
  have "wp (AddWebhooks env cfg tlsOpts) Q (\<lambda>e. E (wrapped f e)) m"
    by (rule wp_AddWebhooks [where add = add, OF add]) (use True in \<open>auto simp: webhook_runnables_def intro!: Q E\<close>)
  with True show ?thesis by (simp add: wp_act_wrap)
next
  case False
  then show ?thesis by (auto simp: wp_simps webhook_runnables_def intro!: Q)
qed

lemma wp_tls_SetupWithManager:
  assumes reg: "apiserver_gvk \<in> set (mg_scheme m)" and name: "tls_controllerName \<notin> set (mg_usedNames m)"
      "tls_controllerName \<notin> fst ` set (mg_controllers m)"
    and add: "\<And>r m. me_Add env r m = add r"
    and Q: "\<And>m'. \<lbrakk>add (RunController tls_controllerName) = None;
        mg_controllers m' = mg_controllers m @ [(tls_controllerName, [tls_watch_source])];
        mg_runnables m' = mg_runnables m @ [RunController tls_controllerName]\<rbrakk> \<Longrightarrow> Q () m'"
    and E: "\<And>e m'. add (RunController tls_controllerName) = Some e \<Longrightarrow>
        E (wrapped (GoWrap ''could not set up controller for TLS security profile watcher: %w'') e) m'"
  shows "wp (tls_SetupWithManager env) Q E m"
proof -
  let ?E = "\<lambda>e. E (wrapped (GoWrap ''could not set up controller for TLS security profile watcher: %w'') e)"
  have "wp (controller_New env tls_controllerName)
      (\<lambda>_. wp (controller_Watch tls_controllerName tls_watch_source) Q ?E) ?E m"
  proof (rule wp_controller_New [OF _ name(1)], goal_cases)
    case (2 m1)
    show ?case by (rule wp_controller_Watch [OF 2(3) name(2)]) (use 2 in \<open>auto simp: add intro!: Q\<close>)
  qed (auto simp: add tls_controllerName_def intro!: E)
  then have "wp (act_bind (controller_New env tls_controllerName)
      (\<lambda>_. controller_Watch tls_controllerName tls_watch_source)) Q ?E m" unfolding wp_bind .
  with reg show ?thesis unfolding tls_SetupWithManager_def wp_act_wrap by (simp add: wp_def)
qed

lemma wp_register_types:
  assumes "\<And>m'. \<lbrakk>ca_gvk \<in> set (mg_scheme m'); apiserver_gvk \<in> set (mg_scheme m'); mg_usedNames m' = mg_usedNames m;
      mg_controllers m' = mg_controllers m; mg_runnables m' = mg_runnables m\<rbrakk> \<Longrightarrow> Q () m'"
  shows "wp register_types Q E m"
proof -
  obtain s where s: "apis_AddToScheme (mg_scheme m) = Inr s" "ca_gvk \<in> set s" by (simp add: apis_AddToScheme_eq)
  obtain s1 where s1: "monitoring_AddToScheme s = Inr s1" "set s \<subseteq> set s1"
    by (auto simp: monitoring_AddToScheme_def AddKnownTypes_def)
  obtain s2 where s2: "config_AddToScheme s1 = Inr s2" by (simp add: config_AddToScheme_def)
  show ?thesis
    unfolding register_types_def wp_simps
    by (simp add: s s1 s2) (use s s1 apiserver_registered [OF s2] in \<open>auto intro!: assms\<close>)
qed

lemma wp_add_status:
  assumes reg: "apiserver_gvk \<in> set (mg_scheme m)" and name: "tls_controllerName \<notin> set (mg_usedNames m)"
      "tls_controllerName \<notin> fst ` set (mg_controllers m)"
    and add: "\<And>r m. me_Add (ne_Manager env) r m = add r"
    and Q: "\<And>m'. \<lbrakk>first_failure (status_failures env cfg add) = None;
        mg_controllers m' = mg_controllers m @ [(tls_controllerName, [tls_watch_source])];
        mg_runnables m' = mg_runnables m @
          [RunController tls_controllerName, RunOther (RunStatusReporter (status_reporter_config cfg))]\<rbrakk> \<Longrightarrow> Q () m'"
    and E: "\<And>e m'. first_failure (status_failures env cfg add) = Some e \<Longrightarrow> E e m'"
  shows "wp (add_status env cfg) Q E m"
  unfolding add_status_def wp_bind wp_act_wrap
proof (rule wp_tls_SetupWithManager [OF reg name, where add = add], goal_cases)
  case (2 m1)
  show ?case
  proof (cases "ne_StatusConfigClient env")
    case (Inl e)
    with 2 show ?thesis by (simp add: wp_simps NewStatusReporter_def E status_failures_def)
  next
    case (Inr u)
    with 2 show ?thesis
      by (auto simp: wp_simps NewStatusReporter_def status_failures_def add intro!: Q E split: option.split)
  qed
qed (auto simp: add status_failures_def intro!: E)

section \<open>The assembly\<close>

text \<open>The operator after a start, with its manager.\<close>

definition started ::
    "'opt new_env \<Rightarrow> Config \<Rightarrow> TLSProfileSpec \<Rightarrow> 'opt list \<Rightarrow> 'opt op_runnable runnable list \<Rightarrow> 'opt Operator \<Rightarrow> bool" where
  "started env cfg spec tlsOpts before op \<longleftrightarrow>
     or_config op = cfg \<and> or_webhookTLSOpts op = tlsOpts \<and> or_watcher op = SetupTLSProfileWatcher spec \<and>
     getFeatureGateAccessor (ne_FeatureGates env) = Inr (or_FeatureGateAccessor op) \<and>
     or_ca op = ca_controller_config (Some (CurrentFeatureGates (or_FeatureGateAccessor op))) cfg \<and>
     supported_at_startup (ne_KindFor env) (ma_controller_config cfg) = Inr (or_ma op) \<and>
     mg_controllers (or_manager op) =
       [(ca_controllerName, ca_watches), (ma_controllerName, ma_watches (or_ma op)), (tls_controllerName, [tls_watch_source])] \<and>
     mg_runnables (or_manager op) =
       before @ [RunController ca_controllerName, RunController ma_controllerName] @
       webhook_runnables env cfg tlsOpts @
       [RunController tls_controllerName, RunOther (RunStatusReporter (status_reporter_config cfg))]"

lemma wp_lift_Inr: "wp (act_lift (Inr a)) Q E = Q a"
  by (simp add: wp_simps)

lemma wp_assemble:
  fixes m :: "'opt op_runnable manager"
  assumes new: "mg_controllers m = []" "mg_usedNames m = []"
    and add: "\<And>r m. me_Add (ne_Manager env) r m = add r"
  shows "wp (assemble env cfg spec tlsOpts)
    (\<lambda>op m'. first_failure (assembly_failures env cfg tlsOpts add) = None \<and> started env cfg spec tlsOpts (mg_runnables m) (op m'))
    (\<lambda>e _. first_failure (assembly_failures env cfg tlsOpts add) = Some e) m"
  unfolding assemble_def wp_bind wp_act_wrap
proof (rule wp_register_types, goal_cases)
  case (1 m0)
  note reg = 1
  show ?case
  proof (cases "getFeatureGateAccessor (ne_FeatureGates env)")
    case (Inl e)
    then show ?thesis by (simp add: wp_simps assembly_failures_def)
  next
    case (Inr c)
    show ?thesis
      unfolding Inr wp_lift_Inr
    proof (rule wp_AddControllers [where add = add], goal_cases)
      case (5 m1 ma)
      note ctrl = 5
      show ?case
      proof (rule wp_webhooks_enabled [where add = add, OF add], goal_cases)
        case (1 m2)
        note hooks = 1
        show ?case
        proof (rule wp_add_status [where add = add], goal_cases)
          case (5 m3)
          with ctrl hooks Inr reg show ?case
            by (simp add: wp_simps assembly_failures_def started_def)
        next
          case (6 e m3)
          with ctrl hooks Inr show ?case by (simp add: assembly_failures_def)
        qed (use ctrl hooks reg add in simp_all)
      next
        case (2 e m2)
        with ctrl Inr show ?case by (simp add: assembly_failures_def del: if_split split del: if_split)
      qed
    qed (use new add reg Inr in \<open>simp_all add: assembly_failures_def\<close>)
  qed
qed

section \<open>The start\<close>

text \<open>A new manager holds nothing, and no controller has been named in the process.\<close>

definition fresh_manager :: "'opt new_env \<Rightarrow> bool" where
  "fresh_manager env \<longleftrightarrow>
     (\<forall>options m. ne_NewManager env options = Inr m \<longrightarrow>
        mg_controllers m = [] \<and> mg_usedNames m = [] \<and> mg_runnables m = [])"

text \<open>
  C19: the start is exact.  \<open>New\<close> returns an error if and only if one of its steps fails, and then the
  error of the first step that does, under the message of that step: the kinds are registered
  before a watch asks for their owners, the controllers have different names and the handlers
  different paths, so nothing else can go wrong.  Without a failure the manager runs the three
  controllers with exactly their watches, the webhook server with both validators and its updater
  where webhooks are enabled, and the status reporter, each configured from the one configuration.
\<close>

theorem startup_exact:
  assumes "fresh_manager env" "\<And>r m. me_Add (ne_Manager env) r m = add r"
  shows "case New env cfg of
      Inl e \<Rightarrow> first_failure (startup_failures env cfg add) = Some e
    | Inr op \<Rightarrow> first_failure (startup_failures env cfg add) = None \<and>
        (\<exists>spec tlsOpts honor.
          FetchClusterTLSProfile (ne_TLSConfig env) (ne_TLSConfigClient env) (ne_GetAPIServer env) = Inr (spec, tlsOpts, honor) \<and>
          started env cfg spec tlsOpts [] op)"
proof (cases "ne_GetConfig env")
  case (Inl e)
  then show ?thesis by (simp add: New_def startup_failures_def Let_def)
next
  case config: (Inr u)
  show ?thesis
  proof (cases "FetchClusterTLSProfile (ne_TLSConfig env) (ne_TLSConfigClient env) (ne_GetAPIServer env)")
    case (Inl e)
    then show ?thesis by (simp add: New_def startup_failures_def Let_def config res_wrap_def)
  next
    case (Inr x)
    obtain spec tlsOpts honor where x: "x = (spec, tlsOpts, honor)" by (cases x)
    note tls = Inr [unfolded x]
    define le where "le = GetLeaderElectionDefaults (ne_ServiceAccountNamespace env) (ne_Topology env) (operator_leader_election cfg)"
    note step = New_def startup_failures_def Let_def config tls res_wrap_def le_def [symmetric]
    show ?thesis
    proof (cases "ne_NewManager env (manager_options cfg le tlsOpts)")
      case (Inl e)
      then show ?thesis by (simp add: step)
    next
      case (Inr m)
      then have m: "mg_controllers m = []" "mg_usedNames m = []" "mg_runnables m = []"
        using assms(1) by (auto simp: fresh_manager_def)
      obtain r m' where run: "assemble env cfg spec tlsOpts m = (r, m')" by fastforce
      from wp_result [OF wp_assemble [where add = add, OF m(1,2) assms(2)] run] show ?thesis
        by (cases r) (simp_all add: step Inr run m)
    qed
  qed
qed

definition demo_new_env :: "string new_env" where
  "demo_new_env =
     \<lparr>ne_GetConfig = Inr (), ne_TLSConfigClient = Inr (),
      ne_GetAPIServer = Inr \<lparr>as_TLSSecurityProfile = None, as_TLSAdherence = []\<rparr>,
      ne_TLSConfig = ts_MinTLSVersion, ne_ServiceAccountNamespace = None, ne_Topology = Inr ''SingleReplica'',
      ne_NewManager = (\<lambda>_. Inr \<lparr>mg_scheme = [], mg_usedNames = [], mg_controllers = [], mg_runnables = []\<rparr>),
      ne_Manager = \<lparr>me_Add = \<lambda>_ _. None\<rparr>,
      ne_FeatureGates = demo_fg_env [(''RELEASE_VERSION'', ''4.19'')],
      ne_KindFor = (\<lambda>_. Inr ()), ne_DefaultCertDir = ''/tmp/k8s-webhook-server/serving-certs'',
      ne_StatusConfigClient = Inr ()\<rparr>"

theorem startup_exact_witness:
  "\<exists>op. New demo_new_env NewConfig = Inr op \<and>
     map fst (mg_controllers (or_manager op)) =
       [''cluster_autoscaler_controller'', ''machine_autoscaler_controller'', ''tlssecurityprofilewatcher''] \<and>
     length (mg_runnables (or_manager op)) = 6"
proof -
  have fresh: "fresh_manager demo_new_env" by (auto simp: fresh_manager_def demo_new_env_def)
  have add: "me_Add (ne_Manager demo_new_env) r m = (\<lambda>_. None) r" for r m by (simp add: demo_new_env_def)
  have parts: "error_of (getFeatureGateAccessor (ne_FeatureGates demo_new_env)) = None"
    "error_of (supported_at_startup (ne_KindFor demo_new_env) (ma_controller_config NewConfig)) = None"
    "map_sum id fst (FetchClusterTLSProfile (ne_TLSConfig demo_new_env) (ne_TLSConfigClient demo_new_env)
      (ne_GetAPIServer demo_new_env)) = Inr intermediate_profile" by code_simp+
  then have "first_failure (assembly_failures demo_new_env NewConfig opts (\<lambda>_. None)) = None" for opts
    by (simp add: assembly_failures_def controller_failures_def webhook_failures_def status_failures_def demo_new_env_def)
  moreover obtain x where "FetchClusterTLSProfile (ne_TLSConfig demo_new_env) (ne_TLSConfigClient demo_new_env)
      (ne_GetAPIServer demo_new_env) = Inr x" using parts(3)
    by (cases "FetchClusterTLSProfile (ne_TLSConfig demo_new_env) (ne_TLSConfigClient demo_new_env)
      (ne_GetAPIServer demo_new_env)") auto
  ultimately have none: "first_failure (startup_failures demo_new_env NewConfig (\<lambda>_. None)) = None"
    by (simp add: startup_failures_def Let_def split: prod.split) (simp add: demo_new_env_def)
  from startup_exact [OF fresh, where add = "\<lambda>_. None", OF add, of NewConfig] none
  obtain op spec tlsOpts where op: "New demo_new_env NewConfig = Inr op"
    "started demo_new_env NewConfig spec tlsOpts [] op" by (auto split: sum.splits)
  then show ?thesis
    by (auto simp: started_def webhook_runnables_def NewConfig_def DefaultWebhooksEnabled_def
        ca_controllerName_def ma_controllerName_def tls_controllerName_def)
qed

end
