(* ===== verification/Op_Version.thy ===== *)
theory Op_Version
  imports Go_Semver
begin

text \<open>
  The version of the operator (\<open>pkg/version/version.go\<close>).  The linker may replace \<open>Raw\<close>; the
  other two variables are computed from it when the package is initialised, before \<open>main\<close>, and a
  panic there ends the process.
\<close>

definition Raw :: string where
  "Raw = ''v0.0.0-was-not-built-properly''"

text \<open>\<open>strings.TrimLeft(s, "v")\<close>: all of the leading characters, not one.\<close>

definition trim_left :: "char \<Rightarrow> string \<Rightarrow> string" where
  "trim_left c s = dropWhile (\<lambda>d. d = c) s"

text \<open>\<open>MustParse\<close>; the panic's text goes on with the error of \<open>Parse\<close>.\<close>

definition MustParse :: "string \<Rightarrow> go_error + Version" where
  "MustParse s =
     (case Parse s of Inl err \<Rightarrow> Inl (GoPanic (''semver: Parse('' @ s @ '')'')) | Inr v \<Rightarrow> Inr v)"

definition parsed_Version :: "string \<Rightarrow> go_error + Version" where
  "parsed_Version raw = MustParse (trim_left (CHR ''v'') raw)"

definition version_String :: "string \<Rightarrow> string" where
  "version_String raw = ''cluster-autoscaler-operator '' @ raw"

text \<open>The initialisation of the package: the two variables, or the panic.\<close>

definition version_init :: "string \<Rightarrow> go_error + Version \<times> string" where
  "version_init raw = res_bind (parsed_Version raw) (\<lambda>v. Inr (v, version_String raw))"

lemma trim_left_version: "trim_left (CHR ''v'') (CHR ''v'' # Version_String v) = Version_String v"
proof -
  obtain d ds where d: "format_nat (ve_Major v) = d # ds" using format_nat_not_Nil by (cases "format_nat (ve_Major v)") auto
  then have "is_digit d" using format_nat_digits [of "ve_Major v"] by simp
  then have "d \<noteq> CHR ''v''" by (auto simp: is_digit_def)
  then show ?thesis by (simp add: trim_left_def Version_String_def d)
qed

lemma Parse_no_dot:
  assumes "CHR ''.'' \<notin> set s"
  shows "\<exists>e. Parse s = Inl e"
proof -
  have "split_n 3 (CHR ''.'') s = [s]" using assms by (simp add: numeral_3_eq_3 cut_on_no_sep cut_on_none)
  then show ?thesis by (simp add: Parse_def)
qed

text \<open>
  C35: The operator starts up with the version it was built with.  The default parses; a version with
  a \<open>v\<close> in front is read back as it was printed; but a \<open>Raw\<close> without a dot, such as the bare
  commit hash that \<open>git describe --always\<close> of the Makefile falls back to where no tag is reachable,
  is a panic before \<open>main\<close>.
\<close>

theorem version_startup:
  "version_init Raw =
     Inr (\<lparr>ve_Major = 0, ve_Minor = 0, ve_Patch = 0,
           ve_Pre = [\<lparr>pr_VersionStr = ''was-not-built-properly'', pr_VersionNum = 0, pr_IsNum = False\<rparr>],
           ve_Build = []\<rparr>, ''cluster-autoscaler-operator v0.0.0-was-not-built-properly'') \<and>
   (version_valid v \<longrightarrow>
     version_init (CHR ''v'' # Version_String v) = Inr (v, version_String (CHR ''v'' # Version_String v))) \<and>
   (CHR ''.'' \<notin> set raw \<longrightarrow> (\<exists>msg. version_init raw = Inl (GoPanic msg)))"
proof (intro conjI impI)
  let ?v = "\<lparr>ve_Major = 0, ve_Minor = 0, ve_Patch = 0,
           ve_Pre = [\<lparr>pr_VersionStr = ''was-not-built-properly'', pr_VersionNum = 0, pr_IsNum = False\<rparr>],
           ve_Build = []\<rparr>"
  have raw: "Raw = CHR ''v'' # Version_String ?v" by code_simp
  have "version_valid ?v"
    by (simp add: version_valid_def pr_valid_def alphanum_char_def is_digit_def Let_def)
  then have "Parse (trim_left (CHR ''v'') Raw) = Inr ?v" unfolding raw trim_left_version by (rule Parse_String)
  then show "version_init Raw = Inr (?v, ''cluster-autoscaler-operator v0.0.0-was-not-built-properly'')"
    by (simp add: version_init_def parsed_Version_def MustParse_def version_String_def) (simp add: Raw_def)
next
  assume "version_valid v"
  then show "version_init (CHR ''v'' # Version_String v) = Inr (v, version_String (CHR ''v'' # Version_String v))"
    by (simp add: version_init_def parsed_Version_def MustParse_def trim_left_version Parse_String)
next
  assume "CHR ''.'' \<notin> set raw"
  then have "CHR ''.'' \<notin> set (trim_left (CHR ''v'') raw)" by (auto simp: trim_left_def dest: set_dropWhileD)
  from Parse_no_dot [OF this] show "\<exists>msg. version_init raw = Inl (GoPanic msg)"
    by (auto simp: version_init_def parsed_Version_def MustParse_def)
qed

definition example_version :: Version where
  "example_version = \<lparr>ve_Major = 4, ve_Minor = 20, ve_Patch = 0,
     ve_Pre = [\<lparr>pr_VersionStr = ''12-gabc1234'', pr_VersionNum = 0, pr_IsNum = False\<rparr>], ve_Build = []\<rparr>"

theorem version_startup_witness:
  "version_init (CHR ''v'' # Version_String example_version) =
     Inr (example_version, version_String (CHR ''v'' # Version_String example_version)) \<and>
   (\<exists>msg. version_init ''abc1234'' = Inl (GoPanic msg))"
proof -
  have "version_valid example_version"
    by (simp add: example_version_def version_valid_def pr_valid_def alphanum_char_def is_digit_def Let_def)
  then show ?thesis
    using version_startup [of example_version "''abc1234''"] by simp
qed

end
