(* ===== verification/Go_Store.thy ===== *)
theory Go_Store
  imports CAO_Prelude "HOL-Library.Sublist"
begin

text \<open>
  The memory of a Go program as far as aliasing is concerned.  A store is the list of the cells
  allocated so far, a pointer the index of a cell or nil; nothing is freed.  A cell holds the value
  of one variable, of one backing array or of one map; the type of cells is a parameter.  A slice is
  a window of a backing array.  A read at the wrong type, which the type system of Go rules out, and
  the dereference of a nil pointer are panics.

  \<open>live m h P\<close> says that \<open>P\<close> depends on no cell of \<open>h\<close> below \<open>m\<close>: it holds however those are
  overwritten, and however the store grows.  \<open>copies rd dc\<close> is the contract of a deep copy \<open>dc\<close>
  of what \<open>rd\<close> reads: no cell that was there is written, and the copy reads as the original in
  cells of its own.  It is proved once per way of building a type, and holds of a struct by the
  rule \<open>copies_wp\<close>, one step per field.
\<close>

section \<open>Cells\<close>

type_synonym ptr = "nat option"
type_synonym 'c store = "'c list"

definition nil_dereference :: go_error where
  "nil_dereference = GoPanic ''invalid memory address or nil pointer dereference''"

definition fetch :: "('c \<Rightarrow> 'a option) \<Rightarrow> 'c store \<Rightarrow> nat \<Rightarrow> 'a option" where
  "fetch p h a = (if a < length h then p (h ! a) else None)"

definition load :: "('c \<Rightarrow> 'a option) \<Rightarrow> nat \<Rightarrow> ('c store, 'a) act" where
  "load p a h = (case fetch p h a of None \<Rightarrow> Inl nil_dereference | Some x \<Rightarrow> Inr x, h)"

definition alloc :: "'c \<Rightarrow> ('c store, nat) act" where
  "alloc c h = (Inr (length h), h @ [c])"

definition assign :: "nat \<Rightarrow> 'c \<Rightarrow> ('c store, unit) act" where
  "assign a c = act_do (\<lambda>h. h[a := c])"

record slice =
  sl_base :: nat
  sl_off :: nat
  sl_len :: nat
  sl_cap :: nat

definition window :: "slice \<Rightarrow> 'a list \<Rightarrow> 'a list" where
  "window s xs = take (sl_len s) (drop (sl_off s) xs)"

definition slice_ok :: "slice \<Rightarrow> 'a list \<Rightarrow> bool" where
  "slice_ok s xs \<longleftrightarrow> sl_len s \<le> sl_cap s \<and> sl_off s + sl_cap s \<le> length xs"

section \<open>Reading\<close>

text \<open>What a pointer, the elements of a slice and a map stand for; a nil slice has no elements.\<close>

definition read_ptr ::
  "('c \<Rightarrow> 'l option) \<Rightarrow> ('c store \<Rightarrow> 'l \<Rightarrow> 'v option) \<Rightarrow> 'c store \<Rightarrow> ptr \<Rightarrow> 'v option option" where
  "read_ptr p rd h a =
     (case a of None \<Rightarrow> Some None
      | Some a \<Rightarrow> Option.bind (fetch p h a) (\<lambda>l. map_option Some (rd h l)))"

fun read_all :: "('c store \<Rightarrow> 'l \<Rightarrow> 'v option) \<Rightarrow> 'c store \<Rightarrow> 'l list \<Rightarrow> 'v list option" where
  "read_all rd h [] = Some []"
| "read_all rd h (x # xs) =
     Option.bind (rd h x) (\<lambda>v. Option.bind (read_all rd h xs) (\<lambda>vs. Some (v # vs)))"

definition read_slice ::
  "('c \<Rightarrow> 'l list option) \<Rightarrow> ('c store \<Rightarrow> 'l \<Rightarrow> 'v option) \<Rightarrow> 'c store \<Rightarrow> slice option \<Rightarrow> 'v list option" where
  "read_slice p rd h s =
     (case s of None \<Rightarrow> Some []
      | Some s \<Rightarrow> Option.bind (fetch p h (sl_base s)) (\<lambda>xs.
          if slice_ok s xs then read_all rd h (window s xs) else None))"

definition read_map :: "('c \<Rightarrow> ('k \<times> 'a) list option) \<Rightarrow> 'c store \<Rightarrow> ptr \<Rightarrow> ('k \<times> 'a) list option option" where
  "read_map p h a =
     (case a of None \<Rightarrow> Some None
      | Some a \<Rightarrow> Option.bind (fetch p h a) (\<lambda>al. if distinct (map fst al) then Some (Some al) else None))"

text \<open>A value without pointers reads as itself.\<close>

definition read_flat :: "'c store \<Rightarrow> 'a \<Rightarrow> 'a option" where
  "read_flat h x = Some x"

section \<open>Copying\<close>

text \<open>\<open>*out = new(T); **out = **in\<close>, where the pointer is not nil.\<close>

definition copy_value :: "('c \<Rightarrow> 'a option) \<Rightarrow> ('a \<Rightarrow> 'c) \<Rightarrow> ptr \<Rightarrow> ('c store, ptr) act" where
  "copy_value p i a =
     (case a of None \<Rightarrow> act_return None
      | Some a \<Rightarrow> act_bind (load p a) (\<lambda>x. act_bind (alloc (i x)) (\<lambda>b. act_return (Some b))))"

text \<open>
  \<open>out := new(T); in.DeepCopyInto(out)\<close>, where the pointer is not nil.  Every \<open>DeepCopyInto\<close> starts
  with \<open>*out = *in\<close>, so the new cell starts with the contents of the old one; the rest of it,
  \<open>dc\<close>, takes those to the contents in the end.
\<close>

definition copy_struct ::
  "('c \<Rightarrow> 'l option) \<Rightarrow> ('l \<Rightarrow> 'c) \<Rightarrow> ('l \<Rightarrow> ('c store, 'l) act) \<Rightarrow> ptr \<Rightarrow> ('c store, ptr) act" where
  "copy_struct p i dc a =
     (case a of None \<Rightarrow> act_return None
      | Some a \<Rightarrow>
          act_bind (load p a) (\<lambda>l.
          act_bind (alloc (i l)) (\<lambda>b.
          act_bind (dc l) (\<lambda>l'.
          act_bind (assign b (i l')) (\<lambda>_. act_return (Some b))))))"

text \<open>\<open>*out = make([]T, len(*in))\<close>, then \<open>copy(*out, *in)\<close>: the capacity is the length.\<close>

definition copy_array ::
  "('c \<Rightarrow> 'a list option) \<Rightarrow> ('a list \<Rightarrow> 'c) \<Rightarrow> slice option \<Rightarrow> ('c store, slice option) act" where
  "copy_array p i s =
     (case s of None \<Rightarrow> act_return None
      | Some s \<Rightarrow>
          act_bind (load p (sl_base s)) (\<lambda>xs.
          act_bind (alloc (i (window s xs))) (\<lambda>b.
            act_return (Some \<lparr>sl_base = b, sl_off = 0, sl_len = sl_len s, sl_cap = sl_len s\<rparr>))))"

text \<open>The same with a loop that deep-copies every element into its place.\<close>

fun copy_all :: "('l \<Rightarrow> ('c store, 'l) act) \<Rightarrow> 'l list \<Rightarrow> ('c store, 'l list) act" where
  "copy_all dc [] = act_return []"
| "copy_all dc (x # xs) =
     act_bind (dc x) (\<lambda>y. act_bind (copy_all dc xs) (\<lambda>ys. act_return (y # ys)))"

definition copy_elements ::
  "('c \<Rightarrow> 'l list option) \<Rightarrow> ('l list \<Rightarrow> 'c) \<Rightarrow> ('l \<Rightarrow> ('c store, 'l) act) \<Rightarrow> slice option \<Rightarrow>
    ('c store, slice option) act" where
  "copy_elements p i dc s =
     (case s of None \<Rightarrow> act_return None
      | Some s \<Rightarrow>
          act_bind (load p (sl_base s)) (\<lambda>xs.
          act_bind (alloc (i (window s xs))) (\<lambda>b.
          act_bind (copy_all dc (window s xs)) (\<lambda>ys.
          act_bind (assign b (i ys)) (\<lambda>_.
            act_return (Some \<lparr>sl_base = b, sl_off = 0, sl_len = sl_len s, sl_cap = sl_len s\<rparr>))))))"

text \<open>\<open>make(map[K]V, len(*in))\<close>, then one insertion per key, in the order of the iteration.\<close>

definition copy_map ::
  "('c \<Rightarrow> ('k \<times> 'a) list option) \<Rightarrow> (('k \<times> 'a) list \<Rightarrow> 'c) \<Rightarrow> ptr \<Rightarrow> ('c store, ptr) act" where
  "copy_map p i a =
     (case a of None \<Rightarrow> act_return None
      | Some a \<Rightarrow>
          act_bind (load p a) (\<lambda>al.
          act_bind (alloc (i [])) (\<lambda>b.
          act_bind (assign b (i (fold (\<lambda>(k, v). AList.update k v) al []))) (\<lambda>_. act_return (Some b)))))"

section \<open>What depends on which cells\<close>

definition agree :: "nat \<Rightarrow> nat \<Rightarrow> 'c store \<Rightarrow> 'c store \<Rightarrow> bool" where
  "agree m n h h' \<longleftrightarrow> n \<le> length h' \<and> (\<forall>a. m \<le> a \<longrightarrow> a < n \<longrightarrow> h' ! a = h ! a)"

definition live :: "nat \<Rightarrow> 'c store \<Rightarrow> ('c store \<Rightarrow> bool) \<Rightarrow> bool" where
  "live m h P \<longleftrightarrow> (\<forall>h'. agree m (length h) h h' \<longrightarrow> P h')"

lemma agree_refl: "agree m (length h) h h"
  by (simp add: agree_def)

lemma agree_prefix: "prefix h h' \<Longrightarrow> agree m (length h) h h'"
  by (auto simp: agree_def prefix_def nth_append)

lemma prefix_agree: "prefix h h' \<longleftrightarrow> agree 0 (length h) h h'"
proof
  assume "agree 0 (length h) h h'"
  then have "h = take (length h) h'" by (intro nth_equalityI) (auto simp: agree_def)
  then show "prefix h h'" by (metis take_is_prefix)
qed (rule agree_prefix)

lemma agree_trans:
  assumes "agree m (length h) h h1" "agree m (length h1) h1 h2"
  shows "agree m (length h) h h2"
  using assms by (auto simp: agree_def)

lemma agree_mono: "agree m n h h' \<Longrightarrow> m \<le> m' \<Longrightarrow> agree m' n h h'"
  by (simp add: agree_def)

lemma liveD: "live m h P \<Longrightarrow> P h"
  using agree_refl by (auto simp: live_def)

lemma live_agree: "live m h P \<Longrightarrow> agree m (length h) h h' \<Longrightarrow> live m h' P"
  by (auto simp: live_def intro: agree_trans)

lemma live_prefix: "live m h P \<Longrightarrow> prefix h h' \<Longrightarrow> live m h' P"
  by (erule live_agree) (rule agree_prefix)

lemma live_mono: "live m h P \<Longrightarrow> (\<And>h. P h \<Longrightarrow> Q h) \<Longrightarrow> live m h Q"
  by (auto simp: live_def)

lemma live_from: "live m h P \<Longrightarrow> m' \<le> m \<Longrightarrow> live m' h P"
  by (auto simp: live_def intro: agree_mono)

lemma live_conj: "live m h (\<lambda>h. P h \<and> Q h) \<longleftrightarrow> live m h P \<and> live m h Q"
  by (auto simp: live_def)

lemma live_true: "live m h (\<lambda>_. True)"
  by (simp add: live_def)

lemma live_update: "live m h P \<Longrightarrow> b < m \<Longrightarrow> live m (h[b := c]) P"
  by (erule live_agree) (auto simp: agree_def)

lemma live_fetch: "m \<le> a \<Longrightarrow> a < length h \<Longrightarrow> p (h ! a) = Some x \<Longrightarrow> live m h (\<lambda>h. fetch p h a = Some x)"
  by (simp add: live_def agree_def fetch_def)

lemma fetch_prefix: "fetch p h a = Some x \<Longrightarrow> prefix h h' \<Longrightarrow> fetch p h' a = Some x"
  by (auto simp: fetch_def prefix_def nth_append split: if_splits)

section \<open>The contract of a deep copy\<close>

definition grows :: "('c store \<Rightarrow> 'l \<Rightarrow> 'v option) \<Rightarrow> bool" where
  "grows rd \<longleftrightarrow> (\<forall>h h' l v. rd h l = Some v \<longrightarrow> prefix h h' \<longrightarrow> rd h' l = Some v)"

definition copies :: "('c store \<Rightarrow> 'l \<Rightarrow> 'v option) \<Rightarrow> ('l \<Rightarrow> ('c store, 'l) act) \<Rightarrow> bool" where
  "copies rd dc \<longleftrightarrow> grows rd \<and>
     (\<forall>h l v. rd h l = Some v \<longrightarrow>
       (\<exists>l' h'. dc l h = (Inr l', h') \<and> prefix h h' \<and> live (length h) h' (\<lambda>h. rd h l' = Some v)))"

lemma growsD: "grows rd \<Longrightarrow> rd h l = Some v \<Longrightarrow> prefix h h' \<Longrightarrow> rd h' l = Some v"
  unfolding grows_def by meson

lemma copies_grows: "copies rd dc \<Longrightarrow> grows rd"
  by (simp add: copies_def)

text \<open>
  One step of a copy that began at \<open>h0\<close>: \<open>P\<close> collects what has been copied so far.
\<close>

lemma copies_wp:
  assumes "copies rd dc" "rd h0 l = Some v" "prefix h0 h" "live (length h0) h P"
    and Q: "\<And>l' h'. prefix h0 h' \<Longrightarrow> prefix h h' \<Longrightarrow> live (length h0) h' (\<lambda>h. P h \<and> rd h l' = Some v) \<Longrightarrow> Q l' h'"
  shows "wp (dc l) Q E h"
proof -
  have "rd h l = Some v" by (rule growsD [OF copies_grows [OF assms(1)] assms(2,3)])
  then obtain l' h' where *: "dc l h = (Inr l', h')" "prefix h h'"
    "live (length h) h' (\<lambda>h. rd h l' = Some v)"
    using assms(1) [unfolded copies_def] by blast
  have "live (length h0) h' (\<lambda>h. rd h l' = Some v)"
    using *(3) by (rule live_from) (simp add: assms(3) prefix_length_le)
  moreover have "live (length h0) h' P" using assms(4) *(2) by (rule live_prefix)
  ultimately have "Q l' h'" using Q assms(3) *(2) by (simp add: live_conj prefix_order.trans)
  with * show ?thesis by (simp add: wp_def)
qed

lemma copiesI:
  assumes "grows rd"
    and "\<And>h l v. rd h l = Some v \<Longrightarrow>
      wp (dc l) (\<lambda>l' h'. prefix h h' \<and> live (length h) h' (\<lambda>h. rd h l' = Some v)) (\<lambda>_ _. False) h"
  shows "copies rd dc"
  unfolding copies_def
proof (intro conjI allI impI)
  fix h l v assume "rd h l = Some v"
  from assms(2) [OF this] show "\<exists>l' h'. dc l h = (Inr l', h') \<and> prefix h h' \<and> live (length h) h' (\<lambda>h. rd h l' = Some v)"
    by (auto simp: wp_def split: prod.splits sum.splits)
qed (fact assms(1))

lemma wp_load: "fetch p h a = Some x \<Longrightarrow> Q x h \<Longrightarrow> wp (load p a) Q E h"
  by (simp add: wp_def load_def)

lemma wp_alloc [wp_simps]: "wp (alloc c) Q E = (\<lambda>h. Q (length h) (h @ [c]))"
  by (simp add: wp_def alloc_def fun_eq_iff)

lemma wp_assign [wp_simps]: "wp (assign a c) Q E = (\<lambda>h. Q () (h[a := c]))"
  by (simp add: assign_def wp_simps)

subsection \<open>It holds of pointers, slices and maps\<close>

lemma grows_flat [intro]: "grows read_flat"
  by (simp add: grows_def read_flat_def)

lemma copies_flat [intro]: "copies read_flat act_return"
  by (auto intro!: copiesI simp: wp_simps read_flat_def live_def)

lemma grows_ptr [intro]: "grows rd \<Longrightarrow> grows (read_ptr p rd)"
  unfolding grows_def
proof (intro allI impI)
  fix h h' :: "'a store" and l v
  assume rd: "\<forall>h h' l v. rd h l = Some v \<longrightarrow> prefix h h' \<longrightarrow> rd h' l = Some v"
    and l: "read_ptr p rd h l = Some v" and h: "prefix h h'"
  show "read_ptr p rd h' l = Some v"
  proof (cases l)
    case (Some a)
    with l obtain x w where x: "fetch p h a = Some x" "rd h x = Some w" "v = Some w"
      by (auto simp: read_ptr_def bind_eq_Some_conv)
    moreover from this rd h have "rd h' x = Some w" by blast
    ultimately show ?thesis using Some fetch_prefix [OF x(1) h] by (simp add: read_ptr_def)
  qed (use l in \<open>simp add: read_ptr_def\<close>)
qed

lemma grows_all [intro]: "grows rd \<Longrightarrow> grows (read_all rd)"
  unfolding grows_def [of "read_all rd"]
proof (intro allI impI)
  fix h h' :: "'a store" and l v
  assume rd: "grows rd" and "read_all rd h l = Some v" and h: "prefix h h'"
  then show "read_all rd h' l = Some v"
  proof (induction l arbitrary: v)
    case (Cons x xs)
    then obtain w ws where x: "rd h x = Some w" "read_all rd h xs = Some ws" "v = w # ws"
      by (auto simp: bind_eq_Some_conv)
    then show ?case using growsD [OF rd x(1) h] Cons.IH [OF rd x(2) h] by simp
  qed simp
qed

lemma grows_slice [intro]: "grows rd \<Longrightarrow> grows (read_slice p rd)"
  unfolding grows_def [of "read_slice p rd"]
proof (intro allI impI)
  fix h h' :: "'a store" and l v
  assume rd: "grows rd" and l: "read_slice p rd h l = Some v" and h: "prefix h h'"
  show "read_slice p rd h' l = Some v"
  proof (cases l)
    case (Some s)
    with l obtain xs where xs: "fetch p h (sl_base s) = Some xs" "slice_ok s xs" "read_all rd h (window s xs) = Some v"
      by (auto simp: read_slice_def bind_eq_Some_conv split: if_splits)
    then show ?thesis
      using Some fetch_prefix [OF xs(1) h] growsD [OF grows_all [OF rd] xs(3) h] by (simp add: read_slice_def)
  qed (use l in \<open>simp add: read_slice_def\<close>)
qed

lemma grows_map [intro]: "grows (read_map p)"
  unfolding grows_def
proof (intro allI impI)
  fix h h' :: "'a store" and l v
  assume l: "read_map p h l = Some v" and h: "prefix h h'"
  show "read_map p h' l = Some v"
  proof (cases l)
    case (Some a)
    with l obtain al where al: "fetch p h a = Some al" "distinct (map fst al)" "v = Some al"
      by (auto simp: read_map_def bind_eq_Some_conv split: if_splits)
    then show ?thesis using Some fetch_prefix [OF al(1) h] by (simp add: read_map_def)
  qed (use l in \<open>simp add: read_map_def\<close>)
qed


lemma read_ptr_Some:
  "read_ptr p rd h a = Some v \<Longrightarrow> (a = None \<Longrightarrow> v = None \<Longrightarrow> thesis) \<Longrightarrow>
    (\<And>b l w. a = Some b \<Longrightarrow> fetch p h b = Some l \<Longrightarrow> rd h l = Some w \<Longrightarrow> v = Some w \<Longrightarrow> thesis) \<Longrightarrow> thesis"
  by (cases a) (auto simp: read_ptr_def bind_eq_Some_conv)

lemma read_slice_Some:
  "read_slice p rd h a = Some v \<Longrightarrow> (a = None \<Longrightarrow> v = [] \<Longrightarrow> thesis) \<Longrightarrow>
    (\<And>s xs. a = Some s \<Longrightarrow> fetch p h (sl_base s) = Some xs \<Longrightarrow> slice_ok s xs \<Longrightarrow>
      read_all rd h (window s xs) = Some v \<Longrightarrow> thesis) \<Longrightarrow> thesis"
  by (cases a) (auto simp: read_slice_def bind_eq_Some_conv split: if_splits)

text \<open>The cell allocated first is the one assigned last; what the copy holds lies above it.\<close>

lemma fill_cell:
  assumes "prefix (h @ [c]) h'" "live (Suc (length h)) h' P"
  shows "prefix h (h'[length h := c'])" "fetch p (h'[length h := c']) (length h) = p c'"
    and "live (length h) (h'[length h := c']) (\<lambda>h1. h1 ! length h = c' \<and> length h < length h1 \<and> P h1)"
proof -
  have len: "length h < length h'" using assms(1) prefix_length_le [OF assms(1)] by simp
  obtain t where h': "h' = h @ c # t" using assms(1) by (auto simp: prefix_def)
  then show "prefix h (h'[length h := c'])" "fetch p (h'[length h := c']) (length h) = p c'"
    by (simp_all add: list_update_append fetch_def)
  have "live (Suc (length h)) (h'[length h := c']) P" using assms(2) by (rule live_update) simp
  then have "live (length h) (h'[length h := c']) P" by (rule live_from) simp
  moreover have "live (length h) (h'[length h := c']) (\<lambda>h1. h1 ! length h = c' \<and> length h < length h1)"
    using len by (auto simp: live_def agree_def)
  ultimately show "live (length h) (h'[length h := c']) (\<lambda>h1. h1 ! length h = c' \<and> length h < length h1 \<and> P h1)"
    by (simp add: live_def)
qed

lemma copies_value [intro]:
  assumes "\<And>x. p (i x) = Some x"
  shows "copies (read_ptr p read_flat) (copy_value p i)"
proof (rule copiesI)
  fix h a v assume "read_ptr p read_flat h a = Some v"
  then show "wp (copy_value p i a)
      (\<lambda>l' h'. prefix h h' \<and> live (length h) h' (\<lambda>h. read_ptr p read_flat h l' = Some v)) (\<lambda>_ _. False) h"
  proof (rule read_ptr_Some)
    fix b l w assume "a = Some b" "fetch p h b = Some l" "read_flat h l = Some w" "v = Some w"
    then show ?thesis
      by (auto simp: copy_value_def wp_simps read_ptr_def read_flat_def live_def agree_def fetch_def assms
          intro!: wp_load)
  qed (simp add: copy_value_def wp_simps read_ptr_def live_true)
qed auto

lemma copies_struct [intro]:
  assumes "\<And>x. p (i x) = Some x" "copies rd dc"
  shows "copies (read_ptr p rd) (copy_struct p i dc)"
proof (rule copiesI)
  fix h a v assume "read_ptr p rd h a = Some v"
  then show "wp (copy_struct p i dc a)
      (\<lambda>l' h'. prefix h h' \<and> live (length h) h' (\<lambda>h. read_ptr p rd h l' = Some v)) (\<lambda>_ _. False) h"
  proof (rule read_ptr_Some)
    fix b l w assume *: "a = Some b" "fetch p h b = Some l" "rd h l = Some w" "v = Some w"
    have "wp (dc l) (\<lambda>l' h'. prefix h (h'[length h := i l']) \<and>
        live (length h) (h'[length h := i l']) (\<lambda>h1. read_ptr p rd h1 (Some (length h)) = Some v))
        (\<lambda>_ _. False) (h @ [i l])"
    proof (rule copies_wp [OF assms(2) _ _ live_true])
      show "rd (h @ [i l]) l = Some w" using copies_grows [OF assms(2)] *(3) by (rule growsD) simp
      fix l' h' assume h': "prefix (h @ [i l]) h'" "live (length (h @ [i l])) h' (\<lambda>h. True \<and> rd h l' = Some w)"
      then have "live (Suc (length h)) h' (\<lambda>h. rd h l' = Some w)" by simp
      note fill = fill_cell [OF h'(1) this, where c' = "i l'"]
      show "prefix h (h'[length h := i l']) \<and>
        live (length h) (h'[length h := i l']) (\<lambda>h1. read_ptr p rd h1 (Some (length h)) = Some v)"
        using fill(1) live_mono [OF fill(3)] by (simp add: read_ptr_def fetch_def assms(1) *(4))
    qed simp
    with *(1,2) show ?thesis by (auto simp: copy_struct_def wp_simps intro!: wp_load)
  qed (simp add: copy_struct_def wp_simps read_ptr_def live_true)
qed (use copies_grows [OF assms(2)] in auto)

lemma read_all_flat [simp]: "read_all read_flat h xs = Some xs"
  by (induction xs) (auto simp: read_flat_def)

lemma window_all: "slice_ok s xs \<Longrightarrow> length (window s xs) = sl_len s"
  by (auto simp: slice_ok_def window_def)

lemma whole_window: "length ys = n \<Longrightarrow> window \<lparr>sl_base = b, sl_off = 0, sl_len = n, sl_cap = n\<rparr> ys = ys"
  by (simp add: window_def)

lemma copies_array [intro]:
  assumes "\<And>x. p (i x) = Some x"
  shows "copies (read_slice p read_flat) (copy_array p i)"
proof (rule copiesI)
  fix h a v assume "read_slice p read_flat h a = Some v"
  then show "wp (copy_array p i a)
      (\<lambda>l' h'. prefix h h' \<and> live (length h) h' (\<lambda>h. read_slice p read_flat h l' = Some v)) (\<lambda>_ _. False) h"
  proof (rule read_slice_Some)
    fix s xs assume "a = Some s" "fetch p h (sl_base s) = Some xs" "slice_ok s xs"
      "read_all read_flat h (window s xs) = Some v"
    then show ?thesis
      by (auto simp: copy_array_def wp_simps read_slice_def live_def agree_def fetch_def assms slice_ok_def
          window_def intro!: wp_load)
  qed (simp add: copy_array_def wp_simps read_slice_def live_true)
qed auto

lemma copies_all [intro]:
  assumes "copies rd dc"
  shows "copies (read_all rd) (copy_all dc)"
proof (rule copiesI)
  fix h l v
  have "wp (copy_all dc l) (\<lambda>l' h'. prefix h0 h' \<and> live (length h0) h' (\<lambda>h. P h \<and> read_all rd h l' = Some v)) (\<lambda>_ _. False) h"
    if "read_all rd h0 l = Some v" "prefix h0 h" "live (length h0) h P" for h0 h P
    using that
  proof (induction l arbitrary: v h P)
    case Nil
    then show ?case by (simp add: wp_simps)
  next
    case (Cons x xs)
    then obtain w ws where v: "rd h0 x = Some w" "read_all rd h0 xs = Some ws" "v = w # ws"
      by (auto simp: bind_eq_Some_conv)
    show ?case unfolding copy_all.simps wp_simps
    proof (rule copies_wp [OF assms v(1) Cons.prems(2,3)])
      fix y h1 assume h1: "prefix h0 h1" "live (length h0) h1 (\<lambda>h. P h \<and> rd h y = Some w)"
      show "wp (copy_all dc xs) (\<lambda>ys h'. prefix h0 h' \<and>
          live (length h0) h' (\<lambda>h. P h \<and> read_all rd h (y # ys) = Some v)) (\<lambda>_ _. False) h1"
        by (rule wp_mono [OF Cons.IH [OF v(2) h1]]) (auto simp: v(3) elim!: live_mono)
    qed
  qed
  from this [OF _ prefix_order.refl live_true]
  show "read_all rd h l = Some v \<Longrightarrow>
    wp (copy_all dc l) (\<lambda>l' h'. prefix h h' \<and> live (length h) h' (\<lambda>h. read_all rd h l' = Some v)) (\<lambda>_ _. False) h"
    by simp
qed (use copies_grows [OF assms] in auto)


lemma read_all_length: "read_all rd h xs = Some vs \<Longrightarrow> length vs = length xs"
  by (induction xs arbitrary: vs) (auto simp: bind_eq_Some_conv)

lemma copies_elements [intro]:
  assumes "\<And>x. p (i x) = Some x" "copies rd dc"
  shows "copies (read_slice p rd) (copy_elements p i dc)"
proof (rule copiesI)
  fix h a v assume "read_slice p rd h a = Some v"
  then show "wp (copy_elements p i dc a)
      (\<lambda>l' h'. prefix h h' \<and> live (length h) h' (\<lambda>h. read_slice p rd h l' = Some v)) (\<lambda>_ _. False) h"
  proof (rule read_slice_Some)
    fix s xs assume *: "a = Some s" "fetch p h (sl_base s) = Some xs" "slice_ok s xs"
      "read_all rd h (window s xs) = Some v"
    let ?s = "\<lparr>sl_base = length h, sl_off = 0, sl_len = sl_len s, sl_cap = sl_len s\<rparr>"
    let ?c = "i (window s xs)"
    have "wp (copy_all dc (window s xs)) (\<lambda>ys h'. prefix h (h'[length h := i ys]) \<and>
        live (length h) (h'[length h := i ys]) (\<lambda>h1. read_slice p rd h1 (Some ?s) = Some v))
        (\<lambda>_ _. False) (h @ [?c])"
    proof (rule copies_wp [OF copies_all [OF assms(2)] _ _ live_true])
      show "read_all rd (h @ [?c]) (window s xs) = Some v"
        using grows_all [OF copies_grows [OF assms(2)]] *(4) by (rule growsD) simp
      fix ys h' assume h': "prefix (h @ [?c]) h'"
        "live (length (h @ [?c])) h' (\<lambda>h. True \<and> read_all rd h ys = Some v)"
      then have live: "live (Suc (length h)) h' (\<lambda>h. read_all rd h ys = Some v)" by simp
      note fill = fill_cell [OF h'(1) live, where c' = "i ys"]
      have len: "length ys = sl_len s"
        using read_all_length [OF liveD [OF live]] read_all_length [OF *(4)] window_all [OF *(3)] by simp
      show "prefix h (h'[length h := i ys]) \<and>
        live (length h) (h'[length h := i ys]) (\<lambda>h1. read_slice p rd h1 (Some ?s) = Some v)"
        using fill(1) live_mono [OF fill(3)] len
        by (simp add: read_slice_def fetch_def assms(1) slice_ok_def whole_window)
    qed simp
    with *(1,2) show ?thesis by (auto simp: copy_elements_def wp_simps intro!: wp_load)
  qed (simp add: copy_elements_def wp_simps read_slice_def live_true)
qed (use copies_grows [OF assms(2)] in auto)

lemma fold_update_distinct:
  "distinct (map fst (bs @ al)) \<Longrightarrow> fold (\<lambda>(k, v). AList.update k v) al bs = bs @ al"
proof (induction al arbitrary: bs)
  case (Cons b al)
  obtain k v where b: "b = (k, v)" by (cases b)
  have "AList.update k v bs = bs @ [(k, v)]" if "k \<notin> fst ` set bs"
    using that by (induction bs) auto
  with Cons.prems b have "AList.update k v bs = bs @ [(k, v)]" by auto
  with Cons.IH [of "bs @ [(k, v)]"] Cons.prems b show ?case by simp
qed simp

lemma copies_map [intro]:
  assumes "\<And>x. p (i x) = Some x"
  shows "copies (read_map p) (copy_map p i)"
proof (rule copiesI)
  fix h a v assume v: "read_map p h a = Some v"
  show "wp (copy_map p i a)
      (\<lambda>l' h'. prefix h h' \<and> live (length h) h' (\<lambda>h. read_map p h l' = Some v)) (\<lambda>_ _. False) h"
  proof (cases a)
    case (Some b)
    with v obtain al where "fetch p h b = Some al" "distinct (map fst al)" "v = Some al"
      by (auto simp: read_map_def bind_eq_Some_conv split: if_splits)
    with Some show ?thesis
      by (auto simp: copy_map_def wp_simps read_map_def live_def agree_def fetch_def assms
          fold_update_distinct [of "[]", simplified] intro!: wp_load)
  qed (use v in \<open>simp add: copy_map_def wp_simps read_map_def live_true\<close>)
qed auto

text \<open>A nil slice stays nil and an empty one does not become nil.\<close>

lemma copy_nil:
  "copy_array p i s h = (Inr s', h') \<Longrightarrow> s' = None \<longleftrightarrow> s = None"
  "copy_elements p i dc s h = (Inr s', h') \<Longrightarrow> s' = None \<longleftrightarrow> s = None"
  by (auto simp: copy_array_def copy_elements_def act_simps act_bind_Inr_iff split: option.splits)


section \<open>Structs, field by field\<close>

text \<open>
  \<open>copy_steps\<close> collects the rule \<open>copies_wp\<close> for each kind of field, \<open>copy_reads\<close> that
  the reading of a field is stable as the store grows.
\<close>

named_theorems copy_steps
named_theorems copy_reads

definition stable :: "('c store \<Rightarrow> 'v option) \<Rightarrow> bool" where
  "stable f \<longleftrightarrow> (\<forall>h h' v. f h = Some v \<longrightarrow> prefix h h' \<longrightarrow> f h' = Some v)"

lemma growsI: "(\<And>l. stable (\<lambda>h. rd h l)) \<Longrightarrow> grows rd"
  unfolding grows_def stable_def by blast

lemma stable_Some [copy_reads]: "stable (\<lambda>h. Some x)"
  by (simp add: stable_def)

lemma stable_bind [copy_reads]:
  assumes "stable f" "\<And>x. stable (g x)"
  shows "stable (\<lambda>h. Option.bind (f h) (\<lambda>x. g x h))"
  unfolding stable_def
proof (intro allI impI)
  fix h h' v assume "Option.bind (f h) (\<lambda>x. g x h) = Some v" and h: "prefix h h'"
  then obtain x where x: "f h = Some x" "g x h = Some v" by (auto simp: bind_eq_Some_conv)
  then have "f h' = Some x" "g x h' = Some v" using assms h unfolding stable_def by blast+
  then show "Option.bind (f h') (\<lambda>x. g x h') = Some v" by simp
qed

lemma copies_stable: "copies rd dc \<Longrightarrow> stable (\<lambda>h. rd h l)"
  using copies_grows [of rd dc] unfolding grows_def stable_def by blast

lemma copies_fieldsI:
  assumes "grows rd"
    and "\<And>h l v. \<lbrakk>rd h l = Some v; prefix h h; live (length h) h (\<lambda>_. True)\<rbrakk> \<Longrightarrow>
      wp (dc l) (\<lambda>l' h'. prefix h h' \<and> live (length h) h' (\<lambda>h. rd h l' = Some v)) (\<lambda>_ _. False) h"
  shows "copies rd dc"
  using assms by (intro copiesI) (simp_all add: live_true)

end
