(* ===== verification/API_Memory.thy ===== *)
theory API_Memory
  imports Go_Store CA_Types MA_Types
begin

text \<open>
  The API types as they lie in memory.  A record \<open>l_T\<close> has the fields of the Go struct \<open>T\<close>, with
  pointers, slice headers and map references where the struct has them; \<open>read_T\<close> gives the
  value it stands for, in the records the rest of the development computes with.  A struct
  without pointers is its own layout.  The metadata is complete here, \<open>FullMeta\<close>; the fields the operator
  uses are its truncation \<open>ObjectMeta\<close>.  A timestamp is its text, for \<open>time.Time\<close> is never
  written through; a resource version is a number, as in \<open>ObjectMeta\<close>.
\<close>

section \<open>Metadata\<close>

record TypeMeta =
  tm_Kind :: string
  tm_APIVersion :: string

record ShardInfo =
  si_Selector :: string

record l_OwnerReference =
  lor_apiVersion :: string
  lor_kind :: string
  lor_name :: string
  lor_uid :: string
  lor_controller :: ptr
  lor_blockOwnerDeletion :: ptr

record l_FieldsV1 =
  lfv_Raw :: "slice option"

record l_ManagedFieldsEntry =
  lmf_Manager :: string
  lmf_Operation :: string
  lmf_APIVersion :: string
  lmf_Time :: ptr
  lmf_FieldsType :: string
  lmf_FieldsV1 :: ptr
  lmf_Subresource :: string

record l_ObjectMeta =
  lom_name :: string
  lom_generateName :: string
  lom_namespace :: string
  lom_selfLink :: string
  lom_uid :: string
  lom_resourceVersion :: nat
  lom_generation :: int
  lom_creationTimestamp :: string
  lom_deletionTimestamp :: ptr
  lom_deletionGracePeriodSeconds :: ptr
  lom_labels :: ptr
  lom_annotations :: ptr
  lom_ownerReferences :: "slice option"
  lom_finalizers :: "slice option"
  lom_managedFields :: "slice option"

record l_ListMeta =
  llm_SelfLink :: string
  llm_ResourceVersion :: string
  llm_Continue :: string
  llm_RemainingItemCount :: ptr
  llm_ShardInfo :: ptr

section \<open>The group \<open>autoscaling.openshift.io/v1\<close>\<close>

record l_ResourceLimits =
  lrl_MaxNodesTotal :: ptr
  lrl_Cores :: ptr
  lrl_Memory :: ptr
  lrl_GPUS :: "slice option"

record l_ScaleDownConfig =
  lsd_Enabled :: bool
  lsd_DelayAfterAdd :: ptr
  lsd_DelayAfterDelete :: ptr
  lsd_DelayAfterFailure :: ptr
  lsd_UnneededTime :: ptr
  lsd_UtilizationThreshold :: ptr
  lsd_CordonNodeBeforeTerminating :: ptr

record l_ScaleUpConfig =
  lsu_NewPodScaleUpDelay :: ptr

record l_ClusterAutoscalerSpec =
  lcs_ResourceLimits :: ptr
  lcs_ScaleDown :: ptr
  lcs_ScaleUp :: ptr
  lcs_MaxPodGracePeriod :: ptr
  lcs_MaxNodeProvisionTime :: string
  lcs_PodPriorityThreshold :: ptr
  lcs_BalanceSimilarNodeGroups :: ptr
  lcs_BalancingIgnoredLabels :: "slice option"
  lcs_IgnoreDaemonsetsUtilization :: ptr
  lcs_SkipNodesWithLocalStorage :: ptr
  lcs_LogVerbosity :: ptr
  lcs_Expanders :: "slice option"
  lcs_EnforceNodeGroupMinSize :: ptr
  lcs_StartupTaints :: "slice option"

record l_ClusterAutoscaler =
  lca_TypeMeta :: TypeMeta
  lca_ObjectMeta :: l_ObjectMeta
  lca_Spec :: l_ClusterAutoscalerSpec
  lca_Status :: unit

record l_ClusterAutoscalerList =
  lcl_TypeMeta :: TypeMeta
  lcl_ListMeta :: l_ListMeta
  lcl_Items :: "slice option"

section \<open>The group \<open>autoscaling.openshift.io/v1beta1\<close>\<close>

record MachineAutoscalerSpec =
  msp_MinReplicas :: int32
  msp_MaxReplicas :: int32
  msp_ScaleTargetRef :: CrossVersionObjectReference

record l_MachineAutoscalerStatus =
  lms_LastTargetRef :: ptr

record l_MachineAutoscaler =
  lma_TypeMeta :: TypeMeta
  lma_ObjectMeta :: l_ObjectMeta
  lma_Spec :: MachineAutoscalerSpec
  lma_Status :: l_MachineAutoscalerStatus

record l_MachineAutoscalerList =
  lml_TypeMeta :: TypeMeta
  lml_ListMeta :: l_ListMeta
  lml_Items :: "slice option"

section \<open>Cells\<close>

text \<open>Everything a pointer, a slice or a map of these types can refer to.\<close>

datatype cell =
    CInt32 int32
  | CInt64 "64 word"
  | CBool bool
  | CString string
  | CTime string
  | CStrings "string list"
  | CBytes string
  | CStringMap "(string \<times> string) list"
  | CFieldsV1 l_FieldsV1
  | CShardInfo ShardInfo
  | COwnerReferences "l_OwnerReference list"
  | CManagedFields "l_ManagedFieldsEntry list"
  | CResourceRange ResourceRange
  | CGPULimit GPULimit
  | CGPULimits "GPULimit list"
  | CResourceLimits l_ResourceLimits
  | CScaleDownConfig l_ScaleDownConfig
  | CScaleUpConfig l_ScaleUpConfig
  | CClusterAutoscalerSpec l_ClusterAutoscalerSpec
  | CClusterAutoscalerStatus unit
  | CClusterAutoscaler l_ClusterAutoscaler
  | CClusterAutoscalers "l_ClusterAutoscaler list"
  | CClusterAutoscalerList l_ClusterAutoscalerList
  | CCrossVersionObjectReference CrossVersionObjectReference
  | CMachineAutoscalerSpec MachineAutoscalerSpec
  | CMachineAutoscalerStatus l_MachineAutoscalerStatus
  | CMachineAutoscaler l_MachineAutoscaler
  | CMachineAutoscalers "l_MachineAutoscaler list"
  | CMachineAutoscalerList l_MachineAutoscalerList

definition the_Int32 :: "cell \<Rightarrow> int32 option" where
  "the_Int32 c = (case c of CInt32 x \<Rightarrow> Some x | _ \<Rightarrow> None)"

definition the_Int64 :: "cell \<Rightarrow> 64 word option" where
  "the_Int64 c = (case c of CInt64 x \<Rightarrow> Some x | _ \<Rightarrow> None)"

definition the_Bool :: "cell \<Rightarrow> bool option" where
  "the_Bool c = (case c of CBool x \<Rightarrow> Some x | _ \<Rightarrow> None)"

definition the_String :: "cell \<Rightarrow> string option" where
  "the_String c = (case c of CString x \<Rightarrow> Some x | _ \<Rightarrow> None)"

definition the_Time :: "cell \<Rightarrow> string option" where
  "the_Time c = (case c of CTime x \<Rightarrow> Some x | _ \<Rightarrow> None)"

definition the_Strings :: "cell \<Rightarrow> string list option" where
  "the_Strings c = (case c of CStrings x \<Rightarrow> Some x | _ \<Rightarrow> None)"

definition the_Bytes :: "cell \<Rightarrow> string option" where
  "the_Bytes c = (case c of CBytes x \<Rightarrow> Some x | _ \<Rightarrow> None)"

definition the_StringMap :: "cell \<Rightarrow> ((string \<times> string) list) option" where
  "the_StringMap c = (case c of CStringMap x \<Rightarrow> Some x | _ \<Rightarrow> None)"

definition the_FieldsV1 :: "cell \<Rightarrow> l_FieldsV1 option" where
  "the_FieldsV1 c = (case c of CFieldsV1 x \<Rightarrow> Some x | _ \<Rightarrow> None)"

definition the_ShardInfo :: "cell \<Rightarrow> ShardInfo option" where
  "the_ShardInfo c = (case c of CShardInfo x \<Rightarrow> Some x | _ \<Rightarrow> None)"

definition the_OwnerReferences :: "cell \<Rightarrow> l_OwnerReference list option" where
  "the_OwnerReferences c = (case c of COwnerReferences x \<Rightarrow> Some x | _ \<Rightarrow> None)"

definition the_ManagedFields :: "cell \<Rightarrow> l_ManagedFieldsEntry list option" where
  "the_ManagedFields c = (case c of CManagedFields x \<Rightarrow> Some x | _ \<Rightarrow> None)"

definition the_ResourceRange :: "cell \<Rightarrow> ResourceRange option" where
  "the_ResourceRange c = (case c of CResourceRange x \<Rightarrow> Some x | _ \<Rightarrow> None)"

definition the_GPULimit :: "cell \<Rightarrow> GPULimit option" where
  "the_GPULimit c = (case c of CGPULimit x \<Rightarrow> Some x | _ \<Rightarrow> None)"

definition the_GPULimits :: "cell \<Rightarrow> GPULimit list option" where
  "the_GPULimits c = (case c of CGPULimits x \<Rightarrow> Some x | _ \<Rightarrow> None)"

definition the_ResourceLimits :: "cell \<Rightarrow> l_ResourceLimits option" where
  "the_ResourceLimits c = (case c of CResourceLimits x \<Rightarrow> Some x | _ \<Rightarrow> None)"

definition the_ScaleDownConfig :: "cell \<Rightarrow> l_ScaleDownConfig option" where
  "the_ScaleDownConfig c = (case c of CScaleDownConfig x \<Rightarrow> Some x | _ \<Rightarrow> None)"

definition the_ScaleUpConfig :: "cell \<Rightarrow> l_ScaleUpConfig option" where
  "the_ScaleUpConfig c = (case c of CScaleUpConfig x \<Rightarrow> Some x | _ \<Rightarrow> None)"

definition the_ClusterAutoscalerSpec :: "cell \<Rightarrow> l_ClusterAutoscalerSpec option" where
  "the_ClusterAutoscalerSpec c = (case c of CClusterAutoscalerSpec x \<Rightarrow> Some x | _ \<Rightarrow> None)"

definition the_ClusterAutoscalerStatus :: "cell \<Rightarrow> unit option" where
  "the_ClusterAutoscalerStatus c = (case c of CClusterAutoscalerStatus x \<Rightarrow> Some x | _ \<Rightarrow> None)"

definition the_ClusterAutoscaler :: "cell \<Rightarrow> l_ClusterAutoscaler option" where
  "the_ClusterAutoscaler c = (case c of CClusterAutoscaler x \<Rightarrow> Some x | _ \<Rightarrow> None)"

definition the_ClusterAutoscalers :: "cell \<Rightarrow> l_ClusterAutoscaler list option" where
  "the_ClusterAutoscalers c = (case c of CClusterAutoscalers x \<Rightarrow> Some x | _ \<Rightarrow> None)"

definition the_ClusterAutoscalerList :: "cell \<Rightarrow> l_ClusterAutoscalerList option" where
  "the_ClusterAutoscalerList c = (case c of CClusterAutoscalerList x \<Rightarrow> Some x | _ \<Rightarrow> None)"

definition the_CrossVersionObjectReference :: "cell \<Rightarrow> CrossVersionObjectReference option" where
  "the_CrossVersionObjectReference c = (case c of CCrossVersionObjectReference x \<Rightarrow> Some x | _ \<Rightarrow> None)"

definition the_MachineAutoscalerSpec :: "cell \<Rightarrow> MachineAutoscalerSpec option" where
  "the_MachineAutoscalerSpec c = (case c of CMachineAutoscalerSpec x \<Rightarrow> Some x | _ \<Rightarrow> None)"

definition the_MachineAutoscalerStatus :: "cell \<Rightarrow> l_MachineAutoscalerStatus option" where
  "the_MachineAutoscalerStatus c = (case c of CMachineAutoscalerStatus x \<Rightarrow> Some x | _ \<Rightarrow> None)"

definition the_MachineAutoscaler :: "cell \<Rightarrow> l_MachineAutoscaler option" where
  "the_MachineAutoscaler c = (case c of CMachineAutoscaler x \<Rightarrow> Some x | _ \<Rightarrow> None)"

definition the_MachineAutoscalers :: "cell \<Rightarrow> l_MachineAutoscaler list option" where
  "the_MachineAutoscalers c = (case c of CMachineAutoscalers x \<Rightarrow> Some x | _ \<Rightarrow> None)"

definition the_MachineAutoscalerList :: "cell \<Rightarrow> l_MachineAutoscalerList option" where
  "the_MachineAutoscalerList c = (case c of CMachineAutoscalerList x \<Rightarrow> Some x | _ \<Rightarrow> None)"

lemma the_cell [simp]:
  "the_Int32 (CInt32 x0) = Some x0"
  "the_Int64 (CInt64 x1) = Some x1"
  "the_Bool (CBool x2) = Some x2"
  "the_String (CString x3) = Some x3"
  "the_Time (CTime x4) = Some x4"
  "the_Strings (CStrings x5) = Some x5"
  "the_Bytes (CBytes x6) = Some x6"
  "the_StringMap (CStringMap x7) = Some x7"
  "the_FieldsV1 (CFieldsV1 x8) = Some x8"
  "the_ShardInfo (CShardInfo x9) = Some x9"
  "the_OwnerReferences (COwnerReferences x10) = Some x10"
  "the_ManagedFields (CManagedFields x11) = Some x11"
  "the_ResourceRange (CResourceRange x12) = Some x12"
  "the_GPULimit (CGPULimit x13) = Some x13"
  "the_GPULimits (CGPULimits x14) = Some x14"
  "the_ResourceLimits (CResourceLimits x15) = Some x15"
  "the_ScaleDownConfig (CScaleDownConfig x16) = Some x16"
  "the_ScaleUpConfig (CScaleUpConfig x17) = Some x17"
  "the_ClusterAutoscalerSpec (CClusterAutoscalerSpec x18) = Some x18"
  "the_ClusterAutoscalerStatus (CClusterAutoscalerStatus x19) = Some x19"
  "the_ClusterAutoscaler (CClusterAutoscaler x20) = Some x20"
  "the_ClusterAutoscalers (CClusterAutoscalers x21) = Some x21"
  "the_ClusterAutoscalerList (CClusterAutoscalerList x22) = Some x22"
  "the_CrossVersionObjectReference (CCrossVersionObjectReference x23) = Some x23"
  "the_MachineAutoscalerSpec (CMachineAutoscalerSpec x24) = Some x24"
  "the_MachineAutoscalerStatus (CMachineAutoscalerStatus x25) = Some x25"
  "the_MachineAutoscaler (CMachineAutoscaler x26) = Some x26"
  "the_MachineAutoscalers (CMachineAutoscalers x27) = Some x27"
  "the_MachineAutoscalerList (CMachineAutoscalerList x28) = Some x28"
  by (simp_all add: the_Int32_def the_Int64_def the_Bool_def the_String_def the_Time_def the_Strings_def the_Bytes_def the_StringMap_def the_FieldsV1_def the_ShardInfo_def
    the_OwnerReferences_def the_ManagedFields_def the_ResourceRange_def the_GPULimit_def the_GPULimits_def the_ResourceLimits_def the_ScaleDownConfig_def the_ScaleUpConfig_def
    the_ClusterAutoscalerSpec_def the_ClusterAutoscalerStatus_def the_ClusterAutoscaler_def the_ClusterAutoscalers_def the_ClusterAutoscalerList_def the_CrossVersionObjectReference_def
    the_MachineAutoscalerSpec_def
    the_MachineAutoscalerStatus_def
    the_MachineAutoscaler_def
    the_MachineAutoscalers_def
    the_MachineAutoscalerList_def)

end
