(* ===== verification/API_DeepCopy.thy ===== *)
theory API_DeepCopy
  imports API_Memory
begin

text \<open>
  The generated deep copies (\<open>zz_generated.deepcopy.go\<close> of \<open>pkg/apis/autoscaling/v1\<close> and
  \<open>v1beta1\<close>), with the ones of \<open>metav1\<close> they call.  \<open>T_DeepCopyInto\<close> takes the
  contents of \<open>*in\<close> to those of \<open>*out\<close>: the source overwrites \<open>*out\<close> with \<open>*in\<close> and then
  replaces one field after the other.  \<open>T_DeepCopy\<close> allocates the copy.
\<close>

section \<open>Values\<close>

record ManagedFieldsEntry =
  mfe_Manager :: string
  mfe_Operation :: string
  mfe_APIVersion :: string
  mfe_Time :: "string option"
  mfe_FieldsType :: string
  mfe_FieldsV1 :: "string option"
  mfe_Subresource :: string

record FullMeta = ObjectMeta +
  fm_generateName :: string
  fm_selfLink :: string
  fm_creationTimestamp :: string
  fm_deletionGracePeriodSeconds :: "64 word option"
  fm_managedFields :: "ManagedFieldsEntry list"

record ListMeta =
  lm_SelfLink :: string
  lm_ResourceVersion :: string
  lm_Continue :: string
  lm_RemainingItemCount :: "64 word option"
  lm_ShardInfo :: "ShardInfo option"

record CA_object =
  cao_TypeMeta :: TypeMeta
  cao_ObjectMeta :: FullMeta
  cao_Spec :: ClusterAutoscalerSpec

record CA_list =
  cal_TypeMeta :: TypeMeta
  cal_ListMeta :: ListMeta
  cal_Items :: "CA_object list"

record MA_object =
  mao_TypeMeta :: TypeMeta
  mao_ObjectMeta :: FullMeta
  mao_Spec :: MachineAutoscalerSpec
  mao_LastTargetRef :: "CrossVersionObjectReference option"

record MA_list =
  mal_TypeMeta :: TypeMeta
  mal_ListMeta :: ListMeta
  mal_Items :: "MA_object list"

text \<open>The resources the reconcilers compute with.\<close>

definition ca_of :: "CA_object \<Rightarrow> ClusterAutoscaler" where
  "ca_of o1 = \<lparr>ca_meta = ObjectMeta.truncate (cao_ObjectMeta o1), ca_Spec = cao_Spec o1\<rparr>"

definition ma_of :: "MA_object \<Rightarrow> MachineAutoscaler" where
  "ma_of o1 = \<lparr>ma_meta = ObjectMeta.truncate (mao_ObjectMeta o1),
     ma_MinReplicas = msp_MinReplicas (mao_Spec o1), ma_MaxReplicas = msp_MaxReplicas (mao_Spec o1),
     ma_ScaleTargetRef = msp_ScaleTargetRef (mao_Spec o1), ma_LastTargetRef = mao_LastTargetRef o1\<rparr>"

section \<open>What a layout stands for\<close>

definition read_OwnerReference :: "cell store \<Rightarrow> l_OwnerReference \<Rightarrow> OwnerReference option" where
  "read_OwnerReference h l =
     Option.bind (read_ptr the_Bool read_flat h (lor_controller l)) (\<lambda>controller.
     Option.bind (read_ptr the_Bool read_flat h (lor_blockOwnerDeletion l)) (\<lambda>blockOwnerDeletion.
     Some \<lparr>owr_apiVersion = lor_apiVersion l,
       owr_kind = lor_kind l,
       owr_name = lor_name l,
       owr_uid = lor_uid l,
       owr_controller = controller,
       owr_blockOwnerDeletion = blockOwnerDeletion\<rparr>))"

definition read_FieldsV1 :: "cell store \<Rightarrow> l_FieldsV1 \<Rightarrow> string option" where
  "read_FieldsV1 h l =
     Option.bind (read_slice the_Bytes read_flat h (lfv_Raw l)) (\<lambda>raw.
     Some raw)"

definition read_ManagedFieldsEntry :: "cell store \<Rightarrow> l_ManagedFieldsEntry \<Rightarrow> ManagedFieldsEntry option" where
  "read_ManagedFieldsEntry h l =
     Option.bind (read_ptr the_Time read_flat h (lmf_Time l)) (\<lambda>time.
     Option.bind (read_ptr the_FieldsV1 read_FieldsV1 h (lmf_FieldsV1 l)) (\<lambda>fieldsV1.
     Some \<lparr>mfe_Manager = lmf_Manager l,
       mfe_Operation = lmf_Operation l,
       mfe_APIVersion = lmf_APIVersion l,
       mfe_Time = time,
       mfe_FieldsType = lmf_FieldsType l,
       mfe_FieldsV1 = fieldsV1,
       mfe_Subresource = lmf_Subresource l\<rparr>))"

definition read_ObjectMeta :: "cell store \<Rightarrow> l_ObjectMeta \<Rightarrow> FullMeta option" where
  "read_ObjectMeta h l =
     Option.bind (read_ptr the_Time read_flat h (lom_deletionTimestamp l)) (\<lambda>deletionTimestamp.
     Option.bind (read_ptr the_Int64 read_flat h (lom_deletionGracePeriodSeconds l)) (\<lambda>deletionGracePeriodSeconds.
     Option.bind (read_map the_StringMap h (lom_labels l)) (\<lambda>labels.
     Option.bind (read_map the_StringMap h (lom_annotations l)) (\<lambda>annotations.
     Option.bind (read_slice the_OwnerReferences read_OwnerReference h (lom_ownerReferences l)) (\<lambda>ownerReferences.
     Option.bind (read_slice the_Strings read_flat h (lom_finalizers l)) (\<lambda>finalizers.
     Option.bind (read_slice the_ManagedFields read_ManagedFieldsEntry h (lom_managedFields l)) (\<lambda>managedFields.
     Some \<lparr>om_name = lom_name l,
       om_namespace = lom_namespace l,
       om_uid = lom_uid l,
       om_resourceVersion = lom_resourceVersion l,
       om_generation = lom_generation l,
       om_labels = labels,
       om_annotations = annotations,
       om_finalizers = finalizers,
       om_deletionTimestamp = deletionTimestamp,
       om_ownerReferences = ownerReferences,
       fm_generateName = lom_generateName l,
       fm_selfLink = lom_selfLink l,
       fm_creationTimestamp = lom_creationTimestamp l,
       fm_deletionGracePeriodSeconds = deletionGracePeriodSeconds,
       fm_managedFields = managedFields\<rparr>)))))))"

definition read_ListMeta :: "cell store \<Rightarrow> l_ListMeta \<Rightarrow> ListMeta option" where
  "read_ListMeta h l =
     Option.bind (read_ptr the_Int64 read_flat h (llm_RemainingItemCount l)) (\<lambda>remainingItemCount.
     Option.bind (read_ptr the_ShardInfo read_flat h (llm_ShardInfo l)) (\<lambda>shardInfo.
     Some \<lparr>lm_SelfLink = llm_SelfLink l,
       lm_ResourceVersion = llm_ResourceVersion l,
       lm_Continue = llm_Continue l,
       lm_RemainingItemCount = remainingItemCount,
       lm_ShardInfo = shardInfo\<rparr>))"

definition read_ResourceLimits :: "cell store \<Rightarrow> l_ResourceLimits \<Rightarrow> ResourceLimits option" where
  "read_ResourceLimits h l =
     Option.bind (read_ptr the_Int32 read_flat h (lrl_MaxNodesTotal l)) (\<lambda>maxNodesTotal.
     Option.bind (read_ptr the_ResourceRange read_flat h (lrl_Cores l)) (\<lambda>cores.
     Option.bind (read_ptr the_ResourceRange read_flat h (lrl_Memory l)) (\<lambda>memory.
     Option.bind (read_slice the_GPULimits read_flat h (lrl_GPUS l)) (\<lambda>gpus.
     Some \<lparr>rl_MaxNodesTotal = maxNodesTotal,
       rl_Cores = cores,
       rl_Memory = memory,
       rl_GPUS = gpus\<rparr>))))"

definition read_ScaleDownConfig :: "cell store \<Rightarrow> l_ScaleDownConfig \<Rightarrow> ScaleDownConfig option" where
  "read_ScaleDownConfig h l =
     Option.bind (read_ptr the_String read_flat h (lsd_DelayAfterAdd l)) (\<lambda>delayAfterAdd.
     Option.bind (read_ptr the_String read_flat h (lsd_DelayAfterDelete l)) (\<lambda>delayAfterDelete.
     Option.bind (read_ptr the_String read_flat h (lsd_DelayAfterFailure l)) (\<lambda>delayAfterFailure.
     Option.bind (read_ptr the_String read_flat h (lsd_UnneededTime l)) (\<lambda>unneededTime.
     Option.bind (read_ptr the_String read_flat h (lsd_UtilizationThreshold l)) (\<lambda>utilizationThreshold.
     Option.bind (read_ptr the_String read_flat h (lsd_CordonNodeBeforeTerminating l)) (\<lambda>cordonNodeBeforeTerminating.
     Some \<lparr>sd_Enabled = lsd_Enabled l,
       sd_DelayAfterAdd = delayAfterAdd,
       sd_DelayAfterDelete = delayAfterDelete,
       sd_DelayAfterFailure = delayAfterFailure,
       sd_UnneededTime = unneededTime,
       sd_UtilizationThreshold = utilizationThreshold,
       sd_CordonNodeBeforeTerminating = cordonNodeBeforeTerminating\<rparr>))))))"

definition read_ScaleUpConfig :: "cell store \<Rightarrow> l_ScaleUpConfig \<Rightarrow> ScaleUpConfig option" where
  "read_ScaleUpConfig h l =
     Option.bind (read_ptr the_String read_flat h (lsu_NewPodScaleUpDelay l)) (\<lambda>newPodScaleUpDelay.
     Some \<lparr>su_NewPodScaleUpDelay = newPodScaleUpDelay\<rparr>)"

definition read_ClusterAutoscalerSpec :: "cell store \<Rightarrow> l_ClusterAutoscalerSpec \<Rightarrow> ClusterAutoscalerSpec option" where
  "read_ClusterAutoscalerSpec h l =
     Option.bind (read_ptr the_ResourceLimits read_ResourceLimits h (lcs_ResourceLimits l)) (\<lambda>resourceLimits.
     Option.bind (read_ptr the_ScaleDownConfig read_ScaleDownConfig h (lcs_ScaleDown l)) (\<lambda>scaleDown.
     Option.bind (read_ptr the_ScaleUpConfig read_ScaleUpConfig h (lcs_ScaleUp l)) (\<lambda>scaleUp.
     Option.bind (read_ptr the_Int32 read_flat h (lcs_MaxPodGracePeriod l)) (\<lambda>maxPodGracePeriod.
     Option.bind (read_ptr the_Int32 read_flat h (lcs_PodPriorityThreshold l)) (\<lambda>podPriorityThreshold.
     Option.bind (read_ptr the_Bool read_flat h (lcs_BalanceSimilarNodeGroups l)) (\<lambda>balanceSimilarNodeGroups.
     Option.bind (read_slice the_Strings read_flat h (lcs_BalancingIgnoredLabels l)) (\<lambda>balancingIgnoredLabels.
     Option.bind (read_ptr the_Bool read_flat h (lcs_IgnoreDaemonsetsUtilization l)) (\<lambda>ignoreDaemonsetsUtilization.
     Option.bind (read_ptr the_Bool read_flat h (lcs_SkipNodesWithLocalStorage l)) (\<lambda>skipNodesWithLocalStorage.
     Option.bind (read_ptr the_Int32 read_flat h (lcs_LogVerbosity l)) (\<lambda>logVerbosity.
     Option.bind (read_slice the_Strings read_flat h (lcs_Expanders l)) (\<lambda>expanders.
     Option.bind (read_ptr the_String read_flat h (lcs_EnforceNodeGroupMinSize l)) (\<lambda>enforceNodeGroupMinSize.
     Option.bind (read_slice the_Strings read_flat h (lcs_StartupTaints l)) (\<lambda>startupTaints.
     Some \<lparr>cs_ResourceLimits = resourceLimits,
       cs_ScaleDown = scaleDown,
       cs_ScaleUp = scaleUp,
       cs_MaxPodGracePeriod = maxPodGracePeriod,
       cs_MaxNodeProvisionTime = lcs_MaxNodeProvisionTime l,
       cs_PodPriorityThreshold = podPriorityThreshold,
       cs_BalanceSimilarNodeGroups = balanceSimilarNodeGroups,
       cs_BalancingIgnoredLabels = balancingIgnoredLabels,
       cs_IgnoreDaemonsetsUtilization = ignoreDaemonsetsUtilization,
       cs_SkipNodesWithLocalStorage = skipNodesWithLocalStorage,
       cs_LogVerbosity = logVerbosity,
       cs_Expanders = expanders,
       cs_EnforceNodeGroupMinSize = enforceNodeGroupMinSize,
       cs_StartupTaints = startupTaints\<rparr>)))))))))))))"

definition read_ClusterAutoscaler :: "cell store \<Rightarrow> l_ClusterAutoscaler \<Rightarrow> CA_object option" where
  "read_ClusterAutoscaler h l =
     Option.bind (read_ObjectMeta h (lca_ObjectMeta l)) (\<lambda>objectMeta.
     Option.bind (read_ClusterAutoscalerSpec h (lca_Spec l)) (\<lambda>spec.
     Some \<lparr>cao_TypeMeta = lca_TypeMeta l,
       cao_ObjectMeta = objectMeta,
       cao_Spec = spec\<rparr>))"

definition read_ClusterAutoscalerList :: "cell store \<Rightarrow> l_ClusterAutoscalerList \<Rightarrow> CA_list option" where
  "read_ClusterAutoscalerList h l =
     Option.bind (read_ListMeta h (lcl_ListMeta l)) (\<lambda>listMeta.
     Option.bind (read_slice the_ClusterAutoscalers read_ClusterAutoscaler h (lcl_Items l)) (\<lambda>items.
     Some \<lparr>cal_TypeMeta = lcl_TypeMeta l,
       cal_ListMeta = listMeta,
       cal_Items = items\<rparr>))"

definition read_MachineAutoscalerStatus :: "cell store \<Rightarrow> l_MachineAutoscalerStatus \<Rightarrow> (CrossVersionObjectReference option) option" where
  "read_MachineAutoscalerStatus h l =
     Option.bind (read_ptr the_CrossVersionObjectReference read_flat h (lms_LastTargetRef l)) (\<lambda>lastTargetRef.
     Some lastTargetRef)"

definition read_MachineAutoscaler :: "cell store \<Rightarrow> l_MachineAutoscaler \<Rightarrow> MA_object option" where
  "read_MachineAutoscaler h l =
     Option.bind (read_ObjectMeta h (lma_ObjectMeta l)) (\<lambda>objectMeta.
     Option.bind (read_MachineAutoscalerStatus h (lma_Status l)) (\<lambda>status.
     Some \<lparr>mao_TypeMeta = lma_TypeMeta l,
       mao_ObjectMeta = objectMeta,
       mao_Spec = lma_Spec l,
       mao_LastTargetRef = status\<rparr>))"

definition read_MachineAutoscalerList :: "cell store \<Rightarrow> l_MachineAutoscalerList \<Rightarrow> MA_list option" where
  "read_MachineAutoscalerList h l =
     Option.bind (read_ListMeta h (lml_ListMeta l)) (\<lambda>listMeta.
     Option.bind (read_slice the_MachineAutoscalers read_MachineAutoscaler h (lml_Items l)) (\<lambda>items.
     Some \<lparr>mal_TypeMeta = lml_TypeMeta l,
       mal_ListMeta = listMeta,
       mal_Items = items\<rparr>))"

section \<open>\<open>metav1\<close>\<close>

definition OwnerReference_DeepCopyInto :: "l_OwnerReference \<Rightarrow> (cell store, l_OwnerReference) act" where
  "OwnerReference_DeepCopyInto src =
     act_bind (copy_value the_Bool CBool (lor_controller src)) (\<lambda>controller.
     act_bind (copy_value the_Bool CBool (lor_blockOwnerDeletion src)) (\<lambda>blockOwnerDeletion.
     act_return (src\<lparr>lor_controller := controller,
       lor_blockOwnerDeletion := blockOwnerDeletion\<rparr>)))"

definition FieldsV1_DeepCopyInto :: "l_FieldsV1 \<Rightarrow> (cell store, l_FieldsV1) act" where
  "FieldsV1_DeepCopyInto src =
     act_bind (copy_array the_Bytes CBytes (lfv_Raw src)) (\<lambda>raw.
     act_return (src\<lparr>lfv_Raw := raw\<rparr>))"

definition ManagedFieldsEntry_DeepCopyInto :: "l_ManagedFieldsEntry \<Rightarrow> (cell store, l_ManagedFieldsEntry) act" where
  "ManagedFieldsEntry_DeepCopyInto src =
     act_bind (copy_value the_Time CTime (lmf_Time src)) (\<lambda>time.
     act_bind (copy_struct the_FieldsV1 CFieldsV1 FieldsV1_DeepCopyInto (lmf_FieldsV1 src)) (\<lambda>fieldsV1.
     act_return (src\<lparr>lmf_Time := time,
       lmf_FieldsV1 := fieldsV1\<rparr>)))"

definition ObjectMeta_DeepCopyInto :: "l_ObjectMeta \<Rightarrow> (cell store, l_ObjectMeta) act" where
  "ObjectMeta_DeepCopyInto src =
     act_bind (copy_value the_Time CTime (lom_deletionTimestamp src)) (\<lambda>deletionTimestamp.
     act_bind (copy_value the_Int64 CInt64 (lom_deletionGracePeriodSeconds src)) (\<lambda>deletionGracePeriodSeconds.
     act_bind (copy_map the_StringMap CStringMap (lom_labels src)) (\<lambda>labels.
     act_bind (copy_map the_StringMap CStringMap (lom_annotations src)) (\<lambda>annotations.
     act_bind (copy_elements the_OwnerReferences COwnerReferences OwnerReference_DeepCopyInto (lom_ownerReferences src)) (\<lambda>ownerReferences.
     act_bind (copy_array the_Strings CStrings (lom_finalizers src)) (\<lambda>finalizers.
     act_bind (copy_elements the_ManagedFields CManagedFields ManagedFieldsEntry_DeepCopyInto (lom_managedFields src)) (\<lambda>managedFields.
     act_return (src\<lparr>lom_deletionTimestamp := deletionTimestamp,
       lom_deletionGracePeriodSeconds := deletionGracePeriodSeconds,
       lom_labels := labels,
       lom_annotations := annotations,
       lom_ownerReferences := ownerReferences,
       lom_finalizers := finalizers,
       lom_managedFields := managedFields\<rparr>))))))))"

definition ListMeta_DeepCopyInto :: "l_ListMeta \<Rightarrow> (cell store, l_ListMeta) act" where
  "ListMeta_DeepCopyInto src =
     act_bind (copy_value the_Int64 CInt64 (llm_RemainingItemCount src)) (\<lambda>remainingItemCount.
     act_bind (copy_value the_ShardInfo CShardInfo (llm_ShardInfo src)) (\<lambda>shardInfo.
     act_return (src\<lparr>llm_RemainingItemCount := remainingItemCount,
       llm_ShardInfo := shardInfo\<rparr>)))"

section \<open>\<open>autoscaling.openshift.io/v1\<close>\<close>

text \<open>Structs without pointers: the assignment is all there is to do.\<close>

definition ClusterAutoscalerStatus_DeepCopyInto :: "unit \<Rightarrow> (cell store, unit) act" where
  "ClusterAutoscalerStatus_DeepCopyInto = act_return"

definition ClusterAutoscalerStatus_DeepCopy :: "ptr \<Rightarrow> (cell store, ptr) act" where
  "ClusterAutoscalerStatus_DeepCopy = copy_struct the_ClusterAutoscalerStatus CClusterAutoscalerStatus ClusterAutoscalerStatus_DeepCopyInto"

definition GPULimit_DeepCopyInto :: "GPULimit \<Rightarrow> (cell store, GPULimit) act" where
  "GPULimit_DeepCopyInto = act_return"

definition GPULimit_DeepCopy :: "ptr \<Rightarrow> (cell store, ptr) act" where
  "GPULimit_DeepCopy = copy_struct the_GPULimit CGPULimit GPULimit_DeepCopyInto"

definition ResourceRange_DeepCopyInto :: "ResourceRange \<Rightarrow> (cell store, ResourceRange) act" where
  "ResourceRange_DeepCopyInto = act_return"

definition ResourceRange_DeepCopy :: "ptr \<Rightarrow> (cell store, ptr) act" where
  "ResourceRange_DeepCopy = copy_struct the_ResourceRange CResourceRange ResourceRange_DeepCopyInto"

definition ResourceLimits_DeepCopyInto :: "l_ResourceLimits \<Rightarrow> (cell store, l_ResourceLimits) act" where
  "ResourceLimits_DeepCopyInto src =
     act_bind (copy_value the_Int32 CInt32 (lrl_MaxNodesTotal src)) (\<lambda>maxNodesTotal.
     act_bind (copy_value the_ResourceRange CResourceRange (lrl_Cores src)) (\<lambda>cores.
     act_bind (copy_value the_ResourceRange CResourceRange (lrl_Memory src)) (\<lambda>memory.
     act_bind (copy_array the_GPULimits CGPULimits (lrl_GPUS src)) (\<lambda>gpus.
     act_return (src\<lparr>lrl_MaxNodesTotal := maxNodesTotal,
       lrl_Cores := cores,
       lrl_Memory := memory,
       lrl_GPUS := gpus\<rparr>)))))"

definition ResourceLimits_DeepCopy :: "ptr \<Rightarrow> (cell store, ptr) act" where
  "ResourceLimits_DeepCopy = copy_struct the_ResourceLimits CResourceLimits ResourceLimits_DeepCopyInto"

definition ScaleDownConfig_DeepCopyInto :: "l_ScaleDownConfig \<Rightarrow> (cell store, l_ScaleDownConfig) act" where
  "ScaleDownConfig_DeepCopyInto src =
     act_bind (copy_value the_String CString (lsd_DelayAfterAdd src)) (\<lambda>delayAfterAdd.
     act_bind (copy_value the_String CString (lsd_DelayAfterDelete src)) (\<lambda>delayAfterDelete.
     act_bind (copy_value the_String CString (lsd_DelayAfterFailure src)) (\<lambda>delayAfterFailure.
     act_bind (copy_value the_String CString (lsd_UnneededTime src)) (\<lambda>unneededTime.
     act_bind (copy_value the_String CString (lsd_UtilizationThreshold src)) (\<lambda>utilizationThreshold.
     act_bind (copy_value the_String CString (lsd_CordonNodeBeforeTerminating src)) (\<lambda>cordonNodeBeforeTerminating.
     act_return (src\<lparr>lsd_DelayAfterAdd := delayAfterAdd,
       lsd_DelayAfterDelete := delayAfterDelete,
       lsd_DelayAfterFailure := delayAfterFailure,
       lsd_UnneededTime := unneededTime,
       lsd_UtilizationThreshold := utilizationThreshold,
       lsd_CordonNodeBeforeTerminating := cordonNodeBeforeTerminating\<rparr>)))))))"

definition ScaleDownConfig_DeepCopy :: "ptr \<Rightarrow> (cell store, ptr) act" where
  "ScaleDownConfig_DeepCopy = copy_struct the_ScaleDownConfig CScaleDownConfig ScaleDownConfig_DeepCopyInto"

definition ScaleUpConfig_DeepCopyInto :: "l_ScaleUpConfig \<Rightarrow> (cell store, l_ScaleUpConfig) act" where
  "ScaleUpConfig_DeepCopyInto src =
     act_bind (copy_value the_String CString (lsu_NewPodScaleUpDelay src)) (\<lambda>newPodScaleUpDelay.
     act_return (src\<lparr>lsu_NewPodScaleUpDelay := newPodScaleUpDelay\<rparr>))"

definition ScaleUpConfig_DeepCopy :: "ptr \<Rightarrow> (cell store, ptr) act" where
  "ScaleUpConfig_DeepCopy = copy_struct the_ScaleUpConfig CScaleUpConfig ScaleUpConfig_DeepCopyInto"

definition ClusterAutoscalerSpec_DeepCopyInto :: "l_ClusterAutoscalerSpec \<Rightarrow> (cell store, l_ClusterAutoscalerSpec) act" where
  "ClusterAutoscalerSpec_DeepCopyInto src =
     act_bind (copy_struct the_ResourceLimits CResourceLimits ResourceLimits_DeepCopyInto (lcs_ResourceLimits src)) (\<lambda>resourceLimits.
     act_bind (copy_struct the_ScaleDownConfig CScaleDownConfig ScaleDownConfig_DeepCopyInto (lcs_ScaleDown src)) (\<lambda>scaleDown.
     act_bind (copy_struct the_ScaleUpConfig CScaleUpConfig ScaleUpConfig_DeepCopyInto (lcs_ScaleUp src)) (\<lambda>scaleUp.
     act_bind (copy_value the_Int32 CInt32 (lcs_MaxPodGracePeriod src)) (\<lambda>maxPodGracePeriod.
     act_bind (copy_value the_Int32 CInt32 (lcs_PodPriorityThreshold src)) (\<lambda>podPriorityThreshold.
     act_bind (copy_value the_Bool CBool (lcs_BalanceSimilarNodeGroups src)) (\<lambda>balanceSimilarNodeGroups.
     act_bind (copy_array the_Strings CStrings (lcs_BalancingIgnoredLabels src)) (\<lambda>balancingIgnoredLabels.
     act_bind (copy_value the_Bool CBool (lcs_IgnoreDaemonsetsUtilization src)) (\<lambda>ignoreDaemonsetsUtilization.
     act_bind (copy_value the_Bool CBool (lcs_SkipNodesWithLocalStorage src)) (\<lambda>skipNodesWithLocalStorage.
     act_bind (copy_value the_Int32 CInt32 (lcs_LogVerbosity src)) (\<lambda>logVerbosity.
     act_bind (copy_array the_Strings CStrings (lcs_Expanders src)) (\<lambda>expanders.
     act_bind (copy_value the_String CString (lcs_EnforceNodeGroupMinSize src)) (\<lambda>enforceNodeGroupMinSize.
     act_bind (copy_array the_Strings CStrings (lcs_StartupTaints src)) (\<lambda>startupTaints.
     act_return (src\<lparr>lcs_ResourceLimits := resourceLimits,
       lcs_ScaleDown := scaleDown,
       lcs_ScaleUp := scaleUp,
       lcs_MaxPodGracePeriod := maxPodGracePeriod,
       lcs_PodPriorityThreshold := podPriorityThreshold,
       lcs_BalanceSimilarNodeGroups := balanceSimilarNodeGroups,
       lcs_BalancingIgnoredLabels := balancingIgnoredLabels,
       lcs_IgnoreDaemonsetsUtilization := ignoreDaemonsetsUtilization,
       lcs_SkipNodesWithLocalStorage := skipNodesWithLocalStorage,
       lcs_LogVerbosity := logVerbosity,
       lcs_Expanders := expanders,
       lcs_EnforceNodeGroupMinSize := enforceNodeGroupMinSize,
       lcs_StartupTaints := startupTaints\<rparr>))))))))))))))"

definition ClusterAutoscalerSpec_DeepCopy :: "ptr \<Rightarrow> (cell store, ptr) act" where
  "ClusterAutoscalerSpec_DeepCopy = copy_struct the_ClusterAutoscalerSpec CClusterAutoscalerSpec ClusterAutoscalerSpec_DeepCopyInto"

definition ClusterAutoscaler_DeepCopyInto :: "l_ClusterAutoscaler \<Rightarrow> (cell store, l_ClusterAutoscaler) act" where
  "ClusterAutoscaler_DeepCopyInto src =
     act_bind (ObjectMeta_DeepCopyInto (lca_ObjectMeta src)) (\<lambda>objectMeta.
     act_bind (ClusterAutoscalerSpec_DeepCopyInto (lca_Spec src)) (\<lambda>spec.
     act_return (src\<lparr>lca_ObjectMeta := objectMeta,
       lca_Spec := spec\<rparr>)))"

definition ClusterAutoscaler_DeepCopy :: "ptr \<Rightarrow> (cell store, ptr) act" where
  "ClusterAutoscaler_DeepCopy = copy_struct the_ClusterAutoscaler CClusterAutoscaler ClusterAutoscaler_DeepCopyInto"

definition ClusterAutoscalerList_DeepCopyInto :: "l_ClusterAutoscalerList \<Rightarrow> (cell store, l_ClusterAutoscalerList) act" where
  "ClusterAutoscalerList_DeepCopyInto src =
     act_bind (ListMeta_DeepCopyInto (lcl_ListMeta src)) (\<lambda>listMeta.
     act_bind (copy_elements the_ClusterAutoscalers CClusterAutoscalers ClusterAutoscaler_DeepCopyInto (lcl_Items src)) (\<lambda>items.
     act_return (src\<lparr>lcl_ListMeta := listMeta,
       lcl_Items := items\<rparr>)))"

definition ClusterAutoscalerList_DeepCopy :: "ptr \<Rightarrow> (cell store, ptr) act" where
  "ClusterAutoscalerList_DeepCopy = copy_struct the_ClusterAutoscalerList CClusterAutoscalerList ClusterAutoscalerList_DeepCopyInto"

section \<open>\<open>autoscaling.openshift.io/v1beta1\<close>\<close>

definition CrossVersionObjectReference_DeepCopyInto :: "CrossVersionObjectReference \<Rightarrow> (cell store, CrossVersionObjectReference) act" where
  "CrossVersionObjectReference_DeepCopyInto = act_return"

definition CrossVersionObjectReference_DeepCopy :: "ptr \<Rightarrow> (cell store, ptr) act" where
  "CrossVersionObjectReference_DeepCopy = copy_struct the_CrossVersionObjectReference CCrossVersionObjectReference CrossVersionObjectReference_DeepCopyInto"

definition MachineAutoscalerSpec_DeepCopyInto :: "MachineAutoscalerSpec \<Rightarrow> (cell store, MachineAutoscalerSpec) act" where
  "MachineAutoscalerSpec_DeepCopyInto = act_return"

definition MachineAutoscalerSpec_DeepCopy :: "ptr \<Rightarrow> (cell store, ptr) act" where
  "MachineAutoscalerSpec_DeepCopy = copy_struct the_MachineAutoscalerSpec CMachineAutoscalerSpec MachineAutoscalerSpec_DeepCopyInto"

definition MachineAutoscalerStatus_DeepCopyInto :: "l_MachineAutoscalerStatus \<Rightarrow> (cell store, l_MachineAutoscalerStatus) act" where
  "MachineAutoscalerStatus_DeepCopyInto src =
     act_bind (copy_value the_CrossVersionObjectReference CCrossVersionObjectReference (lms_LastTargetRef src)) (\<lambda>lastTargetRef.
     act_return (src\<lparr>lms_LastTargetRef := lastTargetRef\<rparr>))"

definition MachineAutoscalerStatus_DeepCopy :: "ptr \<Rightarrow> (cell store, ptr) act" where
  "MachineAutoscalerStatus_DeepCopy = copy_struct the_MachineAutoscalerStatus CMachineAutoscalerStatus MachineAutoscalerStatus_DeepCopyInto"

definition MachineAutoscaler_DeepCopyInto :: "l_MachineAutoscaler \<Rightarrow> (cell store, l_MachineAutoscaler) act" where
  "MachineAutoscaler_DeepCopyInto src =
     act_bind (ObjectMeta_DeepCopyInto (lma_ObjectMeta src)) (\<lambda>objectMeta.
     act_bind (MachineAutoscalerStatus_DeepCopyInto (lma_Status src)) (\<lambda>status.
     act_return (src\<lparr>lma_ObjectMeta := objectMeta,
       lma_Status := status\<rparr>)))"

definition MachineAutoscaler_DeepCopy :: "ptr \<Rightarrow> (cell store, ptr) act" where
  "MachineAutoscaler_DeepCopy = copy_struct the_MachineAutoscaler CMachineAutoscaler MachineAutoscaler_DeepCopyInto"

definition MachineAutoscalerList_DeepCopyInto :: "l_MachineAutoscalerList \<Rightarrow> (cell store, l_MachineAutoscalerList) act" where
  "MachineAutoscalerList_DeepCopyInto src =
     act_bind (ListMeta_DeepCopyInto (lml_ListMeta src)) (\<lambda>listMeta.
     act_bind (copy_elements the_MachineAutoscalers CMachineAutoscalers MachineAutoscaler_DeepCopyInto (lml_Items src)) (\<lambda>items.
     act_return (src\<lparr>lml_ListMeta := listMeta,
       lml_Items := items\<rparr>)))"

definition MachineAutoscalerList_DeepCopy :: "ptr \<Rightarrow> (cell store, ptr) act" where
  "MachineAutoscalerList_DeepCopy = copy_struct the_MachineAutoscalerList CMachineAutoscalerList MachineAutoscalerList_DeepCopyInto"

section \<open>Objects of the runtime\<close>

text \<open>
  A \<open>runtime.Object\<close> is an interface: nil, or a pointer with its type.  \<open>DeepCopyObject\<close> of a
  nil pointer is the nil interface, not an interface that holds a nil pointer.
\<close>

datatype runtime_object =
    Object_ClusterAutoscaler nat
  | Object_ClusterAutoscalerList nat
  | Object_MachineAutoscaler nat
  | Object_MachineAutoscalerList nat

definition ClusterAutoscaler_DeepCopyObject :: "ptr \<Rightarrow> (cell store, runtime_object option) act" where
  "ClusterAutoscaler_DeepCopyObject src =
     act_bind (ClusterAutoscaler_DeepCopy src) (\<lambda>c. act_return (map_option Object_ClusterAutoscaler c))"

definition ClusterAutoscalerList_DeepCopyObject :: "ptr \<Rightarrow> (cell store, runtime_object option) act" where
  "ClusterAutoscalerList_DeepCopyObject src =
     act_bind (ClusterAutoscalerList_DeepCopy src) (\<lambda>c. act_return (map_option Object_ClusterAutoscalerList c))"

definition MachineAutoscaler_DeepCopyObject :: "ptr \<Rightarrow> (cell store, runtime_object option) act" where
  "MachineAutoscaler_DeepCopyObject src =
     act_bind (MachineAutoscaler_DeepCopy src) (\<lambda>c. act_return (map_option Object_MachineAutoscaler c))"

definition MachineAutoscalerList_DeepCopyObject :: "ptr \<Rightarrow> (cell store, runtime_object option) act" where
  "MachineAutoscalerList_DeepCopyObject src =
     act_bind (MachineAutoscalerList_DeepCopy src) (\<lambda>c. act_return (map_option Object_MachineAutoscalerList c))"

end
