(* ===== verification/API_DeepCopy_Properties.thy ===== *)
theory API_DeepCopy_Properties
  imports API_DeepCopy
begin

text \<open>
  Every generated deep copy keeps the contract \<open>copies\<close>: it writes no cell that was there, and
  the copy reads as the original in cells of its own.  The proofs go field by field over
  \<open>copy_steps\<close>.  The properties write the contract out for an object and for a list of objects.
\<close>

section \<open>The contract, struct by struct\<close>

text \<open>A step of a copy, per kind of field.\<close>

lemma copy_flat_steps:
  "copies (read_ptr the_Bool read_flat) (copy_value the_Bool CBool)"
  "copies (read_slice the_Bytes read_flat) (copy_array the_Bytes CBytes)"
  "copies (read_ptr the_Time read_flat) (copy_value the_Time CTime)"
  "copies (read_ptr the_Int64 read_flat) (copy_value the_Int64 CInt64)"
  "copies (read_map the_StringMap) (copy_map the_StringMap CStringMap)"
  "copies (read_slice the_Strings read_flat) (copy_array the_Strings CStrings)"
  "copies (read_ptr the_ShardInfo read_flat) (copy_value the_ShardInfo CShardInfo)"
  "copies (read_ptr the_Int32 read_flat) (copy_value the_Int32 CInt32)"
  "copies (read_ptr the_ResourceRange read_flat) (copy_value the_ResourceRange CResourceRange)"
  "copies (read_slice the_GPULimits read_flat) (copy_array the_GPULimits CGPULimits)"
  "copies (read_ptr the_String read_flat) (copy_value the_String CString)"
  "copies (read_ptr the_CrossVersionObjectReference read_flat) (copy_value the_CrossVersionObjectReference CCrossVersionObjectReference)"
  by (rule copies_value copies_array copies_map, simp)+

lemmas [copy_steps] = copy_flat_steps [THEN copies_wp]
lemmas [copy_reads] = copy_flat_steps [THEN copies_stable]

lemma copies_OwnerReference: "copies read_OwnerReference OwnerReference_DeepCopyInto"
proof (rule copies_fieldsI)
  show "grows read_OwnerReference" unfolding read_OwnerReference_def by (intro growsI copy_reads)
qed (unfold read_OwnerReference_def bind_eq_Some_conv OwnerReference_DeepCopyInto_def wp_simps, elim exE conjE,
  (rule copy_steps, assumption, assumption, assumption)+, rule conjI, assumption, erule live_mono, (simp; fail))

lemma copies_FieldsV1: "copies read_FieldsV1 FieldsV1_DeepCopyInto"
proof (rule copies_fieldsI)
  show "grows read_FieldsV1" unfolding read_FieldsV1_def by (intro growsI copy_reads)
qed (unfold read_FieldsV1_def bind_eq_Some_conv FieldsV1_DeepCopyInto_def wp_simps, elim exE conjE,
  (rule copy_steps, assumption, assumption, assumption)+, rule conjI, assumption, erule live_mono, (simp; fail))

lemma copy_FieldsV1_ptr: "copies (read_ptr the_FieldsV1 read_FieldsV1)
    (copy_struct the_FieldsV1 CFieldsV1 FieldsV1_DeepCopyInto)"
  by (rule copies_struct [OF _ copies_FieldsV1]) simp

lemmas [copy_steps] = copy_FieldsV1_ptr [THEN copies_wp]
lemmas [copy_reads] = copy_FieldsV1_ptr [THEN copies_stable]

lemma copies_ManagedFieldsEntry: "copies read_ManagedFieldsEntry ManagedFieldsEntry_DeepCopyInto"
proof (rule copies_fieldsI)
  show "grows read_ManagedFieldsEntry" unfolding read_ManagedFieldsEntry_def by (intro growsI copy_reads)
qed (unfold read_ManagedFieldsEntry_def bind_eq_Some_conv ManagedFieldsEntry_DeepCopyInto_def wp_simps, elim exE conjE,
  (rule copy_steps, assumption, assumption, assumption)+, rule conjI, assumption, erule live_mono, (simp; fail))

lemma copy_OwnerReference_elements: "copies (read_slice the_OwnerReferences read_OwnerReference)
    (copy_elements the_OwnerReferences COwnerReferences OwnerReference_DeepCopyInto)"
  by (rule copies_elements [OF _ copies_OwnerReference]) simp

lemmas [copy_steps] = copy_OwnerReference_elements [THEN copies_wp]
lemmas [copy_reads] = copy_OwnerReference_elements [THEN copies_stable]

lemma copy_ManagedFieldsEntry_elements: "copies (read_slice the_ManagedFields read_ManagedFieldsEntry)
    (copy_elements the_ManagedFields CManagedFields ManagedFieldsEntry_DeepCopyInto)"
  by (rule copies_elements [OF _ copies_ManagedFieldsEntry]) simp

lemmas [copy_steps] = copy_ManagedFieldsEntry_elements [THEN copies_wp]
lemmas [copy_reads] = copy_ManagedFieldsEntry_elements [THEN copies_stable]

lemma copies_ObjectMeta: "copies read_ObjectMeta ObjectMeta_DeepCopyInto"
proof (rule copies_fieldsI)
  show "grows read_ObjectMeta" unfolding read_ObjectMeta_def by (intro growsI copy_reads)
qed (unfold read_ObjectMeta_def bind_eq_Some_conv ObjectMeta_DeepCopyInto_def wp_simps, elim exE conjE,
  (rule copy_steps, assumption, assumption, assumption)+, rule conjI, assumption, erule live_mono, (simp; fail))

lemmas [copy_steps] = copies_ObjectMeta [THEN copies_wp]
lemmas [copy_reads] = copies_ObjectMeta [THEN copies_stable]

lemma copies_ListMeta: "copies read_ListMeta ListMeta_DeepCopyInto"
proof (rule copies_fieldsI)
  show "grows read_ListMeta" unfolding read_ListMeta_def by (intro growsI copy_reads)
qed (unfold read_ListMeta_def bind_eq_Some_conv ListMeta_DeepCopyInto_def wp_simps, elim exE conjE,
  (rule copy_steps, assumption, assumption, assumption)+, rule conjI, assumption, erule live_mono, (simp; fail))

lemmas [copy_steps] = copies_ListMeta [THEN copies_wp]
lemmas [copy_reads] = copies_ListMeta [THEN copies_stable]

lemma copies_ResourceLimits: "copies read_ResourceLimits ResourceLimits_DeepCopyInto"
proof (rule copies_fieldsI)
  show "grows read_ResourceLimits" unfolding read_ResourceLimits_def by (intro growsI copy_reads)
qed (unfold read_ResourceLimits_def bind_eq_Some_conv ResourceLimits_DeepCopyInto_def wp_simps, elim exE conjE,
  (rule copy_steps, assumption, assumption, assumption)+, rule conjI, assumption, erule live_mono, (simp; fail))

lemma copies_ScaleDownConfig: "copies read_ScaleDownConfig ScaleDownConfig_DeepCopyInto"
proof (rule copies_fieldsI)
  show "grows read_ScaleDownConfig" unfolding read_ScaleDownConfig_def by (intro growsI copy_reads)
qed (unfold read_ScaleDownConfig_def bind_eq_Some_conv ScaleDownConfig_DeepCopyInto_def wp_simps, elim exE conjE,
  (rule copy_steps, assumption, assumption, assumption)+, rule conjI, assumption, erule live_mono, (simp; fail))

lemma copies_ScaleUpConfig: "copies read_ScaleUpConfig ScaleUpConfig_DeepCopyInto"
proof (rule copies_fieldsI)
  show "grows read_ScaleUpConfig" unfolding read_ScaleUpConfig_def by (intro growsI copy_reads)
qed (unfold read_ScaleUpConfig_def bind_eq_Some_conv ScaleUpConfig_DeepCopyInto_def wp_simps, elim exE conjE,
  (rule copy_steps, assumption, assumption, assumption)+, rule conjI, assumption, erule live_mono, (simp; fail))

lemma copy_ResourceLimits_ptr: "copies (read_ptr the_ResourceLimits read_ResourceLimits)
    (copy_struct the_ResourceLimits CResourceLimits ResourceLimits_DeepCopyInto)"
  by (rule copies_struct [OF _ copies_ResourceLimits]) simp

lemmas [copy_steps] = copy_ResourceLimits_ptr [THEN copies_wp]
lemmas [copy_reads] = copy_ResourceLimits_ptr [THEN copies_stable]

lemma copy_ScaleDownConfig_ptr: "copies (read_ptr the_ScaleDownConfig read_ScaleDownConfig)
    (copy_struct the_ScaleDownConfig CScaleDownConfig ScaleDownConfig_DeepCopyInto)"
  by (rule copies_struct [OF _ copies_ScaleDownConfig]) simp

lemmas [copy_steps] = copy_ScaleDownConfig_ptr [THEN copies_wp]
lemmas [copy_reads] = copy_ScaleDownConfig_ptr [THEN copies_stable]

lemma copy_ScaleUpConfig_ptr: "copies (read_ptr the_ScaleUpConfig read_ScaleUpConfig)
    (copy_struct the_ScaleUpConfig CScaleUpConfig ScaleUpConfig_DeepCopyInto)"
  by (rule copies_struct [OF _ copies_ScaleUpConfig]) simp

lemmas [copy_steps] = copy_ScaleUpConfig_ptr [THEN copies_wp]
lemmas [copy_reads] = copy_ScaleUpConfig_ptr [THEN copies_stable]

lemma copies_ClusterAutoscalerSpec: "copies read_ClusterAutoscalerSpec ClusterAutoscalerSpec_DeepCopyInto"
proof (rule copies_fieldsI)
  show "grows read_ClusterAutoscalerSpec" unfolding read_ClusterAutoscalerSpec_def by (intro growsI copy_reads)
qed (unfold read_ClusterAutoscalerSpec_def bind_eq_Some_conv ClusterAutoscalerSpec_DeepCopyInto_def wp_simps, elim exE conjE,
  (rule copy_steps, assumption, assumption, assumption)+, rule conjI, assumption, erule live_mono, (simp; fail))

lemmas [copy_steps] = copies_ClusterAutoscalerSpec [THEN copies_wp]
lemmas [copy_reads] = copies_ClusterAutoscalerSpec [THEN copies_stable]

lemma copies_ClusterAutoscaler: "copies read_ClusterAutoscaler ClusterAutoscaler_DeepCopyInto"
proof (rule copies_fieldsI)
  show "grows read_ClusterAutoscaler" unfolding read_ClusterAutoscaler_def by (intro growsI copy_reads)
qed (unfold read_ClusterAutoscaler_def bind_eq_Some_conv ClusterAutoscaler_DeepCopyInto_def wp_simps, elim exE conjE,
  (rule copy_steps, assumption, assumption, assumption)+, rule conjI, assumption, erule live_mono, (simp; fail))

lemma copy_ClusterAutoscaler_elements: "copies (read_slice the_ClusterAutoscalers read_ClusterAutoscaler)
    (copy_elements the_ClusterAutoscalers CClusterAutoscalers ClusterAutoscaler_DeepCopyInto)"
  by (rule copies_elements [OF _ copies_ClusterAutoscaler]) simp

lemmas [copy_steps] = copy_ClusterAutoscaler_elements [THEN copies_wp]
lemmas [copy_reads] = copy_ClusterAutoscaler_elements [THEN copies_stable]

lemma copies_ClusterAutoscalerList: "copies read_ClusterAutoscalerList ClusterAutoscalerList_DeepCopyInto"
proof (rule copies_fieldsI)
  show "grows read_ClusterAutoscalerList" unfolding read_ClusterAutoscalerList_def by (intro growsI copy_reads)
qed (unfold read_ClusterAutoscalerList_def bind_eq_Some_conv ClusterAutoscalerList_DeepCopyInto_def wp_simps, elim exE conjE,
  (rule copy_steps, assumption, assumption, assumption)+, rule conjI, assumption, erule live_mono, (simp; fail))

lemma copies_MachineAutoscalerStatus: "copies read_MachineAutoscalerStatus MachineAutoscalerStatus_DeepCopyInto"
proof (rule copies_fieldsI)
  show "grows read_MachineAutoscalerStatus" unfolding read_MachineAutoscalerStatus_def by (intro growsI copy_reads)
qed (unfold read_MachineAutoscalerStatus_def bind_eq_Some_conv MachineAutoscalerStatus_DeepCopyInto_def wp_simps, elim exE conjE,
  (rule copy_steps, assumption, assumption, assumption)+, rule conjI, assumption, erule live_mono, (simp; fail))

lemmas [copy_steps] = copies_MachineAutoscalerStatus [THEN copies_wp]
lemmas [copy_reads] = copies_MachineAutoscalerStatus [THEN copies_stable]

lemma copies_MachineAutoscaler: "copies read_MachineAutoscaler MachineAutoscaler_DeepCopyInto"
proof (rule copies_fieldsI)
  show "grows read_MachineAutoscaler" unfolding read_MachineAutoscaler_def by (intro growsI copy_reads)
qed (unfold read_MachineAutoscaler_def bind_eq_Some_conv MachineAutoscaler_DeepCopyInto_def wp_simps, elim exE conjE,
  (rule copy_steps, assumption, assumption, assumption)+, rule conjI, assumption, erule live_mono, (simp; fail))

lemma copy_MachineAutoscaler_elements: "copies (read_slice the_MachineAutoscalers read_MachineAutoscaler)
    (copy_elements the_MachineAutoscalers CMachineAutoscalers MachineAutoscaler_DeepCopyInto)"
  by (rule copies_elements [OF _ copies_MachineAutoscaler]) simp

lemmas [copy_steps] = copy_MachineAutoscaler_elements [THEN copies_wp]
lemmas [copy_reads] = copy_MachineAutoscaler_elements [THEN copies_stable]

lemma copies_MachineAutoscalerList: "copies read_MachineAutoscalerList MachineAutoscalerList_DeepCopyInto"
proof (rule copies_fieldsI)
  show "grows read_MachineAutoscalerList" unfolding read_MachineAutoscalerList_def by (intro growsI copy_reads)
qed (unfold read_MachineAutoscalerList_def bind_eq_Some_conv MachineAutoscalerList_DeepCopyInto_def wp_simps, elim exE conjE,
  (rule copy_steps, assumption, assumption, assumption)+, rule conjI, assumption, erule live_mono, (simp; fail))

text \<open>\<open>DeepCopy\<close> of a pointer.\<close>

lemma copies_DeepCopy:
  "copies (read_ptr the_ClusterAutoscaler read_ClusterAutoscaler) ClusterAutoscaler_DeepCopy"
  "copies (read_ptr the_ClusterAutoscalerList read_ClusterAutoscalerList) ClusterAutoscalerList_DeepCopy"
  "copies (read_ptr the_ClusterAutoscalerSpec read_ClusterAutoscalerSpec) ClusterAutoscalerSpec_DeepCopy"
  "copies (read_ptr the_ResourceLimits read_ResourceLimits) ResourceLimits_DeepCopy"
  "copies (read_ptr the_ScaleDownConfig read_ScaleDownConfig) ScaleDownConfig_DeepCopy"
  "copies (read_ptr the_ScaleUpConfig read_ScaleUpConfig) ScaleUpConfig_DeepCopy"
  "copies (read_ptr the_MachineAutoscaler read_MachineAutoscaler) MachineAutoscaler_DeepCopy"
  "copies (read_ptr the_MachineAutoscalerList read_MachineAutoscalerList) MachineAutoscalerList_DeepCopy"
  "copies (read_ptr the_MachineAutoscalerStatus read_MachineAutoscalerStatus) MachineAutoscalerStatus_DeepCopy"
  unfolding ClusterAutoscaler_DeepCopy_def ClusterAutoscalerList_DeepCopy_def ClusterAutoscalerSpec_DeepCopy_def
    ResourceLimits_DeepCopy_def ScaleDownConfig_DeepCopy_def ScaleUpConfig_DeepCopy_def
    MachineAutoscaler_DeepCopy_def MachineAutoscalerList_DeepCopy_def MachineAutoscalerStatus_DeepCopy_def
  by (rule copies_struct; (simp; fail)?; rule copies_ClusterAutoscaler copies_ClusterAutoscalerList
      copies_ClusterAutoscalerSpec copies_ResourceLimits copies_ScaleDownConfig copies_ScaleUpConfig
      copies_MachineAutoscaler copies_MachineAutoscalerList copies_MachineAutoscalerStatus)+

lemma copies_DeepCopy_flat:
  "copies (read_ptr the_ClusterAutoscalerStatus read_flat) ClusterAutoscalerStatus_DeepCopy"
  "copies (read_ptr the_GPULimit read_flat) GPULimit_DeepCopy"
  "copies (read_ptr the_ResourceRange read_flat) ResourceRange_DeepCopy"
  "copies (read_ptr the_CrossVersionObjectReference read_flat) CrossVersionObjectReference_DeepCopy"
  "copies (read_ptr the_MachineAutoscalerSpec read_flat) MachineAutoscalerSpec_DeepCopy"
  unfolding ClusterAutoscalerStatus_DeepCopy_def GPULimit_DeepCopy_def ResourceRange_DeepCopy_def
    CrossVersionObjectReference_DeepCopy_def MachineAutoscalerSpec_DeepCopy_def
    ClusterAutoscalerStatus_DeepCopyInto_def GPULimit_DeepCopyInto_def ResourceRange_DeepCopyInto_def
    CrossVersionObjectReference_DeepCopyInto_def MachineAutoscalerSpec_DeepCopyInto_def
  by (rule copies_struct [OF _ copies_flat]; simp)+

text \<open>The contract of a pointer, written out.\<close>

lemma copies_pointer:
  assumes c: "copies (read_ptr p rd) dc" and v: "read_ptr p rd h (Some a) = Some (Some v)"
  shows "\<exists>b h'. dc (Some a) h = (Inr (Some b), h') \<and> prefix h h' \<and>
    (\<forall>h2. agree (length h) (length h') h' h2 \<longrightarrow> read_ptr p rd h2 (Some b) = Some (Some v)) \<and>
    (\<forall>h2. prefix h h2 \<longrightarrow> read_ptr p rd h2 (Some a) = Some (Some v))"
proof -
  obtain l' h' where *: "dc (Some a) h = (Inr l', h')" "prefix h h'"
    and live: "live (length h) h' (\<lambda>h. read_ptr p rd h l' = Some (Some v))"
    using c v unfolding copies_def by blast
  obtain b where b: "l' = Some b" using liveD [OF live] by (cases l') (auto simp: read_ptr_def)
  show ?thesis
  proof (intro exI conjI allI impI)
    show "dc (Some a) h = (Inr (Some b), h')" using * b by simp
    fix h2 assume "agree (length h) (length h') h' h2"
    then show "read_ptr p rd h2 (Some b) = Some (Some v)" using live b by (simp add: live_def)
  next
    fix h2 assume "prefix h h2"
    then show "read_ptr p rd h2 (Some a) = Some (Some v)" using growsD [OF copies_grows [OF c] v] by blast
  qed (use * in simp)
qed

text \<open>A nil pointer is copied to the nil interface; the interface of a copy holds a pointer.\<close>

lemma DeepCopyObject_nil:
  "ClusterAutoscaler_DeepCopyObject None h = (Inr None, h)"
  "ClusterAutoscalerList_DeepCopyObject None h = (Inr None, h)"
  "MachineAutoscaler_DeepCopyObject None h = (Inr None, h)"
  "MachineAutoscalerList_DeepCopyObject None h = (Inr None, h)"
  by (simp_all add: ClusterAutoscaler_DeepCopyObject_def ClusterAutoscaler_DeepCopy_def
      ClusterAutoscalerList_DeepCopyObject_def ClusterAutoscalerList_DeepCopy_def
      MachineAutoscaler_DeepCopyObject_def MachineAutoscaler_DeepCopy_def
      MachineAutoscalerList_DeepCopyObject_def MachineAutoscalerList_DeepCopy_def
      copy_struct_def act_simps)

section \<open>The properties\<close>

text \<open>
  C15: \<open>DeepCopy\<close> of a ClusterAutoscaler writes no memory that was there.  The copy reads as the
  original, and goes on to whatever becomes of the memory there was before the copy, the original
  included; the original reads as before whatever becomes of the copy.
\<close>

theorem ca_deep_copy:
  assumes "read_ptr the_ClusterAutoscaler read_ClusterAutoscaler h (Some a) = Some (Some v)"
  shows "\<exists>b h'. ClusterAutoscaler_DeepCopyObject (Some a) h = (Inr (Some (Object_ClusterAutoscaler b)), h') \<and>
    prefix h h' \<and>
    (\<forall>h2. agree (length h) (length h') h' h2 \<longrightarrow>
      read_ptr the_ClusterAutoscaler read_ClusterAutoscaler h2 (Some b) = Some (Some v)) \<and>
    (\<forall>h2. prefix h h2 \<longrightarrow>
      read_ptr the_ClusterAutoscaler read_ClusterAutoscaler h2 (Some a) = Some (Some v))"
  using copies_pointer [OF copies_DeepCopy(1) assms]
  by (auto simp: ClusterAutoscaler_DeepCopyObject_def act_simps act_bind_def split: prod.splits)

definition example_meta :: l_ObjectMeta where
  "example_meta =
     \<lparr>lom_name = ''default'', lom_generateName = [], lom_namespace = [], lom_selfLink = [],
      lom_uid = ''u'', lom_resourceVersion = 7, lom_generation = 1, lom_creationTimestamp = ''t'',
      lom_deletionTimestamp = None, lom_deletionGracePeriodSeconds = None, lom_labels = Some 0,
      lom_annotations = None, lom_ownerReferences = Some \<lparr>sl_base = 2, sl_off = 0, sl_len = 1, sl_cap = 1\<rparr>,
      lom_finalizers = Some \<lparr>sl_base = 3, sl_off = 1, sl_len = 1, sl_cap = 2\<rparr>, lom_managedFields = None\<rparr>"

definition example_store :: "cell store" where
  "example_store =
     [CStringMap [(''a'', ''b'')], CBool True,
      COwnerReferences [\<lparr>lor_apiVersion = ''v1'', lor_kind = ''K'', lor_name = ''n'', lor_uid = ''x'',
        lor_controller = Some 1, lor_blockOwnerDeletion = None\<rparr>],
      CStrings [''f'', ''g'', ''h''],
      CInt32 10, CGPULimits [\<lparr>gl_Type = ''gpu'', gl_Min = 0, gl_Max = 4\<rparr>],
      CResourceLimits \<lparr>lrl_MaxNodesTotal = Some 4, lrl_Cores = None, lrl_Memory = None,
        lrl_GPUS = Some \<lparr>sl_base = 5, sl_off = 0, sl_len = 1, sl_cap = 1\<rparr>\<rparr>,
      CClusterAutoscaler \<lparr>lca_TypeMeta = \<lparr>tm_Kind = ''ClusterAutoscaler'', tm_APIVersion = ''v1''\<rparr>,
        lca_ObjectMeta = example_meta,
        lca_Spec = \<lparr>lcs_ResourceLimits = Some 6, lcs_ScaleDown = None, lcs_ScaleUp = None,
          lcs_MaxPodGracePeriod = None, lcs_MaxNodeProvisionTime = ''15m'', lcs_PodPriorityThreshold = None,
          lcs_BalanceSimilarNodeGroups = Some 1, lcs_BalancingIgnoredLabels = None,
          lcs_IgnoreDaemonsetsUtilization = None, lcs_SkipNodesWithLocalStorage = None, lcs_LogVerbosity = None,
          lcs_Expanders = None, lcs_EnforceNodeGroupMinSize = None, lcs_StartupTaints = None\<rparr>,
        lca_Status = ()\<rparr>,
      CCrossVersionObjectReference \<lparr>cv_APIVersion = ''v'', cv_Kind = ''MachineSet'', cv_Name = ''m''\<rparr>,
      CMachineAutoscalers [\<lparr>lma_TypeMeta = \<lparr>tm_Kind = ''MachineAutoscaler'', tm_APIVersion = ''v1beta1''\<rparr>,
        lma_ObjectMeta = example_meta,
        lma_Spec = \<lparr>msp_MinReplicas = 1, msp_MaxReplicas = 3,
          msp_ScaleTargetRef = \<lparr>cv_APIVersion = ''v'', cv_Kind = ''MachineSet'', cv_Name = ''m''\<rparr>\<rparr>,
        lma_Status = \<lparr>lms_LastTargetRef = Some 8\<rparr>\<rparr>],
      CMachineAutoscalerList \<lparr>lml_TypeMeta = \<lparr>tm_Kind = ''MachineAutoscalerList'', tm_APIVersion = ''v1beta1''\<rparr>,
        lml_ListMeta = \<lparr>llm_SelfLink = [], llm_ResourceVersion = ''9'', llm_Continue = [],
          llm_RemainingItemCount = None, llm_ShardInfo = None\<rparr>,
        lml_Items = Some \<lparr>sl_base = 9, sl_off = 0, sl_len = 1, sl_cap = 1\<rparr>\<rparr>]"

definition example_full_meta :: FullMeta where
  "example_full_meta =
     \<lparr>om_name = ''default'', om_namespace = [], om_uid = ''u'', om_resourceVersion = 7, om_generation = 1,
      om_labels = Some [(''a'', ''b'')], om_annotations = None, om_finalizers = [''g''],
      om_deletionTimestamp = None,
      om_ownerReferences = [\<lparr>owr_apiVersion = ''v1'', owr_kind = ''K'', owr_name = ''n'', owr_uid = ''x'',
        owr_controller = Some True, owr_blockOwnerDeletion = None\<rparr>],
      fm_generateName = [], fm_selfLink = [], fm_creationTimestamp = ''t'',
      fm_deletionGracePeriodSeconds = None, fm_managedFields = []\<rparr>"

definition example_ca :: CA_object where
  "example_ca =
     \<lparr>cao_TypeMeta = \<lparr>tm_Kind = ''ClusterAutoscaler'', tm_APIVersion = ''v1''\<rparr>,
      cao_ObjectMeta = example_full_meta,
      cao_Spec = empty_spec\<lparr>cs_ResourceLimits := Some \<lparr>rl_MaxNodesTotal = Some 10, rl_Cores = None,
          rl_Memory = None, rl_GPUS = [\<lparr>gl_Type = ''gpu'', gl_Min = 0, gl_Max = 4\<rparr>]\<rparr>,
        cs_MaxNodeProvisionTime := ''15m'', cs_BalanceSimilarNodeGroups := Some True\<rparr>\<rparr>"

lemmas example_reads =
  example_store_def example_meta_def example_full_meta_def read_ptr_def read_slice_def read_map_def
  read_flat_def fetch_def slice_ok_def window_def read_ObjectMeta_def read_OwnerReference_def
  read_ListMeta_def

lemma example_ca_read:
  "read_ptr the_ClusterAutoscaler read_ClusterAutoscaler example_store (Some 7) = Some (Some example_ca)"
  by (simp add: example_reads example_ca_def empty_spec_def read_ClusterAutoscaler_def
      read_ClusterAutoscalerSpec_def read_ResourceLimits_def)

theorem ca_deep_copy_witness:
  "\<exists>b h'. ClusterAutoscaler_DeepCopyObject (Some 7) example_store =
      (Inr (Some (Object_ClusterAutoscaler b)), h') \<and>
    prefix example_store h' \<and>
    (\<forall>h2. agree (length example_store) (length h') h' h2 \<longrightarrow>
      read_ptr the_ClusterAutoscaler read_ClusterAutoscaler h2 (Some b) = Some (Some example_ca)) \<and>
    (\<forall>h2. prefix example_store h2 \<longrightarrow>
      read_ptr the_ClusterAutoscaler read_ClusterAutoscaler h2 (Some 7) = Some (Some example_ca))"
  by (rule ca_deep_copy [OF example_ca_read])

text \<open>
  The same of a list of MachineAutoscalers: every element is copied with all it refers to, into
  an array of the copy's own.
\<close>

theorem ma_list_deep_copy:
  assumes "read_ptr the_MachineAutoscalerList read_MachineAutoscalerList h (Some a) = Some (Some v)"
  shows "\<exists>b h'. MachineAutoscalerList_DeepCopyObject (Some a) h =
      (Inr (Some (Object_MachineAutoscalerList b)), h') \<and>
    prefix h h' \<and>
    (\<forall>h2. agree (length h) (length h') h' h2 \<longrightarrow>
      read_ptr the_MachineAutoscalerList read_MachineAutoscalerList h2 (Some b) = Some (Some v)) \<and>
    (\<forall>h2. prefix h h2 \<longrightarrow>
      read_ptr the_MachineAutoscalerList read_MachineAutoscalerList h2 (Some a) = Some (Some v))"
  using copies_pointer [OF copies_DeepCopy(8) assms]
  by (auto simp: MachineAutoscalerList_DeepCopyObject_def act_simps act_bind_def split: prod.splits)

definition example_ma_list :: MA_list where
  "example_ma_list =
     \<lparr>mal_TypeMeta = \<lparr>tm_Kind = ''MachineAutoscalerList'', tm_APIVersion = ''v1beta1''\<rparr>,
      mal_ListMeta = \<lparr>lm_SelfLink = [], lm_ResourceVersion = ''9'', lm_Continue = [],
        lm_RemainingItemCount = None, lm_ShardInfo = None\<rparr>,
      mal_Items = [\<lparr>mao_TypeMeta = \<lparr>tm_Kind = ''MachineAutoscaler'', tm_APIVersion = ''v1beta1''\<rparr>,
        mao_ObjectMeta = example_full_meta,
        mao_Spec = \<lparr>msp_MinReplicas = 1, msp_MaxReplicas = 3,
          msp_ScaleTargetRef = \<lparr>cv_APIVersion = ''v'', cv_Kind = ''MachineSet'', cv_Name = ''m''\<rparr>\<rparr>,
        mao_LastTargetRef = Some \<lparr>cv_APIVersion = ''v'', cv_Kind = ''MachineSet'', cv_Name = ''m''\<rparr>\<rparr>]\<rparr>"

lemma example_ma_list_read:
  "read_ptr the_MachineAutoscalerList read_MachineAutoscalerList example_store (Some 10) = Some (Some example_ma_list)"
  by (simp add: example_reads example_ma_list_def read_MachineAutoscalerList_def read_MachineAutoscaler_def
      read_MachineAutoscalerStatus_def)

theorem ma_list_deep_copy_witness:
  "\<exists>b h'. MachineAutoscalerList_DeepCopyObject (Some 10) example_store =
      (Inr (Some (Object_MachineAutoscalerList b)), h') \<and>
    prefix example_store h' \<and>
    (\<forall>h2. agree (length example_store) (length h') h' h2 \<longrightarrow>
      read_ptr the_MachineAutoscalerList read_MachineAutoscalerList h2 (Some b) = Some (Some example_ma_list)) \<and>
    (\<forall>h2. prefix example_store h2 \<longrightarrow>
      read_ptr the_MachineAutoscalerList read_MachineAutoscalerList h2 (Some 10) = Some (Some example_ma_list))"
  by (rule ma_list_deep_copy [OF example_ma_list_read])

end
