(* ===== verification/Kube_Cache.thy ===== *)
theory Kube_Cache
  imports API_DeepCopy_Properties
begin

text \<open>
  The reader behind the manager's client (\<open>CacheReader.Get\<close> of controller-runtime), over the
  store of \<open>Go_Store\<close>.  The informers keep pointers to objects; a reader gets a deep copy.  The
  reconcilers change what they read in place, and the rest of the development treats an object as
  a value: this theory shows why it may.
\<close>

section \<open>The reader\<close>

definition SetGroupVersionKind :: "GroupVersionKind \<Rightarrow> TypeMeta \<Rightarrow> TypeMeta" where
  "SetGroupVersionKind gvk t =
     (let (apiVersion, kind) = ToAPIVersionAndKind gvk in t\<lparr>tm_APIVersion := apiVersion, tm_Kind := kind\<rparr>)"

text \<open>\<open>cr_indexer\<close> is the indexer's map from keys to the objects of the informer.\<close>

record cache_reader =
  cr_indexer :: "string \<Rightarrow> nat option"
  cr_gvk :: GroupVersionKind
  cr_scopeRoot :: bool
  cr_disableDeepCopy :: bool

definition objectKeyToStoreKey :: "NamespacedName \<Rightarrow> string" where
  "objectKeyToStoreKey k =
     (if nn_namespace k = [] then nn_name k else nn_namespace k @ ''/'' @ nn_name k)"

definition reader_key :: "cache_reader \<Rightarrow> NamespacedName \<Rightarrow> string" where
  "reader_key c key =
     objectKeyToStoreKey (if cr_scopeRoot c then key\<lparr>nn_namespace := []\<rparr> else key)"

text \<open>
  \<open>Get\<close>, for a kind of object given by its cells, its \<open>DeepCopyObject\<close> and the setter of its
  type.  \<open>unsafe\<close> is the option \<open>UnsafeDisableDeepCopy\<close>.  The object is assigned to \<open>*out\<close>,
  field by field: what its pointers refer to is shared with it.
\<close>

definition CacheReader_Get ::
  "(cell \<Rightarrow> 'l option) \<Rightarrow> ('l \<Rightarrow> cell) \<Rightarrow> (ptr \<Rightarrow> (cell store, ptr) act) \<Rightarrow> (GroupVersionKind \<Rightarrow> 'l \<Rightarrow> 'l) \<Rightarrow>
    cache_reader \<Rightarrow> bool \<Rightarrow> NamespacedName \<Rightarrow> nat \<Rightarrow> (cell store, unit) act" where
  "CacheReader_Get p i deepcopy settype c unsafe key out =
     (case cr_indexer c (reader_key c key) of
        None \<Rightarrow> act_raise not_found
      | Some a \<Rightarrow>
          let disabled = cr_disableDeepCopy c \<or> unsafe
          in act_bind (if disabled then act_return (Some a) else deepcopy (Some a)) (\<lambda>obj.
             case obj of None \<Rightarrow> act_raise nil_dereference
             | Some b \<Rightarrow> act_bind (load p b) (\<lambda>l.
                 assign out (i (if disabled then l else settype (cr_gvk c) l)))))"

text \<open>\<open>obj := &T{}; err := r.client.Get(ctx, key, obj)\<close>, as both reconcilers begin.\<close>

definition client_get ::
  "(cell \<Rightarrow> 'l option) \<Rightarrow> ('l \<Rightarrow> cell) \<Rightarrow> 'l \<Rightarrow> (ptr \<Rightarrow> (cell store, ptr) act) \<Rightarrow> (GroupVersionKind \<Rightarrow> 'l \<Rightarrow> 'l) \<Rightarrow>
    cache_reader \<Rightarrow> bool \<Rightarrow> NamespacedName \<Rightarrow> (cell store, nat) act" where
  "client_get p i zero deepcopy settype c unsafe key =
     act_bind (alloc (i zero)) (\<lambda>out.
     act_bind (CacheReader_Get p i deepcopy settype c unsafe key out) (\<lambda>_. act_return out))"

text \<open>The object a pointer leads to.\<close>

definition object_at ::
  "(cell \<Rightarrow> 'l option) \<Rightarrow> (cell store \<Rightarrow> 'l \<Rightarrow> 'v option) \<Rightarrow> ('v \<Rightarrow> 'o) \<Rightarrow> cell store \<Rightarrow> nat \<Rightarrow> 'o option" where
  "object_at p rd val h a = Option.bind (fetch p h a) (\<lambda>l. map_option val (rd h l))"

section \<open>What the reader relies on\<close>

locale cached_kind =
  fixes p :: "cell \<Rightarrow> 'l option" and i :: "'l \<Rightarrow> cell"
    and rd :: "cell store \<Rightarrow> 'l \<Rightarrow> 'v option" and val :: "'v \<Rightarrow> 'o"
    and deepcopy :: "ptr \<Rightarrow> (cell store, ptr) act" and settype :: "GroupVersionKind \<Rightarrow> 'l \<Rightarrow> 'l"
  assumes cells: "p (i l) = Some l"
    and deep: "copies (read_ptr p rd) deepcopy"
    and fresh: "deepcopy (Some a) h = (Inr (Some b), h') \<Longrightarrow> length h \<le> b"
    and typed: "map_option val (rd h (settype t l)) = map_option val (rd h l)"
begin

lemma object_at_ptr: "object_at p rd val h a = Some ob \<longleftrightarrow> (\<exists>v. read_ptr p rd h (Some a) = Some (Some v) \<and> val v = ob)"
  by (auto simp: object_at_def read_ptr_def bind_eq_Some_conv)

lemma object_at_grows: "object_at p rd val h a = Some ob \<Longrightarrow> prefix h h' \<Longrightarrow> object_at p rd val h' a = Some ob"
  unfolding object_at_ptr using growsD [OF copies_grows [OF deep]] by blast

text \<open>
  A read with the deep copy: the cells there were stay, \<open>*out\<close> is the first new one, and what it
  holds is the contents of the copy, which depends only on cells above it.
\<close>

lemma get_owned:
  assumes c: "\<not> cr_disableDeepCopy c" and a: "cr_indexer c (reader_key c key) = Some a"
    and ob: "object_at p rd val h a = Some ob"
  shows "\<exists>h' l. client_get p i zero deepcopy settype c False key h = (Inr (length h), h') \<and> prefix h h' \<and>
    fetch p h' (length h) = Some (settype (cr_gvk c) l) \<and>
    live (Suc (length h)) h' (\<lambda>h2. map_option val (rd h2 (settype (cr_gvk c) l)) = Some ob) \<and>
    (\<exists>k1 b k2. deepcopy (Some a) k1 = (Inr (Some b), k2) \<and> fetch p k2 b = Some l)"
proof -
  let ?h0 = "h @ [i zero]" let ?out = "length h"
  obtain v where v: "read_ptr p rd ?h0 (Some a) = Some (Some v)" "val v = ob"
    using object_at_grows [OF ob, of ?h0] by (auto simp: object_at_ptr)
  from copies_pointer [OF deep v(1)] obtain b h1 where *: "deepcopy (Some a) ?h0 = (Inr (Some b), h1)"
    "prefix ?h0 h1" and live: "live (length ?h0) h1 (\<lambda>h2. read_ptr p rd h2 (Some b) = Some (Some v))"
    unfolding live_def by blast
  obtain l where l: "fetch p h1 b = Some l" "rd h1 l = Some v"
    using liveD [OF live] by (auto simp: read_ptr_def bind_eq_Some_conv)
  let ?l = "settype (cr_gvk c) l" let ?h2 = "h1[?out := i ?l]"
  have run: "client_get p i zero deepcopy settype c False key h = (Inr ?out, ?h2)"
    using c a *(1) l(1)
    by (simp add: client_get_def CacheReader_Get_def act_bind_def act_simps alloc_def load_def assign_def Let_def)
  have inner: "live (Suc (length h)) h1 (\<lambda>h2. map_option val (rd h2 l) = Some ob)"
    unfolding live_def
  proof (intro allI impI)
    fix h2 assume h2: "agree (Suc (length h)) (length h1) h1 h2"
    then have "read_ptr p rd h2 (Some b) = Some (Some v)" using live by (simp add: live_def)
    moreover have "fetch p h2 b = Some l"
      using fresh [OF *(1)] l(1) h2 by (auto simp: fetch_def agree_def split: if_splits)
    ultimately show "map_option val (rd h2 l) = Some ob" by (auto simp: read_ptr_def v(2))
  qed
  note fill = fill_cell [OF *(2) inner, where c' = "i ?l"]
  have "live (Suc (length h)) ?h2 (\<lambda>h2. map_option val (rd h2 ?l) = Some ob)"
    unfolding typed using inner by (rule live_update) simp
  moreover have "fetch p ?h2 ?out = Some ?l"
    using *(2) by (auto simp: fetch_def cells prefix_def nth_append)
  ultimately show ?thesis using run fill(1) *(1) l(1) by blast
qed

lemma get_copy:
  assumes "\<not> cr_disableDeepCopy c" "cr_indexer c (reader_key c key) = Some a" "object_at p rd val h a = Some ob"
  shows "\<exists>out h'. client_get p i zero deepcopy settype c False key h = (Inr out, h') \<and> prefix h h' \<and>
    live (length h) h' (\<lambda>h2. object_at p rd val h2 out = Some ob)"
proof -
  obtain h' l where *: "client_get p i zero deepcopy settype c False key h = (Inr (length h), h')" "prefix h h'"
    "fetch p h' (length h) = Some (settype (cr_gvk c) l)"
    "live (Suc (length h)) h' (\<lambda>h2. map_option val (rd h2 (settype (cr_gvk c) l)) = Some ob)"
    using get_owned [OF assms] by blast
  have "live (length h) h' (\<lambda>h2. fetch p h2 (length h) = Some (settype (cr_gvk c) l))"
    using *(3) by (intro live_fetch) (auto simp: fetch_def split: if_splits)
  moreover have "live (length h) h' (\<lambda>h2. map_option val (rd h2 (settype (cr_gvk c) l)) = Some ob)"
    using *(4) by (rule live_from) simp
  ultimately have "live (length h) h' (\<lambda>h2. object_at p rd val h2 (length h) = Some ob)"
    by (auto simp: live_def object_at_def)
  with *(1,2) show ?thesis by blast
qed

text \<open>
  The caller may do to its own memory what it wants, and to what it got: the cache keeps the
  object and gives it out again.  And nothing that happens to the memory there was before the read,
  the cache's included, changes what the caller got.
\<close>

lemma get_isolated:
  assumes c: "\<not> cr_disableDeepCopy c" and a: "cr_indexer c (reader_key c key) = Some a"
    and ob: "object_at p rd val h a = Some ob"
  shows "\<exists>out h'. client_get p i zero deepcopy settype c False key h = (Inr out, h') \<and> prefix h h' \<and>
    object_at p rd val h' out = Some ob \<and>
    (\<forall>h2. prefix h h2 \<longrightarrow> object_at p rd val h2 a = Some ob \<and>
      (\<exists>out2 h3. client_get p i zero deepcopy settype c False key h2 = (Inr out2, h3) \<and>
        object_at p rd val h3 out2 = Some ob)) \<and>
    (\<forall>h2. agree (length h) (length h') h' h2 \<longrightarrow> object_at p rd val h2 out = Some ob)"
proof -
  obtain out h' where *: "client_get p i zero deepcopy settype c False key h = (Inr out, h')" "prefix h h'"
    and live: "live (length h) h' (\<lambda>h2. object_at p rd val h2 out = Some ob)"
    using get_copy [OF assms] by blast
  have again: "object_at p rd val h2 a = Some ob \<and>
      (\<exists>out2 h3. client_get p i zero deepcopy settype c False key h2 = (Inr out2, h3) \<and>
        object_at p rd val h3 out2 = Some ob)" if "prefix h h2" for h2
    using object_at_grows [OF ob that] get_copy [OF c a object_at_grows [OF ob that]] liveD by blast
  show ?thesis using * again liveD [OF live] live by (auto simp: live_def)
qed

end

section \<open>The two kinds\<close>

definition empty_lmeta :: l_ObjectMeta where
  "empty_lmeta =
     \<lparr>lom_name = [], lom_generateName = [], lom_namespace = [], lom_selfLink = [], lom_uid = [],
      lom_resourceVersion = 0, lom_generation = 0, lom_creationTimestamp = [],
      lom_deletionTimestamp = None, lom_deletionGracePeriodSeconds = None, lom_labels = None,
      lom_annotations = None, lom_ownerReferences = None, lom_finalizers = None, lom_managedFields = None\<rparr>"

definition zero_ClusterAutoscaler :: l_ClusterAutoscaler where
  "zero_ClusterAutoscaler =
     \<lparr>lca_TypeMeta = \<lparr>tm_Kind = [], tm_APIVersion = []\<rparr>, lca_ObjectMeta = empty_lmeta,
      lca_Spec = \<lparr>lcs_ResourceLimits = None, lcs_ScaleDown = None, lcs_ScaleUp = None,
        lcs_MaxPodGracePeriod = None, lcs_MaxNodeProvisionTime = [], lcs_PodPriorityThreshold = None,
        lcs_BalanceSimilarNodeGroups = None, lcs_BalancingIgnoredLabels = None,
        lcs_IgnoreDaemonsetsUtilization = None, lcs_SkipNodesWithLocalStorage = None, lcs_LogVerbosity = None,
        lcs_Expanders = None, lcs_EnforceNodeGroupMinSize = None, lcs_StartupTaints = None\<rparr>,
      lca_Status = ()\<rparr>"

definition zero_MachineAutoscaler :: l_MachineAutoscaler where
  "zero_MachineAutoscaler =
     \<lparr>lma_TypeMeta = \<lparr>tm_Kind = [], tm_APIVersion = []\<rparr>, lma_ObjectMeta = empty_lmeta,
      lma_Spec = \<lparr>msp_MinReplicas = 0, msp_MaxReplicas = 0,
        msp_ScaleTargetRef = \<lparr>cv_APIVersion = [], cv_Kind = [], cv_Name = []\<rparr>\<rparr>,
      lma_Status = \<lparr>lms_LastTargetRef = None\<rparr>\<rparr>"

definition ca_settype :: "GroupVersionKind \<Rightarrow> l_ClusterAutoscaler \<Rightarrow> l_ClusterAutoscaler" where
  "ca_settype gvk l = l\<lparr>lca_TypeMeta := SetGroupVersionKind gvk (lca_TypeMeta l)\<rparr>"

definition ma_settype :: "GroupVersionKind \<Rightarrow> l_MachineAutoscaler \<Rightarrow> l_MachineAutoscaler" where
  "ma_settype gvk l = l\<lparr>lma_TypeMeta := SetGroupVersionKind gvk (lma_TypeMeta l)\<rparr>"

definition get_ClusterAutoscaler :: "cache_reader \<Rightarrow> bool \<Rightarrow> NamespacedName \<Rightarrow> (cell store, nat) act" where
  "get_ClusterAutoscaler =
     client_get the_ClusterAutoscaler CClusterAutoscaler zero_ClusterAutoscaler ClusterAutoscaler_DeepCopy ca_settype"

definition get_MachineAutoscaler :: "cache_reader \<Rightarrow> bool \<Rightarrow> NamespacedName \<Rightarrow> (cell store, nat) act" where
  "get_MachineAutoscaler =
     client_get the_MachineAutoscaler CMachineAutoscaler zero_MachineAutoscaler MachineAutoscaler_DeepCopy ma_settype"

definition stored_ca :: "cell store \<Rightarrow> nat \<Rightarrow> ClusterAutoscaler option" where
  "stored_ca = object_at the_ClusterAutoscaler read_ClusterAutoscaler ca_of"

definition stored_ma :: "cell store \<Rightarrow> nat \<Rightarrow> MachineAutoscaler option" where
  "stored_ma = object_at the_MachineAutoscaler read_MachineAutoscaler ma_of"

lemma copy_struct_fresh: "copy_struct p i dc (Some a) h = (Inr (Some b), h') \<Longrightarrow> length h \<le> b"
  by (auto simp: copy_struct_def act_simps act_bind_Inr_iff load_def alloc_def split: option.splits)

interpretation cached_ca: cached_kind the_ClusterAutoscaler CClusterAutoscaler read_ClusterAutoscaler ca_of
    ClusterAutoscaler_DeepCopy ca_settype
proof
  show "copies (read_ptr the_ClusterAutoscaler read_ClusterAutoscaler) ClusterAutoscaler_DeepCopy"
    by (rule copies_DeepCopy)
  show "ClusterAutoscaler_DeepCopy (Some a) h = (Inr (Some b), h') \<Longrightarrow> length h \<le> b" for a h b h'
    unfolding ClusterAutoscaler_DeepCopy_def by (rule copy_struct_fresh)
  show "map_option ca_of (read_ClusterAutoscaler h (ca_settype t l)) = map_option ca_of (read_ClusterAutoscaler h l)"
    for h t l
    by (cases "read_ObjectMeta h (lca_ObjectMeta l)"; cases "read_ClusterAutoscalerSpec h (lca_Spec l)")
      (simp_all add: read_ClusterAutoscaler_def ca_settype_def ca_of_def)
qed simp

interpretation cached_ma: cached_kind the_MachineAutoscaler CMachineAutoscaler read_MachineAutoscaler ma_of
    MachineAutoscaler_DeepCopy ma_settype
proof
  show "copies (read_ptr the_MachineAutoscaler read_MachineAutoscaler) MachineAutoscaler_DeepCopy"
    by (rule copies_DeepCopy)
  show "MachineAutoscaler_DeepCopy (Some a) h = (Inr (Some b), h') \<Longrightarrow> length h \<le> b" for a h b h'
    unfolding MachineAutoscaler_DeepCopy_def by (rule copy_struct_fresh)
  show "map_option ma_of (read_MachineAutoscaler h (ma_settype t l)) = map_option ma_of (read_MachineAutoscaler h l)"
    for h t l
    by (cases "read_ObjectMeta h (lma_ObjectMeta l)"; cases "read_MachineAutoscalerStatus h (lma_Status l)")
      (simp_all add: read_MachineAutoscaler_def ma_settype_def ma_of_def)
qed simp

section \<open>Isolation\<close>

lemma ca_cache_isolated:
  assumes "\<not> cr_disableDeepCopy c" "cr_indexer c (reader_key c key) = Some a" "stored_ca h a = Some ca"
  shows "\<exists>out h'. get_ClusterAutoscaler c False key h = (Inr out, h') \<and> prefix h h' \<and>
    stored_ca h' out = Some ca \<and>
    (\<forall>h2. prefix h h2 \<longrightarrow> stored_ca h2 a = Some ca \<and>
      (\<exists>out2 h3. get_ClusterAutoscaler c False key h2 = (Inr out2, h3) \<and> stored_ca h3 out2 = Some ca)) \<and>
    (\<forall>h2. agree (length h) (length h') h' h2 \<longrightarrow> stored_ca h2 out = Some ca)"
  using assms unfolding stored_ca_def get_ClusterAutoscaler_def by (rule cached_ca.get_isolated)

text \<open>
  C10: A reconciler that reads a MachineAutoscaler through the manager's cache gets it as the cache has
  it, in memory of its own: whatever it writes there, the cache keeps the object and gives it out
  unchanged on the next read; and whatever the informers do to the cache's memory, the reconciler's
  object stays as it was read.
\<close>

theorem cache_isolated:
  assumes "\<not> cr_disableDeepCopy c" "cr_indexer c (reader_key c key) = Some a" "stored_ma h a = Some ma"
  shows "\<exists>out h'. get_MachineAutoscaler c False key h = (Inr out, h') \<and> prefix h h' \<and>
    stored_ma h' out = Some ma \<and>
    (\<forall>h2. prefix h h2 \<longrightarrow> stored_ma h2 a = Some ma \<and>
      (\<exists>out2 h3. get_MachineAutoscaler c False key h2 = (Inr out2, h3) \<and> stored_ma h3 out2 = Some ma)) \<and>
    (\<forall>h2. agree (length h) (length h') h' h2 \<longrightarrow> stored_ma h2 out = Some ma)"
  using assms unfolding stored_ma_def get_MachineAutoscaler_def by (rule cached_ma.get_isolated)

definition example_ref :: CrossVersionObjectReference where
  "example_ref = \<lparr>cv_APIVersion = ''v'', cv_Kind = ''MachineSet'', cv_Name = ''m''\<rparr>"

definition example_lma :: l_MachineAutoscaler where
  "example_lma =
     \<lparr>lma_TypeMeta = \<lparr>tm_Kind = [], tm_APIVersion = []\<rparr>,
      lma_ObjectMeta = empty_lmeta\<lparr>lom_name := ''x'', lom_namespace := ''n'',
        lom_finalizers := Some \<lparr>sl_base = 1, sl_off = 0, sl_len = 1, sl_cap = 2\<rparr>\<rparr>,
      lma_Spec = \<lparr>msp_MinReplicas = 1, msp_MaxReplicas = 3, msp_ScaleTargetRef = example_ref\<rparr>,
      lma_Status = \<lparr>lms_LastTargetRef = Some 0\<rparr>\<rparr>"

definition cache_store :: "cell store" where
  "cache_store = [CCrossVersionObjectReference example_ref, CStrings [''f'', []], CMachineAutoscaler example_lma]"

definition example_reader :: "bool \<Rightarrow> cache_reader" where
  "example_reader disabled =
     \<lparr>cr_indexer = (\<lambda>k. if k = ''n/x'' then Some 2 else None),
      cr_gvk = \<lparr>gvk_group = ''autoscaling.openshift.io'', gvk_version = ''v1beta1'', gvk_kind = ''MachineAutoscaler''\<rparr>,
      cr_scopeRoot = False, cr_disableDeepCopy = disabled\<rparr>"

definition example_request :: NamespacedName where
  "example_request = \<lparr>nn_namespace = ''n'', nn_name = ''x''\<rparr>"

definition example_ma :: MachineAutoscaler where
  "example_ma =
     \<lparr>ma_meta = empty_meta\<lparr>om_name := ''x'', om_namespace := ''n'', om_finalizers := [''f'']\<rparr>,
      ma_MinReplicas = 1, ma_MaxReplicas = 3, ma_ScaleTargetRef = example_ref, ma_LastTargetRef = Some example_ref\<rparr>"

lemmas cache_reads =
  stored_ma_def object_at_def example_reads cache_store_def example_lma_def empty_lmeta_def
  read_MachineAutoscaler_def read_MachineAutoscalerStatus_def ma_of_def ObjectMeta.truncate_def

lemma example_ma_stored: "stored_ma cache_store 2 = Some example_ma"
  by (simp add: cache_reads example_ma_def empty_meta_def)

lemma example_reader_key: "cr_indexer (example_reader b) (reader_key (example_reader b) example_request) = Some 2"
  by (simp add: example_reader_def reader_key_def objectKeyToStoreKey_def example_request_def)

theorem cache_isolated_witness:
  "\<exists>out h'. get_MachineAutoscaler (example_reader False) False example_request cache_store = (Inr out, h') \<and>
    prefix cache_store h' \<and> stored_ma h' out = Some example_ma \<and>
    (\<forall>h2. prefix cache_store h2 \<longrightarrow> stored_ma h2 2 = Some example_ma \<and>
      (\<exists>out2 h3. get_MachineAutoscaler (example_reader False) False example_request h2 = (Inr out2, h3) \<and>
        stored_ma h3 out2 = Some example_ma)) \<and>
    (\<forall>h2. agree (length cache_store) (length h') h' h2 \<longrightarrow> stored_ma h2 out = Some example_ma)"
  by (rule cache_isolated [OF _ example_reader_key example_ma_stored]) (simp add: example_reader_def)

text \<open>
  Without the deep copy the assignment to \<open>*out\<close> shares what pointers refer to: a write through
  the object read, here to the reference noted in its status, is a write to the cache.
\<close>

lemma unsafe_get_shares:
  "\<exists>h'. get_MachineAutoscaler (example_reader False) True example_request cache_store = (Inr 3, h') \<and>
    map_option (\<lambda>l. lms_LastTargetRef (lma_Status l)) (fetch the_MachineAutoscaler h' 3) = Some (Some 0) \<and>
    (\<forall>r. r \<noteq> example_ref \<longrightarrow> stored_ma (h'[0 := CCrossVersionObjectReference r]) 2 \<noteq> stored_ma cache_store 2)"
proof -
  have "get_MachineAutoscaler (example_reader False) True example_request cache_store =
      (Inr 3, cache_store @ [CMachineAutoscaler example_lma])"
    by (simp add: get_MachineAutoscaler_def client_get_def CacheReader_Get_def example_reader_key act_bind_def
        act_simps alloc_def load_def assign_def fetch_def cache_store_def)
  then show ?thesis
    by (simp add: cache_reads example_ma_stored)
qed

end
