(* ===== verification/MA_Memory.thy ===== *)
theory MA_Memory
  imports Kube_Cache MA_Properties
begin

text \<open>
  The MachineAutoscaler reconciler changes the object it has read in place before it sends it to the
  server, and the client decodes the server's answer into the same object: \<open>SetLastTarget\<close> sets a
  pointer of the status, \<open>EnsureFinalizer\<close> appends to the slice of the finalizers, which in Go
  writes into the old array where that has room, and \<open>RemoveFinalizer\<close> builds a new slice.  Here the
  three are run on memory next to the cluster, from an object read through the cache;
  \<open>MA_Reconciler\<close> has the same steps on values.
\<close>

section \<open>The cluster and the memory\<close>

text \<open>An action on the cluster and one on the memory, as actions on both.\<close>

definition on_world :: "('w, 'a) act \<Rightarrow> ('w \<times> 'h, 'a) act" where
  "on_world m s = (case m (fst s) of (r, w) \<Rightarrow> (r, (w, snd s)))"

definition on_store :: "('h, 'a) act \<Rightarrow> ('w \<times> 'h, 'a) act" where
  "on_store m s = (case m (snd s) of (r, h) \<Rightarrow> (r, (fst s, h)))"

lemma on_simps [simp]:
  "on_world m (w, h) = (fst (m w), (snd (m w), h))"
  "on_store n (w, h) = (fst (n h), (w, snd (n h)))"
  by (simp_all add: on_world_def on_store_def split: prod.split)

section \<open>\<open>append\<close>\<close>

text \<open>
  \<open>append(s, x)\<close>: into the spare capacity where there is some, else into a new array, whose capacity
  \<open>grow\<close> chooses; its spare elements are zero.
\<close>

definition new_cap :: "(nat \<Rightarrow> nat) \<Rightarrow> nat \<Rightarrow> nat" where
  "new_cap grow n = max (Suc n) (grow n)"

definition go_append ::
  "(nat \<Rightarrow> nat) \<Rightarrow> ('c \<Rightarrow> 'a list option) \<Rightarrow> ('a list \<Rightarrow> 'c) \<Rightarrow> 'a \<Rightarrow> slice option \<Rightarrow> 'a \<Rightarrow> ('c store, slice) act" where
  "go_append grow p i zero s x =
     (case s of
        None \<Rightarrow>
          act_bind (alloc (i (x # replicate (new_cap grow 0 - 1) zero))) (\<lambda>b.
            act_return \<lparr>sl_base = b, sl_off = 0, sl_len = 1, sl_cap = new_cap grow 0\<rparr>)
      | Some s \<Rightarrow>
          act_bind (load p (sl_base s)) (\<lambda>xs.
            if sl_len s < sl_cap s then
              act_bind (assign (sl_base s) (i (xs[sl_off s + sl_len s := x]))) (\<lambda>_.
                act_return (s\<lparr>sl_len := Suc (sl_len s)\<rparr>))
            else
              let n = new_cap grow (sl_len s) in
              act_bind (alloc (i (window s xs @ x # replicate (n - Suc (sl_len s)) zero))) (\<lambda>b.
                act_return \<lparr>sl_base = b, sl_off = 0, sl_len = Suc (sl_len s), sl_cap = n\<rparr>)))"

section \<open>The finalizers\<close>

text \<open>\<open>GetFinalizers\<close> returns the header of the slice, \<open>SetFinalizers\<close> overwrites it.\<close>

definition with_finalizers :: "slice option \<Rightarrow> l_MachineAutoscaler \<Rightarrow> l_MachineAutoscaler" where
  "with_finalizers s l = l\<lparr>lma_ObjectMeta := (lma_ObjectMeta l)\<lparr>lom_finalizers := s\<rparr>\<rparr>"

definition mem_GetFinalizers :: "nat \<Rightarrow> (cell store, slice option) act" where
  "mem_GetFinalizers ma =
     act_bind (load the_MachineAutoscaler ma) (\<lambda>l. act_return (lom_finalizers (lma_ObjectMeta l)))"

definition mem_SetFinalizers :: "nat \<Rightarrow> slice option \<Rightarrow> (cell store, unit) act" where
  "mem_SetFinalizers ma f =
     act_bind (load the_MachineAutoscaler ma) (\<lambda>l. assign ma (CMachineAutoscaler (with_finalizers f l)))"

text \<open>The elements a loop over a slice of strings sees, together and one by one.\<close>

definition mem_elements :: "slice option \<Rightarrow> (cell store, string list) act" where
  "mem_elements s =
     (case s of
        None \<Rightarrow> act_return []
      | Some s \<Rightarrow> act_bind (load the_Strings (sl_base s)) (\<lambda>xs. act_return (window s xs)))"

definition mem_element :: "slice \<Rightarrow> nat \<Rightarrow> (cell store, string) act" where
  "mem_element s i = act_bind (load the_Strings (sl_base s)) (\<lambda>xs. act_return (xs ! (sl_off s + i)))"

text \<open>\<open>FilterString\<close>: the loop over the indices of the haystack, which appends to a slice that is nil first.\<close>

fun mem_filter_loop ::
  "(nat \<Rightarrow> nat) \<Rightarrow> string \<Rightarrow> slice \<Rightarrow> nat list \<Rightarrow> slice option \<Rightarrow> nat \<Rightarrow> (cell store, slice option \<times> nat) act" where
  "mem_filter_loop grow needle s [] newSlice found = act_return (newSlice, found)"
| "mem_filter_loop grow needle s (i # is) newSlice found =
     act_bind (mem_element s i) (\<lambda>x.
       if x \<noteq> needle then
         act_bind (go_append grow the_Strings CStrings [] newSlice x) (\<lambda>newSlice.
           mem_filter_loop grow needle s is (Some newSlice) found)
       else mem_filter_loop grow needle s is newSlice (Suc found))"

definition mem_FilterString :: "(nat \<Rightarrow> nat) \<Rightarrow> slice option \<Rightarrow> string \<Rightarrow> (cell store, slice option \<times> nat) act" where
  "mem_FilterString grow haystack needle =
     (case haystack of
        None \<Rightarrow> act_return (None, 0)
      | Some s \<Rightarrow> mem_filter_loop grow needle s [0..<sl_len s] None 0)"

section \<open>The three steps\<close>

text \<open>
  \<open>Update(ctx, ma)\<close>, of the status or of the rest: the object the pointer leads to is sent, and the
  answer is decoded into it.  \<open>upd\<close> is the client's update of \<open>ma_env\<close>, on values; \<open>decode\<close> is the
  decoder of the client library.
\<close>

definition encode :: "nat \<Rightarrow> (cell store, MachineAutoscaler) act" where
  "encode ma h = (case stored_ma h ma of None \<Rightarrow> Inl nil_dereference | Some ob \<Rightarrow> Inr ob, h)"

type_synonym decoder = "MachineAutoscaler \<Rightarrow> nat \<Rightarrow> (cell store, unit) act"

definition mem_send ::
  "(MachineAutoscaler \<Rightarrow> ('w, MachineAutoscaler) act) \<Rightarrow> decoder \<Rightarrow> nat \<Rightarrow> ('w \<times> cell store, unit) act" where
  "mem_send upd decode ma =
     act_bind (on_store (encode ma)) (\<lambda>ob.
     act_bind (on_world (upd ob)) (\<lambda>answer.
       on_store (decode answer ma)))"

definition mem_SetLastTarget ::
  "'w ma_env \<Rightarrow> decoder \<Rightarrow> nat \<Rightarrow> ObjectReference \<Rightarrow> ('w \<times> cell store, unit) act" where
  "mem_SetLastTarget env decode ma ref =
     act_bind (on_store (alloc (CCrossVersionObjectReference
         \<lparr>cv_APIVersion = or_apiVersion ref, cv_Kind = or_kind ref, cv_Name = or_name ref\<rparr>))) (\<lambda>b.
     act_bind (on_store (load the_MachineAutoscaler ma)) (\<lambda>l.
     act_bind (on_store (assign ma (CMachineAutoscaler (l\<lparr>lma_Status := \<lparr>lms_LastTargetRef = Some b\<rparr>\<rparr>)))) (\<lambda>_.
       mem_send (cl_update_status (me_ma env)) decode ma)))"

definition mem_EnsureFinalizer ::
  "'w ma_env \<Rightarrow> decoder \<Rightarrow> (nat \<Rightarrow> nat) \<Rightarrow> nat \<Rightarrow> ('w \<times> cell store, unit) act" where
  "mem_EnsureFinalizer env decode grow ma =
     act_bind (on_store (mem_GetFinalizers ma)) (\<lambda>s.
     act_bind (on_store (mem_elements s)) (\<lambda>fs.
       if list_ex (\<lambda>f. f = MachineTargetFinalizer) fs then act_return ()
       else
         act_bind (on_store (mem_GetFinalizers ma)) (\<lambda>s.
         act_bind (on_store (go_append grow the_Strings CStrings [] s MachineTargetFinalizer)) (\<lambda>f.
         act_bind (on_store (mem_SetFinalizers ma (Some f))) (\<lambda>_.
           mem_send (cl_update (me_ma env)) decode ma)))))"

definition mem_RemoveFinalizer ::
  "'w ma_env \<Rightarrow> decoder \<Rightarrow> (nat \<Rightarrow> nat) \<Rightarrow> nat \<Rightarrow> ('w \<times> cell store, unit) act" where
  "mem_RemoveFinalizer env decode grow ma =
     act_bind (on_store (mem_GetFinalizers ma)) (\<lambda>s.
     act_bind (on_store (mem_FilterString grow s MachineTargetFinalizer)) (\<lambda>(f, found).
       if found = 0 then act_return ()
       else
         act_bind (on_store (mem_SetFinalizers ma f)) (\<lambda>_.
           mem_send (cl_update (me_ma env)) decode ma)))"

section \<open>An object of one's own\<close>

text \<open>
  The object at \<open>m\<close> is owned: the rest of it lies above \<open>m\<close>, and an append to its finalizers
  either finds no room or writes an array above \<open>m\<close> on which nothing else of the object depends.
\<close>

definition own_finalizers :: "nat \<Rightarrow> cell store \<Rightarrow> l_MachineAutoscaler \<Rightarrow> MachineAutoscaler \<Rightarrow> bool" where
  "own_finalizers m h l ma \<longleftrightarrow>
     (case lom_finalizers (lma_ObjectMeta l) of
        None \<Rightarrow> True
      | Some s \<Rightarrow> sl_len s = sl_cap s \<or>
          Suc m \<le> sl_base s \<and>
          (\<forall>c. live (Suc m) (h[sl_base s := c])
             (\<lambda>h2. map_option ma_of (read_MachineAutoscaler h2 (with_finalizers None l)) = Some (ma_SetFinalizers [] ma))))"

definition owned :: "nat \<Rightarrow> cell store \<Rightarrow> MachineAutoscaler \<Rightarrow> bool" where
  "owned m h ma \<longleftrightarrow>
     (\<exists>l. fetch the_MachineAutoscaler h m = Some l \<and>
       live (Suc m) h (\<lambda>h2. map_option ma_of (read_MachineAutoscaler h2 l) = Some ma) \<and>
       own_finalizers m h l ma)"

text \<open>
  The reconciler's object, read when the store was \<open>h0\<close>: it is in the first cell allocated since,
  owned, and what was there before is as it was.
\<close>

definition in_memory :: "cell store \<Rightarrow> cell store \<Rightarrow> MachineAutoscaler \<Rightarrow> bool" where
  "in_memory h0 h ma \<longleftrightarrow> prefix h0 h \<and> owned (length h0) h ma"

lemma in_memoryD:
  assumes "in_memory h0 h ma"
  obtains l where "prefix h0 h" "length h0 < length h" "fetch the_MachineAutoscaler h (length h0) = Some l"
    "live (Suc (length h0)) h (\<lambda>h2. map_option ma_of (read_MachineAutoscaler h2 l) = Some ma)"
    "own_finalizers (length h0) h l ma"
  using assms by (auto simp: in_memory_def owned_def fetch_def split: if_splits)

text \<open>
  What is relied on of the decoder: it fills an object of the caller's own with the answer, in
  memory of the object's own and new memory, and writes nothing else.  An object with a map that has a key twice
  is not one that memory can hold.
\<close>

definition unique_keys :: "strmap \<Rightarrow> bool" where
  "unique_keys m = (case m of None \<Rightarrow> True | Some al \<Rightarrow> distinct (map fst al))"

definition well_keyed :: "MachineAutoscaler \<Rightarrow> bool" where
  "well_keyed ma \<longleftrightarrow> unique_keys (om_labels (ma_meta ma)) \<and> unique_keys (om_annotations (ma_meta ma))"

definition decodes :: "decoder \<Rightarrow> bool" where
  "decodes decode \<longleftrightarrow>
     (\<forall>h0 h ma answer. in_memory h0 h ma \<longrightarrow>
       (\<exists>h'. decode answer (length h0) h = (Inr (), h') \<and> prefix h0 h' \<and>
         (well_keyed answer \<longrightarrow> in_memory h0 h' answer)))"

text \<open>
  A step in memory mirrors one on values: the same error or none, the same state of the cluster, and
  where the step on values returns an object, the pointer leads to it afterwards.
\<close>

definition mirrors ::
  "cell store \<Rightarrow> (go_error + unit) \<times> ('w \<times> cell store) \<Rightarrow> (go_error + MachineAutoscaler) \<times> 'w \<Rightarrow> bool" where
  "mirrors h0 mem val \<longleftrightarrow>
     (\<exists>h'. mem = (map_sum id (\<lambda>_. ()) (fst val), (snd val, h')) \<and> prefix h0 h' \<and>
       (\<forall>ma'. fst val = Inr ma' \<longrightarrow> well_keyed ma' \<longrightarrow> in_memory h0 h' ma'))"

text \<open>After a deep copy an append finds no room.\<close>

definition tight :: "slice option \<Rightarrow> bool" where
  "tight s = (case s of None \<Rightarrow> True | Some s \<Rightarrow> sl_len s = sl_cap s)"

lemma copy_array_tight: "copy_array p i s h = (Inr s', h') \<Longrightarrow> tight s'"
  by (auto simp: copy_array_def act_simps act_bind_Inr_iff tight_def split: option.splits)

lemma ObjectMeta_tight: "ObjectMeta_DeepCopyInto l h = (Inr l', h') \<Longrightarrow> tight (lom_finalizers l')"
  by (auto simp: ObjectMeta_DeepCopyInto_def act_simps act_bind_Inr_iff dest: copy_array_tight)

lemma MachineAutoscaler_tight:
  "MachineAutoscaler_DeepCopyInto l h = (Inr l', h') \<Longrightarrow> tight (lom_finalizers (lma_ObjectMeta l'))"
  by (auto simp: MachineAutoscaler_DeepCopyInto_def act_simps act_bind_Inr_iff dest: ObjectMeta_tight)

lemma DeepCopy_tight:
  assumes "MachineAutoscaler_DeepCopy (Some a) h = (Inr (Some b), h')" "fetch the_MachineAutoscaler h' b = Some l"
  shows "tight (lom_finalizers (lma_ObjectMeta l))"
  using assms MachineAutoscaler_tight
  by (fastforce simp: MachineAutoscaler_DeepCopy_def copy_struct_def act_simps act_bind_Inr_iff assign_def fetch_def
      split: if_splits)

lemma read_in_memory:
  assumes "\<not> cr_disableDeepCopy c" "cr_indexer c (reader_key c key) = Some a" "stored_ma h a = Some ma"
  shows "\<exists>h'. get_MachineAutoscaler c False key h = (Inr (length h), h') \<and> in_memory h h' ma"
proof -
  obtain h' l k1 b k2 where *: "get_MachineAutoscaler c False key h = (Inr (length h), h')" "prefix h h'"
    "fetch the_MachineAutoscaler h' (length h) = Some (ma_settype (cr_gvk c) l)"
    "live (Suc (length h)) h' (\<lambda>h2. map_option ma_of (read_MachineAutoscaler h2 (ma_settype (cr_gvk c) l)) = Some ma)"
    "MachineAutoscaler_DeepCopy (Some a) k1 = (Inr (Some b), k2)" "fetch the_MachineAutoscaler k2 b = Some l"
    using cached_ma.get_owned [OF assms(1,2), of h ma zero_MachineAutoscaler] assms(3)
    unfolding stored_ma_def get_MachineAutoscaler_def by blast
  have "tight (lom_finalizers (lma_ObjectMeta (ma_settype (cr_gvk c) l)))"
    using DeepCopy_tight [OF *(5,6)] by (simp add: ma_settype_def)
  then have "own_finalizers (length h) h' (ma_settype (cr_gvk c) l) ma"
    by (auto simp: own_finalizers_def tight_def split: option.splits)
  with * show ?thesis by (auto simp: owned_def in_memory_def)
qed

lemma in_memory_stored: "in_memory h0 h ma \<Longrightarrow> stored_ma h (length h0) = Some ma"
  by (auto simp: in_memory_def owned_def stored_ma_def object_at_def dest: liveD)

lemma stored_prefix: "stored_ma h a = Some ma \<Longrightarrow> prefix h h' \<Longrightarrow> stored_ma h' a = Some ma"
  unfolding stored_ma_def by (rule cached_ma.object_at_grows)

section \<open>The steps in memory are those on values\<close>

lemma read_MachineAutoscaler_Some:
  "read_MachineAutoscaler h l = Some v \<longleftrightarrow>
    (\<exists>m r. read_ObjectMeta h (lma_ObjectMeta l) = Some m \<and> read_MachineAutoscalerStatus h (lma_Status l) = Some r \<and>
      v = \<lparr>mao_TypeMeta = lma_TypeMeta l, mao_ObjectMeta = m, mao_Spec = lma_Spec l, mao_LastTargetRef = r\<rparr>)"
  by (auto simp: read_MachineAutoscaler_def bind_eq_Some_conv)

lemma read_ObjectMeta_finalizers:
  assumes "read_ObjectMeta h l = Some m"
  shows "read_slice the_Strings read_flat h (lom_finalizers l) = Some (om_finalizers m)"
    and "read_slice the_Strings read_flat h s = Some fs \<Longrightarrow>
      read_ObjectMeta h (l\<lparr>lom_finalizers := s\<rparr>) = Some (m\<lparr>om_finalizers := fs\<rparr>)"
  using assms by (auto simp: read_ObjectMeta_def bind_eq_Some_conv)

text \<open>Overwriting the cell of the object and allocating others leaves the rest of it in place.\<close>

lemma owned_write:
  assumes "live (Suc (length h0)) h P" "prefix h0 h" "length h0 < length h" "prefix h h1"
  shows "prefix h0 (h1[length h0 := c])" "live (Suc (length h0)) (h1[length h0 := c]) P"
    and "fetch p (h1[length h0 := c]) (length h0) = p c"
proof -
  obtain t u where h: "h = h0 @ t" and h1: "h1 = h @ u" using assms(2,4) by (auto simp: prefix_def)
  then show "prefix h0 (h1[length h0 := c])" by (simp add: list_update_append)
  show "live (Suc (length h0)) (h1[length h0 := c]) P"
    by (rule live_update [OF live_prefix [OF assms(1,4)]]) simp
  show "fetch p (h1[length h0 := c]) (length h0) = p c" using h h1 assms(3) by (simp add: fetch_def)
qed

lemma read_noted:
  assumes "map_option ma_of (read_MachineAutoscaler h l) = Some ma"
    and "fetch the_CrossVersionObjectReference h b = Some r"
  shows "map_option ma_of (read_MachineAutoscaler h (l\<lparr>lma_Status := \<lparr>lms_LastTargetRef = Some b\<rparr>\<rparr>)) =
    Some (ma\<lparr>ma_LastTargetRef := Some r\<rparr>)"
proof -
  obtain v where v: "read_MachineAutoscaler h l = Some v" "ma_of v = ma" using assms(1) by auto
  then have "read_MachineAutoscaler h (l\<lparr>lma_Status := \<lparr>lms_LastTargetRef = Some b\<rparr>\<rparr>) =
      Some (v\<lparr>mao_LastTargetRef := Some r\<rparr>)"
    using assms(2)
    by (auto simp: read_MachineAutoscaler_Some read_MachineAutoscalerStatus_def read_ptr_def read_flat_def)
  with v(2) show ?thesis by (auto simp: ma_of_def)
qed

section \<open>Finalizers in memory\<close>

lemma read_finalizers:
  assumes "map_option ma_of (read_MachineAutoscaler h l) = Some ma"
  shows "read_slice the_Strings read_flat h (lom_finalizers (lma_ObjectMeta l)) = Some (ma_GetFinalizers ma)"
    and "read_slice the_Strings read_flat h s = Some fs \<Longrightarrow>
      map_option ma_of (read_MachineAutoscaler h (with_finalizers s l)) = Some (ma_SetFinalizers fs ma)"
proof -
  obtain v where v: "read_MachineAutoscaler h l = Some v" "ma_of v = ma" using assms by auto
  then obtain m where m: "read_ObjectMeta h (lma_ObjectMeta l) = Some m" "mao_ObjectMeta v = m"
    by (auto simp: read_MachineAutoscaler_Some)
  have get: "ma_GetFinalizers ma = om_finalizers m"
    using v(2) m(2) by (auto simp: ma_of_def ma_GetFinalizers_def ObjectMeta.truncate_def)
  show "read_slice the_Strings read_flat h (lom_finalizers (lma_ObjectMeta l)) = Some (ma_GetFinalizers ma)"
    unfolding get by (rule read_ObjectMeta_finalizers(1) [OF m(1)])
  assume s: "read_slice the_Strings read_flat h s = Some fs"
  have "read_MachineAutoscaler h (with_finalizers s l) = Some (v\<lparr>mao_ObjectMeta := m\<lparr>om_finalizers := fs\<rparr>\<rparr>)"
    using v(1) m(1) read_ObjectMeta_finalizers(2) [OF m(1) s]
    by (auto simp: read_MachineAutoscaler_Some with_finalizers_def)
  moreover have "ma_of (v\<lparr>mao_ObjectMeta := m\<lparr>om_finalizers := fs\<rparr>\<rparr>) = ma_SetFinalizers fs (ma_of v)"
    by (simp add: ma_of_def ma_SetFinalizers_def ObjectMeta.truncate_def flip: m(2))
  ultimately show "map_option ma_of (read_MachineAutoscaler h (with_finalizers s l)) = Some (ma_SetFinalizers fs ma)"
    using v(2) by simp
qed

lemma with_finalizers_simps [simp]:
  "with_finalizers s (with_finalizers t l) = with_finalizers s l"
  "lom_finalizers (lma_ObjectMeta (with_finalizers s l)) = s"
  "(with_finalizers s l)\<lparr>lma_Status := r\<rparr> = with_finalizers s (l\<lparr>lma_Status := r\<rparr>)"
  by (simp_all add: with_finalizers_def)

lemma ma_SetFinalizers_twice [simp]: "ma_SetFinalizers fs (ma_SetFinalizers gs ma) = ma_SetFinalizers fs ma"
  by (simp add: ma_SetFinalizers_def)

lemma read_slice_nil [simp]: "read_slice p rd h None = Some []"
  by (simp add: read_slice_def)

lemma read_Strings: "read_slice the_Strings read_flat h (Some s) = Some fs \<longleftrightarrow>
    (\<exists>xs. fetch the_Strings h (sl_base s) = Some xs \<and> slice_ok s xs \<and> window s xs = fs)"
  by (auto simp: read_slice_def bind_eq_Some_conv split: if_splits)

text \<open>What depends on the object but not on its finalizers.\<close>

abbreviation rest_reads :: "l_MachineAutoscaler \<Rightarrow> MachineAutoscaler \<Rightarrow> cell store \<Rightarrow> bool" where
  "rest_reads l ma h \<equiv>
     map_option ma_of (read_MachineAutoscaler h (with_finalizers None l)) = Some (ma_SetFinalizers [] ma)"

lemma rest_live:
  assumes "live n h (\<lambda>h2. map_option ma_of (read_MachineAutoscaler h2 l) = Some ma)"
  shows "live n h (rest_reads l ma)"
  using assms by (rule live_mono) (erule read_finalizers(2), simp)

text \<open>\<open>append\<close> on a slice of strings: a new array, or a write to the spare capacity of the old one.\<close>

lemma go_append_Strings:
  assumes "read_slice the_Strings read_flat h s = Some fs"
  obtains s' ys h' where "go_append grow the_Strings CStrings [] s x h = (Inr s', h')"
    "slice_ok s' ys" "window s' ys = fs @ [x]"
    "h' = h @ [CStrings ys] \<and> sl_base s' = length h \<or>
     (\<exists>t. s = Some t \<and> sl_len t \<noteq> sl_cap t \<and> sl_base t < length h \<and> sl_base s' = sl_base t \<and> h' = h[sl_base t := CStrings ys])"
proof (cases s)
  case None
  then show thesis using assms
    by (intro that) (auto simp: go_append_def act_bind_def act_simps alloc_def slice_ok_def window_def new_cap_def)
next
  case (Some t)
  with assms obtain xs where xs: "fetch the_Strings h (sl_base t) = Some xs" "slice_ok t xs" "fs = window t xs"
    by (auto simp: read_Strings)
  have len: "length fs = sl_len t" using window_all [OF xs(2)] xs(3) by simp
  have b: "sl_base t < length h" using xs(1) by (simp add: fetch_def split: if_splits)
  show thesis
  proof (cases "sl_len t < sl_cap t")
    case True
    let ?ys = "xs[sl_off t + sl_len t := x]"
    have i: "sl_off t + sl_len t < length xs" using True xs(2) by (simp add: slice_ok_def)
    have "window (t\<lparr>sl_len := Suc (sl_len t)\<rparr>) ?ys = fs @ [x]"
    proof (rule nth_equalityI)
      show "length (window (t\<lparr>sl_len := Suc (sl_len t)\<rparr>) ?ys) = length (fs @ [x])"
        using i len by (simp add: window_def)
      fix j assume "j < length (window (t\<lparr>sl_len := Suc (sl_len t)\<rparr>) ?ys)"
      then have "j < Suc (sl_len t)" "sl_off t + j < length xs" using i by (simp_all add: window_def)
      then show "window (t\<lparr>sl_len := Suc (sl_len t)\<rparr>) ?ys ! j = (fs @ [x]) ! j"
        using i len xs(3) by (auto simp: window_def nth_append less_Suc_eq)
    qed
    then show thesis using Some True xs b
      by (intro that [of "t\<lparr>sl_len := Suc (sl_len t)\<rparr>" "h[sl_base t := CStrings ?ys]" ?ys])
        (auto simp: go_append_def act_bind_def act_simps load_def assign_def slice_ok_def)
  next
    case False
    let ?n = "new_cap grow (sl_len t)"
    have n: "Suc (sl_len t) \<le> ?n" by (simp add: new_cap_def)
    show thesis
    proof (rule that [where ys = "fs @ x # replicate (?n - Suc (sl_len t)) []"])
      show "go_append grow the_Strings CStrings [] s x h =
          (Inr \<lparr>sl_base = length h, sl_off = 0, sl_len = Suc (sl_len t), sl_cap = ?n\<rparr>,
           h @ [CStrings (fs @ x # replicate (?n - Suc (sl_len t)) [])])"
        using Some False xs
        by (simp add: go_append_def act_bind_def act_simps alloc_def load_def Let_def)
    qed (use len n in \<open>simp_all add: slice_ok_def window_def\<close>)
  qed
qed

text \<open>New finalizers in an array of their own.\<close>

definition new_finalizers :: "nat \<Rightarrow> cell store \<Rightarrow> cell store \<Rightarrow> slice option \<Rightarrow> string list \<Rightarrow> (cell store \<Rightarrow> bool) \<Rightarrow> bool" where
  "new_finalizers m h h' s fs R \<longleftrightarrow>
     prefix (take (Suc m) h) h' \<and>
     live (Suc m) h' R \<and> live (Suc m) h' (\<lambda>h2. read_slice the_Strings read_flat h2 s = Some fs) \<and>
     (\<forall>t. s = Some t \<longrightarrow> Suc m \<le> sl_base t \<and> (\<forall>c. live (Suc m) (h'[sl_base t := c]) R))"

lemma new_finalizersI:
  assumes "prefix (take (Suc m) h) h'" "live (Suc m) h' R"
    and "live (Suc m) h' (\<lambda>h2. read_slice the_Strings read_flat h2 s = Some fs)"
    and "\<And>t. s = Some t \<Longrightarrow> Suc m \<le> sl_base t" "\<And>t c. s = Some t \<Longrightarrow> live (Suc m) (h'[sl_base t := c]) R"
  shows "new_finalizers m h h' s fs R"
  using assms unfolding new_finalizers_def by blast

lemma live_Strings:
  assumes "n \<le> sl_base s" "fetch the_Strings h (sl_base s) = Some ys" "slice_ok s ys" "window s ys = fs"
  shows "live n h (\<lambda>h2. read_slice the_Strings read_flat h2 (Some s) = Some fs)"
proof -
  have "live n h (\<lambda>h2. fetch the_Strings h2 (sl_base s) = Some ys)"
    using assms(1,2) by (intro live_fetch) (simp_all add: fetch_def split: if_splits)
  then show ?thesis by (rule live_mono) (simp add: read_Strings assms(3,4))
qed

lemma append_finalizers:
  assumes live: "live (Suc m) h (\<lambda>h2. map_option ma_of (read_MachineAutoscaler h2 l) = Some ma)"
    and own: "own_finalizers m h l ma" and m: "m < length h"
  obtains s' h' where "go_append grow the_Strings CStrings [] (lom_finalizers (lma_ObjectMeta l)) x h = (Inr s', h')"
    "new_finalizers m h h' (Some s') (ma_GetFinalizers ma @ [x]) (rest_reads l ma)"
proof -
  have fs: "read_slice the_Strings read_flat h (lom_finalizers (lma_ObjectMeta l)) = Some (ma_GetFinalizers ma)"
    using liveD [OF live] by (rule read_finalizers(1))
  obtain s' ys h' where a: "go_append grow the_Strings CStrings [] (lom_finalizers (lma_ObjectMeta l)) x h = (Inr s', h')"
    "slice_ok s' ys" "window s' ys = ma_GetFinalizers ma @ [x]"
    and h': "h' = h @ [CStrings ys] \<and> sl_base s' = length h \<or>
     (\<exists>t. lom_finalizers (lma_ObjectMeta l) = Some t \<and> sl_len t \<noteq> sl_cap t \<and> sl_base t < length h \<and>
       sl_base s' = sl_base t \<and> h' = h[sl_base t := CStrings ys])"
    by (rule go_append_Strings [OF fs])
  have "new_finalizers m h h' (Some s') (ma_GetFinalizers ma @ [x]) (rest_reads l ma)"
    using h'
  proof (elim disjE exE conjE)
    assume n: "h' = h @ [CStrings ys]" "sl_base s' = length h"
    have r: "live (Suc m) (h @ [c]) (rest_reads l ma)" for c
      by (rule live_prefix [OF rest_live [OF live]]) simp
    show ?thesis
    proof (rule new_finalizersI)
      show "live (Suc m) h' (\<lambda>h2. read_slice the_Strings read_flat h2 (Some s') = Some (ma_GetFinalizers ma @ [x]))"
        using m a(2,3) n by (intro live_Strings) (simp_all add: fetch_def)
      show "prefix (take (Suc m) h) h'" unfolding n(1) by (rule prefix_order.trans [OF take_is_prefix]) simp
      show "live (Suc m) (h'[sl_base t := c]) (rest_reads l ma)" if "Some s' = Some t" for t c
        using r that n by (simp add: list_update_append)
    qed (use n m r in simp_all)
  next
    fix t assume t: "lom_finalizers (lma_ObjectMeta l) = Some t" "sl_len t \<noteq> sl_cap t" "sl_base t < length h"
      "sl_base s' = sl_base t" "h' = h[sl_base t := CStrings ys]"
    with own have o: "Suc m \<le> sl_base t" "\<And>c. live (Suc m) (h[sl_base t := c]) (rest_reads l ma)"
      by (auto simp: own_finalizers_def)
    show ?thesis
    proof (rule new_finalizersI)
      show "live (Suc m) h' (\<lambda>h2. read_slice the_Strings read_flat h2 (Some s') = Some (ma_GetFinalizers ma @ [x]))"
        using a(2,3) t o(1) by (intro live_Strings) (simp_all add: fetch_def)
      have "take (Suc m) h' = take (Suc m) h" using o(1) t(5) by simp
      then show "prefix (take (Suc m) h) h'" by (metis take_is_prefix)
      show "live (Suc m) (h'[sl_base u := c]) (rest_reads l ma)" if "Some s' = Some u" for u c
        using o(2) that t by simp
    qed (use t o in simp_all)
  qed
  with a(1) show thesis by (rule that)
qed

lemma prefix_update: "prefix h h' \<Longrightarrow> length h \<le> b \<Longrightarrow> prefix h (h'[b := c])"
  by (auto simp: prefix_def list_update_append)

text \<open>\<open>FilterString\<close> leaves the memory there was as it is and returns the other strings, in their order.\<close>

lemma mem_filter_loop:
  assumes s: "read_slice the_Strings read_flat h (Some s) = Some fs"
    and "prefix h hk" "read_slice the_Strings read_flat hk new = Some acc" "\<forall>t. new = Some t \<longrightarrow> length h \<le> sl_base t"
    and "\<forall>i \<in> set is. i < length fs"
  shows "\<exists>new' h'. mem_filter_loop grow needle s is new found hk =
      (Inr (new', found + count_list (map ((!) fs) is) needle), h') \<and> prefix h h' \<and>
    read_slice the_Strings read_flat h' new' = Some (acc @ filter (\<lambda>x. x \<noteq> needle) (map ((!) fs) is)) \<and>
    (\<forall>t. new' = Some t \<longrightarrow> length h \<le> sl_base t)"
  using assms(2-)
proof (induction "is" arbitrary: hk new acc found)
  case Nil
  then show ?case by (simp add: act_simps)
next
  case (Cons i "is")
  from s obtain xs where xs: "fetch the_Strings h (sl_base s) = Some xs" "slice_ok s xs" "window s xs = fs"
    by (auto simp: read_Strings)
  have i: "i < length fs" "\<forall>i \<in> set is. i < length fs" using Cons.prems(4) by simp_all
  have "fs ! i = xs ! (sl_off s + i)" using i(1) xs(2,3) by (auto simp: window_def slice_ok_def)
  then have el: "mem_element s i hk = (Inr (fs ! i), hk)"
    using fetch_prefix [OF xs(1) Cons.prems(1)] by (simp add: mem_element_def act_bind_def act_simps load_def)
  show ?case
  proof (cases "fs ! i = needle")
    case True
    with el Cons.IH [OF Cons.prems(1-3) i(2), of "Suc found"] show ?thesis by (simp add: act_bind_def)
  next
    case False
    obtain s' ys h' where a: "go_append grow the_Strings CStrings [] new (fs ! i) hk = (Inr s', h')"
      "slice_ok s' ys" "window s' ys = acc @ [fs ! i]"
      and h': "h' = hk @ [CStrings ys] \<and> sl_base s' = length hk \<or>
       (\<exists>t. new = Some t \<and> sl_len t \<noteq> sl_cap t \<and> sl_base t < length hk \<and>
         sl_base s' = sl_base t \<and> h' = hk[sl_base t := CStrings ys])"
      by (rule go_append_Strings [OF Cons.prems(2)])
    have len: "length h \<le> length hk" using Cons.prems(1) by (rule prefix_length_le)
    have 1: "prefix h h'" "length h \<le> sl_base s'" "fetch the_Strings h' (sl_base s') = Some ys"
      using h' Cons.prems(1,3) len by (auto simp: fetch_def intro: prefix_update)
    then have "read_slice the_Strings read_flat h' (Some s') = Some (acc @ [fs ! i])"
      using a(2,3) by (simp add: read_Strings)
    from Cons.IH [OF 1(1) this _ i(2), of found] 1(2) a(1) el False show ?thesis by (auto simp: act_bind_def)
  qed
qed

lemma mem_FilterString:
  assumes "read_slice the_Strings read_flat h s = Some fs"
  shows "\<exists>f h'. mem_FilterString grow s needle h = (Inr (f, snd (FilterString fs needle)), h') \<and> prefix h h' \<and>
    read_slice the_Strings read_flat h' f = Some (fst (FilterString fs needle)) \<and> (\<forall>t. f = Some t \<longrightarrow> length h \<le> sl_base t)"
proof (cases s)
  case None
  with assms show ?thesis by (simp add: mem_FilterString_def act_simps FilterString_eq)
next
  case (Some t)
  then obtain xs where "slice_ok t xs" "window t xs = fs" using assms by (auto simp: read_Strings)
  then have len: "length fs = sl_len t" using window_all by blast
  then have "map ((!) fs) [0..<sl_len t] = fs" by (metis map_nth)
  with mem_filter_loop [of h t fs h None "[]" "[0..<sl_len t]" grow needle 0] assms Some len show ?thesis
    by (simp add: mem_FilterString_def FilterString_eq)
qed

section \<open>Writes to an object of one's own\<close>

lemma in_memory_prefix:
  assumes "in_memory h0 h ma" "prefix h h'"
  shows "in_memory h0 h' ma"
proof -
  obtain l where l: "prefix h0 h" "length h0 < length h" "fetch the_MachineAutoscaler h (length h0) = Some l"
    "live (Suc (length h0)) h (\<lambda>h2. map_option ma_of (read_MachineAutoscaler h2 l) = Some ma)"
    "own_finalizers (length h0) h l ma" using assms(1) by (rule in_memoryD)
  obtain u where u: "h' = h @ u" using assms(2) by (auto simp: prefix_def)
  have "own_finalizers (length h0) h' l ma"
  proof (cases "lom_finalizers (lma_ObjectMeta l)")
    case (Some s)
    then have "sl_base s < length h"
      using read_finalizers(1) [OF liveD [OF l(4)]] by (auto simp: read_Strings fetch_def split: if_splits)
    then have "prefix (h[sl_base s := c]) (h'[sl_base s := c])" for c by (simp add: u list_update_append)
    with l(5) Some show ?thesis unfolding own_finalizers_def by (auto intro: live_prefix)
  qed (simp add: own_finalizers_def)
  then show ?thesis
    using l(1) prefix_order.trans [OF l(1) assms(2)] fetch_prefix [OF l(3) assms(2)] live_prefix [OF l(4) assms(2)]
    unfolding in_memory_def owned_def by blast
qed

lemma SetFinalizers_in_memory:
  assumes ma: "in_memory h0 h ma" "fetch the_MachineAutoscaler h (length h0) = Some l"
    and new: "new_finalizers (length h0) h h' s fs (rest_reads l ma)"
  shows "\<exists>h''. mem_SetFinalizers (length h0) s h' = (Inr (), h'') \<and> in_memory h0 h'' (ma_SetFinalizers fs ma)"
proof -
  let ?m = "length h0" let ?l = "with_finalizers s l" let ?h = "h'[length h0 := CMachineAutoscaler ?l]"
  have h: "prefix h0 h" "?m < length h" using ma by (auto simp: in_memory_def fetch_def split: if_splits)
  have n: "prefix (take (Suc ?m) h) h'" "live (Suc ?m) h' (rest_reads l ma)"
    "live (Suc ?m) h' (\<lambda>h2. read_slice the_Strings read_flat h2 s = Some fs)"
    "\<And>t. s = Some t \<Longrightarrow> Suc ?m \<le> sl_base t" "\<And>t c. s = Some t \<Longrightarrow> live (Suc ?m) (h'[sl_base t := c]) (rest_reads l ma)"
    using new by (auto simp: new_finalizers_def)
  have take: "fetch the_MachineAutoscaler (take (Suc ?m) h) ?m = Some l" "prefix h0 (take (Suc ?m) h)"
    using ma(2) h by (auto simp: fetch_def prefix_def)
  have fetch: "fetch the_MachineAutoscaler h' ?m = Some l" by (rule fetch_prefix [OF take(1) n(1)])
  then have len: "?m < length h'" by (simp add: fetch_def split: if_splits)
  have run: "mem_SetFinalizers ?m s h' = (Inr (), ?h)"
    using fetch by (simp add: mem_SetFinalizers_def act_bind_def act_simps load_def assign_def)
  have pre: "prefix h0 ?h" using prefix_order.trans [OF take(2) n(1)] by (rule prefix_update) simp
  have "live (Suc ?m) h' (\<lambda>h2. rest_reads l ma h2 \<and> read_slice the_Strings read_flat h2 s = Some fs)"
    using n(2,3) by (simp add: live_conj)
  then have "live (Suc ?m) h' (\<lambda>h2. map_option ma_of (read_MachineAutoscaler h2 ?l) = Some (ma_SetFinalizers fs ma))"
    by (rule live_mono) (use read_finalizers(2) in fastforce)
  then have lv: "live (Suc ?m) ?h (\<lambda>h2. map_option ma_of (read_MachineAutoscaler h2 ?l) = Some (ma_SetFinalizers fs ma))"
    by (rule live_update) simp
  have own: "own_finalizers ?m ?h ?l (ma_SetFinalizers fs ma)"
  proof (cases s)
    case (Some t)
    have "live (Suc ?m) (?h[sl_base t := c]) (rest_reads l ma)" for c
    proof -
      have "?h[sl_base t := c] = (h'[sl_base t := c])[?m := CMachineAutoscaler ?l]"
        using n(4) [OF Some] by (simp add: list_update_swap)
      then show ?thesis using live_update [OF n(5) [OF Some]] by simp
    qed
    with n(4) [OF Some] Some show ?thesis by (simp add: own_finalizers_def)
  qed (simp add: own_finalizers_def)
  have "fetch the_MachineAutoscaler ?h ?m = Some ?l" using len by (simp add: fetch_def)
  with pre lv own run show ?thesis unfolding in_memory_def owned_def by blast
qed

lemma SetLastTarget_in_memory:
  assumes ma: "in_memory h0 h ma"
  shows "\<exists>h'. act_bind (alloc (CCrossVersionObjectReference r)) (\<lambda>b.
      act_bind (load the_MachineAutoscaler (length h0)) (\<lambda>l.
        assign (length h0) (CMachineAutoscaler (l\<lparr>lma_Status := \<lparr>lms_LastTargetRef = Some b\<rparr>\<rparr>)))) h = (Inr (), h') \<and>
    in_memory h0 h' (ma\<lparr>ma_LastTargetRef := Some r\<rparr>)"
proof -
  let ?m = "length h0" let ?h1 = "h @ [CCrossVersionObjectReference r]"
  obtain l where l: "prefix h0 h" "?m < length h" "fetch the_MachineAutoscaler h ?m = Some l"
    "live (Suc ?m) h (\<lambda>h2. map_option ma_of (read_MachineAutoscaler h2 l) = Some ma)" "own_finalizers ?m h l ma"
    using ma by (rule in_memoryD)
  let ?l = "l\<lparr>lma_Status := \<lparr>lms_LastTargetRef = Some (length h)\<rparr>\<rparr>" let ?ma = "ma\<lparr>ma_LastTargetRef := Some r\<rparr>"
  let ?h2 = "?h1[?m := CMachineAutoscaler ?l]"
  have run: "act_bind (alloc (CCrossVersionObjectReference r)) (\<lambda>b. act_bind (load the_MachineAutoscaler ?m) (\<lambda>l.
      assign ?m (CMachineAutoscaler (l\<lparr>lma_Status := \<lparr>lms_LastTargetRef = Some b\<rparr>\<rparr>)))) h = (Inr (), ?h2)"
    using fetch_prefix [OF l(3), of ?h1] by (simp add: act_bind_def act_simps alloc_def load_def assign_def)
  note w = owned_write [OF l(4,1,2), where c = "CMachineAutoscaler ?l", of ?h1, simplified]
  have ref: "live (Suc ?m) (h' @ [CCrossVersionObjectReference r]) (\<lambda>h2. fetch the_CrossVersionObjectReference h2 (length h) = Some r)"
    if "length h' = length h" for h'
    using l(2) that by (intro live_fetch) (simp_all add: nth_append)
  have note_ref: "live (Suc ?m) ((h' @ [CCrossVersionObjectReference r])[?m := c])
      (\<lambda>h2. map_option ma_of (read_MachineAutoscaler h2 (k\<lparr>lma_Status := \<lparr>lms_LastTargetRef = Some (length h)\<rparr>\<rparr>)) =
        Some (mb\<lparr>ma_LastTargetRef := Some r\<rparr>))"
    if "length h' = length h" "live (Suc ?m) h' (\<lambda>h2. map_option ma_of (read_MachineAutoscaler h2 k) = Some mb)" for h' k mb c
  proof -
    have "live (Suc ?m) (h' @ [CCrossVersionObjectReference r])
        (\<lambda>h2. map_option ma_of (read_MachineAutoscaler h2 k) = Some mb \<and>
          fetch the_CrossVersionObjectReference h2 (length h) = Some r)"
      using live_prefix [OF that(2)] ref [OF that(1)] by (simp add: live_conj)
    then have "live (Suc ?m) (h' @ [CCrossVersionObjectReference r])
        (\<lambda>h2. map_option ma_of (read_MachineAutoscaler h2 (k\<lparr>lma_Status := \<lparr>lms_LastTargetRef = Some (length h)\<rparr>\<rparr>)) =
          Some (mb\<lparr>ma_LastTargetRef := Some r\<rparr>))"
      by (rule live_mono) (rule read_noted, erule conjunct1, erule conjunct2)
    then show ?thesis by (rule live_update) simp
  qed
  have own: "own_finalizers ?m ?h2 ?l ?ma"
  proof (cases "lom_finalizers (lma_ObjectMeta l)")
    case (Some s)
    then have base: "sl_base s < length h"
      using read_finalizers(1) [OF liveD [OF l(4)]] by (auto simp: read_Strings fetch_def split: if_splits)
    have "live (Suc ?m) (?h2[sl_base s := c]) (rest_reads ?l ?ma)"
      if o: "Suc ?m \<le> sl_base s" "\<And>c. live (Suc ?m) (h[sl_base s := c]) (rest_reads l ma)" for c
    proof -
      have "?h2[sl_base s := c] = (h[sl_base s := c] @ [CCrossVersionObjectReference r])[?m := CMachineAutoscaler ?l]"
        using base o(1) l(2) by (simp add: list_update_append list_update_swap)
      moreover have "(ma_SetFinalizers [] ma)\<lparr>ma_LastTargetRef := Some r\<rparr> = ma_SetFinalizers [] ?ma"
        by (simp add: ma_SetFinalizers_def)
      ultimately show ?thesis using note_ref [OF _ o(2), of c "CMachineAutoscaler ?l"] by simp
    qed
    with l(5) Some show ?thesis by (auto simp: own_finalizers_def)
  qed (simp add: own_finalizers_def)
  have "in_memory h0 ?h2 ?ma"
    unfolding in_memory_def owned_def using w(1) w(3) [of the_MachineAutoscaler] note_ref [OF refl l(4)] own
    by (intro conjI exI [of _ ?l]) simp_all
  with run show ?thesis by blast
qed

section \<open>The steps in memory mirror those on values\<close>

lemma on_store_bind [simp]:
  "act_bind (on_store m) f (w, h) = (case m h of (Inl e, h') \<Rightarrow> (Inl e, (w, h')) | (Inr x, h') \<Rightarrow> f x (w, h'))"
  by (simp add: act_bind_def split: prod.split sum.split)

lemma on_world_bind [simp]:
  "act_bind (on_world m) f (w, h) = (case m w of (Inl e, w') \<Rightarrow> (Inl e, (w', h)) | (Inr x, w') \<Rightarrow> f x (w', h))"
  by (simp add: act_bind_def split: prod.split sum.split)

lemma on_store_seq:
  "act_bind (on_store m) (\<lambda>x. act_bind (on_store (f x)) g) = act_bind (on_store (act_bind m f)) g"
proof
  fix s
  show "act_bind (on_store m) (\<lambda>x. act_bind (on_store (f x)) g) s = act_bind (on_store (act_bind m f)) g s"
    by (cases s) (simp add: act_bind_def split: prod.split sum.split)
qed

lemma mem_send_mirrors:
  assumes "decodes decode" "in_memory h0 h ma"
  shows "mirrors h0 (mem_send upd decode (length h0) (w, h)) (upd ma w)"
proof -
  have enc: "encode (length h0) h = (Inr ma, h)" using in_memory_stored [OF assms(2)] by (simp add: encode_def)
  obtain res w' where u: "upd ma w = (res, w')" by fastforce
  show ?thesis
  proof (cases res)
    case (Inl e)
    with enc u assms(2) show ?thesis by (simp add: mem_send_def mirrors_def in_memory_def)
  next
    case (Inr answer)
    from assms obtain h' where "decode answer (length h0) h = (Inr (), h')" "prefix h0 h'"
      "well_keyed answer \<longrightarrow> in_memory h0 h' answer" unfolding decodes_def by blast
    with enc u Inr show ?thesis by (simp add: mem_send_def mirrors_def)
  qed
qed

lemma SetLastTarget_mirrors:
  assumes "decodes decode" "in_memory h0 h ma"
  shows "mirrors h0 (mem_SetLastTarget env decode (length h0) ref (w, h)) (SetLastTarget env ma ref w)"
proof -
  let ?r = "\<lparr>cv_APIVersion = or_apiVersion ref, cv_Kind = or_kind ref, cv_Name = or_name ref\<rparr>"
  obtain h' where h': "act_bind (alloc (CCrossVersionObjectReference ?r)) (\<lambda>b.
      act_bind (load the_MachineAutoscaler (length h0)) (\<lambda>l.
        assign (length h0) (CMachineAutoscaler (l\<lparr>lma_Status := \<lparr>lms_LastTargetRef = Some b\<rparr>\<rparr>)))) h = (Inr (), h')"
    "in_memory h0 h' (ma\<lparr>ma_LastTargetRef := Some ?r\<rparr>)"
    using SetLastTarget_in_memory [OF assms(2)] by blast
  then have "mem_SetLastTarget env decode (length h0) ref (w, h) =
      mem_send (cl_update_status (me_ma env)) decode (length h0) (w, h')"
    unfolding mem_SetLastTarget_def on_store_seq by simp
  then show ?thesis using mem_send_mirrors [OF assms(1) h'(2)] by (simp add: SetLastTarget_def)
qed

lemma mem_GetFinalizers:
  "fetch the_MachineAutoscaler h m = Some l \<Longrightarrow> mem_GetFinalizers m h = (Inr (lom_finalizers (lma_ObjectMeta l)), h)"
  by (simp add: mem_GetFinalizers_def act_bind_def act_simps load_def)

lemma mem_elements: "read_slice the_Strings read_flat h s = Some fs \<Longrightarrow> mem_elements s h = (Inr fs, h)"
  by (cases s) (auto simp: mem_elements_def act_bind_def act_simps load_def read_Strings)

lemma EnsureFinalizer_mirrors:
  assumes "decodes decode" "in_memory h0 h ma"
  shows "mirrors h0 (mem_EnsureFinalizer env decode grow (length h0) (w, h)) (EnsureFinalizer env ma w)"
proof -
  let ?m = "length h0"
  obtain l where l: "prefix h0 h" "?m < length h" "fetch the_MachineAutoscaler h ?m = Some l"
    "live (Suc ?m) h (\<lambda>h2. map_option ma_of (read_MachineAutoscaler h2 l) = Some ma)" "own_finalizers ?m h l ma"
    using assms(2) by (rule in_memoryD)
  note get = mem_GetFinalizers [OF l(3)] and els = mem_elements [OF read_finalizers(1) [OF liveD [OF l(4)]]]
  show ?thesis
  proof (cases "list_ex (\<lambda>f. f = MachineTargetFinalizer) (ma_GetFinalizers ma)")
    case True
    with get els assms(2) show ?thesis
      by (simp add: mem_EnsureFinalizer_def EnsureFinalizer_def act_simps mirrors_def in_memory_def)
  next
    case False
    obtain f h1 where f: "go_append grow the_Strings CStrings [] (lom_finalizers (lma_ObjectMeta l)) MachineTargetFinalizer h = (Inr f, h1)"
      "new_finalizers ?m h h1 (Some f) (ma_GetFinalizers ma @ [MachineTargetFinalizer]) (rest_reads l ma)"
      by (rule append_finalizers [OF l(4,5,2)])
    obtain h2 where h2: "mem_SetFinalizers ?m (Some f) h1 = (Inr (), h2)"
      "in_memory h0 h2 (ma_SetFinalizers (ma_GetFinalizers ma @ [MachineTargetFinalizer]) ma)"
      using SetFinalizers_in_memory [OF assms(2) l(3) f(2)] by blast
    have "mem_EnsureFinalizer env decode grow ?m (w, h) = mem_send (cl_update (me_ma env)) decode ?m (w, h2)"
      using False get els f(1) h2(1) by (simp add: mem_EnsureFinalizer_def)
    then show ?thesis using mem_send_mirrors [OF assms(1) h2(2)] False by (simp add: EnsureFinalizer_def)
  qed
qed

text \<open>\<open>RemoveFinalizer\<close> is the last step of a run; what it returns is the error only.\<close>

lemma RemoveFinalizer_mirrors:
  assumes "decodes decode" "in_memory h0 h ma"
  shows "\<exists>h'. mem_RemoveFinalizer env decode grow (length h0) (w, h) =
      (fst (RemoveFinalizer env ma w), (snd (RemoveFinalizer env ma w), h')) \<and> prefix h0 h'"
proof -
  let ?m = "length h0"
  obtain l where l: "prefix h0 h" "?m < length h" "fetch the_MachineAutoscaler h ?m = Some l"
    "live (Suc ?m) h (\<lambda>h2. map_option ma_of (read_MachineAutoscaler h2 l) = Some ma)" "own_finalizers ?m h l ma"
    using assms(2) by (rule in_memoryD)
  note get = mem_GetFinalizers [OF l(3)]
  obtain fs n where fs: "FilterString (ma_GetFinalizers ma) MachineTargetFinalizer = (fs, n)" by fastforce
  obtain f h1 where f: "mem_FilterString grow (lom_finalizers (lma_ObjectMeta l)) MachineTargetFinalizer h = (Inr (f, n), h1)"
    "prefix h h1" "read_slice the_Strings read_flat h1 f = Some fs" "\<forall>t. f = Some t \<longrightarrow> length h \<le> sl_base t"
    using mem_FilterString [OF read_finalizers(1) [OF liveD [OF l(4)]], of grow MachineTargetFinalizer] fs by auto
  show ?thesis
  proof (cases "n = 0")
    case True
    then show ?thesis using get f(1) fs prefix_order.trans [OF l(1) f(2)]
      by (simp add: mem_RemoveFinalizer_def RemoveFinalizer_def act_simps)
  next
    case False
    have "new_finalizers ?m h h1 f fs (rest_reads l ma)"
    proof (rule new_finalizersI)
      show "prefix (take (Suc ?m) h) h1" by (rule prefix_order.trans [OF take_is_prefix f(2)])
      show "live (Suc ?m) h1 (rest_reads l ma)" by (rule live_prefix [OF rest_live [OF l(4)] f(2)])
      show "live (Suc ?m) h1 (\<lambda>h2. read_slice the_Strings read_flat h2 f = Some fs)"
      proof (cases f)
        case (Some t)
        with f(3) obtain xs where "fetch the_Strings h1 (sl_base t) = Some xs" "slice_ok t xs" "window t xs = fs"
          by (auto simp: read_Strings)
        then show ?thesis unfolding Some using f(4) Some l(2) by (intro live_Strings) simp_all
      qed (use f(3) in \<open>simp add: live_def\<close>)
      fix t assume t: "f = Some t"
      then show "Suc ?m \<le> sl_base t" using f(4) l(2) by simp
      fix c show "live (Suc ?m) (h1[sl_base t := c]) (rest_reads l ma)"
        using live_prefix [OF rest_live [OF l(4)] prefix_update [OF f(2)]] f(4) t by simp
    qed
    from SetFinalizers_in_memory [OF assms(2) l(3) this] obtain h2 where h2: "mem_SetFinalizers ?m f h1 = (Inr (), h2)"
      "in_memory h0 h2 (ma_SetFinalizers fs ma)" by blast
    have mem: "mem_RemoveFinalizer env decode grow ?m (w, h) = mem_send (cl_update (me_ma env)) decode ?m (w, h2)"
      using False get f(1) h2(1) by (simp add: mem_RemoveFinalizer_def)
    have val: "RemoveFinalizer env ma w = (map_sum id (\<lambda>_. ()) (fst (cl_update (me_ma env) (ma_SetFinalizers fs ma) w)),
        snd (cl_update (me_ma env) (ma_SetFinalizers fs ma) w))"
      using False fs by (simp add: RemoveFinalizer_def act_bind_def act_simps split: prod.split sum.split)
    show ?thesis using mem_send_mirrors [OF assms(1) h2(2), of "cl_update (me_ma env)" w] unfolding mem val mirrors_def by auto
  qed
qed

text \<open>
  C11: The MachineAutoscaler a reconciler has read through the cache is its own, and \<open>SetLastTarget\<close>,
  \<open>EnsureFinalizer\<close> and \<open>RemoveFinalizer\<close>, which write to it in place, send it, and have the server's
  answer decoded into it, do what the model does on values: the same requests to the server, the same
  error, and where the first two succeed the object is the one the model goes on with (the answer, which
  has no key of a map twice), and again the reconciler's own.  This holds from every state of the memory in which the object is the
  reconciler's own, whatever capacity \<open>append\<close> chooses, and the object of the cache stays as it was.
\<close>

theorem in_place_refines:
  assumes "decodes decode"
    and "\<not> cr_disableDeepCopy c" "cr_indexer c (reader_key c key) = Some a" "stored_ma h a = Some ma"
  shows "(\<exists>h1. get_MachineAutoscaler c False key h = (Inr (length h), h1) \<and> in_memory h h1 ma) \<and>
    (\<forall>h2 mb w. in_memory h h2 mb \<longrightarrow>
      stored_ma h2 (length h) = Some mb \<and> stored_ma h2 a = Some ma \<and>
      mirrors h (mem_SetLastTarget env decode (length h) ref (w, h2)) (SetLastTarget env mb ref w) \<and>
      mirrors h (mem_EnsureFinalizer env decode grow (length h) (w, h2)) (EnsureFinalizer env mb w) \<and>
      (\<exists>h3. mem_RemoveFinalizer env decode grow (length h) (w, h2) =
          (fst (RemoveFinalizer env mb w), (snd (RemoveFinalizer env mb w), h3)) \<and>
        stored_ma h3 a = Some ma))"
proof (intro conjI allI impI)
  show "\<exists>h1. get_MachineAutoscaler c False key h = (Inr (length h), h1) \<and> in_memory h h1 ma"
    by (rule read_in_memory [OF assms(2-4)])
  fix h2 mb w assume m: "in_memory h h2 mb"
  then show "stored_ma h2 (length h) = Some mb" by (rule in_memory_stored)
  from m show "stored_ma h2 a = Some ma" using stored_prefix [OF assms(4)] by (simp add: in_memory_def)
  show "mirrors h (mem_SetLastTarget env decode (length h) ref (w, h2)) (SetLastTarget env mb ref w)"
    by (rule SetLastTarget_mirrors [OF assms(1) m])
  show "mirrors h (mem_EnsureFinalizer env decode grow (length h) (w, h2)) (EnsureFinalizer env mb w)"
    by (rule EnsureFinalizer_mirrors [OF assms(1) m])
  show "\<exists>h3. mem_RemoveFinalizer env decode grow (length h) (w, h2) =
      (fst (RemoveFinalizer env mb w), (snd (RemoveFinalizer env mb w), h3)) \<and> stored_ma h3 a = Some ma"
  proof -
    obtain h3 where "mem_RemoveFinalizer env decode grow (length h) (w, h2) =
        (fst (RemoveFinalizer env mb w), (snd (RemoveFinalizer env mb w), h3))" "prefix h h3"
      using RemoveFinalizer_mirrors [OF assms(1) m, of env grow w] by (elim exE conjE)
    then show ?thesis using stored_prefix [OF assms(4)] by simp
  qed
qed

section \<open>A decoder\<close>

text \<open>A decoder that takes new memory for everything the answer refers to.\<close>

definition alloc_opt :: "('a \<Rightarrow> 'c) \<Rightarrow> 'a option \<Rightarrow> ('c store, ptr) act" where
  "alloc_opt i v =
     (case v of None \<Rightarrow> act_return None | Some x \<Rightarrow> act_bind (alloc (i x)) (\<lambda>b. act_return (Some b)))"

fun alloc_owners :: "OwnerReference list \<Rightarrow> (cell store, l_OwnerReference list) act" where
  "alloc_owners [] = act_return []"
| "alloc_owners (x # xs) =
     act_bind (alloc_opt CBool (owr_controller x)) (\<lambda>c.
     act_bind (alloc_opt CBool (owr_blockOwnerDeletion x)) (\<lambda>b.
     act_bind (alloc_owners xs) (\<lambda>ys.
       act_return (\<lparr>lor_apiVersion = owr_apiVersion x, lor_kind = owr_kind x, lor_name = owr_name x,
         lor_uid = owr_uid x, lor_controller = c, lor_blockOwnerDeletion = b\<rparr> # ys))))"

definition whole :: "nat \<Rightarrow> 'a list \<Rightarrow> slice option" where
  "whole b xs = Some \<lparr>sl_base = b, sl_off = 0, sl_len = length xs, sl_cap = length xs\<rparr>"

definition decode_fresh :: decoder where
  "decode_fresh answer m =
     act_bind (alloc_opt CTime (om_deletionTimestamp (ma_meta answer))) (\<lambda>deleted.
     act_bind (alloc_opt CStringMap (om_labels (ma_meta answer))) (\<lambda>labels.
     act_bind (alloc_opt CStringMap (om_annotations (ma_meta answer))) (\<lambda>annotations.
     act_bind (alloc_owners (om_ownerReferences (ma_meta answer))) (\<lambda>owners.
     act_bind (alloc (COwnerReferences owners)) (\<lambda>o1.
     act_bind (alloc (CStrings (om_finalizers (ma_meta answer)))) (\<lambda>f.
     act_bind (alloc_opt CCrossVersionObjectReference (ma_LastTargetRef answer)) (\<lambda>lastRef.
       assign m (CMachineAutoscaler
         \<lparr>lma_TypeMeta = \<lparr>tm_Kind = [], tm_APIVersion = []\<rparr>,
          lma_ObjectMeta = empty_lmeta\<lparr>lom_name := om_name (ma_meta answer), lom_namespace := om_namespace (ma_meta answer),
            lom_uid := om_uid (ma_meta answer), lom_resourceVersion := om_resourceVersion (ma_meta answer),
            lom_generation := om_generation (ma_meta answer), lom_deletionTimestamp := deleted, lom_labels := labels,
            lom_annotations := annotations, lom_ownerReferences := whole o1 owners,
            lom_finalizers := whole f (om_finalizers (ma_meta answer))\<rparr>,
          lma_Spec = \<lparr>msp_MinReplicas = ma_MinReplicas answer, msp_MaxReplicas = ma_MaxReplicas answer,
            msp_ScaleTargetRef = ma_ScaleTargetRef answer\<rparr>,
          lma_Status = \<lparr>lms_LastTargetRef = lastRef\<rparr>\<rparr>))))))))"

text \<open>Steps that began at \<open>hs\<close>; \<open>P\<close> collects what has been built.\<close>

lemma wp_alloc_live:
  assumes "prefix hs h" "n \<le> length hs" "live n h P" "p c = Some x"
    and "\<And>b h'. prefix hs h' \<Longrightarrow> live n h' (\<lambda>h. P h \<and> fetch p h b = Some x) \<Longrightarrow> Q b h'"
  shows "wp (alloc c) Q E h"
proof -
  have "n \<le> length h" using assms(1,2) prefix_length_le le_trans by blast
  then have "live n (h @ [c]) (\<lambda>h'. fetch p h' (length h) = Some x)" using assms(4) by (intro live_fetch) simp_all
  moreover have "live n (h @ [c]) P" by (rule live_prefix [OF assms(3)]) simp
  ultimately have "Q (length h) (h @ [c])" using assms(1) by (intro assms(5)) (simp_all add: live_conj)
  then show ?thesis by (simp add: wp_simps)
qed

lemma wp_alloc_opt:
  assumes "prefix hs h" "n \<le> length hs" "live n h P" "\<And>x. p (i x) = Some x"
    and Q: "\<And>l h'. prefix hs h' \<Longrightarrow> live n h' (\<lambda>h. P h \<and> read_ptr p read_flat h l = Some v) \<Longrightarrow> Q l h'"
  shows "wp (alloc_opt i v) Q E h"
proof (cases v)
  case None
  have "live n h (\<lambda>h. P h \<and> read_ptr p read_flat h None = Some v)"
    using assms(3) by (simp add: None read_ptr_def)
  with Q [OF assms(1)] show ?thesis by (simp add: alloc_opt_def None wp_simps)
next
  case (Some x)
  show ?thesis unfolding alloc_opt_def Some option.case wp_bind
  proof (rule wp_alloc_live [where p = p and x = x, OF assms(1-3)], rule assms(4))
    fix b h' assume h': "prefix hs h'" "live n h' (\<lambda>h. P h \<and> fetch p h b = Some x)"
    have "Q (Some b) h'"
      by (rule Q [OF h'(1)], rule live_mono [OF h'(2)]) (simp add: read_ptr_def read_flat_def Some)
    then show "wp (act_return (Some b)) Q E h'" by (simp add: wp_simps)
  qed
qed

lemma wp_alloc_owners:
  assumes "prefix hs h" "n \<le> length hs" "live n h P"
    and Q: "\<And>ls h'. prefix hs h' \<Longrightarrow> live n h' (\<lambda>h. P h \<and> read_all read_OwnerReference h ls = Some vs) \<Longrightarrow> Q ls h'"
  shows "wp (alloc_owners vs) Q E h"
  using assms(1,3) Q
proof (induction vs arbitrary: h P Q)
  case Nil
  then show ?case by (simp add: wp_simps)
next
  case (Cons x xs)
  show ?case unfolding alloc_owners.simps wp_simps
  proof (rule wp_alloc_opt [OF Cons.prems(1) assms(2) Cons.prems(2), where p = the_Bool])
    fix c h1 assume 1: "prefix hs h1" "live n h1 (\<lambda>h. P h \<and> read_ptr the_Bool read_flat h c = Some (owr_controller x))"
    show "wp (alloc_opt CBool (owr_blockOwnerDeletion x)) (\<lambda>b. wp (alloc_owners xs) (\<lambda>ys. Q (\<lparr>lor_apiVersion = owr_apiVersion x,
        lor_kind = owr_kind x, lor_name = owr_name x, lor_uid = owr_uid x, lor_controller = c, lor_blockOwnerDeletion = b\<rparr> # ys)) E) E h1"
    proof (rule wp_alloc_opt [OF 1(1) assms(2) 1(2), where p = the_Bool])
      fix b h2 assume 2: "prefix hs h2" "live n h2 (\<lambda>h. (P h \<and> read_ptr the_Bool read_flat h c = Some (owr_controller x)) \<and>
          read_ptr the_Bool read_flat h b = Some (owr_blockOwnerDeletion x))"
      show "wp (alloc_owners xs) (\<lambda>ys. Q (\<lparr>lor_apiVersion = owr_apiVersion x, lor_kind = owr_kind x, lor_name = owr_name x,
          lor_uid = owr_uid x, lor_controller = c, lor_blockOwnerDeletion = b\<rparr> # ys)) E h2"
        by (rule Cons.IH [OF 2], rule Cons.prems(3), assumption, erule live_mono)
          (auto simp: read_OwnerReference_def)
    qed simp
  qed simp
qed

lemma read_map_unique:
  assumes "read_ptr the_StringMap read_flat h l = Some v" "unique_keys v"
  shows "read_map the_StringMap h l = Some v"
  using assms(1)
proof (rule read_ptr_Some)
  fix b x w assume "l = Some b" "fetch the_StringMap h b = Some x" "read_flat h x = Some w" "v = Some w"
  with assms(2) show ?thesis by (simp add: read_map_def read_flat_def unique_keys_def)
qed (simp add: read_map_def)

lemma read_whole:
  "fetch p h b = Some xs \<Longrightarrow> read_all rd h xs = Some vs \<Longrightarrow> read_slice p rd h (whole b xs) = Some vs"
  by (simp add: read_slice_def whole_def slice_ok_def window_def)

lemma decode_fresh_reads:
  assumes "well_keyed answer"
    and "read_ptr the_Time read_flat h deleted = Some (om_deletionTimestamp (ma_meta answer))"
    and "read_ptr the_StringMap read_flat h labels = Some (om_labels (ma_meta answer))"
    and "read_ptr the_StringMap read_flat h annotations = Some (om_annotations (ma_meta answer))"
    and "read_all read_OwnerReference h owners = Some (om_ownerReferences (ma_meta answer))"
    and "fetch the_OwnerReferences h o1 = Some owners"
    and "fetch the_Strings h f = Some (om_finalizers (ma_meta answer))"
    and "read_ptr the_CrossVersionObjectReference read_flat h lastRef = Some (ma_LastTargetRef answer)"
  shows "map_option ma_of (read_MachineAutoscaler h
    \<lparr>lma_TypeMeta = \<lparr>tm_Kind = [], tm_APIVersion = []\<rparr>,
     lma_ObjectMeta = empty_lmeta\<lparr>lom_name := om_name (ma_meta answer), lom_namespace := om_namespace (ma_meta answer),
       lom_uid := om_uid (ma_meta answer), lom_resourceVersion := om_resourceVersion (ma_meta answer),
       lom_generation := om_generation (ma_meta answer), lom_deletionTimestamp := deleted, lom_labels := labels,
       lom_annotations := annotations, lom_ownerReferences := whole o1 owners,
       lom_finalizers := whole f (om_finalizers (ma_meta answer))\<rparr>,
     lma_Spec = \<lparr>msp_MinReplicas = ma_MinReplicas answer, msp_MaxReplicas = ma_MaxReplicas answer,
       msp_ScaleTargetRef = ma_ScaleTargetRef answer\<rparr>,
     lma_Status = \<lparr>lms_LastTargetRef = lastRef\<rparr>\<rparr>) = Some answer"
  using assms read_map_unique [OF assms(3)] read_map_unique [OF assms(4)] read_whole [OF assms(6,5)]
    read_whole [OF assms(7), of read_flat "om_finalizers (ma_meta answer)"]
  by (simp add: read_MachineAutoscaler_def read_ObjectMeta_def read_MachineAutoscalerStatus_def empty_lmeta_def
      well_keyed_def ma_of_def ObjectMeta.truncate_def read_ptr_def [of _ _ _ None])

lemma decodes_fresh: "decodes decode_fresh"
  unfolding decodes_def
proof (intro allI impI)
  fix h0 h ma answer assume m: "in_memory h0 h ma"
  let ?m = "length h0"
  have pre: "prefix h0 h" and len: "?m < length h" using m by (auto elim: in_memoryD)
  then have n: "Suc ?m \<le> length h" by simp
  have "wp (decode_fresh answer ?m) (\<lambda>_ h'. prefix h0 h' \<and> (well_keyed answer \<longrightarrow> in_memory h0 h' answer)) (\<lambda>_ _. False) h"
    unfolding decode_fresh_def wp_bind
  proof (rule wp_alloc_opt [OF prefix_order.refl n live_true, where p = the_Time], simp,
      rule wp_alloc_opt [OF _ n, where p = the_StringMap], assumption, assumption, simp,
      rule wp_alloc_opt [OF _ n, where p = the_StringMap], assumption, assumption, simp,
      rule wp_alloc_owners [OF _ n], assumption, assumption,
      rule wp_alloc_live [OF _ n, where p = the_OwnerReferences], assumption, assumption, simp,
      rule wp_alloc_live [OF _ n, where p = the_Strings], assumption, assumption, simp,
      rule wp_alloc_opt [OF _ n, where p = the_CrossVersionObjectReference], assumption, assumption, simp, unfold wp_assign)
    fix deleted labels annotations o1 f lastRef h' and owners :: "l_OwnerReference list"
    let ?l = "\<lparr>lma_TypeMeta = \<lparr>tm_Kind = [], tm_APIVersion = []\<rparr>,
      lma_ObjectMeta = empty_lmeta\<lparr>lom_name := om_name (ma_meta answer), lom_namespace := om_namespace (ma_meta answer),
        lom_uid := om_uid (ma_meta answer), lom_resourceVersion := om_resourceVersion (ma_meta answer),
        lom_generation := om_generation (ma_meta answer), lom_deletionTimestamp := deleted, lom_labels := labels,
        lom_annotations := annotations, lom_ownerReferences := whole o1 owners,
        lom_finalizers := whole f (om_finalizers (ma_meta answer))\<rparr>,
      lma_Spec = \<lparr>msp_MinReplicas = ma_MinReplicas answer, msp_MaxReplicas = ma_MaxReplicas answer,
        msp_ScaleTargetRef = ma_ScaleTargetRef answer\<rparr>,
      lma_Status = \<lparr>lms_LastTargetRef = lastRef\<rparr>\<rparr>"
    assume h': "prefix h h'"
    assume "live (Suc ?m) h' (\<lambda>h. ((((((True \<and>
        read_ptr the_Time read_flat h deleted = Some (om_deletionTimestamp (ma_meta answer))) \<and>
        read_ptr the_StringMap read_flat h labels = Some (om_labels (ma_meta answer))) \<and>
        read_ptr the_StringMap read_flat h annotations = Some (om_annotations (ma_meta answer))) \<and>
        read_all read_OwnerReference h owners = Some (om_ownerReferences (ma_meta answer))) \<and>
        fetch the_OwnerReferences h o1 = Some owners) \<and>
        fetch the_Strings h f = Some (om_finalizers (ma_meta answer))) \<and>
        read_ptr the_CrossVersionObjectReference read_flat h lastRef = Some (ma_LastTargetRef answer))"
    then have lv: "live (Suc ?m) h' (\<lambda>h2. map_option ma_of (read_MachineAutoscaler h2 ?l) = Some answer)" if "well_keyed answer"
      by (rule live_mono) (elim conjE, rule decode_fresh_reads [OF that])
    note w = owned_write [OF live_true pre len h', where c = "CMachineAutoscaler ?l"]
    have "in_memory h0 (h'[?m := CMachineAutoscaler ?l]) answer" if wk: "well_keyed answer"
      unfolding in_memory_def owned_def
    proof (intro conjI exI [of _ ?l])
      show "live (Suc ?m) (h'[?m := CMachineAutoscaler ?l]) (\<lambda>h2. map_option ma_of (read_MachineAutoscaler h2 ?l) = Some answer)"
        by (rule live_update [OF lv [OF wk]]) simp
      show "fetch the_MachineAutoscaler (h'[?m := CMachineAutoscaler ?l]) ?m = Some ?l" by (simp add: w(3))
      show "own_finalizers ?m (h'[?m := CMachineAutoscaler ?l]) ?l answer" by (simp add: own_finalizers_def whole_def)
    qed (rule w(1))
    with w(1) show "prefix h0 (h'[?m := CMachineAutoscaler ?l]) \<and>
        (well_keyed answer \<longrightarrow> in_memory h0 (h'[?m := CMachineAutoscaler ?l]) answer)" by blast
  qed
  then show "\<exists>h'. decode_fresh answer ?m h = (Inr (), h') \<and> prefix h0 h' \<and> (well_keyed answer \<longrightarrow> in_memory h0 h' answer)"
    by (auto simp: wp_def split: prod.splits sum.splits)
qed

text \<open>
  The witness: the cached object has one finalizer in an array with room for two, the copy an array
  of its own; the finalizer is appended, sent, and the answer decoded.
\<close>

definition memory_world :: fake_world where
  "memory_world = \<lparr>fw_mas = [example_request \<mapsto> example_ma], fw_targets = Map.empty, fw_events = []\<rparr>"

lemma memory_run:
  obtains ma' w' where "EnsureFinalizer fake_env example_ma memory_world = (Inr ma', w')"
    "fw_mas w' example_request = Some ma'" "ma_GetFinalizers ma' = [''f'', MachineTargetFinalizer]" "well_keyed ma'"
proof -
  have "case EnsureFinalizer fake_env example_ma memory_world of
      (Inl e, w') \<Rightarrow> False
    | (Inr ma', w') \<Rightarrow> fw_mas w' example_request = Some ma' \<and>
        ma_GetFinalizers ma' = [''f'', MachineTargetFinalizer] \<and> well_keyed ma'" by code_simp
  then show ?thesis using that by (auto split: prod.splits sum.splits)
qed

theorem in_place_refines_witness:
  "\<exists>h1 h3 ma' w'. get_MachineAutoscaler (example_reader False) False example_request cache_store = (Inr 3, h1) \<and>
    mem_EnsureFinalizer fake_env decode_fresh (\<lambda>n. 2 * n) 3 (memory_world, h1) = (Inr (), (w', h3)) \<and>
    fw_mas w' example_request = Some ma' \<and> ma_GetFinalizers ma' = [''f'', MachineTargetFinalizer] \<and>
    stored_ma h3 3 = Some ma' \<and> stored_ma h3 2 = Some example_ma"
proof -
  have len: "length cache_store = 3" by (simp add: cache_store_def)
  have "\<not> cr_disableDeepCopy (example_reader False)" by (simp add: example_reader_def)
  note refines = in_place_refines [OF decodes_fresh this example_reader_key example_ma_stored, unfolded len,
      where env = fake_env and grow = "\<lambda>n. 2 * n" and ref = undefined]
  obtain h1 where h1: "get_MachineAutoscaler (example_reader False) False example_request cache_store = (Inr 3, h1)"
    "in_memory cache_store h1 example_ma" using conjunct1 [OF refines] by blast
  obtain ma' w' where val: "EnsureFinalizer fake_env example_ma memory_world = (Inr ma', w')"
    "fw_mas w' example_request = Some ma'" "ma_GetFinalizers ma' = [''f'', MachineTargetFinalizer]" "well_keyed ma'"
    by (rule memory_run)
  have mem: "mirrors cache_store (mem_EnsureFinalizer fake_env decode_fresh (\<lambda>n. 2 * n) 3 (memory_world, h1))
      (EnsureFinalizer fake_env example_ma memory_world)" using conjunct2 [OF refines] h1(2) by blast
  then obtain h3 where "mem_EnsureFinalizer fake_env decode_fresh (\<lambda>n. 2 * n) 3 (memory_world, h1) = (Inr (), (w', h3))"
    "in_memory cache_store h3 ma'" using val(1,4) by (auto simp: mirrors_def)
  moreover from this have "stored_ma h3 3 = Some ma' \<and> stored_ma h3 2 = Some example_ma"
    using conjunct2 [OF refines] by blast
  ultimately show ?thesis using h1(1) val(2,3) by blast
qed

end
