(* ===== verification/Spec2Isabelle.thy ===== *)
theory Spec2Isabelle
  imports MA_Loop MA_Target_Properties CA_Watches Op_Status_Properties Op_Properties Op_Start Op_Version MA_Memory
begin

text \<open>
  The cluster-autoscaler-operator runs the cluster autoscaler on OpenShift.  One process holds

  \<^item> the ClusterAutoscaler controller (\<open>pkg/controller/clusterautoscaler\<close>), which turns the one resource
    of its configured name into a deployment of the autoscaler with its service, monitoring, alerting
    rules and network policies;
  \<^item> the MachineAutoscaler controller (\<open>pkg/controller/machineautoscaler\<close>), which turns every resource
    into annotations on the machine set it names, and keeps a finalizer until they are removed;
  \<^item> the validating webhooks of both resources, and the updater of their configuration;
  \<^item> the status reporter (\<open>pkg/operator/status.go\<close>), which reports all of it to the cluster version
    operator in a ClusterOperator;
  \<^item> the assembly (\<open>pkg/operator/operator.go\<close>, \<open>config.go\<close>, \<open>webhookconfig.go\<close>, \<open>pkg/util\<close>), which reads
    the configuration, configures the parts from it and starts them.

  The parts share no memory.  They meet at the API server: the controllers write what the reporter reads,
  and a write makes the watches of the controllers ask for the next run.

  \<^bold>\<open>How the code is modelled.\<close>  A Go function without effects is a HOL function; one that can
  fail returns \<open>go_error + 'a\<close>, with a datatype of errors that keeps their wrapping; one that talks to
  the API server is an action \<open>'w \<Rightarrow> (go_error + 'a) \<times> 'w\<close> on a world of unspecified type.  A panic is the
  error \<open>GoPanic\<close>, which every handler passes on.  The collaborators of a component (clients,
  recorder, clock, iteration order of maps) are the fields of one record per component (\<open>ma_env\<close>,
  \<open>ca_env\<close>, \<open>sr_env\<close>, \<open>op_env\<close>, \<open>mgr_env\<close>, \<open>new_env\<close>), and their documented behaviour is a locale: \<open>object_store\<close> and
  \<open>object_deletion\<close> for the client of one kind of object, \<open>ma_cluster\<close>, \<open>ca_cluster\<close>, \<open>status_cluster\<close> and
  \<open>webhook_cluster\<close> for what a component relies on as a whole.  A write that fails may or may not have
  reached the server.  Each locale is interpreted on the model of controller-runtime's fake client,
  against which the witnesses run the code.  Effects are reasoned about with weakest preconditions
  (\<open>wp\<close>, rules in \<open>wp_simps\<close>).  Words of 32 and 64 bits and the wrap-around of \<open>int\<close> are kept where the
  code computes with them.

  \<^bold>\<open>The theories.\<close>

  Foundations, in the order of their imports:
  \<^item> \<open>CAO_Prelude\<close>: errors, fallible results, actions on a world, weakest preconditions;
  \<^item> \<open>Go_Strings\<close>, \<open>Go_Float\<close>, \<open>Go_Regexp\<close>, \<open>Go_Semver\<close>: what the source uses of \<open>strings\<close> and \<open>strconv\<close>,
    of floating point and durations, of regular expressions, and of the vendored \<open>blang/semver\<close>;
  \<^item> \<open>Kube_Meta\<close>, \<open>Kube_Client\<close>, \<open>Kube_Objects\<close>, \<open>Kube_Quantity\<close>: object metadata and unstructured objects,
    the client interface and the fake client, \<open>controllerutil\<close>, and quantities;
  \<^item> \<open>Kube_Watch\<close>, \<open>Kube_Manager\<close>: of controller-runtime, the way from an event to requests, and the
    manager with its scheme, its controllers and their sources;
  \<^item> \<open>Go_Store\<close>: memory as a store of cells with pointers, slices and maps, and the contract of a deep
    copy over it, proved per way of building a type.

  Components:
  \<^item> \<open>CAO_Util\<close>: \<open>pkg/util/util.go\<close>, \<open>validator.go\<close>, \<open>units.go\<close>;
  \<^item> \<open>MA_Target\<close>: \<open>machinetarget.go\<close>; \<open>MA_Types\<close>: the resource and its \<open>validator.go\<close>; \<open>MA_Reconciler\<close>:
    \<open>machineautoscaler_controller.go\<close>, the definitions; \<open>MA_Cluster\<close>: its contract and the weakest
    preconditions of its steps; \<open>MA_Properties\<close> and \<open>MA_Target_Properties\<close>: the properties;
    \<open>MA_Watches\<close>: its \<open>AddToManager\<close>; \<open>MA_System\<close>: runs for any MachineAutoscalers in any order, as a step
    relation; \<open>MA_Loop\<close>: the loop of the controller of controller-runtime over the runs and the requests
    they lead to;
  \<^item> \<open>CA_Types\<close>: the resource and \<open>Config\<close>; \<open>CA_Args\<close>: \<open>clusterautoscaler.go\<close>, the command line;
    \<open>CA_Validator\<close>: \<open>validator.go\<close>; \<open>CA_Workload\<close>: the deployment and the objects of \<open>monitoring.go\<close>;
    \<open>CA_NetworkPolicies\<close>: \<open>networkpolicies.go\<close>; \<open>CA_Reconciler\<close>, \<open>CA_Cluster\<close>, \<open>CA_Properties\<close>: the
    controller, as above; \<open>CA_Watches\<close>: its \<open>AddToManager\<close>, and what its watches notice;
  \<^item> \<open>Op_Config\<close>: \<open>pkg/operator/config.go\<close>; \<open>Op_Status\<close>: \<open>status.go\<close>, the definitions; \<open>Op_Reporter\<close>: its
    contract and \<open>ApplyStatus\<close>; \<open>Op_Report\<close>: the report as an observation followed by a decision, and
    sequences of reports; \<open>Op_Worker\<close>: the worker on client-go's work queue, as a step relation, with
    the loops of \<open>Start\<close> and \<open>runWorker\<close>;
    \<open>Op_Status_Properties\<close>: the properties;
  \<^item> \<open>Op_Operator\<close>: the configurations handed to the parts and the related objects of \<open>operator.go\<close>;
    \<open>Op_Webhooks\<close>: \<open>webhookconfig.go\<close>; \<open>Op_Startup\<close>: \<open>leaderelection.go\<close> and \<open>tlsprofile.go\<close> with the
    vendored functions they call; \<open>Op_Properties\<close>: the properties of the assembly;
  \<^item> \<open>Op_FeatureGates\<close>: the accessor of the feature gates and the wait for it; \<open>Op_New\<close>: \<open>New\<close>,
    \<open>AddControllers\<close>, \<open>AddWebhooks\<close>, the schemes of \<open>pkg/apis\<close> and \<open>main\<close>; \<open>Op_Start\<close>: what a start comes to;
    \<open>Op_Version\<close>: \<open>pkg/version/version.go\<close>;
  \<^item> \<open>API_Memory\<close>: the API types as they lie in memory, and the cells of the store; \<open>API_DeepCopy\<close>: both
    \<open>zz_generated.deepcopy.go\<close> with the functions of \<open>metav1\<close> they call; \<open>API_DeepCopy_Properties\<close>: the
    contract of each; \<open>Kube_Cache\<close>: the reader of the manager's cache, over the locale \<open>cached_kind\<close>;
    \<open>MA_Memory\<close>: \<open>SetLastTarget\<close>, \<open>EnsureFinalizer\<close> and \<open>RemoveFinalizer\<close> on an object in memory.

  \<^bold>\<open>What the theorems show.\<close>

  \<^item> MachineAutoscaler.  For one that is live, a run that returns no error has stored the finalizer and
    configured exactly its own target (\<open>reconcile_success\<close>), and a second run writes nothing
    (\<open>reconcile_converges\<close>); where its target has not changed, a run, whatever it returns, writes no
    target that someone else owns (\<open>reconcile_ownership\<close>) and panics only at a malformed GPU annotation
    (\<open>reconcile_panic\<close>); where it has changed, the previous one is stripped first (\<open>target_change\<close>).  A
    change of the target and a deletion strip the previous or current target whoever owns it.  A run for one
    that is being deleted drops the finalizer only when the target is stripped (\<open>delete_order\<close>,
    \<open>delete_success\<close>), and never does while the reference is not valid (\<open>delete_unsupported_stuck\<close>).
    What is refused (\<open>reconcile_invalid\<close>); the operations on targets (types, round trips, bounds,
    ownership) and the validator, on every input.
  \<^item> MachineAutoscalers together: one that is settled stays so through any interleaving, as long as no
    other one that names its target is deleted or moved away from it (\<open>no_interference\<close>, by induction on
    \<open>ma_run\<close>); where all are live and none shares a target, the loop of the controller comes to rest unless runs
    keep failing, with all that were asked for settled (\<open>control_loop_rests\<close>).
  \<^item> ClusterAutoscaler: a run for a live one that returns no error leaves every object as specified
    (\<open>ca_reconcile_success\<close>), any run writes only objects of its own names (\<open>ca_reconcile_frame\<close>);
    after a run that found only objects it controls, or none, every event about a managed object makes it run
    again (\<open>ca_self_healing\<close>), but not so for an object it found without an owner
    (\<open>unadopted_unwatched\<close>); the command line realises the table \<open>args_told\<close>; the network policies permit exactly the listed
    connections; the validator admits exactly the resources of a declarative predicate.
  \<^item> Status reporter: \<open>report_refines\<close> refines a report to a verdict about the cluster; the counter of
    failures is a function of the verdicts of any sequence of reports (\<open>degraded_counter\<close>,
    \<open>degraded_reported\<close>, by induction on the step relation \<open>reports\<close>); the worker loses no request
    in any interleaving (\<open>worker_loses_nothing\<close>, on the relation \<open>worker_run\<close>); applying a status twice
    writes once (\<open>apply_stable\<close>); \<open>premature_version\<close> is a consequence the comments exclude.
  \<^item> Assembly: every field of the configuration (\<open>config_fields\<close>, \<open>config_error\<close>); the deployment the
    controller leaves is the one the reporter checks (\<open>reconciled_is_reported\<close>); the related objects as a
    set (\<open>related_objects\<close>), whose order is not determined (\<open>related_list_mset\<close>); the webhook configuration
    (\<open>webhook_start\<close>); when a change of the TLS policy restarts the operator (\<open>tls_restart\<close>).
  \<^item> Start: \<open>New\<close> fails with the first step that fails and otherwise registers exactly the controllers,
    watches, webhooks and runnables (\<open>startup_exact\<close>); the feature gates of a running operator are those
    it started with (\<open>gates_fixed\<close>), and there is no start without a release version
    (\<open>missing_release_version\<close>); which version strings stop the process before \<open>main\<close>
    (\<open>version_startup\<close>).
  \<^item> Memory: a deep copy reads as the original and shares nothing with it (\<open>ca_deep_copy\<close>, and
    \<open>ma_list_deep_copy\<close> for lists), so that what a reconciler does to an object it has read does not reach
    the cache, nor the other way round (\<open>cache_isolated\<close>); without the copy it does
    (\<open>unsafe_get_shares\<close>).  The three steps of the MachineAutoscaler reconciler that write to an object in
    place, send it and have the server's answer decoded into it mirror the steps of the model on values
    (\<open>in_place_refines\<close>); of the decoder it is assumed that it fills an object of the caller's own with the
    answer (\<open>decodes\<close>).  This is what lets every other theory treat an object as a value.

  \<^bold>\<open>Bounds.\<close>  Loops of the code are structural recursions; the one that is not, over the units of a
  duration, has a termination proof.  The loop of the MachineAutoscaler controller, whose queue may
  grow and to which the request of a failed run returns, is the relation \<open>control_loop\<close>, which counts the
  runs and the failures: \<open>control_loop_rests\<close> bounds the runs by one for each request queued at the
  start, seven for each MachineAutoscaler and eight for each failure.  A run that succeeds and changes
  something settles a MachineAutoscaler and leads to at most seven requests, one for its own object and
  three for each of the two targets it can touch, and one that settles nothing leads to none; a run that
  fails leads to as many and to its own again.  The loop of the worker does not end: its theorems hold in
  every state reachable in finitely many steps.

  \<^bold>\<open>Not modelled.\<close>  The construction of clients, informers and the manager, and the running of its
  runnables, which only calls controller-runtime and client-go: their answers are fields of
  \<open>new_env\<close>.  The delays, the shutdown and the metrics of the work queues, and the priorities of
  requests.  The kinds of the meta group in a scheme.  The deep copies of the types of other
  packages, and reads of lists through the cache.  Logging and the parsing of its flags.  Of the API server only the contracts above are
  assumed: no order of events, and no other writer within one run of a reconciler.
  \<open>control_loop\<close> queues the requests of a run's changes as soon as the run is over, takes the requests
  in any order, and assumes that a failed run finds the MachineAutoscalers live and apart afterwards.
  The function that turns a TLS profile into a configuration of \<open>crypto/tls\<close> is a total parameter;
  the vendored one panics at a minimum version that is none of the enumeration of the API.
\<close>

end
